(* ===== verification/Js_Prelude.thy ===== *)
theory Js_Prelude
  imports Main "HOL-Library.AList" "HOL-Library.Multiset" "HOL-Library.Signed_Division"
begin

text \<open>
  What the TypeScript code uses of its language, shared by every component:
  errors (\<open>throw new Error(msg)\<close> is \<open>Inl msg\<close>), methods that mutate an object and may
  throw half way (\<open>act\<close>: the state after the throw is part of the result), insertion-ordered
  \<open>Map\<close> and \<open>Set\<close>, \<open>Array.prototype.sort\<close> with a comparator, and number
  printing in a base. BigInt division truncates towards zero and is \<open>sdiv\<close> of the library.
\<close>

named_theorems js_simps \<open>equations of the error and state combinators\<close>
named_theorems js_sets \<open>equations of insertion-ordered maps and sets\<close>

subsection \<open>Errors\<close>

type_synonym 'a result = "string + 'a"

abbreviation throw :: "string \<Rightarrow> 'a result" where
  "throw e \<equiv> Inl e"

definition bindE :: "'a result \<Rightarrow> ('a \<Rightarrow> 'b result) \<Rightarrow> 'b result" where
  "bindE r f = (case r of Inl e \<Rightarrow> Inl e | Inr a \<Rightarrow> f a)"

lemma bindE_simps [js_simps, simp]:
  "bindE (Inl e) f = Inl e"
  "bindE (Inr a) f = f a"
  by (simp_all add: bindE_def)

lemma bindE_Inr_iff [js_simps]: "bindE r f = Inr b \<longleftrightarrow> (\<exists>a. r = Inr a \<and> f a = Inr b)"
  by (cases r) auto

lemma bindE_Inl_iff: "bindE r f = Inl e \<longleftrightarrow> r = Inl e \<or> (\<exists>a. r = Inr a \<and> f a = Inl e)"
  by (cases r) auto

fun mapE :: "('a \<Rightarrow> 'b result) \<Rightarrow> 'a list \<Rightarrow> 'b list result" where
  "mapE f [] = Inr []"
| "mapE f (x # xs) = bindE (f x) (\<lambda>y. bindE (mapE f xs) (\<lambda>ys. Inr (y # ys)))"

lemma mapE_Inr_iff: "mapE f xs = Inr ys \<longleftrightarrow> list_all2 (\<lambda>x y. f x = Inr y) xs ys"
  by (induction xs arbitrary: ys) (auto simp: bindE_Inr_iff list_all2_Cons1)

lemma mapE_length: "mapE f xs = Inr ys \<Longrightarrow> length ys = length xs"
  by (auto simp: mapE_Inr_iff dest: list_all2_lengthD)

lemma mapE_total: "(\<And>x. x \<in> set xs \<Longrightarrow> f x = Inr (g x)) \<Longrightarrow> mapE f xs = Inr (map g xs)"
  by (induction xs) auto

lemma mapE_Inl_iff: "(\<exists>e. mapE f xs = Inl e) \<longleftrightarrow> (\<exists>x\<in>set xs. \<exists>e. f x = Inl e)"
  by (induction xs) (auto simp: bindE_Inl_iff, (metis sum.exhaust)+)

text \<open>\<open>if (bad) throw new Error(e)\<close> in a function, and a function body as the list of its checks.\<close>

definition failIf :: "bool \<Rightarrow> string \<Rightarrow> unit result" where
  "failIf bad e = (if bad then throw e else Inr ())"

lemma failIf_simps [js_simps, simp]: "failIf bad e = Inr u \<longleftrightarrow> \<not> bad" "failIf bad e = Inl e' \<longleftrightarrow> bad \<and> e' = e"
  by (auto simp: failIf_def)

primrec checksE :: "unit result list \<Rightarrow> unit result" where
  "checksE [] = Inr ()"
| "checksE (r # rs) = bindE r (\<lambda>_. checksE rs)"

lemma checksE_Inr [js_simps]: "checksE rs = Inr u \<longleftrightarrow> (\<forall>r\<in>set rs. r = Inr ())"
  by (induction rs) (auto simp: bindE_Inr_iff)

fun eachE :: "('a \<Rightarrow> unit result) \<Rightarrow> 'a list \<Rightarrow> unit result" where
  "eachE f [] = Inr ()"
| "eachE f (x # xs) = bindE (f x) (\<lambda>_. eachE f xs)"

lemma eachE_Inr_iff: "eachE f xs = Inr u \<longleftrightarrow> (\<forall>x\<in>set xs. f x = Inr ())"
  by (induction xs) (auto simp: bindE_Inr_iff)

subsection \<open>Methods that mutate and may throw\<close>

type_synonym ('s, 'a) act = "'s \<Rightarrow> 'a result \<times> 's"

definition throwA :: "string \<Rightarrow> ('s, 'a) act" where
  "throwA e s = (Inl e, s)"

definition returnA :: "'a \<Rightarrow> ('s, 'a) act" where
  "returnA a s = (Inr a, s)"

definition modifyA :: "('s \<Rightarrow> 's) \<Rightarrow> ('s, unit) act" where
  "modifyA f s = (Inr (), f s)"

definition bindA :: "('s, 'a) act \<Rightarrow> ('a \<Rightarrow> ('s, 'b) act) \<Rightarrow> ('s, 'b) act" where
  "bindA m f s = (case m s of (Inl e, t) \<Rightarrow> (Inl e, t) | (Inr a, t) \<Rightarrow> f a t)"

definition seqA :: "('s, 'a) act \<Rightarrow> ('s, 'b) act \<Rightarrow> ('s, 'b) act" where
  "seqA m n = bindA m (\<lambda>_. n)"

definition liftA :: "('s \<Rightarrow> 'a result) \<Rightarrow> ('s, 'a) act" where
  "liftA f s = (f s, s)"

fun eachA :: "('a \<Rightarrow> ('s, unit) act) \<Rightarrow> 'a list \<Rightarrow> ('s, unit) act" where
  "eachA f [] = returnA ()"
| "eachA f (x # xs) = seqA (f x) (eachA f xs)"

text \<open>\<open>if (bad) throw new Error(e)\<close>, and a method body as the list of its statements.\<close>

definition guardA :: "('s \<Rightarrow> bool) \<Rightarrow> string \<Rightarrow> ('s, unit) act" where
  "guardA bad e s = (if bad s then (Inl e, s) else (Inr (), s))"

primrec stepsA :: "('s, unit) act list \<Rightarrow> ('s, unit) act" where
  "stepsA [] = returnA ()"
| "stepsA (m # ms) = seqA m (stepsA ms)"

lemma stepsA_run [js_simps]:
  "stepsA [] s = (Inr (), s)"
  "stepsA (guardA b e # ms) s = (if b s then (Inl e, s) else stepsA ms s)"
  "stepsA (modifyA g # ms) s = stepsA ms (g s)"
  "stepsA (liftA f # ms) s = (case f s of Inl e \<Rightarrow> (Inl e, s) | Inr _ \<Rightarrow> stepsA ms s)"
  by (auto simp: guardA_def modifyA_def liftA_def returnA_def seqA_def bindA_def split: sum.splits)

lemma stepsA_append: "stepsA (ms @ ns) = seqA (stepsA ms) (stepsA ns)"
proof
  fix s show "stepsA (ms @ ns) s = seqA (stepsA ms) (stepsA ns) s"
    by (induction ms arbitrary: s)
      (auto simp: seqA_def bindA_def returnA_def split: prod.splits sum.splits)
qed

lemma act_simps [js_simps]:
  "throwA e s = (Inl e, s)"
  "returnA a s = (Inr a, s)"
  "modifyA g s = (Inr (), g s)"
  "liftA h s = (h s, s)"
  by (simp_all add: throwA_def returnA_def modifyA_def liftA_def)

lemma bindA_Inr_iff:
  "bindA m f s = (Inr b, u) \<longleftrightarrow> (\<exists>a t. m s = (Inr a, t) \<and> f a t = (Inr b, u))"
  by (auto simp: bindA_def split: prod.splits sum.splits)

lemma seqA_Inr_iff:
  "seqA m n s = (Inr b, u) \<longleftrightarrow> (\<exists>a t. m s = (Inr a, t) \<and> n t = (Inr b, u))"
  by (simp add: seqA_def bindA_Inr_iff)

lemma seqA_step [js_simps]:
  "m s = (Inr a, t) \<Longrightarrow> seqA m n s = n t"
  "m s = (Inl e, t) \<Longrightarrow> seqA m n s = (Inl e, t)"
  by (simp_all add: seqA_def bindA_def)

lemma bindA_step [js_simps]:
  "m s = (Inr a, t) \<Longrightarrow> bindA m f s = f a t"
  "m s = (Inl e, t) \<Longrightarrow> bindA m f s = (Inl e, t)"
  by (simp_all add: bindA_def)

text \<open>
  A predicate on states that an action keeps, whether it returns or throws. The invariants of
  the stores are proved operation by operation in this form and composed with the rules below.
\<close>

definition keeps :: "('s \<Rightarrow> bool) \<Rightarrow> ('s, 'a) act \<Rightarrow> bool" where
  "keeps P m \<longleftrightarrow> (\<forall>s. P s \<longrightarrow> P (snd (m s)))"

lemma keepsI: "(\<And>s. P s \<Longrightarrow> P (snd (m s))) \<Longrightarrow> keeps P m"
  by (simp add: keeps_def)

lemma keepsD: "keeps P m \<Longrightarrow> P s \<Longrightarrow> P (snd (m s))"
  by (simp add: keeps_def)

lemma keeps_throw [intro, simp]: "keeps P (throwA e)"
  and keeps_return [intro, simp]: "keeps P (returnA a)"
  and keeps_lift [intro, simp]: "keeps P (liftA f)"
  by (simp_all add: keeps_def throwA_def returnA_def liftA_def)

lemma keeps_modify: "(\<And>s. P s \<Longrightarrow> P (f s)) \<Longrightarrow> keeps P (modifyA f)"
  by (simp add: keeps_def modifyA_def)

lemma keeps_bind: "keeps P m \<Longrightarrow> (\<And>a. keeps P (f a)) \<Longrightarrow> keeps P (bindA m f)"
  unfolding keeps_def bindA_def
  by (fastforce split: prod.splits sum.splits)

lemma keeps_seq: "keeps P m \<Longrightarrow> keeps P n \<Longrightarrow> keeps P (seqA m n)"
  by (simp add: seqA_def keeps_bind)

lemma keeps_each: "(\<And>x. x \<in> set xs \<Longrightarrow> keeps P (f x)) \<Longrightarrow> keeps P (eachA f xs)"
  by (induction xs) (auto intro: keeps_seq)

lemma keeps_guard [intro, simp]: "keeps P (guardA b e)"
  by (simp add: keeps_def guardA_def)

lemma keeps_steps: "(\<And>m. m \<in> set ms \<Longrightarrow> keeps P m) \<Longrightarrow> keeps P (stepsA ms)"
  by (induction ms) (auto intro: keeps_seq)

lemma keeps_conj: "keeps P m \<Longrightarrow> keeps Q m \<Longrightarrow> keeps (\<lambda>s. P s \<and> Q s) m"
  by (simp add: keeps_def)

lemma keeps_if [intro]:
  "(b \<Longrightarrow> keeps P m) \<Longrightarrow> (\<not> b \<Longrightarrow> keeps P n) \<Longrightarrow> keeps P (if b then m else n)"
  by simp

text \<open>
  \<open>frames v m\<close>: the action leaves the part \<open>v\<close> of the state alone. \<open>ensures P m Q R\<close>: from \<open>P\<close> it
  ends in \<open>Q\<close> when it returns and in \<open>R\<close> when it throws.
\<close>

definition frames :: "('s \<Rightarrow> 'v) \<Rightarrow> ('s, 'a) act \<Rightarrow> bool" where
  "frames v m \<longleftrightarrow> (\<forall>s. v (snd (m s)) = v s)"

definition ensures :: "('s \<Rightarrow> bool) \<Rightarrow> ('s, 'a) act \<Rightarrow> ('s \<Rightarrow> bool) \<Rightarrow> ('s \<Rightarrow> bool) \<Rightarrow> bool" where
  "ensures P m Q R \<longleftrightarrow> (\<forall>s. P s \<longrightarrow> (case m s of (Inr _, t) \<Rightarrow> Q t | (Inl _, t) \<Rightarrow> R t))"

lemma framesD: "frames v m \<Longrightarrow> v (snd (m s)) = v s"
  by (simp add: frames_def)

lemma frames_throw [intro, simp]: "frames v (throwA e)"
  and frames_return [intro, simp]: "frames v (returnA a)"
  and frames_lift [intro, simp]: "frames v (liftA f)"
  and frames_guard [intro, simp]: "frames v (guardA b e)"
  by (simp_all add: frames_def js_simps guardA_def)

lemma frames_modify [simp]: "frames v (modifyA f) \<longleftrightarrow> (\<forall>s. v (f s) = v s)"
  by (simp add: frames_def modifyA_def)

lemma frames_seq: "frames v m \<Longrightarrow> frames v n \<Longrightarrow> frames v (seqA m n)"
  by (auto simp: frames_def seqA_def bindA_def split: prod.splits sum.splits) (metis snd_conv)+

lemma frames_steps: "(\<And>m. m \<in> set ms \<Longrightarrow> frames v m) \<Longrightarrow> frames v (stepsA ms)"
  by (induction ms) (auto intro: frames_seq)

lemma frames_each: "(\<And>x. frames v (f x)) \<Longrightarrow> frames v (eachA f xs)"
  by (induction xs) (auto intro: frames_seq)

lemma frames_keeps: "frames v m \<Longrightarrow> keeps (\<lambda>s. P (v s)) m"
  by (simp add: frames_def keeps_def)

lemma ensuresI: "(\<And>s. P s \<Longrightarrow> case m s of (Inr _, t) \<Rightarrow> Q t | (Inl _, t) \<Rightarrow> R t) \<Longrightarrow> ensures P m Q R"
  by (simp add: ensures_def)

lemma ensures_keeps: "ensures P m P P \<longleftrightarrow> keeps P m"
  by (auto simp: ensures_def keeps_def split: prod.splits sum.splits) (metis old.sum.exhaust prod.collapse)+

lemma ensures_seq: "ensures P m Q R \<Longrightarrow> ensures Q n S R \<Longrightarrow> ensures P (seqA m n) S R"
  by (fastforce simp: ensures_def seqA_def bindA_def split: prod.splits sum.splits)

lemma ensures_guard: "(\<And>s. P s \<Longrightarrow> b s \<Longrightarrow> R s) \<Longrightarrow> ensures P (guardA b e) (\<lambda>s. P s \<and> \<not> b s) R"
  by (simp add: ensures_def guardA_def)

lemma ensures_modify: "(\<And>s. P s \<Longrightarrow> Q (f s)) \<Longrightarrow> ensures P (modifyA f) Q R"
  by (simp add: ensures_def modifyA_def)

lemma ensures_frame: "frames v m \<Longrightarrow> (\<And>s. P (v s) \<Longrightarrow> R s) \<Longrightarrow> ensures (\<lambda>s. P (v s)) m (\<lambda>s. P (v s)) R"
  by (auto simp: ensures_def frames_def split: prod.splits sum.splits) (metis snd_conv)+

lemma ensures_weaken: "ensures P m Q R \<Longrightarrow> (\<And>s. P' s \<Longrightarrow> P s) \<Longrightarrow> (\<And>s. Q s \<Longrightarrow> Q' s) \<Longrightarrow>
    (\<And>s. R s \<Longrightarrow> R' s) \<Longrightarrow> ensures P' m Q' R'"
  by (fastforce simp: ensures_def split: prod.splits sum.splits)

lemma ensures_return: "(\<And>s. P s \<Longrightarrow> Q s) \<Longrightarrow> ensures P (returnA a) Q R"
  by (simp add: ensures_def returnA_def)

lemma ensures_steps_Cons: "ensures P m Q R \<Longrightarrow> ensures Q (stepsA ms) S R \<Longrightarrow> ensures P (stepsA (m # ms)) S R"
  by (simp add: ensures_seq)

lemma ensures_steps_Nil: "(\<And>s. P s \<Longrightarrow> Q s) \<Longrightarrow> ensures P (stepsA []) Q R"
  by (simp add: ensures_return)

declare stepsA.simps(2) [simp del]

subsection \<open>Insertion-ordered maps and sets\<close>

text \<open>
  A \<open>Map\<close> is the list of its entries in insertion order: \<open>set\<close> on a present key
  keeps the key's place, on a new key appends. A \<open>Set\<close> is the list of its members.
\<close>

type_synonym ('k, 'v) jsmap = "('k \<times> 'v) list"

definition mget :: "('k, 'v) jsmap \<Rightarrow> 'k \<Rightarrow> 'v option" where
  "mget m k = map_of m k"

definition mhas :: "('k, 'v) jsmap \<Rightarrow> 'k \<Rightarrow> bool" where
  "mhas m k = (mget m k \<noteq> None)"

definition mset_at :: "'k \<Rightarrow> 'v \<Rightarrow> ('k, 'v) jsmap \<Rightarrow> ('k, 'v) jsmap" where
  "mset_at k v m = AList.update k v m"

definition mkeys :: "('k, 'v) jsmap \<Rightarrow> 'k list" where
  "mkeys m = map fst m"

definition mvalues :: "('k, 'v) jsmap \<Rightarrow> 'v list" where
  "mvalues m = map snd m"

definition map_new :: "('k \<times> 'v) list \<Rightarrow> ('k, 'v) jsmap" where
  "map_new es = fold (\<lambda>(k, v) m. mset_at k v m) es []"

definition map_ok :: "('k, 'v) jsmap \<Rightarrow> bool" where
  "map_ok m \<longleftrightarrow> distinct (mkeys m)"

lemma mget_set [js_sets, simp]: "mget (mset_at k v m) k' = (if k' = k then Some v else mget m k')"
  by (simp add: mget_def mset_at_def update_conv')

lemma mget_Nil [js_sets, simp]: "mget [] k = None"
  by (simp add: mget_def)

lemma mhas_set [js_sets, simp]: "mhas (mset_at k v m) k' \<longleftrightarrow> k' = k \<or> mhas m k'"
  by (simp add: mhas_def)

lemma mhas_Nil [js_sets, simp]: "\<not> mhas [] k"
  by (simp add: mhas_def)

lemma mhas_keys: "mhas m k \<longleftrightarrow> k \<in> set (mkeys m)"
  by (auto simp: mhas_def mget_def mkeys_def map_of_eq_None_iff)

lemma mget_mhas: "mget m k = Some v \<Longrightarrow> mhas m k"
  by (simp add: mhas_def)

lemma not_mhas_mget: "\<not> mhas m k \<longleftrightarrow> mget m k = None"
  by (simp add: mhas_def)

lemma mkeys_set [js_sets]:
  "mkeys (mset_at k v m) = (if k \<in> set (mkeys m) then mkeys m else mkeys m @ [k])"
  by (simp add: mkeys_def mset_at_def update_keys)

lemma map_ok_Nil [simp]: "map_ok []"
  by (simp add: map_ok_def mkeys_def)

lemma map_ok_set [simp]: "map_ok m \<Longrightarrow> map_ok (mset_at k v m)"
  by (simp add: map_ok_def mkeys_def mset_at_def distinct_update)

lemma mset_at_fresh: "\<not> mhas m k \<Longrightarrow> mset_at k v m = m @ [(k, v)]"
  by (induction m) (auto simp: mset_at_def mhas_def mget_def split: if_splits)

lemma mset_at_length: "length (mset_at k v m) = (if mhas m k then length m else Suc (length m))"
  using arg_cong [OF mkeys_set [of k v m], of length] by (simp add: mkeys_def mhas_keys)

lemma in_mvalues: "v \<in> set (mvalues m) \<longleftrightarrow> (\<exists>k. (k, v) \<in> set m)"
  by (force simp: mvalues_def)

lemma mget_in: "mget m k = Some v \<Longrightarrow> (k, v) \<in> set m"
  by (simp add: mget_def map_of_SomeD)

lemma mget_iff_in: "map_ok m \<Longrightarrow> mget m k = Some v \<longleftrightarrow> (k, v) \<in> set m"
  by (simp add: map_ok_def mkeys_def mget_def)

lemma mget_mvalues: "mget m k = Some v \<Longrightarrow> v \<in> set (mvalues m)"
  by (auto simp: in_mvalues dest: mget_in)

lemma in_mset_at: "(k', v') \<in> set (mset_at k v m) \<Longrightarrow> (k' = k \<and> v' = v) \<or> (k', v') \<in> set m"
  by (induction m) (auto simp: mset_at_def split: if_splits)

lemma in_mvalues_set: "w \<in> set (mvalues (mset_at k v m)) \<Longrightarrow> w = v \<or> w \<in> set (mvalues m)"
  by (auto simp: in_mvalues dest!: in_mset_at)

text \<open>
  What a store promises of a collection that records are added to once. The laws are the contract of
  every \<open>add\<close> method with a duplicate check; the collections of the protocol store interpret them.
\<close>

locale insert_once =
  fixes coll :: "'s \<Rightarrow> ('k, 'v) jsmap" and add :: "'r \<Rightarrow> ('s, unit) act" and key :: "'r \<Rightarrow> 'k"
  assumes add_duplicate: "mhas (coll s) (key r) \<Longrightarrow> \<exists>e. add r s = (Inl e, s)"
    and add_returns: "add r s = (Inr u, t) \<Longrightarrow> \<exists>v. coll t = mset_at (key r) v (coll s)"
    and add_throws: "add r s = (Inl e, t) \<Longrightarrow> coll t = coll s"
begin

lemma accepted:
  "add r s = (Inr u, t) \<Longrightarrow> \<not> mhas (coll s) (key r) \<and> mhas (coll t) (key r)
     \<and> mkeys (coll t) = mkeys (coll s) @ [key r]"
proof -
  assume a: "add r s = (Inr u, t)"
  then have "\<not> mhas (coll s) (key r)" using add_duplicate [of s r] by auto
  with add_returns [OF a] show ?thesis by (auto simp: mkeys_set mhas_keys)
qed

lemma never_overwritten: "mget (coll s) k = Some v \<Longrightarrow> mget (coll (snd (add r s))) k = Some v"
proof -
  assume v: "mget (coll s) k = Some v"
  obtain o' t where m: "add r s = (o', t)" by fastforce
  show ?thesis
  proof (cases o')
    case (Inl e)
    with m v add_throws show ?thesis by simp
  next
    case (Inr u)
    with m have ok: "add r s = (Inr u, t)" by simp
    have "key r \<noteq> k" using accepted [OF ok] mget_mhas [OF v] by auto
    with add_returns [OF ok] v m show ?thesis by auto
  qed
qed

lemma only_once: "add r s = (Inr u, t) \<Longrightarrow> key r' = key r \<Longrightarrow> \<exists>e. add r' t = (Inl e, t)"
  using accepted [of r s u t] add_duplicate [of t r'] by auto

end

definition sadd :: "'a \<Rightarrow> 'a list \<Rightarrow> 'a list" where
  "sadd x xs = (if x \<in> set xs then xs else xs @ [x])"

definition set_new :: "'a list \<Rightarrow> 'a list" where
  "set_new xs = fold sadd xs []"

lemma set_sadd [js_sets, simp]: "set (sadd x xs) = insert x (set xs)"
  by (auto simp: sadd_def)

lemma distinct_sadd [simp]: "distinct (sadd x xs) = distinct xs"
  by (auto simp: sadd_def)

lemma sadd_fresh: "x \<notin> set xs \<Longrightarrow> sadd x xs = xs @ [x]"
  by (simp add: sadd_def)

lemma set_fold_sadd: "set (fold sadd xs ys) = set xs \<union> set ys"
  by (induction xs arbitrary: ys) auto

lemma distinct_fold_sadd: "distinct (fold sadd xs ys) = distinct ys"
  by (induction xs arbitrary: ys) auto

lemma fold_sadd_fresh: "distinct (ys @ xs) \<Longrightarrow> fold sadd xs ys = ys @ xs"
  by (induction xs arbitrary: ys) (auto simp: sadd_def)

lemma set_set_new [simp]: "set (set_new xs) = set xs"
  by (simp add: set_new_def set_fold_sadd)

lemma distinct_set_new [simp]: "distinct (set_new xs)"
  by (simp add: set_new_def distinct_fold_sadd)

lemma set_new_distinct: "distinct xs \<Longrightarrow> set_new xs = xs"
  using fold_sadd_fresh [of "[]" xs] by (simp add: set_new_def)

lemma length_set_new: "length (set_new xs) = card (set xs)"
  by (metis distinct_card distinct_set_new set_set_new)

lemma set_new_size_distinct: "length (set_new xs) = length xs \<longleftrightarrow> distinct xs"
  by (simp add: length_set_new card_distinct distinct_card [symmetric]) (metis card_distinct distinct_card)

subsection \<open>Sorting\<close>

text \<open>
  \<open>Array.prototype.sort\<close> is stable, and so is this insertion sort: with a comparator that
  is a total preorder both return the one stable ordering of the list.
\<close>

fun insort_cmp :: "('a \<Rightarrow> 'a \<Rightarrow> int) \<Rightarrow> 'a \<Rightarrow> 'a list \<Rightarrow> 'a list" where
  "insort_cmp c x [] = [x]"
| "insort_cmp c x (y # ys) = (if c x y \<le> 0 then x # y # ys else y # insort_cmp c x ys)"

fun js_sort :: "('a \<Rightarrow> 'a \<Rightarrow> int) \<Rightarrow> 'a list \<Rightarrow> 'a list" where
  "js_sort c [] = []"
| "js_sort c (x # xs) = insort_cmp c x (js_sort c xs)"

lemma mset_insort_cmp: "mset (insort_cmp c x xs) = add_mset x (mset xs)"
  by (induction xs) auto

lemma mset_js_sort [simp]: "mset (js_sort c xs) = mset xs"
  by (induction xs) (auto simp: mset_insort_cmp)

lemma set_js_sort [simp]: "set (js_sort c xs) = set xs"
  by (metis mset_js_sort set_mset_mset)

lemma length_js_sort [simp]: "length (js_sort c xs) = length xs"
  by (metis mset_js_sort size_mset)

lemma distinct_js_sort [simp]: "distinct (js_sort c xs) = distinct xs"
  by (metis mset_js_sort mset_eq_imp_distinct_iff)

lemma set_insort_cmp: "set (insort_cmp c x xs) = insert x (set xs)"
  by (induction xs) auto

lemma insort_cmp_head: "(\<And>y. y \<in> set ys \<Longrightarrow> c x y \<le> 0) \<Longrightarrow> insort_cmp c x ys = x # ys"
  by (cases ys) auto

text \<open>
  What a comparator has to promise. The clients prove order facts once, here; the order books
  and the listings of the store interpret it with their own comparators.
\<close>

locale total_comparator =
  fixes cmp :: "'a \<Rightarrow> 'a \<Rightarrow> int"
  assumes cmp_total: "cmp x y \<le> 0 \<or> cmp y x \<le> 0"
    and cmp_trans: "cmp x y \<le> 0 \<Longrightarrow> cmp y z \<le> 0 \<Longrightarrow> cmp x z \<le> 0"
begin

lemma sorted_insort:
  "sorted_wrt (\<lambda>x y. cmp x y \<le> 0) xs \<Longrightarrow> sorted_wrt (\<lambda>x y. cmp x y \<le> 0) (insort_cmp cmp a xs)"
proof (induction xs)
  case Nil
  then show ?case by simp
next
  case (Cons x xs)
  show ?case
  proof (cases "cmp a x \<le> 0")
    case True
    with Cons.prems show ?thesis by (auto intro: cmp_trans)
  next
    case False
    then have "cmp x a \<le> 0" using cmp_total by blast
    with Cons False show ?thesis by (auto simp: set_insort_cmp)
  qed
qed

lemma sorted_js_sort: "sorted_wrt (\<lambda>x y. cmp x y \<le> 0) (js_sort cmp xs)"
  by (induction xs) (auto intro: sorted_insort)

lemma js_sort_id: "sorted_wrt (\<lambda>x y. cmp x y \<le> 0) xs \<Longrightarrow> js_sort cmp xs = xs"
  by (induction xs) (auto intro: insort_cmp_head)

end

subsection \<open>Numbers as text\<close>

text \<open>
  \<open>toString(b)\<close> of a non-negative integer for a base up to 16, and its inverse, which reads
  upper-case digits too, as \<open>BigInt(s)\<close> does.
\<close>

definition digit_char :: "nat \<Rightarrow> char" where
  "digit_char d = ''0123456789abcdef'' ! d"

definition digit_val :: "char \<Rightarrow> nat option" where
  "digit_val c = map_of (zip ''0123456789abcdefABCDEF'' ([0..<16] @ [10..<16])) c"

fun nat_str :: "nat \<Rightarrow> nat \<Rightarrow> string" where
  "nat_str b n = (if n < b \<or> b < 2 then [digit_char n] else nat_str b (n div b) @ [digit_char (n mod b)])"

declare nat_str.simps [simp del]

definition int_str :: "int \<Rightarrow> string" where
  "int_str v = (if v < 0 then ''-'' @ nat_str 10 (nat (- v)) else nat_str 10 (nat v))"

definition pad_start :: "nat \<Rightarrow> char \<Rightarrow> string \<Rightarrow> string" where
  "pad_start n c s = replicate (n - length s) c @ s"

fun str_nat :: "nat \<Rightarrow> nat \<Rightarrow> string \<Rightarrow> nat option" where
  "str_nat b acc [] = Some acc"
| "str_nat b acc (c # cs) =
     (case digit_val c of None \<Rightarrow> None | Some d \<Rightarrow> if d < b then str_nat b (acc * b + d) cs else None)"

text \<open>
  \<open>toUpperCase\<close> and \<open>toLowerCase\<close> on one character: addresses, commitments and names are ASCII text,
  where they map the letters only.
\<close>

definition upper_char :: "char \<Rightarrow> char" where
  "upper_char c = (case map_of (zip ''abcdefghijklmnopqrstuvwxyz'' ''ABCDEFGHIJKLMNOPQRSTUVWXYZ'') c of
     Some u \<Rightarrow> u | None \<Rightarrow> c)"

definition lower_char :: "char \<Rightarrow> char" where
  "lower_char c = (case map_of (zip ''ABCDEFGHIJKLMNOPQRSTUVWXYZ'' ''abcdefghijklmnopqrstuvwxyz'') c of
     Some u \<Rightarrow> u | None \<Rightarrow> c)"

lemma digit_val_char: "d < 16 \<Longrightarrow> digit_val (digit_char d) = Some d"
proof -
  have "\<forall>d\<in>set [0..<16]. digit_val (digit_char d) = Some d" by code_simp
  then show "d < 16 \<Longrightarrow> digit_val (digit_char d) = Some d" by simp
qed

lemma str_nat_append:
  "str_nat b acc (xs @ ys) = (case str_nat b acc xs of None \<Rightarrow> None | Some a \<Rightarrow> str_nat b a ys)"
  by (induction xs arbitrary: acc) (auto split: option.splits)

lemma str_nat_nat_str:
  "2 \<le> b \<Longrightarrow> b \<le> 16 \<Longrightarrow> str_nat b 0 (nat_str b n) = Some n"
proof (induction b n rule: nat_str.induct)
  case (1 b n)
  show ?case
  proof (cases "n < b")
    case True
    with 1 show ?thesis by (simp add: nat_str.simps [of b n] digit_val_char)
  next
    case False
    with 1 have "str_nat b 0 (nat_str b (n div b)) = Some (n div b)" by simp
    moreover from 1 have "n mod b < b" and "n mod b < 16"
      by (simp_all add: less_le_trans [OF mod_less_divisor])
    ultimately show ?thesis using False 1
      by (simp add: nat_str.simps [of b n] str_nat_append digit_val_char)
  qed
qed

lemma str_nat_zeros: "0 < b \<Longrightarrow> str_nat b 0 (replicate k CHR ''0'' @ s) = str_nat b 0 s"
  by (induction k) (auto simp: digit_val_def upt_rec)

end
