(* ===== verification/Market_Math.thy ===== *)
theory Market_Math
  imports Complex_Main Js_Prelude
begin

text \<open>
  The package \<^verbatim>\<open>packages/market-math\<close> (constants, fees, funding, margin, pnl, liquidation,
  vamm) and the funding check of \<^verbatim>\<open>server/src/shared/protocol/funding.ts\<close>. Amounts are
  JavaScript BigInts, so they are \<open>int\<close>; BigInt division is \<open>sdiv\<close>. The two durations of
  the funding index are Numbers; a finite Number is a \<open>rat\<close> here, so \<open>Math.trunc\<close> is not lost.
\<close>

named_theorems scale_defs \<open>the fixed-point scales and fee rates\<close>
named_theorems money_defs \<open>the money functions, unfolded down to truncating division\<close>

subsection \<open>Truncating division\<close>

lemma sdiv_nonneg: "0 \<le> a \<Longrightarrow> 0 < b \<Longrightarrow> (a :: int) sdiv b = a div b"
  by (simp add: signed_divide_int_def sgn_if)

lemma sdiv_nonpos: "a \<le> 0 \<Longrightarrow> 0 < b \<Longrightarrow> (a :: int) sdiv b = - ((- a) div b)"
  by (simp add: signed_divide_int_def sgn_if)

lemma sdiv_mono:
  assumes "a \<le> a'" and "0 < (b :: int)"
  shows "a sdiv b \<le> a' sdiv b"
proof (cases "0 \<le> a")
  case True
  with assms show ?thesis by (simp add: sdiv_nonneg zdiv_mono1)
next
  case neg: False
  show ?thesis
  proof (cases "0 \<le> a'")
    case True
    with neg assms have "0 \<le> (- a) div b" "0 \<le> a' div b"
      by (simp_all add: pos_imp_zdiv_nonneg_iff)
    with neg True assms show ?thesis by (simp add: sdiv_nonneg sdiv_nonpos)
  next
    case False
    with neg assms show ?thesis by (simp add: sdiv_nonpos zdiv_mono1)
  qed
qed

lemma div_mult_bounds:
  assumes "0 < (b :: int)"
  shows "b * (k div b) \<le> k" and "k < b * (k div b + 1)"
proof -
  define q r where "q = k div b" and "r = k mod b"
  have "k = b * q + r" and "0 \<le> r" "r < b" using assms by (simp_all add: q_def r_def)
  then have "b * q \<le> k" and "k < b * (q + 1)" by (simp_all add: distrib_left)
  then show "b * (k div b) \<le> k" and "k < b * (k div b + 1)" by (simp_all add: q_def)
qed

lemma sdiv_nonneg_result: "0 \<le> a \<Longrightarrow> 0 < b \<Longrightarrow> 0 \<le> (a :: int) sdiv b"
  by (simp add: sdiv_nonneg pos_imp_zdiv_nonneg_iff)

datatype side = Long | Short

subsection \<open>constants.ts\<close>

definition PRICE_SCALE :: int where [scale_defs]: "PRICE_SCALE = 100000000"
definition RATE_SCALE :: int where [scale_defs]: "RATE_SCALE = 1000000"

subsection \<open>margin.ts\<close>

definition abs_big :: "int \<Rightarrow> int" where
  "abs_big value = (if value < 0 then - value else value)"

definition notional :: "int \<Rightarrow> int \<Rightarrow> int" where
  "notional sz price = (abs_big sz * price) sdiv PRICE_SCALE"

definition initialMargin :: "int \<Rightarrow> int \<Rightarrow> int \<Rightarrow> int" where
  "initialMargin sz price rate = (notional sz price * rate) sdiv RATE_SCALE"

definition maintenanceMargin :: "int \<Rightarrow> int \<Rightarrow> int \<Rightarrow> int" where
  "maintenanceMargin sz price rate = (notional sz price * rate) sdiv RATE_SCALE"

definition hasInitialMargin :: "int \<Rightarrow> int \<Rightarrow> int \<Rightarrow> int \<Rightarrow> bool" where
  "hasInitialMargin sz price margin initialRate = (margin \<ge> initialMargin sz price initialRate)"

definition hasMaxLeverage :: "int \<Rightarrow> int \<Rightarrow> int \<Rightarrow> int \<Rightarrow> bool" where
  "hasMaxLeverage sz price margin maxLeverage =
     (if margin \<le> 0 \<or> maxLeverage \<le> 0 then False
      else notional sz price \<le> margin * maxLeverage)"

subsection \<open>fees.ts\<close>

definition TAKER_FEE_PPM :: int where [scale_defs]: "TAKER_FEE_PPM = 500"
definition MAKER_REBATE_PPM :: int where [scale_defs]: "MAKER_REBATE_PPM = 150"
definition INSURANCE_FEE_PPM :: int where [scale_defs]: "INSURANCE_FEE_PPM = 100"

record FillFees =
  fee_grossTakerFee :: int
  fee_makerRebate :: int
  fee_insurance :: int
  fee_treasury :: int

definition fillFees :: "int \<Rightarrow> int \<Rightarrow> FillFees result" where
  "fillFees sz price =
     (if sz \<le> 0 \<or> price \<le> 0 then throw ''invalid fee notional''
      else
        let value = notional sz price;
            grossTakerFee = value * TAKER_FEE_PPM sdiv RATE_SCALE;
            makerRebate = value * MAKER_REBATE_PPM sdiv RATE_SCALE;
            insurance = value * INSURANCE_FEE_PPM sdiv RATE_SCALE
        in Inr \<lparr>fee_grossTakerFee = grossTakerFee, fee_makerRebate = makerRebate,
                 fee_insurance = insurance,
                 fee_treasury = grossTakerFee - makerRebate - insurance\<rparr>)"

subsection \<open>funding.ts\<close>

definition fundingPayment :: "int \<Rightarrow> int \<Rightarrow> int \<Rightarrow> int" where
  "fundingPayment signedSize currentIndex lastIndex =
     (signedSize * (currentIndex - lastIndex)) sdiv PRICE_SCALE"

definition math_trunc :: "rat \<Rightarrow> int" where
  "math_trunc q = (if q < 0 then - \<lfloor>- q\<rfloor> else \<lfloor>q\<rfloor>)"

record FundingIndexDeltaInput =
  fid_elapsedMs :: rat
  fid_intervalMs :: rat
  fid_markPrice :: int
  fid_maxFundingDelta :: "int option"
  fid_premiumRate :: int

definition fundingIndexDelta :: "FundingIndexDeltaInput \<Rightarrow> int result" where
  "fundingIndexDelta input =
     (if fid_markPrice input \<le> 0 then throw ''mark price must be positive''
      else if fid_elapsedMs input < 0 then throw ''elapsed time cannot be negative''
      else if fid_intervalMs input \<le> 0 then throw ''funding interval must be positive''
      else if (case fid_maxFundingDelta input of Some m \<Rightarrow> m < 0 | None \<Rightarrow> False)
        then throw ''max funding delta cannot be negative''
      else
        let divisor = RATE_SCALE * math_trunc (fid_intervalMs input) in
        if divisor = 0 then throw ''Division by zero''
        else
          let raw = (fid_markPrice input * fid_premiumRate input * math_trunc (fid_elapsedMs input))
                      sdiv divisor
          in case fid_maxFundingDelta input of
               None \<Rightarrow> Inr raw
             | Some m \<Rightarrow>
                 if raw > m then Inr m
                 else if raw < - m then Inr (- m)
                 else Inr raw)"

subsection \<open>pnl.ts\<close>

definition unrealizedPnl :: "side \<Rightarrow> int \<Rightarrow> int \<Rightarrow> int \<Rightarrow> int" where
  "unrealizedPnl sd sz entryPrice markPrice =
     (let delta = (if sd = Long then markPrice - entryPrice else entryPrice - markPrice)
      in (sz * delta) sdiv PRICE_SCALE)"

record CloseSettlementInput =
  csi_side :: side
  csi_closeSize :: int
  csi_entryPrice :: int
  csi_markPrice :: int
  csi_margin :: int
  csi_fundingPayment :: int
  csi_fee :: int

record CloseSettlement =
  cs_realizedPnl :: int
  cs_newMargin :: int

definition settleClose :: "CloseSettlementInput \<Rightarrow> CloseSettlement result" where
  "settleClose input =
     (if csi_closeSize input \<le> 0 then throw ''close size must be positive''
      else if csi_margin input < 0 then throw ''margin cannot be negative''
      else if csi_fee input < 0 then throw ''fee cannot be negative''
      else
        let realizedPnl = unrealizedPnl (csi_side input) (csi_closeSize input)
                            (csi_entryPrice input) (csi_markPrice input);
            newMargin = csi_margin input + realizedPnl - csi_fundingPayment input - csi_fee input
        in if newMargin < 0 then throw ''close settlement is insolvent''
           else Inr \<lparr>cs_realizedPnl = realizedPnl, cs_newMargin = newMargin\<rparr>)"

subsection \<open>liquidation.ts\<close>

definition equity :: "side \<Rightarrow> int \<Rightarrow> int \<Rightarrow> int \<Rightarrow> int \<Rightarrow> int \<Rightarrow> int" where
  "equity sd sz entryPrice markPrice margin funding =
     margin + unrealizedPnl sd sz entryPrice markPrice - funding"

record LiquidationInput =
  li_side :: side
  li_size :: int
  li_entryPrice :: int
  li_markPrice :: int
  li_margin :: int
  li_fundingPayment :: int
  li_maintenanceRate :: int

definition isLiquidatable :: "LiquidationInput \<Rightarrow> bool" where
  "isLiquidatable input =
     (equity (li_side input) (li_size input) (li_entryPrice input) (li_markPrice input)
        (li_margin input) (li_fundingPayment input)
      < maintenanceMargin (li_size input) (li_markPrice input) (li_maintenanceRate input))"

subsection \<open>vamm.ts\<close>

record VammState =
  baseReserve :: int
  quoteReserve :: int

definition vamm_invariant :: "VammState \<Rightarrow> int" where
  "vamm_invariant state = baseReserve state * quoteReserve state"

definition routeResidual :: "VammState \<Rightarrow> int \<Rightarrow> VammState result" where
  "routeResidual state signedBaseDelta =
     (if signedBaseDelta = 0 then Inr state
      else
        let k = vamm_invariant state;
            nextBase = baseReserve state - signedBaseDelta
        in if nextBase \<le> 0 then throw ''invalid vamm base reserve''
           else
             let nextQuote = k sdiv nextBase
             in Inr \<lparr>baseReserve = nextBase, quoteReserve = nextQuote\<rparr>)"

subsection \<open>shared/protocol/funding.ts\<close>

definition expectedFundingPayment :: "side \<Rightarrow> int \<Rightarrow> int \<Rightarrow> int \<Rightarrow> int result" where
  "expectedFundingPayment sd positionSize currentIndex positionIndex =
     (if positionSize \<le> 0 then throw ''position size must be positive''
      else
        let payment = (positionSize * (currentIndex - positionIndex)) sdiv PRICE_SCALE
        in Inr (if sd = Long then payment else - payment))"

definition assertFundingPayment :: "int \<Rightarrow> side \<Rightarrow> int \<Rightarrow> int \<Rightarrow> int \<Rightarrow> unit result" where
  "assertFundingPayment provided sd positionSize currentIndex positionIndex =
     bindE (expectedFundingPayment sd positionSize currentIndex positionIndex) (\<lambda>expected.
       if provided \<noteq> expected then throw ''invalid funding payment'' else Inr ())"

subsection \<open>Lemmas: signs, monotonicity, conservation\<close>

declare PRICE_SCALE_def [simp] RATE_SCALE_def [simp]

lemma notional_nonneg: "0 \<le> price \<Longrightarrow> 0 \<le> notional sz price"
  by (simp add: notional_def abs_big_def sdiv_nonneg_result)

lemma notional_pos_size: "0 < sz \<Longrightarrow> 0 \<le> price \<Longrightarrow> notional sz price = sz * price div PRICE_SCALE"
  by (simp add: notional_def abs_big_def sdiv_nonneg)

lemma fee_split_bound:
  assumes "0 \<le> (v :: int)"
  shows "v * 150 div 1000000 + v * 100 div 1000000 \<le> v * 500 div 1000000"
proof -
  have "v * 150 div 1000000 + v * 100 div 1000000 \<le> (v * 150 + v * 100) div 1000000"
    by (subst div_add1_eq [of "v * 150"]) (simp add: pos_imp_zdiv_nonneg_iff)
  also have "\<dots> \<le> v * 500 div 1000000"
    using assms by (intro zdiv_mono1) simp_all
  finally show ?thesis .
qed

lemma fillFees_conserves:
  assumes "fillFees sz price = Inr f"
  shows "fee_grossTakerFee f = fee_makerRebate f + fee_insurance f + fee_treasury f"
    and "0 \<le> fee_makerRebate f" and "0 \<le> fee_insurance f" and "0 \<le> fee_treasury f"
    and "fee_grossTakerFee f \<le> notional sz price"
proof -
  from assms have pos: "0 < sz" "0 < price" by (auto simp: fillFees_def split: if_splits)
  then have v: "0 \<le> notional sz price" by (simp add: notional_nonneg)
  from assms pos have f: "f = \<lparr>fee_grossTakerFee = notional sz price * 500 div 1000000,
      fee_makerRebate = notional sz price * 150 div 1000000,
      fee_insurance = notional sz price * 100 div 1000000,
      fee_treasury = notional sz price * 500 div 1000000 - notional sz price * 150 div 1000000
        - notional sz price * 100 div 1000000\<rparr>"
    using v by (simp add: fillFees_def scale_defs Let_def sdiv_nonneg)
  show "fee_grossTakerFee f = fee_makerRebate f + fee_insurance f + fee_treasury f"
    by (simp add: f)
  show "0 \<le> fee_makerRebate f" "0 \<le> fee_insurance f"
    using v by (simp_all add: f pos_imp_zdiv_nonneg_iff)
  show "0 \<le> fee_treasury f"
    using fee_split_bound [OF v] by (simp add: f)
  show "fee_grossTakerFee f \<le> notional sz price"
    using v by (simp add: f)
qed

lemma fillFees_Inl: "fillFees sz price = Inl e \<longleftrightarrow> (sz \<le> 0 \<or> price \<le> 0) \<and> e = ''invalid fee notional''"
  by (auto simp: fillFees_def Let_def split: if_splits)

lemma fillFees_total: "0 < sz \<Longrightarrow> 0 < price \<Longrightarrow> \<exists>f. fillFees sz price = Inr f"
  by (simp add: fillFees_def Let_def)

lemma unrealizedPnl_mono_long:
  "0 \<le> sz \<Longrightarrow> p \<le> p' \<Longrightarrow> unrealizedPnl Long sz e p \<le> unrealizedPnl Long sz e p'"
  by (simp add: unrealizedPnl_def Let_def sdiv_mono mult_left_mono)

lemma unrealizedPnl_anti_short:
  "0 \<le> sz \<Longrightarrow> p \<le> p' \<Longrightarrow> unrealizedPnl Short sz e p' \<le> unrealizedPnl Short sz e p"
  by (simp add: unrealizedPnl_def Let_def sdiv_mono mult_left_mono)

lemma maintenanceMargin_mono:
  assumes "0 \<le> rate" "0 \<le> p" "p \<le> p'"
  shows "maintenanceMargin sz p rate \<le> maintenanceMargin sz p' rate"
proof -
  have "notional sz p \<le> notional sz p'"
    using assms by (simp add: notional_def abs_big_def sdiv_mono mult_left_mono)
  then show ?thesis
    using assms by (simp add: maintenanceMargin_def sdiv_mono mult_right_mono)
qed

lemma math_trunc_int [simp]: "math_trunc (of_int n) = n"
  by (simp add: math_trunc_def)

lemma math_trunc_nonneg: "0 \<le> q \<Longrightarrow> 0 \<le> math_trunc q"
  by (simp add: math_trunc_def)

lemma math_trunc_zero_iff: "0 < q \<Longrightarrow> math_trunc q = 0 \<longleftrightarrow> q < 1"
  by (simp add: math_trunc_def floor_eq_iff)

text \<open>The funding index before clamping, where its divisor is not zero.\<close>

definition raw_index_delta :: "FundingIndexDeltaInput \<Rightarrow> int" where
  "raw_index_delta i =
     (fid_markPrice i * fid_premiumRate i * math_trunc (fid_elapsedMs i))
       sdiv (RATE_SCALE * math_trunc (fid_intervalMs i))"

lemma fundingIndexDelta_Inr:
  "fundingIndexDelta i = Inr d \<longleftrightarrow>
     0 < fid_markPrice i \<and> 0 \<le> fid_elapsedMs i \<and> 1 \<le> fid_intervalMs i
     \<and> (case fid_maxFundingDelta i of
          None \<Rightarrow> d = raw_index_delta i
        | Some m \<Rightarrow> 0 \<le> m \<and> d = max (- m) (min m (raw_index_delta i)))"
  using math_trunc_zero_iff [of "fid_intervalMs i"]
  by (auto simp: fundingIndexDelta_def raw_index_delta_def Let_def not_le not_less
      split: option.splits if_splits)

subsection \<open>Properties\<close>

text \<open>\<open>fillFees\<close> rejects exactly a non-positive size or price; otherwise the gross taker fee
  is split without loss between maker rebate, insurance and treasury, no part is negative (the
  treasury takes the rounding remainder), and the fee never exceeds the notional.\<close>
theorem fill_fees_split:
  "case fillFees sz price of
     Inl e \<Rightarrow> (sz \<le> 0 \<or> price \<le> 0) \<and> e = ''invalid fee notional''
   | Inr f \<Rightarrow> 0 < sz \<and> 0 < price
       \<and> fee_grossTakerFee f = fee_makerRebate f + fee_insurance f + fee_treasury f
       \<and> 0 \<le> fee_makerRebate f \<and> 0 \<le> fee_insurance f \<and> 0 \<le> fee_treasury f
       \<and> fee_grossTakerFee f \<le> notional sz price"
proof (cases "fillFees sz price")
  case (Inl e)
  moreover from Inl have "(sz \<le> 0 \<or> price \<le> 0) \<and> e = ''invalid fee notional''"
    by (simp add: fillFees_Inl)
  ultimately show ?thesis by simp
next
  case (Inr f)
  then have "0 < sz" "0 < price" by (auto simp: fillFees_def split: if_splits)
  with Inr fillFees_conserves [OF Inr] show ?thesis by simp
qed

text \<open>The funding index delta is odd in the premium rate (a negative premium is charged
  exactly as the positive one is, errors included), and with a cap the result lies within it.\<close>
theorem funding_delta_odd_and_capped:
  "fundingIndexDelta (i\<lparr>fid_premiumRate := - fid_premiumRate i\<rparr>)
     = map_sum id uminus (fundingIndexDelta i)
   \<and> (case (fid_maxFundingDelta i, fundingIndexDelta i) of
        (Some m, Inr d) \<Rightarrow> \<bar>d\<bar> \<le> m
      | _ \<Rightarrow> True)"
  by (auto simp: fundingIndexDelta_def Let_def split: option.splits if_splits)

text \<open>The funding index delta returns exactly for a positive mark price, a non-negative
  elapsed time, a funding interval of at least one millisecond and a non-negative cap. An interval
  strictly between 0 and 1 passes the positivity check of the code but truncates to a zero
  divisor: it ends in the RangeError of BigInt division and not in the error the code names.\<close>
theorem funding_delta_errors:
  "((\<exists>d. fundingIndexDelta i = Inr d) \<longleftrightarrow>
      0 < fid_markPrice i \<and> 0 \<le> fid_elapsedMs i \<and> 1 \<le> fid_intervalMs i
      \<and> (case fid_maxFundingDelta i of None \<Rightarrow> True | Some m \<Rightarrow> 0 \<le> m))
   \<and> (fundingIndexDelta i = Inl ''Division by zero'' \<longleftrightarrow>
      0 < fid_markPrice i \<and> 0 \<le> fid_elapsedMs i \<and> 0 < fid_intervalMs i \<and> fid_intervalMs i < 1
      \<and> (case fid_maxFundingDelta i of None \<Rightarrow> True | Some m \<Rightarrow> 0 \<le> m))"
  (is "?returns \<and> ?divides")
proof
  show ?returns by (auto simp: fundingIndexDelta_Inr split: option.splits)
  show ?divides
    using math_trunc_zero_iff [of "fid_intervalMs i"]
    by (auto simp: fundingIndexDelta_def Let_def not_le not_less split: option.splits if_splits)
qed

text \<open>The server's check of a funding payment (rounded on the unsigned size, then negated for
  shorts) accepts exactly the payment of the package (rounded on the signed size); so what a long
  pays is what a short of the same size and indices receives, to the unit.\<close>
theorem funding_payment_agrees:
  "assertFundingPayment p sd sz cur idx = Inr () \<longleftrightarrow>
     0 < sz \<and> p = fundingPayment (if sd = Long then sz else - sz) cur idx"
  by (auto simp: assertFundingPayment_def expectedFundingPayment_def fundingPayment_def Let_def)

text \<open>A close settles exactly when the inputs are well formed and the equity covers the fee;
  the new margin is then the equity at the mark less the fee, never negative. Every other input
  ends in the error of the first check it fails.\<close>
theorem close_settles_equity:
  "settleClose i =
     (let eq = equity (csi_side i) (csi_closeSize i) (csi_entryPrice i) (csi_markPrice i)
                 (csi_margin i) (csi_fundingPayment i)
      in if csi_closeSize i \<le> 0 then Inl ''close size must be positive''
         else if csi_margin i < 0 then Inl ''margin cannot be negative''
         else if csi_fee i < 0 then Inl ''fee cannot be negative''
         else if eq < csi_fee i then Inl ''close settlement is insolvent''
         else Inr \<lparr>cs_realizedPnl = eq - csi_margin i + csi_fundingPayment i,
                    cs_newMargin = eq - csi_fee i\<rparr>)"
  by (simp add: settleClose_def equity_def Let_def)

text \<open>A position that is not liquidatable can always be closed at the same mark for a fee up to
  its maintenance margin: liquidation and close settlement agree on solvency.\<close>
theorem healthy_position_closes:
  assumes "\<not> isLiquidatable \<lparr>li_side = sd, li_size = sz, li_entryPrice = e, li_markPrice = p,
      li_margin = m, li_fundingPayment = fp, li_maintenanceRate = rate\<rparr>"
    and "0 < sz" and "0 \<le> m" and "0 \<le> fee" and "fee \<le> maintenanceMargin sz p rate"
  shows "\<exists>r. settleClose \<lparr>csi_side = sd, csi_closeSize = sz, csi_entryPrice = e, csi_markPrice = p,
      csi_margin = m, csi_fundingPayment = fp, csi_fee = fee\<rparr> = Inr r
    \<and> cs_newMargin r = equity sd sz e p m fp - fee
    \<and> maintenanceMargin sz p rate - fee \<le> cs_newMargin r"
  using assms by (simp add: isLiquidatable_def settleClose_def equity_def Let_def)

theorem healthy_position_closes_witness:
  "\<exists>r. settleClose \<lparr>csi_side = Short, csi_closeSize = 300000000, csi_entryPrice = 5000000000,
      csi_markPrice = 5100000000, csi_margin = 2000000000, csi_fundingPayment = 7, csi_fee = 4\<rparr> = Inr r
    \<and> cs_newMargin r = equity Short 300000000 5000000000 5100000000 2000000000 7 - 4
    \<and> maintenanceMargin 300000000 5100000000 50000 - 4 \<le> cs_newMargin r"
  by (rule healthy_position_closes) (simp_all add: isLiquidatable_def equity_def unrealizedPnl_def
      maintenanceMargin_def notional_def abs_big_def)

text \<open>For a short, liquidation is monotone in the mark price: once liquidatable, it stays so at
  every higher mark, rounding included.\<close>
theorem short_liquidation_monotone:
  assumes "isLiquidatable i" and "li_side i = Short" and "0 \<le> li_size i"
    and "0 \<le> li_maintenanceRate i" and "0 \<le> li_markPrice i" and "li_markPrice i \<le> p'"
  shows "isLiquidatable (i\<lparr>li_markPrice := p'\<rparr>)"
  using assms unrealizedPnl_anti_short [of "li_size i" "li_markPrice i" p' "li_entryPrice i"]
    maintenanceMargin_mono [of "li_maintenanceRate i" "li_markPrice i" p' "li_size i"]
  by (simp add: isLiquidatable_def equity_def)

theorem short_liquidation_monotone_witness:
  "isLiquidatable (\<lparr>li_side = Short, li_size = 300000000, li_entryPrice = 5000000000,
     li_markPrice = 6000000000, li_margin = 10, li_fundingPayment = 0, li_maintenanceRate = 50000\<rparr>
       \<lparr>li_markPrice := 7000000000\<rparr>)"
  by (rule short_liquidation_monotone) (simp_all add: isLiquidatable_def equity_def
      unrealizedPnl_def maintenanceMargin_def notional_def abs_big_def)

text \<open>Routing a residual through the virtual AMM never raises the constant product and loses
  less than one unit of quote to rounding; the base reserve stays positive.\<close>
theorem vamm_product_rounds_down:
  assumes "routeResidual st d = Inr st'" and "0 < baseReserve st" and "0 \<le> quoteReserve st"
  shows "0 < baseReserve st' \<and> vamm_invariant st' \<le> vamm_invariant st
    \<and> vamm_invariant st < baseReserve st' * (quoteReserve st' + 1)
    \<and> baseReserve st' = baseReserve st - d"
proof (cases "d = 0")
  case True
  with assms show ?thesis by (simp add: routeResidual_def vamm_invariant_def algebra_simps)
next
  case False
  let ?k = "vamm_invariant st" and ?b = "baseReserve st - d"
  have k: "0 \<le> ?k" using assms by (simp add: vamm_invariant_def)
  from False assms have b: "0 < ?b" and st': "st' = \<lparr>baseReserve = ?b, quoteReserve = ?k div ?b\<rparr>"
    using k by (auto simp: routeResidual_def Let_def sdiv_nonneg split: if_splits)
  have "?b * (?k div ?b) \<le> ?k" "?k < ?b * (?k div ?b + 1)"
    using div_mult_bounds [OF b, of ?k] by simp_all
  then show ?thesis using b unfolding st' vamm_invariant_def by simp
qed

theorem vamm_product_rounds_down_witness:
  "\<exists>st'. routeResidual \<lparr>baseReserve = 1000, quoteReserve = 777\<rparr> 13 = Inr st'
     \<and> 0 < baseReserve st' \<and> vamm_invariant st' \<le> vamm_invariant \<lparr>baseReserve = 1000, quoteReserve = 777\<rparr>"
proof -
  have r: "routeResidual \<lparr>baseReserve = 1000, quoteReserve = 777\<rparr> 13
      = Inr \<lparr>baseReserve = 987, quoteReserve = 787\<rparr>"
    by (simp add: routeResidual_def vamm_invariant_def Let_def)
  show ?thesis using r vamm_product_rounds_down [OF r] by auto
qed

end
