(* ===== verification/Protocol_Types.thy ===== *)
theory Protocol_Types
  imports Market_Math
begin

text \<open>
  The data model of \<^verbatim>\<open>packages/protocol-types/src/index.ts\<close>: one record per interface the
  modelled components read or write, one datatype per string union, in the order of the file. A
  \<open>Hex\<close> is a string, a \<open>bigint\<close> an \<open>int\<close>, a Number that is a time or a count an \<open>int\<close>
  (milliseconds and counts are integers below \<open>2^53\<close>), a field marked \<open>?\<close> an \<open>option\<close>. Two fields
  of a settlement that the code guards with \<open>??\<close> although their type is not optional are options
  too, because snapshots written by earlier versions lack them. A field whose type is a single
  literal (the algorithm of an encryption key, the source of a premium sample) carries no data and
  is left out.
\<close>

type_synonym Hex = string

definition ZERO_HEX :: Hex where "ZERO_HEX = ''0x0''"

datatype ProofSystem = Noir_Ultrahonk | Risc0_Groth16
datatype OrderStatus = OrderOpen | PartiallyFilled | OrderFilled | OrderCancelled
datatype PositionStatus = PositionOpen | PositionClosed | PositionLiquidated
datatype PremiumSource = SourceFixed | SourceImpactTwap
datatype BatchExecutionRunStatus = RunFailed | RunRunning | RunSettled | RunSkipped
datatype BatchExecutionPhase =
  PhOracle | PhMakerLiquidity | PhMatcher | PhProving | PhBatchSettlement | PhSettlementCommit
| PhMakerFinalize
datatype LiquidationAutomationJobStatus = JobPending | JobExecuted | JobFailed | JobStale
datatype ConditionalOrderKind = TakeProfit | StopLoss

record ProofMeta =
  pm_circuitId :: string
  pm_circuitKey :: Hex
  pm_circuitHash :: Hex
  pm_verifierHash :: Hex
  pm_publicInputHash :: Hex
  pm_proofDigest :: Hex
  pm_proofSystem :: "ProofSystem option"
  pm_bytecodeHash :: "Hex option"
  pm_boundlessRequestId :: "Hex option"
  pm_imageId :: "Hex option"
  pm_journalDigest :: "Hex option"
  pm_witnessHash :: "Hex option"
  pm_proofHash :: "Hex option"
  pm_publicInputsHash :: "Hex option"
  pm_sealDigest :: "Hex option"
  pm_vkHash :: "Hex option"

record MarginNote =
  mn_assetId :: string
  mn_amount :: int
  mn_owner :: string
  mn_rho :: string
  mn_blinding :: string

record PositionNote =
  pn_marketId :: string
  pn_side :: side
  pn_size :: int
  pn_entryPrice :: int
  pn_margin :: int
  pn_fundingIndex :: int
  pn_owner :: string
  pn_rho :: string
  pn_blinding :: string

record TradeIntent =
  ti_batchId :: string
  ti_marketId :: string
  ti_owner :: string
  ti_side :: side
  ti_size :: int
  ti_limitPrice :: int
  ti_margin :: int
  ti_noteNullifier :: Hex
  ti_nonce :: string
  ti_salt :: string

record PrivateMatchIntent =
  pmi_batchId :: string
  pmi_intentCommitment :: Hex
  pmi_limitPrice :: int
  pmi_margin :: int
  pmi_marketId :: string
  pmi_noteChangeCommitment :: Hex
  pmi_noteNullifier :: Hex
  pmi_ownerCommitment :: Hex
  pmi_signedSize :: int
  pmi_sourceIntentCommitment :: "Hex option"

record IntentRecord =
  ir_batchId :: string
  ir_batchDigest :: Hex
  ir_marketId :: string
  ir_marketDigest :: Hex
  ir_marginRoot :: Hex
  ir_ownerCommitmentField :: Hex
  ir_ownerCommitment :: Hex
  ir_intentCommitment :: Hex
  ir_matchingPayloadCommitment :: Hex
  ir_noteChangeCommitment :: Hex
  ir_proof :: ProofMeta
  ir_noteNullifier :: Hex
  ir_submissionTxHash :: "Hex option"
  ir_submissionSequence :: "int option"

record OrderLifecycleUpdate =
  olu_intentCommitment :: Hex
  olu_residualCommitment :: "Hex option"
  olu_status :: OrderStatus

record OrderLifecycleRecord =
  olr_intentCommitment :: Hex
  olr_residualCommitment :: "Hex option"
  olr_status :: OrderStatus
  olr_batchId :: string
  olr_createdAt :: int
  olr_matchingRunId :: "Hex option"
  olr_marketId :: string
  olr_ownerCommitment :: Hex
  olr_cancellationTxHash :: "Hex option"
  olr_updatedAt :: int

record ResidualOrderRecord =
  ror_batchId :: string
  ror_createdAt :: int
  ror_intentCommitment :: Hex
  ror_marketId :: string
  ror_matchingPayloadCommitment :: Hex
  ror_noteNullifier :: Hex
  ror_ownerCommitment :: Hex
  ror_sourceIntentCommitment :: Hex
  ror_submissionSequence :: "int option"
  ror_updatedAt :: int

record PositionLifecycleRecord =
  plr_batchId :: string
  plr_closeCommitment :: "Hex option"
  plr_fundingIndex :: "int option"
  plr_liquidationRewardCommitment :: "Hex option"
  plr_marginOutputCommitment :: "Hex option"
  plr_marketId :: string
  plr_newPositionCommitment :: "Hex option"
  plr_openedAt :: int
  plr_ownerCommitment :: Hex
  plr_positionCommitment :: Hex
  plr_positionIndex :: "nat option"
  plr_positionNullifier :: Hex
  plr_settlementDigest :: Hex
  plr_sourceIntentCommitment :: Hex
  plr_status :: PositionStatus
  plr_updatedAt :: int

record IntentValidityRecord =
  ivr_batchDigest :: Hex
  ivr_currentBatch :: int
  ivr_expiryBatch :: int
  ivr_intentCommitment :: Hex
  ivr_marketDigest :: Hex
  ivr_noteChangeCommitment :: Hex
  ivr_noteCommitment :: Hex
  ivr_marginRoot :: Hex
  ivr_noteNullifier :: Hex
  ivr_ownerCommitmentField :: Hex
  ivr_proof :: ProofMeta

record DepositNoteRecord =
  dnr_amount :: int
  dnr_commitment :: Hex
  dnr_tokenDigest :: Hex
  dnr_proof :: ProofMeta

record PendingAssetDepositRecord =
  pad_amount :: int
  pad_commitment :: Hex
  pad_createdAt :: int
  pad_depositProof :: DepositNoteRecord
  pad_finalizedAt :: "int option"
  pad_from :: string
  pad_preparedTxHash :: "Hex option"
  pad_preparedXdrDigest :: Hex
  pad_relayId :: "Hex option"
  pad_token :: string
  pad_tokenDigest :: Hex
  pad_txHash :: "Hex option"

record MarketConfig =
  mc_marketId :: string
  mc_oraclePrice :: int
  mc_maxLeverage :: int
  mc_initialMarginRate :: int
  mc_maintenanceMarginRate :: int
  mc_fundingIndex :: int

record FundingUpdateRecord =
  fur_appliedAt :: int
  fur_fundingDelta :: int
  fur_marketId :: string
  fur_newFundingIndex :: int
  fur_oldFundingIndex :: int
  fur_premiumRate :: "int option"
  fur_premiumSampleCount :: "int option"
  fur_premiumSource :: "PremiumSource option"

record FundingPremiumSampleRecord =
  fps_impactAskPrice :: "int option"
  fps_impactBidPrice :: "int option"
  fps_impactNotional :: int
  fps_indexPrice :: int
  fps_marketId :: string
  fps_premiumRate :: int
  fps_sampledAt :: int

record BatchExecutionRunRecord =
  ber_aggregateVolume :: "int option"
  ber_batchId :: string
  ber_completedAt :: "int option"
  ber_fillCount :: "int option"
  ber_marketId :: string
  ber_phase :: "BatchExecutionPhase option"
  ber_phaseTimestamps :: "(BatchExecutionPhase * int) list option"
  ber_reason :: "string option"
  ber_runId :: Hex
  ber_settlementDigest :: "Hex option"
  ber_startedAt :: int
  ber_status :: BatchExecutionRunStatus
  ber_updatedAt :: "int option"

record LiquidationRecord =
  lr_marketId :: string
  lr_markPrice :: int
  lr_maintenanceRate :: int
  lr_positionCommitment :: Hex
  lr_positionNullifier :: Hex
  lr_positionRoot :: Hex
  lr_rewardCommitment :: Hex
  lr_proof :: ProofMeta
  lr_proofVerificationTxHash :: "Hex option"
  lr_settlementTxHash :: "Hex option"

record LiquidationAutomationJobRecord =
  laj_createdAt :: int
  laj_executedAt :: "int option"
  laj_failedAt :: "int option"
  laj_jobId :: Hex
  laj_liquidation :: LiquidationRecord
  laj_marketId :: string
  laj_positionCommitment :: Hex
  laj_positionNullifier :: Hex
  laj_reason :: "string option"
  laj_rewardCommitment :: Hex
  laj_status :: LiquidationAutomationJobStatus
  laj_updatedAt :: int

record Fill =
  fill_intentCommitment :: Hex
  fill_marketId :: string
  fill_ownerCommitment :: Hex
  fill_side :: side
  fill_size :: int
  fill_price :: int
  fill_margin :: int
  fill_positionCommitment :: Hex
  fill_positionNullifier :: Hex

record BatchSettlement =
  bs_batchId :: string
  bs_marketId :: string
  bs_matchTranscriptDigest :: Hex
  bs_settlementDigest :: Hex
  bs_newCommitments :: "Hex list"
  bs_marginChangeCommitments :: "Hex list option"
  bs_spentNullifiers :: "Hex list"
  bs_matchingPayloadCommitments :: "Hex list"
  bs_residualCommitments :: "Hex list"
  bs_residualMargins :: "int list"
  bs_residualPayloadCommitments :: "Hex list"
  bs_fillCount :: int
  bs_feeConfigHash :: Hex
  bs_grossTakerFee :: int
  bs_makerRebate :: int
  bs_insuranceFee :: int
  bs_treasuryFee :: int
  bs_makerIntents :: "Hex list"
  bs_takerIntents :: "Hex list"
  bs_aggregateVolume :: int
  bs_openInterestDelta :: int
  bs_orderUpdates :: "OrderLifecycleUpdate list option"
  bs_residualSize :: int
  bs_proof :: ProofMeta
  bs_proofVerificationTxHash :: "Hex option"
  bs_settlementTxHash :: "Hex option"
  bs_onchainConfirmed :: "bool option"

record ConditionalOrderWitness =
  cow_marketId :: string
  cow_positionNullifier :: Hex
  cow_side :: side
  cow_kind :: ConditionalOrderKind
  cow_triggerPrice :: int
  cow_markPrice :: int
  cow_size :: int
  cow_reduceOnly :: bool
  cow_salt :: string

record ConditionalOrderCommitment =
  coc_marketId :: string
  coc_positionNullifier :: Hex
  coc_closeCommitment :: Hex

record ConditionalOrderRecord =
  cor_marketId :: string
  cor_markPrice :: int
  cor_positionNullifier :: Hex
  cor_closeCommitment :: Hex
  cor_proof :: ProofMeta
  cor_proofVerificationTxHash :: "Hex option"
  cor_triggerTxHash :: "Hex option"

record PositionCloseRecord =
  pcr_marketId :: string
  pcr_markPrice :: int
  pcr_positionCommitment :: Hex
  pcr_positionNullifier :: Hex
  pcr_positionRoot :: Hex
  pcr_closeCommitment :: Hex
  pcr_newPositionCommitment :: Hex
  pcr_marginOutputCommitment :: Hex
  pcr_outputPositionIndex :: "nat option"
  pcr_outputPositionRoot :: "Hex option"
  pcr_proof :: ProofMeta
  pcr_proofVerificationTxHash :: "Hex option"
  pcr_settlementTxHash :: "Hex option"

record DisclosureRecord =
  dr_disclosureId :: Hex
  dr_subject :: Hex
  dr_claimDigest :: Hex
  dr_root :: Hex
  dr_threshold :: int
  dr_proof :: ProofMeta

record WithdrawalRecord =
  wr_root :: Hex
  wr_nullifier :: Hex
  wr_recipient :: Hex
  wr_tokenDigest :: Hex
  wr_withdrawAmount :: int
  wr_changeCommitment :: Hex
  wr_proof :: ProofMeta

record AccountEventRecord =
  aer_ciphertext :: string
  aer_createdAt :: int
  aer_dataCommitment :: Hex
  aer_eventId :: Hex
  aer_ownerCommitment :: Hex

record AccountEncryptionKeyRecord =
  aek_createdAt :: int
  aek_ownerCommitment :: Hex
  aek_publicKey :: string
  aek_updatedAt :: int

end
