(* ===== verification/Crypto_Field.thy ===== *)
theory Crypto_Field
  imports Protocol_Types
begin

text \<open>
  \<^verbatim>\<open>packages/crypto/src/field.ts\<close>, \<^verbatim>\<open>hash.ts\<close>, \<^verbatim>\<open>nullifiers.ts\<close> and the conversions of
  \<^verbatim>\<open>field-merkle.ts\<close> between BigInts and 32-byte hex strings. SHA-256 (Node), Poseidon2 (a
  package) and \<open>localeCompare\<close> (the host's ICU tables) are not code of the repository: they are
  the fields of a \<open>host\<close> record that every definition using them takes as an argument.
  \<open>sha256_hex\<close> is the digest of a text, \<open>sha256_bytes\<close> of a buffer, which the model holds as the hex
  text of its bytes.
\<close>

record host =
  sha256_hex :: "string \<Rightarrow> string"
  sha256_bytes :: "string \<Rightarrow> string"
  poseidon2Hash :: "int \<Rightarrow> int \<Rightarrow> int"
  localeCompare :: "string \<Rightarrow> string \<Rightarrow> int"

subsection \<open>field.ts\<close>

definition FIELD_PRIME :: int where
  "FIELD_PRIME = 21888242871839275222246405745257275088548364400416034343698204186575808495617"

definition field_mod :: "int \<Rightarrow> int" where
  "field_mod v = (let out = v smod FIELD_PRIME in if out \<ge> 0 then out else out + FIELD_PRIME)"

function invert_loop :: "int \<Rightarrow> int \<Rightarrow> int \<Rightarrow> int \<Rightarrow> int \<times> int" where
  "invert_loop t nextT r nextR =
     (if nextR \<noteq> 0 then
        let q = r sdiv nextR
        in invert_loop nextT (t - q * nextT) nextR (r - q * nextR)
      else (t, r))"
  by pat_completeness auto
termination
proof (relation "measure (\<lambda>(t, nextT, r, nextR). nat \<bar>nextR\<bar>)", goal_cases)
  case 1
  show ?case by simp
next
  case (2 t nextT r nextR q)
  then have "r - q * nextR = r smod nextR" by (simp add: minus_sdiv_mult_eq_smod)
  moreover have "\<bar>r smod nextR\<bar> < \<bar>nextR\<bar>"
    using 2 smod_int_range [of nextR r] by auto
  ultimately show ?case using 2 by simp
qed

declare invert_loop.simps [simp del]

definition invert :: "int \<Rightarrow> int result" where
  "invert v =
     (case invert_loop 0 1 FIELD_PRIME (field_mod v) of (t, r) \<Rightarrow>
        if r > 1 then throw ''field element is not invertible'' else Inr (field_mod t))"

definition encodeSigned :: "int \<Rightarrow> int" where
  "encodeSigned v = field_mod v"

definition decodeSigned :: "int \<Rightarrow> int" where
  "decodeSigned v =
     (let normalized = field_mod v
      in if normalized > FIELD_PRIME sdiv 2 then normalized - FIELD_PRIME else normalized)"

subsection \<open>BigInt of a string, and back\<close>

text \<open>
  \<open>BigInt(s)\<close> on the values of type \<open>Hex\<close>: after the prefix at least one hex digit and nothing
  else, or a SyntaxError. The other literal forms BigInt accepts (decimal, octal, binary, white
  space) have no \<open>0x\<close> prefix, which the type of the callers requires; they end in the error too.
\<close>

definition bigint_of_hex :: "string \<Rightarrow> int result" where
  "bigint_of_hex s =
     (case s of
        CHR ''0'' # CHR ''x'' # d # ds \<Rightarrow>
          (case str_nat 16 0 (d # ds) of
             Some n \<Rightarrow> Inr (int n) | None \<Rightarrow> throw ''SyntaxError: Cannot convert to a BigInt'')
      | _ \<Rightarrow> throw ''SyntaxError: Cannot convert to a BigInt'')"

definition hashToField :: "host \<Rightarrow> string \<Rightarrow> int result" where
  "hashToField h input =
     bindE (bigint_of_hex (''0x'' @ sha256_hex h input)) (\<lambda>d. Inr (d smod FIELD_PRIME))"

definition fieldHex :: "int \<Rightarrow> Hex" where
  "fieldHex v = ''0x'' @ pad_start 64 CHR ''0'' (nat_str 16 (nat (field_mod v)))"

definition digestToFieldHex :: "host \<Rightarrow> string \<Rightarrow> Hex result" where
  "digestToFieldHex h input = bindE (hashToField h input) (\<lambda>v. Inr (fieldHex v))"

text \<open>The arguments of type \<open>Hex | bigint\<close>.\<close>

datatype field_arg = FHex Hex | FBig int

definition toField :: "field_arg \<Rightarrow> int result" where
  "toField v =
     (case v of FBig b \<Rightarrow> Inr (field_mod b)
      | FHex s \<Rightarrow> bindE (bigint_of_hex s) (\<lambda>b. Inr (field_mod b)))"

definition fieldHashPair :: "host \<Rightarrow> field_arg \<Rightarrow> field_arg \<Rightarrow> Hex result" where
  "fieldHashPair h l r =
     bindE (toField l) (\<lambda>a. bindE (toField r) (\<lambda>b. Inr (fieldHex (poseidon2Hash h a b))))"

subsection \<open>hash.ts, nullifiers.ts\<close>

text \<open>
  The values \<open>normalize\<close> receives. A Number is an integral one (the code hashes no other), and an
  object is its entries; sorting the entries by key first and printing the values afterwards, as
  the code does, or the other way round, as here, gives the same text, because the sort looks at
  the keys alone.
\<close>

datatype jsval =
  JBig int | JStr string | JNum int | JBool bool | JNull | JArr "jsval list" | JObj "(string \<times> jsval) list"

fun js_join :: "string \<Rightarrow> string list \<Rightarrow> string" where
  "js_join sep [] = []"
| "js_join sep [x] = x"
| "js_join sep (x # y # zs) = x @ sep @ js_join sep (y # zs)"

primrec normalize :: "host \<Rightarrow> jsval \<Rightarrow> string" where
  "normalize h (JBig v) = int_str v"
| "normalize h (JStr s) = s"
| "normalize h (JNum n) = int_str n"
| "normalize h (JBool b) = (if b then ''true'' else ''false'')"
| "normalize h JNull = []"
| "normalize h (JArr vs) = ''['' @ js_join '','' (map (normalize h) vs) @ '']''"
| "normalize h (JObj es) =
     ''{'' @ js_join '','' (map (\<lambda>(k, v). k @ '':'' @ v)
        (js_sort (\<lambda>(a, _) (b, _). localeCompare h a b) (map (map_prod id (normalize h)) es))) @ ''}''"

definition hash_preimage :: "host \<Rightarrow> string \<Rightarrow> jsval list \<Rightarrow> string" where
  "hash_preimage h domain fs =
     ''pnlx:'' @ domain @ '':'' @ js_join ''|'' (map (normalize h) fs)"

definition hashFields :: "host \<Rightarrow> string \<Rightarrow> jsval list \<Rightarrow> Hex" where
  "hashFields h domain fs = ''0x'' @ sha256_hex h (hash_preimage h domain fs)"

definition nullifier_hash :: "host \<Rightarrow> string \<Rightarrow> string \<Rightarrow> Hex" where
  "nullifier_hash h spendSecret rho = hashFields h ''nullifier'' [JStr spendSecret, JStr rho]"

subsection \<open>Lemmas: canonical field elements\<close>

lemma FIELD_PRIME_pos [simp]: "0 < FIELD_PRIME"
  by (simp add: FIELD_PRIME_def)

lemma FIELD_PRIME_nonneg [simp]: "0 \<le> FIELD_PRIME"
  by (simp add: FIELD_PRIME_def)

lemma field_mod_eq: "field_mod v = v mod FIELD_PRIME"
proof -
  let ?P = FIELD_PRIME and ?r = "v smod FIELD_PRIME"
  have r: "- ?P < ?r" "?r < ?P"
    using smod_int_range [of ?P v] FIELD_PRIME_pos by auto
  have "v mod ?P = (?P * (v sdiv ?P) + ?r) mod ?P" by (simp only: mult_sdiv_smod_eq)
  then have "v mod ?P = ?r mod ?P" by simp
  also have "\<dots> = (if ?r \<ge> 0 then ?r else ?r + ?P)"
  proof (cases "0 \<le> ?r")
    case True
    with r show ?thesis by simp
  next
    case False
    have "?r mod ?P = (?r + ?P) mod ?P" by simp
    also have "\<dots> = ?r + ?P" using False r by (intro mod_pos_pos_trivial) simp_all
    finally show ?thesis using False by simp
  qed
  finally show ?thesis by (simp add: field_mod_def Let_def)
qed

lemma field_mod_range [simp]: "0 \<le> field_mod v" "field_mod v < FIELD_PRIME"
  by (simp_all add: field_mod_eq)

lemma field_mod_idem [simp]: "field_mod (field_mod v) = field_mod v"
  by (simp add: field_mod_eq)

lemma FIELD_PRIME_bound: "FIELD_PRIME \<le> 16 ^ 64"
  by (simp add: FIELD_PRIME_def)

subsection \<open>Lemmas: the text of a field element\<close>

lemma length_nat_str: "2 \<le> b \<Longrightarrow> n < b ^ Suc k \<Longrightarrow> length (nat_str b n) \<le> Suc k"
proof (induction k arbitrary: n)
  case 0
  then show ?case by (simp add: nat_str.simps [of b n])
next
  case (Suc k)
  show ?case
  proof (cases "n < b")
    case True
    then show ?thesis by (simp add: nat_str.simps [of b n])
  next
    case False
    from Suc.prems have "n div b < b ^ Suc k"
      by (simp add: less_mult_imp_div_less mult.commute)
    with Suc False show ?thesis by (simp add: nat_str.simps [of b n])
  qed
qed

definition canonical_hex :: "Hex \<Rightarrow> bool" where
  "canonical_hex s \<longleftrightarrow> (\<exists>v. s = fieldHex v)"

lemma canonical_fieldHex [simp]: "canonical_hex (fieldHex v)"
  by (auto simp: canonical_hex_def)

lemma str_nat_pad: "0 < b \<Longrightarrow> str_nat b 0 (pad_start k CHR ''0'' s) = str_nat b 0 s"
  by (simp add: pad_start_def str_nat_zeros)

lemma length_fieldHex [simp]: "length (fieldHex v) = 66"
proof -
  have "nat (field_mod v) < 16 ^ Suc 63"
    using less_le_trans [OF field_mod_range(2) [of v] FIELD_PRIME_bound] by (simp add: nat_less_iff)
  then have "length (nat_str 16 (nat (field_mod v))) \<le> Suc 63"
    by (intro length_nat_str) simp_all
  then show ?thesis by (simp add: fieldHex_def pad_start_def)
qed

lemma bigint_of_fieldHex [simp]: "bigint_of_hex (fieldHex v) = Inr (field_mod v)"
proof -
  define w where "w = pad_start 64 CHR ''0'' (nat_str 16 (nat (field_mod v)))"
  have "str_nat 16 0 w = Some (nat (field_mod v))"
    by (simp add: w_def str_nat_pad str_nat_nat_str)
  moreover have "w \<noteq> []"
    using length_fieldHex [of v] by (auto simp: fieldHex_def w_def)
  ultimately show ?thesis
    by (cases w) (auto simp: fieldHex_def bigint_of_hex_def w_def [symmetric] simp del: str_nat.simps)
qed

lemma toField_fieldHex [simp]: "toField (FHex (fieldHex v)) = Inr (field_mod v)"
  by (simp add: toField_def)

lemma toField_big [simp]: "toField (FBig v) = Inr (field_mod v)"
  by (simp add: toField_def)

lemma fieldHex_mod [simp]: "fieldHex (field_mod v) = fieldHex v"
  by (simp add: fieldHex_def)

lemma fieldHex_eq_iff: "fieldHex v = fieldHex w \<longleftrightarrow> field_mod v = field_mod w"
proof
  assume "fieldHex v = fieldHex w"
  then have "bigint_of_hex (fieldHex v) = bigint_of_hex (fieldHex w)" by simp
  then show "field_mod v = field_mod w" by simp
qed (simp add: fieldHex_def)

lemma toField_canonical: "canonical_hex s \<Longrightarrow> \<exists>v. toField (FHex s) = Inr v \<and> fieldHex v = s"
  by (auto simp: canonical_hex_def)

subsection \<open>Lemmas: the extended Euclidean loop\<close>

lemma sdiv_mod_step:
  assumes "0 \<le> r" "0 < (n :: int)"
  shows "r - (r sdiv n) * n = r mod n"
  using assms by (simp add: sdiv_nonneg minus_div_mult_eq_mod)

lemma invert_loop_spec:
  assumes "0 \<le> r" and "0 \<le> nextR"
    and "FIELD_PRIME dvd t * v - (r)" and "FIELD_PRIME dvd nextT * v - (nextR)"
    and "invert_loop t nextT r nextR = (t', g)"
  shows "g = gcd r nextR \<and> FIELD_PRIME dvd t' * v - (g)"
  using assms
proof (induction t nextT r nextR rule: invert_loop.induct)
  case (1 t nextT r nextR)
  show ?case
  proof (cases "nextR = 0")
    case True
    with 1 show ?thesis by (simp add: invert_loop.simps [of t])
  next
    case False
    let ?q = "r sdiv nextR"
    have pos: "0 < nextR" using False 1 by simp
    have step: "r - ?q * nextR = r mod nextR" using 1 pos by (simp add: sdiv_mod_step)
    have "FIELD_PRIME dvd (t - ?q * nextT) * v - (r - ?q * nextR)"
    proof -
      have "(t - ?q * nextT) * v - (r - ?q * nextR) = (t * v - r) - ?q * (nextT * v - nextR)"
        by (simp add: algebra_simps)
      then show ?thesis using 1 by (metis dvd_diff dvd_mult)
    qed
    moreover have "invert_loop nextT (t - ?q * nextT) nextR (r - ?q * nextR) = (t', g)"
      using "1.prems"(5) False by (simp add: invert_loop.simps [of t] Let_def)
    ultimately have "g = gcd nextR (r - ?q * nextR) \<and> FIELD_PRIME dvd t' * v - g"
      using "1.prems" pos by (intro "1.IH" [OF False refl]) (simp_all add: step)
    then have euclid: "g = gcd nextR (r mod nextR) \<and> FIELD_PRIME dvd t' * v - g"
      unfolding step .
    have "gcd nextR (r mod nextR) = gcd r nextR"
      by (metis gcd.commute gcd_red_int)
    with euclid show ?thesis by metis
  qed
qed

subsection \<open>Lemmas: joining fields\<close>

lemma split_at_separator:
  "x @ c # a = y @ c # b \<Longrightarrow> c \<notin> set x \<Longrightarrow> c \<notin> set y \<Longrightarrow> x = y \<and> a = b"
proof (induction x arbitrary: y)
  case Nil
  then show ?case by (cases y) auto
next
  case (Cons d x)
  then show ?case by (cases y) auto
qed

lemma js_join_inj:
  assumes "length xs = length ys"
    and "\<forall>x\<in>set xs. c \<notin> set x" and "\<forall>y\<in>set ys. c \<notin> set y"
    and "js_join [c] xs = js_join [c] ys"
  shows "xs = ys"
  using assms
proof (induction xs arbitrary: ys)
  case Nil
  then show ?case by simp
next
  case (Cons x xs)
  then obtain y zs where ys: "ys = y # zs" by (cases ys) auto
  show ?case
  proof (cases xs)
    case Nil
    with Cons ys show ?thesis by simp
  next
    case (Cons x' xs')
    then obtain y' zs' where zs: "zs = y' # zs'" using Cons.prems(1) ys by (cases zs) auto
    have "x @ c # js_join [c] xs = y @ c # js_join [c] zs"
      using Cons.prems(4) ys zs Cons by simp
    then have "x = y \<and> js_join [c] xs = js_join [c] zs"
      by (rule split_at_separator) (use Cons.prems(2,3) ys in auto)
    with Cons.IH [of zs] Cons.prems ys show ?thesis by simp
  qed
qed

subsection \<open>Properties\<close>

text \<open>C37: The inversion loop terminates on every input and is right: it returns the canonical
  inverse when the value is coprime to the field modulus and throws otherwise (zero included).\<close>
theorem invert_correct:
  "case invert v of
     Inr x \<Rightarrow> gcd FIELD_PRIME (field_mod v) = 1 \<and> 0 \<le> x \<and> x < FIELD_PRIME \<and> field_mod (x * v) = 1
   | Inl e \<Rightarrow> gcd FIELD_PRIME (field_mod v) \<noteq> 1 \<and> e = ''field element is not invertible''"
proof -
  obtain t g where loop: "invert_loop 0 1 FIELD_PRIME (field_mod v) = (t, g)" by fastforce
  have "FIELD_PRIME dvd v - field_mod v" by (simp add: field_mod_eq mod_eq_dvd_iff [symmetric])
  then have "g = gcd FIELD_PRIME (field_mod v) \<and> FIELD_PRIME dvd t * v - g"
    by (intro invert_loop_spec [OF _ _ _ _ loop]) simp_all
  then have g: "g = gcd FIELD_PRIME (field_mod v)" and t: "FIELD_PRIME dvd t * v - g" by blast+
  have "0 < g" unfolding g using FIELD_PRIME_pos by (metis gcd_pos_int less_irrefl)
  show ?thesis
  proof (cases "g = 1")
    case True
    have "field_mod (field_mod t * v) = (t * v) mod FIELD_PRIME"
      by (simp add: field_mod_eq mod_mult_left_eq)
    also have "\<dots> = 1 mod FIELD_PRIME" using t True by (simp add: mod_eq_dvd_iff)
    also have "\<dots> = 1" by (simp add: FIELD_PRIME_def)
    finally show ?thesis using True g loop by (simp add: invert_def)
  next
    case False
    with \<open>0 < g\<close> have "g > 1" by simp
    with loop g False show ?thesis by (simp add: invert_def)
  qed
qed

text \<open>Signed encoding round-trips: a BigInt within half the modulus survives
  \<open>encodeSigned\<close> then \<open>decodeSigned\<close>, and the encoding is always a canonical field element.\<close>
theorem signed_encoding_roundtrip:
  assumes "- (FIELD_PRIME div 2) \<le> v" and "v \<le> FIELD_PRIME div 2"
  shows "decodeSigned (encodeSigned v) = v \<and> 0 \<le> encodeSigned v \<and> encodeSigned v < FIELD_PRIME"
proof -
  have odd: "FIELD_PRIME = 2 * (FIELD_PRIME div 2) + 1" by (simp add: FIELD_PRIME_def)
  have half: "FIELD_PRIME sdiv 2 = FIELD_PRIME div 2" by (simp add: sdiv_nonneg FIELD_PRIME_def)
  have "decodeSigned (encodeSigned v) = v"
  proof (cases "0 \<le> v")
    case True
    with assms odd have "field_mod v = v" by (simp add: field_mod_eq)
    with True assms show ?thesis by (simp add: decodeSigned_def encodeSigned_def half)
  next
    case False
    have "field_mod v = (v + FIELD_PRIME) mod FIELD_PRIME" by (simp add: field_mod_eq)
    also have "\<dots> = v + FIELD_PRIME"
      by (rule mod_pos_pos_trivial) (use assms False odd in linarith)+
    finally have m: "field_mod v = v + FIELD_PRIME" .
    have "field_mod v > FIELD_PRIME div 2" using assms odd unfolding m by linarith
    then have "(if field_mod v > FIELD_PRIME div 2 then field_mod v - FIELD_PRIME else field_mod v) = v"
      by (simp add: m)
    then show ?thesis by (simp only: decodeSigned_def encodeSigned_def field_mod_idem half Let_def)
  qed
  then show ?thesis by (simp add: encodeSigned_def)
qed

theorem signed_encoding_roundtrip_witness:
  "decodeSigned (encodeSigned (- 42)) = - 42"
  using signed_encoding_roundtrip [of "- 42"] by (simp add: FIELD_PRIME_def)

text \<open>\<open>fieldHex\<close> prints 32 bytes: every value gives 66 characters, \<open>BigInt\<close> reads them back as
  the value modulo the field, and two values print alike exactly when they are congruent.\<close>
theorem fieldHex_roundtrip:
  "bigint_of_hex (fieldHex v) = Inr (v mod FIELD_PRIME) \<and> length (fieldHex v) = 66
   \<and> (fieldHex v = fieldHex w \<longleftrightarrow> v mod FIELD_PRIME = w mod FIELD_PRIME)"
  by (simp add: fieldHex_eq_iff) (simp add: field_mod_eq)

text \<open>The text \<open>hashFields\<close> hashes determines its fields when they are equally many and none
  contains the separator: commitments over such fields collide only if SHA-256 does.\<close>
theorem hash_preimage_injective:
  assumes "hash_preimage h domain xs = hash_preimage h domain ys" and "length xs = length ys"
    and "\<forall>x\<in>set xs. CHR ''|'' \<notin> set (normalize h x)"
    and "\<forall>y\<in>set ys. CHR ''|'' \<notin> set (normalize h y)"
  shows "map (normalize h) xs = map (normalize h) ys"
  using assms by (intro js_join_inj [where c = "CHR ''|''"]) (auto simp: hash_preimage_def)

definition demo_host :: host where
  "demo_host = \<lparr>sha256_hex = (\<lambda>s. nat_str 16 (sum_list (map (\<lambda>c. of_char c) s))),
     sha256_bytes = (\<lambda>s. nat_str 16 (sum_list (map (\<lambda>c. of_char c) s))),
     poseidon2Hash = (\<lambda>a b. 3 * a + 5 * b + 7), localeCompare = (\<lambda>a b. int (length a) - int (length b))\<rparr>"

theorem hash_preimage_injective_witness:
  "map (normalize demo_host) [JStr ''ab'', JBig 7] = map (normalize demo_host) [JStr ''ab'', JNum 7]"
  by (rule hash_preimage_injective [where domain = "''nullifier''"])
    (simp_all add: hash_preimage_def int_str_def nat_str.simps digit_char_def)

end
