(* ===== verification/Crypto_Merkle.thy ===== *)
theory Crypto_Merkle
  imports Crypto_Field
begin

unbundle bit_operations_syntax

text \<open>
  The two membership trees of \<^verbatim>\<open>packages/crypto/src/field-merkle.ts\<close>: the sorted, padded tree of
  depth 8 over margin notes and the incremental tree of depth 20 over positions, with their proofs,
  and the path check of the circuits (\<open>merkle_root\<close> of \<^verbatim>\<open>circuits/withdraw/src/main.nr\<close>). A
  \<open>Map\<close> from numbers is a \<open>jsmap\<close>. The specification both trees meet is \<open>tnode\<close>, the
  subtree root of the infinite tree whose leaves past the list are empty.
\<close>

definition FIELD_MERKLE_DEPTH :: nat where "FIELD_MERKLE_DEPTH = 8"
definition POSITION_MERKLE_DEPTH :: nat where "POSITION_MERKLE_DEPTH = 20"

record FieldMerkleProof =
  fmp_index :: nat
  fmp_leaf :: Hex
  fmp_root :: Hex
  fmp_siblings :: "Hex list"
  fmp_indices :: "bool list"

definition emptyLeaf :: Hex where
  "emptyLeaf = fieldHex 0"

text \<open>\<open>leaves.map((leaf) => fieldHex(toField(leaf)))\<close>\<close>

definition normalizeLeaf :: "Hex \<Rightarrow> Hex result" where
  "normalizeLeaf leaf = bindE (toField (FHex leaf)) (\<lambda>v. Inr (fieldHex v))"

subsection \<open>The sorted tree\<close>

text \<open>The default order of \<open>Array.prototype.sort\<close>: by code units.\<close>

fun str_cmp :: "string \<Rightarrow> string \<Rightarrow> int" where
  "str_cmp [] [] = 0"
| "str_cmp [] (_ # _) = - 1"
| "str_cmp (_ # _) [] = 1"
| "str_cmp (a # as) (b # bs) =
     (if (of_char a :: nat) < of_char b then - 1
      else if (of_char b :: nat) < of_char a then 1 else str_cmp as bs)"

text \<open>One pass of the inner loop: \<open>for (let i = 0; i < current.length; i += 2)\<close>.\<close>

fun pairLevel :: "host \<Rightarrow> Hex list \<Rightarrow> Hex list result" where
  "pairLevel h [] = Inr []"
| "pairLevel h [x] = throw ''TypeError: Cannot convert undefined to a BigInt''"
| "pairLevel h (x # y # zs) =
     bindE (fieldHashPair h (FHex x) (FHex y)) (\<lambda>n. bindE (pairLevel h zs) (\<lambda>ns. Inr (n # ns)))"

fun levelsFrom :: "host \<Rightarrow> nat \<Rightarrow> Hex list \<Rightarrow> Hex list list result" where
  "levelsFrom h 0 current = Inr [current]"
| "levelsFrom h (Suc d) current =
     bindE (pairLevel h current) (\<lambda>up. bindE (levelsFrom h d up) (\<lambda>ls. Inr (current # ls)))"

definition buildFieldMerkleLevels :: "host \<Rightarrow> Hex list \<Rightarrow> nat \<Rightarrow> Hex list list result" where
  "buildFieldMerkleLevels h leaves depth =
     (let width = 2 ^ depth in
      bindE (mapE normalizeLeaf leaves) (\<lambda>normal.
        let base = js_sort str_cmp normal in
        if length base > width then throw ''field merkle tree is full''
        else levelsFrom h depth (base @ replicate (width - length base) emptyLeaf)))"

definition fieldMerkleRoot :: "host \<Rightarrow> Hex list \<Rightarrow> nat \<Rightarrow> Hex result" where
  "fieldMerkleRoot h leaves depth =
     bindE (buildFieldMerkleLevels h leaves depth) (\<lambda>levels. Inr (last levels ! 0))"

fun findIndex :: "('a \<Rightarrow> bool) \<Rightarrow> 'a list \<Rightarrow> nat option" where
  "findIndex p [] = None"
| "findIndex p (x # xs) = (if p x then Some 0 else map_option Suc (findIndex p xs))"

fun findIndexE :: "('a \<Rightarrow> bool result) \<Rightarrow> 'a list \<Rightarrow> nat option result" where
  "findIndexE p [] = Inr None"
| "findIndexE p (x # xs) =
     bindE (p x) (\<lambda>b. if b then Inr (Some 0)
       else bindE (findIndexE p xs) (\<lambda>r. Inr (map_option Suc r)))"

text \<open>The path loop; \<open>get level i\<close> reads a level, \<open>alt level\<close> is the value after \<open>??\<close>.\<close>

fun pathLoop :: "(nat \<Rightarrow> nat \<Rightarrow> Hex option) \<Rightarrow> (nat \<Rightarrow> Hex) \<Rightarrow> nat \<Rightarrow> nat \<Rightarrow> nat
    \<Rightarrow> (Hex \<times> bool) list" where
  "pathLoop get alt level 0 index = []"
| "pathLoop get alt level (Suc d) index =
     ((case get level (index XOR 1) of Some s \<Rightarrow> s | None \<Rightarrow> alt level), index mod 2 = 1)
       # pathLoop get alt (Suc level) d (index div 2)"

definition list_at :: "'a list \<Rightarrow> nat \<Rightarrow> 'a option" where
  "list_at xs i = (if i < length xs then Some (xs ! i) else None)"

definition fieldMerkleProof :: "host \<Rightarrow> Hex list \<Rightarrow> Hex \<Rightarrow> nat \<Rightarrow> FieldMerkleProof result" where
  "fieldMerkleProof h leaves leaf depth =
     bindE (normalizeLeaf leaf) (\<lambda>normalizedLeaf.
     bindE (buildFieldMerkleLevels h leaves depth) (\<lambda>levels.
       case findIndex (\<lambda>candidate. candidate = normalizedLeaf) (levels ! 0) of
         None \<Rightarrow> throw ''leaf not found''
       | Some index \<Rightarrow>
           let path = pathLoop (\<lambda>level i. list_at (levels ! level) i) (\<lambda>_. emptyLeaf) 0 depth index
           in Inr \<lparr>fmp_index = index, fmp_leaf = normalizedLeaf, fmp_root = levels ! depth ! 0,
                    fmp_siblings = map fst path, fmp_indices = map snd path\<rparr>))"

subsection \<open>merkle.ts\<close>

definition EMPTY_ROOT :: "host \<Rightarrow> Hex" where
  "EMPTY_ROOT h = hashFields h ''merkle-empty'' []"

fun merkleNext :: "host \<Rightarrow> Hex list \<Rightarrow> Hex list" where
  "merkleNext h [] = []"
| "merkleNext h [x] = [hashFields h ''merkle-node'' [JStr x, JStr x]]"
| "merkleNext h (x # y # zs) = hashFields h ''merkle-node'' [JStr x, JStr y] # merkleNext h zs"

lemma length_merkleNext: "length (merkleNext h xs) = (length xs + 1) div 2"
  by (induction h xs rule: merkleNext.induct) auto

function merkleUp :: "host \<Rightarrow> Hex list \<Rightarrow> Hex list" where
  "merkleUp h level = (if length level > 1 then merkleUp h (merkleNext h level) else level)"
  by pat_completeness auto
termination by (relation "measure (\<lambda>(h, level). length level)") (auto simp: length_merkleNext)

declare merkleUp.simps [simp del]

definition merkleRoot :: "host \<Rightarrow> Hex list \<Rightarrow> Hex" where
  "merkleRoot h leaves =
     (if length leaves = 0 then EMPTY_ROOT h else merkleUp h (js_sort str_cmp leaves) ! 0)"

subsection \<open>The incremental tree\<close>

text \<open>\<open>roots.push(fieldHashPair(roots[level], roots[level]))\<close>, \<open>depth\<close> times.\<close>

fun emptyRoots :: "host \<Rightarrow> nat \<Rightarrow> Hex list result" where
  "emptyRoots h 0 = Inr [emptyLeaf]"
| "emptyRoots h (Suc d) =
     bindE (emptyRoots h d) (\<lambda>roots.
     bindE (fieldHashPair h (FHex (last roots)) (FHex (last roots))) (\<lambda>r. Inr (roots @ [r])))"

definition get_or :: "(nat, Hex) jsmap \<Rightarrow> nat \<Rightarrow> Hex \<Rightarrow> Hex" where
  "get_or m i e = (case mget m i of Some x \<Rightarrow> x | None \<Rightarrow> e)"

text \<open>\<open>for (let parent = 0; parent < parentCount; parent += 1) next.set(parent, ...)\<close>\<close>

fun parentLoop :: "host \<Rightarrow> (nat, Hex) jsmap \<Rightarrow> Hex \<Rightarrow> nat list \<Rightarrow> (nat, Hex) jsmap
    \<Rightarrow> (nat, Hex) jsmap result" where
  "parentLoop h current e [] next_map = Inr next_map"
| "parentLoop h current e (p # ps) next_map =
     bindE (fieldHashPair h (FHex (get_or current (p * 2) e)) (FHex (get_or current (p * 2 + 1) e)))
       (\<lambda>n. parentLoop h current e ps (mset_at p n next_map))"

fun incLevels :: "host \<Rightarrow> Hex list \<Rightarrow> (nat, Hex) jsmap \<Rightarrow> nat \<Rightarrow> (nat, Hex) jsmap list result" where
  "incLevels h [] current width = Inr [current]"
| "incLevels h (e # es) current width =
     (let parentCount = (width + 1) div 2 in
      bindE (parentLoop h current e [0..<parentCount] []) (\<lambda>next_map.
      bindE (incLevels h es next_map parentCount) (\<lambda>ls. Inr (current # ls))))"

definition buildIncrementalFieldMerkleLevels ::
  "host \<Rightarrow> Hex list \<Rightarrow> nat \<Rightarrow> (Hex list \<times> (nat, Hex) jsmap list) result" where
  "buildIncrementalFieldMerkleLevels h leaves depth =
     (if length leaves > 2 ^ depth then throw ''position merkle tree is full''
      else
        bindE (emptyRoots h depth) (\<lambda>empties.
        bindE (mapE normalizeLeaf leaves) (\<lambda>normal.
        bindE (incLevels h (take depth empties)
                 (map_new (zip [0..<length normal] normal)) (length leaves))
          (\<lambda>levels. Inr (empties, levels)))))"

definition positionMerkleRoot :: "host \<Rightarrow> Hex list \<Rightarrow> nat \<Rightarrow> Hex result" where
  "positionMerkleRoot h leaves depth =
     bindE (buildIncrementalFieldMerkleLevels h leaves depth) (\<lambda>(empties, levels).
     bindE (emptyRoots h depth) (\<lambda>roots.
       Inr (get_or (levels ! depth) 0 (roots ! depth))))"

definition positionMerkleProof :: "host \<Rightarrow> Hex list \<Rightarrow> Hex \<Rightarrow> nat \<Rightarrow> FieldMerkleProof result" where
  "positionMerkleProof h leaves leaf depth =
     bindE (normalizeLeaf leaf) (\<lambda>normalizedLeaf.
     bindE (findIndexE (\<lambda>candidate. bindE (normalizeLeaf candidate) (\<lambda>c. Inr (c = normalizedLeaf))) leaves)
       (\<lambda>found. case found of
         None \<Rightarrow> throw ''leaf not found''
       | Some index \<Rightarrow>
           bindE (buildIncrementalFieldMerkleLevels h leaves depth) (\<lambda>(empties, levels).
             let path = pathLoop (\<lambda>level i. mget (levels ! level) i) (\<lambda>level. empties ! level)
                          0 depth index
             in Inr \<lparr>fmp_index = index, fmp_leaf = normalizedLeaf,
                      fmp_root = get_or (levels ! depth) 0 (empties ! depth),
                      fmp_siblings = map fst path, fmp_indices = map snd path\<rparr>)))"

subsection \<open>The path check of the circuits\<close>

fun circuit_merkle_root :: "host \<Rightarrow> Hex \<Rightarrow> Hex list \<Rightarrow> bool list \<Rightarrow> Hex result" where
  "circuit_merkle_root h current (s # ss) (b # bs) =
     (let left = (if b then s else current); right = (if b then current else s) in
      bindE (fieldHashPair h (FHex left) (FHex right)) (\<lambda>n. circuit_merkle_root h n ss bs))"
| "circuit_merkle_root h current _ _ = Inr current"

subsection \<open>The tree both routines build\<close>

fun tnode :: "('n \<Rightarrow> 'n \<Rightarrow> 'n) \<Rightarrow> (nat \<Rightarrow> 'n) \<Rightarrow> nat \<Rightarrow> nat \<Rightarrow> 'n" where
  "tnode pr leaf 0 i = leaf i"
| "tnode pr leaf (Suc d) i = pr (tnode pr leaf d (2 * i)) (tnode pr leaf d (2 * i + 1))"

lemma tnode_0: "tnode pr leaf 0 = leaf"
  by (rule ext) simp

fun tpath :: "('n \<Rightarrow> 'n \<Rightarrow> 'n) \<Rightarrow> (nat \<Rightarrow> 'n) \<Rightarrow> nat \<Rightarrow> nat \<Rightarrow> nat \<Rightarrow> ('n \<times> bool) list" where
  "tpath pr leaf l 0 i = []"
| "tpath pr leaf l (Suc d) i =
     (tnode pr leaf l (i XOR 1), i mod 2 = 1) # tpath pr leaf (Suc l) d (i div 2)"

fun fold_path :: "('n \<Rightarrow> 'n \<Rightarrow> 'n) \<Rightarrow> 'n \<Rightarrow> ('n \<times> bool) list \<Rightarrow> 'n" where
  "fold_path pr cur [] = cur"
| "fold_path pr cur ((s, b) # ps) = fold_path pr (if b then pr s cur else pr cur s) ps"

fun eroot :: "('n \<Rightarrow> 'n \<Rightarrow> 'n) \<Rightarrow> 'n \<Rightarrow> nat \<Rightarrow> 'n" where
  "eroot pr e 0 = e"
| "eroot pr e (Suc d) = pr (eroot pr e d) (eroot pr e d)"

definition padded :: "'n list \<Rightarrow> 'n \<Rightarrow> nat \<Rightarrow> 'n" where
  "padded xs e i = (if i < length xs then xs ! i else e)"

text \<open>
  The interface of a node hash: a fallible pairing that is total on canonical nodes. What the two
  tree routines and the circuits rely on is proved here once.
\<close>

locale hash_tree =
  fixes pairE :: "'n \<Rightarrow> 'n \<Rightarrow> 'n result"
    and pr :: "'n \<Rightarrow> 'n \<Rightarrow> 'n"
    and canon :: "'n \<Rightarrow> bool"
    and e :: 'n
  assumes pairE_ok: "canon a \<Longrightarrow> canon b \<Longrightarrow> pairE a b = Inr (pr a b)"
    and canon_pr: "canon a \<Longrightarrow> canon b \<Longrightarrow> canon (pr a b)"
    and canon_e: "canon e"
begin

lemma canon_eroot: "canon (eroot pr e d)"
  by (induction d) (auto intro: canon_pr canon_e)

lemma canon_tnode: "(\<And>i. canon (leaf i)) \<Longrightarrow> canon (tnode pr leaf d i)"
  by (induction d arbitrary: i) (auto intro: canon_pr)

lemma canon_padded: "\<forall>x\<in>set xs. canon x \<Longrightarrow> canon (padded xs e i)"
  by (simp add: padded_def canon_e)

lemma tnode_empty_right:
  "(\<And>i. w \<le> i \<Longrightarrow> tnode pr leaf l i = eroot pr e l) \<Longrightarrow> (w + 1) div 2 \<le> i
     \<Longrightarrow> tnode pr leaf (Suc l) i = eroot pr e (Suc l)"
  by simp

lemma fold_tpath:
  "fold_path pr (tnode pr leaf l i) (tpath pr leaf l d i) = tnode pr leaf (l + d) (i div 2 ^ d)"
proof (induction d arbitrary: l i)
  case 0
  then show ?case by simp
next
  case (Suc d)
  have "(if i mod 2 = 1 then pr (tnode pr leaf l (i XOR 1)) (tnode pr leaf l i)
         else pr (tnode pr leaf l i) (tnode pr leaf l (i XOR 1))) = tnode pr leaf (Suc l) (i div 2)"
  proof (cases "even i")
    case True
    then have "i XOR 1 = i + 1" "2 * (i div 2) = i" by (simp_all add: xor_Suc_0_eq)
    with True show ?thesis by simp
  next
    case False
    then have "i XOR 1 = i - 1" "2 * (i div 2) = i - 1" "Suc (2 * (i div 2)) = i"
      by (simp_all add: xor_Suc_0_eq)
    moreover from False have "i mod 2 = 1" by (simp add: odd_iff_mod_2_eq_one)
    ultimately show ?thesis by simp
  qed
  moreover have "i div 2 div 2 ^ d = i div 2 ^ Suc d" by (simp add: div_mult2_eq)
  ultimately show ?case using Suc.IH [of "Suc l" "i div 2"]
    by (simp only: tpath.simps fold_path.simps add_Suc add_Suc_right)
qed

end

text \<open>The pairing of the code, on canonical hex strings.\<close>

definition hex_val :: "Hex \<Rightarrow> int" where
  "hex_val s = (case bigint_of_hex s of Inr b \<Rightarrow> field_mod b | Inl _ \<Rightarrow> 0)"

definition hexpair :: "host \<Rightarrow> Hex \<Rightarrow> Hex \<Rightarrow> Hex" where
  "hexpair h a b = fieldHex (poseidon2Hash h (hex_val a) (hex_val b))"

lemma fieldHashPair_canonical:
  "canonical_hex a \<Longrightarrow> canonical_hex b \<Longrightarrow> fieldHashPair h (FHex a) (FHex b) = Inr (hexpair h a b)"
  by (auto simp: canonical_hex_def fieldHashPair_def hexpair_def hex_val_def)

interpretation ht: hash_tree "\<lambda>a b. fieldHashPair h (FHex a) (FHex b)" "hexpair h" canonical_hex emptyLeaf
  for h
  by unfold_locales (simp_all add: fieldHashPair_canonical emptyLeaf_def, simp add: hexpair_def)

lemma normalizeLeaf_canonical: "normalizeLeaf x = Inr y \<Longrightarrow> canonical_hex y"
  by (auto simp: normalizeLeaf_def bindE_Inr_iff)

lemma normal_leaves_canonical: "mapE normalizeLeaf xs = Inr ys \<Longrightarrow> \<forall>y\<in>set ys. canonical_hex y"
  by (auto simp: mapE_Inr_iff list_all2_conv_all_nth in_set_conv_nth)
    (metis normalizeLeaf_canonical)

subsection \<open>Lemmas: the sorted tree\<close>

lemma pairLevel_map:
  "(\<And>i. canonical_hex (f i)) \<Longrightarrow>
   pairLevel h (map f [2 * a..<2 * b]) = Inr (map (\<lambda>i. hexpair h (f (2 * i)) (f (2 * i + 1))) [a..<b])"
proof (induction "b - a" arbitrary: a)
  case 0
  then show ?case by simp
next
  case (Suc k)
  then have "a < b" by simp
  then have "[2 * a..<2 * b] = 2 * a # (2 * a + 1) # [2 * Suc a..<2 * b]"
    by (simp add: upt_conv_Cons)
  moreover have "pairLevel h (map f [2 * Suc a..<2 * b])
      = Inr (map (\<lambda>i. hexpair h (f (2 * i)) (f (2 * i + 1))) [Suc a..<b])"
    by (rule Suc.hyps(1)) (use Suc in simp_all)
  ultimately show ?case using Suc.prems \<open>a < b\<close>
    by (simp add: fieldHashPair_canonical upt_conv_Cons [of a b])
qed

lemma levelsFrom_map:
  assumes "\<And>i. canonical_hex (leaf i)"
  shows "levelsFrom h d (map (tnode (hexpair h) leaf l) [0..<2 ^ d])
    = Inr (map (\<lambda>k. map (tnode (hexpair h) leaf (l + k)) [0..<2 ^ (d - k)]) [0..<Suc d])"
proof (induction d arbitrary: l)
  case 0
  then show ?case by simp
next
  case (Suc d)
  have "pairLevel h (map (tnode (hexpair h) leaf l) [0..<2 ^ Suc d])
      = Inr (map (tnode (hexpair h) leaf (Suc l)) [0..<2 ^ d])"
    using pairLevel_map [of "tnode (hexpair h) leaf l" h 0 "2 ^ d"] assms by (simp add: ht.canon_tnode)
  moreover have "map (\<lambda>k. map (tnode (hexpair h) leaf (l + k)) [0..<2 ^ (Suc d - k)]) [0..<Suc (Suc d)]
      = map (tnode (hexpair h) leaf l) [0..<2 ^ Suc d]
        # map (\<lambda>k. map (tnode (hexpair h) leaf (Suc l + k)) [0..<2 ^ (d - k)]) [0..<Suc d]"
    by (subst upt_conv_Cons, simp) (simp add: map_Suc_upt [symmetric] del: upt_Suc map_Suc_upt)
  ultimately show ?case by (simp only: levelsFrom.simps bindE_simps Suc.IH)
qed

lemma padded_replicate:
  "length xs \<le> n \<Longrightarrow> xs @ replicate (n - length xs) e = map (padded xs e) [0..<n]"
  by (rule nth_equalityI) (auto simp: padded_def nth_append)

definition sorted_leaf :: "Hex list \<Rightarrow> nat \<Rightarrow> Hex" where
  "sorted_leaf normal = padded (js_sort str_cmp normal) emptyLeaf"

lemma buildFieldMerkleLevels_Inr:
  "buildFieldMerkleLevels h leaves d = Inr levels \<longleftrightarrow>
     (\<exists>normal. mapE normalizeLeaf leaves = Inr normal \<and> length leaves \<le> 2 ^ d
       \<and> levels = map (\<lambda>k. map (tnode (hexpair h) (sorted_leaf normal) k) [0..<2 ^ (d - k)]) [0..<Suc d])"
proof -
  { fix normal assume n: "mapE normalizeLeaf leaves = Inr normal"
    let ?base = "js_sort str_cmp normal"
    have canon: "canonical_hex (sorted_leaf normal i)" for i
      using normal_leaves_canonical [OF n] by (simp add: sorted_leaf_def ht.canon_padded)
    have "length leaves \<le> 2 ^ d \<Longrightarrow>
        ?base @ replicate (2 ^ d - length ?base) emptyLeaf
        = map (tnode (hexpair h) (sorted_leaf normal) 0) [0..<2 ^ d]"
      using mapE_length [OF n] padded_replicate [of ?base "2 ^ d" emptyLeaf]
      by (simp add: sorted_leaf_def tnode_0)
    then have "length leaves \<le> 2 ^ d \<Longrightarrow>
        levelsFrom h d (?base @ replicate (2 ^ d - length ?base) emptyLeaf)
        = Inr (map (\<lambda>k. map (tnode (hexpair h) (sorted_leaf normal) (0 + k)) [0..<2 ^ (d - k)]) [0..<Suc d])"
      by (simp only: levelsFrom_map [where leaf = "sorted_leaf normal", OF canon]) }
  then show ?thesis
    by (cases "mapE normalizeLeaf leaves")
      (auto simp: buildFieldMerkleLevels_def Let_def mapE_length not_less simp del: upt_Suc)
qed

lemma findIndex_Some:
  "findIndex p xs = Some i \<Longrightarrow> i < length xs \<and> p (xs ! i) \<and> (\<forall>j<i. \<not> p (xs ! j))"
proof (induction xs arbitrary: i)
  case (Cons x xs)
  then show ?case by (auto simp: less_Suc_eq_0_disj split: if_splits)
qed simp

lemma findIndex_None: "findIndex p xs = None \<longleftrightarrow> (\<forall>x\<in>set xs. \<not> p x)"
  by (induction xs) auto

lemma xor_one_bound:
  fixes i :: nat
  assumes "i < 2 ^ Suc d"
  shows "i XOR 1 < 2 ^ Suc d"
proof -
  from assms have "i < 2 ^ Suc d" .
  moreover have "even (2 ^ Suc d :: nat)" by simp
  ultimately have "even i \<Longrightarrow> Suc i < 2 ^ Suc d"
    by (metis Suc_lessI even_Suc)
  with \<open>i < 2 ^ Suc d\<close> show ?thesis by (auto simp: xor_Suc_0_eq)
qed

lemma pathLoop_tpath:
  assumes "i < 2 ^ d"
    and "\<And>k j. k < d \<Longrightarrow> j < 2 ^ (d - k) \<Longrightarrow>
      (case get (l + k) j of Some s \<Rightarrow> s | None \<Rightarrow> alt (l + k)) = tnode pr leaf (l + k) j"
  shows "pathLoop get alt l d i = tpath pr leaf l d i"
  using assms
proof (induction d arbitrary: l i)
  case 0
  then show ?case by simp
next
  case (Suc d)
  have "pathLoop get alt (Suc l) d (i div 2) = tpath pr leaf (Suc l) d (i div 2)"
  proof (rule Suc.IH)
    show "i div 2 < 2 ^ d" using Suc.prems(1) by (simp add: less_mult_imp_div_less mult.commute)
  next
    fix k j :: nat
    assume "k < d" and "j < 2 ^ (d - k)"
    then show "(case get (Suc l + k) j of Some s \<Rightarrow> s | None \<Rightarrow> alt (Suc l + k))
        = tnode pr leaf (Suc l + k) j"
      using Suc.prems(2) [of "Suc k" j]
      by (simp only: add_Suc add_Suc_right Suc_less_eq diff_Suc_Suc)
  qed
  moreover have "(case get l (i XOR 1) of Some s \<Rightarrow> s | None \<Rightarrow> alt l) = tnode pr leaf l (i XOR 1)"
    using Suc.prems(2) [of 0 "i XOR 1", unfolded add_0_right] xor_one_bound [OF Suc.prems(1)] by simp
  ultimately show ?case by (simp only: pathLoop.simps tpath.simps)
qed

lemma circuit_merkle_root_fold:
  assumes "canonical_hex cur" and "\<forall>(s, b)\<in>set ps. canonical_hex s"
  shows "circuit_merkle_root h cur (map fst ps) (map snd ps) = Inr (fold_path (hexpair h) cur ps)"
  using assms
proof (induction ps arbitrary: cur)
  case Nil
  then show ?case by simp
next
  case (Cons p ps)
  then show ?case
    by (cases p) (auto simp: fieldHashPair_canonical Let_def ht.canon_pr)
qed

lemma canonical_tpath:
  "(\<And>i. canonical_hex (leaf i)) \<Longrightarrow> \<forall>(s, b)\<in>set (tpath (hexpair h) leaf l d i). canonical_hex s"
  by (induction d arbitrary: l i) (auto intro: ht.canon_tnode simp: ht.canon_tnode)

text \<open>Both proofs are paths of the specification tree; the circuit accepts every such path.\<close>

lemma circuit_accepts_tpath:
  assumes "\<And>i. canonical_hex (leaf i)" and "i < 2 ^ d"
  shows "circuit_merkle_root h (leaf i) (map fst (tpath (hexpair h) leaf 0 d i))
      (map snd (tpath (hexpair h) leaf 0 d i)) = Inr (tnode (hexpair h) leaf d 0)"
proof -
  have "circuit_merkle_root h (leaf i) (map fst (tpath (hexpair h) leaf 0 d i))
      (map snd (tpath (hexpair h) leaf 0 d i))
      = Inr (fold_path (hexpair h) (tnode (hexpair h) leaf 0 i) (tpath (hexpair h) leaf 0 d i))"
    by (simp only: tnode.simps(1)
        circuit_merkle_root_fold [OF assms(1) canonical_tpath [where leaf = leaf, OF assms(1)]])
  also have "\<dots> = Inr (tnode (hexpair h) leaf (0 + d) (i div 2 ^ d))"
    by (simp only: ht.fold_tpath)
  finally show ?thesis using assms(2) by simp
qed

subsection \<open>Lemmas: the incremental tree\<close>

definition lv :: "(nat \<Rightarrow> 'a) \<Rightarrow> nat \<Rightarrow> (nat, 'a) jsmap" where
  "lv f w = map (\<lambda>i. (i, f i)) [0..<w]"

fun halvings :: "nat \<Rightarrow> nat \<Rightarrow> nat" where
  "halvings w 0 = w"
| "halvings w (Suc k) = halvings ((w + 1) div 2) k"

lemma mget_lv: "mget (lv f w) j = (if j < w then Some (f j) else None)"
proof (induction w)
  case 0
  then show ?case by (simp add: lv_def)
next
  case (Suc w)
  then show ?case
    by (cases "j = w") (auto simp: lv_def mget_def map_of_append map_add_def split: option.splits)
qed

lemma lv_Suc: "mset_at w x (lv f w) = lv (f(w := x)) (Suc w)"
proof -
  have "\<not> mhas (lv f w) w" by (simp add: mhas_def mget_lv)
  then show ?thesis by (simp add: mset_at_fresh) (simp add: lv_def)
qed

lemma get_or_lv:
  "(\<And>i. w \<le> i \<Longrightarrow> f i = e) \<Longrightarrow> get_or (lv f w) j e = f j"
  by (simp add: get_or_def mget_lv)

lemma emptyRoots_eq: "emptyRoots h d = Inr (map (eroot (hexpair h) emptyLeaf) [0..<Suc d])"
proof (induction d)
  case 0
  then show ?case by simp
next
  case (Suc d)
  have "last (map (eroot (hexpair h) emptyLeaf) [0..<Suc d]) = eroot (hexpair h) emptyLeaf d" by simp
  with Suc show ?case
    by (simp only: emptyRoots.simps bindE_simps fieldHashPair_canonical [OF ht.canon_eroot ht.canon_eroot])
      simp
qed

lemma parentLoop_lv:
  assumes "\<And>i. canonical_hex (f i)" and "\<And>i. w \<le> i \<Longrightarrow> f i = e"
  shows "parentLoop h (lv f w) e [a..<b] (lv g a)
    = Inr (lv (\<lambda>i. if i < a then g i else hexpair h (f (2 * i)) (f (2 * i + 1))) (max a b))"
proof (induction "b - a" arbitrary: a g)
  case 0
  then have "max a b = a" "[a..<b] = []" by simp_all
  then show ?case by (simp add: lv_def)
next
  case (Suc k)
  then have "a < b" by simp
  let ?x = "hexpair h (f (2 * a)) (f (2 * a + 1))"
  have "parentLoop h (lv f w) e [Suc a..<b] (lv (g(a := ?x)) (Suc a))
      = Inr (lv (\<lambda>i. if i < Suc a then (g(a := ?x)) i else hexpair h (f (2 * i)) (f (2 * i + 1))) (max (Suc a) b))"
    by (rule Suc.hyps(1)) (use Suc in simp)
  moreover have "(\<lambda>i. if i < Suc a then (g(a := ?x)) i else hexpair h (f (2 * i)) (f (2 * i + 1)))
      = (\<lambda>i. if i < a then g i else hexpair h (f (2 * i)) (f (2 * i + 1)))"
    by (rule ext) (simp add: less_Suc_eq)
  moreover have "max (Suc a) b = max a b" using \<open>a < b\<close> by simp
  moreover have "[a..<b] = a # [Suc a..<b]" using \<open>a < b\<close> by (simp add: upt_conv_Cons)
  ultimately show ?case
    by (simp add: get_or_lv [OF assms(2)] fieldHashPair_canonical assms(1) lv_Suc mult.commute)
qed

lemma incLevels_lv:
  assumes "\<And>i. canonical_hex (leaf i)"
    and "\<And>i. w \<le> i \<Longrightarrow> tnode (hexpair h) leaf l i = eroot (hexpair h) emptyLeaf l"
  shows "incLevels h (map (eroot (hexpair h) emptyLeaf) [l..<l + d]) (lv (tnode (hexpair h) leaf l) w) w
    = Inr (map (\<lambda>k. lv (tnode (hexpair h) leaf (l + k)) (halvings w k)) [0..<Suc d])"
  using assms(2)
proof (induction d arbitrary: l w)
  case 0
  then show ?case by simp
next
  case (Suc d)
  let ?w = "(w + 1) div 2" and ?t = "tnode (hexpair h) leaf"
  have "parentLoop h (lv (?t l) w) (eroot (hexpair h) emptyLeaf l) [0..<?w] (lv (\<lambda>_. []) 0)
      = Inr (lv (?t (Suc l)) ?w)"
    using parentLoop_lv [of "?t l" w "eroot (hexpair h) emptyLeaf l" h 0 ?w "\<lambda>_. []"] Suc.prems
    by (simp add: ht.canon_tnode assms(1)) (simp add: lv_def)
  then have step: "parentLoop h (lv (?t l) w) (eroot (hexpair h) emptyLeaf l) [0..<?w] []
      = Inr (lv (?t (Suc l)) ?w)"
    by (simp add: lv_def)
  have rest: "incLevels h (map (eroot (hexpair h) emptyLeaf) [Suc l..<Suc l + d]) (lv (?t (Suc l)) ?w) ?w
      = Inr (map (\<lambda>k. lv (?t (Suc l + k)) (halvings ?w k)) [0..<Suc d])"
    by (rule Suc.IH) (rule ht.tnode_empty_right [OF Suc.prems])
  have "[l..<l + Suc d] = l # [Suc l..<Suc l + d]" by (simp add: upt_conv_Cons)
  moreover have "map (\<lambda>k. lv (?t (l + k)) (halvings w k)) [0..<Suc (Suc d)]
      = lv (?t l) w # map (\<lambda>k. lv (?t (Suc l + k)) (halvings ?w k)) [0..<Suc d]"
    by (subst upt_conv_Cons, simp) (simp add: map_Suc_upt [symmetric] del: upt_Suc map_Suc_upt)
  ultimately show ?case
    by (simp only: list.map incLevels.simps Let_def step rest bindE_simps)
qed

definition ordered_leaf :: "Hex list \<Rightarrow> nat \<Rightarrow> Hex" where
  "ordered_leaf normal = padded normal emptyLeaf"

lemma tnode_past_end:
  "length normal \<le> i \<Longrightarrow> tnode (hexpair h) (ordered_leaf normal) 0 i = eroot (hexpair h) emptyLeaf 0"
  by (simp add: ordered_leaf_def padded_def)

lemma tnode_past_level:
  "halvings (length normal) k \<le> i \<Longrightarrow>
     tnode (hexpair h) (ordered_leaf normal) k i = eroot (hexpair h) emptyLeaf k"
proof -
  have "(\<And>i. w \<le> i \<Longrightarrow> tnode (hexpair h) leaf l i = eroot (hexpair h) emptyLeaf l) \<Longrightarrow>
      halvings w k \<le> i \<Longrightarrow> tnode (hexpair h) leaf (l + k) i = eroot (hexpair h) emptyLeaf (l + k)"
    for leaf w l i
  proof (induction k arbitrary: w l i)
    case 0
    then show ?case by simp
  next
    case (Suc k)
    have "tnode (hexpair h) leaf (Suc l + k) i = eroot (hexpair h) emptyLeaf (Suc l + k)"
      by (rule Suc.IH [of "(w + 1) div 2"])
        (use ht.tnode_empty_right [OF Suc.prems(1)] Suc.prems(2) in \<open>simp_all only: halvings.simps\<close>)
    then show ?case by (simp only: add_Suc add_Suc_right)
  qed
  from this [of "length normal" "ordered_leaf normal" 0 i, OF tnode_past_end]
  show "halvings (length normal) k \<le> i \<Longrightarrow> ?thesis" by (simp only: add_0)
qed

lemma map_new_distinct: "distinct (map fst es) \<Longrightarrow> map_new es = es"
proof -
  have "distinct (map fst (acc @ es)) \<Longrightarrow> fold (\<lambda>(k, v) m. mset_at k v m) es acc = acc @ es" for acc
  proof (induction es arbitrary: acc)
    case (Cons e es)
    obtain k v where e: "e = (k, v)" by (cases e)
    from Cons.prems e have "\<not> mhas acc k" by (auto simp: mhas_keys mkeys_def)
    with Cons.IH [of "acc @ [(k, v)]"] Cons.prems e show ?case by (simp add: mset_at_fresh)
  qed simp
  from this [of "[]"] show "distinct (map fst es) \<Longrightarrow> ?thesis" by (simp add: map_new_def)
qed

lemma zip_lv: "zip [0..<length xs] xs = lv (padded xs e) (length xs)"
  by (rule nth_equalityI) (auto simp: lv_def padded_def)

lemma buildIncremental_Inr:
  "buildIncrementalFieldMerkleLevels h leaves d = Inr (empties, levels) \<longleftrightarrow>
     (\<exists>normal. mapE normalizeLeaf leaves = Inr normal \<and> length leaves \<le> 2 ^ d
       \<and> empties = map (eroot (hexpair h) emptyLeaf) [0..<Suc d]
       \<and> levels = map (\<lambda>k. lv (tnode (hexpair h) (ordered_leaf normal) k) (halvings (length normal) k)) [0..<Suc d])"
proof (cases "mapE normalizeLeaf leaves")
  case (Inl e)
  then show ?thesis by (simp add: buildIncrementalFieldMerkleLevels_def emptyRoots_eq del: upt_Suc)
next
  case (Inr normal)
  have canon: "canonical_hex (ordered_leaf normal i)" for i
    using normal_leaves_canonical [OF Inr] by (simp add: ordered_leaf_def ht.canon_padded)
  have start: "map_new (zip [0..<length normal] normal)
      = lv (tnode (hexpair h) (ordered_leaf normal) 0) (length normal)"
    by (simp add: map_new_distinct tnode_0 ordered_leaf_def zip_lv [of _ emptyLeaf, symmetric])
  have "take d (map (eroot (hexpair h) emptyLeaf) [0..<Suc d]) = map (eroot (hexpair h) emptyLeaf) [0..<0 + d]"
    by (simp add: take_map)
  with incLevels_lv [where leaf = "ordered_leaf normal" and l = 0 and d = d and w = "length normal" and h = h,
      OF canon tnode_past_end]
  have "incLevels h (take d (map (eroot (hexpair h) emptyLeaf) [0..<Suc d]))
      (map_new (zip [0..<length normal] normal)) (length leaves)
      = Inr (map (\<lambda>k. lv (tnode (hexpair h) (ordered_leaf normal) k) (halvings (length normal) k)) [0..<Suc d])"
    by (simp only: start mapE_length [OF Inr, symmetric] add_0)
  with Inr show ?thesis
    by (auto simp: buildIncrementalFieldMerkleLevels_def emptyRoots_eq not_less simp del: upt_Suc)
qed

lemma findIndexE_Some:
  "findIndexE p xs = Inr (Some i) \<Longrightarrow> i < length xs \<and> p (xs ! i) = Inr True"
proof (induction xs arbitrary: i)
  case (Cons x xs)
  then show ?case by (auto simp: bindE_Inr_iff split: if_splits)
qed simp

subsection \<open>Properties\<close>

text \<open>The margin membership tree: every proof \<open>fieldMerkleProof\<close> issues is accepted by the
  path check of the circuits against the root \<open>fieldMerkleRoot\<close> publishes for the same leaves, and
  has exactly one sibling per level.\<close>
theorem field_merkle_proof_verifies:
  assumes "fieldMerkleProof h leaves leaf d = Inr pf"
  shows "circuit_merkle_root h (fmp_leaf pf) (fmp_siblings pf) (fmp_indices pf) = Inr (fmp_root pf)
    \<and> fieldMerkleRoot h leaves d = Inr (fmp_root pf)
    \<and> length (fmp_siblings pf) = d \<and> length (fmp_indices pf) = d"
proof -
  have len: "length (tpath pr leaf l d i) = d" for pr :: "Hex \<Rightarrow> Hex \<Rightarrow> Hex" and leaf l d i
    by (induction d arbitrary: l i) simp_all
  from assms obtain nleaf levels i where nleaf: "normalizeLeaf leaf = Inr nleaf"
    and lev: "buildFieldMerkleLevels h leaves d = Inr levels"
    and idx: "findIndex (\<lambda>candidate. candidate = nleaf) (levels ! 0) = Some i"
    and pf: "pf = (let path = pathLoop (\<lambda>level i. list_at (levels ! level) i) (\<lambda>_. emptyLeaf) 0 d i
      in \<lparr>fmp_index = i, fmp_leaf = nleaf, fmp_root = levels ! d ! 0,
           fmp_siblings = map fst path, fmp_indices = map snd path\<rparr>)"
    by (auto simp: fieldMerkleProof_def bindE_Inr_iff Let_def split: option.splits)
  from lev obtain normal where normal: "mapE normalizeLeaf leaves = Inr normal"
    and levels: "levels = map (\<lambda>k. map (tnode (hexpair h) (sorted_leaf normal) k) [0..<2 ^ (d - k)]) [0..<Suc d]"
    by (auto simp: buildFieldMerkleLevels_Inr)
  have canon: "canonical_hex (sorted_leaf normal j)" for j
    using normal_leaves_canonical [OF normal] by (simp add: sorted_leaf_def ht.canon_padded)
  have at: "k < Suc d \<Longrightarrow> levels ! k = map (tnode (hexpair h) (sorted_leaf normal) k) [0..<2 ^ (d - k)]" for k
    by (simp add: levels del: upt_Suc)
  from findIndex_Some [OF idx] at [of 0] have i: "i < 2 ^ d" and leaf: "sorted_leaf normal i = nleaf"
    by auto
  have path: "pathLoop (\<lambda>level i. list_at (levels ! level) i) (\<lambda>_. emptyLeaf) 0 d i
      = tpath (hexpair h) (sorted_leaf normal) 0 d i"
    by (rule pathLoop_tpath [OF i]) (simp add: at list_at_def)
  show ?thesis
    using circuit_accepts_tpath [of "sorted_leaf normal" i d h, OF canon i] leaf at [of d] lev
    by (simp add: pf path Let_def len fieldMerkleRoot_def last_conv_nth) (simp add: levels)
qed

definition demo_field_proof :: "FieldMerkleProof result" where
  "demo_field_proof = fieldMerkleProof demo_host [''0x2'', ''0x1''] ''0x2'' 1"

lemma demo_field_proof_Inr:
  "demo_field_proof = Inr \<lparr>fmp_index = 1, fmp_leaf = fieldHex 2, fmp_root = fieldHex 20,
     fmp_siblings = [fieldHex 1], fmp_indices = [True]\<rparr>"
  by code_simp

theorem field_merkle_proof_verifies_witness:
  "circuit_merkle_root demo_host (fieldHex 2) [fieldHex 1] [True] = Inr (fieldHex 20)
   \<and> fieldMerkleRoot demo_host [''0x2'', ''0x1''] 1 = Inr (fieldHex 20)"
  using field_merkle_proof_verifies [OF demo_field_proof_Inr [unfolded demo_field_proof_def]] by simp

text \<open>C36: The incremental position tree computes the root of the full tree: padding the
  normalised leaves with empty ones up to \<open>2 ^ depth\<close> and hashing level by level gives the same root,
  although the code never materialises the empty part. More leaves than that are refused.\<close>
theorem position_root_is_padded_root:
  "positionMerkleRoot h leaves d =
     (if length leaves > 2 ^ d then Inl ''position merkle tree is full''
      else bindE (mapE normalizeLeaf leaves) (\<lambda>normal.
           bindE (levelsFrom h d (normal @ replicate (2 ^ d - length normal) emptyLeaf)) (\<lambda>levels.
             Inr (last levels ! 0))))"
proof (cases "mapE normalizeLeaf leaves")
  case (Inl e)
  then show ?thesis
    by (simp add: positionMerkleRoot_def buildIncrementalFieldMerkleLevels_def emptyRoots_eq)
next
  case (Inr normal)
  have canon: "canonical_hex (ordered_leaf normal i)" for i
    using normal_leaves_canonical [OF Inr] by (simp add: ordered_leaf_def ht.canon_padded)
  let ?inc = "map (\<lambda>k. lv (tnode (hexpair h) (ordered_leaf normal) k) (halvings (length normal) k)) [0..<Suc d]"
  show ?thesis
  proof (cases "length leaves > 2 ^ d")
    case True
    then show ?thesis by (simp add: positionMerkleRoot_def buildIncrementalFieldMerkleLevels_def)
  next
    case False
    with Inr have "buildIncrementalFieldMerkleLevels h leaves d
        = Inr (map (eroot (hexpair h) emptyLeaf) [0..<Suc d], ?inc)"
      by (simp add: buildIncremental_Inr not_less del: upt_Suc)
    then have "positionMerkleRoot h leaves d
        = Inr (get_or (?inc ! d) 0 (map (eroot (hexpair h) emptyLeaf) [0..<Suc d] ! d))"
      by (simp only: positionMerkleRoot_def emptyRoots_eq bindE_simps prod.case)
    also have "\<dots> = Inr (tnode (hexpair h) (ordered_leaf normal) d 0)"
      by (simp add: get_or_lv tnode_past_level del: upt_Suc)
    finally have inc: "positionMerkleRoot h leaves d = Inr (tnode (hexpair h) (ordered_leaf normal) d 0)" .
    have "length normal \<le> 2 ^ d" using False mapE_length [OF Inr] by simp
    then have "levelsFrom h d (normal @ replicate (2 ^ d - length normal) emptyLeaf)
        = Inr (map (\<lambda>k. map (tnode (hexpair h) (ordered_leaf normal) (0 + k)) [0..<2 ^ (d - k)]) [0..<Suc d])"
      using levelsFrom_map [where leaf = "ordered_leaf normal" and h = h and d = d and l = 0, OF canon]
      by (simp only: padded_replicate tnode_0 ordered_leaf_def)
    then have "bindE (levelsFrom h d (normal @ replicate (2 ^ d - length normal) emptyLeaf))
        (\<lambda>levels. Inr (last levels ! 0)) = Inr (tnode (hexpair h) (ordered_leaf normal) d 0)"
      by simp
    then show ?thesis using inc False Inr by simp
  qed
qed

text \<open>Every proof \<open>positionMerkleProof\<close> issues is accepted by the path check of the circuits
  against the root \<open>positionMerkleRoot\<close> publishes, and is for the leaf at the index it reports.\<close>
theorem position_merkle_proof_verifies:
  assumes "positionMerkleProof h leaves leaf d = Inr pf"
  shows "circuit_merkle_root h (fmp_leaf pf) (fmp_siblings pf) (fmp_indices pf) = Inr (fmp_root pf)
    \<and> positionMerkleRoot h leaves d = Inr (fmp_root pf)
    \<and> fmp_index pf < length leaves \<and> normalizeLeaf (leaves ! fmp_index pf) = Inr (fmp_leaf pf)"
proof -
  from assms obtain nleaf empties levels i where nleaf: "normalizeLeaf leaf = Inr nleaf"
    and lev: "buildIncrementalFieldMerkleLevels h leaves d = Inr (empties, levels)"
    and idx: "findIndexE (\<lambda>c. bindE (normalizeLeaf c) (\<lambda>c. Inr (c = nleaf))) leaves = Inr (Some i)"
    and pf: "pf = (let path = pathLoop (\<lambda>level i. mget (levels ! level) i) (\<lambda>level. empties ! level) 0 d i
      in \<lparr>fmp_index = i, fmp_leaf = nleaf, fmp_root = get_or (levels ! d) 0 (empties ! d),
           fmp_siblings = map fst path, fmp_indices = map snd path\<rparr>)"
    by (auto simp: positionMerkleProof_def bindE_Inr_iff Let_def split: option.splits)
  from lev obtain normal where normal: "mapE normalizeLeaf leaves = Inr normal"
    and full: "length leaves \<le> 2 ^ d"
    and empties: "empties = map (eroot (hexpair h) emptyLeaf) [0..<Suc d]"
    and levels: "levels = map (\<lambda>k. lv (tnode (hexpair h) (ordered_leaf normal) k) (halvings (length normal) k)) [0..<Suc d]"
    by (auto simp: buildIncremental_Inr)
  have canon: "canonical_hex (ordered_leaf normal j)" for j
    using normal_leaves_canonical [OF normal] by (simp add: ordered_leaf_def ht.canon_padded)
  have len: "length normal = length leaves" by (rule mapE_length [OF normal])
  from findIndexE_Some [OF idx] have i: "i < length leaves" "normalizeLeaf (leaves ! i) = Inr nleaf"
    by (auto simp: bindE_Inr_iff)
  have leaf: "ordered_leaf normal i = nleaf"
    using normal i len by (auto simp: mapE_Inr_iff list_all2_conv_all_nth ordered_leaf_def padded_def)
  have at: "k < Suc d \<Longrightarrow> get_or (levels ! k) j (empties ! k) = tnode (hexpair h) (ordered_leaf normal) k j" for k j
    by (simp add: levels empties get_or_lv tnode_past_level del: upt_Suc)
  have path: "pathLoop (\<lambda>level i. mget (levels ! level) i) (\<lambda>level. empties ! level) 0 d i
      = tpath (hexpair h) (ordered_leaf normal) 0 d i"
  proof (rule pathLoop_tpath)
    show "i < 2 ^ d" using i full by simp
  next
    fix k j assume "k < d"
    then show "(case mget (levels ! (0 + k)) j of Some s \<Rightarrow> s | None \<Rightarrow> empties ! (0 + k))
        = tnode (hexpair h) (ordered_leaf normal) (0 + k) j"
      using at [of k j] unfolding add_0 get_or_def by simp
  qed
  have "i < 2 ^ d" using i full by simp
  with circuit_accepts_tpath [of "ordered_leaf normal" i d h, OF canon] at [of d 0] leaf
  have circ: "circuit_merkle_root h (fmp_leaf pf) (fmp_siblings pf) (fmp_indices pf) = Inr (fmp_root pf)"
    by (simp add: pf path Let_def)
  have "positionMerkleRoot h leaves d = Inr (fmp_root pf)"
    using lev at [of d 0] by (simp add: positionMerkleRoot_def emptyRoots_eq pf Let_def empties del: upt_Suc)
  with circ i show ?thesis by (simp add: pf Let_def)
qed

definition demo_position_proof :: "FieldMerkleProof result" where
  "demo_position_proof = positionMerkleProof demo_host [''0x2'', ''0x1'', ''0x3''] ''0x3'' 2"

lemma demo_position_proof_Inr:
  "demo_position_proof = Inr \<lparr>fmp_index = 2, fmp_leaf = fieldHex 3, fmp_root = fieldHex 141,
     fmp_siblings = [fieldHex 0, fieldHex 18], fmp_indices = [False, True]\<rparr>"
  by code_simp

theorem position_merkle_proof_verifies_witness:
  "circuit_merkle_root demo_host (fieldHex 3) [fieldHex 0, fieldHex 18] [False, True] = Inr (fieldHex 141)
   \<and> positionMerkleRoot demo_host [''0x2'', ''0x1'', ''0x3''] 2 = Inr (fieldHex 141)"
  using position_merkle_proof_verifies [OF demo_position_proof_Inr [unfolded demo_position_proof_def]]
  by simp

end
