(* ===== verification/Crypto_Commitments.thy ===== *)
theory Crypto_Commitments
  imports Crypto_Merkle
begin

text \<open>
  The commitments and nullifiers of \<^verbatim>\<open>packages/crypto/src/commitments.ts\<close> and
  \<^verbatim>\<open>field-merkle.ts\<close>, the note builders of \<^verbatim>\<open>packages/sdk/src/notes.ts\<close>, and the note
  commitment of the withdrawal circuit that the off-chain commitment has to match.
\<close>

definition side_str :: "side \<Rightarrow> string" where
  "side_str sd = (case sd of Long \<Rightarrow> ''long'' | Short \<Rightarrow> ''short'')"

subsection \<open>Circuit commitments of field-merkle.ts\<close>

record CircuitMarginNoteInput =
  cmn_amount :: int
  cmn_assetDigest :: Hex
  cmn_blinding :: Hex
  cmn_ownerDigest :: Hex
  cmn_rhoDigest :: Hex
  cmn_spendSecretDigest :: Hex

record CircuitPositionNoteInput =
  cpn_blinding :: Hex
  cpn_entryPrice :: int
  cpn_fundingIndex :: int
  cpn_margin :: int
  cpn_marketDigest :: Hex
  cpn_ownerDigest :: Hex
  cpn_rhoDigest :: Hex
  cpn_side :: side
  cpn_size :: int
  cpn_spendSecretDigest :: Hex

record CircuitDisclosureInput =
  cdi_claimDigest :: Hex
  cdi_saltDigest :: Hex
  cdi_subject :: Hex
  cdi_value :: int

definition circuitMarginCommitment :: "host \<Rightarrow> CircuitMarginNoteInput \<Rightarrow> Hex result" where
  "circuitMarginCommitment h i =
     (let amount = fieldHex (cmn_amount i) in
      bindE (fieldHashPair h (FHex (cmn_assetDigest i)) (FHex amount)) (\<lambda>left.
      bindE (fieldHashPair h (FHex (cmn_rhoDigest i)) (FHex (cmn_blinding i))) (\<lambda>entropy.
      bindE (fieldHashPair h (FHex (cmn_ownerDigest i)) (FHex entropy)) (\<lambda>right.
        fieldHashPair h (FHex left) (FHex right)))))"

definition circuitNullifier :: "host \<Rightarrow> Hex \<Rightarrow> Hex \<Rightarrow> Hex result" where
  "circuitNullifier h rhoDigest spendSecretDigest =
     fieldHashPair h (FHex spendSecretDigest) (FHex rhoDigest)"

definition side_code :: "side \<Rightarrow> int" where
  "side_code sd = (if sd = Long then 1 else 2)"

definition circuitPositionCommitment :: "host \<Rightarrow> CircuitPositionNoteInput \<Rightarrow> Hex result" where
  "circuitPositionCommitment h i =
     bindE (fieldHashPair h (FHex (cpn_marketDigest i)) (FBig (side_code (cpn_side i)))) (\<lambda>scope.
     bindE (fieldHashPair h (FBig (cpn_size i)) (FBig (cpn_entryPrice i))) (\<lambda>trade.
     bindE (fieldHashPair h (FHex scope) (FHex trade)) (\<lambda>left.
     bindE (fieldHashPair h (FBig (cpn_margin i)) (FBig (cpn_fundingIndex i))) (\<lambda>funds.
     bindE (fieldHashPair h (FHex (cpn_rhoDigest i)) (FHex (cpn_blinding i))) (\<lambda>entropy.
     bindE (fieldHashPair h (FHex (cpn_ownerDigest i)) (FHex entropy)) (\<lambda>secret.
     bindE (fieldHashPair h (FHex funds) (FHex secret)) (\<lambda>right.
       fieldHashPair h (FHex left) (FHex right))))))))"

definition circuitPositionNullifier :: "host \<Rightarrow> Hex \<Rightarrow> Hex \<Rightarrow> Hex result" where
  "circuitPositionNullifier h rhoDigest spendSecretDigest =
     fieldHashPair h (FHex spendSecretDigest) (FHex rhoDigest)"

definition circuitDisclosureCommitment :: "host \<Rightarrow> CircuitDisclosureInput \<Rightarrow> Hex result" where
  "circuitDisclosureCommitment h i =
     bindE (fieldHashPair h (FHex (cdi_subject i)) (FHex (cdi_claimDigest i))) (\<lambda>left.
     bindE (fieldHashPair h (FBig (cdi_value i)) (FHex (cdi_saltDigest i))) (\<lambda>right.
       fieldHashPair h (FHex left) (FHex right)))"

subsection \<open>commitments.ts\<close>

definition commitMargin :: "host \<Rightarrow> MarginNote \<Rightarrow> Hex" where
  "commitMargin h note = hashFields h ''margin-note''
     [JStr (mn_assetId note), JBig (mn_amount note), JStr (mn_owner note), JStr (mn_rho note),
      JStr (mn_blinding note)]"

definition commitPosition :: "host \<Rightarrow> PositionNote \<Rightarrow> Hex" where
  "commitPosition h note = hashFields h ''position-note''
     [JStr (pn_marketId note), JStr (side_str (pn_side note)), JBig (pn_size note),
      JBig (pn_entryPrice note), JBig (pn_margin note), JBig (pn_fundingIndex note),
      JStr (pn_owner note), JStr (pn_rho note), JStr (pn_blinding note)]"

definition ownerCommitment :: "host \<Rightarrow> string \<Rightarrow> Hex" where
  "ownerCommitment h owner = hashFields h ''owner'' [JStr owner]"

definition intentOwnerCommitmentField :: "Hex \<Rightarrow> Hex result" where
  "intentOwnerCommitmentField commitment = bindE (bigint_of_hex commitment) (\<lambda>b. Inr (fieldHex b))"

record CircuitIntentCommitmentInput =
  cic_batchDigest :: Hex
  cic_marketDigest :: Hex
  cic_ownerCommitmentField :: Hex
  cic_side :: side
  cic_size :: int
  cic_limitPrice :: int
  cic_margin :: int
  cic_noteNullifier :: Hex
  cic_nonceDigest :: Hex
  cic_saltDigest :: Hex

record IntentBindingFields = CircuitIntentCommitmentInput +
  ibf_intentCommitment :: Hex

definition circuitIntentCommitment :: "host \<Rightarrow> 'a CircuitIntentCommitmentInput_scheme \<Rightarrow> Hex result" where
  "circuitIntentCommitment h i =
     bindE (fieldHashPair h (FHex (cic_batchDigest i)) (FHex (cic_marketDigest i))) (\<lambda>venue.
     bindE (fieldHashPair h (FHex (cic_ownerCommitmentField i)) (FBig (side_code (cic_side i)))) (\<lambda>trader.
     bindE (fieldHashPair h (FHex venue) (FHex trader)) (\<lambda>scope.
     bindE (fieldHashPair h (FBig (cic_size i)) (FBig (cic_limitPrice i))) (\<lambda>terms.
     bindE (fieldHashPair h (FBig (cic_margin i)) (FHex (cic_noteNullifier i))) (\<lambda>collateral.
     bindE (fieldHashPair h (FHex terms) (FHex collateral)) (\<lambda>economics.
     bindE (fieldHashPair h (FHex (cic_nonceDigest i)) (FHex (cic_saltDigest i))) (\<lambda>entropy.
     bindE (fieldHashPair h (FHex scope) (FHex economics)) (\<lambda>body.
       fieldHashPair h (FHex body) (FHex entropy)))))))))"

definition intentBindingFields :: "host \<Rightarrow> TradeIntent \<Rightarrow> IntentBindingFields result" where
  "intentBindingFields h intent =
     bindE (digestToFieldHex h (''batch:'' @ ti_batchId intent)) (\<lambda>batchDigest.
     bindE (digestToFieldHex h (''market:'' @ ti_marketId intent)) (\<lambda>marketDigest.
     bindE (intentOwnerCommitmentField (ownerCommitment h (ti_owner intent))) (\<lambda>ownerField.
     bindE (digestToFieldHex h (''nonce:'' @ ti_nonce intent)) (\<lambda>nonceDigest.
     bindE (digestToFieldHex h (''salt:'' @ ti_salt intent)) (\<lambda>saltDigest.
       let fs = \<lparr>cic_batchDigest = batchDigest, cic_marketDigest = marketDigest,
                 cic_ownerCommitmentField = ownerField, cic_side = ti_side intent,
                 cic_size = ti_size intent, cic_limitPrice = ti_limitPrice intent,
                 cic_margin = ti_margin intent, cic_noteNullifier = ti_noteNullifier intent,
                 cic_nonceDigest = nonceDigest, cic_saltDigest = saltDigest\<rparr>
       in bindE (circuitIntentCommitment h fs) (\<lambda>c.
            Inr (CircuitIntentCommitmentInput.extend fs \<lparr>ibf_intentCommitment = c\<rparr>)))))))"

definition commitIntent :: "host \<Rightarrow> TradeIntent \<Rightarrow> Hex result" where
  "commitIntent h intent = bindE (intentBindingFields h intent) (circuitIntentCommitment h)"

record CircuitConditionalOrderCommitmentInput =
  cco_marketDigest :: Hex
  cco_positionNullifier :: Hex
  cco_side :: side
  cco_kind :: ConditionalOrderKind
  cco_triggerPrice :: int
  cco_size :: int
  cco_reduceOnly :: bool
  cco_saltDigest :: Hex

record ConditionalOrderBindingFields = CircuitConditionalOrderCommitmentInput +
  cob_closeCommitment :: Hex

definition circuitConditionalOrderCommitment ::
  "host \<Rightarrow> 'a CircuitConditionalOrderCommitmentInput_scheme \<Rightarrow> Hex result" where
  "circuitConditionalOrderCommitment h i =
     (let kind = (if cco_kind i = TakeProfit then 1 else 2);
          reduceOnly = (if cco_reduceOnly i then 1 else 0) in
      bindE (fieldHashPair h (FHex (cco_marketDigest i)) (FHex (cco_positionNullifier i))) (\<lambda>position.
      bindE (fieldHashPair h (FBig (side_code (cco_side i))) (FBig kind)) (\<lambda>order.
      bindE (fieldHashPair h (FHex position) (FHex order)) (\<lambda>scope.
      bindE (fieldHashPair h (FBig (cco_triggerPrice i)) (FBig (cco_size i))) (\<lambda>terms.
      bindE (fieldHashPair h (FBig reduceOnly) (FHex (cco_saltDigest i))) (\<lambda>entropy.
      bindE (fieldHashPair h (FHex terms) (FHex entropy)) (\<lambda>trigger.
        fieldHashPair h (FHex scope) (FHex trigger))))))))"

definition conditionalOrderBindingFields ::
  "host \<Rightarrow> ConditionalOrderWitness \<Rightarrow> ConditionalOrderBindingFields result" where
  "conditionalOrderBindingFields h order =
     bindE (digestToFieldHex h (''market:'' @ cow_marketId order)) (\<lambda>marketDigest.
     bindE (digestToFieldHex h (''salt:'' @ cow_salt order)) (\<lambda>saltDigest.
       let fs = \<lparr>cco_marketDigest = marketDigest, cco_positionNullifier = cow_positionNullifier order,
                 cco_side = cow_side order, cco_kind = cow_kind order,
                 cco_triggerPrice = cow_triggerPrice order, cco_size = cow_size order,
                 cco_reduceOnly = cow_reduceOnly order, cco_saltDigest = saltDigest\<rparr>
       in bindE (circuitConditionalOrderCommitment h fs) (\<lambda>c.
            Inr (CircuitConditionalOrderCommitmentInput.extend fs \<lparr>cob_closeCommitment = c\<rparr>))))"

definition commitConditionalOrder :: "host \<Rightarrow> ConditionalOrderWitness \<Rightarrow> Hex result" where
  "commitConditionalOrder h order =
     bindE (conditionalOrderBindingFields h order) (circuitConditionalOrderCommitment h)"

subsection \<open>sdk/notes.ts\<close>

record CreatedMarginNote = MarginNote +
  created_commitment :: Hex
  created_nullifier :: Hex

definition createMarginNote ::
  "host \<Rightarrow> string \<Rightarrow> int \<Rightarrow> string \<Rightarrow> string \<Rightarrow> string \<Rightarrow> string \<Rightarrow> CreatedMarginNote" where
  "createMarginNote h assetId amount owner spendSecret rho blinding =
     (let note = \<lparr>mn_assetId = assetId, mn_amount = amount, mn_owner = owner, mn_rho = rho,
                  mn_blinding = blinding\<rparr>
      in MarginNote.extend note \<lparr>created_commitment = commitMargin h note,
           created_nullifier = nullifier_hash h spendSecret rho\<rparr>)"

record CircuitMarginNote = CircuitMarginNoteInput +
  cmn_commitment :: Hex
  cmn_noteNullifier :: Hex

record MarginNoteRequest =
  mnr_assetDigest :: "Hex option"
  mnr_assetId :: string
  mnr_amount :: int
  mnr_owner :: string
  mnr_ownerDigest :: "Hex option"
  mnr_spendSecret :: string
  mnr_rho :: string
  mnr_blinding :: string

text \<open>\<open>given ?? digestToFieldHex(text)\<close>\<close>

definition digest_or :: "host \<Rightarrow> Hex option \<Rightarrow> string \<Rightarrow> Hex result" where
  "digest_or h given txt = (case given of Some d \<Rightarrow> Inr d | None \<Rightarrow> digestToFieldHex h txt)"

definition createCircuitMarginNote :: "host \<Rightarrow> MarginNoteRequest \<Rightarrow> CircuitMarginNote result" where
  "createCircuitMarginNote h i =
     bindE (digest_or h (mnr_assetDigest i) (''asset:'' @ mnr_assetId i)) (\<lambda>assetDigest.
     bindE (digest_or h (mnr_ownerDigest i) (''owner:'' @ mnr_owner i)) (\<lambda>ownerDigest.
     bindE (digestToFieldHex h (''rho:'' @ mnr_rho i)) (\<lambda>rhoDigest.
     bindE (digestToFieldHex h (''blinding:'' @ mnr_blinding i)) (\<lambda>blinding.
     bindE (digestToFieldHex h (''spend:'' @ mnr_spendSecret i)) (\<lambda>spendSecretDigest.
       let note = \<lparr>cmn_amount = mnr_amount i, cmn_assetDigest = assetDigest, cmn_blinding = blinding,
                   cmn_ownerDigest = ownerDigest, cmn_rhoDigest = rhoDigest,
                   cmn_spendSecretDigest = spendSecretDigest\<rparr>
       in bindE (circuitMarginCommitment h note) (\<lambda>commitment.
          bindE (circuitNullifier h rhoDigest spendSecretDigest) (\<lambda>noteNullifier.
            Inr (CircuitMarginNoteInput.extend note
              \<lparr>cmn_commitment = commitment, cmn_noteNullifier = noteNullifier\<rparr>))))))))"

record CreatedPositionNote = PositionNote +
  created_position_commitment :: Hex

definition createPositionNote :: "host \<Rightarrow> PositionNote \<Rightarrow> CreatedPositionNote" where
  "createPositionNote h note =
     PositionNote.extend note \<lparr>created_position_commitment = commitPosition h note\<rparr>"

record CircuitPositionNote = CircuitPositionNoteInput +
  cpn_commitment :: Hex
  cpn_positionNullifier :: Hex

definition createCircuitPositionNote ::
  "host \<Rightarrow> PositionNote \<Rightarrow> string \<Rightarrow> CircuitPositionNote result" where
  "createCircuitPositionNote h i spendSecret =
     bindE (digestToFieldHex h (''market:'' @ pn_marketId i)) (\<lambda>marketDigest.
     bindE (digestToFieldHex h (''owner:'' @ pn_owner i)) (\<lambda>ownerDigest.
     bindE (digestToFieldHex h (''rho:'' @ pn_rho i)) (\<lambda>rhoDigest.
     bindE (digestToFieldHex h (''blinding:'' @ pn_blinding i)) (\<lambda>blinding.
     bindE (digestToFieldHex h (''spend:'' @ spendSecret)) (\<lambda>spendSecretDigest.
       let note = \<lparr>cpn_blinding = blinding, cpn_entryPrice = pn_entryPrice i,
                   cpn_fundingIndex = pn_fundingIndex i, cpn_margin = pn_margin i,
                   cpn_marketDigest = marketDigest, cpn_ownerDigest = ownerDigest,
                   cpn_rhoDigest = rhoDigest, cpn_side = pn_side i, cpn_size = pn_size i,
                   cpn_spendSecretDigest = spendSecretDigest\<rparr>
       in bindE (circuitPositionCommitment h note) (\<lambda>commitment.
          bindE (circuitPositionNullifier h rhoDigest spendSecretDigest) (\<lambda>positionNullifier.
            Inr (CircuitPositionNoteInput.extend note
              \<lparr>cpn_commitment = commitment, cpn_positionNullifier = positionNullifier\<rparr>))))))))"

definition createIntent :: "TradeIntent \<Rightarrow> TradeIntent result" where
  "createIntent i =
     (if ti_size i \<le> 0 then throw ''intent size must be positive''
      else if ti_margin i \<le> 0 then throw ''intent margin must be positive''
      else if ti_limitPrice i \<le> 0 then throw ''intent limit price must be positive''
      else Inr i)"

subsection \<open>The note commitment and nullifier check of the withdrawal circuit\<close>

definition circuit_note_commitment :: "host \<Rightarrow> int \<Rightarrow> int \<Rightarrow> int \<Rightarrow> int \<Rightarrow> int \<Rightarrow> int" where
  "circuit_note_commitment h asset_digest note_amount owner_digest rho_digest blinding =
     (let pair = (\<lambda>a b. field_mod (poseidon2Hash h a b));
          left = pair asset_digest note_amount;
          right = pair owner_digest (pair rho_digest blinding)
      in pair left right)"

subsection \<open>Lemmas: pairs of field elements\<close>

definition pairF :: "host \<Rightarrow> int \<Rightarrow> int \<Rightarrow> int" where
  "pairF h a b = field_mod (poseidon2Hash h a b)"

lemma fieldHashPair_Inr:
  "fieldHashPair h x y = Inr c \<longleftrightarrow>
     (\<exists>a b. toField x = Inr a \<and> toField y = Inr b \<and> c = fieldHex (pairF h a b))"
  by (auto simp: fieldHashPair_def bindE_Inr_iff pairF_def)

lemma hex_val_fieldHex [simp]: "hex_val (fieldHex v) = field_mod v"
  by (simp add: hex_val_def)

lemma toField_hex_val: "toField (FHex s) = Inr v \<Longrightarrow> hex_val s = v"
  by (auto simp: toField_def hex_val_def bindE_Inr_iff)

fun arg_val :: "field_arg \<Rightarrow> int" where
  "arg_val (FHex s) = hex_val s"
| "arg_val (FBig v) = field_mod v"

lemma toField_arg_val: "toField x = Inr v \<Longrightarrow> v = arg_val x"
  by (cases x) (simp_all add: toField_hex_val)

lemma fieldHashPair_val: "fieldHashPair h x y = Inr c \<Longrightarrow> c = fieldHex (pairF h (arg_val x) (arg_val y))"
  by (auto simp: fieldHashPair_Inr dest!: toField_arg_val)

lemma pairF_mod [simp]: "field_mod (pairF h a b) = pairF h a b"
  by (simp add: pairF_def)

lemma fieldHex_inj: "fieldHex (pairF h a b) = fieldHex (pairF h c d) \<longleftrightarrow> pairF h a b = pairF h c d"
  by (simp add: fieldHex_eq_iff)

lemma commitIntent_binding:
  "commitIntent h intent = map_sum id ibf_intentCommitment (intentBindingFields h intent)"
proof (cases "intentBindingFields h intent")
  case (Inl e)
  then show ?thesis by (simp add: commitIntent_def)
next
  case (Inr b)
  then have "circuitIntentCommitment h b = Inr (ibf_intentCommitment b)"
    by (auto simp: intentBindingFields_def bindE_Inr_iff Let_def circuitIntentCommitment_def
        CircuitIntentCommitmentInput.extend_def)
  with Inr show ?thesis by (simp add: commitIntent_def)
qed

subsection \<open>Lemmas: what the digests need\<close>

text \<open>\<open>sha256Hex\<close> prints hexadecimal digits; nothing else of the hash is used for totality.\<close>

definition hex_hash :: "host \<Rightarrow> bool" where
  "hex_hash h \<longleftrightarrow> (\<forall>s. \<exists>n. str_nat 16 0 (sha256_hex h s) = Some n \<and> sha256_hex h s \<noteq> [])"

lemma digest_total:
  assumes "hex_hash h"
  obtains v where "digestToFieldHex h s = Inr (fieldHex v)"
proof -
  obtain n where n: "str_nat 16 0 (sha256_hex h s) = Some n" "sha256_hex h s \<noteq> []"
    using assms by (auto simp: hex_hash_def)
  then obtain d ds where "sha256_hex h s = d # ds" by (cases "sha256_hex h s") auto
  with n(1) have "digestToFieldHex h s = Inr (fieldHex (int n smod FIELD_PRIME))"
    by (simp add: digestToFieldHex_def hashToField_def bigint_of_hex_def del: str_nat.simps)
  then show ?thesis by (rule that)
qed

lemma fieldHashPair_total:
  "toField x = Inr a \<Longrightarrow> toField y = Inr b \<Longrightarrow> fieldHashPair h x y = Inr (fieldHex (pairF h a b))"
  by (simp add: fieldHashPair_Inr)

lemma circuitIntentCommitment_total:
  assumes "toField (FHex (cic_batchDigest i)) = Inr a1" "toField (FHex (cic_marketDigest i)) = Inr a2"
    "toField (FHex (cic_ownerCommitmentField i)) = Inr a3" "toField (FHex (cic_noteNullifier i)) = Inr a4"
    "toField (FHex (cic_nonceDigest i)) = Inr a5" "toField (FHex (cic_saltDigest i)) = Inr a6"
  obtains c where "circuitIntentCommitment h i = Inr c"
  using that by (simp add: circuitIntentCommitment_def fieldHashPair_total assms)

lemma circuitIntentCommitment_reads:
  assumes "toField (FHex (cic_batchDigest i)) = toField (FHex d)"
  shows "circuitIntentCommitment h (i\<lparr>cic_batchDigest := d\<rparr>) = circuitIntentCommitment h i"
  by (simp add: circuitIntentCommitment_def fieldHashPair_def assms)

lemma createCircuitMarginNote_total:
  assumes "hex_hash h" "mnr_assetDigest i = None" "mnr_ownerDigest i = None"
  obtains n where "createCircuitMarginNote h i = Inr n"
proof -
  obtain a b c d e where
    "digestToFieldHex h (''asset:'' @ mnr_assetId i) = Inr (fieldHex a)"
    "digestToFieldHex h (''owner:'' @ mnr_owner i) = Inr (fieldHex b)"
    "digestToFieldHex h (''rho:'' @ mnr_rho i) = Inr (fieldHex c)"
    "digestToFieldHex h (''blinding:'' @ mnr_blinding i) = Inr (fieldHex d)"
    "digestToFieldHex h (''spend:'' @ mnr_spendSecret i) = Inr (fieldHex e)"
    using digest_total [OF assms(1)] by metis
  with assms that show ?thesis
    by (simp add: createCircuitMarginNote_def digest_or_def circuitMarginCommitment_def
        circuitNullifier_def fieldHashPair_total Let_def)
qed

lemma hex_hash_demo: "hex_hash demo_host"
proof -
  have "nat_str 16 n \<noteq> []" for n by (simp add: nat_str.simps [of 16 n])
  then show ?thesis by (simp add: hex_hash_def demo_host_def str_nat_nat_str)
qed

subsection \<open>Properties\<close>

text \<open>What the client commits to off chain is what the withdrawal circuit recomputes: the
  commitment of \<open>createCircuitMarginNote\<close>, read as a field element, is \<open>note_commitment\<close> of the
  circuit on the note's own fields, and its nullifier is the circuit's hash of secret and rho.\<close>
theorem margin_note_matches_circuit:
  assumes "createCircuitMarginNote h i = Inr n"
  shows "hex_val (cmn_commitment n) = circuit_note_commitment h (hex_val (cmn_assetDigest n))
      (field_mod (cmn_amount n)) (hex_val (cmn_ownerDigest n)) (hex_val (cmn_rhoDigest n))
      (hex_val (cmn_blinding n))
    \<and> hex_val (cmn_noteNullifier n)
        = pairF h (hex_val (cmn_spendSecretDigest n)) (hex_val (cmn_rhoDigest n))
    \<and> cmn_amount n = mnr_amount i"
  using assms
  by (auto simp: createCircuitMarginNote_def bindE_Inr_iff Let_def circuitMarginCommitment_def
      circuitNullifier_def fieldHashPair_Inr CircuitMarginNoteInput.extend_def
      circuit_note_commitment_def pairF_def [symmetric] dest!: toField_arg_val)

definition demo_note_request :: MarginNoteRequest where
  "demo_note_request = \<lparr>mnr_assetDigest = None, mnr_assetId = ''usdc'', mnr_amount = 1000,
     mnr_owner = ''alice'', mnr_ownerDigest = None, mnr_spendSecret = ''s'', mnr_rho = ''r'',
     mnr_blinding = ''b''\<rparr>"

lemma demo_note_returns: "\<exists>n. createCircuitMarginNote demo_host demo_note_request = Inr n"
  by (rule createCircuitMarginNote_total [OF hex_hash_demo, of demo_note_request])
    (auto simp: demo_note_request_def)

theorem margin_note_matches_circuit_witness:
  "\<exists>n. createCircuitMarginNote demo_host demo_note_request = Inr n
     \<and> cmn_amount n = mnr_amount demo_note_request
     \<and> hex_val (cmn_noteNullifier n)
         = pairF demo_host (hex_val (cmn_spendSecretDigest n)) (hex_val (cmn_rhoDigest n))"
  using demo_note_returns margin_note_matches_circuit by blast

text \<open>The inputs of the nine hash nodes of an intent commitment, over the ten field values.\<close>

definition intent_values :: "'a CircuitIntentCommitmentInput_scheme \<Rightarrow> int list" where
  "intent_values i = [hex_val (cic_batchDigest i), hex_val (cic_marketDigest i),
     hex_val (cic_ownerCommitmentField i), field_mod (side_code (cic_side i)), field_mod (cic_size i),
     field_mod (cic_limitPrice i), field_mod (cic_margin i), hex_val (cic_noteNullifier i),
     hex_val (cic_nonceDigest i), hex_val (cic_saltDigest i)]"

definition intent_nodes :: "host \<Rightarrow> 'a CircuitIntentCommitmentInput_scheme \<Rightarrow> (int \<times> int) list" where
  "intent_nodes h i =
     (let v = intent_values i; P = pairF h;
          venue = P (v!0) (v!1); trader = P (v!2) (v!3); scope = P venue trader;
          terms = P (v!4) (v!5); collateral = P (v!6) (v!7); economics = P terms collateral;
          entropy = P (v!8) (v!9); body = P scope economics
      in [(v!0, v!1), (v!2, v!3), (venue, trader), (v!4, v!5), (v!6, v!7), (terms, collateral),
          (v!8, v!9), (scope, economics), (body, entropy)])"

text \<open>Which node hashes each inner node.\<close>

definition intent_node_parents :: "(nat \<times> nat) list" where
  "intent_node_parents = [(0, 2), (1, 2), (2, 7), (3, 5), (4, 5), (5, 7), (6, 8), (7, 8)]"

lemma circuitIntentCommitment_root:
  "circuitIntentCommitment h i = Inr c \<Longrightarrow>
     c = fieldHex (pairF h (fst (intent_nodes h i ! 8)) (snd (intent_nodes h i ! 8)))"
  unfolding circuitIntentCommitment_def bindE_Inr_iff
  by (elim exE conjE) (drule fieldHashPair_val | simp add: intent_nodes_def intent_values_def Let_def)+

text \<open>Intent commitments bind: two intents with the same commitment agree on all ten committed
  values (batch, market, owner, side, size, price, margin, nullifier, nonce, salt, as field elements),
  unless the two hash computations exhibit a Poseidon2 collision at the same one of their nine
  nodes.\<close>
theorem intent_commitment_binds:
  assumes "circuitIntentCommitment h i = Inr c" and "circuitIntentCommitment h j = Inr c"
  shows "intent_values i = intent_values j
    \<or> (\<exists>k\<in>{..<9}. intent_nodes h i ! k \<noteq> intent_nodes h j ! k
        \<and> case_prod (pairF h) (intent_nodes h i ! k) = case_prod (pairF h) (intent_nodes h j ! k))"
proof (rule disjCI)
  assume no: "\<not> (\<exists>k\<in>{..<9}. intent_nodes h i ! k \<noteq> intent_nodes h j ! k
        \<and> case_prod (pairF h) (intent_nodes h i ! k) = case_prod (pairF h) (intent_nodes h j ! k))"
  define eqn where "eqn k \<longleftrightarrow> intent_nodes h i ! k = intent_nodes h j ! k" for k
  have up: "case_prod (pairF h) (intent_nodes h i ! k) = case_prod (pairF h) (intent_nodes h j ! k) \<Longrightarrow>
      k < 9 \<Longrightarrow> eqn k" for k
    using no unfolding eqn_def by blast
  have "case_prod (pairF h) (intent_nodes h i ! 8) = case_prod (pairF h) (intent_nodes h j ! 8)"
    using circuitIntentCommitment_root [OF assms(1)] circuitIntentCommitment_root [OF assms(2)]
    by (simp add: case_prod_beta fieldHex_inj)
  from up [OF this] have "eqn 8" by simp
  have down: "case_prod (pairF h) (intent_nodes h i ! k) = case_prod (pairF h) (intent_nodes h j ! k)"
    if "(k, par) \<in> set intent_node_parents" "eqn par" for k par
    using that by (auto simp: intent_node_parents_def eqn_def intent_nodes_def Let_def)
  have next_eqn: "eqn k" if "eqn par" "(k, par) \<in> set intent_node_parents" for k par
    by (rule up [OF down [OF that(2,1)]]) (use that(2) in \<open>auto simp: intent_node_parents_def\<close>)
  note child = next_eqn [unfolded intent_node_parents_def]
  have "eqn 7" "eqn 6" using child [OF \<open>eqn 8\<close>] by simp_all
  have "eqn 2" "eqn 5" using child [OF \<open>eqn 7\<close>] by simp_all
  have "eqn 0" "eqn 1" using child [OF \<open>eqn 2\<close>] by simp_all
  have "eqn 3" "eqn 4" using child [OF \<open>eqn 5\<close>] by simp_all
  note eqs = \<open>eqn 0\<close> \<open>eqn 1\<close> \<open>eqn 3\<close> \<open>eqn 4\<close> \<open>eqn 6\<close>
  from eqs show "intent_values i = intent_values j"
    by (simp add: eqn_def intent_nodes_def Let_def) (simp add: intent_values_def)
qed

definition demo_intent :: TradeIntent where
  "demo_intent = \<lparr>ti_batchId = ''1'', ti_marketId = ''btc-usd-perp'', ti_owner = ''alice'', ti_side = Long,
     ti_size = 100000000, ti_limitPrice = 5000000000, ti_margin = 1000000000, ti_noteNullifier = ''0x9'',
     ti_nonce = ''n'', ti_salt = ''s''\<rparr>"

definition demo_commitment_input :: CircuitIntentCommitmentInput where
  "demo_commitment_input = \<lparr>cic_batchDigest = ''0x1'', cic_marketDigest = ''0x2'',
     cic_ownerCommitmentField = ''0x3'', cic_side = Short, cic_size = 5, cic_limitPrice = 6,
     cic_margin = 7, cic_noteNullifier = ''0x4'', cic_nonceDigest = ''0x2'', cic_saltDigest = ''0x3''\<rparr>"

lemma toField_digits:
  "toField (FHex ''0x1'') = Inr 1" "toField (FHex ''0x01'') = Inr 1" "toField (FHex ''0x2'') = Inr 2"
  "toField (FHex ''0x3'') = Inr 3" "toField (FHex ''0x4'') = Inr 4"
  by (simp_all add: toField_def bigint_of_hex_def digit_val_def upt_rec field_mod_eq FIELD_PRIME_def)

lemma demo_commitment_returns: "\<exists>c. circuitIntentCommitment demo_host demo_commitment_input = Inr c"
  by (rule circuitIntentCommitment_total [of demo_commitment_input])
    (auto simp: demo_commitment_input_def toField_digits)

theorem intent_commitment_binds_witness:
  "\<exists>c. circuitIntentCommitment demo_host demo_commitment_input = Inr c
     \<and> circuitIntentCommitment demo_host (demo_commitment_input\<lparr>cic_batchDigest := ''0x01''\<rparr>) = Inr c
     \<and> (intent_values demo_commitment_input
           = intent_values (demo_commitment_input\<lparr>cic_batchDigest := ''0x01''\<rparr>)
       \<or> (\<exists>k\<in>{..<9}. intent_nodes demo_host demo_commitment_input ! k
              \<noteq> intent_nodes demo_host (demo_commitment_input\<lparr>cic_batchDigest := ''0x01''\<rparr>) ! k))"
proof -
  obtain c where c: "circuitIntentCommitment demo_host demo_commitment_input = Inr c"
    using demo_commitment_returns by blast
  moreover have "circuitIntentCommitment demo_host demo_commitment_input
      = circuitIntentCommitment demo_host (demo_commitment_input\<lparr>cic_batchDigest := ''0x01''\<rparr>)"
    by (rule circuitIntentCommitment_reads [symmetric])
      (simp add: demo_commitment_input_def toField_digits)
  ultimately have c': "circuitIntentCommitment demo_host
      (demo_commitment_input\<lparr>cic_batchDigest := ''0x01''\<rparr>) = Inr c" by simp
  show ?thesis using intent_commitment_binds [OF c c'] c c' by blast
qed

end
