(* ===== verification/Batch_Matcher.thy ===== *)
theory Batch_Matcher
  imports Market_Math Protocol_Types Crypto_Commitments
begin

text \<open>
  The batch matcher of \<^verbatim>\<open>server/src/workers/batch-matcher\<close>: the order book over private match
  intents, the crossing loop, the fills with their margins and fees, residual orders, the transcript
  digest, the fill risk engine, and the payload check of \<^verbatim>\<open>private-intent.ts\<close>. The two book
  arrays hold references to the order objects of \<open>orders\<close>; the model keeps the orders in one list,
  an order's reference is its \<open>sequence\<close> (its index there), and the loop updates the list.
\<close>

subsection \<open>private-intent.ts\<close>

definition privateMatchIntentFromTradeIntent ::
  "TradeIntent \<Rightarrow> Hex \<Rightarrow> Hex \<Rightarrow> Hex \<Rightarrow> PrivateMatchIntent" where
  "privateMatchIntentFromTradeIntent intent intentCommitment noteChangeCommitment owner =
     \<lparr>pmi_batchId = ti_batchId intent, pmi_intentCommitment = intentCommitment,
      pmi_limitPrice = ti_limitPrice intent, pmi_margin = ti_margin intent,
      pmi_marketId = ti_marketId intent, pmi_noteChangeCommitment = noteChangeCommitment,
      pmi_noteNullifier = ti_noteNullifier intent, pmi_ownerCommitment = owner,
      pmi_signedSize = (if ti_side intent = Long then ti_size intent else - ti_size intent),
      pmi_sourceIntentCommitment = None\<rparr>"

definition matchingPayloadCommitment :: "host \<Rightarrow> PrivateMatchIntent \<Rightarrow> Hex" where
  "matchingPayloadCommitment h payload =
     hashFields h ''matching-payload''
       [JStr (pmi_intentCommitment payload), JStr (pmi_marketId payload),
        JStr (pmi_ownerCommitment payload), JBig (pmi_signedSize payload),
        JBig (pmi_limitPrice payload), JBig (pmi_margin payload), JStr (pmi_noteNullifier payload),
        JStr (pmi_noteChangeCommitment payload),
        JStr (case pmi_sourceIntentCommitment payload of Some c \<Rightarrow> c | None \<Rightarrow> ''0x0'')]"

text \<open>
  What \<open>assertPrivateMatchIntent\<close> reads of an intent or of a residual order; the key
  \<open>noteChangeCommitment\<close> is absent (\<open>None\<close>) exactly in residual orders.
\<close>

record MatchRecord =
  mr_intentCommitment :: Hex
  mr_marketId :: string
  mr_matchingPayloadCommitment :: Hex
  mr_noteNullifier :: Hex
  mr_ownerCommitment :: Hex
  mr_noteChangeCommitment :: "Hex option"

definition matchRecordOfIntent :: "IntentRecord \<Rightarrow> MatchRecord" where
  "matchRecordOfIntent r =
     \<lparr>mr_intentCommitment = ir_intentCommitment r, mr_marketId = ir_marketId r,
      mr_matchingPayloadCommitment = ir_matchingPayloadCommitment r,
      mr_noteNullifier = ir_noteNullifier r, mr_ownerCommitment = ir_ownerCommitment r,
      mr_noteChangeCommitment = Some (ir_noteChangeCommitment r)\<rparr>"

definition matchRecordOfResidual :: "ResidualOrderRecord \<Rightarrow> MatchRecord" where
  "matchRecordOfResidual r =
     \<lparr>mr_intentCommitment = ror_intentCommitment r, mr_marketId = ror_marketId r,
      mr_matchingPayloadCommitment = ror_matchingPayloadCommitment r,
      mr_noteNullifier = ror_noteNullifier r, mr_ownerCommitment = ror_ownerCommitment r,
      mr_noteChangeCommitment = None\<rparr>"

definition assertPrivateMatchIntent :: "host \<Rightarrow> MatchRecord \<Rightarrow> PrivateMatchIntent \<Rightarrow> unit result" where
  "assertPrivateMatchIntent h r payload =
     (if pmi_intentCommitment payload \<noteq> mr_intentCommitment r
        then throw ''private match payload intent mismatch''
      else if pmi_marketId payload \<noteq> mr_marketId r
        then throw ''private match payload market mismatch''
      else if pmi_ownerCommitment payload \<noteq> mr_ownerCommitment r
        then throw ''private match payload owner mismatch''
      else if pmi_noteNullifier payload \<noteq> mr_noteNullifier r
        then throw ''private match payload nullifier mismatch''
      else if mr_noteChangeCommitment r \<noteq> None
          \<and> Some (pmi_noteChangeCommitment payload) \<noteq> mr_noteChangeCommitment r
        then throw ''private match payload change commitment mismatch''
      else if mr_noteChangeCommitment r = None \<and> pmi_noteChangeCommitment payload \<noteq> ZERO_HEX
        then throw ''residual private match payload cannot carry a note change''
      else if matchingPayloadCommitment h payload \<noteq> mr_matchingPayloadCommitment r
        then throw ''private match payload commitment mismatch''
      else Inr ())"

subsection \<open>risk-engine.ts\<close>

definition assertFill :: "int \<Rightarrow> MarketConfig \<Rightarrow> int \<Rightarrow> int \<Rightarrow> unit result" where
  "assertFill margin market price sz =
     (if \<not> hasInitialMargin sz price margin (mc_initialMarginRate market)
        then throw ''insufficient initial margin''
      else if \<not> hasMaxLeverage sz price margin (mc_maxLeverage market)
        then throw ''max leverage exceeded''
      else if margin \<le> maintenanceMargin sz price (mc_maintenanceMarginRate market)
        then throw ''insufficient maintenance buffer''
      else Inr ())"

subsection \<open>batch-matcher.model.ts\<close>

record MatchInput =
  mi_batchId :: string
  mi_market :: MarketConfig
  mi_intents :: "PrivateMatchIntent list"

record MatchExecution = FillFees +
  me_longIntentCommitment :: Hex
  me_longLimitPrice :: int
  me_longNoteNullifier :: Hex
  me_longPositionCommitment :: Hex
  me_makerIntentCommitment :: Hex
  me_makerSide :: side
  me_price :: int
  me_shortIntentCommitment :: Hex
  me_shortLimitPrice :: int
  me_shortNoteNullifier :: Hex
  me_shortPositionCommitment :: Hex
  me_size :: int
  me_takerIntentCommitment :: Hex

record MatchResult =
  mres_executions :: "MatchExecution list"
  mres_fills :: "Fill list"
  mres_fees :: FillFees
  mres_marginChangeCommitments :: "Hex list"
  mres_orderUpdates :: "OrderLifecycleUpdate list"
  mres_residuals :: "PrivateMatchIntent list"
  mres_spentNullifiers :: "Hex list"
  mres_aggregateVolume :: int
  mres_openInterestDelta :: int
  mres_residualSize :: int
  mres_totalLongSize :: int
  mres_totalShortSize :: int
  mres_matchTranscriptDigest :: Hex

subsection \<open>Book orders\<close>

record BookOrder =
  bo_allocatedMargin :: int
  bo_filled :: int
  bo_intent :: PrivateMatchIntent
  bo_remaining :: int
  bo_sequence :: nat
  bo_side :: side
  bo_size :: int

definition toBookOrder :: "PrivateMatchIntent \<Rightarrow> nat \<Rightarrow> BookOrder result" where
  "toBookOrder intent sequence =
     (let sd = (if pmi_signedSize intent \<ge> 0 then Long else Short);
          sz = (if pmi_signedSize intent \<ge> 0 then pmi_signedSize intent else - pmi_signedSize intent)
      in if sz = 0 then throw ''intent size cannot be zero''
         else if pmi_limitPrice intent \<le> 0 then throw ''intent limit price must be positive''
         else if pmi_margin intent \<le> 0 then throw ''intent margin must be positive''
         else Inr \<lparr>bo_allocatedMargin = 0, bo_filled = 0, bo_intent = intent, bo_remaining = sz,
                   bo_sequence = sequence, bo_side = sd, bo_size = sz\<rparr>)"

fun rejectDuplicateNullifiers :: "Hex list \<Rightarrow> BookOrder list \<Rightarrow> unit result" where
  "rejectDuplicateNullifiers seen [] = Inr ()"
| "rejectDuplicateNullifiers seen (order # orders) =
     (if pmi_noteNullifier (bo_intent order) \<in> set seen then throw ''duplicate intent nullifier''
      else rejectDuplicateNullifiers (sadd (pmi_noteNullifier (bo_intent order)) seen) orders)"

abbreviation limit_of :: "BookOrder \<Rightarrow> int" where
  "limit_of x \<equiv> pmi_limitPrice (bo_intent x)"

definition compareLongPriority :: "BookOrder \<Rightarrow> BookOrder \<Rightarrow> int" where
  "compareLongPriority a b =
     (if limit_of a \<noteq> limit_of b then (if limit_of a > limit_of b then - 1 else 1)
      else int (bo_sequence a) - int (bo_sequence b))"

definition compareShortPriority :: "BookOrder \<Rightarrow> BookOrder \<Rightarrow> int" where
  "compareShortPriority a b =
     (if limit_of a \<noteq> limit_of b then (if limit_of a < limit_of b then - 1 else 1)
      else int (bo_sequence a) - int (bo_sequence b))"

definition executionPrice :: "BookOrder \<Rightarrow> BookOrder \<Rightarrow> int" where
  "executionPrice long short =
     (let maker = (if bo_sequence long \<le> bo_sequence short then long else short)
      in limit_of maker)"

definition ceilDiv :: "int \<Rightarrow> int \<Rightarrow> int" where
  "ceilDiv v divisor = (v + divisor - 1) sdiv divisor"

text \<open>The returned margin and the order with the two fields the function assigns.\<close>

definition allocateMargin :: "BookOrder \<Rightarrow> int \<Rightarrow> int \<times> BookOrder" where
  "allocateMargin order fillSize =
     (let nextFilled = bo_filled order + fillSize;
          nextAllocatedMargin = ceilDiv (pmi_margin (bo_intent order) * nextFilled) (bo_size order);
          fillMargin = nextAllocatedMargin - bo_allocatedMargin order
      in (fillMargin, order\<lparr>bo_filled := nextFilled, bo_allocatedMargin := nextAllocatedMargin\<rparr>))"

definition createFill :: "host \<Rightarrow> MatchInput \<Rightarrow> BookOrder \<Rightarrow> int \<Rightarrow> int \<Rightarrow> nat \<Rightarrow> int
    \<Rightarrow> (Fill \<times> BookOrder) result" where
  "createFill h i order sz price fillIndex feeDelta =
     (let (allocated, order') = allocateMargin order sz;
          margin = allocated + feeDelta;
          intent = bo_intent order;
          position = \<lparr>pn_marketId = pmi_marketId intent, pn_side = bo_side order, pn_size = sz,
            pn_entryPrice = price, pn_margin = margin, pn_fundingIndex = mc_fundingIndex (mi_market i),
            pn_owner = pmi_ownerCommitment intent,
            pn_rho = pmi_intentCommitment intent @ '':position:'' @ nat_str 10 fillIndex,
            pn_blinding = pmi_intentCommitment intent @ '':blinding:'' @ nat_str 10 fillIndex\<rparr>
      in
      bindE (assertFill margin (mi_market i) price sz) (\<lambda>_.
      bindE (digestToFieldHex h (''market:'' @ pn_marketId position)) (\<lambda>marketDigest.
      bindE (digestToFieldHex h (''owner:'' @ pn_owner position)) (\<lambda>ownerDigest.
      bindE (digestToFieldHex h (''rho:'' @ pn_rho position)) (\<lambda>rhoDigest.
      bindE (digestToFieldHex h (''blinding:'' @ pn_blinding position)) (\<lambda>blinding.
      bindE (digestToFieldHex h (''spend:'' @ pn_owner position @ '':'' @ pn_rho position))
        (\<lambda>spendSecretDigest.
      bindE (circuitPositionCommitment h
          \<lparr>cpn_blinding = blinding, cpn_entryPrice = pn_entryPrice position,
           cpn_fundingIndex = pn_fundingIndex position, cpn_margin = pn_margin position,
           cpn_marketDigest = marketDigest, cpn_ownerDigest = ownerDigest, cpn_rhoDigest = rhoDigest,
           cpn_side = pn_side position, cpn_size = pn_size position,
           cpn_spendSecretDigest = spendSecretDigest\<rparr>) (\<lambda>positionCommitment.
      bindE (circuitPositionNullifier h rhoDigest spendSecretDigest) (\<lambda>positionNullifier.
        Inr (\<lparr>fill_intentCommitment = pmi_intentCommitment intent, fill_marketId = pmi_marketId intent,
              fill_ownerCommitment = pmi_ownerCommitment intent, fill_side = bo_side order,
              fill_size = sz, fill_price = price, fill_margin = margin,
              fill_positionCommitment = positionCommitment,
              fill_positionNullifier = positionNullifier\<rparr>, order'))))))))))"

definition createExecution ::
  "BookOrder \<Rightarrow> BookOrder \<Rightarrow> int \<Rightarrow> int \<Rightarrow> Fill \<Rightarrow> Fill \<Rightarrow> FillFees \<Rightarrow> MatchExecution" where
  "createExecution long short sz price longFill shortFill fees =
     (let long_makes = bo_sequence long \<le> bo_sequence short;
          maker = (if long_makes then long else short);
          taker = (if long_makes then short else long)
      in FillFees.extend fees
        \<lparr>me_longIntentCommitment = pmi_intentCommitment (bo_intent long),
         me_longLimitPrice = limit_of long, me_longNoteNullifier = pmi_noteNullifier (bo_intent long),
         me_longPositionCommitment = fill_positionCommitment longFill,
         me_makerIntentCommitment = pmi_intentCommitment (bo_intent maker),
         me_makerSide = bo_side maker, me_price = price,
         me_shortIntentCommitment = pmi_intentCommitment (bo_intent short),
         me_shortLimitPrice = limit_of short,
         me_shortNoteNullifier = pmi_noteNullifier (bo_intent short),
         me_shortPositionCommitment = fill_positionCommitment shortFill, me_size = sz,
         me_takerIntentCommitment = pmi_intentCommitment (bo_intent taker)\<rparr>)"

subsection \<open>The crossing loop\<close>

record MatchState =
  ms_orders :: "BookOrder list"
  ms_fills :: "Fill list"
  ms_executions :: "MatchExecution list"
  ms_spent :: "Hex list"
  ms_longIndex :: nat
  ms_shortIndex :: nat

definition deref :: "MatchState \<Rightarrow> nat \<Rightarrow> BookOrder" where
  "deref st ref = ms_orders st ! ref"

definition take_size :: "int \<Rightarrow> BookOrder \<Rightarrow> BookOrder" where
  "take_size sz x = x\<lparr>bo_remaining := bo_remaining x - sz\<rparr>"

text \<open>The body of the loop, on the orders the two indices refer to.\<close>

definition matchStep ::
  "host \<Rightarrow> MatchInput \<Rightarrow> nat list \<Rightarrow> nat list \<Rightarrow> MatchState \<Rightarrow> MatchState result" where
  "matchStep h i longs shorts st =
     (let long = deref st (longs ! ms_longIndex st);
          short = deref st (shorts ! ms_shortIndex st);
          sz = min (bo_remaining long) (bo_remaining short);
          price = executionPrice long short
      in bindE (fillFees sz price) (\<lambda>fees.
        let long_makes = bo_sequence long \<le> bo_sequence short;
            longDelta = (if long_makes then fee_makerRebate fees else - fee_grossTakerFee fees);
            shortDelta = (if long_makes then - fee_grossTakerFee fees else fee_makerRebate fees);
            count = length (ms_fills st)
        in bindE (createFill h i long sz price count longDelta) (\<lambda>(longFill, long1).
           bindE (createFill h i short sz price (count + 1) shortDelta) (\<lambda>(shortFill, short1).
             let execution = createExecution long1 short1 sz price longFill shortFill fees;
                 long2 = take_size sz long1;
                 short2 = take_size sz short1
             in Inr (st\<lparr>
               ms_orders := (ms_orders st)[longs ! ms_longIndex st := long2,
                                           shorts ! ms_shortIndex st := short2],
               ms_fills := ms_fills st @ [longFill, shortFill],
               ms_executions := ms_executions st @ [execution],
               ms_spent := sadd (pmi_noteNullifier (bo_intent short))
                             (sadd (pmi_noteNullifier (bo_intent long)) (ms_spent st)),
               ms_longIndex :=
                 (if bo_remaining long2 = 0 then Suc (ms_longIndex st) else ms_longIndex st),
               ms_shortIndex :=
                 (if bo_remaining short2 = 0 then Suc (ms_shortIndex st) else ms_shortIndex st)\<rparr>)))))"

definition crossing :: "nat list \<Rightarrow> nat list \<Rightarrow> MatchState \<Rightarrow> bool" where
  "crossing longs shorts st \<longleftrightarrow>
     ms_longIndex st < length longs \<and> ms_shortIndex st < length shorts
     \<and> \<not> limit_of (deref st (longs ! ms_longIndex st)) < limit_of (deref st (shorts ! ms_shortIndex st))"

lemma createFill_order:
  "createFill h i x sz p k d = Inr (f, x') \<Longrightarrow>
     x' = snd (allocateMargin x sz) \<and> fill_margin f = fst (allocateMargin x sz) + d
     \<and> fill_size f = sz \<and> fill_price f = p \<and> fill_side f = bo_side x
     \<and> fill_intentCommitment f = pmi_intentCommitment (bo_intent x)
     \<and> fill_marketId f = pmi_marketId (bo_intent x)
     \<and> assertFill (fill_margin f) (mi_market i) p sz = Inr ()"
  by (auto simp: createFill_def bindE_Inr_iff Let_def allocateMargin_def)

text \<open>An order after a fill of a size, and what one iteration does.\<close>

definition fill_order :: "int \<Rightarrow> BookOrder \<Rightarrow> BookOrder" where
  "fill_order sz x = take_size sz (snd (allocateMargin x sz))"

lemma fill_order_simps [simp]:
  "bo_remaining (fill_order sz x) = bo_remaining x - sz"
  "bo_filled (fill_order sz x) = bo_filled x + sz"
  "bo_intent (fill_order sz x) = bo_intent x"
  "bo_sequence (fill_order sz x) = bo_sequence x"
  "bo_side (fill_order sz x) = bo_side x"
  "bo_size (fill_order sz x) = bo_size x"
  "bo_allocatedMargin (fill_order sz x)
     = ceilDiv (pmi_margin (bo_intent x) * (bo_filled x + sz)) (bo_size x)"
  by (simp_all add: fill_order_def take_size_def allocateMargin_def Let_def)

lemma allocateMargin_amount:
  "fst (allocateMargin x sz) = bo_allocatedMargin (fill_order sz x) - bo_allocatedMargin x"
  by (simp add: allocateMargin_def Let_def)

lemma matchStep_elim:
  assumes "matchStep h i longs shorts st = Inr st'"
  obtains long short sz price fees lf sf long1 short1 where
    "long = deref st (longs ! ms_longIndex st)" "short = deref st (shorts ! ms_shortIndex st)"
    "sz = min (bo_remaining long) (bo_remaining short)" "price = executionPrice long short"
    "fillFees sz price = Inr fees"
    "createFill h i long sz price (length (ms_fills st))
       (if bo_sequence long \<le> bo_sequence short then fee_makerRebate fees
        else - fee_grossTakerFee fees) = Inr (lf, long1)"
    "createFill h i short sz price (length (ms_fills st) + 1)
       (if bo_sequence long \<le> bo_sequence short then - fee_grossTakerFee fees
        else fee_makerRebate fees) = Inr (sf, short1)"
    "ms_orders st' = (ms_orders st)[longs ! ms_longIndex st := fill_order sz long,
        shorts ! ms_shortIndex st := fill_order sz short]"
    "ms_fills st' = ms_fills st @ [lf, sf]"
    "ms_executions st' = ms_executions st @ [createExecution long short sz price lf sf fees]"
    "ms_spent st' = sadd (pmi_noteNullifier (bo_intent short))
        (sadd (pmi_noteNullifier (bo_intent long)) (ms_spent st))"
    "ms_longIndex st' = ms_longIndex st + (if bo_remaining long = sz then 1 else 0)"
    "ms_shortIndex st' = ms_shortIndex st + (if bo_remaining short = sz then 1 else 0)"
proof -
  let ?l = "deref st (longs ! ms_longIndex st)" and ?s = "deref st (shorts ! ms_shortIndex st)"
  let ?sz = "min (bo_remaining ?l) (bo_remaining ?s)" and ?p = "executionPrice ?l ?s"
  let ?m = "bo_sequence ?l \<le> bo_sequence ?s" and ?n = "length (ms_fills st)"
  obtain fees lf l1 sf s1 where f: "fillFees ?sz ?p = Inr fees"
    and lf: "createFill h i ?l ?sz ?p ?n
        (if ?m then fee_makerRebate fees else - fee_grossTakerFee fees) = Inr (lf, l1)"
    and sf: "createFill h i ?s ?sz ?p (?n + 1)
        (if ?m then - fee_grossTakerFee fees else fee_makerRebate fees) = Inr (sf, s1)"
    using assms unfolding matchStep_def Let_def bindE_Inr_iff split_paired_Ex prod.case by (elim exE conjE)
  have l1: "l1 = snd (allocateMargin ?l ?sz)" "s1 = snd (allocateMargin ?s ?sz)"
    using createFill_order [OF lf] createFill_order [OF sf] by blast+
  have ex: "createExecution l1 s1 ?sz ?p lf sf fees = createExecution ?l ?s ?sz ?p lf sf fees"
    by (simp add: l1 createExecution_def allocateMargin_def Let_def)
  have st': "st' = st\<lparr>ms_orders := (ms_orders st)[longs ! ms_longIndex st := fill_order ?sz ?l,
        shorts ! ms_shortIndex st := fill_order ?sz ?s],
      ms_fills := ms_fills st @ [lf, sf],
      ms_executions := ms_executions st @ [createExecution ?l ?s ?sz ?p lf sf fees],
      ms_spent := sadd (pmi_noteNullifier (bo_intent ?s))
        (sadd (pmi_noteNullifier (bo_intent ?l)) (ms_spent st)),
      ms_longIndex := (if bo_remaining (fill_order ?sz ?l) = 0 then Suc (ms_longIndex st)
        else ms_longIndex st),
      ms_shortIndex := (if bo_remaining (fill_order ?sz ?s) = 0 then Suc (ms_shortIndex st)
        else ms_shortIndex st)\<rparr>"
    using assms unfolding matchStep_def Let_def f bindE_simps lf sf prod.case ex
    unfolding l1 fill_order_def by (simp add: Let_def)
  show ?thesis
    by (rule that [OF refl refl refl refl f lf sf]; simp add: st')
qed

lemma matchStep_progress:
  assumes "matchStep h i longs shorts st = Inr st'"
  shows "ms_longIndex st \<le> ms_longIndex st'" "ms_shortIndex st \<le> ms_shortIndex st'"
    and "ms_longIndex st < ms_longIndex st' \<or> ms_shortIndex st < ms_shortIndex st'"
  by (rule matchStep_elim [OF assms]; simp add: min_def)+

function matchLoop ::
  "host \<Rightarrow> MatchInput \<Rightarrow> nat list \<Rightarrow> nat list \<Rightarrow> MatchState \<Rightarrow> MatchState result" where
  "matchLoop h i longs shorts st =
     (if crossing longs shorts st
      then (case matchStep h i longs shorts st of Inl e \<Rightarrow> Inl e
            | Inr st' \<Rightarrow> matchLoop h i longs shorts st')
      else Inr st)"
  by pat_completeness auto
termination
proof (relation "measure (\<lambda>(h, i, longs, shorts, st).
      (length longs - ms_longIndex st) + (length shorts - ms_shortIndex st))")
  fix h :: host and i longs shorts st st'
  assume c: "crossing longs shorts st" and s: "matchStep h i longs shorts st = Inr st'"
  show "((h, i, longs, shorts, st'), h, i, longs, shorts, st) \<in> measure (\<lambda>(h, i, longs, shorts, st).
      (length longs - ms_longIndex st) + (length shorts - ms_shortIndex st))"
    using matchStep_progress [OF s] c by (auto simp: crossing_def)
qed simp

declare matchLoop.simps [simp del]

subsection \<open>match\<close>

definition residualCommitment :: "host \<Rightarrow> BookOrder \<Rightarrow> Hex" where
  "residualCommitment h order = hashFields h ''residual-order''
     [JStr (pmi_intentCommitment (bo_intent order)), JBig (bo_filled order),
      JBig (bo_allocatedMargin order)]"

definition residualNullifier :: "host \<Rightarrow> BookOrder \<Rightarrow> Hex" where
  "residualNullifier h order = hashFields h ''residual-nullifier''
     [JStr (pmi_intentCommitment (bo_intent order)), JBig (bo_filled order),
      JBig (bo_remaining order), JBig (bo_allocatedMargin order)]"

definition createOrderUpdates :: "host \<Rightarrow> BookOrder list \<Rightarrow> OrderLifecycleUpdate list" where
  "createOrderUpdates h orders =
     map (\<lambda>order. \<lparr>olu_intentCommitment = pmi_intentCommitment (bo_intent order),
            olu_residualCommitment =
              (if bo_remaining order > 0 then Some (residualCommitment h order) else None),
            olu_status = (if bo_remaining order > 0 then PartiallyFilled else OrderFilled)\<rparr>)
       (filter (\<lambda>order. bo_filled order > 0) orders)"

definition createResiduals ::
  "host \<Rightarrow> MatchInput \<Rightarrow> BookOrder list \<Rightarrow> PrivateMatchIntent list result" where
  "createResiduals h i orders =
     mapE (\<lambda>order.
         let margin = pmi_margin (bo_intent order) - bo_allocatedMargin order
         in if margin \<le> 0 then throw ''invalid residual margin''
            else Inr \<lparr>pmi_batchId = mi_batchId i, pmi_intentCommitment = residualCommitment h order,
                   pmi_limitPrice = limit_of order, pmi_margin = margin,
                   pmi_marketId = pmi_marketId (bo_intent order), pmi_noteChangeCommitment = ZERO_HEX,
                   pmi_noteNullifier = residualNullifier h order,
                   pmi_ownerCommitment = pmi_ownerCommitment (bo_intent order),
                   pmi_signedSize =
                     (if bo_side order = Long then bo_remaining order else - bo_remaining order),
                   pmi_sourceIntentCommitment = Some (pmi_intentCommitment (bo_intent order))\<rparr>)
       (filter (\<lambda>order. bo_filled order > 0 \<and> bo_remaining order > 0) orders)"

definition createMarginChangeCommitments :: "BookOrder list \<Rightarrow> Hex list" where
  "createMarginChangeCommitments orders =
     map (\<lambda>order. pmi_noteChangeCommitment (bo_intent order))
       (filter (\<lambda>order. bo_filled order > 0 \<and> pmi_noteChangeCommitment (bo_intent order) \<noteq> ZERO_HEX)
         orders)"

definition order_status_str :: "OrderStatus \<Rightarrow> string" where
  "order_status_str s = (case s of OrderOpen \<Rightarrow> ''open'' | PartiallyFilled \<Rightarrow> ''partially-filled''
     | OrderFilled \<Rightarrow> ''filled'' | OrderCancelled \<Rightarrow> ''cancelled'')"

definition matchTranscriptDigest :: "host \<Rightarrow> MatchResult \<Rightarrow> Hex" where
  "matchTranscriptDigest h m = hashFields h ''match-transcript''
     [JArr (map (\<lambda>e. JArr
        [JBig (fee_grossTakerFee e), JBig (fee_makerRebate e), JBig (fee_insurance e),
         JBig (fee_treasury e), JStr (me_longIntentCommitment e), JBig (me_longLimitPrice e),
         JStr (me_longNoteNullifier e), JStr (me_longPositionCommitment e),
         JStr (me_makerIntentCommitment e), JStr (side_str (me_makerSide e)), JBig (me_price e),
         JStr (me_shortIntentCommitment e), JBig (me_shortLimitPrice e),
         JStr (me_shortNoteNullifier e), JStr (me_shortPositionCommitment e), JBig (me_size e),
         JStr (me_takerIntentCommitment e)]) (mres_executions m)),
      JArr [JBig (fee_grossTakerFee (mres_fees m)), JBig (fee_makerRebate (mres_fees m)),
            JBig (fee_insurance (mres_fees m)), JBig (fee_treasury (mres_fees m))],
      JArr (map (\<lambda>f. JArr
        [JStr (fill_intentCommitment f), JStr (fill_marketId f), JStr (fill_ownerCommitment f),
         JStr (side_str (fill_side f)), JBig (fill_size f), JBig (fill_price f), JBig (fill_margin f),
         JStr (fill_positionCommitment f), JStr (fill_positionNullifier f)]) (mres_fills m)),
      JArr (map JStr (mres_marginChangeCommitments m)),
      JArr (map (\<lambda>u. JArr
        [JStr (olu_intentCommitment u),
         JStr (case olu_residualCommitment u of Some c \<Rightarrow> c | None \<Rightarrow> ''0x0''),
         JStr (order_status_str (olu_status u))]) (mres_orderUpdates m)),
      JArr (map (\<lambda>r. JArr
        [JStr (pmi_intentCommitment r), JStr (pmi_marketId r), JStr (pmi_ownerCommitment r),
         JBig (pmi_signedSize r), JBig (pmi_limitPrice r), JBig (pmi_margin r),
         JStr (pmi_noteNullifier r),
         JStr (case pmi_sourceIntentCommitment r of Some c \<Rightarrow> c | None \<Rightarrow> ''0x0'')])
        (mres_residuals m)),
      JArr (map JStr (mres_spentNullifiers m)), JBig (mres_aggregateVolume m),
      JBig (mres_openInterestDelta m), JBig (mres_residualSize m), JBig (mres_totalLongSize m),
      JBig (mres_totalShortSize m)]"

definition toBookOrders :: "PrivateMatchIntent list \<Rightarrow> BookOrder list result" where
  "toBookOrders intents = mapE (\<lambda>(sequence, intent). toBookOrder intent sequence) (enumerate 0 intents)"

definition book_refs :: "side \<Rightarrow> (BookOrder \<Rightarrow> BookOrder \<Rightarrow> int) \<Rightarrow> BookOrder list \<Rightarrow> nat list" where
  "book_refs sd cmp orders = map bo_sequence (js_sort cmp (filter (\<lambda>x. bo_side x = sd) orders))"

text \<open>The part of \<open>match\<close> up to and including the loop.\<close>

definition matchBook :: "host \<Rightarrow> MatchInput \<Rightarrow> MatchState result" where
  "matchBook h i =
     bindE (toBookOrders (mi_intents i)) (\<lambda>orders.
     bindE (rejectDuplicateNullifiers [] orders) (\<lambda>_.
       matchLoop h i (book_refs Long compareLongPriority orders)
         (book_refs Short compareShortPriority orders)
         \<lparr>ms_orders = orders, ms_fills = [], ms_executions = [], ms_spent = [],
          ms_longIndex = 0, ms_shortIndex = 0\<rparr>))"

definition sum_fees :: "MatchExecution list \<Rightarrow> FillFees" where
  "sum_fees es = fold (\<lambda>e total.
     \<lparr>fee_grossTakerFee = fee_grossTakerFee total + fee_grossTakerFee e,
      fee_makerRebate = fee_makerRebate total + fee_makerRebate e,
      fee_insurance = fee_insurance total + fee_insurance e,
      fee_treasury = fee_treasury total + fee_treasury e\<rparr>) es
     \<lparr>fee_grossTakerFee = 0, fee_makerRebate = 0, fee_insurance = 0, fee_treasury = 0\<rparr>"

definition batch_match :: "host \<Rightarrow> MatchInput \<Rightarrow> MatchResult result" where
  "batch_match h i =
     bindE (matchBook h i) (\<lambda>st.
       let orders = ms_orders st; fills = ms_fills st; executions = ms_executions st in
       if length fills = 0 then throw ''batch has no crossed liquidity''
       else
         let aggregateVolume = sum_list (map fill_size fills);
             totalLongSize = sum_list (map bo_size (filter (\<lambda>x. bo_side x = Long) orders));
             totalShortSize = sum_list (map bo_size (filter (\<lambda>x. bo_side x = Short) orders));
             inputSigned = totalLongSize - totalShortSize;
             filledSigned = sum_list (map (\<lambda>f. if fill_side f = Long then fill_size f else - fill_size f)
               fills);
             residualSigned = inputSigned - filledSigned
         in bindE (createResiduals h i orders) (\<lambda>residuals.
           let m = \<lparr>mres_executions = executions, mres_fills = fills, mres_fees = sum_fees executions,
                 mres_marginChangeCommitments = createMarginChangeCommitments orders,
                 mres_orderUpdates = createOrderUpdates h orders, mres_residuals = residuals,
                 mres_spentNullifiers = ms_spent st, mres_aggregateVolume = aggregateVolume,
                 mres_openInterestDelta = aggregateVolume,
                 mres_residualSize = (if residualSigned < 0 then - residualSigned else residualSigned),
                 mres_totalLongSize = totalLongSize, mres_totalShortSize = totalShortSize,
                 mres_matchTranscriptDigest = []\<rparr>
           in Inr (m\<lparr>mres_matchTranscriptDigest := matchTranscriptDigest h m\<rparr>)))"

subsection \<open>The comparators\<close>

interpretation long_book: total_comparator compareLongPriority
  by unfold_locales (auto simp: compareLongPriority_def split: if_splits)

interpretation short_book: total_comparator compareShortPriority
  by unfold_locales (auto simp: compareShortPriority_def split: if_splits)

end
