(* ===== verification/Match_Invariant.thy ===== *)
theory Match_Invariant
  imports Batch_Matcher
begin

text \<open>
  The invariant of the matcher's crossing loop: the orders stay well formed (\<open>order_ok\<close>), each
  book array lists its side by priority (\<open>refs_ok\<close>) and is consumed from the front
  (\<open>progress_ok\<close>), and what the loop records agrees with the orders (\<open>recorded_ok\<close>). The
  step lemmas are put together for a whole run in \<open>matchBook_elim\<close>.
\<close>

subsection \<open>Lemmas: orders\<close>

lemma ceilDiv_eq: "0 \<le> v \<Longrightarrow> 0 < d \<Longrightarrow> ceilDiv v d = (v + d - 1) div d"
  by (simp add: ceilDiv_def sdiv_nonneg)

lemma ceilDiv_zero [simp]: "0 < d \<Longrightarrow> ceilDiv 0 d = 0"
  by (simp add: ceilDiv_eq)

lemma ceilDiv_full [simp]: "0 < d \<Longrightarrow> 0 \<le> m \<Longrightarrow> ceilDiv (m * d) d = m"
proof -
  assume d: "0 < d" "0 \<le> m"
  have "(m * d + d - 1) div d = (d - 1 + m * d) div d" by (simp add: algebra_simps)
  also have "\<dots> = m" using d by (subst div_mult_self1) simp_all
  finally show "ceilDiv (m * d) d = m" using d by (simp add: ceilDiv_eq)
qed

lemma ceilDiv_nonneg: "0 \<le> v \<Longrightarrow> 0 < d \<Longrightarrow> 0 \<le> ceilDiv v d"
  by (simp add: ceilDiv_eq pos_imp_zdiv_nonneg_iff)

lemma ceilDiv_mono: "0 \<le> v \<Longrightarrow> v \<le> w \<Longrightarrow> 0 < d \<Longrightarrow> ceilDiv v d \<le> ceilDiv w d"
  by (simp add: ceilDiv_eq zdiv_mono1)

definition order_ok :: "BookOrder \<Rightarrow> bool" where
  "order_ok x \<longleftrightarrow>
     0 < bo_size x \<and> 0 < limit_of x \<and> 0 < pmi_margin (bo_intent x)
     \<and> bo_side x = (if 0 \<le> pmi_signedSize (bo_intent x) then Long else Short)
     \<and> bo_size x = \<bar>pmi_signedSize (bo_intent x)\<bar>
     \<and> 0 \<le> bo_filled x \<and> 0 \<le> bo_remaining x \<and> bo_filled x + bo_remaining x = bo_size x
     \<and> bo_allocatedMargin x = ceilDiv (pmi_margin (bo_intent x) * bo_filled x) (bo_size x)"

lemma toBookOrder_ok:
  "toBookOrder intent k = Inr x \<Longrightarrow>
     order_ok x \<and> bo_intent x = intent \<and> bo_sequence x = k \<and> bo_filled x = 0 \<and> 0 < bo_remaining x"
  by (auto simp: toBookOrder_def order_ok_def Let_def split: if_splits)

lemma fill_order_ok:
  "order_ok x \<Longrightarrow> 0 \<le> sz \<Longrightarrow> sz \<le> bo_remaining x \<Longrightarrow> order_ok (fill_order sz x)"
  by (auto simp: order_ok_def)

lemma order_ok_margin:
  assumes "order_ok x"
  shows "0 \<le> bo_allocatedMargin x" "bo_allocatedMargin x \<le> pmi_margin (bo_intent x)"
    and "bo_remaining x = 0 \<Longrightarrow> bo_allocatedMargin x = pmi_margin (bo_intent x)"
    and "bo_filled x = 0 \<Longrightarrow> bo_allocatedMargin x = 0"
proof -
  let ?m = "pmi_margin (bo_intent x)"
  have ok: "0 < bo_size x" "0 < ?m" "0 \<le> bo_filled x" "bo_filled x \<le> bo_size x"
      "bo_allocatedMargin x = ceilDiv (?m * bo_filled x) (bo_size x)"
    using assms by (auto simp: order_ok_def)
  then show "0 \<le> bo_allocatedMargin x" by (simp add: ceilDiv_nonneg)
  have "ceilDiv (?m * bo_filled x) (bo_size x) \<le> ceilDiv (?m * bo_size x) (bo_size x)"
    using ok by (intro ceilDiv_mono) simp_all
  with ok show "bo_allocatedMargin x \<le> ?m" by simp
  show "bo_allocatedMargin x = ?m" if "bo_remaining x = 0"
  proof -
    have "bo_filled x = bo_size x" using that assms by (simp add: order_ok_def)
    with ok show ?thesis by simp
  qed
  show "bo_allocatedMargin x = 0" if "bo_filled x = 0" using that ok by simp
qed

lemma le_div_iff:
  assumes "0 < (b :: int)"
  shows "m \<le> k div b \<longleftrightarrow> m * b \<le> k"
proof
  assume "m \<le> k div b"
  then have "m * b \<le> b * (k div b)" using assms by (simp add: mult.commute)
  also have "\<dots> \<le> k" by (rule div_mult_bounds [OF assms])
  finally show "m * b \<le> k" .
next
  assume "m * b \<le> k"
  then have "(m * b) div b \<le> k div b" using assms by (intro zdiv_mono1)
  then show "m \<le> k div b" using assms by simp
qed

lemma allocated_full_iff:
  assumes "order_ok x"
  shows "bo_allocatedMargin x = pmi_margin (bo_intent x)
    \<longleftrightarrow> pmi_margin (bo_intent x) * bo_remaining x < bo_size x"
proof -
  let ?m = "pmi_margin (bo_intent x)" and ?s = "bo_size x" and ?f = "bo_filled x"
  have ok: "0 < ?s" "0 < ?m" "0 \<le> ?f" "bo_remaining x = ?s - ?f"
      "bo_allocatedMargin x = (?m * ?f + ?s - 1) div ?s"
    using assms by (auto simp: order_ok_def ceilDiv_eq)
  have "?m \<le> (?m * ?f + ?s - 1) div ?s \<longleftrightarrow> ?m * ?s \<le> ?m * ?f + ?s - 1"
    using ok(1) by (simp add: le_div_iff)
  also have "\<dots> \<longleftrightarrow> ?m * (?s - ?f) < ?s" by (auto simp: algebra_simps)
  finally show ?thesis using order_ok_margin(2) [OF assms] ok by auto
qed

subsection \<open>Lemmas: the book\<close>

lemma toBookOrders_ok:
  assumes "toBookOrders intents = Inr orders"
  shows "map bo_intent orders = intents" "map bo_sequence orders = [0..<length orders]"
    and "x \<in> set orders \<Longrightarrow> order_ok x \<and> bo_filled x = 0 \<and> 0 < bo_remaining x"
proof -
  have all: "length orders = length intents
      \<and> (\<forall>k<length intents. toBookOrder (intents ! k) k = Inr (orders ! k))"
    using assms by (auto simp: toBookOrders_def mapE_Inr_iff list_all2_conv_all_nth nth_enumerate_eq)
  then have each: "order_ok (orders ! k) \<and> bo_intent (orders ! k) = intents ! k
      \<and> bo_sequence (orders ! k) = k \<and> bo_filled (orders ! k) = 0 \<and> 0 < bo_remaining (orders ! k)"
    if "k < length intents" for k
    using that toBookOrder_ok by blast
  show "map bo_intent orders = intents" "map bo_sequence orders = [0..<length orders]"
    using all each by (auto intro!: nth_equalityI)
  show "x \<in> set orders \<Longrightarrow> order_ok x \<and> bo_filled x = 0 \<and> 0 < bo_remaining x"
    using all each by (auto simp: in_set_conv_nth)
qed

text \<open>The orders a book array refers to: all of its side, once each, in the order of priority.\<close>

definition refs_ok :: "side \<Rightarrow> (BookOrder \<Rightarrow> BookOrder \<Rightarrow> int) \<Rightarrow> BookOrder list \<Rightarrow> nat list \<Rightarrow> bool" where
  "refs_ok sd cmp orders refs \<longleftrightarrow>
     distinct refs \<and> set refs = {k. k < length orders \<and> bo_side (orders ! k) = sd}
     \<and> sorted_wrt (\<lambda>a b. cmp (orders ! a) (orders ! b) \<le> 0) refs"

lemma book_refs_ok:
  assumes seq: "map bo_sequence orders = [0..<length orders]"
    and sorted: "\<And>xs. sorted_wrt (\<lambda>x y. cmp x y \<le> 0) (js_sort cmp xs)"
  shows "refs_ok sd cmp orders (book_refs sd cmp orders)"
proof -
  have pos: "bo_sequence (orders ! k) = k" if "k < length orders" for k
    using that seq by (metis add_0 length_map nth_map nth_upt)
  have self: "orders ! bo_sequence x = x" if "x \<in> set orders" for x
    using that pos by (auto simp: in_set_conv_nth)
  let ?f = "filter (\<lambda>x. bo_side x = sd) orders"
  have "distinct (map bo_sequence orders)" by (simp add: seq)
  then have "distinct (map bo_sequence ?f)" by (simp add: distinct_map_filter)
  then have dist: "distinct (book_refs sd cmp orders)"
    unfolding book_refs_def by (metis mset_eq_imp_distinct_iff mset_js_sort mset_map)
  have set: "set (book_refs sd cmp orders) = {k. k < length orders \<and> bo_side (orders ! k) = sd}"
    using pos by (auto simp: book_refs_def in_set_conv_nth image_iff) (metis)
  have "sorted_wrt (\<lambda>x y. cmp (orders ! bo_sequence x) (orders ! bo_sequence y) \<le> 0) (js_sort cmp ?f)"
    by (rule sorted_wrt_mono_rel [OF _ sorted]) (auto simp: self)
  then have "sorted_wrt (\<lambda>a b. cmp (orders ! a) (orders ! b) \<le> 0) (book_refs sd cmp orders)"
    by (simp add: book_refs_def sorted_wrt_map)
  with dist set show ?thesis by (simp add: refs_ok_def)
qed

subsection \<open>Lemmas: the invariant of the loop\<close>

text \<open>How far a side of the book has been consumed.\<close>

definition progress_ok :: "BookOrder list \<Rightarrow> nat list \<Rightarrow> nat \<Rightarrow> bool" where
  "progress_ok orders refs idx \<longleftrightarrow>
     idx \<le> length refs
     \<and> (\<forall>k<idx. bo_remaining (orders ! (refs ! k)) = 0)
     \<and> (\<forall>k<length refs. idx \<le> k \<longrightarrow> 0 < bo_remaining (orders ! (refs ! k)))
     \<and> (\<forall>k<length refs. idx < k \<longrightarrow> bo_filled (orders ! (refs ! k)) = 0)"

definition order_key :: "BookOrder \<Rightarrow> side \<times> PrivateMatchIntent \<times> nat" where
  "order_key x = (bo_side x, bo_intent x, bo_sequence x)"

definition book_ok :: "MatchInput \<Rightarrow> nat list \<Rightarrow> nat list \<Rightarrow> MatchState \<Rightarrow> bool" where
  "book_ok i longs shorts st \<longleftrightarrow>
     map bo_intent (ms_orders st) = mi_intents i
     \<and> (\<forall>x\<in>set (ms_orders st). order_ok x)
     \<and> refs_ok Long compareLongPriority (ms_orders st) longs
     \<and> refs_ok Short compareShortPriority (ms_orders st) shorts
     \<and> progress_ok (ms_orders st) longs (ms_longIndex st)
     \<and> progress_ok (ms_orders st) shorts (ms_shortIndex st)"

lemma refs_ok_key:
  assumes "map order_key orders' = map order_key orders" and "refs_ok sd cmp orders refs"
    and "\<And>a b a' b'. order_key a = order_key a' \<Longrightarrow> order_key b = order_key b' \<Longrightarrow> cmp a b = cmp a' b'"
  shows "refs_ok sd cmp orders' refs"
proof -
  have len: "length orders' = length orders" using assms(1) by (metis length_map)
  have key: "order_key (orders' ! k) = order_key (orders ! k)" if "k < length orders" for k
    using that assms(1) len by (metis nth_map)
  have refs: "a < length orders" if "a \<in> set refs" for a using that assms(2) by (simp add: refs_ok_def)
  have "sorted_wrt (\<lambda>a b. cmp (orders' ! a) (orders' ! b) \<le> 0) refs"
  proof (rule sorted_wrt_mono_rel)
    show "sorted_wrt (\<lambda>a b. cmp (orders ! a) (orders ! b) \<le> 0) refs"
      using assms(2) by (simp add: refs_ok_def)
    show "cmp (orders' ! a) (orders' ! b) \<le> 0"
      if "a \<in> set refs" "b \<in> set refs" "cmp (orders ! a) (orders ! b) \<le> 0" for a b
      using that assms(3) [OF key key, of a b] refs by simp
  qed
  moreover have "bo_side (orders' ! k) = bo_side (orders ! k)" if "k < length orders" for k
    using key [OF that] by (simp add: order_key_def)
  ultimately show ?thesis using assms(2) len by (auto simp: refs_ok_def)
qed

lemma progress_ok_fill:
  assumes "progress_ok orders refs idx" "idx < length refs" "distinct refs"
    and "0 < sz" "sz \<le> bo_remaining (orders ! (refs ! idx))"
    and "orders' ! (refs ! idx) = fill_order sz (orders ! (refs ! idx))"
    and "\<And>k. k \<in> set refs \<Longrightarrow> k \<noteq> refs ! idx \<Longrightarrow> orders' ! k = orders ! k"
  shows "progress_ok orders' refs
    (idx + (if bo_remaining (orders ! (refs ! idx)) = sz then 1 else 0))"
proof -
  have same: "orders' ! (refs ! k) = orders ! (refs ! k)" if "k < length refs" "k \<noteq> idx" for k
    using that assms(2,3,7) by (simp add: nth_eq_iff_index_eq)
  have cut: "k < Suc idx \<longleftrightarrow> k < idx \<or> k = idx" "Suc idx \<le> k \<longleftrightarrow> idx < k" for k by auto
  show ?thesis
    using assms(1,2,4,5,6) same
    by (auto simp: progress_ok_def cut order.order_iff_strict [of idx] dest: less_trans)
qed

lemma matchStep_cases:
  assumes "book_ok i longs shorts st" "crossing longs shorts st"
    and "matchStep h i longs shorts st = Inr st'"
  obtains l s sz price fees lf sf where
    "l = longs ! ms_longIndex st" "s = shorts ! ms_shortIndex st"
    "l < length (ms_orders st)" "s < length (ms_orders st)" "l \<noteq> s"
    "bo_side (ms_orders st ! l) = Long" "bo_side (ms_orders st ! s) = Short"
    "sz = min (bo_remaining (ms_orders st ! l)) (bo_remaining (ms_orders st ! s))" "0 < sz"
    "price = executionPrice (ms_orders st ! l) (ms_orders st ! s)"
    "limit_of (ms_orders st ! s) \<le> limit_of (ms_orders st ! l)" "fillFees sz price = Inr fees"
    "fill_size lf = sz" "fill_price lf = price" "fill_side lf = Long"
    "fill_size sf = sz" "fill_price sf = price" "fill_side sf = Short"
    "fill_margin lf + fill_margin sf =
       (bo_allocatedMargin (fill_order sz (ms_orders st ! l)) - bo_allocatedMargin (ms_orders st ! l))
       + (bo_allocatedMargin (fill_order sz (ms_orders st ! s)) - bo_allocatedMargin (ms_orders st ! s))
       - fee_insurance fees - fee_treasury fees"
    "assertFill (fill_margin lf) (mi_market i) price sz = Inr ()"
    "assertFill (fill_margin sf) (mi_market i) price sz = Inr ()"
    "ms_orders st' = (ms_orders st)[l := fill_order sz (ms_orders st ! l),
        s := fill_order sz (ms_orders st ! s)]"
    "ms_fills st' = ms_fills st @ [lf, sf]"
    "ms_executions st' = ms_executions st
       @ [createExecution (ms_orders st ! l) (ms_orders st ! s) sz price lf sf fees]"
    "ms_spent st' = sadd (pmi_noteNullifier (bo_intent (ms_orders st ! s)))
        (sadd (pmi_noteNullifier (bo_intent (ms_orders st ! l))) (ms_spent st))"
    "ms_longIndex st' = ms_longIndex st + (if bo_remaining (ms_orders st ! l) = sz then 1 else 0)"
    "ms_shortIndex st' = ms_shortIndex st + (if bo_remaining (ms_orders st ! s) = sz then 1 else 0)"
proof (rule matchStep_elim [OF assms(3)], goal_cases)
  case (1 long short sz price fees lf sf long1 short1)
  let ?l = "longs ! ms_longIndex st" and ?s = "shorts ! ms_shortIndex st"
  have idx: "ms_longIndex st < length longs" "ms_shortIndex st < length shorts"
      "limit_of (ms_orders st ! ?s) \<le> limit_of (ms_orders st ! ?l)"
    using assms(2) by (auto simp: crossing_def deref_def)
  have "?l \<in> set longs" "?s \<in> set shorts" using idx by simp_all
  then have refs: "?l < length (ms_orders st)" "bo_side (ms_orders st ! ?l) = Long"
      "?s < length (ms_orders st)" "bo_side (ms_orders st ! ?s) = Short"
    using assms(1) by (auto simp: book_ok_def refs_ok_def)
  then have "?l \<noteq> ?s" by auto
  have rem: "0 < bo_remaining (ms_orders st ! ?l)" "0 < bo_remaining (ms_orders st ! ?s)"
    using assms(1) idx by (auto simp: book_ok_def progress_ok_def)
  note ll = 1(2,3) [unfolded deref_def]
  have fees: "fee_grossTakerFee fees = fee_makerRebate fees + fee_insurance fees + fee_treasury fees"
    by (rule fillFees_conserves [OF 1(6)])
  note st' = 1(9-14) [unfolded ll]
  have lf: "fill_size lf = sz" "fill_price lf = price" "fill_side lf = Long"
      "assertFill (fill_margin lf) (mi_market i) price sz = Inr ()"
    and sf: "fill_size sf = sz" "fill_price sf = price" "fill_side sf = Short"
      "assertFill (fill_margin sf) (mi_market i) price sz = Inr ()"
    using createFill_order [OF 1(7) [unfolded ll]] createFill_order [OF 1(8) [unfolded ll]] refs(2,4)
    by metis+
  have margins: "fill_margin lf + fill_margin sf =
       (bo_allocatedMargin (fill_order sz (ms_orders st ! ?l)) - bo_allocatedMargin (ms_orders st ! ?l))
       + (bo_allocatedMargin (fill_order sz (ms_orders st ! ?s)) - bo_allocatedMargin (ms_orders st ! ?s))
       - fee_insurance fees - fee_treasury fees"
    using createFill_order [OF 1(7) [unfolded ll]] createFill_order [OF 1(8) [unfolded ll]] fees
    by (simp add: allocateMargin_amount)
  have sz: "sz = min (bo_remaining (ms_orders st ! ?l)) (bo_remaining (ms_orders st ! ?s))"
    by (rule 1(4) [unfolded ll])
  then have pos: "0 < sz" using rem by simp
  show ?case
    by (rule 1(1) [OF refl refl refs(1,3) \<open>?l \<noteq> ?s\<close> refs(2,4) sz pos 1(5) [unfolded ll] idx(3) 1(6)
          lf(1-3) sf(1-3) margins lf(4) sf(4) st'])
qed

lemma matchLoop_done: "\<not> crossing longs shorts st \<Longrightarrow> matchLoop h i longs shorts st = Inr st"
  by (subst matchLoop.simps) simp

lemma matchLoop_step:
  "crossing longs shorts st \<Longrightarrow> matchStep h i longs shorts st = Inr u \<Longrightarrow>
     matchLoop h i longs shorts st = matchLoop h i longs shorts u"
  by (subst matchLoop.simps) simp

lemma matchLoop_induct:
  assumes "matchLoop h i longs shorts st = Inr st'" and "P st"
    and "\<And>st st'. P st \<Longrightarrow> crossing longs shorts st \<Longrightarrow> matchStep h i longs shorts st = Inr st' \<Longrightarrow> P st'"
  shows "P st' \<and> \<not> crossing longs shorts st'"
  using assms
proof (induction h i longs shorts st rule: matchLoop.induct)
  case (1 h i longs shorts st)
  show ?case
  proof (cases "crossing longs shorts st")
    case True
    then obtain u where u: "matchStep h i longs shorts st = Inr u" "matchLoop h i longs shorts u = Inr st'"
      using "1.prems"(1) by (subst (asm) matchLoop.simps) (auto split: sum.splits)
    show ?thesis
      by (rule "1.IH" [OF True u "1.prems"(3) [OF "1.prems"(2) True u(1)] "1.prems"(3)])
  next
    case False
    with "1.prems"(1,2) show ?thesis by (subst (asm) matchLoop.simps) auto
  qed
qed

lemma order_key_fill [simp]: "order_key (fill_order sz x) = order_key x"
  by (simp add: order_key_def)

lemma book_ok_step:
  assumes "book_ok i longs shorts st" "crossing longs shorts st"
    and "matchStep h i longs shorts st = Inr st'"
  shows "book_ok i longs shorts st'"
proof (rule matchStep_cases [OF assms], goal_cases)
  case (1 l s sz price fees lf sf)
  note l = \<open>l = _\<close> and s = \<open>s = _\<close> and orders' = \<open>ms_orders st' = _\<close> and sz = \<open>sz = _\<close>
  let ?o = "ms_orders st"
  have book: "refs_ok Long compareLongPriority ?o longs" "refs_ok Short compareShortPriority ?o shorts"
    "progress_ok ?o longs (ms_longIndex st)" "progress_ok ?o shorts (ms_shortIndex st)"
    "\<forall>x\<in>set ?o. order_ok x" "map bo_intent ?o = mi_intents i"
    using assms(1) by (simp_all add: book_ok_def)
  have idx: "ms_longIndex st < length longs" "ms_shortIndex st < length shorts"
    using assms(2) by (simp_all add: crossing_def)
  have dist: "distinct longs" "distinct shorts" using book(1,2) by (simp_all add: refs_ok_def)
  have sides: "bo_side (?o ! l) = Long" "bo_side (?o ! s) = Short" using 1 by simp_all
  have other: "bo_side (?o ! k) = Long" if "k \<in> set longs" for k
    using that book(1) by (simp add: refs_ok_def)
  have other': "bo_side (?o ! k) = Short" if "k \<in> set shorts" for k
    using that book(2) by (simp add: refs_ok_def)
  note other = other other'
  have at: "ms_orders st' ! l = fill_order sz (?o ! l)" "ms_orders st' ! s = fill_order sz (?o ! s)"
    "k \<noteq> l \<Longrightarrow> k \<noteq> s \<Longrightarrow> ms_orders st' ! k = ?o ! k" for k
    using \<open>l \<noteq> s\<close> \<open>l < length ?o\<close> \<open>s < length ?o\<close> by (simp_all add: orders' nth_list_update)
  have key: "map order_key (ms_orders st') = map order_key ?o"
    using 1 by (intro nth_equalityI) (auto simp: nth_list_update)
  have "map bo_intent (ms_orders st') = map bo_intent ?o"
    using 1 by (intro nth_equalityI) (auto simp: nth_list_update)
  moreover have "order_ok x" if "x \<in> set (ms_orders st')" for x
  proof -
    have "order_ok (fill_order sz (?o ! l))" "order_ok (fill_order sz (?o ! s))"
      using 1 book(5) by (auto intro!: fill_order_ok)
    with that book(5) orders' show ?thesis
      by (auto dest!: subsetD [OF set_update_subset_insert])
  qed
  moreover have "refs_ok Long compareLongPriority (ms_orders st') longs"
    by (rule refs_ok_key [OF key book(1)]) (simp add: order_key_def compareLongPriority_def)
  moreover have "refs_ok Short compareShortPriority (ms_orders st') shorts"
    by (rule refs_ok_key [OF key book(2)]) (simp add: order_key_def compareShortPriority_def)
  moreover have "progress_ok (ms_orders st') longs (ms_longIndex st')"
    unfolding \<open>ms_longIndex st' = _\<close> l
  proof (rule progress_ok_fill [OF book(3) idx(1) dist(1) \<open>0 < sz\<close>])
    show "sz \<le> bo_remaining (?o ! (longs ! ms_longIndex st))" by (simp add: sz l)
    show "ms_orders st' ! (longs ! ms_longIndex st) = fill_order sz (?o ! (longs ! ms_longIndex st))"
      using at(1) by (simp add: l)
    show "ms_orders st' ! k = ?o ! k" if "k \<in> set longs" "k \<noteq> longs ! ms_longIndex st" for k
      using that other sides by (intro at(3)) (auto simp: l)
  qed
  moreover have "progress_ok (ms_orders st') shorts (ms_shortIndex st')"
    unfolding \<open>ms_shortIndex st' = _\<close> s
  proof (rule progress_ok_fill [OF book(4) idx(2) dist(2) \<open>0 < sz\<close>])
    show "sz \<le> bo_remaining (?o ! (shorts ! ms_shortIndex st))" by (simp add: sz s)
    show "ms_orders st' ! (shorts ! ms_shortIndex st) = fill_order sz (?o ! (shorts ! ms_shortIndex st))"
      using at(2) by (simp add: s)
    show "ms_orders st' ! k = ?o ! k" if "k \<in> set shorts" "k \<noteq> shorts ! ms_shortIndex st" for k
      using that other sides by (intro at(3)) (auto simp: s)
  qed
  ultimately show ?case using book(6) by (simp add: book_ok_def)
qed

subsection \<open>Lemmas: what the loop has recorded\<close>

definition filled_on :: "side \<Rightarrow> BookOrder list \<Rightarrow> int" where
  "filled_on sd orders = sum_list (map (\<lambda>x. if bo_side x = sd then bo_filled x else 0) orders)"

definition fills_on :: "side \<Rightarrow> Fill list \<Rightarrow> int" where
  "fills_on sd fills = sum_list (map (\<lambda>f. if fill_side f = sd then fill_size f else 0) fills)"

definition fair_execution :: "MatchExecution \<Rightarrow> bool" where
  "fair_execution e \<longleftrightarrow>
     0 < me_size e \<and> me_shortLimitPrice e \<le> me_price e \<and> me_price e \<le> me_longLimitPrice e
     \<and> me_price e = (if me_makerSide e = Long then me_longLimitPrice e else me_shortLimitPrice e)
     \<and> fillFees (me_size e) (me_price e) = Inr (FillFees.truncate e)"

definition safe_fill :: "MarketConfig \<Rightarrow> Fill \<Rightarrow> bool" where
  "safe_fill market f \<longleftrightarrow> 0 < fill_size f \<and> 0 < fill_price f
     \<and> assertFill (fill_margin f) market (fill_price f) (fill_size f) = Inr ()"

definition recorded_ok :: "MatchInput \<Rightarrow> MatchState \<Rightarrow> bool" where
  "recorded_ok i st \<longleftrightarrow>
     fills_on Long (ms_fills st) = filled_on Long (ms_orders st)
     \<and> fills_on Short (ms_fills st) = filled_on Short (ms_orders st)
     \<and> sum_list (map me_size (ms_executions st)) = fills_on Long (ms_fills st)
     \<and> sum_list (map me_size (ms_executions st)) = fills_on Short (ms_fills st)
     \<and> sum_list (map fill_margin (ms_fills st))
         + sum_list (map (\<lambda>e. fee_insurance e + fee_treasury e) (ms_executions st))
       = sum_list (map bo_allocatedMargin (ms_orders st))
     \<and> distinct (ms_spent st)
     \<and> set (ms_spent st)
         = (\<lambda>x. pmi_noteNullifier (bo_intent x)) ` {x \<in> set (ms_orders st). 0 < bo_filled x}
     \<and> (\<forall>e\<in>set (ms_executions st). fair_execution e)
     \<and> (\<forall>f\<in>set (ms_fills st). safe_fill (mi_market i) f)"

lemma sum_list_upd:
  "k < length xs \<Longrightarrow> sum_list (map f (xs[k := x])) = sum_list (map f xs) - f (xs ! k) + (f x :: int)"
  by (induction xs arbitrary: k) (auto split: nat.splits)

lemma sum_list_zero: "(\<And>x. x \<in> set xs \<Longrightarrow> f x = (0 :: int)) \<Longrightarrow> sum_list (map f xs) = 0"
  by (induction xs) auto

lemma set_upd2:
  assumes "l \<noteq> s" "l < length xs" "s < length xs"
  shows "set (xs[l := a, s := b]) = {a, b} \<union> {xs ! k | k. k < length xs \<and> k \<noteq> l \<and> k \<noteq> s}"
proof -
  have "set (xs[l := a, s := b]) = {xs[l := a, s := b] ! k | k. k < length xs}"
    by (auto simp: in_set_conv_nth)
  also have "\<dots> = {a, b} \<union> {xs ! k | k. k < length xs \<and> k \<noteq> l \<and> k \<noteq> s}"
  proof (rule subset_antisym; rule subsetI)
    fix x assume "x \<in> {xs[l := a, s := b] ! k | k. k < length xs}"
    then obtain k where "k < length xs" "x = xs[l := a, s := b] ! k" by blast
    with assms show "x \<in> {a, b} \<union> {xs ! k | k. k < length xs \<and> k \<noteq> l \<and> k \<noteq> s}"
      by (cases "k = l"; cases "k = s") (auto simp: nth_list_update)
  next
    fix x assume "x \<in> {a, b} \<union> {xs ! k | k. k < length xs \<and> k \<noteq> l \<and> k \<noteq> s}"
    then consider "x = a" | "x = b" | k where "k < length xs" "k \<noteq> l" "k \<noteq> s" "x = xs ! k" by blast
    then show "x \<in> {xs[l := a, s := b] ! k | k. k < length xs}"
    proof cases
      case 1
      with assms show ?thesis by (auto intro!: exI [of _ l] simp: nth_list_update)
    next
      case 2
      with assms show ?thesis by (auto intro!: exI [of _ s] simp: nth_list_update)
    next
      case 3
      then show ?thesis by (auto intro!: exI [of _ k] simp: nth_list_update)
    qed
  qed
  finally show ?thesis .
qed

lemma filled_image_upd:
  assumes "l \<noteq> s" "l < length xs" "s < length xs" "0 < bo_filled a" "0 < bo_filled b"
    and "g a = g (xs ! l)" "g b = g (xs ! s)"
  shows "g ` {x \<in> set (xs[l := a, s := b]). 0 < bo_filled x}
    = insert (g (xs ! s)) (insert (g (xs ! l)) (g ` {x \<in> set xs. 0 < bo_filled x}))"
    (is "?A = ?B")
proof
  show "?A \<subseteq> ?B"
    unfolding set_upd2 [OF assms(1-3)] using assms(6,7) by (auto simp: in_set_conv_nth)
  show "?B \<subseteq> ?A"
  proof
    fix y assume "y \<in> ?B"
    then obtain k where "y = g (xs ! s) \<or> y = g (xs ! l)
        \<or> k < length xs \<and> 0 < bo_filled (xs ! k) \<and> y = g (xs ! k)"
      by (auto simp: in_set_conv_nth)
    then consider "y = g a" | "y = g b"
      | "k < length xs" "k \<noteq> l" "k \<noteq> s" "0 < bo_filled (xs ! k)" "y = g (xs ! k)"
      using assms(6,7) by metis
    then show "y \<in> ?A"
    proof cases
      case 3
      then show ?thesis unfolding set_upd2 [OF assms(1-3)] by blast
    qed (use assms(4,5) in \<open>auto simp: set_upd2 [OF assms(1-3)]\<close>)
  qed
qed

lemma createExecution_fair:
  assumes "fillFees sz price = Inr fees" "price = executionPrice long short"
    and "limit_of short \<le> limit_of long" "bo_side long = Long" "bo_side short = Short"
  shows "fair_execution (createExecution long short sz price lf sf fees)"
proof -
  have "0 < sz" using assms(1) by (auto simp: fillFees_def Let_def split: if_splits)
  with assms show ?thesis
    by (cases fees)
      (auto simp: fair_execution_def createExecution_def executionPrice_def FillFees.truncate_def
        FillFees.extend_def Let_def)
qed

lemma recorded_ok_step:
  assumes "book_ok i longs shorts st" "recorded_ok i st" "crossing longs shorts st"
    and "matchStep h i longs shorts st = Inr st'"
  shows "recorded_ok i st'"
proof (rule matchStep_cases [OF assms(1,3,4)], goal_cases)
  case (1 l s sz price fees lf sf)
  let ?o = "ms_orders st" and ?e = "createExecution (ms_orders st ! l) (ms_orders st ! s) sz price lf sf fees"
  let ?l = "fill_order sz (?o ! l)" and ?s = "fill_order sz (?o ! s)"
  note rec = assms(2) [unfolded recorded_ok_def]
  note st' = \<open>ms_orders st' = _\<close> \<open>ms_fills st' = _\<close> \<open>ms_executions st' = _\<close> \<open>ms_spent st' = _\<close>
  note fills = \<open>fill_size lf = sz\<close> \<open>fill_side lf = Long\<close> \<open>fill_size sf = sz\<close> \<open>fill_side sf = Short\<close>
  have len: "l < length ?o" "s < length ?o" "l \<noteq> s" "s < length (?o[l := ?l])" using 1 by simp_all
  have sides: "bo_side (?o ! l) = Long" "bo_side (?o ! s) = Short" using 1 by simp_all
  have other: "?o[l := ?l] ! s = ?o ! s" using len by simp
  have ex: "me_size ?e = sz" "fee_insurance ?e = fee_insurance fees" "fee_treasury ?e = fee_treasury fees"
    by (simp_all add: createExecution_def Let_def FillFees.extend_def)
  have sums: "sum_list (map f (ms_orders st')) =
      sum_list (map f ?o) - f (?o ! l) + f ?l - f (?o ! s) + f ?s" for f :: "BookOrder \<Rightarrow> int"
    unfolding st' sum_list_upd [OF len(4)] sum_list_upd [OF len(1)] other by simp
  have "filled_on Long (ms_orders st') = filled_on Long ?o + sz"
    "filled_on Short (ms_orders st') = filled_on Short ?o + sz"
    unfolding filled_on_def sums using sides by simp_all
  moreover have "fills_on Long (ms_fills st') = fills_on Long (ms_fills st) + sz"
    "fills_on Short (ms_fills st') = fills_on Short (ms_fills st) + sz"
    unfolding fills_on_def st' using fills by simp_all
  moreover have "sum_list (map me_size (ms_executions st')) = sum_list (map me_size (ms_executions st)) + sz"
    unfolding st' using ex by simp
  moreover have "sum_list (map bo_allocatedMargin (ms_orders st')) =
      sum_list (map bo_allocatedMargin ?o) + fill_margin lf + fill_margin sf
      + fee_insurance fees + fee_treasury fees"
    unfolding sums using \<open>fill_margin lf + fill_margin sf = _\<close> by linarith
  moreover have "sum_list (map fill_margin (ms_fills st')) =
      sum_list (map fill_margin (ms_fills st)) + fill_margin lf + fill_margin sf"
    unfolding st' by simp
  moreover have "sum_list (map (\<lambda>e. fee_insurance e + fee_treasury e) (ms_executions st')) =
      sum_list (map (\<lambda>e. fee_insurance e + fee_treasury e) (ms_executions st))
      + fee_insurance fees + fee_treasury fees"
    unfolding st' using ex by simp
  moreover have "fair_execution ?e"
    using 1 by (intro createExecution_fair) simp_all
  moreover have "safe_fill (mi_market i) lf" "safe_fill (mi_market i) sf"
    using 1 by (auto simp: safe_fill_def fillFees_def Let_def split: if_splits)
  moreover have "0 < bo_filled ?l" "0 < bo_filled ?s"
    using assms(1) \<open>0 < sz\<close> len by (auto simp: book_ok_def order_ok_def intro!: add_nonneg_pos)
  then have "(\<lambda>x. pmi_noteNullifier (bo_intent x)) ` {x \<in> set (ms_orders st'). 0 < bo_filled x}
      = set (ms_spent st')"
    unfolding st' set_sadd using filled_image_upd [OF len(3,1,2), of ?l ?s "\<lambda>x. pmi_noteNullifier (bo_intent x)"] rec
    by simp
  moreover have "distinct (ms_spent st')" unfolding st' using rec by simp
  ultimately show ?case
    using rec unfolding recorded_ok_def st'(2,3) by simp
qed

lemma initial_book_ok:
  assumes "toBookOrders (mi_intents i) = Inr orders"
  shows "book_ok i (book_refs Long compareLongPriority orders) (book_refs Short compareShortPriority orders)
    \<lparr>ms_orders = orders, ms_fills = [], ms_executions = [], ms_spent = [],
     ms_longIndex = 0, ms_shortIndex = 0\<rparr>"
proof -
  let ?L = "book_refs Long compareLongPriority orders" and ?S = "book_refs Short compareShortPriority orders"
  note ok = toBookOrders_ok [OF assms]
  have refs: "refs_ok Long compareLongPriority orders ?L" "refs_ok Short compareShortPriority orders ?S"
    by (rule book_refs_ok [OF ok(2) long_book.sorted_js_sort] book_refs_ok [OF ok(2) short_book.sorted_js_sort])+
  have fresh: "progress_ok orders refs 0" if "refs_ok sd cmp orders refs" for sd cmp refs
  proof -
    have "orders ! r \<in> set orders" if "r \<in> set refs" for r
      using that \<open>refs_ok sd cmp orders refs\<close> by (simp add: refs_ok_def)
    then show ?thesis using ok(3) by (auto simp: progress_ok_def)
  qed
  show ?thesis using ok refs fresh [OF refs(1)] fresh [OF refs(2)] by (auto simp: book_ok_def)
qed

lemma matchBook_elim:
  assumes "matchBook h i = Inr st"
  obtains orders longs shorts where
    "toBookOrders (mi_intents i) = Inr orders" "rejectDuplicateNullifiers [] orders = Inr ()"
    "longs = book_refs Long compareLongPriority orders"
    "shorts = book_refs Short compareShortPriority orders"
    "book_ok i longs shorts st" "recorded_ok i st" "\<not> crossing longs shorts st"
proof -
  obtain orders where o: "toBookOrders (mi_intents i) = Inr orders"
      "rejectDuplicateNullifiers [] orders = Inr ()"
    and loop: "matchLoop h i (book_refs Long compareLongPriority orders)
         (book_refs Short compareShortPriority orders)
         \<lparr>ms_orders = orders, ms_fills = [], ms_executions = [], ms_spent = [],
          ms_longIndex = 0, ms_shortIndex = 0\<rparr> = Inr st"
    using assms by (auto simp: matchBook_def bindE_Inr_iff)
  let ?L = "book_refs Long compareLongPriority orders" and ?S = "book_refs Short compareShortPriority orders"
  let ?st = "\<lparr>ms_orders = orders, ms_fills = [], ms_executions = [], ms_spent = [],
          ms_longIndex = 0, ms_shortIndex = 0\<rparr>"
  note ok = toBookOrders_ok [OF o(1)]
  have "book_ok i ?L ?S ?st" by (rule initial_book_ok [OF o(1)])
  moreover have "recorded_ok i ?st"
  proof -
    have "bo_filled x = 0 \<and> bo_allocatedMargin x = 0" if "x \<in> set orders" for x
      using ok(3) [OF that] order_ok_margin(4) by blast
    then show ?thesis
      by (auto simp: recorded_ok_def fills_on_def filled_on_def intro!: sum_list_zero)
  qed
  ultimately have "(book_ok i ?L ?S st \<and> recorded_ok i st) \<and> \<not> crossing ?L ?S st"
    by (intro matchLoop_induct [OF loop]) (auto intro: book_ok_step recorded_ok_step)
  then show ?thesis by (intro that [OF o refl refl]) blast+
qed

end
