(* ===== verification/Match_Properties.thy ===== *)
theory Match_Properties
  imports Match_Invariant
begin

text \<open>
  What a batch promises: balance, conservation of collateral and size, fair prices and safe fills,
  price-time priority, residual orders that can be submitted again, and when a batch fails. The
  concrete batches of the witnesses run the model on one long and one short.
\<close>

subsection \<open>Lemmas: results\<close>

lemma fills_on_sides: "sum_list (map fill_size fills) = fills_on Long fills + fills_on Short fills"
  unfolding fills_on_def
proof (induction fills)
  case (Cons f fills)
  then show ?case by (cases "fill_side f") simp_all
qed simp

lemma fills_on_signed:
  "sum_list (map (\<lambda>f. if fill_side f = Long then fill_size f else - fill_size f) fills)
     = fills_on Long fills - fills_on Short fills"
  unfolding fills_on_def
proof (induction fills)
  case (Cons f fills)
  then show ?case by (cases "fill_side f") simp_all
qed simp

lemma signed_sizes:
  assumes "\<forall>x\<in>set orders. order_ok x"
  shows "sum_list (map bo_size (filter (\<lambda>x. bo_side x = Long) orders))
    - sum_list (map bo_size (filter (\<lambda>x. bo_side x = Short) orders))
    = (\<Sum>p\<leftarrow>map bo_intent orders. pmi_signedSize p)"
  using assms
proof (induction orders)
  case (Cons x orders)
  then have "bo_size x = \<bar>pmi_signedSize (bo_intent x)\<bar>"
    "bo_side x = (if 0 \<le> pmi_signedSize (bo_intent x) then Long else Short)"
    by (simp_all add: order_ok_def)
  with Cons show ?case by auto
qed simp

lemma sum_fees_sums:
  "fee_treasury (sum_fees es) = (\<Sum>e\<leftarrow>es. fee_treasury e)"
  "fee_insurance (sum_fees es) = (\<Sum>e\<leftarrow>es. fee_insurance e)"
proof -
  define step where "step = (\<lambda>(e :: MatchExecution) (total :: FillFees).
     \<lparr>fee_grossTakerFee = fee_grossTakerFee total + fee_grossTakerFee e,
      fee_makerRebate = fee_makerRebate total + fee_makerRebate e,
      fee_insurance = fee_insurance total + fee_insurance e,
      fee_treasury = fee_treasury total + fee_treasury e\<rparr>)"
  have "fee_treasury (fold step es a) = fee_treasury a + (\<Sum>e\<leftarrow>es. fee_treasury e)
      \<and> fee_insurance (fold step es a) = fee_insurance a + (\<Sum>e\<leftarrow>es. fee_insurance e)" for a
    by (induction es arbitrary: a) (auto simp: step_def)
  then show "fee_treasury (sum_fees es) = (\<Sum>e\<leftarrow>es. fee_treasury e)"
    "fee_insurance (sum_fees es) = (\<Sum>e\<leftarrow>es. fee_insurance e)"
    by (simp_all add: sum_fees_def step_def)
qed

lemma rejectDuplicate_distinct:
  "rejectDuplicateNullifiers seen orders = Inr () \<longleftrightarrow>
     distinct (map (\<lambda>x. pmi_noteNullifier (bo_intent x)) orders)
     \<and> set seen \<inter> (\<lambda>x. pmi_noteNullifier (bo_intent x)) ` set orders = {}"
  by (induction orders arbitrary: seen) auto

lemma matchBook_distinct:
  assumes "matchBook h i = Inr st"
  shows "distinct (map pmi_noteNullifier (mi_intents i))"
proof (rule matchBook_elim [OF assms])
  fix orders
  assume "toBookOrders (mi_intents i) = Inr orders" "rejectDuplicateNullifiers [] orders = Inr ()"
  then have "distinct (map (\<lambda>x. pmi_noteNullifier (bo_intent x)) orders)" "map bo_intent orders = mi_intents i"
    by (simp_all add: rejectDuplicate_distinct toBookOrders_ok)
  then show ?thesis by (metis (no_types, lifting) comp_apply map_eq_conv map_map)
qed

lemma spent_iff_filled:
  assumes "matchBook h i = Inr st" and "x \<in> set (ms_orders st)"
  shows "pmi_noteNullifier (bo_intent x) \<in> set (ms_spent st) \<longleftrightarrow> 0 < bo_filled x"
proof (rule matchBook_elim [OF assms(1)])
  fix longs shorts
  assume "book_ok i longs shorts st" "recorded_ok i st"
  then have m: "map bo_intent (ms_orders st) = mi_intents i"
    and s: "set (ms_spent st) = (\<lambda>x. pmi_noteNullifier (bo_intent x)) ` {x \<in> set (ms_orders st). 0 < bo_filled x}"
    by (simp_all add: book_ok_def recorded_ok_def)
  have "distinct (map (\<lambda>x. pmi_noteNullifier (bo_intent x)) (ms_orders st))"
    using matchBook_distinct [OF assms(1)] unfolding m [symmetric] by (simp add: comp_def)
  then have "inj_on (\<lambda>x. pmi_noteNullifier (bo_intent x)) (set (ms_orders st))" by (simp add: distinct_map)
  with assms(2) show ?thesis unfolding s by (auto dest: inj_onD)
qed

lemma mapE_Inl_const:
  assumes "\<And>x e. x \<in> set xs \<Longrightarrow> f x = Inl e \<longleftrightarrow> e = c \<and> P x"
  shows "mapE f xs = Inl e \<longleftrightarrow> e = c \<and> (\<exists>x\<in>set xs. P x)"
  using assms
proof (induction xs)
  case (Cons x xs)
  then have IH: "mapE f xs = Inl e \<longleftrightarrow> e = c \<and> (\<exists>x\<in>set xs. P x)" by simp
  show ?case
  proof (cases "f x")
    case (Inl e')
    with Cons.prems [of x e'] Cons.prems [of x e] show ?thesis by auto
  next
    case (Inr y)
    with Cons.prems [of x c] have "\<not> P x" by simp
    with Inr IH show ?thesis by (cases "mapE f xs") auto
  qed
qed simp

lemma createResiduals_Inl:
  "createResiduals h i orders = Inl e \<longleftrightarrow> e = ''invalid residual margin''
     \<and> (\<exists>x\<in>set orders. 0 < bo_filled x \<and> 0 < bo_remaining x
          \<and> pmi_margin (bo_intent x) \<le> bo_allocatedMargin x)"
  unfolding createResiduals_def
  by (subst mapE_Inl_const [where P = "\<lambda>x. pmi_margin (bo_intent x) \<le> bo_allocatedMargin x"
        and c = "''invalid residual margin''"]) (auto simp: Let_def)

lemma createResiduals_Inr:
  assumes "createResiduals h i orders = Inr rs"
  shows "sum_list (map pmi_margin rs) = (\<Sum>x\<leftarrow>orders. if 0 < bo_filled x \<and> 0 < bo_remaining x
      then pmi_margin (bo_intent x) - bo_allocatedMargin x else 0)"
    and "(\<Sum>p\<leftarrow>rs. \<bar>pmi_signedSize p\<bar>) = (\<Sum>x\<leftarrow>orders. if 0 < bo_filled x \<and> 0 < bo_remaining x
      then bo_remaining x else 0)"
    and "p \<in> set rs \<Longrightarrow> \<exists>x\<in>set orders. 0 < bo_filled x \<and> 0 < bo_remaining x \<and> 0 < pmi_margin p
      \<and> pmi_limitPrice p = limit_of x \<and> pmi_margin p = pmi_margin (bo_intent x) - bo_allocatedMargin x
      \<and> pmi_signedSize p = (if bo_side x = Long then bo_remaining x else - bo_remaining x)
      \<and> pmi_sourceIntentCommitment p = Some (pmi_intentCommitment (bo_intent x))"
proof -
  let ?P = "\<lambda>x. bo_filled x > 0 \<and> bo_remaining x > 0"
  have all: "list_all2 (\<lambda>x p. 0 < pmi_margin p
      \<and> pmi_limitPrice p = limit_of x \<and> pmi_margin p = pmi_margin (bo_intent x) - bo_allocatedMargin x
      \<and> pmi_signedSize p = (if bo_side x = Long then bo_remaining x else - bo_remaining x)
      \<and> pmi_sourceIntentCommitment p = Some (pmi_intentCommitment (bo_intent x))) (filter ?P orders) rs"
    using assms unfolding createResiduals_def mapE_Inr_iff
    by (rule list_all2_mono) (auto simp: Let_def split: if_splits)
  have "\<forall>x\<in>set xs. ?P x \<Longrightarrow> list_all2 (\<lambda>x p. pmi_margin p = pmi_margin (bo_intent x) - bo_allocatedMargin x
      \<and> pmi_signedSize p = (if bo_side x = Long then bo_remaining x else - bo_remaining x)) xs ps \<Longrightarrow>
      sum_list (map pmi_margin ps) = (\<Sum>x\<leftarrow>xs. pmi_margin (bo_intent x) - bo_allocatedMargin x)
      \<and> (\<Sum>p\<leftarrow>ps. \<bar>pmi_signedSize p\<bar>) = (\<Sum>x\<leftarrow>xs. bo_remaining x)" for xs ps
    by (induction xs arbitrary: ps) (auto simp: list_all2_Cons1)
  from this [of "filter ?P orders" rs]
  have "sum_list (map pmi_margin rs) = (\<Sum>x\<leftarrow>filter ?P orders. pmi_margin (bo_intent x) - bo_allocatedMargin x)"
    "(\<Sum>p\<leftarrow>rs. \<bar>pmi_signedSize p\<bar>) = (\<Sum>x\<leftarrow>filter ?P orders. bo_remaining x)"
    using list_all2_mono [OF all] by auto
  then show "sum_list (map pmi_margin rs) = (\<Sum>x\<leftarrow>orders. if 0 < bo_filled x \<and> 0 < bo_remaining x
      then pmi_margin (bo_intent x) - bo_allocatedMargin x else 0)"
    "(\<Sum>p\<leftarrow>rs. \<bar>pmi_signedSize p\<bar>) = (\<Sum>x\<leftarrow>orders. if 0 < bo_filled x \<and> 0 < bo_remaining x
      then bo_remaining x else 0)"
    by (simp_all add: sum_list_map_filter')
  show "p \<in> set rs \<Longrightarrow> \<exists>x\<in>set orders. 0 < bo_filled x \<and> 0 < bo_remaining x \<and> 0 < pmi_margin p
      \<and> pmi_limitPrice p = limit_of x \<and> pmi_margin p = pmi_margin (bo_intent x) - bo_allocatedMargin x
      \<and> pmi_signedSize p = (if bo_side x = Long then bo_remaining x else - bo_remaining x)
      \<and> pmi_sourceIntentCommitment p = Some (pmi_intentCommitment (bo_intent x))"
  proof -
    assume "p \<in> set rs"
    then obtain k where k: "k < length rs" "p = rs ! k" by (auto simp: in_set_conv_nth)
    then have "filter ?P orders ! k \<in> set (filter ?P orders)"
      using list_all2_lengthD [OF all] by (intro nth_mem) simp
    then show ?thesis using list_all2_nthD2 [OF all k(1)] k(2) by auto
  qed
qed

lemma batch_match_Inl:
  "matchBook h i = Inr st \<Longrightarrow> ms_fills st \<noteq> [] \<Longrightarrow>
     batch_match h i = Inl e \<longleftrightarrow> createResiduals h i (ms_orders st) = Inl e"
  by (auto simp: batch_match_def Let_def bindE_Inl_iff)

lemma batch_match_elim:
  assumes "batch_match h i = Inr r"
  obtains st residuals where "matchBook h i = Inr st" "ms_fills st \<noteq> []"
    "createResiduals h i (ms_orders st) = Inr residuals"
    "mres_fills r = ms_fills st" "mres_executions r = ms_executions st"
    "mres_fees r = sum_fees (ms_executions st)" "mres_spentNullifiers r = ms_spent st"
    "mres_residuals r = residuals" "mres_orderUpdates r = createOrderUpdates h (ms_orders st)"
    "mres_aggregateVolume r = sum_list (map fill_size (ms_fills st))"
    "mres_openInterestDelta r = sum_list (map fill_size (ms_fills st))"
    "mres_residualSize r = \<bar>sum_list (map bo_size (filter (\<lambda>x. bo_side x = Long) (ms_orders st)))
      - sum_list (map bo_size (filter (\<lambda>x. bo_side x = Short) (ms_orders st)))
      - sum_list (map (\<lambda>f. if fill_side f = Long then fill_size f else - fill_size f) (ms_fills st))\<bar>"
  using assms by (auto simp: batch_match_def bindE_Inr_iff Let_def split: if_splits)

subsection \<open>Lemmas: errors\<close>

lemma circuitPositionCommitment_total:
  assumes "toField (FHex (cpn_marketDigest i)) = Inr a1" "toField (FHex (cpn_rhoDigest i)) = Inr a2"
    "toField (FHex (cpn_blinding i)) = Inr a3" "toField (FHex (cpn_ownerDigest i)) = Inr a4"
  obtains c where "circuitPositionCommitment h i = Inr c"
  using that by (simp add: circuitPositionCommitment_def fieldHashPair_total assms)

lemma createFill_total:
  assumes "hex_hash h" and "assertFill (fst (allocateMargin x sz) + d) (mi_market i) price sz = Inr ()"
  obtains f where "createFill h i x sz price k d = Inr (f, snd (allocateMargin x sz))"
proof -
  let ?rho = "pmi_intentCommitment (bo_intent x) @ '':position:'' @ nat_str 10 k"
  obtain a b c e f where digests:
    "digestToFieldHex h (''market:'' @ pmi_marketId (bo_intent x)) = Inr (fieldHex a)"
    "digestToFieldHex h (''owner:'' @ pmi_ownerCommitment (bo_intent x)) = Inr (fieldHex b)"
    "digestToFieldHex h (''rho:'' @ ?rho) = Inr (fieldHex c)"
    "digestToFieldHex h (''blinding:'' @ pmi_intentCommitment (bo_intent x) @ '':blinding:'' @ nat_str 10 k)
      = Inr (fieldHex e)"
    "digestToFieldHex h (''spend:'' @ pmi_ownerCommitment (bo_intent x) @ '':'' @ ?rho) = Inr (fieldHex f)"
    using digest_total [OF assms(1)] by metis
  let ?note = "\<lparr>cpn_blinding = fieldHex e, cpn_entryPrice = price,
           cpn_fundingIndex = mc_fundingIndex (mi_market i), cpn_margin = fst (allocateMargin x sz) + d,
           cpn_marketDigest = fieldHex a, cpn_ownerDigest = fieldHex b, cpn_rhoDigest = fieldHex c,
           cpn_side = bo_side x, cpn_size = sz, cpn_spendSecretDigest = fieldHex f\<rparr>"
  obtain com where "circuitPositionCommitment h ?note = Inr com"
    by (rule circuitPositionCommitment_total [of ?note]) auto
  then show ?thesis
    using that digests assms(2)
    by (simp add: createFill_def split_beta Let_def circuitPositionNullifier_def fieldHashPair_total)
qed

lemma matchStep_total:
  assumes "hex_hash h" and "crossing longs shorts st"
    and "l = deref st (longs ! ms_longIndex st)" "s = deref st (shorts ! ms_shortIndex st)"
    and "sz = min (bo_remaining l) (bo_remaining s)" "fillFees sz (executionPrice l s) = Inr fees"
    and "assertFill (fst (allocateMargin l sz) + (if bo_sequence l \<le> bo_sequence s
          then fee_makerRebate fees else - fee_grossTakerFee fees)) (mi_market i) (executionPrice l s) sz = Inr ()"
    and "assertFill (fst (allocateMargin s sz) + (if bo_sequence l \<le> bo_sequence s
          then - fee_grossTakerFee fees else fee_makerRebate fees)) (mi_market i) (executionPrice l s) sz = Inr ()"
  obtains st' where "matchStep h i longs shorts st = Inr st'"
proof -
  obtain f where f: "createFill h i l sz (executionPrice l s) (length (ms_fills st))
      (if bo_sequence l \<le> bo_sequence s then fee_makerRebate fees else - fee_grossTakerFee fees)
      = Inr (f, snd (allocateMargin l sz))"
    by (rule createFill_total [OF assms(1,7)])
  obtain g where g: "createFill h i s sz (executionPrice l s) (length (ms_fills st) + 1)
      (if bo_sequence l \<le> bo_sequence s then - fee_grossTakerFee fees else fee_makerRebate fees)
      = Inr (g, snd (allocateMargin s sz))"
    by (rule createFill_total [OF assms(1,8)])
  show ?thesis
    by (rule that) (simp only: matchStep_def Let_def assms(3-5) [symmetric] assms(6) bindE_simps f g prod.case)
qed

lemma createFill_Inl:
  assumes "hex_hash h" and "createFill h i x sz price k d = Inl e"
  shows "assertFill (fst (allocateMargin x sz) + d) (mi_market i) price sz = Inl e"
proof (cases "assertFill (fst (allocateMargin x sz) + d) (mi_market i) price sz")
  case (Inl e')
  with assms(2) show ?thesis by (simp add: createFill_def split_beta Let_def)
next
  case (Inr u)
  then have "assertFill (fst (allocateMargin x sz) + d) (mi_market i) price sz = Inr ()" by simp
  then obtain f where "createFill h i x sz price k d = Inr (f, snd (allocateMargin x sz))"
    by (rule createFill_total [OF assms(1)])
  with assms(2) show ?thesis by simp
qed

definition risk_errors :: "string list" where
  "risk_errors = [''insufficient initial margin'', ''max leverage exceeded'',
     ''insufficient maintenance buffer'']"

lemma assertFill_Inl: "assertFill m market p sz = Inl e \<Longrightarrow> e \<in> set risk_errors"
  by (auto simp: assertFill_def risk_errors_def split: if_splits)

lemma matchStep_Inl:
  assumes "hex_hash h" "book_ok i longs shorts st" "crossing longs shorts st"
    and "matchStep h i longs shorts st = Inl e"
  shows "e \<in> set risk_errors"
proof -
  let ?l = "deref st (longs ! ms_longIndex st)" and ?s = "deref st (shorts ! ms_shortIndex st)"
  have idx: "ms_longIndex st < length longs" "ms_shortIndex st < length shorts"
    using assms(3) by (simp_all add: crossing_def)
  then have rem: "0 < bo_remaining ?l" "0 < bo_remaining ?s"
    using assms(2) by (auto simp: book_ok_def progress_ok_def deref_def)
  have "longs ! ms_longIndex st \<in> set longs" "shorts ! ms_shortIndex st \<in> set shorts" using idx by simp_all
  then have "?l \<in> set (ms_orders st)" "?s \<in> set (ms_orders st)"
    using assms(2) by (auto simp: book_ok_def refs_ok_def deref_def)
  then have "0 < limit_of ?l" "0 < limit_of ?s" using assms(2) by (auto simp: book_ok_def order_ok_def)
  then have price: "0 < executionPrice ?l ?s" by (simp add: executionPrice_def Let_def)
  obtain fees where "fillFees (min (bo_remaining ?l) (bo_remaining ?s)) (executionPrice ?l ?s) = Inr fees"
    using fillFees_total [OF _ price, of "min (bo_remaining ?l) (bo_remaining ?s)"] rem by auto
  with assms(4) show ?thesis
    by (auto simp: matchStep_def Let_def bindE_Inl_iff split: prod.splits
        dest!: createFill_Inl [OF assms(1)] assertFill_Inl)
qed

lemma matchLoop_Inl:
  assumes "matchLoop h i longs shorts st = Inl e" "hex_hash h" "book_ok i longs shorts st"
  shows "e \<in> set risk_errors \<and> crossing longs shorts st"
  using assms
proof (induction h i longs shorts st rule: matchLoop.induct)
  case (1 h i longs shorts st)
  show ?case
  proof (cases "crossing longs shorts st")
    case True
    show ?thesis
    proof (cases "matchStep h i longs shorts st")
      case (Inl e')
      with 1 True show ?thesis
        using matchStep_Inl [OF "1.prems"(2,3) True Inl] by (simp add: matchLoop.simps [of h i longs shorts st])
    next
      case (Inr u)
      with 1 True have "matchLoop h i longs shorts u = Inl e"
        by (simp add: matchLoop.simps [of h i longs shorts st])
      with "1.IH" [OF True Inr] book_ok_step [OF "1.prems"(3) True Inr] "1.prems"(2) True
      show ?thesis by blast
    qed
  next
    case False
    with 1 show ?thesis by (simp add: matchLoop.simps [of h i longs shorts st])
  qed
qed

subsection \<open>A concrete batch\<close>

text \<open>A long of two units at 1000 and a short of one unit at 900; the long is the maker.\<close>

definition demo_market :: MarketConfig where
  "demo_market = \<lparr>mc_marketId = ''btc'', mc_oraclePrice = 1000, mc_maxLeverage = 10,
     mc_initialMarginRate = 100000, mc_maintenanceMarginRate = 50000, mc_fundingIndex = 0\<rparr>"

definition demo_private_intent :: "Hex \<Rightarrow> int \<Rightarrow> int \<Rightarrow> int \<Rightarrow> PrivateMatchIntent" where
  "demo_private_intent c sz price margin =
     \<lparr>pmi_batchId = ''1'', pmi_intentCommitment = c, pmi_limitPrice = price, pmi_margin = margin,
      pmi_marketId = ''btc'', pmi_noteChangeCommitment = ZERO_HEX, pmi_noteNullifier = c @ ''n'',
      pmi_ownerCommitment = ''0x5'', pmi_signedSize = sz, pmi_sourceIntentCommitment = None\<rparr>"

definition demo_sized_batch :: "int \<Rightarrow> MatchInput" where
  "demo_sized_batch q = \<lparr>mi_batchId = ''1'', mi_market = demo_market,
     mi_intents = [demo_private_intent ''0x1'' 200000000 1000 1000,
                   demo_private_intent ''0x2'' (- q) 900 500]\<rparr>"

definition demo_batch :: MatchInput where
  "demo_batch = demo_sized_batch 100000000"

definition demo_funded_batch :: "int \<Rightarrow> int \<Rightarrow> MatchInput" where
  "demo_funded_batch fundingIndex q =
     (demo_sized_batch q)\<lparr>mi_market := demo_market\<lparr>mc_fundingIndex := fundingIndex\<rparr>\<rparr>"

lemma demo_funded_zero [simp]: "demo_funded_batch 0 q = demo_sized_batch q"
  by (simp add: demo_funded_batch_def demo_sized_batch_def demo_market_def)

definition demo_order :: "nat \<Rightarrow> PrivateMatchIntent \<Rightarrow> BookOrder" where
  "demo_order k intent = \<lparr>bo_allocatedMargin = 0, bo_filled = 0, bo_intent = intent,
     bo_remaining = \<bar>pmi_signedSize intent\<bar>, bo_sequence = k,
     bo_side = (if 0 \<le> pmi_signedSize intent then Long else Short), bo_size = \<bar>pmi_signedSize intent\<bar>\<rparr>"

lemma demo_funded_book:
  assumes q: "q = 100000000 \<or> q = 199999999"
  obtains st lf sf x y fees where "matchBook demo_host (demo_funded_batch fi q) = Inr st" "ms_fills st = [lf, sf]"
    "ms_executions st = [createExecution (demo_order 0 (demo_private_intent ''0x1'' 200000000 1000 1000))
       (demo_order 1 (demo_private_intent ''0x2'' (- q) 900 500)) q 1000 lf sf fees]"
    "map bo_filled (ms_orders st) = [q, q]"
    "createFill demo_host (demo_funded_batch fi q) (demo_order 0 (demo_private_intent ''0x1'' 200000000 1000 1000))
       q 1000 0 0 = Inr (lf, x)"
    "createFill demo_host (demo_funded_batch fi q) (demo_order 1 (demo_private_intent ''0x2'' (- q) 900 500))
       q 1000 1 0 = Inr (sf, y)"
    "fill_margin lf = (if q = 100000000 then 500 else 1000)" "fill_margin sf = 500"
proof -
  define o0 where "o0 = demo_order 0 (demo_private_intent ''0x1'' 200000000 1000 1000)"
  define o1 where "o1 = demo_order 1 (demo_private_intent ''0x2'' (- q) 900 500)"
  define st0 where "st0 = \<lparr>ms_orders = [o0, o1], ms_fills = [], ms_executions = [], ms_spent = [],
          ms_longIndex = 0, ms_shortIndex = 0\<rparr>"
  define nofees where
    "nofees = \<lparr>fee_grossTakerFee = 0, fee_makerRebate = 0, fee_insurance = 0, fee_treasury = 0\<rparr>"
  let ?i = "demo_funded_batch fi q"
  note o0 = o0_def demo_order_def demo_private_intent_def and o1 = o1_def demo_order_def demo_private_intent_def
  have orders: "toBookOrders (mi_intents ?i) = Inr [o0, o1]"
    using q by (auto simp: toBookOrders_def demo_funded_batch_def demo_sized_batch_def toBookOrder_def o0 o1)
  have dup: "rejectDuplicateNullifiers [] [o0, o1] = Inr ()" by (simp add: o0 o1)
  have refs: "book_refs Long compareLongPriority [o0, o1] = [0]"
    "book_refs Short compareShortPriority [o0, o1] = [1]"
    using q by (auto simp: book_refs_def o0 o1)
  have cross: "crossing [0] [1] st0" by (simp add: crossing_def st0_def deref_def o0 o1)
  have price: "executionPrice o0 o1 = 1000" by (simp add: executionPrice_def o0 o1)
  have ntl: "notional q 1000 = (if q = 100000000 then 1000 else 1999)"
    using q by (auto simp: notional_def abs_big_def sdiv_nonneg)
  have fees: "fillFees q (executionPrice o0 o1) = Inr nofees"
    using q by (auto simp: price fillFees_def ntl sdiv_nonneg scale_defs nofees_def)
  have margin: "fst (allocateMargin o0 q) = (if q = 100000000 then 500 else 1000)"
      "fst (allocateMargin o1 q) = 500"
    using q by (auto simp: allocateMargin_def o0 o1 ceilDiv_eq Let_def)
  have "assertFill m (mi_market ?i) 1000 q = Inr ()"
    if "m = (if q = 100000000 then 500 else 1000) \<or> m = 500" for m
    using that q
    by (auto simp: assertFill_def hasInitialMargin_def initialMargin_def hasMaxLeverage_def
        maintenanceMargin_def ntl demo_funded_batch_def demo_sized_batch_def demo_market_def sdiv_nonneg)
  then have risk: "assertFill (fst (allocateMargin o0 q)) (mi_market ?i) 1000 q = Inr ()"
      "assertFill (fst (allocateMargin o1 q)) (mi_market ?i) 1000 q = Inr ()"
    unfolding margin by simp_all
  have zero: "(if b then fee_makerRebate nofees else - fee_grossTakerFee nofees) = 0"
    "(if b then - fee_grossTakerFee nofees else fee_makerRebate nofees) = 0" for b
    by (simp_all add: nofees_def)
  have lt: "min (bo_remaining o0) (bo_remaining o1) = q" using q by (auto simp: o0 o1)
  have rem1: "bo_remaining o1 = q" using q by (auto simp: o1)
  have base: "bo_sequence o0 = 0" "bo_sequence o1 = 1" "bo_filled o0 = 0" "bo_filled o1 = 0"
    by (simp_all add: o0 o1)
  have at0: "deref st0 ([0] ! ms_longIndex st0) = o0" "deref st0 ([1] ! ms_shortIndex st0) = o1"
    by (simp_all add: st0_def deref_def)
  obtain st where step: "matchStep demo_host ?i [0] [1] st0 = Inr st"
    by (rule matchStep_total [OF hex_hash_demo cross, where l = o0 and s = o1 and sz = q
        and fees = nofees and i = ?i])
      (simp_all add: st0_def deref_def lt fees [unfolded price] zero price risk)
  show ?thesis
  proof (rule matchStep_elim [OF step], goal_cases)
    case (1 long short sz price' fees' lf sf long1 short1)
    have vars: "long = o0" "short = o1" "sz = q" "price' = 1000" "fees' = nofees"
      using 1(1-5) by (simp_all add: at0 [unfolded One_nat_def] lt price fees [unfolded price])
    note 1 = 1 [unfolded vars]
    have "\<not> crossing [0] [1] st" using 1(13) rem1 by (simp add: crossing_def st0_def)
    with step cross have "matchLoop demo_host ?i [0] [1] st0 = Inr st"
      by (simp only: matchLoop_step matchLoop_done not_False_eq_True)
    then have "matchBook demo_host ?i = Inr st"
      unfolding matchBook_def orders bindE_simps dup refs st0_def .
    then show ?case
      by (rule that [of st lf sf nofees long1 short1, folded o0_def o1_def])
        (use 1(6-11) createFill_order [OF 1(6)] createFill_order [OF 1(7)]
          in \<open>simp_all add: st0_def zero margin base\<close>)
  qed
qed

lemma demo_sized_book:
  assumes q: "q = 100000000 \<or> q = 199999999"
  obtains st where "matchBook demo_host (demo_sized_batch q) = Inr st" "length (ms_fills st) = 2"
    "map bo_filled (ms_orders st) = [q, q]"
  by (rule demo_funded_book [OF q, of 0], rule that) simp_all

lemma demo_funded_match:
  obtains r lf sf x y fees where "batch_match demo_host (demo_funded_batch fi 100000000) = Inr r"
    "mres_fills r = [lf, sf]"
    "mres_executions r = [createExecution (demo_order 0 (demo_private_intent ''0x1'' 200000000 1000 1000))
       (demo_order 1 (demo_private_intent ''0x2'' (- 100000000) 900 500)) 100000000 1000 lf sf fees]"
    "createFill demo_host (demo_funded_batch fi 100000000)
       (demo_order 0 (demo_private_intent ''0x1'' 200000000 1000 1000)) 100000000 1000 0 0 = Inr (lf, x)"
    "createFill demo_host (demo_funded_batch fi 100000000)
       (demo_order 1 (demo_private_intent ''0x2'' (- 100000000) 900 500)) 100000000 1000 1 0 = Inr (sf, y)"
    "fill_margin lf = 500" "fill_margin sf = 500"
proof (rule demo_funded_book [of 100000000 fi, OF disjI1, OF refl])
  let ?i = "demo_funded_batch fi 100000000"
  fix st lf sf x y fees
  assume st: "matchBook demo_host ?i = Inr st" "ms_fills st = [lf, sf]"
    and ex: "ms_executions st = [createExecution (demo_order 0 (demo_private_intent ''0x1'' 200000000 1000 1000))
       (demo_order 1 (demo_private_intent ''0x2'' (- 100000000) 900 500)) 100000000 1000 lf sf fees]"
    and filled: "map bo_filled (ms_orders st) = [100000000, 100000000]"
    and lf: "createFill demo_host ?i
       (demo_order 0 (demo_private_intent ''0x1'' 200000000 1000 1000)) 100000000 1000 0 0 = Inr (lf, x)"
      "fill_margin lf = (if (100000000 :: int) = 100000000 then 500 else 1000)"
    and sf: "createFill demo_host ?i
       (demo_order 1 (demo_private_intent ''0x2'' (- 100000000) 900 500)) 100000000 1000 1 0 = Inr (sf, y)"
      "fill_margin sf = 500"
  from st(1) have ok: "\<forall>x\<in>set (ms_orders st). order_ok x" and ints: "map bo_intent (ms_orders st) = mi_intents ?i"
    by (auto elim: matchBook_elim simp: book_ok_def)
  have "pmi_margin (bo_intent x) - bo_allocatedMargin x > 0"
    if "x \<in> set (ms_orders st)" "0 < bo_remaining x" for x
  proof -
    have "order_ok x" using ok that(1) by blast
    have "bo_intent x \<in> set (mi_intents ?i)" using that(1) unfolding ints [symmetric] by simp
    moreover have "bo_filled x \<in> set (map bo_filled (ms_orders st))" using that(1) by simp
    then have "bo_filled x = 100000000" unfolding filled by simp
    ultimately have "\<not> pmi_margin (bo_intent x) * bo_remaining x < bo_size x"
      using \<open>order_ok x\<close> that(2)
      by (auto simp: demo_funded_batch_def demo_sized_batch_def demo_private_intent_def order_ok_def)
    then show ?thesis using allocated_full_iff [OF \<open>order_ok x\<close>] order_ok_margin(2) [OF \<open>order_ok x\<close>] by simp
  qed
  then have "createResiduals demo_host ?i (ms_orders st) \<noteq> Inl e" for e
    unfolding createResiduals_Inl by (auto simp: not_le)
  then obtain rs where rs: "createResiduals demo_host ?i (ms_orders st) = Inr rs"
    by (cases "createResiduals demo_host ?i (ms_orders st)") blast+
  obtain r where r: "batch_match demo_host ?i = Inr r" using st rs by (auto simp: batch_match_def Let_def)
  have "mres_fills r = ms_fills st \<and> mres_executions r = ms_executions st"
    by (rule batch_match_elim [OF r]) (use st(1) in simp)
  then show ?thesis using that [OF r _ _ lf(1) sf(1)] st(2) ex lf(2) sf(2) by simp
qed

lemma demo_batch_returns: "\<exists>r. batch_match demo_host demo_batch = Inr r"
  by (rule demo_funded_match [of 0]) (auto simp: demo_batch_def)

subsection \<open>Properties\<close>

text \<open>A matched batch is balanced: longs and shorts are filled by the same size, the published
  volume counts both sides, the open-interest delta is that volume, and the residual size is the
  imbalance of the submitted orders.\<close>
theorem match_is_balanced:
  assumes "batch_match h i = Inr r"
  shows "fills_on Long (mres_fills r) = fills_on Short (mres_fills r)
    \<and> mres_aggregateVolume r = 2 * (\<Sum>e\<leftarrow>mres_executions r. me_size e)
    \<and> mres_openInterestDelta r = mres_aggregateVolume r
    \<and> mres_residualSize r = \<bar>\<Sum>p\<leftarrow>mi_intents i. pmi_signedSize p\<bar>"
proof (rule batch_match_elim [OF assms])
  fix st assume st: "matchBook h i = Inr st" and r: "mres_fills r = ms_fills st"
    "mres_executions r = ms_executions st"
    "mres_aggregateVolume r = sum_list (map fill_size (ms_fills st))"
    "mres_openInterestDelta r = sum_list (map fill_size (ms_fills st))"
    "mres_residualSize r = \<bar>sum_list (map bo_size (filter (\<lambda>x. bo_side x = Long) (ms_orders st)))
      - sum_list (map bo_size (filter (\<lambda>x. bo_side x = Short) (ms_orders st)))
      - sum_list (map (\<lambda>f. if fill_side f = Long then fill_size f else - fill_size f) (ms_fills st))\<bar>"
  from st obtain longs shorts where ok: "book_ok i longs shorts st" "recorded_ok i st"
    by (rule matchBook_elim)
  then have "\<forall>x\<in>set (ms_orders st). order_ok x" "map bo_intent (ms_orders st) = mi_intents i"
    by (simp_all add: book_ok_def)
  moreover have "fills_on Long (ms_fills st) = fills_on Short (ms_fills st)"
    "sum_list (map me_size (ms_executions st)) = fills_on Long (ms_fills st)"
    using ok(2) by (simp_all add: recorded_ok_def)
  ultimately show ?thesis by (simp add: r fills_on_sides fills_on_signed signed_sizes)
qed

theorem match_is_balanced_witness:
  "\<exists>r. batch_match demo_host demo_batch = Inr r \<and> mres_residualSize r = 100000000"
proof -
  obtain r where r: "batch_match demo_host demo_batch = Inr r" using demo_batch_returns by blast
  show ?thesis using match_is_balanced [OF r] r by (simp add: demo_batch_def demo_sized_batch_def demo_private_intent_def)
qed

text \<open>C3: Collateral and size are conserved: over the intents whose nullifier the batch spends, the
  margins add up to the margins of the fills and of the residual orders plus what the treasury and
  the insurance fund take, and the sizes add up to the filled and the residual sizes.\<close>
theorem match_conserves_collateral:
  assumes "batch_match h i = Inr r"
  shows "(\<Sum>p\<leftarrow>filter (\<lambda>p. pmi_noteNullifier p \<in> set (mres_spentNullifiers r)) (mi_intents i). pmi_margin p)
      = (\<Sum>f\<leftarrow>mres_fills r. fill_margin f) + (\<Sum>p\<leftarrow>mres_residuals r. pmi_margin p)
        + fee_treasury (mres_fees r) + fee_insurance (mres_fees r)
    \<and> (\<Sum>p\<leftarrow>filter (\<lambda>p. pmi_noteNullifier p \<in> set (mres_spentNullifiers r)) (mi_intents i). \<bar>pmi_signedSize p\<bar>)
      = (\<Sum>f\<leftarrow>mres_fills r. fill_size f) + (\<Sum>p\<leftarrow>mres_residuals r. \<bar>pmi_signedSize p\<bar>)"
proof (rule batch_match_elim [OF assms])
  fix st residuals
  assume st: "matchBook h i = Inr st" and res: "createResiduals h i (ms_orders st) = Inr residuals"
    and r: "mres_fills r = ms_fills st" "mres_fees r = sum_fees (ms_executions st)"
    "mres_spentNullifiers r = ms_spent st" "mres_residuals r = residuals"
  from st obtain longs shorts where ok: "book_ok i longs shorts st" "recorded_ok i st"
    by (rule matchBook_elim)
  let ?o = "ms_orders st" and ?spent = "\<lambda>p. pmi_noteNullifier p \<in> set (ms_spent st)"
  have o: "x \<in> set ?o \<Longrightarrow> order_ok x" for x using ok(1) by (simp add: book_ok_def)
  have ints: "mi_intents i = map bo_intent ?o" using ok(1) by (simp add: book_ok_def)
  have sums: "(\<Sum>p\<leftarrow>filter ?spent (mi_intents i). g p) = (\<Sum>x\<leftarrow>?o. if 0 < bo_filled x then g (bo_intent x) else 0)"
    for g :: "PrivateMatchIntent \<Rightarrow> int"
    unfolding ints using spent_iff_filled [OF st]
    by (simp add: sum_list_map_filter' comp_def cong: map_cong)
  have add: "(\<Sum>x\<leftarrow>?o. f x) = (\<Sum>x\<leftarrow>?o. g x) + (\<Sum>x\<leftarrow>?o. k x)"
    if "\<And>x. x \<in> set ?o \<Longrightarrow> f x = g x + k x" for f g k :: "BookOrder \<Rightarrow> int"
    using that by (simp add: sum_list_addf [symmetric] cong: map_cong)
  have "(\<Sum>x\<leftarrow>?o. if 0 < bo_filled x then pmi_margin (bo_intent x) else 0) =
      (\<Sum>x\<leftarrow>?o. bo_allocatedMargin x) + (\<Sum>x\<leftarrow>?o. if 0 < bo_filled x \<and> 0 < bo_remaining x
          then pmi_margin (bo_intent x) - bo_allocatedMargin x else 0)"
  proof (rule add)
    fix x assume "x \<in> set ?o"
    then have x: "order_ok x" by (rule o)
    then have "0 \<le> bo_filled x" "0 \<le> bo_remaining x" by (simp_all add: order_ok_def)
    with order_ok_margin(3,4) [OF x]
    show "(if 0 < bo_filled x then pmi_margin (bo_intent x) else 0) = bo_allocatedMargin x
        + (if 0 < bo_filled x \<and> 0 < bo_remaining x then pmi_margin (bo_intent x) - bo_allocatedMargin x else 0)"
      by auto
  qed
  moreover have "(\<Sum>x\<leftarrow>?o. if 0 < bo_filled x then \<bar>pmi_signedSize (bo_intent x)\<bar> else 0) =
      (\<Sum>x\<leftarrow>?o. bo_filled x) + (\<Sum>x\<leftarrow>?o. if 0 < bo_filled x \<and> 0 < bo_remaining x then bo_remaining x else 0)"
  proof (rule add)
    fix x assume "x \<in> set ?o"
    then have "0 \<le> bo_filled x" "0 \<le> bo_remaining x"
      "bo_filled x + bo_remaining x = \<bar>pmi_signedSize (bo_intent x)\<bar>"
      using o by (auto simp: order_ok_def)
    then show "(if 0 < bo_filled x then \<bar>pmi_signedSize (bo_intent x)\<bar> else 0) = bo_filled x
        + (if 0 < bo_filled x \<and> 0 < bo_remaining x then bo_remaining x else 0)"
      by auto
  qed
  moreover have "(\<Sum>x\<leftarrow>?o. bo_filled x) = filled_on Long ?o + filled_on Short ?o"
    unfolding filled_on_def by (rule add, case_tac "bo_side x") simp_all
  moreover have "fills_on Long (ms_fills st) = filled_on Long ?o" "fills_on Short (ms_fills st) = filled_on Short ?o"
    "(\<Sum>f\<leftarrow>ms_fills st. fill_margin f) + ((\<Sum>e\<leftarrow>ms_executions st. fee_insurance e)
        + (\<Sum>e\<leftarrow>ms_executions st. fee_treasury e)) = (\<Sum>x\<leftarrow>?o. bo_allocatedMargin x)"
    using ok(2) by (simp_all add: recorded_ok_def sum_list_addf)
  ultimately show ?thesis
    unfolding r sums createResiduals_Inr(1,2) [OF res] sum_fees_sums fills_on_sides by linarith
qed

theorem match_conserves_collateral_witness:
  "\<exists>r. batch_match demo_host demo_batch = Inr r \<and>
    (\<Sum>p\<leftarrow>filter (\<lambda>p. pmi_noteNullifier p \<in> set (mres_spentNullifiers r)) (mi_intents demo_batch). pmi_margin p)
      = (\<Sum>f\<leftarrow>mres_fills r. fill_margin f) + (\<Sum>p\<leftarrow>mres_residuals r. pmi_margin p)
        + fee_treasury (mres_fees r) + fee_insurance (mres_fees r)"
  using demo_batch_returns match_conserves_collateral by blast

text \<open>C32: Every execution is fair and every fill is safe: it trades a positive size at the maker's
  limit price, within both limits, with the fees of \<open>fillFees\<close>; each fill's margin after fees
  meets the initial margin and the leverage cap and exceeds the maintenance margin.\<close>
theorem match_is_fair_and_safe:
  assumes "batch_match h i = Inr r"
  shows "(\<forall>e\<in>set (mres_executions r). 0 < me_size e
        \<and> me_shortLimitPrice e \<le> me_price e \<and> me_price e \<le> me_longLimitPrice e
        \<and> me_price e = (if me_makerSide e = Long then me_longLimitPrice e else me_shortLimitPrice e)
        \<and> fillFees (me_size e) (me_price e) = Inr (FillFees.truncate e))
    \<and> (\<forall>f\<in>set (mres_fills r).
        initialMargin (fill_size f) (fill_price f) (mc_initialMarginRate (mi_market i)) \<le> fill_margin f
        \<and> notional (fill_size f) (fill_price f) \<le> fill_margin f * mc_maxLeverage (mi_market i)
        \<and> maintenanceMargin (fill_size f) (fill_price f) (mc_maintenanceMarginRate (mi_market i)) < fill_margin f
        \<and> 0 < fill_margin f)"
proof (rule batch_match_elim [OF assms])
  fix st assume st: "matchBook h i = Inr st" and r: "mres_fills r = ms_fills st"
    "mres_executions r = ms_executions st"
  from st have "recorded_ok i st" by (rule matchBook_elim)
  then have "\<forall>e\<in>set (ms_executions st). fair_execution e" "\<forall>f\<in>set (ms_fills st). safe_fill (mi_market i) f"
    by (simp_all add: recorded_ok_def)
  then show ?thesis
    unfolding r
    by (auto simp: fair_execution_def safe_fill_def assertFill_def hasInitialMargin_def hasMaxLeverage_def
        not_le split: if_splits)
qed

theorem match_is_fair_and_safe_witness:
  "\<exists>r. batch_match demo_host demo_batch = Inr r
     \<and> (\<forall>e\<in>set (mres_executions r). me_shortLimitPrice e \<le> me_price e \<and> me_price e \<le> me_longLimitPrice e)"
  using demo_batch_returns match_is_fair_and_safe by blast

text \<open>A book whose loop has stopped: the best open orders of the two sides do not cross.\<close>

lemma uncrossed_pair:
  assumes "book_ok i longs shorts st" "\<not> crossing longs shorts st"
    and "x \<in> set (ms_orders st)" "bo_side x = Long" "0 < bo_remaining x"
    and "y \<in> set (ms_orders st)" "bo_side y = Short" "0 < bo_remaining y"
  shows "limit_of x < limit_of y"
proof -
  let ?o = "ms_orders st"
  have at: "\<exists>k. k < length refs \<and> idx \<le> k \<and> ?o ! (refs ! k) = z"
    if "refs_ok sd cmp ?o refs" "progress_ok ?o refs idx" "z \<in> set ?o" "bo_side z = sd" "0 < bo_remaining z"
    for sd cmp refs idx z
  proof -
    obtain m where "m < length ?o" "?o ! m = z" using \<open>z \<in> set ?o\<close> by (auto simp: in_set_conv_nth)
    with that(1,4) have "m \<in> set refs" by (auto simp: refs_ok_def)
    then obtain k where k: "k < length refs" "refs ! k = m" by (auto simp: in_set_conv_nth)
    have "\<not> k < idx"
    proof
      assume "k < idx"
      then have "bo_remaining (?o ! (refs ! k)) = 0" using that(2) by (simp add: progress_ok_def)
      with that(5) \<open>?o ! m = z\<close> k show False by simp
    qed
    with k \<open>?o ! m = z\<close> show ?thesis by auto
  qed
  have ok: "refs_ok Long compareLongPriority ?o longs" "refs_ok Short compareShortPriority ?o shorts"
    "progress_ok ?o longs (ms_longIndex st)" "progress_ok ?o shorts (ms_shortIndex st)"
    using assms(1) by (simp_all add: book_ok_def)
  obtain k where k: "k < length longs" "ms_longIndex st \<le> k" "?o ! (longs ! k) = x"
    using at [OF ok(1,3) assms(3-5)] by blast
  obtain m where m: "m < length shorts" "ms_shortIndex st \<le> m" "?o ! (shorts ! m) = y"
    using at [OF ok(2,4) assms(6-8)] by blast
  have "limit_of x \<le> limit_of (deref st (longs ! ms_longIndex st))"
  proof (cases "k = ms_longIndex st")
    case False
    with k ok(1) have "compareLongPriority (?o ! (longs ! ms_longIndex st)) (?o ! (longs ! k)) \<le> 0"
      by (auto simp: refs_ok_def sorted_wrt_iff_nth_less)
    then show ?thesis using k(3) by (auto simp: compareLongPriority_def deref_def split: if_splits)
  qed (use k in \<open>simp add: deref_def\<close>)
  moreover have "limit_of (deref st (shorts ! ms_shortIndex st)) \<le> limit_of y"
  proof (cases "m = ms_shortIndex st")
    case False
    with m ok(2) have "compareShortPriority (?o ! (shorts ! ms_shortIndex st)) (?o ! (shorts ! m)) \<le> 0"
      by (auto simp: refs_ok_def sorted_wrt_iff_nth_less)
    then show ?thesis using m(3) by (auto simp: compareShortPriority_def deref_def split: if_splits)
  qed (use m in \<open>simp add: deref_def\<close>)
  moreover have "limit_of (deref st (longs ! ms_longIndex st)) < limit_of (deref st (shorts ! ms_shortIndex st))"
    using assms(2) k m by (auto simp: crossing_def)
  ultimately show ?thesis by linarith
qed

lemma priority_served:
  assumes "refs_ok sd cmp orders refs" "progress_ok orders refs idx"
    and "x \<in> set orders" "y \<in> set orders" "bo_side x = sd" "bo_side y = sd"
    and "\<not> cmp y x \<le> 0" "cmp x x \<le> 0" "0 < bo_filled y"
  shows "bo_remaining x = 0"
proof -
  have at: "\<exists>k. k < length refs \<and> orders ! (refs ! k) = z" if "z \<in> set orders" "bo_side z = sd" for z
  proof -
    obtain m where "m < length orders" "orders ! m = z" using \<open>z \<in> set orders\<close> by (auto simp: in_set_conv_nth)
    with \<open>bo_side z = sd\<close> assms(1) have "m \<in> set refs" by (auto simp: refs_ok_def)
    then obtain k where "k < length refs" "refs ! k = m" by (auto simp: in_set_conv_nth)
    with \<open>orders ! m = z\<close> show ?thesis by auto
  qed
  obtain k where k: "k < length refs" "orders ! (refs ! k) = x" using at assms(3,5) by blast
  obtain m where m: "m < length refs" "orders ! (refs ! m) = y" using at assms(4,6) by blast
  have "m \<le> idx" using assms(2,9) m by (auto simp: progress_ok_def)
  show ?thesis
  proof (cases "x = y")
    case True
    with assms(7,8) show ?thesis by simp
  next
    case False
    then have "k \<noteq> m" using k m by auto
    have "\<not> m < k" using assms(1,7) k m by (auto simp: refs_ok_def sorted_wrt_iff_nth_less)
    with \<open>k \<noteq> m\<close> \<open>m \<le> idx\<close> have "k < idx" by simp
    then show ?thesis using assms(2) k by (auto simp: progress_ok_def)
  qed
qed

text \<open>C17: The book is cleared with price-time priority: after the loop no open long still crosses an
  open short, every order is filled within its size, and when an order is filled at all every order
  of its side with a better price, or with the same price and submitted earlier, is filled whole.\<close>
theorem match_clears_by_priority:
  assumes "matchBook h i = Inr st"
  shows "\<forall>x\<in>set (ms_orders st). \<forall>y\<in>set (ms_orders st).
      0 \<le> bo_filled x \<and> bo_filled x + bo_remaining x = bo_size x \<and> 0 \<le> bo_remaining x
    \<and> (bo_side x = Long \<longrightarrow> bo_side y = Short \<longrightarrow> 0 < bo_remaining x \<longrightarrow> 0 < bo_remaining y \<longrightarrow>
         limit_of x < limit_of y)
    \<and> (bo_side x = bo_side y \<longrightarrow> 0 < bo_filled y \<longrightarrow>
         (case bo_side x of Long \<Rightarrow> limit_of y < limit_of x | Short \<Rightarrow> limit_of x < limit_of y)
           \<or> limit_of x = limit_of y \<and> bo_sequence x < bo_sequence y \<longrightarrow>
         bo_remaining x = 0)"
proof (rule matchBook_elim [OF assms], intro ballI)
  fix longs shorts x y
  assume ok: "book_ok i longs shorts st" and stop: "\<not> crossing longs shorts st"
    and x: "x \<in> set (ms_orders st)" and y: "y \<in> set (ms_orders st)"
  let ?better = "(case bo_side x of Long \<Rightarrow> limit_of y < limit_of x | Short \<Rightarrow> limit_of x < limit_of y)
           \<or> limit_of x = limit_of y \<and> bo_sequence x < bo_sequence y"
  have refs: "refs_ok Long compareLongPriority (ms_orders st) longs" "refs_ok Short compareShortPriority (ms_orders st) shorts"
    "progress_ok (ms_orders st) longs (ms_longIndex st)" "progress_ok (ms_orders st) shorts (ms_shortIndex st)"
    using ok by (simp_all add: book_ok_def)
  have "bo_remaining x = 0" if "bo_side x = bo_side y" "0 < bo_filled y" ?better
  proof (cases "bo_side x")
    case Long
    with that show ?thesis
      by (intro priority_served [OF refs(1,3) x y]) (auto simp: compareLongPriority_def)
  next
    case Short
    with that show ?thesis
      by (intro priority_served [OF refs(2,4) x y]) (auto simp: compareShortPriority_def)
  qed
  moreover have "order_ok x" using ok x by (simp add: book_ok_def)
  ultimately show "0 \<le> bo_filled x \<and> bo_filled x + bo_remaining x = bo_size x \<and> 0 \<le> bo_remaining x
    \<and> (bo_side x = Long \<longrightarrow> bo_side y = Short \<longrightarrow> 0 < bo_remaining x \<longrightarrow> 0 < bo_remaining y \<longrightarrow>
         limit_of x < limit_of y)
    \<and> (bo_side x = bo_side y \<longrightarrow> 0 < bo_filled y \<longrightarrow> ?better \<longrightarrow> bo_remaining x = 0)"
    using uncrossed_pair [OF ok stop x _ _ y] by (simp add: order_ok_def)
qed

theorem match_clears_by_priority_witness:
  "\<exists>st. matchBook demo_host demo_batch = Inr st
     \<and> (\<forall>x\<in>set (ms_orders st). bo_filled x + bo_remaining x = bo_size x)"
  by (rule demo_sized_book [of 100000000, OF disjI1, OF refl, folded demo_batch_def])
    (use match_clears_by_priority in blast)

text \<open>A residual order can be submitted again: it keeps the side and the limit of its source, has
  a positive margin below the source's and a smaller size, and the next batch accepts it.\<close>
theorem residuals_resubmit:
  assumes "batch_match h i = Inr r" and "p \<in> set (mres_residuals r)"
  shows "\<exists>q\<in>set (mi_intents i). pmi_sourceIntentCommitment p = Some (pmi_intentCommitment q)
    \<and> pmi_limitPrice p = pmi_limitPrice q \<and> 0 < pmi_margin p \<and> pmi_margin p \<le> pmi_margin q
    \<and> \<bar>pmi_signedSize p\<bar> < \<bar>pmi_signedSize q\<bar> \<and> (0 \<le> pmi_signedSize p \<longleftrightarrow> 0 \<le> pmi_signedSize q)
    \<and> (\<exists>x. toBookOrder p k = Inr x \<and> bo_remaining x = \<bar>pmi_signedSize p\<bar>)"
proof (rule batch_match_elim [OF assms(1)])
  fix st residuals
  assume st: "matchBook h i = Inr st" and res: "createResiduals h i (ms_orders st) = Inr residuals"
    and r: "mres_residuals r = residuals"
  from st obtain longs shorts where ok: "book_ok i longs shorts st" by (rule matchBook_elim)
  obtain x where x: "x \<in> set (ms_orders st)" "0 < bo_filled x" "0 < bo_remaining x" "0 < pmi_margin p"
      "pmi_limitPrice p = limit_of x" "pmi_margin p = pmi_margin (bo_intent x) - bo_allocatedMargin x"
      "pmi_signedSize p = (if bo_side x = Long then bo_remaining x else - bo_remaining x)"
      "pmi_sourceIntentCommitment p = Some (pmi_intentCommitment (bo_intent x))"
    using createResiduals_Inr(3) [OF res] assms(2) r by blast
  have "order_ok x" and ints: "mi_intents i = map bo_intent (ms_orders st)"
    using ok x(1) by (simp_all add: book_ok_def)
  have q: "bo_intent x \<in> set (mi_intents i)" using x(1) by (simp add: ints)
  show ?thesis
  proof (intro bexI [OF _ q] conjI)
    show "pmi_margin p \<le> pmi_margin (bo_intent x)"
      using x(6) order_ok_margin(1) [OF \<open>order_ok x\<close>] by simp
    show "\<exists>x. toBookOrder p k = Inr x \<and> bo_remaining x = \<bar>pmi_signedSize p\<bar>"
      using x \<open>order_ok x\<close> by (auto simp: toBookOrder_def order_ok_def Let_def)
  qed (use x \<open>order_ok x\<close> in \<open>auto simp: order_ok_def split: if_splits\<close>)
qed

theorem residuals_resubmit_witness:
  "\<exists>r p x. batch_match demo_host demo_batch = Inr r \<and> p \<in> set (mres_residuals r) \<and> toBookOrder p 0 = Inr x"
proof -
  obtain r where r: "batch_match demo_host demo_batch = Inr r" using demo_batch_returns by blast
  obtain st residuals where st: "matchBook demo_host demo_batch = Inr st"
      and res: "createResiduals demo_host demo_batch (ms_orders st) = Inr residuals" "mres_residuals r = residuals"
    by (rule batch_match_elim [OF r])
  have "map bo_filled (ms_orders st) = [100000000, 100000000]"
    by (rule demo_sized_book [of 100000000, OF disjI1, OF refl, folded demo_batch_def]) (use st in simp)
  moreover from st have "\<forall>x\<in>set (ms_orders st). order_ok x"
      "map bo_intent (ms_orders st) = mi_intents demo_batch"
    by (auto elim: matchBook_elim simp: book_ok_def)
  ultimately have "(\<Sum>x\<leftarrow>ms_orders st. if 0 < bo_filled x \<and> 0 < bo_remaining x then bo_remaining x else 0) = 100000000"
    by (auto simp: map_eq_Cons_conv order_ok_def demo_batch_def demo_sized_batch_def demo_private_intent_def)
  then have "residuals \<noteq> []" using createResiduals_Inr(2) [OF res(1)] by auto
  then obtain p where "p \<in> set (mres_residuals r)" using res(2) by (cases residuals) auto
  with r residuals_resubmit [OF r this, of 0] show ?thesis by blast
qed

text \<open>C35: Dust stops a batch: after the loop the whole batch is rejected with
  \<open>invalid residual margin\<close> exactly when some partially filled order's margin times its unfilled
  size is below its size, because the rounded-up allocation then has used all of its margin.\<close>
theorem dust_rejects_batch:
  assumes "matchBook h i = Inr st" and "ms_fills st \<noteq> []"
  shows "batch_match h i = Inl e \<longleftrightarrow> e = ''invalid residual margin''
    \<and> (\<exists>x\<in>set (ms_orders st). 0 < bo_filled x \<and> 0 < bo_remaining x
         \<and> pmi_margin (bo_intent x) * bo_remaining x < bo_size x)"
proof -
  from assms(1) obtain longs shorts where ok: "book_ok i longs shorts st" by (rule matchBook_elim)
  have "pmi_margin (bo_intent x) \<le> bo_allocatedMargin x
      \<longleftrightarrow> pmi_margin (bo_intent x) * bo_remaining x < bo_size x" if "x \<in> set (ms_orders st)" for x
  proof -
    have "order_ok x" using that ok by (simp add: book_ok_def)
    from allocated_full_iff [OF this] order_ok_margin(2) [OF this] show ?thesis by auto
  qed
  moreover have "batch_match h i = Inl e \<longleftrightarrow> createResiduals h i (ms_orders st) = Inl e"
    by (rule batch_match_Inl [OF assms])
  ultimately show ?thesis unfolding createResiduals_Inl by blast
qed

theorem dust_rejects_batch_witness:
  "batch_match demo_host (demo_sized_batch 199999999) = Inl ''invalid residual margin''"
proof (rule demo_sized_book [of 199999999, OF disjI2, OF refl])
  fix st assume st: "matchBook demo_host (demo_sized_batch 199999999) = Inr st"
    "length (ms_fills st) = 2" "map bo_filled (ms_orders st) = [199999999, 199999999]"
  from st(1) have ok: "\<forall>x\<in>set (ms_orders st). order_ok x"
    and ints: "map bo_intent (ms_orders st) = mi_intents (demo_sized_batch 199999999)"
    by (auto elim: matchBook_elim simp: book_ok_def)
  obtain x y where xy: "ms_orders st = [x, y]" using st(3) by (auto simp: map_eq_Cons_conv)
  have "order_ok x" "bo_filled x = 199999999" "bo_intent x = demo_private_intent ''0x1'' 200000000 1000 1000"
    using ok st(3) ints by (simp_all add: xy demo_sized_batch_def)
  then have "0 < bo_filled x \<and> 0 < bo_remaining x \<and> pmi_margin (bo_intent x) * bo_remaining x < bo_size x"
    by (auto simp: order_ok_def demo_private_intent_def)
  moreover have "ms_fills st \<noteq> []" using st(2) by auto
  ultimately show ?thesis using dust_rejects_batch [OF st(1)] by (auto simp: xy)
qed

subsection \<open>Which batches fail\<close>

lemma matchLoop_fills:
  assumes "crossing longs shorts st" "matchLoop h i longs shorts st = Inr st'"
  shows "ms_fills st' \<noteq> []"
proof -
  obtain u where u: "matchStep h i longs shorts st = Inr u" "matchLoop h i longs shorts u = Inr st'"
    using assms by (subst (asm) matchLoop.simps) (auto split: sum.splits)
  have "ms_fills u \<noteq> []" by (rule matchStep_elim [OF u(1)]) simp
  then have "ms_fills st' \<noteq> [] \<and> \<not> crossing longs shorts st'"
    by (rule matchLoop_induct [OF u(2)]) (erule matchStep_elim, simp)
  then show ?thesis ..
qed

text \<open>Why a batch fails: when the digests are hexadecimal, the intents well formed and the
  nullifiers distinct, \<open>match\<close> throws "no crossed liquidity" exactly when no buyer's limit reaches a
  seller's, and otherwise only over a fill's risk or the residual dust. The loop always ends.\<close>
theorem match_failures:
  assumes "hex_hash h" and "toBookOrders (mi_intents i) = Inr orders"
    and "distinct (map pmi_noteNullifier (mi_intents i))"
  shows "(batch_match h i = Inl ''batch has no crossed liquidity'' \<longleftrightarrow>
      \<not> (\<exists>x\<in>set orders. \<exists>y\<in>set orders. bo_side x = Long \<and> bo_side y = Short \<and> limit_of y \<le> limit_of x))
    \<and> (case batch_match h i of Inr r \<Rightarrow> mres_fills r \<noteq> []
       | Inl e \<Rightarrow> e \<in> set (''batch has no crossed liquidity'' # ''invalid residual margin'' # risk_errors))"
proof -
  let ?L = "book_refs Long compareLongPriority orders" and ?S = "book_refs Short compareShortPriority orders"
  let ?st = "\<lparr>ms_orders = orders, ms_fills = [], ms_executions = [], ms_spent = [],
          ms_longIndex = 0, ms_shortIndex = 0\<rparr>"
  let ?cross = "\<exists>x\<in>set orders. \<exists>y\<in>set orders. bo_side x = Long \<and> bo_side y = Short \<and> limit_of y \<le> limit_of x"
  note ok = toBookOrders_ok [OF assms(2)]
  have book: "book_ok i ?L ?S ?st" by (rule initial_book_ok [OF assms(2)])
  have "map pmi_noteNullifier (mi_intents i) = map (\<lambda>x. pmi_noteNullifier (bo_intent x)) orders"
    unfolding ok(1) [symmetric] by simp
  then have start: "matchBook h i = matchLoop h i ?L ?S ?st"
    using assms(2,3) rejectDuplicate_distinct [of "[]" orders] by (simp add: matchBook_def)
  have cross: "crossing ?L ?S ?st \<longleftrightarrow> ?cross"
  proof
    assume "crossing ?L ?S ?st"
    then have c: "0 < length ?L" "0 < length ?S" "limit_of (orders ! (?S ! 0)) \<le> limit_of (orders ! (?L ! 0))"
      by (auto simp: crossing_def deref_def)
    then have "?L ! 0 \<in> set ?L" "?S ! 0 \<in> set ?S" by simp_all
    with book c(3) show ?cross by (auto simp: book_ok_def refs_ok_def intro!: bexI)
  next
    assume ?cross
    then obtain x y where xy: "x \<in> set (ms_orders ?st)" "bo_side x = Long" "y \<in> set (ms_orders ?st)"
        "bo_side y = Short" "limit_of y \<le> limit_of x" by auto
    then have "0 < bo_remaining x" "0 < bo_remaining y" using ok(3) by simp_all
    then show "crossing ?L ?S ?st" using uncrossed_pair [OF book _ xy(1,2) _ xy(3,4)] xy(5) by linarith
  qed
  show ?thesis
  proof (cases ?cross)
    case False
    then have "matchBook h i = Inr ?st" using start cross by (simp add: matchLoop_done)
    with False show ?thesis by (simp add: batch_match_def Let_def)
  next
    case True
    with cross have c: "crossing ?L ?S ?st" by simp
    show ?thesis
    proof (cases "matchBook h i")
      case (Inl e)
      then have "e \<in> set risk_errors"
        using matchLoop_Inl [OF _ assms(1) book] start by simp
      then show ?thesis using Inl True by (auto simp: batch_match_def risk_errors_def)
    next
      case (Inr st)
      then have ne: "ms_fills st \<noteq> []" using matchLoop_fills [OF c] start by simp
      show ?thesis
      proof (cases "batch_match h i")
        case err: (Inl e)
        then have "createResiduals h i (ms_orders st) = Inl e" using Inr ne by (simp add: batch_match_Inl)
        with err True show ?thesis by (auto simp: createResiduals_Inl)
      next
        case res: (Inr r)
        have "mres_fills r \<noteq> []" by (rule batch_match_elim [OF res]) (use ne Inr in simp)
        with res True show ?thesis by simp
      qed
    qed
  qed
qed

theorem match_failures_witness:
  "batch_match demo_host \<lparr>mi_batchId = ''1'', mi_market = demo_market,
     mi_intents = [demo_private_intent ''0x1'' 5 900 10, demo_private_intent ''0x2'' (- 5) 901 10]\<rparr>
   = Inl ''batch has no crossed liquidity''"
proof -
  let ?i = "\<lparr>mi_batchId = ''1'', mi_market = demo_market,
     mi_intents = [demo_private_intent ''0x1'' 5 900 10, demo_private_intent ''0x2'' (- 5) 901 10]\<rparr>"
  let ?o = "[\<lparr>bo_allocatedMargin = 0, bo_filled = 0, bo_intent = demo_private_intent ''0x1'' 5 900 10,
      bo_remaining = 5, bo_sequence = 0, bo_side = Long, bo_size = 5\<rparr>,
    \<lparr>bo_allocatedMargin = 0, bo_filled = 0, bo_intent = demo_private_intent ''0x2'' (- 5) 901 10,
      bo_remaining = 5, bo_sequence = 1, bo_side = Short, bo_size = 5\<rparr>]"
  have "toBookOrders (mi_intents ?i) = Inr ?o"
    by (simp add: toBookOrders_def toBookOrder_def demo_private_intent_def)
  moreover have "distinct (map pmi_noteNullifier (mi_intents ?i))" by (simp add: demo_private_intent_def)
  ultimately show ?thesis
    using match_failures [OF hex_hash_demo] by (auto simp: demo_private_intent_def)
qed

end
