(* ===== verification/Protocol_Store.thy ===== *)
theory Protocol_Store
  imports Match_Properties
begin

text \<open>
  The protocol state of \<^verbatim>\<open>server/src/shared/state/store.ts\<close>: the class \<open>ProtocolStore\<close> is a
  record with one field per collection, and every method is an action on it, the method's statements
  in order, so that the collections a method has already changed when it throws are part of the
  result. \<open>Date.now()\<close> is an argument (one for each call a method makes). The membership roots are
  the trees of \<^verbatim>\<open>packages/crypto\<close>, whose hashes are the parameter \<open>host\<close>.
\<close>

definition BATCH_EXECUTION_RUN_RETENTION :: nat where "BATCH_EXECUTION_RUN_RETENTION = 1000"
definition FUNDING_PREMIUM_SAMPLE_RETENTION :: nat where "FUNDING_PREMIUM_SAMPLE_RETENTION = 120"

record MarketSettlementVolumeRecord =
  msv_marketId :: string
  msv_matchedVolume :: int
  msv_settledAt :: int
  msv_settlementDigest :: Hex

record ProtocolStore =
  st_marginCommitments :: "Hex list"
  st_positionCommitments :: "Hex list"
  st_spentNullifiers :: "Hex list"
  st_intents :: "(Hex, IntentRecord) jsmap"
  st_residualOrders :: "(Hex, ResidualOrderRecord) jsmap"
  st_orderLifecycle :: "(Hex, OrderLifecycleRecord) jsmap"
  st_positionLifecycle :: "(Hex, PositionLifecycleRecord) jsmap"
  st_markets :: "(string, MarketConfig) jsmap"
  st_settlements :: "(string, BatchSettlement) jsmap"
  st_marketSettlementVolumes :: "(Hex, MarketSettlementVolumeRecord) jsmap"
  st_liquidations :: "(Hex, LiquidationRecord) jsmap"
  st_conditionalOrders :: "(Hex, ConditionalOrderCommitment) jsmap"
  st_conditionalCloses :: "(Hex, ConditionalOrderRecord) jsmap"
  st_positionCloses :: "(Hex, PositionCloseRecord) jsmap"
  st_disclosures :: "(Hex, DisclosureRecord) jsmap"
  st_fundingUpdates :: "(string, FundingUpdateRecord) jsmap"
  st_fundingPremiumSamples :: "(string, FundingPremiumSampleRecord) jsmap"
  st_liquidationAutomationJobs :: "(Hex, LiquidationAutomationJobRecord) jsmap"
  st_batchExecutionRuns :: "(Hex, BatchExecutionRunRecord) jsmap"
  st_withdrawals :: "(Hex, WithdrawalRecord) jsmap"
  st_accountEvents :: "(Hex, AccountEventRecord) jsmap"
  st_accountEncryptionKeys :: "(Hex, AccountEncryptionKeyRecord) jsmap"
  st_pendingAssetDeposits :: "(Hex, PendingAssetDepositRecord) jsmap"
  st_privateMatchIntents :: "(Hex, PrivateMatchIntent) jsmap"
  st_proofs :: "string list"

definition new_ProtocolStore :: ProtocolStore where
  "new_ProtocolStore = \<lparr>st_marginCommitments = [], st_positionCommitments = [], st_spentNullifiers = [],
     st_intents = [], st_residualOrders = [], st_orderLifecycle = [],
     st_positionLifecycle = [], st_markets = [], st_settlements = [],
     st_marketSettlementVolumes = [], st_liquidations = [], st_conditionalOrders = [],
     st_conditionalCloses = [], st_positionCloses = [], st_disclosures = [],
     st_fundingUpdates = [], st_fundingPremiumSamples = [], st_liquidationAutomationJobs = [],
     st_batchExecutionRuns = [], st_withdrawals = [], st_accountEvents = [],
     st_accountEncryptionKeys = [], st_pendingAssetDeposits = [], st_privateMatchIntents = [],
     st_proofs = []\<rparr>"

text \<open>\<open>if (x)\<close> on an optional string and on an optional number.\<close>

definition truthy_str :: "string option \<Rightarrow> bool" where
  "truthy_str x = (x \<noteq> None \<and> x \<noteq> Some [])"

definition truthy_num :: "int option \<Rightarrow> bool" where
  "truthy_num x = (x \<noteq> None \<and> x \<noteq> Some 0)"

subsection \<open>Roots and membership\<close>

definition marginRoot :: "host \<Rightarrow> ProtocolStore \<Rightarrow> Hex" where
  "marginRoot h s = (if length (st_marginCommitments s) = 0 then EMPTY_ROOT h
     else merkleRoot h (st_marginCommitments s))"

definition marginMembershipRoot :: "host \<Rightarrow> ProtocolStore \<Rightarrow> Hex result" where
  "marginMembershipRoot h s = fieldMerkleRoot h (st_marginCommitments s) FIELD_MERKLE_DEPTH"

definition marginMembershipProof :: "host \<Rightarrow> Hex \<Rightarrow> ProtocolStore \<Rightarrow> FieldMerkleProof result" where
  "marginMembershipProof h commitment s =
     fieldMerkleProof h (st_marginCommitments s) commitment FIELD_MERKLE_DEPTH"

definition positionRoot :: "host \<Rightarrow> ProtocolStore \<Rightarrow> Hex" where
  "positionRoot h s = (if length (st_positionCommitments s) = 0 then EMPTY_ROOT h
     else merkleRoot h (st_positionCommitments s))"

definition positionMembershipRoot :: "host \<Rightarrow> ProtocolStore \<Rightarrow> Hex result" where
  "positionMembershipRoot h s = positionMerkleRoot h (st_positionCommitments s) POSITION_MERKLE_DEPTH"

definition positionMembershipProof :: "host \<Rightarrow> Hex \<Rightarrow> ProtocolStore \<Rightarrow> FieldMerkleProof result" where
  "positionMembershipProof h commitment s =
     positionMerkleProof h (st_positionCommitments s) commitment POSITION_MERKLE_DEPTH"

definition positionMembershipRootWith :: "host \<Rightarrow> Hex \<Rightarrow> ProtocolStore \<Rightarrow> Hex result" where
  "positionMembershipRootWith h commitment s =
     positionMerkleRoot h (st_positionCommitments s @ [commitment]) POSITION_MERKLE_DEPTH"

definition positionMembershipRootWithMany :: "host \<Rightarrow> Hex list \<Rightarrow> ProtocolStore \<Rightarrow> Hex result" where
  "positionMembershipRootWithMany h commitments s =
     positionMerkleRoot h (st_positionCommitments s @ commitments) POSITION_MERKLE_DEPTH"

fun someRoot :: "host \<Rightarrow> Hex list \<Rightarrow> Hex \<Rightarrow> nat list \<Rightarrow> bool result" where
  "someRoot h commitments rt [] = Inr False"
| "someRoot h commitments rt (k # ks) =
     bindE (positionMerkleRoot h (take k commitments) POSITION_MERKLE_DEPTH) (\<lambda>r.
       if r = rt then Inr True else someRoot h commitments rt ks)"

definition hasPositionMembershipRoot :: "host \<Rightarrow> Hex \<Rightarrow> ProtocolStore \<Rightarrow> bool result" where
  "hasPositionMembershipRoot h rt s =
     someRoot h (st_positionCommitments s) rt [0..<length (st_positionCommitments s) + 1]"

subsection \<open>Proofs, nullifiers, notes\<close>

definition proofKey :: "ProofMeta \<Rightarrow> string" where
  "proofKey proof = js_join '':'' [pm_circuitKey proof, pm_verifierHash proof, pm_publicInputHash proof,
     pm_proofDigest proof]"

definition recordProof :: "ProofMeta \<Rightarrow> (ProtocolStore, unit) act" where
  "recordProof proof = modifyA (\<lambda>s. s\<lparr>st_proofs := sadd (proofKey proof) (st_proofs s)\<rparr>)"

definition hasProof :: "ProofMeta \<Rightarrow> ProtocolStore \<Rightarrow> bool" where
  "hasProof proof s = (proofKey proof \<in> set (st_proofs s))"

definition assertProof :: "ProofMeta \<Rightarrow> (ProtocolStore, unit) act" where
  "assertProof proof = guardA (\<lambda>s. \<not> hasProof proof s) ''unverified proof''"

definition spend :: "Hex \<Rightarrow> (ProtocolStore, unit) act" where
  "spend n = stepsA
     [guardA (\<lambda>s. n \<in> set (st_spentNullifiers s)) ''nullifier already spent'',
      modifyA (\<lambda>s. s\<lparr>st_spentNullifiers := sadd n (st_spentNullifiers s)\<rparr>)]"

definition addMarginCommitment :: "Hex \<Rightarrow> (ProtocolStore, unit) act" where
  "addMarginCommitment c = stepsA
     [guardA (\<lambda>s. c \<in> set (st_marginCommitments s)) ''margin commitment already exists'',
      modifyA (\<lambda>s. s\<lparr>st_marginCommitments := sadd c (st_marginCommitments s)\<rparr>)]"

definition addPendingAssetDeposit :: "PendingAssetDepositRecord \<Rightarrow> (ProtocolStore, unit) act" where
  "addPendingAssetDeposit r = stepsA
     [guardA (\<lambda>s. pad_commitment r \<in> set (st_marginCommitments s)) ''asset deposit already credited'',
      guardA (\<lambda>s. mhas (st_pendingAssetDeposits s) (pad_commitment r)) ''asset deposit already pending'',
      modifyA (\<lambda>s. s\<lparr>st_pendingAssetDeposits :=
        mset_at (pad_commitment r) r (st_pendingAssetDeposits s)\<rparr>)]"

definition finalizePendingAssetDeposit ::
  "int \<Rightarrow> Hex \<Rightarrow> Hex \<Rightarrow> Hex option \<Rightarrow> (ProtocolStore, PendingAssetDepositRecord) act" where
  "finalizePendingAssetDeposit now c relayId txHash s =
     (case mget (st_pendingAssetDeposits s) c of
        None \<Rightarrow> throwA ''pending asset deposit not found'' s
      | Some pending \<Rightarrow>
          if truthy_num (pad_finalizedAt pending) then throwA ''asset deposit already finalized'' s
          else
            let finalized = pending\<lparr>pad_finalizedAt := Some now, pad_relayId := Some relayId,
                                    pad_txHash := txHash\<rparr>
            in (Inr finalized, s\<lparr>st_pendingAssetDeposits :=
                  mset_at c finalized (st_pendingAssetDeposits s)\<rparr>))"

subsection \<open>Markets and funding\<close>

definition addMarket :: "MarketConfig \<Rightarrow> (ProtocolStore, unit) act" where
  "addMarket m = stepsA
     [guardA (\<lambda>s. mhas (st_markets s) (mc_marketId m)) ''market already exists'',
      modifyA (\<lambda>s. s\<lparr>st_markets := mset_at (mc_marketId m) m (st_markets s)\<rparr>)]"

definition updateMarket :: "MarketConfig \<Rightarrow> (ProtocolStore, unit) act" where
  "updateMarket m = stepsA
     [guardA (\<lambda>s. \<not> mhas (st_markets s) (mc_marketId m)) ''unknown market'',
      modifyA (\<lambda>s. s\<lparr>st_markets := mset_at (mc_marketId m) m (st_markets s)\<rparr>)]"

definition fundingUpdateKey :: "FundingUpdateRecord \<Rightarrow> string" where
  "fundingUpdateKey r = fur_marketId r @ '':'' @ int_str (fur_appliedAt r) @ '':''
     @ int_str (fur_newFundingIndex r)"

definition addFundingUpdate :: "FundingUpdateRecord \<Rightarrow> (ProtocolStore, unit) act" where
  "addFundingUpdate r = stepsA
     [guardA (\<lambda>s. mhas (st_fundingUpdates s) (fundingUpdateKey r)) ''funding update already exists'',
      modifyA (\<lambda>s. s\<lparr>st_fundingUpdates := mset_at (fundingUpdateKey r) r (st_fundingUpdates s)\<rparr>)]"

definition premiumSampleKey :: "FundingPremiumSampleRecord \<Rightarrow> string" where
  "premiumSampleKey r = fps_marketId r @ '':'' @ int_str (fps_sampledAt r)"

text \<open>The loop over the reversed entries; \<open>counts\<close> is the map of counts per market.\<close>

fun retainSamples :: "(string, nat) jsmap \<Rightarrow> string list \<Rightarrow> (string \<times> FundingPremiumSampleRecord) list
    \<Rightarrow> string list" where
  "retainSamples counts retained [] = retained"
| "retainSamples counts retained ((key, r) # es) =
     (let count = (case mget counts (fps_marketId r) of Some n \<Rightarrow> n | None \<Rightarrow> 0) in
      if count \<ge> FUNDING_PREMIUM_SAMPLE_RETENTION then retainSamples counts retained es
      else retainSamples (mset_at (fps_marketId r) (count + 1) counts) (sadd key retained) es)"

definition retainedFundingPremiumSamples ::
  "(string \<times> FundingPremiumSampleRecord) list \<Rightarrow> (string \<times> FundingPremiumSampleRecord) list" where
  "retainedFundingPremiumSamples entries =
     (let retained = retainSamples [] [] (rev entries)
      in filter (\<lambda>(key, _). key \<in> set retained) entries)"

definition trimFundingPremiumSamples ::
  "(string, FundingPremiumSampleRecord) jsmap \<Rightarrow> (string, FundingPremiumSampleRecord) jsmap" where
  "trimFundingPremiumSamples samples =
     (let retained = map_new (retainedFundingPremiumSamples samples)
      in filter (\<lambda>(key, _). mhas retained key) samples)"

definition addFundingPremiumSamples :: "FundingPremiumSampleRecord list \<Rightarrow> (ProtocolStore, unit) act" where
  "addFundingPremiumSamples records = modifyA (\<lambda>s. s\<lparr>st_fundingPremiumSamples :=
     trimFundingPremiumSamples
       (fold (\<lambda>r m. mset_at (premiumSampleKey r) r m) records (st_fundingPremiumSamples s))\<rparr>)"

subsection \<open>Liquidation jobs and batch runs\<close>

definition addLiquidationAutomationJob :: "LiquidationAutomationJobRecord \<Rightarrow> (ProtocolStore, unit) act" where
  "addLiquidationAutomationJob r = stepsA
     [guardA (\<lambda>s. mhas (st_liquidationAutomationJobs s) (laj_jobId r))
        ''liquidation automation job already exists'',
      modifyA (\<lambda>s. s\<lparr>st_liquidationAutomationJobs :=
        mset_at (laj_jobId r) r (st_liquidationAutomationJobs s)\<rparr>)]"

definition updateLiquidationAutomationJob :: "LiquidationAutomationJobRecord \<Rightarrow> (ProtocolStore, unit) act" where
  "updateLiquidationAutomationJob r = stepsA
     [guardA (\<lambda>s. \<not> mhas (st_liquidationAutomationJobs s) (laj_jobId r))
        ''liquidation automation job not found'',
      modifyA (\<lambda>s. s\<lparr>st_liquidationAutomationJobs :=
        mset_at (laj_jobId r) r (st_liquidationAutomationJobs s)\<rparr>)]"

text \<open>An empty key would end the loop early (\<open>if (!oldest) return\<close>).\<close>

fun trimBatchExecutionRuns ::
  "(Hex, BatchExecutionRunRecord) jsmap \<Rightarrow> (Hex, BatchExecutionRunRecord) jsmap" where
  "trimBatchExecutionRuns [] = []"
| "trimBatchExecutionRuns ((oldest, r) # runs) =
     (if length ((oldest, r) # runs) > BATCH_EXECUTION_RUN_RETENTION
      then (if oldest = [] then (oldest, r) # runs else trimBatchExecutionRuns runs)
      else (oldest, r) # runs)"

definition retainedBatchExecutionRuns ::
  "(Hex \<times> BatchExecutionRunRecord) list \<Rightarrow> (Hex \<times> BatchExecutionRunRecord) list" where
  "retainedBatchExecutionRuns entries = drop (length entries - BATCH_EXECUTION_RUN_RETENTION) entries"

definition associateOrder :: "Hex \<Rightarrow> Hex \<Rightarrow> (Hex, OrderLifecycleRecord) jsmap
    \<Rightarrow> (Hex, OrderLifecycleRecord) jsmap" where
  "associateOrder runId c m =
     (case mget m c of
        None \<Rightarrow> m
      | Some order \<Rightarrow>
          if olr_status order \<noteq> OrderOpen \<or> olr_matchingRunId order = Some runId then m
          else mset_at c (order\<lparr>olr_matchingRunId := Some runId\<rparr>) m)"

definition associateBatchExecutionRun :: "Hex \<Rightarrow> Hex list \<Rightarrow> (ProtocolStore, unit) act" where
  "associateBatchExecutionRun runId intentCommitments =
     modifyA (\<lambda>s. s\<lparr>st_orderLifecycle := fold (associateOrder runId) intentCommitments (st_orderLifecycle s)\<rparr>)"

definition upsertBatchExecutionRun :: "BatchExecutionRunRecord \<Rightarrow> Hex list \<Rightarrow> (ProtocolStore, unit) act" where
  "upsertBatchExecutionRun r intentCommitments = stepsA
     [modifyA (\<lambda>s. s\<lparr>st_batchExecutionRuns := mset_at (ber_runId r) r (st_batchExecutionRuns s)\<rparr>),
      associateBatchExecutionRun (ber_runId r) intentCommitments,
      modifyA (\<lambda>s. s\<lparr>st_batchExecutionRuns := trimBatchExecutionRuns (st_batchExecutionRuns s)\<rparr>)]"

definition addBatchExecutionRun :: "BatchExecutionRunRecord \<Rightarrow> Hex list \<Rightarrow> (ProtocolStore, unit) act" where
  "addBatchExecutionRun r intentCommitments = stepsA
     [guardA (\<lambda>s. mhas (st_batchExecutionRuns s) (ber_runId r)) ''batch execution run already exists'',
      modifyA (\<lambda>s. s\<lparr>st_batchExecutionRuns := mset_at (ber_runId r) r (st_batchExecutionRuns s)\<rparr>),
      associateBatchExecutionRun (ber_runId r) intentCommitments,
      modifyA (\<lambda>s. s\<lparr>st_batchExecutionRuns := trimBatchExecutionRuns (st_batchExecutionRuns s)\<rparr>)]"

text \<open>One round of the loop of \<open>backfillMarketSettlementVolumes\<close>.\<close>

definition backfillRun :: "BatchExecutionRunRecord \<Rightarrow> (Hex, MarketSettlementVolumeRecord) jsmap
    \<Rightarrow> (Hex, MarketSettlementVolumeRecord) jsmap" where
  "backfillRun run volumes =
     (case (ber_aggregateVolume run, ber_completedAt run, ber_settlementDigest run) of
        (Some volume, Some completedAt, Some digest) \<Rightarrow>
          if ber_status run \<noteq> RunSettled \<or> digest = [] \<or> mhas volumes digest then volumes
          else mset_at digest \<lparr>msv_marketId = ber_marketId run, msv_matchedVolume = volume sdiv 2,
                 msv_settledAt = completedAt, msv_settlementDigest = digest\<rparr> volumes
      | _ \<Rightarrow> volumes)"

definition backfillMarketSettlementVolumes :: "(ProtocolStore, unit) act" where
  "backfillMarketSettlementVolumes = modifyA (\<lambda>s. s\<lparr>st_marketSettlementVolumes :=
     fold backfillRun (mvalues (st_batchExecutionRuns s)) (st_marketSettlementVolumes s)\<rparr>)"

subsection \<open>Orders\<close>

definition open_order :: "string \<Rightarrow> int \<Rightarrow> Hex \<Rightarrow> string \<Rightarrow> Hex \<Rightarrow> int \<Rightarrow> OrderLifecycleRecord" where
  "open_order batchId createdAt c marketId owner updatedAt =
     \<lparr>olr_intentCommitment = c, olr_residualCommitment = None, olr_status = OrderOpen,
      olr_batchId = batchId, olr_createdAt = createdAt, olr_matchingRunId = None,
      olr_marketId = marketId, olr_ownerCommitment = owner, olr_cancellationTxHash = None,
      olr_updatedAt = updatedAt\<rparr>"

text \<open>\<open>if (privateMatchIntent) { assertPrivateMatchIntent(...); privateMatchIntents.set(...) }\<close>\<close>

definition keepPrivateMatchIntent ::
  "host \<Rightarrow> MatchRecord \<Rightarrow> PrivateMatchIntent option \<Rightarrow> (ProtocolStore, unit) act" where
  "keepPrivateMatchIntent h r private =
     (case private of
        None \<Rightarrow> returnA ()
      | Some payload \<Rightarrow> stepsA
          [liftA (\<lambda>_. assertPrivateMatchIntent h r payload),
           modifyA (\<lambda>s. s\<lparr>st_privateMatchIntents :=
             mset_at (mr_intentCommitment r) payload (st_privateMatchIntents s)\<rparr>)])"

definition intent_locked :: "Hex \<Rightarrow> ProtocolStore \<Rightarrow> bool" where
  "intent_locked n s = (\<exists>existing\<in>set (mvalues (st_intents s)).
     ir_noteNullifier existing = n
     \<and> map_option olr_status (mget (st_orderLifecycle s) (ir_intentCommitment existing))
         \<noteq> Some OrderCancelled)"

definition addIntent :: "host \<Rightarrow> int \<Rightarrow> IntentRecord \<Rightarrow> PrivateMatchIntent option \<Rightarrow> (ProtocolStore, unit) act" where
  "addIntent h now r private = stepsA
     [guardA (\<lambda>s. mhas (st_intents s) (ir_intentCommitment r)) ''intent commitment already exists'',
      guardA (\<lambda>_. ir_batchDigest r = [] \<or> ir_marketDigest r = [] \<or> ir_ownerCommitmentField r = [])
        ''intent public binding is required'',
      guardA (\<lambda>_. ir_matchingPayloadCommitment r = []) ''intent matching payload commitment is required'',
      keepPrivateMatchIntent h (matchRecordOfIntent r) private,
      assertProof (ir_proof r),
      liftA (\<lambda>s. bindE (marginMembershipRoot h s) (\<lambda>root.
        if ir_marginRoot r \<noteq> root then throw ''intent margin root is not current'' else Inr ())),
      guardA (\<lambda>s. ir_noteNullifier r \<in> set (st_spentNullifiers s)) ''intent nullifier already spent'',
      guardA (intent_locked (ir_noteNullifier r)) ''intent nullifier already locked'',
      modifyA (\<lambda>s. s\<lparr>st_intents := mset_at (ir_intentCommitment r) r (st_intents s)\<rparr>),
      modifyA (\<lambda>s. s\<lparr>st_orderLifecycle := mset_at (ir_intentCommitment r)
        (open_order (ir_batchId r) now (ir_intentCommitment r) (ir_marketId r) (ir_ownerCommitment r) now)
        (st_orderLifecycle s)\<rparr>)]"

definition updateIntentSubmissionTxHash :: "Hex \<Rightarrow> Hex \<Rightarrow> (ProtocolStore, IntentRecord) act" where
  "updateIntentSubmissionTxHash c txHash s =
     (case mget (st_intents s) c of
        None \<Rightarrow> throwA ''unknown intent'' s
      | Some intent \<Rightarrow>
          let updated = intent\<lparr>ir_submissionTxHash := Some txHash\<rparr>
          in (Inr updated, s\<lparr>st_intents := mset_at c updated (st_intents s)\<rparr>))"

definition assertOrderCancellable :: "Hex \<Rightarrow> ProtocolStore \<Rightarrow> OrderLifecycleRecord result" where
  "assertOrderCancellable c s =
     (case mget (st_orderLifecycle s) c of
        None \<Rightarrow> throw ''unknown order''
      | Some existing \<Rightarrow>
          if olr_status existing = OrderFilled then throw ''filled order cannot be cancelled''
          else if olr_status existing = OrderCancelled then throw ''order already cancelled''
          else if olr_status existing = PartiallyFilled \<and> truthy_str (olr_residualCommitment existing)
            then throw ''This order has rolled over; cancel its active residual instead''
          else Inr existing)"

definition cancelOrder :: "int \<Rightarrow> Hex \<Rightarrow> Hex option \<Rightarrow> (ProtocolStore, OrderLifecycleRecord) act" where
  "cancelOrder now c cancellationTxHash s =
     (case mget (st_orderLifecycle s) c of
        None \<Rightarrow> throwA ''unknown order'' s
      | Some existing \<Rightarrow>
          if olr_status existing = OrderFilled then throwA ''filled order cannot be cancelled'' s
          else if olr_status existing = OrderCancelled then throwA ''order already cancelled'' s
          else if olr_status existing = PartiallyFilled \<and> truthy_str (olr_residualCommitment existing)
            then throwA ''This order has rolled over; cancel its active residual instead'' s
          else
            let hashed = (if truthy_str cancellationTxHash
                          then existing\<lparr>olr_cancellationTxHash := cancellationTxHash\<rparr> else existing);
                r = hashed\<lparr>olr_status := OrderCancelled, olr_updatedAt := now\<rparr>
            in (Inr r, s\<lparr>st_orderLifecycle := mset_at c r (st_orderLifecycle s)\<rparr>))"

definition addResidualOrder ::
  "host \<Rightarrow> ResidualOrderRecord \<Rightarrow> PrivateMatchIntent option \<Rightarrow> (ProtocolStore, unit) act" where
  "addResidualOrder h r private = stepsA
     [guardA (\<lambda>s. mhas (st_residualOrders s) (ror_intentCommitment r)) ''residual order already exists'',
      guardA (\<lambda>_. ror_matchingPayloadCommitment r = [])
        ''residual order matching payload commitment is required'',
      keepPrivateMatchIntent h (matchRecordOfResidual r) private,
      modifyA (\<lambda>s. s\<lparr>st_residualOrders := mset_at (ror_intentCommitment r) r (st_residualOrders s)\<rparr>),
      modifyA (\<lambda>s. s\<lparr>st_orderLifecycle := mset_at (ror_intentCommitment r)
        (open_order (ror_batchId r) (ror_createdAt r) (ror_intentCommitment r) (ror_marketId r)
          (ror_ownerCommitment r) (ror_updatedAt r)) (st_orderLifecycle s)\<rparr>)]"

subsection \<open>Settlements\<close>

definition fallbackOrderUpdates :: "ProtocolStore \<Rightarrow> BatchSettlement \<Rightarrow> OrderLifecycleUpdate list" where
  "fallbackOrderUpdates s settlement =
     map (\<lambda>intent. \<lparr>olu_intentCommitment = ir_intentCommitment intent, olu_residualCommitment = None,
            olu_status = OrderFilled\<rparr>)
       (filter (\<lambda>intent. ir_marketId intent = bs_marketId settlement
            \<and> ir_batchId intent = bs_batchId settlement
            \<and> ir_noteNullifier intent \<in> set (bs_spentNullifiers settlement)) (mvalues (st_intents s)))"

definition applyOrderUpdate :: "int \<Rightarrow> OrderLifecycleUpdate \<Rightarrow> (ProtocolStore, unit) act" where
  "applyOrderUpdate now update s =
     (let c = olu_intentCommitment update;
          previous = mget (st_orderLifecycle s) c;
          order = (case mget (st_intents s) c of
            Some i \<Rightarrow> Some (ir_batchId i, ir_marketId i, ir_ownerCommitment i)
          | None \<Rightarrow> (case mget (st_residualOrders s) c of
              Some r \<Rightarrow> Some (ror_batchId r, ror_marketId r, ror_ownerCommitment r) | None \<Rightarrow> None))
      in case order of
           None \<Rightarrow> throwA ''unknown settlement intent'' s
         | Some (batchId, marketId, owner) \<Rightarrow>
             (Inr (), s\<lparr>st_orderLifecycle := mset_at c
               \<lparr>olr_intentCommitment = c, olr_residualCommitment = olu_residualCommitment update,
                olr_status = olu_status update, olr_batchId = batchId,
                olr_createdAt = (case previous of Some p \<Rightarrow> olr_createdAt p | None \<Rightarrow> now),
                olr_matchingRunId = (case previous of Some p \<Rightarrow> olr_matchingRunId p | None \<Rightarrow> None),
                olr_marketId = marketId, olr_ownerCommitment = owner, olr_cancellationTxHash = None,
                olr_updatedAt = now\<rparr> (st_orderLifecycle s)\<rparr>))"

definition applySettlementOrderUpdates :: "int \<Rightarrow> BatchSettlement \<Rightarrow> (ProtocolStore, unit) act" where
  "applySettlementOrderUpdates now settlement s =
     eachA (applyOrderUpdate now)
       (case bs_orderUpdates settlement of Some us \<Rightarrow> us | None \<Rightarrow> fallbackOrderUpdates s settlement) s"

definition validatePositionOpenings ::
  "BatchSettlement \<Rightarrow> PositionLifecycleRecord list \<Rightarrow> unit result" where
  "validatePositionOpenings settlement openings =
     eachE (\<lambda>opening.
       if plr_batchId opening \<noteq> bs_batchId settlement then throw ''position opening batch mismatch''
       else if plr_marketId opening \<noteq> bs_marketId settlement
         then throw ''position opening market mismatch''
       else if plr_settlementDigest opening \<noteq> bs_settlementDigest settlement
         then throw ''position opening settlement mismatch''
       else if plr_positionCommitment opening \<notin> set (bs_newCommitments settlement)
         then throw ''position opening commitment mismatch''
       else Inr ()) openings"

definition residualUpdates :: "BatchSettlement \<Rightarrow> (Hex, Hex) jsmap" where
  "residualUpdates settlement =
     map_new (map (\<lambda>u. (the (olu_residualCommitment u), olu_intentCommitment u))
       (filter (\<lambda>u. olu_status u = PartiallyFilled \<and> truthy_str (olu_residualCommitment u))
         (case bs_orderUpdates settlement of Some us \<Rightarrow> us | None \<Rightarrow> [])))"

definition validateResidualOrders :: "BatchSettlement \<Rightarrow> ResidualOrderRecord list \<Rightarrow> unit result" where
  "validateResidualOrders settlement residuals =
     eachE (\<lambda>residual.
       if ror_batchId residual \<noteq> bs_batchId settlement then throw ''residual order batch mismatch''
       else if ror_marketId residual \<noteq> bs_marketId settlement
         then throw ''residual order market mismatch''
       else
         let src = mget (residualUpdates settlement) (ror_intentCommitment residual) in
         if \<not> truthy_str src then throw ''residual order update mismatch''
         else if src \<noteq> Some (ror_sourceIntentCommitment residual)
           then throw ''residual order source mismatch''
         else Inr ()) residuals"

definition addPositionOpening :: "PositionLifecycleRecord \<Rightarrow> (ProtocolStore, unit) act" where
  "addPositionOpening r = stepsA
     [guardA (\<lambda>s. mhas (st_positionLifecycle s) (plr_positionCommitment r))
        ''position lifecycle already exists'',
      guardA (\<lambda>_. plr_status r \<noteq> PositionOpen) ''position opening must be open'',
      guardA (\<lambda>s. plr_positionCommitment r \<notin> set (st_positionCommitments s))
        ''unknown position commitment'',
      modifyA (\<lambda>s. s\<lparr>st_positionLifecycle :=
        mset_at (plr_positionCommitment r) r (st_positionLifecycle s)\<rparr>)]"

definition addAccountEvent :: "AccountEventRecord \<Rightarrow> (ProtocolStore, unit) act" where
  "addAccountEvent r = stepsA
     [guardA (\<lambda>s. mhas (st_accountEvents s) (aer_eventId r)) ''account event already exists'',
      modifyA (\<lambda>s. s\<lparr>st_accountEvents := mset_at (aer_eventId r) r (st_accountEvents s)\<rparr>)]"

definition settlementKey :: "BatchSettlement \<Rightarrow> string" where
  "settlementKey settlement = bs_marketId settlement @ '':'' @ bs_batchId settlement"

text \<open>\<open>newCommitments.indexOf(c)\<close>, \<open>None\<close> for -1.\<close>

definition indexOf :: "'a \<Rightarrow> 'a list \<Rightarrow> nat option" where
  "indexOf x xs = findIndex (\<lambda>y. y = x) xs"

definition openPosition ::
  "BatchSettlement \<Rightarrow> nat \<Rightarrow> PositionLifecycleRecord \<Rightarrow> (ProtocolStore, unit) act" where
  "openPosition settlement firstPositionIndex opening =
     (case indexOf (plr_positionCommitment opening) (bs_newCommitments settlement) of
        None \<Rightarrow> throwA ''position opening commitment is not in settlement''
      | Some offset \<Rightarrow>
          addPositionOpening (opening\<lparr>plr_positionIndex := Some (firstPositionIndex + offset)\<rparr>))"

text \<open>The body after the checks; it starts by reading \<open>positionCommitments.size\<close>.\<close>

definition applySettlement ::
  "host \<Rightarrow> int \<Rightarrow> int \<Rightarrow> BatchSettlement \<Rightarrow> PositionLifecycleRecord list \<Rightarrow> ResidualOrderRecord list
     \<Rightarrow> AccountEventRecord list \<Rightarrow> PrivateMatchIntent list \<Rightarrow> (ProtocolStore, unit) act" where
  "applySettlement h now settledAt settlement openings residuals events privates s =
     (let firstPositionIndex = length (st_positionCommitments s);
          privateByIntent = map_new (map (\<lambda>p. (pmi_intentCommitment p, p)) privates)
      in stepsA
        [modifyA (\<lambda>s. s\<lparr>st_positionCommitments :=
           fold sadd (bs_newCommitments settlement) (st_positionCommitments s)\<rparr>),
         modifyA (\<lambda>s. s\<lparr>st_marginCommitments :=
           fold sadd (case bs_marginChangeCommitments settlement of Some cs \<Rightarrow> cs | None \<Rightarrow> [])
             (st_marginCommitments s)\<rparr>),
         eachA spend (bs_spentNullifiers settlement),
         applySettlementOrderUpdates now settlement,
         eachA (openPosition settlement firstPositionIndex) openings,
         eachA (\<lambda>residual. addResidualOrder h residual
           (mget privateByIntent (ror_intentCommitment residual))) residuals,
         eachA addAccountEvent events,
         modifyA (\<lambda>s. s\<lparr>st_settlements := mset_at (settlementKey settlement) settlement (st_settlements s)\<rparr>),
         modifyA (\<lambda>s. s\<lparr>st_marketSettlementVolumes := mset_at (bs_settlementDigest settlement)
           \<lparr>msv_marketId = bs_marketId settlement, msv_matchedVolume = bs_aggregateVolume settlement sdiv 2,
            msv_settledAt = settledAt, msv_settlementDigest = bs_settlementDigest settlement\<rparr>
           (st_marketSettlementVolumes s)\<rparr>)] s)"

definition addSettlement ::
  "host \<Rightarrow> int \<Rightarrow> int \<Rightarrow> BatchSettlement \<Rightarrow> PositionLifecycleRecord list \<Rightarrow> ResidualOrderRecord list
     \<Rightarrow> AccountEventRecord list \<Rightarrow> PrivateMatchIntent list \<Rightarrow> (ProtocolStore, unit) act" where
  "addSettlement h now settledAt settlement openings residuals events privates = stepsA
     [guardA (\<lambda>s. mhas (st_settlements s) (settlementKey settlement)) ''batch already settled'',
      guardA (\<lambda>_. bs_matchTranscriptDigest settlement = []) ''match transcript digest is required'',
      assertProof (bs_proof settlement),
      liftA (\<lambda>_. validatePositionOpenings settlement openings),
      liftA (\<lambda>_. validateResidualOrders settlement residuals),
      applySettlement h now settledAt settlement openings residuals events privates]"

text \<open>
  \<open>{ ...settlement, ...transactionHashes }\<close>: an absent key (\<open>None\<close>) keeps the field, a present one
  replaces it, by undefined too (\<open>Some None\<close>).
\<close>

definition spread :: "'a option \<Rightarrow> 'a option option \<Rightarrow> 'a option" where
  "spread old new = (case new of None \<Rightarrow> old | Some v \<Rightarrow> v)"

definition updateSettlementTransactions ::
  "Hex \<Rightarrow> Hex option option \<Rightarrow> Hex option option \<Rightarrow> Hex option \<Rightarrow> (ProtocolStore, BatchSettlement) act" where
  "updateSettlementTransactions digest verificationTx settlementTx boundlessRequestId s =
     (case find (\<lambda>(_, settlement). bs_settlementDigest settlement = digest) (st_settlements s) of
        None \<Rightarrow> throwA ''unknown settlement'' s
      | Some (key, settlement) \<Rightarrow>
          let hashed = settlement\<lparr>
                bs_proofVerificationTxHash := spread (bs_proofVerificationTxHash settlement) verificationTx,
                bs_settlementTxHash := spread (bs_settlementTxHash settlement) settlementTx\<rparr>;
              updated = (if truthy_str boundlessRequestId
                then hashed\<lparr>bs_proof := (bs_proof settlement)\<lparr>pm_boundlessRequestId := boundlessRequestId\<rparr>\<rparr>
                else hashed)
          in (Inr updated, s\<lparr>st_settlements := mset_at key updated (st_settlements s)\<rparr>))"

definition settlementByDigest :: "Hex \<Rightarrow> ProtocolStore \<Rightarrow> BatchSettlement option" where
  "settlementByDigest digest s =
     find (\<lambda>settlement. bs_settlementDigest settlement = digest) (mvalues (st_settlements s))"

subsection \<open>Positions\<close>

definition findPosition :: "Hex \<Rightarrow> Hex \<Rightarrow> ProtocolStore \<Rightarrow> PositionLifecycleRecord option" where
  "findPosition commitment n s =
     (case mget (st_positionLifecycle s) commitment of
        Some position \<Rightarrow> Some position
      | None \<Rightarrow> find (\<lambda>position. plr_positionNullifier position = n) (mvalues (st_positionLifecycle s)))"

definition positionFor :: "Hex \<Rightarrow> Hex \<Rightarrow> ProtocolStore \<Rightarrow> PositionLifecycleRecord option" where
  "positionFor commitment n s = findPosition commitment n s"

definition markPositionClosed :: "int \<Rightarrow> PositionCloseRecord \<Rightarrow> (ProtocolStore, unit) act" where
  "markPositionClosed now r = modifyA (\<lambda>s.
     case findPosition (pcr_positionCommitment r) (pcr_positionNullifier r) s of
       None \<Rightarrow> s
     | Some position \<Rightarrow> s\<lparr>st_positionLifecycle := mset_at (plr_positionCommitment position)
         (position\<lparr>plr_closeCommitment := Some (pcr_closeCommitment r),
            plr_marginOutputCommitment := Some (pcr_marginOutputCommitment r),
            plr_newPositionCommitment := Some (pcr_newPositionCommitment r),
            plr_status := PositionClosed, plr_updatedAt := now\<rparr>) (st_positionLifecycle s)\<rparr>)"

definition markPositionLiquidated :: "int \<Rightarrow> LiquidationRecord \<Rightarrow> (ProtocolStore, unit) act" where
  "markPositionLiquidated now r = modifyA (\<lambda>s.
     case findPosition (lr_positionCommitment r) (lr_positionNullifier r) s of
       None \<Rightarrow> s
     | Some position \<Rightarrow> s\<lparr>st_positionLifecycle := mset_at (plr_positionCommitment position)
         (position\<lparr>plr_liquidationRewardCommitment := Some (lr_rewardCommitment r),
            plr_status := PositionLiquidated, plr_updatedAt := now\<rparr>) (st_positionLifecycle s)\<rparr>)"

definition addLiquidation :: "int \<Rightarrow> LiquidationRecord \<Rightarrow> (ProtocolStore, unit) act" where
  "addLiquidation now r = stepsA
     [guardA (\<lambda>s. mhas (st_liquidations s) (lr_positionNullifier r)) ''position already liquidated'',
      assertProof (lr_proof r),
      spend (lr_positionNullifier r),
      markPositionLiquidated now r,
      modifyA (\<lambda>s. s\<lparr>st_liquidations := mset_at (lr_positionNullifier r) r (st_liquidations s)\<rparr>)]"

definition addConditionalOrder :: "ConditionalOrderCommitment \<Rightarrow> (ProtocolStore, unit) act" where
  "addConditionalOrder r = stepsA
     [guardA (\<lambda>s. mhas (st_conditionalOrders s) (coc_closeCommitment r)) ''conditional order already exists'',
      modifyA (\<lambda>s. s\<lparr>st_conditionalOrders :=
        mset_at (coc_closeCommitment r) r (st_conditionalOrders s)\<rparr>)]"

definition hasConditionalOrder :: "Hex \<Rightarrow> ProtocolStore \<Rightarrow> bool" where
  "hasConditionalOrder c s = mhas (st_conditionalOrders s) c"

definition addConditionalClose :: "ConditionalOrderRecord \<Rightarrow> (ProtocolStore, unit) act" where
  "addConditionalClose r = stepsA
     [guardA (\<lambda>s. mhas (st_conditionalCloses s) (cor_closeCommitment r)) ''conditional close already exists'',
      assertProof (cor_proof r),
      modifyA (\<lambda>s. s\<lparr>st_conditionalCloses :=
        mset_at (cor_closeCommitment r) r (st_conditionalCloses s)\<rparr>)]"

text \<open>
  The last statement: \<open>positionCloses.set(..., { ...record, outputPositionIndex, outputPositionRoot })\<close>,
  where computing the root may throw.
\<close>

definition storePositionClose :: "host \<Rightarrow> PositionCloseRecord \<Rightarrow> nat \<Rightarrow> (ProtocolStore, unit) act" where
  "storePositionClose h r outputPositionIndex s =
     (case positionMembershipRoot h s of
        Inl e \<Rightarrow> throwA e s
      | Inr rt \<Rightarrow> (Inr (), s\<lparr>st_positionCloses := mset_at (pcr_closeCommitment r)
          (r\<lparr>pcr_outputPositionIndex := Some outputPositionIndex, pcr_outputPositionRoot := Some rt\<rparr>)
          (st_positionCloses s)\<rparr>))"

definition applyPositionClose :: "host \<Rightarrow> int \<Rightarrow> PositionCloseRecord \<Rightarrow> (ProtocolStore, unit) act" where
  "applyPositionClose h now r s =
     (let outputPositionIndex = length (st_positionCommitments s)
      in stepsA
        [modifyA (\<lambda>s. s\<lparr>st_positionCommitments :=
           sadd (pcr_newPositionCommitment r) (st_positionCommitments s)\<rparr>),
         modifyA (\<lambda>s. s\<lparr>st_marginCommitments :=
           sadd (pcr_marginOutputCommitment r) (st_marginCommitments s)\<rparr>),
         markPositionClosed now r,
         storePositionClose h r outputPositionIndex] s)"

definition addPositionCloseRecord :: "host \<Rightarrow> int \<Rightarrow> PositionCloseRecord \<Rightarrow> (ProtocolStore, unit) act" where
  "addPositionCloseRecord h now r = stepsA
     [guardA (\<lambda>s. mhas (st_positionCloses s) (pcr_closeCommitment r)) ''position close already exists'',
      assertProof (pcr_proof r),
      spend (pcr_positionNullifier r),
      applyPositionClose h now r]"

text \<open>\<open>!trigger || trigger.marketId !== r.marketId || trigger.positionNullifier !== ...\<close>\<close>

definition not_triggered :: "PositionCloseRecord \<Rightarrow> ProtocolStore \<Rightarrow> bool" where
  "not_triggered r s =
     (case mget (st_conditionalCloses s) (pcr_closeCommitment r) of
        None \<Rightarrow> True
      | Some trigger \<Rightarrow> cor_marketId trigger \<noteq> pcr_marketId r
          \<or> cor_positionNullifier trigger \<noteq> pcr_positionNullifier r)"

definition addPositionClose :: "host \<Rightarrow> int \<Rightarrow> PositionCloseRecord \<Rightarrow> (ProtocolStore, unit) act" where
  "addPositionClose h now r = stepsA
     [guardA (not_triggered r) ''conditional close not triggered'', addPositionCloseRecord h now r]"

definition addManualPositionClose :: "host \<Rightarrow> int \<Rightarrow> PositionCloseRecord \<Rightarrow> (ProtocolStore, unit) act" where
  "addManualPositionClose h now r = addPositionCloseRecord h now r"

definition addPairedPositionCloses ::
  "host \<Rightarrow> int \<Rightarrow> int \<Rightarrow> PositionCloseRecord \<Rightarrow> PositionCloseRecord \<Rightarrow> bool \<Rightarrow> (ProtocolStore, unit) act" where
  "addPairedPositionCloses h now1 now2 trader maker conditional = stepsA
     [guardA (\<lambda>_. pcr_marketId trader \<noteq> pcr_marketId maker \<or> pcr_markPrice trader \<noteq> pcr_markPrice maker
          \<or> pcr_positionNullifier trader = pcr_positionNullifier maker
          \<or> pcr_closeCommitment trader = pcr_closeCommitment maker
          \<or> pcr_marginOutputCommitment trader = pcr_marginOutputCommitment maker)
        ''invalid paired position closes'',
      guardA (\<lambda>s. mhas (st_positionCloses s) (pcr_closeCommitment trader)
          \<or> mhas (st_positionCloses s) (pcr_closeCommitment maker)
          \<or> pcr_positionNullifier trader \<in> set (st_spentNullifiers s)
          \<or> pcr_positionNullifier maker \<in> set (st_spentNullifiers s))
        ''paired position already closed'',
      assertProof (pcr_proof trader),
      assertProof (pcr_proof maker),
      guardA (\<lambda>s. conditional \<and> not_triggered trader s) ''conditional close not triggered'',
      addPositionCloseRecord h now1 trader,
      addPositionCloseRecord h now2 maker]"

subsection \<open>Disclosures, withdrawals, accounts\<close>

definition addDisclosure :: "DisclosureRecord \<Rightarrow> (ProtocolStore, unit) act" where
  "addDisclosure r = stepsA
     [guardA (\<lambda>s. mhas (st_disclosures s) (dr_disclosureId r)) ''disclosure already exists'',
      assertProof (dr_proof r),
      modifyA (\<lambda>s. s\<lparr>st_disclosures := mset_at (dr_disclosureId r) r (st_disclosures s)\<rparr>)]"

definition addWithdrawal :: "WithdrawalRecord \<Rightarrow> (ProtocolStore, unit) act" where
  "addWithdrawal r = stepsA
     [guardA (\<lambda>s. mhas (st_withdrawals s) (wr_nullifier r)) ''withdrawal already exists'',
      assertProof (wr_proof r),
      spend (wr_nullifier r),
      modifyA (\<lambda>s. if wr_changeCommitment r \<noteq> ''0x0''
        then s\<lparr>st_marginCommitments := sadd (wr_changeCommitment r) (st_marginCommitments s)\<rparr> else s),
      modifyA (\<lambda>s. s\<lparr>st_withdrawals := mset_at (wr_nullifier r) r (st_withdrawals s)\<rparr>)]"

definition upsertAccountEncryptionKey :: "AccountEncryptionKeyRecord \<Rightarrow> (ProtocolStore, unit) act" where
  "upsertAccountEncryptionKey r = modifyA (\<lambda>s. s\<lparr>st_accountEncryptionKeys :=
     mset_at (aek_ownerCommitment r) r (st_accountEncryptionKeys s)\<rparr>)"

definition accountEncryptionKey :: "Hex \<Rightarrow> ProtocolStore \<Rightarrow> AccountEncryptionKeyRecord option" where
  "accountEncryptionKey owner s = mget (st_accountEncryptionKeys s) owner"

definition byCreatedAt :: "AccountEventRecord \<Rightarrow> AccountEventRecord \<Rightarrow> int" where
  "byCreatedAt a b = aer_createdAt a - aer_createdAt b"

definition accountEventsFor :: "Hex \<Rightarrow> ProtocolStore \<Rightarrow> AccountEventRecord list" where
  "accountEventsFor owner s =
     js_sort byCreatedAt (filter (\<lambda>e. aer_ownerCommitment e = owner) (mvalues (st_accountEvents s)))"

definition byOpenedAt :: "host \<Rightarrow> PositionLifecycleRecord \<Rightarrow> PositionLifecycleRecord \<Rightarrow> int" where
  "byOpenedAt h a b =
     (if plr_openedAt a - plr_openedAt b \<noteq> 0 then plr_openedAt a - plr_openedAt b
      else localeCompare h (plr_positionCommitment a) (plr_positionCommitment b))"

definition positionsFor :: "host \<Rightarrow> Hex \<Rightarrow> ProtocolStore \<Rightarrow> PositionLifecycleRecord list" where
  "positionsFor h owner s =
     js_sort (byOpenedAt h)
       (filter (\<lambda>p. plr_ownerCommitment p = owner) (mvalues (st_positionLifecycle s)))"

subsection \<open>The registries\<close>

text \<open>Every collection with a duplicate check meets the contract \<open>insert_once\<close>.\<close>

lemmas add_defs = addMarket_def addFundingUpdate_def addLiquidationAutomationJob_def
  addConditionalOrder_def addConditionalClose_def addDisclosure_def addWithdrawal_def addAccountEvent_def
  addLiquidation_def addPositionOpening_def addMarginCommitment_def addPendingAssetDeposit_def
  assertProof_def markPositionLiquidated_def

lemma spend_run: "spend n s = (if n \<in> set (st_spentNullifiers s) then (Inl ''nullifier already spent'', s)
    else (Inr (), s\<lparr>st_spentNullifiers := sadd n (st_spentNullifiers s)\<rparr>))"
  by (simp add: spend_def js_simps)

lemma steps_spend_run [js_simps]: "stepsA (spend n # ms) s =
    (if n \<in> set (st_spentNullifiers s) then (Inl ''nullifier already spent'', s)
     else stepsA ms (s\<lparr>st_spentNullifiers := sadd n (st_spentNullifiers s)\<rparr>))"
  by (simp add: stepsA.simps(2) seqA_def bindA_def spend_run)

interpretation market_registry: insert_once st_markets addMarket mc_marketId
  by unfold_locales (auto simp: add_defs js_simps split: if_splits)

interpretation funding_registry: insert_once st_fundingUpdates addFundingUpdate fundingUpdateKey
  by unfold_locales (auto simp: add_defs js_simps split: if_splits)

interpretation job_registry: insert_once st_liquidationAutomationJobs addLiquidationAutomationJob laj_jobId
  by unfold_locales (auto simp: add_defs js_simps split: if_splits)

interpretation conditional_order_registry:
  insert_once st_conditionalOrders addConditionalOrder coc_closeCommitment
  by unfold_locales (auto simp: add_defs js_simps split: if_splits)

interpretation conditional_close_registry:
  insert_once st_conditionalCloses addConditionalClose cor_closeCommitment
  by unfold_locales (auto simp: add_defs js_simps split: if_splits)

interpretation disclosure_registry: insert_once st_disclosures addDisclosure dr_disclosureId
  by unfold_locales (auto simp: add_defs js_simps split: if_splits)

interpretation withdrawal_registry: insert_once st_withdrawals addWithdrawal wr_nullifier
  by unfold_locales (auto simp: add_defs js_simps split: if_splits)

interpretation event_registry: insert_once st_accountEvents addAccountEvent aer_eventId
  by unfold_locales (auto simp: add_defs js_simps split: if_splits)

interpretation liquidation_registry: insert_once st_liquidations "addLiquidation now" lr_positionNullifier
  by unfold_locales (auto simp: add_defs js_simps split: if_splits option.splits)

interpretation position_registry: insert_once st_positionLifecycle addPositionOpening plr_positionCommitment
  by unfold_locales (auto simp: add_defs js_simps split: if_splits)

lemma keepPrivateMatchIntent_run: "keepPrivateMatchIntent h r p s =
    (case p of None \<Rightarrow> (Inr (), s)
     | Some payload \<Rightarrow> (case assertPrivateMatchIntent h r payload of Inl e \<Rightarrow> (Inl e, s)
         | Inr _ \<Rightarrow> (Inr (), s\<lparr>st_privateMatchIntents :=
             mset_at (mr_intentCommitment r) payload (st_privateMatchIntents s)\<rparr>)))"
  by (simp add: keepPrivateMatchIntent_def js_simps split: option.splits sum.splits)

lemma steps_keepPrivate [js_simps]: "stepsA (keepPrivateMatchIntent h r p # ms) s =
    (case keepPrivateMatchIntent h r p s of (Inl e, t) \<Rightarrow> (Inl e, t) | (Inr _, t) \<Rightarrow> stepsA ms t)"
  by (simp add: stepsA.simps(2) seqA_def bindA_def)

interpretation intent_registry: insert_once st_intents "\<lambda>(r, p). addIntent h now r p"
    "\<lambda>(r, p). ir_intentCommitment r"
  by unfold_locales
    (auto simp: addIntent_def assertProof_def js_simps keepPrivateMatchIntent_run
      split: if_splits option.splits sum.splits; blast)+

interpretation residual_registry: insert_once st_residualOrders "\<lambda>(r, p). addResidualOrder h r p"
    "\<lambda>(r, p). ror_intentCommitment r"
  by unfold_locales
    (auto simp: addResidualOrder_def js_simps keepPrivateMatchIntent_run
      split: if_splits option.splits sum.splits; blast)+

text \<open>
  What the longer methods leave alone: the frame lemmas of the position update, of the loops of
  \<open>addSettlement\<close> and of its order updates.
\<close>

lemma frames_spend: "(\<And>s x. v (s\<lparr>st_spentNullifiers := x\<rparr>) = v s) \<Longrightarrow> frames v (spend n)"
  by (simp add: frames_def spend_run)

lemma frames_markPositionClosed:
  "(\<And>s x. v (s\<lparr>st_positionLifecycle := x\<rparr>) = v s) \<Longrightarrow> frames v (markPositionClosed now r)"
  by (simp add: markPositionClosed_def split: option.split)

lemma frames_markPositionLiquidated:
  "(\<And>s x. v (s\<lparr>st_positionLifecycle := x\<rparr>) = v s) \<Longrightarrow> frames v (markPositionLiquidated now r)"
  by (simp add: markPositionLiquidated_def split: option.split)

lemma frames_storePositionClose:
  "(\<And>s x. v (s\<lparr>st_positionCloses := x\<rparr>) = v s) \<Longrightarrow> frames v (storePositionClose h r k)"
  by (simp add: frames_def storePositionClose_def throwA_def split: sum.split)

lemma frames_applySettlementOrderUpdates:
  assumes "\<And>s x. v (s\<lparr>st_orderLifecycle := x\<rparr>) = v s"
  shows "frames v (applySettlementOrderUpdates now settlement)"
proof -
  have "frames v (applyOrderUpdate now u)" for u
    using assms by (simp add: frames_def applyOrderUpdate_def Let_def throwA_def split: option.split prod.split)
  then have "frames v (eachA (applyOrderUpdate now) us)" for us by (rule frames_each)
  then show ?thesis by (simp add: frames_def applySettlementOrderUpdates_def)
qed

lemma frames_openPosition:
  "(\<And>s x. v (s\<lparr>st_positionLifecycle := x\<rparr>) = v s) \<Longrightarrow> frames v (openPosition settlement k opening)"
  by (auto simp: openPosition_def addPositionOpening_def intro!: frames_steps split: option.split)

lemma frames_keepPrivate:
  "(\<And>s x. v (s\<lparr>st_privateMatchIntents := x\<rparr>) = v s) \<Longrightarrow> frames v (keepPrivateMatchIntent h r p)"
  by (auto simp: keepPrivateMatchIntent_def intro!: frames_steps split: option.split)

lemma frames_addResidualOrder:
  assumes "\<And>s x. v (s\<lparr>st_privateMatchIntents := x\<rparr>) = v s" "\<And>s x. v (s\<lparr>st_residualOrders := x\<rparr>) = v s"
    and "\<And>s x. v (s\<lparr>st_orderLifecycle := x\<rparr>) = v s"
  shows "frames v (addResidualOrder h r p)"
  using assms by (auto simp: addResidualOrder_def intro!: frames_steps frames_keepPrivate)

lemma frames_addAccountEvent:
  "(\<And>s x. v (s\<lparr>st_accountEvents := x\<rparr>) = v s) \<Longrightarrow> frames v (addAccountEvent r)"
  by (auto simp: addAccountEvent_def intro!: frames_steps)

lemmas store_frames = frames_spend frames_markPositionClosed frames_markPositionLiquidated
  frames_storePositionClose frames_applySettlementOrderUpdates frames_openPosition frames_keepPrivate
  frames_addResidualOrder frames_addAccountEvent frames_each

lemma settlement_frame: "frames st_settlements (eachA spend ns)"
  "frames st_settlements (applySettlementOrderUpdates now settlement)"
  "frames st_settlements (eachA (openPosition settlement k) openings)"
  "frames st_settlements (eachA (\<lambda>r. addResidualOrder h r (f r)) residuals)"
  "frames st_settlements (eachA addAccountEvent events)"
  by (intro store_frames; simp)+

lemma seqA_cases:
  "seqA m n s = (r, u) \<longleftrightarrow>
     (\<exists>e. m s = (Inl e, u) \<and> r = Inl e) \<or> (\<exists>a t. m s = (Inr a, t) \<and> n t = (r, u))"
  by (auto simp: seqA_def bindA_def split: prod.splits sum.splits)

lemma frames_Inr: "frames v m \<Longrightarrow> m s = (r, t) \<Longrightarrow> v t = v s"
  by (metis framesD snd_conv)


lemma addSettlement_run: "addSettlement h now settledAt b os rs es ps s =
      (if mhas (st_settlements s) (settlementKey b) then (Inl ''batch already settled'', s)
       else if bs_matchTranscriptDigest b = [] then (Inl ''match transcript digest is required'', s)
       else if \<not> hasProof (bs_proof b) s then (Inl ''unverified proof'', s)
       else case validatePositionOpenings b os of Inl e \<Rightarrow> (Inl e, s)
         | Inr _ \<Rightarrow> (case validateResidualOrders b rs of Inl e \<Rightarrow> (Inl e, s)
             | Inr _ \<Rightarrow> applySettlement h now settledAt b os rs es ps s))"
    by (auto simp: addSettlement_def assertProof_def js_simps stepsA.simps(2) [of "applySettlement h now settledAt b os rs es ps"]
        seqA_def bindA_def split: sum.splits prod.splits)

interpretation settlement_registry: insert_once st_settlements
    "\<lambda>(b, os, rs, es, ps). addSettlement h now settledAt b os rs es ps" "\<lambda>(b, _). settlementKey b"
proof -
  let ?add = "addSettlement h now settledAt"
  have body: "st_settlements t = (case r of Inl e \<Rightarrow> st_settlements s
      | Inr _ \<Rightarrow> mset_at (settlementKey b) b (st_settlements s))"
    if "applySettlement h now settledAt b os rs es ps s = (r, t)" for b os rs es ps s r t
    using that
    by (auto simp: applySettlement_def Let_def js_simps stepsA.simps(2) seqA_cases
        dest!: frames_Inr [OF settlement_frame(1)] frames_Inr [OF settlement_frame(2)]
          frames_Inr [OF settlement_frame(3)] frames_Inr [OF settlement_frame(4)]
          frames_Inr [OF settlement_frame(5)])
  show "insert_once st_settlements (\<lambda>(b, os, rs, es, ps). ?add b os rs es ps) (\<lambda>(b, _). settlementKey b)"
    by unfold_locales (auto simp: addSettlement_run split: if_splits sum.splits dest!: body; blast)+
qed

lemma markPositionClosed_run:
  obtains u where "markPositionClosed now r s = (Inr (), s\<lparr>st_positionLifecycle := u\<rparr>)"
proof (cases "findPosition (pcr_positionCommitment r) (pcr_positionNullifier r) s")
  case None
  then show ?thesis by (intro that [of "st_positionLifecycle s"]) (simp add: markPositionClosed_def js_simps)
next
  case (Some p)
  then show ?thesis by (intro that) (simp add: markPositionClosed_def js_simps)
qed

lemma applyPositionClose_run:
  obtains u where "applyPositionClose h now r s = storePositionClose h r (length (st_positionCommitments s))
    (s\<lparr>st_positionCommitments := sadd (pcr_newPositionCommitment r) (st_positionCommitments s),
       st_marginCommitments := sadd (pcr_marginOutputCommitment r) (st_marginCommitments s),
       st_positionLifecycle := u\<rparr>)"
proof -
  let ?s = "s\<lparr>st_positionCommitments := sadd (pcr_newPositionCommitment r) (st_positionCommitments s),
       st_marginCommitments := sadd (pcr_marginOutputCommitment r) (st_marginCommitments s)\<rparr>"
  obtain u where u: "markPositionClosed now r ?s = (Inr (), ?s\<lparr>st_positionLifecycle := u\<rparr>)"
    by (rule markPositionClosed_run)
  have "stepsA [m] t = m t" for m :: "(ProtocolStore, unit) act" and t
    by (simp add: stepsA.simps(2) seqA_def bindA_def js_simps split: prod.split sum.split)
  then show ?thesis
    by (intro that [of u])
      (simp add: applyPositionClose_def Let_def js_simps 
        stepsA.simps(2) [of "markPositionClosed now r"] seqA_step(1) [where m = "markPositionClosed now r", OF u])
qed

lemma applyPositionClose_closes:
  assumes "applyPositionClose h now r s = (res, t)"
  shows "case res of Inl e \<Rightarrow> st_positionCloses t = st_positionCloses s
      | Inr _ \<Rightarrow> \<exists>v. st_positionCloses t = mset_at (pcr_closeCommitment r) v (st_positionCloses s)
          \<and> pcr_positionNullifier v = pcr_positionNullifier r \<and> pcr_proof v = pcr_proof r"
proof -
  obtain u where u: "applyPositionClose h now r s = storePositionClose h r (length (st_positionCommitments s))
    (s\<lparr>st_positionCommitments := sadd (pcr_newPositionCommitment r) (st_positionCommitments s),
       st_marginCommitments := sadd (pcr_marginOutputCommitment r) (st_marginCommitments s),
       st_positionLifecycle := u\<rparr>)" (is "_ = storePositionClose h r ?k ?s")
    by (rule applyPositionClose_run)
  then show ?thesis using assms
    by (cases "positionMembershipRoot h ?s") (auto simp: storePositionClose_def throwA_def intro!: exI)
qed

lemma addPositionCloseRecord_run: "addPositionCloseRecord h now r s =
      (if mhas (st_positionCloses s) (pcr_closeCommitment r) then (Inl ''position close already exists'', s)
       else if \<not> hasProof (pcr_proof r) s then (Inl ''unverified proof'', s)
       else if pcr_positionNullifier r \<in> set (st_spentNullifiers s) then (Inl ''nullifier already spent'', s)
       else applyPositionClose h now r
         (s\<lparr>st_spentNullifiers := sadd (pcr_positionNullifier r) (st_spentNullifiers s)\<rparr>))"
    by (auto simp: addPositionCloseRecord_def assertProof_def js_simps stepsA.simps(2) [of "applyPositionClose h now r"]
        seqA_def bindA_def split: sum.splits prod.splits)

interpretation close_registry: insert_once st_positionCloses "addPositionCloseRecord h now" pcr_closeCommitment
  by unfold_locales
    (auto simp: addPositionCloseRecord_run split: if_splits dest!: applyPositionClose_closes)

end
