(* ===== verification/Store_Invariant.thy ===== *)
theory Store_Invariant
  imports Protocol_Store
begin

text \<open>
  The protocol store as a state machine: one step is one call of a method that changes the store,
  whether it returns or throws, and the invariants hold in every reachable state. \<open>single_spend\<close>:
  every nullifier that a withdrawal, liquidation, position close or settlement has used is spent and
  is used by no other record. \<open>linked\<close>: positions refer to leaves of the position tree and every
  intent and residual order has a lifecycle entry. \<open>proved\<close>: every stored record that carries a
  proof had its proof recorded first.
\<close>

inductive store_step :: "host \<Rightarrow> ProtocolStore \<Rightarrow> ProtocolStore \<Rightarrow> bool" for h where
  record_proof: "store_step h s (snd (recordProof p s))"
| spend_nullifier: "store_step h s (snd (spend n s))"
| add_margin_commitment: "store_step h s (snd (addMarginCommitment c s))"
| add_deposit: "store_step h s (snd (addPendingAssetDeposit d s))"
| finalize_deposit: "store_step h s (snd (finalizePendingAssetDeposit now c relayId tx s))"
| add_market: "store_step h s (snd (addMarket m s))"
| update_market: "store_step h s (snd (updateMarket m s))"
| add_funding: "store_step h s (snd (addFundingUpdate f s))"
| add_samples: "store_step h s (snd (addFundingPremiumSamples fs s))"
| add_job: "store_step h s (snd (addLiquidationAutomationJob j s))"
| update_job: "store_step h s (snd (updateLiquidationAutomationJob j s))"
| add_run: "store_step h s (snd (addBatchExecutionRun r cs s))"
| upsert_run: "store_step h s (snd (upsertBatchExecutionRun r cs s))"
| backfill: "store_step h s (snd (backfillMarketSettlementVolumes s))"
| add_intent: "store_step h s (snd (addIntent h now i p s))"
| update_intent: "store_step h s (snd (updateIntentSubmissionTxHash c tx s))"
| cancel: "store_step h s (snd (cancelOrder now c tx' s))"
| add_residual: "store_step h s (snd (addResidualOrder h r' p s))"
| add_opening: "store_step h s (snd (addPositionOpening o' s))"
| add_settlement: "store_step h s (snd (addSettlement h now now' b os rs es ps s))"
| update_settlement: "store_step h s (snd (updateSettlementTransactions c v w q s))"
| add_event: "store_step h s (snd (addAccountEvent e s))"
| add_liquidation: "store_step h s (snd (addLiquidation now l s))"
| add_conditional_order: "store_step h s (snd (addConditionalOrder co s))"
| add_conditional_close: "store_step h s (snd (addConditionalClose cc s))"
| add_close: "store_step h s (snd (addPositionClose h now pc s))"
| add_manual_close: "store_step h s (snd (addManualPositionClose h now pc s))"
| add_paired_closes: "store_step h s (snd (addPairedPositionCloses h now now' pc pd conditional s))"
| add_disclosure: "store_step h s (snd (addDisclosure d' s))"
| add_withdrawal: "store_step h s (snd (addWithdrawal w' s))"
| upsert_key: "store_step h s (snd (upsertAccountEncryptionKey k s))"

inductive reachable :: "host \<Rightarrow> ProtocolStore \<Rightarrow> bool" for h where
  start: "reachable h new_ProtocolStore"
| step: "reachable h s \<Longrightarrow> store_step h s t \<Longrightarrow> reachable h t"

text \<open>A predicate that the new store has and every method keeps holds wherever the store gets to.\<close>

lemma reachable_invariant:
  assumes "reachable h s" and "P new_ProtocolStore"
    and "\<And>s t. P s \<Longrightarrow> store_step h s t \<Longrightarrow> P t"
  shows "P s"
  using assms(1) by induction (use assms(2,3) in auto)

text \<open>The methods whose effect is a guarded update of their own collections.\<close>

lemmas simple_ops = add_defs recordProof_def finalizePendingAssetDeposit_def updateMarket_def
  addFundingPremiumSamples_def updateLiquidationAutomationJob_def addBatchExecutionRun_def
  upsertBatchExecutionRun_def associateBatchExecutionRun_def backfillMarketSettlementVolumes_def
  addIntent_def updateIntentSubmissionTxHash_def cancelOrder_def addResidualOrder_def
  upsertAccountEncryptionKey_def throwA_def

subsection \<open>No nullifier is used twice\<close>

definition used_nullifiers :: "ProtocolStore \<Rightarrow> Hex list" where
  "used_nullifiers s = mkeys (st_withdrawals s) @ mkeys (st_liquidations s)
     @ map pcr_positionNullifier (mvalues (st_positionCloses s))
     @ concat (map bs_spentNullifiers (mvalues (st_settlements s)))"

definition single_spend :: "ProtocolStore \<Rightarrow> bool" where
  "single_spend s \<longleftrightarrow> distinct (used_nullifiers s) \<and> set (used_nullifiers s) \<subseteq> set (st_spentNullifiers s)
     \<and> distinct (st_spentNullifiers s) \<and> map_ok (st_settlements s)"

lemma mkeys_fresh: "\<not> mhas m k \<Longrightarrow> mkeys (mset_at k v m) = mkeys m @ [k]"
  by (simp add: mset_at_fresh mkeys_def)

lemma mvalues_fresh: "\<not> mhas m k \<Longrightarrow> mvalues (mset_at k v m) = mvalues m @ [v]"
  by (simp add: mset_at_fresh mvalues_def)

lemma map_mvalues_same:
  "map_ok m \<Longrightarrow> (k, v) \<in> set m \<Longrightarrow> f u = f v \<Longrightarrow> map f (mvalues (mset_at k u m)) = map f (mvalues m)"
proof (induction m)
  case (Cons e m)
  obtain a b where e: "e = (a, b)" by fastforce
  show ?case
  proof (cases "a = k")
    case True
    with Cons.prems e have "v = b" by (force simp: map_ok_def mkeys_def)
    with Cons.prems(3) e True show ?thesis by (simp add: mvalues_def mset_at_def)
  next
    case False
    with Cons e have "map f (mvalues (mset_at k u m)) = map f (mvalues m)"
      by (auto simp: map_ok_def mkeys_def)
    with e False show ?thesis by (simp add: mvalues_def mset_at_def)
  qed
qed simp

lemma eachA_spend_Cons: "eachA spend (n # ns) s =
    (if n \<in> set (st_spentNullifiers s) then (Inl ''nullifier already spent'', s)
     else eachA spend ns (s\<lparr>st_spentNullifiers := sadd n (st_spentNullifiers s)\<rparr>))"
  unfolding eachA.simps seqA_def bindA_def spend_run [of n s] by simp

lemma eachA_spend:
  assumes "eachA spend ns s = (res, t)"
  obtains xs where "t = s\<lparr>st_spentNullifiers := xs\<rparr>"
    "set (st_spentNullifiers s) \<subseteq> set xs" "distinct (st_spentNullifiers s) \<Longrightarrow> distinct xs"
    "case res of
       Inr _ \<Rightarrow> distinct ns \<and> set ns \<inter> set (st_spentNullifiers s) = {}
         \<and> set xs = set ns \<union> set (st_spentNullifiers s)
     | Inl e \<Rightarrow> e = ''nullifier already spent''
         \<and> (\<not> distinct ns \<or> set ns \<inter> set (st_spentNullifiers s) \<noteq> {})"
proof -
  have same: "s = s\<lparr>st_spentNullifiers := st_spentNullifiers s\<rparr>" for s :: ProtocolStore by (cases s) simp
  have "\<exists>xs. t = s\<lparr>st_spentNullifiers := xs\<rparr>
      \<and> set (st_spentNullifiers s) \<subseteq> set xs \<and> (distinct (st_spentNullifiers s) \<longrightarrow> distinct xs)
      \<and> (case res of
           Inr _ \<Rightarrow> distinct ns \<and> set ns \<inter> set (st_spentNullifiers s) = {}
             \<and> set xs = set ns \<union> set (st_spentNullifiers s)
         | Inl e \<Rightarrow> e = ''nullifier already spent''
             \<and> (\<not> distinct ns \<or> set ns \<inter> set (st_spentNullifiers s) \<noteq> {}))"
    using assms
  proof (induction ns arbitrary: s)
    case Nil
    then have "res = Inr ()" "t = s" by (simp_all add: returnA_def)
    then show ?case using same [of s] by (intro exI [of _ "st_spentNullifiers s"]) simp
  next
    case (Cons n ns)
    show ?case
    proof (cases "n \<in> set (st_spentNullifiers s)")
      case True
      with Cons.prems have "res = Inl ''nullifier already spent''" "t = s"
        by (simp_all only: eachA_spend_Cons if_True prod.inject)
      then show ?thesis using same [of s] True by (intro exI [of _ "st_spentNullifiers s"]) auto
    next
      case False
      let ?s = "s\<lparr>st_spentNullifiers := sadd n (st_spentNullifiers s)\<rparr>"
      from Cons.prems False have "eachA spend ns ?s = (res, t)"
        by (simp only: eachA_spend_Cons if_False)
      from Cons.IH [OF this] obtain xs where "t = ?s\<lparr>st_spentNullifiers := xs\<rparr>"
        and xs: "set (st_spentNullifiers ?s) \<subseteq> set xs"
          "distinct (st_spentNullifiers ?s) \<longrightarrow> distinct xs"
          "case res of
             Inr _ \<Rightarrow> distinct ns \<and> set ns \<inter> set (st_spentNullifiers ?s) = {}
               \<and> set xs = set ns \<union> set (st_spentNullifiers ?s)
           | Inl e \<Rightarrow> e = ''nullifier already spent''
               \<and> (\<not> distinct ns \<or> set ns \<inter> set (st_spentNullifiers ?s) \<noteq> {})"
        by blast
      then have "t = s\<lparr>st_spentNullifiers := xs\<rparr>" by simp
      then show ?thesis using xs False by (intro exI [of _ xs]) (auto split: sum.splits)
    qed
  qed
  then show ?thesis using that by blast
qed

definition spend_view :: "ProtocolStore \<Rightarrow> _" where
  "spend_view s = (st_withdrawals s, st_liquidations s, st_positionCloses s, st_settlements s,
     st_spentNullifiers s)"

lemma single_spend_view: "spend_view t = spend_view s \<Longrightarrow> single_spend t = single_spend s"
proof -
  assume "spend_view t = spend_view s"
  then have eqs: "st_withdrawals t = st_withdrawals s" "st_liquidations t = st_liquidations s"
    "st_positionCloses t = st_positionCloses s" "st_settlements t = st_settlements s"
    "st_spentNullifiers t = st_spentNullifiers s" by (simp_all add: spend_view_def)
  show ?thesis by (simp only: single_spend_def used_nullifiers_def eqs)
qed

lemma frames_single_spend: "frames spend_view m \<Longrightarrow> single_spend s \<Longrightarrow> single_spend (snd (m s))"
  using single_spend_view [OF framesD [of spend_view m s]] by simp

lemma spend_frames:
  "frames spend_view (applySettlementOrderUpdates now settlement)"
  "frames spend_view (eachA (openPosition settlement k) openings)"
  "frames spend_view (eachA (\<lambda>r. addResidualOrder h r (f r)) residuals)"
  "frames spend_view (eachA addAccountEvent events)"
  by (intro store_frames; simp add: spend_view_def)+

text \<open>The state in which \<open>addSettlement\<close> starts to spend.\<close>

definition settlement_leaves :: "BatchSettlement \<Rightarrow> ProtocolStore \<Rightarrow> ProtocolStore" where
  "settlement_leaves b s = s\<lparr>
     st_positionCommitments := fold sadd (bs_newCommitments b) (st_positionCommitments s),
     st_marginCommitments := fold sadd (case bs_marginChangeCommitments b of Some cs \<Rightarrow> cs | None \<Rightarrow> [])
       (st_marginCommitments s)\<rparr>"

lemma applySettlement_elim:
  assumes "applySettlement h now now' b os rs es ps s = (res, t)"
  obtains (spent) e where "eachA spend (bs_spentNullifiers b) (settlement_leaves b s) = (Inl e, t)" "res = Inl e"
  | (thrown) e u where "eachA spend (bs_spentNullifiers b) (settlement_leaves b s) = (Inr (), u)"
      "res = Inl e" "spend_view t = spend_view u"
  | (stored) u where "eachA spend (bs_spentNullifiers b) (settlement_leaves b s) = (Inr (), u)" "res = Inr ()"
      "spend_view t = (st_withdrawals u, st_liquidations u, st_positionCloses u,
         mset_at (settlementKey b) b (st_settlements u), st_spentNullifiers u)"
proof -
  let ?f = "\<lambda>r. mget (map_new (map (\<lambda>p. (pmi_intentCommitment p, p)) ps)) (ror_intentCommitment r)"
  obtain r1 u where u: "eachA spend (bs_spentNullifiers b) (settlement_leaves b s) = (r1, u)" by fastforce
  define rest :: "(ProtocolStore, unit) act" where "rest = stepsA
    [applySettlementOrderUpdates now b, eachA (openPosition b (length (st_positionCommitments s))) os,
     eachA (\<lambda>r. addResidualOrder h r (?f r)) rs, eachA addAccountEvent es]"
  define store :: "(ProtocolStore, unit) act" where "store = stepsA
    [modifyA (\<lambda>s. s\<lparr>st_settlements := mset_at (settlementKey b) b (st_settlements s)\<rparr>),
     modifyA (\<lambda>s. s\<lparr>st_marketSettlementVolumes := mset_at (bs_settlementDigest b)
       \<lparr>msv_marketId = bs_marketId b, msv_matchedVolume = bs_aggregateVolume b sdiv 2,
        msv_settledAt = now', msv_settlementDigest = bs_settlementDigest b\<rparr>
       (st_marketSettlementVolumes s)\<rparr>)]"
  have run: "applySettlement h now now' b os rs es ps s =
      seqA (eachA spend (bs_spentNullifiers b)) (seqA rest store) (settlement_leaves b s)"
    unfolding rest_def store_def stepsA_append [symmetric]
    by (simp add: applySettlement_def Let_def js_simps settlement_leaves_def stepsA.simps(2))
  note main = assms [unfolded run]
  have frame: "frames spend_view rest"
    unfolding rest_def by (rule frames_steps) (auto intro: spend_frames)
  show ?thesis
  proof (cases r1)
    case (Inl e)
    with u main show ?thesis by (intro spent [of e]) (simp_all add: seqA_cases)
  next
    case (Inr x)
    with u main have w: "seqA rest store u = (res, t)" by (simp add: seqA_cases)
    obtain r2 w' where w': "rest u = (r2, w')" by fastforce
    with frame have v: "spend_view w' = spend_view u" by (metis framesD snd_conv)
    show ?thesis
    proof (cases r2)
      case (Inl e)
      with w w' v u Inr show ?thesis by (intro thrown [of u e]) (simp_all add: seqA_cases)
    next
      case r2: (Inr y)
      with w w' have "store w' = (res, t)" by (simp add: seqA_cases)
      then show ?thesis using v u Inr
        by (intro stored [of u]) (auto simp: store_def js_simps spend_view_def)
    qed
  qed
qed

lemma addSettlement_single_spend:
  assumes "single_spend s"
  shows "single_spend (snd (addSettlement h now now' b os rs es ps s))"
proof -
  obtain res t where app: "applySettlement h now now' b os rs es ps s = (res, t)" by fastforce
  have leaves: "spend_view (settlement_leaves b s) = spend_view s"
    by (simp add: spend_view_def settlement_leaves_def)
  then have start: "single_spend (settlement_leaves b s)" using assms single_spend_view by blast
  have "single_spend t" if fresh: "\<not> mhas (st_settlements s) (settlementKey b)"
    using app
  proof (cases rule: applySettlement_elim)
    case (spent e)
    show ?thesis
      by (rule eachA_spend [OF spent(1)]) (use start in \<open>auto simp: single_spend_def used_nullifiers_def\<close>)
  next
    case (thrown e u)
    have "single_spend u"
      by (rule eachA_spend [OF thrown(1)]) (use start in \<open>auto simp: single_spend_def used_nullifiers_def\<close>)
    then show ?thesis using single_spend_view thrown by blast
  next
    case (stored u)
    from stored(1) obtain xs where u: "u = settlement_leaves b s\<lparr>st_spentNullifiers := xs\<rparr>"
      and xs: "distinct (bs_spentNullifiers b)" "set (bs_spentNullifiers b) \<inter> set (st_spentNullifiers s) = {}"
        "set xs = set (bs_spentNullifiers b) \<union> set (st_spentNullifiers s)" "distinct xs"
      using start by (auto elim!: eachA_spend simp: single_spend_def settlement_leaves_def)
    have "st_settlements t = st_settlements s @ [(settlementKey b, b)]"
      "st_withdrawals t = st_withdrawals s" "st_liquidations t = st_liquidations s"
      "st_positionCloses t = st_positionCloses s" "st_spentNullifiers t = xs"
      using stored(3) fresh by (simp_all add: spend_view_def u settlement_leaves_def mset_at_fresh)
    then show ?thesis
      using assms xs map_ok_set [of "st_settlements s" "settlementKey b" b] fresh
      by (auto simp: single_spend_def used_nullifiers_def mvalues_def mset_at_fresh)
  qed
  then show ?thesis using assms app by (auto simp: addSettlement_run split: sum.splits)
qed

lemma addPositionCloseRecord_single_spend:
  assumes "single_spend s"
  shows "single_spend (snd (addPositionCloseRecord h now r s))"
proof -
  let ?n = "pcr_positionNullifier r"
  let ?s = "s\<lparr>st_spentNullifiers := sadd ?n (st_spentNullifiers s)\<rparr>"
  have "single_spend (snd (applyPositionClose h now r ?s))"
    if fresh: "\<not> mhas (st_positionCloses s) (pcr_closeCommitment r)" "?n \<notin> set (st_spentNullifiers s)"
  proof (rule applyPositionClose_run [of h now r ?s])
    fix u
    let ?u = "?s\<lparr>st_positionCommitments := sadd (pcr_newPositionCommitment r) (st_positionCommitments ?s),
       st_marginCommitments := sadd (pcr_marginOutputCommitment r) (st_marginCommitments ?s),
       st_positionLifecycle := u\<rparr>"
    assume run: "applyPositionClose h now r ?s = storePositionClose h r (length (st_positionCommitments ?s)) ?u"
    show ?thesis
      using assms fresh unfolding run
      by (cases "positionMembershipRoot h ?u")
        (auto simp: storePositionClose_def throwA_def single_spend_def used_nullifiers_def mvalues_fresh
          sadd_fresh)
  qed
  then show ?thesis using assms by (auto simp: addPositionCloseRecord_run)
qed

lemma addLiquidation_single_spend:
  assumes "single_spend s"
  shows "single_spend (snd (addLiquidation now r s))"
proof -
  have "used_nullifiers s = xs \<Longrightarrow> lr_positionNullifier r \<notin> set (st_spentNullifiers s) \<Longrightarrow>
      lr_positionNullifier r \<notin> set xs" for xs
    using assms by (auto simp: single_spend_def)
  then show ?thesis
    using assms
    by (auto simp: addLiquidation_def assertProof_def markPositionLiquidated_def js_simps single_spend_def
        used_nullifiers_def mkeys_fresh sadd_fresh split: option.splits)
qed

lemma addWithdrawal_single_spend:
  "single_spend s \<Longrightarrow> single_spend (snd (addWithdrawal r s))"
  by (auto simp: addWithdrawal_def assertProof_def js_simps single_spend_def used_nullifiers_def mkeys_fresh
      sadd_fresh)

lemma addPaired_single_spend:
  "single_spend s \<Longrightarrow> single_spend (snd (addPairedPositionCloses h now now' r q c s))"
proof -
  have "keeps single_spend (addPairedPositionCloses h now now' r q c)"
    unfolding addPairedPositionCloses_def
    by (rule keeps_steps) (auto simp: assertProof_def intro: keepsI addPositionCloseRecord_single_spend)
  then show "single_spend s \<Longrightarrow> ?thesis" by (rule keepsD)
qed

lemma addPositionClose_single_spend:
  "single_spend s \<Longrightarrow> single_spend (snd (addPositionClose h now r s))"
proof -
  have "keeps single_spend (addPositionClose h now r)"
    unfolding addPositionClose_def
    by (rule keeps_steps) (auto intro: keepsI addPositionCloseRecord_single_spend)
  then show "single_spend s \<Longrightarrow> ?thesis" by (rule keepsD)
qed

lemma find_Some_in: "find P xs = Some x \<Longrightarrow> x \<in> set xs \<and> P x"
  by (induction xs) (auto split: if_splits)

lemma updateSettlement_cases:
  obtains e where "updateSettlementTransactions d v w q s = (Inl e, s)"
  | k b b' where "updateSettlementTransactions d v w q s =
        (Inr b', s\<lparr>st_settlements := mset_at k b' (st_settlements s)\<rparr>)" "(k, b) \<in> set (st_settlements s)"
      "bs_spentNullifiers b' = bs_spentNullifiers b" "proofKey (bs_proof b') = proofKey (bs_proof b)"
      "bs_settlementDigest b' = bs_settlementDigest b" "settlementKey b' = settlementKey b"
proof (cases "find (\<lambda>(_, settlement). bs_settlementDigest settlement = d) (st_settlements s)")
  case None
  then show ?thesis by (intro that(1)) (simp add: updateSettlementTransactions_def throwA_def)
next
  case (Some kb)
  obtain k b where kb: "kb = (k, b)" by fastforce
  with find_Some_in [OF Some] have "(k, b) \<in> set (st_settlements s)" by simp
  define hashed where "hashed = b\<lparr>
    bs_proofVerificationTxHash := spread (bs_proofVerificationTxHash b) v,
    bs_settlementTxHash := spread (bs_settlementTxHash b) w\<rparr>"
  define b' where "b' = (if truthy_str q
    then hashed\<lparr>bs_proof := (bs_proof b)\<lparr>pm_boundlessRequestId := q\<rparr>\<rparr> else hashed)"
  show ?thesis
  proof (rule that(2))
    show "updateSettlementTransactions d v w q s = (Inr b', s\<lparr>st_settlements := mset_at k b' (st_settlements s)\<rparr>)"
      using Some kb by (simp add: updateSettlementTransactions_def Let_def b'_def hashed_def)
    show "(k, b) \<in> set (st_settlements s)" by fact
  qed (simp_all add: b'_def hashed_def proofKey_def settlementKey_def)
qed

lemma updateSettlement_single_spend:
  assumes "single_spend s"
  shows "single_spend (snd (updateSettlementTransactions d v w q s))"
proof (rule updateSettlement_cases [of d v w q s])
  fix k b b'
  assume "updateSettlementTransactions d v w q s = (Inr b', s\<lparr>st_settlements := mset_at k b' (st_settlements s)\<rparr>)"
    "(k, b) \<in> set (st_settlements s)" "bs_spentNullifiers b' = bs_spentNullifiers b"
  then show ?thesis
    using assms map_mvalues_same [of "st_settlements s" k b bs_spentNullifiers b']
    by (simp add: single_spend_def used_nullifiers_def)
qed (use assms in simp)

lemma spend_view_simple:
  "spend_view (snd (recordProof p s)) = spend_view s"
  "spend_view (snd (addMarginCommitment c s)) = spend_view s"
  "spend_view (snd (addPendingAssetDeposit d s)) = spend_view s"
  "spend_view (snd (finalizePendingAssetDeposit now c relayId tx s)) = spend_view s"
  "spend_view (snd (addMarket m s)) = spend_view s"
  "spend_view (snd (updateMarket m s)) = spend_view s"
  "spend_view (snd (addFundingUpdate f s)) = spend_view s"
  "spend_view (snd (addFundingPremiumSamples fs s)) = spend_view s"
  "spend_view (snd (addLiquidationAutomationJob j s)) = spend_view s"
  "spend_view (snd (updateLiquidationAutomationJob j s)) = spend_view s"
  "spend_view (snd (addBatchExecutionRun r cs s)) = spend_view s"
  "spend_view (snd (upsertBatchExecutionRun r cs s)) = spend_view s"
  "spend_view (snd (backfillMarketSettlementVolumes s)) = spend_view s"
  "spend_view (snd (addIntent h now i pr s)) = spend_view s"
  "spend_view (snd (updateIntentSubmissionTxHash c tx2 s)) = spend_view s"
  "spend_view (snd (cancelOrder now c tx s)) = spend_view s"
  "spend_view (snd (addResidualOrder h r' pr s)) = spend_view s"
  "spend_view (snd (addPositionOpening o' s)) = spend_view s"
  "spend_view (snd (addAccountEvent e s)) = spend_view s"
  "spend_view (snd (addConditionalOrder co s)) = spend_view s"
  "spend_view (snd (addConditionalClose cc s)) = spend_view s"
  "spend_view (snd (addDisclosure d' s)) = spend_view s"
  "spend_view (snd (upsertAccountEncryptionKey k s)) = spend_view s"
  by (simp_all add: simple_ops js_simps keepPrivateMatchIntent_run spend_view_def Let_def
      split: option.splits sum.splits)

lemma single_spend_step:
  assumes "single_spend s" and "store_step h s t"
  shows "single_spend t"
  using assms(2)
proof cases
  case (spend_nullifier n)
  then show ?thesis using assms(1) by (auto simp: spend_run single_spend_def used_nullifiers_def)
qed (use assms(1) in \<open>simp_all add: addSettlement_single_spend addLiquidation_single_spend
  addWithdrawal_single_spend addPaired_single_spend addPositionClose_single_spend
  addPositionCloseRecord_single_spend updateSettlement_single_spend addManualPositionClose_def
  spend_view_simple [THEN single_spend_view]\<close>)

subsection \<open>References\<close>

definition linked :: "ProtocolStore \<Rightarrow> bool" where
  "linked s \<longleftrightarrow>
     (\<forall>c p. mget (st_positionLifecycle s) c = Some p \<longrightarrow>
        plr_positionCommitment p = c \<and> c \<in> set (st_positionCommitments s))
     \<and> (\<forall>c. mhas (st_intents s) c \<or> mhas (st_residualOrders s) c \<longrightarrow> mhas (st_orderLifecycle s) c)
     \<and> (\<forall>c r. mget (st_intents s) c = Some r \<longrightarrow> ir_intentCommitment r = c)
     \<and> (\<forall>c r. mget (st_residualOrders s) c = Some r \<longrightarrow> ror_intentCommitment r = c)
     \<and> (\<forall>c r. mget (st_orderLifecycle s) c = Some r \<longrightarrow> olr_intentCommitment r = c)
     \<and> map_ok (st_positionLifecycle s)
     \<and> distinct (st_positionCommitments s) \<and> distinct (st_marginCommitments s)"

definition link_view :: "ProtocolStore \<Rightarrow> _" where
  "link_view s = (st_positionLifecycle s, st_positionCommitments s, st_marginCommitments s, st_intents s,
     st_residualOrders s, st_orderLifecycle s)"

lemma linked_view: "link_view t = link_view s \<Longrightarrow> linked t = linked s"
proof -
  assume "link_view t = link_view s"
  then have eqs: "st_positionLifecycle t = st_positionLifecycle s"
    "st_positionCommitments t = st_positionCommitments s" "st_marginCommitments t = st_marginCommitments s"
    "st_intents t = st_intents s" "st_residualOrders t = st_residualOrders s"
    "st_orderLifecycle t = st_orderLifecycle s" by (simp_all add: link_view_def)
  show ?thesis by (simp only: linked_def eqs)
qed

lemma keeps_linked_frame: "frames link_view m \<Longrightarrow> keeps linked m"
  using linked_view [OF framesD [of link_view m]] by (intro keepsI) simp

lemma findPosition_linked:
  assumes "linked s" "findPosition c n s = Some p"
  shows "mget (st_positionLifecycle s) (plr_positionCommitment p) = Some p"
proof (cases "mget (st_positionLifecycle s) c")
  case (Some q)
  with assms show ?thesis by (auto simp: findPosition_def linked_def)
next
  case None
  with assms(2) have "find (\<lambda>position. plr_positionNullifier position = n) (mvalues (st_positionLifecycle s)) = Some p"
    by (simp add: findPosition_def)
  then obtain k where "(k, p) \<in> set (st_positionLifecycle s)"
    using find_Some_in by (fastforce simp: in_mvalues)
  moreover have "map_ok (st_positionLifecycle s)" using assms(1) by (simp add: linked_def)
  ultimately have "mget (st_positionLifecycle s) k = Some p" by (simp add: mget_iff_in)
  with assms(1) show ?thesis by (auto simp: linked_def)
qed

lemma linked_position_update:
  assumes "linked s" "mget (st_positionLifecycle s) c = Some p" "plr_positionCommitment q = c"
  shows "linked (s\<lparr>st_positionLifecycle := mset_at c q (st_positionLifecycle s)\<rparr>)"
  using assms by (auto simp: linked_def)

lemma linked_marks:
  "keeps linked (markPositionClosed now r)" "keeps linked (markPositionLiquidated now l)"
  unfolding markPositionClosed_def markPositionLiquidated_def
  by (auto intro!: keeps_modify linked_position_update findPosition_linked split: option.splits)

lemma linked_upd [simp]:
  "linked (s\<lparr>st_spentNullifiers := x0\<rparr>) = linked s"
  "linked (s\<lparr>st_markets := x1\<rparr>) = linked s"
  "linked (s\<lparr>st_settlements := x2\<rparr>) = linked s"
  "linked (s\<lparr>st_marketSettlementVolumes := x3\<rparr>) = linked s"
  "linked (s\<lparr>st_liquidations := x4\<rparr>) = linked s"
  "linked (s\<lparr>st_conditionalOrders := x5\<rparr>) = linked s"
  "linked (s\<lparr>st_conditionalCloses := x6\<rparr>) = linked s"
  "linked (s\<lparr>st_positionCloses := x7\<rparr>) = linked s"
  "linked (s\<lparr>st_disclosures := x8\<rparr>) = linked s"
  "linked (s\<lparr>st_fundingUpdates := x9\<rparr>) = linked s"
  "linked (s\<lparr>st_fundingPremiumSamples := x10\<rparr>) = linked s"
  "linked (s\<lparr>st_liquidationAutomationJobs := x11\<rparr>) = linked s"
  "linked (s\<lparr>st_batchExecutionRuns := x12\<rparr>) = linked s"
  "linked (s\<lparr>st_withdrawals := x13\<rparr>) = linked s"
  "linked (s\<lparr>st_accountEvents := x14\<rparr>) = linked s"
  "linked (s\<lparr>st_accountEncryptionKeys := x15\<rparr>) = linked s"
  "linked (s\<lparr>st_pendingAssetDeposits := x16\<rparr>) = linked s"
  "linked (s\<lparr>st_privateMatchIntents := x17\<rparr>) = linked s"
  "linked (s\<lparr>st_proofs := x18\<rparr>) = linked s"
  by (simp_all add: linked_def)

lemma linked_leaves [simp]:
  "linked s \<Longrightarrow> linked (s\<lparr>st_positionCommitments := sadd c (st_positionCommitments s)\<rparr>)"
  "linked s \<Longrightarrow> linked (s\<lparr>st_positionCommitments := fold sadd cs (st_positionCommitments s)\<rparr>)"
  "linked s \<Longrightarrow> linked (s\<lparr>st_marginCommitments := sadd c (st_marginCommitments s)\<rparr>)"
  "linked s \<Longrightarrow> linked (s\<lparr>st_marginCommitments := fold sadd cs (st_marginCommitments s)\<rparr>)"
  by (auto simp: linked_def set_fold_sadd distinct_fold_sadd)

lemma linked_order:
  "linked s \<Longrightarrow> olr_intentCommitment r = c \<Longrightarrow>
     linked (s\<lparr>st_orderLifecycle := mset_at c r (st_orderLifecycle s)\<rparr>)"
  by (auto simp: linked_def)

lemma linked_applyOrderUpdate: "keeps linked (applyOrderUpdate now u)"
  by (rule keepsI)
    (auto simp: applyOrderUpdate_def Let_def throwA_def intro!: linked_order split: option.split prod.split)

lemma linked_applySettlementOrderUpdates: "keeps linked (applySettlementOrderUpdates now b)"
proof (rule keepsI)
  fix s assume "linked s"
  then show "linked (snd (applySettlementOrderUpdates now b s))"
    unfolding applySettlementOrderUpdates_def
    by (rule keepsD [OF keeps_each [OF linked_applyOrderUpdate]])
qed

lemma linked_addPositionOpening: "keeps linked (addPositionOpening r)"
  by (rule keepsI) (auto simp: addPositionOpening_def js_simps linked_def)

lemma linked_openPosition: "keeps linked (openPosition b k r)"
  by (auto simp: openPosition_def linked_addPositionOpening split: option.split)

lemma linked_addResidualOrder: "keeps linked (addResidualOrder h r p)"
  by (rule keepsI)
    (auto simp: addResidualOrder_def js_simps keepPrivateMatchIntent_run open_order_def linked_def
      split: option.split sum.split)

lemma linked_addIntent: "keeps linked (addIntent h now r p)"
  by (rule keepsI)
    (auto simp: addIntent_def js_simps keepPrivateMatchIntent_run assertProof_def open_order_def linked_def
      split: option.split sum.split)

lemma linked_spend: "keeps linked (spend n)"
  by (rule keeps_linked_frame, rule frames_spend) (simp add: link_view_def)

lemma linked_addAccountEvent: "keeps linked (addAccountEvent e)"
  by (rule keeps_linked_frame, rule frames_addAccountEvent) (simp add: link_view_def)

lemma linked_associate:
  "linked s \<Longrightarrow> linked (s\<lparr>st_orderLifecycle := fold (associateOrder run) cs (st_orderLifecycle s)\<rparr>)"
proof -
  define good where "good m \<longleftrightarrow> (\<forall>c. mhas (st_intents s) c \<or> mhas (st_residualOrders s) c \<longrightarrow> mhas m c)
      \<and> (\<forall>c r. mget m c = Some r \<longrightarrow> olr_intentCommitment r = c)"
    for m :: "(Hex, OrderLifecycleRecord) jsmap"
  have "good (associateOrder run c m)" if "good m" for c m
    using that by (auto simp: good_def associateOrder_def split: option.split)
  then have fold: "good m \<Longrightarrow> good (fold (associateOrder run) cs m)" for m
    by (induction cs arbitrary: m) auto
  assume s: "linked s"
  then have "good (st_orderLifecycle s)" by (simp add: linked_def good_def)
  from fold [OF this] s show ?thesis by (simp add: linked_def good_def)
qed

lemma linked_settlement: "keeps linked (addSettlement h now now' b os rs es ps)"
proof -
  let ?f = "\<lambda>r. mget (map_new (map (\<lambda>p. (pmi_intentCommitment p, p)) ps)) (ror_intentCommitment r)"
  have "linked (snd (applySettlement h now now' b os rs es ps s))" if "linked s" for s
    unfolding applySettlement_def Let_def
  proof (rule keepsD [where P = linked, OF _ that], rule keeps_steps)
    fix m assume "m \<in> set
      [modifyA (\<lambda>s. s\<lparr>st_positionCommitments := fold sadd (bs_newCommitments b) (st_positionCommitments s)\<rparr>),
       modifyA (\<lambda>s. s\<lparr>st_marginCommitments := fold sadd
         (case bs_marginChangeCommitments b of Some cs \<Rightarrow> cs | None \<Rightarrow> []) (st_marginCommitments s)\<rparr>),
       eachA spend (bs_spentNullifiers b), applySettlementOrderUpdates now b,
       eachA (openPosition b (length (st_positionCommitments s))) os,
       eachA (\<lambda>r. addResidualOrder h r (?f r)) rs, eachA addAccountEvent es,
       modifyA (\<lambda>s. s\<lparr>st_settlements := mset_at (settlementKey b) b (st_settlements s)\<rparr>),
       modifyA (\<lambda>s. s\<lparr>st_marketSettlementVolumes := mset_at (bs_settlementDigest b)
         \<lparr>msv_marketId = bs_marketId b, msv_matchedVolume = bs_aggregateVolume b sdiv 2,
          msv_settledAt = now', msv_settlementDigest = bs_settlementDigest b\<rparr>
         (st_marketSettlementVolumes s)\<rparr>)]"
    then show "keeps linked m"
      by (auto simp: linked_spend linked_applySettlementOrderUpdates linked_openPosition
          linked_addResidualOrder linked_addAccountEvent intro!: keeps_modify keeps_each)
  qed
  then have "keeps linked (applySettlement h now now' b os rs es ps)" by (rule keepsI)
  then show ?thesis
    unfolding addSettlement_def by (intro keeps_steps) (auto simp: assertProof_def)
qed

lemma linked_storePositionClose: "keeps linked (storePositionClose h r k)"
  by (rule keeps_linked_frame, rule frames_storePositionClose) (simp add: link_view_def)

lemma linked_closeRecord: "keeps linked (addPositionCloseRecord h now r)"
proof -
  have "linked (snd (applyPositionClose h now r s))" if "linked s" for s
    unfolding applyPositionClose_def Let_def
    by (rule keepsD [where P = linked, OF _ that], rule keeps_steps)
      (auto simp: linked_marks linked_storePositionClose intro!: keeps_modify)
  then have "keeps linked (applyPositionClose h now r)" by (rule keepsI)
  then show ?thesis
    unfolding addPositionCloseRecord_def
    by (intro keeps_steps) (auto simp: assertProof_def linked_spend)
qed

lemma link_view_simple:
  "link_view (snd (recordProof p s)) = link_view s"
  "link_view (snd (spend n s)) = link_view s"
  "link_view (snd (addPendingAssetDeposit d s)) = link_view s"
  "link_view (snd (finalizePendingAssetDeposit now c relayId tx s)) = link_view s"
  "link_view (snd (addMarket m s)) = link_view s"
  "link_view (snd (updateMarket m s)) = link_view s"
  "link_view (snd (addFundingUpdate f s)) = link_view s"
  "link_view (snd (addFundingPremiumSamples fs s)) = link_view s"
  "link_view (snd (addLiquidationAutomationJob j s)) = link_view s"
  "link_view (snd (updateLiquidationAutomationJob j s)) = link_view s"
  "link_view (snd (backfillMarketSettlementVolumes s)) = link_view s"
  "link_view (snd (updateSettlementTransactions dg v w q s)) = link_view s"
  "link_view (snd (addAccountEvent e s)) = link_view s"
  "link_view (snd (addConditionalOrder co s)) = link_view s"
  "link_view (snd (addConditionalClose cc s)) = link_view s"
  "link_view (snd (addDisclosure d' s)) = link_view s"
  "link_view (snd (upsertAccountEncryptionKey k s)) = link_view s"
  by (simp_all add: simple_ops js_simps link_view_def Let_def spend_run updateSettlementTransactions_def
      split: option.splits)

lemma linked_associateRun: "keeps linked (associateBatchExecutionRun r cs)"
  unfolding associateBatchExecutionRun_def by (rule keeps_modify) (rule linked_associate)

lemma linked_rest:
  "keeps linked (addMarginCommitment c)" "keeps linked (addBatchExecutionRun r cs)"
  "keeps linked (upsertBatchExecutionRun r cs)" "keeps linked (addWithdrawal w)"
  "keeps linked (addLiquidation now l)" "keeps linked (addPositionClose h now pc)"
  "keeps linked (addPairedPositionCloses h now now' pc pd b)"
  unfolding addMarginCommitment_def addBatchExecutionRun_def upsertBatchExecutionRun_def addWithdrawal_def
    addLiquidation_def addPositionClose_def addPairedPositionCloses_def assertProof_def
  by (rule keeps_steps;
      auto simp: linked_associateRun linked_spend linked_marks linked_closeRecord intro!: keeps_modify)+

lemma linked_orders:
  "keeps linked (cancelOrder now c tx)" "keeps linked (updateIntentSubmissionTxHash c tx2)"
  by (rule keepsI; auto simp: cancelOrder_def updateIntentSubmissionTxHash_def throwA_def Let_def linked_def
      dest: mget_mhas split: option.split)+

lemma linked_step:
  assumes "linked s" and "store_step h s t"
  shows "linked t"
  using assms(2)
  by cases (use assms(1) in \<open>simp_all add: keepsD [OF linked_rest(1)] keepsD [OF linked_rest(2)]
    keepsD [OF linked_rest(3)] keepsD [OF linked_rest(4)] keepsD [OF linked_rest(5)]
    keepsD [OF linked_rest(6)] keepsD [OF linked_rest(7)] keepsD [OF linked_orders(1)]
    keepsD [OF linked_orders(2)] keepsD [OF linked_settlement] keepsD [OF linked_closeRecord]
    keepsD [OF linked_addIntent] keepsD [OF linked_addResidualOrder] keepsD [OF linked_addPositionOpening]
    addManualPositionClose_def link_view_simple [THEN linked_view]\<close>)

subsection \<open>Proofs\<close>

definition proved :: "ProtocolStore \<Rightarrow> bool" where
  "proved s \<longleftrightarrow>
     (\<forall>r\<in>set (mvalues (st_intents s)). hasProof (ir_proof r) s)
     \<and> (\<forall>r\<in>set (mvalues (st_settlements s)). hasProof (bs_proof r) s)
     \<and> (\<forall>r\<in>set (mvalues (st_liquidations s)). hasProof (lr_proof r) s)
     \<and> (\<forall>r\<in>set (mvalues (st_conditionalCloses s)). hasProof (cor_proof r) s)
     \<and> (\<forall>r\<in>set (mvalues (st_positionCloses s)). hasProof (pcr_proof r) s)
     \<and> (\<forall>r\<in>set (mvalues (st_disclosures s)). hasProof (dr_proof r) s)
     \<and> (\<forall>r\<in>set (mvalues (st_withdrawals s)). hasProof (wr_proof r) s)"

lemma hasProof_upd [simp]:
  "hasProof q (s\<lparr>st_marginCommitments := x0\<rparr>) = hasProof q s"
  "hasProof q (s\<lparr>st_positionCommitments := x1\<rparr>) = hasProof q s"
  "hasProof q (s\<lparr>st_spentNullifiers := x2\<rparr>) = hasProof q s"
  "hasProof q (s\<lparr>st_intents := x3\<rparr>) = hasProof q s"
  "hasProof q (s\<lparr>st_residualOrders := x4\<rparr>) = hasProof q s"
  "hasProof q (s\<lparr>st_orderLifecycle := x5\<rparr>) = hasProof q s"
  "hasProof q (s\<lparr>st_positionLifecycle := x6\<rparr>) = hasProof q s"
  "hasProof q (s\<lparr>st_markets := x7\<rparr>) = hasProof q s"
  "hasProof q (s\<lparr>st_settlements := x8\<rparr>) = hasProof q s"
  "hasProof q (s\<lparr>st_marketSettlementVolumes := x9\<rparr>) = hasProof q s"
  "hasProof q (s\<lparr>st_liquidations := x10\<rparr>) = hasProof q s"
  "hasProof q (s\<lparr>st_conditionalOrders := x11\<rparr>) = hasProof q s"
  "hasProof q (s\<lparr>st_conditionalCloses := x12\<rparr>) = hasProof q s"
  "hasProof q (s\<lparr>st_positionCloses := x13\<rparr>) = hasProof q s"
  "hasProof q (s\<lparr>st_disclosures := x14\<rparr>) = hasProof q s"
  "hasProof q (s\<lparr>st_fundingUpdates := x15\<rparr>) = hasProof q s"
  "hasProof q (s\<lparr>st_fundingPremiumSamples := x16\<rparr>) = hasProof q s"
  "hasProof q (s\<lparr>st_liquidationAutomationJobs := x17\<rparr>) = hasProof q s"
  "hasProof q (s\<lparr>st_batchExecutionRuns := x18\<rparr>) = hasProof q s"
  "hasProof q (s\<lparr>st_withdrawals := x19\<rparr>) = hasProof q s"
  "hasProof q (s\<lparr>st_accountEvents := x20\<rparr>) = hasProof q s"
  "hasProof q (s\<lparr>st_accountEncryptionKeys := x21\<rparr>) = hasProof q s"
  "hasProof q (s\<lparr>st_pendingAssetDeposits := x22\<rparr>) = hasProof q s"
  "hasProof q (s\<lparr>st_privateMatchIntents := x23\<rparr>) = hasProof q s"
  by (simp_all add: hasProof_def)

lemma proved_upd [simp]:
  "proved (s\<lparr>st_marginCommitments := x0\<rparr>) = proved s"
  "proved (s\<lparr>st_positionCommitments := x1\<rparr>) = proved s"
  "proved (s\<lparr>st_spentNullifiers := x2\<rparr>) = proved s"
  "proved (s\<lparr>st_residualOrders := x3\<rparr>) = proved s"
  "proved (s\<lparr>st_orderLifecycle := x4\<rparr>) = proved s"
  "proved (s\<lparr>st_positionLifecycle := x5\<rparr>) = proved s"
  "proved (s\<lparr>st_markets := x6\<rparr>) = proved s"
  "proved (s\<lparr>st_marketSettlementVolumes := x7\<rparr>) = proved s"
  "proved (s\<lparr>st_conditionalOrders := x8\<rparr>) = proved s"
  "proved (s\<lparr>st_fundingUpdates := x9\<rparr>) = proved s"
  "proved (s\<lparr>st_fundingPremiumSamples := x10\<rparr>) = proved s"
  "proved (s\<lparr>st_liquidationAutomationJobs := x11\<rparr>) = proved s"
  "proved (s\<lparr>st_batchExecutionRuns := x12\<rparr>) = proved s"
  "proved (s\<lparr>st_accountEvents := x13\<rparr>) = proved s"
  "proved (s\<lparr>st_accountEncryptionKeys := x14\<rparr>) = proved s"
  "proved (s\<lparr>st_pendingAssetDeposits := x15\<rparr>) = proved s"
  "proved (s\<lparr>st_privateMatchIntents := x16\<rparr>) = proved s"
  by (simp_all add: proved_def hasProof_def)

lemma proved_store [simp]:
  "proved s \<Longrightarrow> hasProof (ir_proof i) s \<Longrightarrow> m0 = st_intents s \<Longrightarrow> proved (s\<lparr>st_intents := mset_at k i m0\<rparr>)"
  "proved s \<Longrightarrow> hasProof (bs_proof b) s \<Longrightarrow> m1 = st_settlements s \<Longrightarrow> proved (s\<lparr>st_settlements := mset_at k b m1\<rparr>)"
  "proved s \<Longrightarrow> hasProof (lr_proof l) s \<Longrightarrow> m2 = st_liquidations s \<Longrightarrow> proved (s\<lparr>st_liquidations := mset_at k l m2\<rparr>)"
  "proved s \<Longrightarrow> hasProof (cor_proof c) s \<Longrightarrow> m3 = st_conditionalCloses s \<Longrightarrow> proved (s\<lparr>st_conditionalCloses := mset_at k c m3\<rparr>)"
  "proved s \<Longrightarrow> hasProof (pcr_proof p) s \<Longrightarrow> m4 = st_positionCloses s \<Longrightarrow> proved (s\<lparr>st_positionCloses := mset_at k p m4\<rparr>)"
  "proved s \<Longrightarrow> hasProof (dr_proof d) s \<Longrightarrow> m5 = st_disclosures s \<Longrightarrow> proved (s\<lparr>st_disclosures := mset_at k d m5\<rparr>)"
  "proved s \<Longrightarrow> hasProof (wr_proof w) s \<Longrightarrow> m6 = st_withdrawals s \<Longrightarrow> proved (s\<lparr>st_withdrawals := mset_at k w m6\<rparr>)"
  "proved s \<Longrightarrow> proved (s\<lparr>st_proofs := sadd q (st_proofs s)\<rparr>)"
  by (auto simp: proved_def hasProof_def dest!: in_mvalues_set)

text \<open>A loop or an update that neither drops proofs nor stores a record with one.\<close>

definition proof_view :: "ProtocolStore \<Rightarrow> _" where
  "proof_view s = (st_intents s, st_settlements s, st_liquidations s, st_conditionalCloses s,
     st_positionCloses s, st_disclosures s, st_withdrawals s, st_proofs s)"

lemma proved_view: "proof_view t = proof_view s \<Longrightarrow> proved t = proved s \<and> hasProof q t = hasProof q s"
proof -
  assume "proof_view t = proof_view s"
  then have eqs: "st_intents t = st_intents s" "st_settlements t = st_settlements s"
    "st_liquidations t = st_liquidations s" "st_conditionalCloses t = st_conditionalCloses s"
    "st_positionCloses t = st_positionCloses s" "st_disclosures t = st_disclosures s"
    "st_withdrawals t = st_withdrawals s" "st_proofs t = st_proofs s" by (simp_all add: proof_view_def)
  show ?thesis by (simp add: proved_def hasProof_def eqs)
qed

abbreviation proved_with :: "ProofMeta \<Rightarrow> ProtocolStore \<Rightarrow> bool" where
  "proved_with q s \<equiv> proved s \<and> hasProof q s"

lemma keeps_proved_frame: "frames proof_view m \<Longrightarrow> keeps (proved_with q) m"
  using proved_view [OF framesD [of proof_view m]] by (intro keepsI) blast

lemma proof_frames:
  "frames proof_view (spend n)"
  "frames proof_view (applySettlementOrderUpdates now settlement)"
  "frames proof_view (openPosition settlement k o')"
  "frames proof_view (addResidualOrder h r p)"
  "frames proof_view (addAccountEvent e)"
  "frames proof_view (markPositionClosed now pc)"
  by (intro store_frames; simp add: proof_view_def)+

lemma proved_settlement:
  assumes "proved_with (bs_proof b) s"
  shows "proved (snd (applySettlement h now now' b os rs es ps s))"
proof -
  have "proved_with (bs_proof b) (snd (applySettlement h now now' b os rs es ps s))"
    unfolding applySettlement_def Let_def
    by (rule keepsD [where P = "proved_with (bs_proof b)", OF _ assms], rule keeps_steps)
      (auto simp: proof_frames [THEN keeps_proved_frame] intro!: keeps_modify keeps_each)
  then show ?thesis ..
qed

lemma proved_close:
  assumes "proved s"
  shows "proved (snd (addPositionCloseRecord h now r s))"
proof -
  have "proved (snd (applyPositionClose h now r u))" if u: "proved_with (pcr_proof r) u" for u
  proof (rule applyPositionClose_run [of h now r u])
    fix x
    let ?u = "u\<lparr>st_positionCommitments := sadd (pcr_newPositionCommitment r) (st_positionCommitments u),
       st_marginCommitments := sadd (pcr_marginOutputCommitment r) (st_marginCommitments u),
       st_positionLifecycle := x\<rparr>"
    assume run: "applyPositionClose h now r u = storePositionClose h r (length (st_positionCommitments u)) ?u"
    have "proved_with (pcr_proof r) ?u" using u by simp
    then show ?thesis unfolding run storePositionClose_def
      by (cases "positionMembershipRoot h ?u") (simp_all add: throwA_def)
  qed
  then show ?thesis using assms by (simp add: addPositionCloseRecord_run)
qed

lemma proved_closes:
  "keeps proved (addPositionClose h now r)" "keeps proved (addPairedPositionCloses h now now' r q c)"
  unfolding addPositionClose_def addPairedPositionCloses_def assertProof_def
  by (rule keeps_steps; auto intro: keepsI proved_close)+

lemma proved_update:
  assumes "proved s"
  shows "proved (snd (updateSettlementTransactions d v w q s))"
proof (rule updateSettlement_cases [of d v w q s])
  fix k b b'
  assume run: "updateSettlementTransactions d v w q s = (Inr b', s\<lparr>st_settlements := mset_at k b' (st_settlements s)\<rparr>)"
    and b: "(k, b) \<in> set (st_settlements s)" "proofKey (bs_proof b') = proofKey (bs_proof b)"
  have "b \<in> set (mvalues (st_settlements s))" using b(1) by (auto simp: in_mvalues)
  then have "hasProof (bs_proof b') s" using assms b(2) by (simp add: proved_def hasProof_def)
  with run assms show ?thesis by simp
qed (use assms in simp)

lemma proved_updateIntent:
  assumes "proved s"
  shows "proved (snd (updateIntentSubmissionTxHash c tx s))"
proof (cases "mget (st_intents s) c")
  case (Some i)
  then have "hasProof (ir_proof i) s" using assms mget_mvalues [OF Some] by (simp add: proved_def)
  with Some assms show ?thesis by (simp add: updateIntentSubmissionTxHash_def Let_def)
qed (use assms in \<open>simp add: updateIntentSubmissionTxHash_def throwA_def\<close>)

lemma proved_simple:
  assumes "proved s"
  shows "proved (snd (recordProof p s))" "proved (snd (spend n s))"
    "proved (snd (addMarginCommitment c s))" "proved (snd (addPendingAssetDeposit d s))"
    "proved (snd (finalizePendingAssetDeposit now c relayId tx s))" "proved (snd (addMarket m s))"
    "proved (snd (updateMarket m s))" "proved (snd (addFundingUpdate f s))"
    "proved (snd (addFundingPremiumSamples fs s))" "proved (snd (addLiquidationAutomationJob j s))"
    "proved (snd (updateLiquidationAutomationJob j s))" "proved (snd (addBatchExecutionRun r cs s))"
    "proved (snd (upsertBatchExecutionRun r cs s))" "proved (snd (backfillMarketSettlementVolumes s))"
    "proved (snd (cancelOrder now c tx2 s))" "proved (snd (addResidualOrder h r' pr s))"
    "proved (snd (addPositionOpening o' s))" "proved (snd (addAccountEvent e s))"
    "proved (snd (addConditionalOrder co s))" "proved (snd (addConditionalClose cc s))"
    "proved (snd (addDisclosure d' s))" "proved (snd (upsertAccountEncryptionKey k s))"
    "proved (snd (addWithdrawal w s))" "proved (snd (addLiquidation now l s))"
    "proved (snd (addIntent h now i pr s))"
  using assms
  by (simp_all add: simple_ops js_simps keepPrivateMatchIntent_run spend_run Let_def
      split: option.splits sum.splits)

lemma addSettlement_proved: "proved s \<Longrightarrow> proved (snd (addSettlement h now now' b os rs es ps s))"
  using proved_settlement [where b = b and s = s] by (simp add: addSettlement_run split: sum.split)

lemma proved_step:
  assumes "proved s" and "store_step h s t"
  shows "proved t"
  using assms(2)
  by cases (use assms(1) in \<open>simp_all add: proved_simple addSettlement_proved proved_close proved_update
    proved_updateIntent keepsD [OF proved_closes(1)] keepsD [OF proved_closes(2)]
    addManualPositionClose_def\<close>)

end
