(* ===== verification/Store_Properties.thy ===== *)
theory Store_Properties
  imports Store_Invariant
begin

text \<open>
  What the protocol store promises its callers: no double spend, intact references and proofs in every
  reachable state, registries that never overwrite, the retention of premium samples, all-or-nothing
  paired closes, the leaf index of an opened position, the conditions of an accepted intent, and what
  a settlement that is rejected half way leaves behind.
\<close>

subsection \<open>Lemmas: retention\<close>

abbreviation of_market :: "string \<Rightarrow> (string \<times> FundingPremiumSampleRecord) list
    \<Rightarrow> (string \<times> FundingPremiumSampleRecord) list" where
  "of_market m es \<equiv> filter (\<lambda>e. fps_marketId (snd e) = m) es"

definition counted :: "(string, nat) jsmap \<Rightarrow> string \<Rightarrow> nat" where
  "counted counts m = (case mget counts m of Some n \<Rightarrow> n | None \<Rightarrow> 0)"

lemma set_retainSamples:
  "set (retainSamples counts retained es) = set retained
     \<union> (\<Union>m. fst ` set (take (FUNDING_PREMIUM_SAMPLE_RETENTION - counted counts m) (of_market m es)))"
proof (induction es arbitrary: counts retained)
  case (Cons e es)
  obtain k r where e: "e = (k, r)" by fastforce
  let ?m = "fps_marketId r" and ?N = FUNDING_PREMIUM_SAMPLE_RETENTION
  let ?n = "counted counts ?m"
  show ?case
  proof (cases "?n \<ge> ?N")
    case True
    have "take (?N - counted counts m) (of_market m (e # es)) = take (?N - counted counts m) (of_market m es)" for m
      using True e by (cases "m = ?m") simp_all
    moreover have "retainSamples counts retained (e # es) = retainSamples counts retained es"
      using True e by (simp add: counted_def Let_def)
    ultimately show ?thesis using Cons.IH by simp
  next
    case False
    let ?counts = "mset_at ?m (?n + 1) counts"
    have c: "counted ?counts m = (if m = ?m then ?n + 1 else counted counts m)" for m
      by (simp add: counted_def)
    have step: "retainSamples counts retained (e # es) = retainSamples ?counts (sadd k retained) es"
      using False e by (simp add: counted_def Let_def)
    obtain d where d: "?N - ?n = Suc d" "?N - (?n + 1) = d" using False by (cases "?N - ?n") auto
    have "fst ` set (take (?N - counted counts m) (of_market m (e # es))) =
        (if m = ?m then {k} else {}) \<union> fst ` set (take (?N - counted ?counts m) (of_market m es))" for m
      using d e c [of m] by (auto simp: counted_def)
    then have "(\<Union>m. fst ` set (take (?N - counted counts m) (of_market m (e # es)))) =
        insert k (\<Union>m. fst ` set (take (?N - counted ?counts m) (of_market m es)))"
      by (auto split: if_splits)
    then show ?thesis unfolding step Cons.IH by simp
  qed
qed simp

lemma filter_newest:
  assumes "distinct xs"
  shows "filter (\<lambda>x. x \<in> set (take n (rev xs))) xs = drop (length xs - n) xs"
proof -
  let ?k = "length xs - n"
  have newest: "set (take n (rev xs)) = set (drop ?k xs)" by (simp add: take_rev)
  have "distinct (take ?k xs @ drop ?k xs)" using assms by simp
  then have "set (take ?k xs) \<inter> set (drop ?k xs) = {}" by (simp only: distinct_append)
  then have "filter (\<lambda>x. x \<in> set (drop ?k xs)) (take ?k xs @ drop ?k xs) = drop ?k xs"
    unfolding filter_append by (simp add: filter_empty_conv disjoint_iff filter_id_conv)
  then show ?thesis by (simp add: newest)
qed

lemma retained_newest:
  assumes "map_ok entries"
  shows "of_market m (retainedFundingPremiumSamples entries) =
    (let samples = of_market m entries
     in drop (length samples - FUNDING_PREMIUM_SAMPLE_RETENTION) samples)"
proof -
  let ?N = FUNDING_PREMIUM_SAMPLE_RETENTION and ?x = "of_market m entries"
  have dist: "distinct (map fst entries)" using assms by (simp add: map_ok_def mkeys_def)
  have key: "fst e \<in> set (retainSamples [] [] (rev entries)) \<longleftrightarrow> e \<in> set (take ?N (rev ?x))"
    if e: "e \<in> set entries" "fps_marketId (snd e) = m" for e
  proof -
    have "e' = e" if "e' \<in> set entries" "fst e' = fst e" for e'
      using that e(1) dist by (metis eq_key_imp_eq_value prod.collapse)
    moreover have "set (take ?N (of_market m' (rev entries))) \<subseteq> set (of_market m' entries)" for m'
      using set_take_subset [of ?N "of_market m' (rev entries)"] by auto
    ultimately show ?thesis
      using e by (fastforce simp: set_retainSamples counted_def rev_filter)
  qed
  have "of_market m (retainedFundingPremiumSamples entries)
      = filter (\<lambda>e. e \<in> set (take ?N (rev ?x))) ?x"
    using key by (auto simp: retainedFundingPremiumSamples_def Let_def case_prod_unfold intro!: filter_cong)
  also have "\<dots> = drop (length ?x - ?N) ?x"
    by (rule filter_newest) (use dist in \<open>simp add: distinct_map\<close>)
  finally show ?thesis by (simp add: Let_def)
qed

lemma trim_retained:
  assumes "map_ok samples"
  shows "trimFundingPremiumSamples samples = retainedFundingPremiumSamples samples"
proof -
  let ?r = "retainedFundingPremiumSamples samples"
  have "distinct (map fst ?r)"
    using assms by (auto simp: retainedFundingPremiumSamples_def map_ok_def mkeys_def Let_def distinct_map_filter)
  then have "map_new ?r = ?r" by (rule map_new_distinct)
  moreover have "mhas ?r (fst e) \<longleftrightarrow> fst e \<in> set (retainSamples [] [] (rev samples))" if "e \<in> set samples" for e
    using that by (force simp: mhas_keys mkeys_def retainedFundingPremiumSamples_def Let_def)
  ultimately show ?thesis
    by (auto simp: trimFundingPremiumSamples_def retainedFundingPremiumSamples_def Let_def case_prod_unfold
        intro!: filter_cong)
qed

subsection \<open>Lemmas: paired closes\<close>

lemma close_outcome:
  assumes "addPositionCloseRecord h now r s = (res, t)"
    and "\<not> mhas (st_positionCloses s) (pcr_closeCommitment r)" "hasProof (pcr_proof r) s"
    and "pcr_positionNullifier r \<notin> set (st_spentNullifiers s)"
  shows "case res of Inl e \<Rightarrow> positionMembershipRoot h t = Inl e
    | Inr _ \<Rightarrow> st_spentNullifiers t = sadd (pcr_positionNullifier r) (st_spentNullifiers s)
        \<and> (\<exists>v. st_positionCloses t = mset_at (pcr_closeCommitment r) v (st_positionCloses s))
        \<and> st_proofs t = st_proofs s"
proof -
  let ?s = "s\<lparr>st_spentNullifiers := sadd (pcr_positionNullifier r) (st_spentNullifiers s)\<rparr>"
  obtain u where "addPositionCloseRecord h now r s = storePositionClose h r (length (st_positionCommitments ?s))
    (?s\<lparr>st_positionCommitments := sadd (pcr_newPositionCommitment r) (st_positionCommitments ?s),
       st_marginCommitments := sadd (pcr_marginOutputCommitment r) (st_marginCommitments ?s),
       st_positionLifecycle := u\<rparr>)" (is "_ = storePositionClose h r ?k ?t")
    using assms(2-4) applyPositionClose_run [of h now r ?s] by (auto simp: addPositionCloseRecord_run)
  then show ?thesis using assms(1)
    by (cases "positionMembershipRoot h ?t") (auto simp: storePositionClose_def throwA_def)
qed

lemma stepsA_two: "stepsA [m, n] s = seqA m n s" for m n :: "('s, unit) act"
  by (simp add: stepsA.simps(2) seqA_def bindA_def js_simps split: prod.split sum.split)

subsection \<open>Lemmas: accepted settlements\<close>

text \<open>A loop that adds records under fresh and different keys appends them in order.\<close>

lemma eachA_fresh:
  assumes "distinct (map key xs)" "\<And>x. x \<in> set xs \<Longrightarrow> \<not> mhas (coll s) (key x)" "P s"
    and "\<And>x s. x \<in> set xs \<Longrightarrow> P s \<Longrightarrow> \<not> mhas (coll s) (key x) \<Longrightarrow>
      \<exists>t. f x s = (Inr (), t) \<and> coll t = mset_at (key x) (val x) (coll s) \<and> P t"
  shows "\<exists>t. eachA f xs s = (Inr (), t) \<and> P t \<and> coll t = coll s @ map (\<lambda>x. (key x, val x)) xs"
  using assms
proof (induction xs arbitrary: s)
  case Nil
  then show ?case by (simp add: returnA_def)
next
  case (Cons x xs)
  obtain t where t: "f x s = (Inr (), t)" "coll t = mset_at (key x) (val x) (coll s)" "P t"
    using Cons.prems(4) [of x s] Cons.prems(2) [of x] Cons.prems(3) by auto
  have coll: "coll t = coll s @ [(key x, val x)]" using t(2) Cons.prems(2) [of x] by (simp add: mset_at_fresh)
  have "\<exists>u. eachA f xs t = (Inr (), u) \<and> P u \<and> coll u = coll t @ map (\<lambda>x. (key x, val x)) xs"
  proof (rule Cons.IH)
    show "\<not> mhas (coll t) (key y)" if "y \<in> set xs" for y
      using that Cons.prems(1) Cons.prems(2) [of y] t(2) by auto (metis image_eqI)
    show "\<exists>u. f y r = (Inr (), u) \<and> coll u = mset_at (key y) (val y) (coll r) \<and> P u"
      if "y \<in> set xs" "P r" "\<not> mhas (coll r) (key y)" for y r
      using that Cons.prems(4) [of y r] by auto
  qed (use Cons.prems(1) t(3) in auto)
  with t(1) coll show ?case by (auto simp: seqA_step(1))
qed

lemma map_append_get:
  "distinct (map key xs) \<Longrightarrow> (\<And>x. x \<in> set xs \<Longrightarrow> \<not> mhas m (key x)) \<Longrightarrow> x \<in> set xs \<Longrightarrow>
     mget (m @ map (\<lambda>x. (key x, val x)) xs) (key x) = Some (val x)"
proof (induction xs arbitrary: m)
  case (Cons y xs)
  show ?case
  proof (cases "x = y")
    case True
    with Cons.prems(2) [of y] show ?thesis by (simp add: mget_def mhas_def map_add_Some_iff)
  next
    case False
    have "mget ((m @ [(key y, val y)]) @ map (\<lambda>x. (key x, val x)) xs) (key x) = Some (val x)"
    proof (rule Cons.IH)
      show "\<not> mhas (m @ [(key y, val y)]) (key z)" if "z \<in> set xs" for z
        using that Cons.prems(1) Cons.prems(2) [of z] by (auto simp: mhas_def mget_def) (metis image_eqI)
    qed (use Cons.prems False in auto)
    then show ?thesis by simp
  qed
qed simp

lemma indexOf_nth: "x \<in> set xs \<Longrightarrow> \<exists>k. indexOf x xs = Some k \<and> k < length xs \<and> xs ! k = x"
  by (induction xs) (force simp: indexOf_def split: if_splits)+

lemma eachA_returns:
  assumes "P s" and "\<And>x s. x \<in> set xs \<Longrightarrow> P s \<Longrightarrow> \<exists>t. f x s = (Inr (), t) \<and> P t"
  shows "\<exists>t. eachA f xs s = (Inr (), t) \<and> P t"
  using assms
proof (induction xs arbitrary: s)
  case (Cons x xs)
  obtain t where "f x s = (Inr (), t)" "P t" using Cons.prems by force
  with Cons.IH [of t] Cons.prems(2) show ?case by (auto simp: seqA_step(1))
qed (simp add: returnA_def)

lemma settlement_frames:
  "(\<And>s x. v (s\<lparr>st_orderLifecycle := x\<rparr>) = v s) \<Longrightarrow> frames v (applySettlementOrderUpdates now b)"
  "(\<And>s x. v (s\<lparr>st_positionLifecycle := x\<rparr>) = v s) \<Longrightarrow> frames v (eachA (openPosition b k) os)"
  "(\<And>s x. v (s\<lparr>st_accountEvents := x\<rparr>) = v s) \<Longrightarrow> frames v (eachA addAccountEvent es)"
  "(\<And>s x. v (s\<lparr>st_privateMatchIntents := x\<rparr>) = v s) \<Longrightarrow> (\<And>s x. v (s\<lparr>st_residualOrders := x\<rparr>) = v s) \<Longrightarrow>
     (\<And>s x. v (s\<lparr>st_orderLifecycle := x\<rparr>) = v s) \<Longrightarrow> frames v (eachA (\<lambda>r. addResidualOrder h r (f r)) rs)"
  by (intro store_frames; assumption)+

lemma order_updates_accepted:
  assumes "bs_orderUpdates b = Some us"
    and "\<forall>u\<in>set us. mhas (st_intents s) (olu_intentCommitment u) \<or> mhas (st_residualOrders s) (olu_intentCommitment u)"
  shows "\<exists>t. applySettlementOrderUpdates now b s = (Inr (), t)"
proof -
  let ?P = "\<lambda>t. st_intents t = st_intents s \<and> st_residualOrders t = st_residualOrders s"
  have "\<exists>t. eachA (applyOrderUpdate now) us s = (Inr (), t) \<and> ?P t"
  proof (rule eachA_returns)
    fix u and t :: ProtocolStore assume "u \<in> set us" "?P t"
    with assms(2) show "\<exists>t'. applyOrderUpdate now u t = (Inr (), t') \<and> ?P t'"
      by (auto simp: applyOrderUpdate_def mhas_def Let_def split: option.split)
  qed simp
  with assms(1) show ?thesis by (auto simp: applySettlementOrderUpdates_def)
qed

lemma openings_accepted:
  assumes "distinct (map plr_positionCommitment os)"
    and "\<forall>p\<in>set os. plr_status p = PositionOpen \<and> plr_positionCommitment p \<in> set (bs_newCommitments b)
      \<and> \<not> mhas (st_positionLifecycle s) (plr_positionCommitment p)"
    and "set (bs_newCommitments b) \<subseteq> set (st_positionCommitments s)"
  shows "\<exists>t. eachA (openPosition b k) os s = (Inr (), t)
    \<and> (\<forall>p\<in>set os. \<exists>i<length (bs_newCommitments b). bs_newCommitments b ! i = plr_positionCommitment p
        \<and> mget (st_positionLifecycle t) (plr_positionCommitment p) = Some (p\<lparr>plr_positionIndex := Some (k + i)\<rparr>))"
proof -
  let ?c = plr_positionCommitment
  let ?val = "\<lambda>p. p\<lparr>plr_positionIndex := Some (k + the (indexOf (?c p) (bs_newCommitments b)))\<rparr>"
  have idx: "\<exists>i. indexOf (?c p) (bs_newCommitments b) = Some i \<and> i < length (bs_newCommitments b)
      \<and> bs_newCommitments b ! i = ?c p" if "p \<in> set os" for p
    using assms(2) that indexOf_nth by fast
  have "\<exists>t. eachA (openPosition b k) os s = (Inr (), t) \<and> set (bs_newCommitments b) \<subseteq> set (st_positionCommitments t)
    \<and> st_positionLifecycle t = st_positionLifecycle s @ map (\<lambda>p. (?c p, ?val p)) os"
  proof (rule eachA_fresh)
    fix p and r :: ProtocolStore assume p: "p \<in> set os" and r: "set (bs_newCommitments b) \<subseteq> set (st_positionCommitments r)"
      "\<not> mhas (st_positionLifecycle r) (?c p)"
    obtain i where "indexOf (?c p) (bs_newCommitments b) = Some i" using idx [OF p] by blast
    with p r assms(2) show "\<exists>t. openPosition b k p r = (Inr (), t)
        \<and> st_positionLifecycle t = mset_at (?c p) (?val p) (st_positionLifecycle r)
        \<and> set (bs_newCommitments b) \<subseteq> set (st_positionCommitments t)"
      by (auto simp: openPosition_def addPositionOpening_def js_simps)
  qed (use assms in auto)
  then obtain t where t: "eachA (openPosition b k) os s = (Inr (), t)"
    "st_positionLifecycle t = st_positionLifecycle s @ map (\<lambda>p. (?c p, ?val p)) os" by blast
  have "\<exists>i<length (bs_newCommitments b). bs_newCommitments b ! i = ?c p
      \<and> mget (st_positionLifecycle t) (?c p) = Some (p\<lparr>plr_positionIndex := Some (k + i)\<rparr>)" if p: "p \<in> set os" for p
  proof -
    have "mget (st_positionLifecycle t) (?c p) = Some (?val p)"
      unfolding t(2) by (rule map_append_get) (use assms(1,2) p in auto)
    with idx [OF p] show ?thesis by auto
  qed
  with t(1) show ?thesis by blast
qed

lemma residuals_accepted:
  assumes "distinct (map ror_intentCommitment rs)"
    and "\<forall>r\<in>set rs. \<not> mhas (st_residualOrders s) (ror_intentCommitment r) \<and> ror_matchingPayloadCommitment r \<noteq> []
      \<and> (case f r of None \<Rightarrow> True | Some p \<Rightarrow> assertPrivateMatchIntent h (matchRecordOfResidual r) p = Inr ())"
  shows "\<exists>t. eachA (\<lambda>r. addResidualOrder h r (f r)) rs s = (Inr (), t)
    \<and> (\<forall>r\<in>set rs. mget (st_residualOrders t) (ror_intentCommitment r) = Some r)"
proof -
  have "\<exists>t. eachA (\<lambda>r. addResidualOrder h r (f r)) rs s = (Inr (), t) \<and> True
      \<and> st_residualOrders t = st_residualOrders s @ map (\<lambda>r. (ror_intentCommitment r, r)) rs"
  proof (rule eachA_fresh)
    fix r and t :: ProtocolStore assume r: "r \<in> set rs" and fresh: "\<not> mhas (st_residualOrders t) (ror_intentCommitment r)"
    with assms(2) show "\<exists>u. addResidualOrder h r (f r) t = (Inr (), u)
        \<and> st_residualOrders u = mset_at (ror_intentCommitment r) r (st_residualOrders t) \<and> True"
      by (auto simp: addResidualOrder_def js_simps keepPrivateMatchIntent_run split: option.splits)
  qed (use assms in auto)
  then show ?thesis
    using map_append_get [of ror_intentCommitment rs "st_residualOrders s"] assms by fastforce
qed

lemma events_accepted:
  assumes "distinct (map aer_eventId es)" and "\<forall>e\<in>set es. \<not> mhas (st_accountEvents s) (aer_eventId e)"
  shows "\<exists>t. eachA addAccountEvent es s = (Inr (), t)"
proof -
  have "\<exists>t. eachA addAccountEvent es s = (Inr (), t) \<and> True
      \<and> st_accountEvents t = st_accountEvents s @ map (\<lambda>e. (aer_eventId e, e)) es"
    by (rule eachA_fresh) (use assms in \<open>auto simp: addAccountEvent_def js_simps\<close>)
  then show ?thesis by blast
qed

subsection \<open>The properties\<close>

text \<open>A reachable store for the witnesses: a recorded proof and a withdrawal under it.\<close>

definition demo_proof :: ProofMeta where
  "demo_proof = \<lparr>pm_circuitId = ''withdraw'', pm_circuitKey = ''0x1'', pm_circuitHash = ''0x2'',
     pm_verifierHash = ''0x3'', pm_publicInputHash = ''0x4'', pm_proofDigest = ''0x5'', pm_proofSystem = None,
     pm_bytecodeHash = None, pm_boundlessRequestId = None, pm_imageId = None, pm_journalDigest = None,
     pm_witnessHash = None, pm_proofHash = None, pm_publicInputsHash = None, pm_sealDigest = None,
     pm_vkHash = None\<rparr>"

definition demo_withdrawal :: WithdrawalRecord where
  "demo_withdrawal = \<lparr>wr_root = ''0x9'', wr_nullifier = ''0xa'', wr_recipient = ''0xb'', wr_tokenDigest = ''0xd'',
     wr_withdrawAmount = 5, wr_changeCommitment = ''0xc'', wr_proof = demo_proof\<rparr>"

definition demo_proved_store :: ProtocolStore where
  "demo_proved_store = snd (recordProof demo_proof new_ProtocolStore)"

definition demo_store :: ProtocolStore where
  "demo_store = snd (addWithdrawal demo_withdrawal demo_proved_store)"

lemma demo_store_reachable: "reachable h demo_proved_store" "reachable h demo_store"
proof -
  show p: "reachable h demo_proved_store"
    unfolding demo_proved_store_def by (rule reachable.step [OF reachable.start record_proof])
  show "reachable h demo_store"
    unfolding demo_store_def by (rule reachable.step [OF p add_withdrawal])
qed

lemma demo_store_eq: "demo_store = new_ProtocolStore\<lparr>st_proofs := [proofKey demo_proof],
    st_spentNullifiers := [''0xa''], st_marginCommitments := [''0xc''],
    st_withdrawals := [(''0xa'', demo_withdrawal)]\<rparr>"
  by (simp add: demo_store_def demo_proved_store_def recordProof_def addWithdrawal_def assertProof_def js_simps
      hasProof_def demo_withdrawal_def new_ProtocolStore_def sadd_def mset_at_def)

text \<open>C8: In every state the store can reach, the nullifiers of its withdrawals, liquidations, position closes
  and settlements are pairwise different (also within one settlement) and all of them are in the spent set.\<close>

theorem reachable_single_spend:
  assumes "reachable h s"
  shows "distinct (mkeys (st_withdrawals s) @ mkeys (st_liquidations s)
           @ map pcr_positionNullifier (mvalues (st_positionCloses s))
           @ concat (map bs_spentNullifiers (mvalues (st_settlements s))))
    \<and> set (mkeys (st_withdrawals s)) \<union> set (mkeys (st_liquidations s))
        \<union> pcr_positionNullifier ` set (mvalues (st_positionCloses s))
        \<union> (\<Union>b\<in>set (mvalues (st_settlements s)). set (bs_spentNullifiers b))
      \<subseteq> set (st_spentNullifiers s)"
proof -
  have "single_spend s"
    by (rule reachable_invariant [OF assms _ single_spend_step])
      (simp add: single_spend_def used_nullifiers_def new_ProtocolStore_def mkeys_def mvalues_def)
  then show ?thesis by (auto simp: single_spend_def used_nullifiers_def)
qed

theorem reachable_single_spend_witness:
  "mkeys (st_withdrawals demo_store) = [''0xa''] \<and> distinct (mkeys (st_withdrawals demo_store))
     \<and> set (mkeys (st_withdrawals demo_store)) \<subseteq> set (st_spentNullifiers demo_store)"
  using reachable_single_spend [OF demo_store_reachable(2) [of demo_host]]
  by (simp add: demo_store_eq mkeys_def)

text \<open>C39: In every reachable state a position is stored under its own commitment, which is a leaf of the
  position tree; every intent and every residual order has an entry of the order lifecycle, stored under
  its commitment; and the two commitment sets, the trees' leaves, have no duplicates.\<close>

theorem reachable_references:
  assumes "reachable h s"
  shows "(\<forall>(c, p)\<in>set (st_positionLifecycle s).
           plr_positionCommitment p = c \<and> c \<in> set (st_positionCommitments s))
    \<and> (\<forall>c\<in>set (mkeys (st_intents s)) \<union> set (mkeys (st_residualOrders s)).
           \<exists>r. mget (st_orderLifecycle s) c = Some r \<and> olr_intentCommitment r = c)
    \<and> distinct (st_positionCommitments s) \<and> distinct (st_marginCommitments s)"
proof -
  have l: "linked s"
    by (rule reachable_invariant [OF assms _ linked_step]) (simp add: linked_def new_ProtocolStore_def)
  have "\<exists>r. mget (st_orderLifecycle s) c = Some r \<and> olr_intentCommitment r = c"
    if "c \<in> set (mkeys (st_intents s)) \<union> set (mkeys (st_residualOrders s))" for c
    using l that by (auto simp: linked_def mhas_keys [symmetric] mhas_def)
  with l show ?thesis by (auto simp: linked_def mget_iff_in)
qed

theorem reachable_references_witness:
  "st_marginCommitments demo_store = [''0xc''] \<and> distinct (st_marginCommitments demo_store)"
  using reachable_references [OF demo_store_reachable(2) [of demo_host]] by (simp add: demo_store_eq)

text \<open>In every reachable state each stored intent, settlement, liquidation, triggered order, position
  close, disclosure and withdrawal carries a proof whose key was recorded as verified.\<close>

theorem reachable_proofs:
  assumes "reachable h s"
  shows "\<forall>p\<in>ir_proof ` set (mvalues (st_intents s)) \<union> bs_proof ` set (mvalues (st_settlements s))
      \<union> lr_proof ` set (mvalues (st_liquidations s)) \<union> cor_proof ` set (mvalues (st_conditionalCloses s))
      \<union> pcr_proof ` set (mvalues (st_positionCloses s)) \<union> dr_proof ` set (mvalues (st_disclosures s))
      \<union> wr_proof ` set (mvalues (st_withdrawals s)). hasProof p s"
proof -
  have "proved s"
    by (rule reachable_invariant [OF assms _ proved_step]) (simp add: proved_def new_ProtocolStore_def mvalues_def)
  then show ?thesis by (auto simp: proved_def)
qed

theorem reachable_proofs_witness:
  "wr_proof ` set (mvalues (st_withdrawals demo_store)) = {demo_proof} \<and> hasProof demo_proof demo_store"
  using reachable_proofs [OF demo_store_reachable(2) [of demo_host]]
  by (auto simp: demo_store_eq mvalues_def demo_withdrawal_def)

text \<open>After \<open>addFundingPremiumSamples\<close> the store holds, of every market, the newest
  \<open>FUNDING_PREMIUM_SAMPLE_RETENTION\<close> samples of the samples it had and the added ones in their order
  of insertion; the trim on insertion and the trim on saving agree.\<close>

theorem samples_keep_newest:
  assumes "map_ok (st_fundingPremiumSamples s)"
  shows "let all = fold (\<lambda>r m. mset_at (premiumSampleKey r) r m) records (st_fundingPremiumSamples s);
             stored = st_fundingPremiumSamples (snd (addFundingPremiumSamples records s))
         in map_ok stored \<and> stored = retainedFundingPremiumSamples all
            \<and> (\<forall>m. let samples = filter (\<lambda>(_, r). fps_marketId r = m) all
                    in filter (\<lambda>(_, r). fps_marketId r = m) stored
                       = drop (length samples - FUNDING_PREMIUM_SAMPLE_RETENTION) samples)"
proof -
  let ?all = "fold (\<lambda>r m. mset_at (premiumSampleKey r) r m) records (st_fundingPremiumSamples s)"
  have ok: "map_ok ?all" using assms by (induction records arbitrary: s rule: rev_induct) auto
  have "distinct (map fst (retainedFundingPremiumSamples ?all))"
    using ok by (auto simp: retainedFundingPremiumSamples_def map_ok_def mkeys_def Let_def distinct_map_filter)
  then have "map_ok (retainedFundingPremiumSamples ?all)" by (simp add: map_ok_def mkeys_def)
  then show ?thesis
    using retained_newest [OF ok] trim_retained [OF ok]
    by (simp add: addFundingPremiumSamples_def js_simps Let_def case_prod_unfold)
qed

theorem samples_keep_newest_witness:
  "map_ok (st_fundingPremiumSamples (snd (addFundingPremiumSamples [] demo_store)))"
proof -
  have "map_ok (st_fundingPremiumSamples demo_store)" by (simp add: demo_store_eq new_ProtocolStore_def)
  then show ?thesis using samples_keep_newest [of demo_store "[]"] unfolding Let_def by blast
qed

text \<open>Adding a market, an intent, a withdrawal, a liquidation, a position close, a settlement, a position
  or an account event, whether it returns or throws, never changes a record that is stored already.\<close>

theorem registries_never_overwrite:
  "(mget (st_markets s) k1 = Some v1 \<longrightarrow> mget (st_markets (snd (addMarket r1 s))) k1 = Some v1)
   \<and> (mget (st_intents s) k2 = Some v2 \<longrightarrow> mget (st_intents (snd (addIntent h now r2 p s))) k2 = Some v2)
   \<and> (mget (st_withdrawals s) k3 = Some v3 \<longrightarrow> mget (st_withdrawals (snd (addWithdrawal r3 s))) k3 = Some v3)
   \<and> (mget (st_liquidations s) k4 = Some v4
        \<longrightarrow> mget (st_liquidations (snd (addLiquidation now r4 s))) k4 = Some v4)
   \<and> (mget (st_positionCloses s) k5 = Some v5
        \<longrightarrow> mget (st_positionCloses (snd (addPositionCloseRecord h now r5 s))) k5 = Some v5)
   \<and> (mget (st_settlements s) k6 = Some v6
        \<longrightarrow> mget (st_settlements (snd (addSettlement h now now' b os rs es ps s))) k6 = Some v6)
   \<and> (mget (st_positionLifecycle s) k7 = Some v7
        \<longrightarrow> mget (st_positionLifecycle (snd (addPositionOpening r7 s))) k7 = Some v7)
   \<and> (mget (st_accountEvents s) k8 = Some v8
        \<longrightarrow> mget (st_accountEvents (snd (addAccountEvent r8 s))) k8 = Some v8)"
  using market_registry.never_overwritten intent_registry.never_overwritten [of s k2 v2 h now "(r2, p)"]
    withdrawal_registry.never_overwritten liquidation_registry.never_overwritten
    close_registry.never_overwritten settlement_registry.never_overwritten [of s k6 v6 h now now' "(b, os, rs, es, ps)"]
    position_registry.never_overwritten event_registry.never_overwritten
  by simp

theorem registries_never_overwrite_witness:
  "mget (st_withdrawals (snd (addWithdrawal (demo_withdrawal\<lparr>wr_withdrawAmount := 6\<rparr>) demo_store))) ''0xa''
     = Some demo_withdrawal"
proof -
  have "mget (st_withdrawals demo_store) ''0xa'' = Some demo_withdrawal" by (simp add: demo_store_eq mget_def)
  then show ?thesis
    by (rule registries_never_overwrite [THEN conjunct2, THEN conjunct2, THEN conjunct1, THEN mp])
qed

text \<open>C40: \<open>addPairedPositionCloses\<close> is all or nothing: if it throws, the store is what it was, unless the
  position tree cannot be computed any more (it is over its capacity or a leaf is not a field element).
  If it returns, both closes are stored, both nullifiers were fresh and are now spent.\<close>

theorem paired_close_atomic:
  "case addPairedPositionCloses h now1 now2 trader maker conditional s of
     (Inl e, t) \<Rightarrow> t = s \<or> positionMembershipRoot h t = Inl e
   | (Inr _, t) \<Rightarrow>
       {pcr_positionNullifier trader, pcr_positionNullifier maker} \<inter> set (st_spentNullifiers s) = {}
       \<and> {pcr_positionNullifier trader, pcr_positionNullifier maker} \<subseteq> set (st_spentNullifiers t)
       \<and> mkeys (st_positionCloses t)
           = mkeys (st_positionCloses s) @ [pcr_closeCommitment trader, pcr_closeCommitment maker]"
proof -
  obtain res t where m: "addPairedPositionCloses h now1 now2 trader maker conditional s = (res, t)" by fastforce
  consider (guard) e where "res = Inl e" "t = s"
    | (body) "seqA (addPositionCloseRecord h now1 trader) (addPositionCloseRecord h now2 maker) s = (res, t)"
      "pcr_closeCommitment maker \<noteq> pcr_closeCommitment trader"
      "pcr_positionNullifier maker \<noteq> pcr_positionNullifier trader"
      "\<not> mhas (st_positionCloses s) (pcr_closeCommitment trader)"
      "\<not> mhas (st_positionCloses s) (pcr_closeCommitment maker)"
      "hasProof (pcr_proof trader) s" "hasProof (pcr_proof maker) s"
      "pcr_positionNullifier trader \<notin> set (st_spentNullifiers s)"
      "pcr_positionNullifier maker \<notin> set (st_spentNullifiers s)"
    using m [unfolded addPairedPositionCloses_def assertProof_def stepsA_run stepsA_two]
    by (auto split: if_splits)
  then show ?thesis
  proof cases
    case guard
    with m show ?thesis by simp
  next
    case body
    obtain r1 u where u: "addPositionCloseRecord h now1 trader s = (r1, u)" by fastforce
    note first = close_outcome [OF u body(4,6,8)]
    show ?thesis
    proof (cases r1)
      case (Inl e)
      with u body(1) first m show ?thesis by (simp add: seqA_cases)
    next
      case (Inr x)
      with u body(1) have maker: "addPositionCloseRecord h now2 maker u = (res, t)" by (simp add: seqA_cases)
      from first Inr obtain v where v: "st_spentNullifiers u = sadd (pcr_positionNullifier trader) (st_spentNullifiers s)"
        "st_positionCloses u = mset_at (pcr_closeCommitment trader) v (st_positionCloses s)"
        "st_proofs u = st_proofs s" by auto
      have "\<not> mhas (st_positionCloses u) (pcr_closeCommitment maker)" "hasProof (pcr_proof maker) u"
        "pcr_positionNullifier maker \<notin> set (st_spentNullifiers u)"
        using body v by (auto simp: hasProof_def)
      note second = close_outcome [OF maker this]
      show ?thesis
        using second v m body by (cases res) (auto simp: mkeys_fresh)
    qed
  qed
qed

text \<open>C24: A settlement is accepted whenever its batch is not settled yet, its proof is recorded, its openings
  and residual orders match it and are new, its nullifiers are different and unspent, its order updates
  name known orders and its new commitments are fresh. Then its commitments are appended to the position
  tree, every opened position is stored with the index of its own leaf, every residual order is stored,
  and exactly its nullifiers become spent.\<close>

theorem settlement_accepted:
  assumes new: "\<not> mhas (st_settlements s) (settlementKey b)" "bs_matchTranscriptDigest b \<noteq> []" "hasProof (bs_proof b) s"
    and valid: "validatePositionOpenings b os = Inr ()" "validateResidualOrders b rs = Inr ()"
    and leaves: "distinct (st_positionCommitments s @ bs_newCommitments b)"
    and spend: "distinct (bs_spentNullifiers b)" "set (bs_spentNullifiers b) \<inter> set (st_spentNullifiers s) = {}"
    and updates: "bs_orderUpdates b = Some us" "\<forall>u\<in>set us. mhas (st_intents s) (olu_intentCommitment u)
      \<or> mhas (st_residualOrders s) (olu_intentCommitment u)"
    and openings: "distinct (map plr_positionCommitment os)" "\<forall>p\<in>set os. plr_status p = PositionOpen
      \<and> \<not> mhas (st_positionLifecycle s) (plr_positionCommitment p)"
    and residuals: "distinct (map ror_intentCommitment rs)" "\<forall>r\<in>set rs.
      \<not> mhas (st_residualOrders s) (ror_intentCommitment r) \<and> ror_matchingPayloadCommitment r \<noteq> []
      \<and> (case mget (map_new (map (\<lambda>p. (pmi_intentCommitment p, p)) ps)) (ror_intentCommitment r) of
           None \<Rightarrow> True | Some p \<Rightarrow> assertPrivateMatchIntent h (matchRecordOfResidual r) p = Inr ())"
    and events: "distinct (map aer_eventId es)" "\<forall>e\<in>set es. \<not> mhas (st_accountEvents s) (aer_eventId e)"
  shows "\<exists>t. addSettlement h now settledAt b os rs es ps s = (Inr (), t)
    \<and> mget (st_settlements t) (settlementKey b) = Some b
    \<and> st_positionCommitments t = st_positionCommitments s @ bs_newCommitments b
    \<and> (\<forall>p\<in>set os. \<exists>i<length (st_positionCommitments t). st_positionCommitments t ! i = plr_positionCommitment p
        \<and> mget (st_positionLifecycle t) (plr_positionCommitment p) = Some (p\<lparr>plr_positionIndex := Some i\<rparr>))
    \<and> (\<forall>r\<in>set rs. mget (st_residualOrders t) (ror_intentCommitment r) = Some r)
    \<and> set (st_spentNullifiers t) = set (bs_spentNullifiers b) \<union> set (st_spentNullifiers s)"
proof -
  let ?f = "\<lambda>r. mget (map_new (map (\<lambda>p. (pmi_intentCommitment p, p)) ps)) (ror_intentCommitment r)"
  let ?k = "length (st_positionCommitments s)" and ?s1 = "settlement_leaves b s"
  have leaves1: "st_positionCommitments ?s1 = st_positionCommitments s @ bs_newCommitments b"
    using fold_sadd_fresh [OF leaves] by (simp add: settlement_leaves_def)
  obtain r2 s2 where s2: "eachA spend (bs_spentNullifiers b) ?s1 = (r2, s2)" by fastforce
  then obtain xs where xs: "s2 = ?s1\<lparr>st_spentNullifiers := xs\<rparr>" "case r2 of
       Inr _ \<Rightarrow> distinct (bs_spentNullifiers b) \<and> set (bs_spentNullifiers b) \<inter> set (st_spentNullifiers ?s1) = {}
         \<and> set xs = set (bs_spentNullifiers b) \<union> set (st_spentNullifiers ?s1)
     | Inl e \<Rightarrow> e = ''nullifier already spent''
         \<and> (\<not> distinct (bs_spentNullifiers b) \<or> set (bs_spentNullifiers b) \<inter> set (st_spentNullifiers ?s1) \<noteq> {})"
    by (rule eachA_spend)
  have r2: "r2 = Inr ()" and spent: "set xs = set (bs_spentNullifiers b) \<union> set (st_spentNullifiers s)"
    using xs(2) spend by (auto simp: settlement_leaves_def split: sum.splits)
  obtain s3 where s3: "applySettlementOrderUpdates now b s2 = (Inr (), s3)"
    using order_updates_accepted [OF updates(1), of s2 now] updates(2) xs(1) by (auto simp: settlement_leaves_def)
  note f3 = frames_Inr [OF settlement_frames(1) s3]
  obtain s4 where s4: "eachA (openPosition b ?k) os s3 = (Inr (), s4)"
    and opened: "\<forall>p\<in>set os. \<exists>i<length (bs_newCommitments b). bs_newCommitments b ! i = plr_positionCommitment p
        \<and> mget (st_positionLifecycle s4) (plr_positionCommitment p) = Some (p\<lparr>plr_positionIndex := Some (?k + i)\<rparr>)"
    using openings_accepted [OF openings(1), of b s3 ?k] openings(2) valid(1) leaves1
      f3 [of st_positionLifecycle] f3 [of st_positionCommitments] xs(1)
    by (auto simp: validatePositionOpenings_def eachE_Inr_iff settlement_leaves_def split: if_splits)
  note f4 = frames_Inr [OF settlement_frames(2) s4]
  obtain s5 where s5: "eachA (\<lambda>r. addResidualOrder h r (?f r)) rs s4 = (Inr (), s5)"
    and stored: "\<forall>r\<in>set rs. mget (st_residualOrders s5) (ror_intentCommitment r) = Some r"
    using residuals_accepted [OF residuals(1), of s4 h ?f] residuals(2)
      f3 [of st_residualOrders] f4 [of st_residualOrders] xs(1) by (auto simp: settlement_leaves_def)
  note f5 = frames_Inr [OF settlement_frames(4) s5]
  obtain s6 where s6: "eachA addAccountEvent es s5 = (Inr (), s6)"
    using events_accepted [OF events(1), of s5] events(2) xs(1)
      f3 [of st_accountEvents] f4 [of st_accountEvents] f5 [of st_accountEvents] by (auto simp: settlement_leaves_def)
  note f6 = frames_Inr [OF settlement_frames(3) s6]
  let ?t = "s6\<lparr>st_settlements := mset_at (settlementKey b) b (st_settlements s6),
      st_marketSettlementVolumes := mset_at (bs_settlementDigest b)
       \<lparr>msv_marketId = bs_marketId b, msv_matchedVolume = bs_aggregateVolume b sdiv 2,
        msv_settledAt = settledAt, msv_settlementDigest = bs_settlementDigest b\<rparr> (st_marketSettlementVolumes s6)\<rparr>"
  have "applySettlement h now settledAt b os rs es ps s = (Inr (), ?t)"
    using s2 r2 s3 s4 s5 s6
    by (simp add: applySettlement_def Let_def js_simps settlement_leaves_def stepsA.simps(2))
  then have "addSettlement h now settledAt b os rs es ps s = (Inr (), ?t)"
    using new valid by (simp add: addSettlement_run)
  moreover have "st_positionCommitments s6 = st_positionCommitments s @ bs_newCommitments b"
    using leaves1 xs(1) f3 [of st_positionCommitments] f4 [of st_positionCommitments]
      f5 [of st_positionCommitments] f6 [of st_positionCommitments] by simp
  moreover have "set (st_spentNullifiers s6) = set (bs_spentNullifiers b) \<union> set (st_spentNullifiers s)"
    using spent xs(1) f3 [of st_spentNullifiers] f4 [of st_spentNullifiers]
      f5 [of st_spentNullifiers] f6 [of st_spentNullifiers] by simp
  moreover have "st_residualOrders s6 = st_residualOrders s5" "st_positionLifecycle s6 = st_positionLifecycle s4"
    using f5 [of st_positionLifecycle] f6 [of st_residualOrders] f6 [of st_positionLifecycle] by simp_all
  ultimately show ?thesis using opened stored by (fastforce simp: nth_append)
qed

definition demo_settlement :: BatchSettlement where
  "demo_settlement = \<lparr>bs_batchId = ''1'', bs_marketId = ''btc'', bs_matchTranscriptDigest = ''0x20'',
     bs_settlementDigest = ''0x21'', bs_newCommitments = [''0x11'', ''0x12''], bs_marginChangeCommitments = None,
     bs_spentNullifiers = [''0x13'', ''0x14''], bs_matchingPayloadCommitments = [], bs_residualCommitments = [],
     bs_residualMargins = [], bs_residualPayloadCommitments = [], bs_fillCount = 2, bs_feeConfigHash = ''0x0'',
     bs_grossTakerFee = 0, bs_makerRebate = 0, bs_insuranceFee = 0, bs_treasuryFee = 0, bs_makerIntents = [],
     bs_takerIntents = [], bs_aggregateVolume = 200, bs_openInterestDelta = 0, bs_orderUpdates = Some [],
     bs_residualSize = 0, bs_proof = demo_proof, bs_proofVerificationTxHash = None, bs_settlementTxHash = None,
     bs_onchainConfirmed = None\<rparr>"

definition demo_opening :: PositionLifecycleRecord where
  "demo_opening = \<lparr>plr_batchId = ''1'', plr_closeCommitment = None, plr_fundingIndex = None,
     plr_liquidationRewardCommitment = None, plr_marginOutputCommitment = None, plr_marketId = ''btc'',
     plr_newPositionCommitment = None, plr_openedAt = 0, plr_ownerCommitment = ''0x30'',
     plr_positionCommitment = ''0x12'', plr_positionIndex = None, plr_positionNullifier = ''0x31'',
     plr_settlementDigest = ''0x21'', plr_sourceIntentCommitment = ''0x32'', plr_status = PositionOpen,
     plr_updatedAt = 0\<rparr>"

lemma demo_proved_store_eq: "demo_proved_store = new_ProtocolStore\<lparr>st_proofs := [proofKey demo_proof]\<rparr>"
  by (simp add: demo_proved_store_def recordProof_def js_simps new_ProtocolStore_def sadd_def)

theorem settlement_accepted_witness:
  "\<exists>t. addSettlement demo_host 0 0 demo_settlement [demo_opening] [] [] [] demo_proved_store = (Inr (), t)
     \<and> (\<exists>i<2. st_positionCommitments t ! i = ''0x12''
          \<and> mget (st_positionLifecycle t) ''0x12'' = Some (demo_opening\<lparr>plr_positionIndex := Some i\<rparr>))"
proof -
  have "\<exists>t. addSettlement demo_host 0 0 demo_settlement [demo_opening] [] [] [] demo_proved_store = (Inr (), t)
    \<and> mget (st_settlements t) (settlementKey demo_settlement) = Some demo_settlement
    \<and> st_positionCommitments t = st_positionCommitments demo_proved_store @ bs_newCommitments demo_settlement
    \<and> (\<forall>p\<in>set [demo_opening]. \<exists>i<length (st_positionCommitments t).
        st_positionCommitments t ! i = plr_positionCommitment p
        \<and> mget (st_positionLifecycle t) (plr_positionCommitment p) = Some (p\<lparr>plr_positionIndex := Some i\<rparr>))
    \<and> (\<forall>r\<in>set []. mget (st_residualOrders t) (ror_intentCommitment r) = Some r)
    \<and> set (st_spentNullifiers t) = set (bs_spentNullifiers demo_settlement) \<union> set (st_spentNullifiers demo_proved_store)"
    by (rule settlement_accepted [where us = "[]"])
      (simp_all add: demo_proved_store_eq new_ProtocolStore_def demo_settlement_def demo_opening_def hasProof_def
        validatePositionOpenings_def validateResidualOrders_def)
  moreover have "length (st_positionCommitments demo_proved_store @ bs_newCommitments demo_settlement) = 2"
    "plr_positionCommitment demo_opening = ''0x12''"
    by (simp_all add: demo_proved_store_eq new_ProtocolStore_def demo_settlement_def demo_opening_def)
  ultimately show ?thesis by force
qed

text \<open>C38: A settlement that passes the checks but spends a nullifier twice, or one that is spent already, is
  rejected half way: the error is \<open>nullifier already spent\<close> and no settlement is stored, but its new
  position commitments stay in the position tree of the store.\<close>

theorem settlement_rejected_midway:
  assumes "\<not> mhas (st_settlements s) (settlementKey b)" "bs_matchTranscriptDigest b \<noteq> []" "hasProof (bs_proof b) s"
    and "validatePositionOpenings b os = Inr ()" "validateResidualOrders b rs = Inr ()"
    and bad: "\<not> distinct (bs_spentNullifiers b) \<or> set (bs_spentNullifiers b) \<inter> set (st_spentNullifiers s) \<noteq> {}"
  shows "\<exists>t. addSettlement h now settledAt b os rs es ps s = (Inl ''nullifier already spent'', t)
    \<and> st_settlements t = st_settlements s
    \<and> set (st_positionCommitments t) = set (st_positionCommitments s) \<union> set (bs_newCommitments b)"
proof -
  let ?s1 = "settlement_leaves b s"
  obtain r2 s2 where s2: "eachA spend (bs_spentNullifiers b) ?s1 = (r2, s2)" by fastforce
  then obtain xs where xs: "s2 = ?s1\<lparr>st_spentNullifiers := xs\<rparr>" "case r2 of
       Inr _ \<Rightarrow> distinct (bs_spentNullifiers b) \<and> set (bs_spentNullifiers b) \<inter> set (st_spentNullifiers ?s1) = {}
         \<and> set xs = set (bs_spentNullifiers b) \<union> set (st_spentNullifiers ?s1)
     | Inl e \<Rightarrow> e = ''nullifier already spent''
         \<and> (\<not> distinct (bs_spentNullifiers b) \<or> set (bs_spentNullifiers b) \<inter> set (st_spentNullifiers ?s1) \<noteq> {})"
    by (rule eachA_spend)
  have "r2 = Inl ''nullifier already spent''"
    using xs(2) bad by (auto simp: settlement_leaves_def split: sum.splits)
  with s2 have "applySettlement h now settledAt b os rs es ps s = (Inl ''nullifier already spent'', s2)"
    by (simp add: applySettlement_def Let_def js_simps settlement_leaves_def stepsA.simps(2))
  then show ?thesis
    using assms(1-5) xs(1) by (auto simp: addSettlement_run settlement_leaves_def set_fold_sadd)
qed

theorem settlement_rejected_midway_witness:
  "\<exists>t. addSettlement demo_host 0 0 (demo_settlement\<lparr>bs_spentNullifiers := [''0x13'', ''0x13'']\<rparr>) [demo_opening] [] [] []
      demo_proved_store = (Inl ''nullifier already spent'', t)
    \<and> st_settlements t = [] \<and> set (st_positionCommitments t) = {''0x11'', ''0x12''}"
proof -
  let ?b = "demo_settlement\<lparr>bs_spentNullifiers := [''0x13'', ''0x13'']\<rparr>"
  have "\<exists>t. addSettlement demo_host 0 0 ?b [demo_opening] [] [] [] demo_proved_store = (Inl ''nullifier already spent'', t)
    \<and> st_settlements t = st_settlements demo_proved_store
    \<and> set (st_positionCommitments t) = set (st_positionCommitments demo_proved_store) \<union> set (bs_newCommitments ?b)"
    by (rule settlement_rejected_midway)
      (simp_all add: demo_proved_store_eq new_ProtocolStore_def demo_settlement_def demo_opening_def hasProof_def
        validatePositionOpenings_def validateResidualOrders_def)
  then show ?thesis by (auto simp: demo_proved_store_eq new_ProtocolStore_def demo_settlement_def)
qed

text \<open>\<open>addIntent\<close> accepts exactly the new intents with public bindings and payload commitment, a matching
  private payload if there is one, a recorded proof, the current margin root, an unspent nullifier and no
  order under the same nullifier that is not cancelled. An accepted intent has an open order; a rejected one
  changes nothing but possibly the stored private payload.\<close>

theorem intent_accepted:
  "\<exists>res t. addIntent h now r private s = (res, t)
   \<and> (res = Inr () \<longleftrightarrow> \<not> mhas (st_intents s) (ir_intentCommitment r)
        \<and> ir_batchDigest r \<noteq> [] \<and> ir_marketDigest r \<noteq> [] \<and> ir_ownerCommitmentField r \<noteq> []
        \<and> ir_matchingPayloadCommitment r \<noteq> []
        \<and> (case private of None \<Rightarrow> True | Some payload \<Rightarrow> assertPrivateMatchIntent h (matchRecordOfIntent r) payload = Inr ())
        \<and> hasProof (ir_proof r) s \<and> marginMembershipRoot h s = Inr (ir_marginRoot r)
        \<and> ir_noteNullifier r \<notin> set (st_spentNullifiers s)
        \<and> \<not> (\<exists>i\<in>set (mvalues (st_intents s)). ir_noteNullifier i = ir_noteNullifier r
            \<and> map_option olr_status (mget (st_orderLifecycle s) (ir_intentCommitment i)) \<noteq> Some OrderCancelled))
   \<and> (case res of
        Inr _ \<Rightarrow> mget (st_intents t) (ir_intentCommitment r) = Some r
          \<and> map_option olr_status (mget (st_orderLifecycle t) (ir_intentCommitment r)) = Some OrderOpen
      | Inl _ \<Rightarrow> t = s \<or> (\<exists>payload. private = Some payload
          \<and> t = s\<lparr>st_privateMatchIntents := mset_at (ir_intentCommitment r) payload (st_privateMatchIntents s)\<rparr>))"
  (is "\<exists>res t. _ \<and> ?A res t")
proof -
  obtain res t where m: "addIntent h now r private s = (res, t)" by fastforce
  note run = m [unfolded addIntent_def assertProof_def js_simps keepPrivateMatchIntent_run intent_locked_def]
  have key: "mr_intentCommitment (matchRecordOfIntent r) = ir_intentCommitment r"
    by (simp add: matchRecordOfIntent_def)
  show ?thesis
  proof (rule exI [of _ res], rule exI [of _ t], rule conjI [OF m], cases "private")
    case None
    with run show "?A res t"
      by (cases "marginMembershipRoot h s") (auto simp: open_order_def split: if_splits)
  next
    case (Some payload)
    with run key show "?A res t"
      by (cases "marginMembershipRoot h s"; cases "assertPrivateMatchIntent h (matchRecordOfIntent r) payload")
        (auto simp: hasProof_def marginMembershipRoot_def open_order_def split: if_splits sum.splits)
  qed
qed

end
