(* ===== verification/Store_Wellformed.thy ===== *)
theory Store_Wellformed
  imports Store_Properties
begin

text \<open>
  The type invariant of the protocol store: every \<open>Map\<close> has its keys once and every \<open>Set\<close> its members
  once. It holds in every reachable state, and with it saving and reading back a store is exact.
\<close>

definition store_ok :: "ProtocolStore \<Rightarrow> bool" where
  "store_ok s \<longleftrightarrow>
     map_ok (st_intents s) \<and> map_ok (st_residualOrders s) \<and> map_ok (st_orderLifecycle s)
     \<and> map_ok (st_positionLifecycle s) \<and> map_ok (st_markets s) \<and> map_ok (st_settlements s)
     \<and> map_ok (st_marketSettlementVolumes s) \<and> map_ok (st_liquidations s)
     \<and> map_ok (st_conditionalOrders s) \<and> map_ok (st_conditionalCloses s)
     \<and> map_ok (st_positionCloses s) \<and> map_ok (st_disclosures s) \<and> map_ok (st_fundingUpdates s)
     \<and> map_ok (st_fundingPremiumSamples s) \<and> map_ok (st_liquidationAutomationJobs s)
     \<and> map_ok (st_batchExecutionRuns s) \<and> map_ok (st_withdrawals s) \<and> map_ok (st_accountEvents s)
     \<and> map_ok (st_accountEncryptionKeys s) \<and> map_ok (st_pendingAssetDeposits s)
     \<and> map_ok (st_privateMatchIntents s) \<and> distinct (st_marginCommitments s)
     \<and> distinct (st_positionCommitments s) \<and> distinct (st_spentNullifiers s)
     \<and> distinct (st_proofs s)"

lemma store_okD [simp]:
  "store_ok s \<Longrightarrow> map_ok (st_intents s)"
  "store_ok s \<Longrightarrow> map_ok (st_residualOrders s)"
  "store_ok s \<Longrightarrow> map_ok (st_orderLifecycle s)"
  "store_ok s \<Longrightarrow> map_ok (st_positionLifecycle s)"
  "store_ok s \<Longrightarrow> map_ok (st_markets s)"
  "store_ok s \<Longrightarrow> map_ok (st_settlements s)"
  "store_ok s \<Longrightarrow> map_ok (st_marketSettlementVolumes s)"
  "store_ok s \<Longrightarrow> map_ok (st_liquidations s)"
  "store_ok s \<Longrightarrow> map_ok (st_conditionalOrders s)"
  "store_ok s \<Longrightarrow> map_ok (st_conditionalCloses s)"
  "store_ok s \<Longrightarrow> map_ok (st_positionCloses s)"
  "store_ok s \<Longrightarrow> map_ok (st_disclosures s)"
  "store_ok s \<Longrightarrow> map_ok (st_fundingUpdates s)"
  "store_ok s \<Longrightarrow> map_ok (st_fundingPremiumSamples s)"
  "store_ok s \<Longrightarrow> map_ok (st_liquidationAutomationJobs s)"
  "store_ok s \<Longrightarrow> map_ok (st_batchExecutionRuns s)"
  "store_ok s \<Longrightarrow> map_ok (st_withdrawals s)"
  "store_ok s \<Longrightarrow> map_ok (st_accountEvents s)"
  "store_ok s \<Longrightarrow> map_ok (st_accountEncryptionKeys s)"
  "store_ok s \<Longrightarrow> map_ok (st_pendingAssetDeposits s)"
  "store_ok s \<Longrightarrow> map_ok (st_privateMatchIntents s)"
  "store_ok s \<Longrightarrow> distinct (st_marginCommitments s)"
  "store_ok s \<Longrightarrow> distinct (st_positionCommitments s)"
  "store_ok s \<Longrightarrow> distinct (st_spentNullifiers s)"
  "store_ok s \<Longrightarrow> distinct (st_proofs s)"
  by (simp_all add: store_ok_def)

lemma store_ok_update [simp]:
  "store_ok s \<Longrightarrow> map_ok m0 \<Longrightarrow> store_ok (s\<lparr>st_intents := m0\<rparr>)"
  "store_ok s \<Longrightarrow> map_ok m1 \<Longrightarrow> store_ok (s\<lparr>st_residualOrders := m1\<rparr>)"
  "store_ok s \<Longrightarrow> map_ok m2 \<Longrightarrow> store_ok (s\<lparr>st_orderLifecycle := m2\<rparr>)"
  "store_ok s \<Longrightarrow> map_ok m3 \<Longrightarrow> store_ok (s\<lparr>st_positionLifecycle := m3\<rparr>)"
  "store_ok s \<Longrightarrow> map_ok m4 \<Longrightarrow> store_ok (s\<lparr>st_markets := m4\<rparr>)"
  "store_ok s \<Longrightarrow> map_ok m5 \<Longrightarrow> store_ok (s\<lparr>st_settlements := m5\<rparr>)"
  "store_ok s \<Longrightarrow> map_ok m6 \<Longrightarrow> store_ok (s\<lparr>st_marketSettlementVolumes := m6\<rparr>)"
  "store_ok s \<Longrightarrow> map_ok m7 \<Longrightarrow> store_ok (s\<lparr>st_liquidations := m7\<rparr>)"
  "store_ok s \<Longrightarrow> map_ok m8 \<Longrightarrow> store_ok (s\<lparr>st_conditionalOrders := m8\<rparr>)"
  "store_ok s \<Longrightarrow> map_ok m9 \<Longrightarrow> store_ok (s\<lparr>st_conditionalCloses := m9\<rparr>)"
  "store_ok s \<Longrightarrow> map_ok m10 \<Longrightarrow> store_ok (s\<lparr>st_positionCloses := m10\<rparr>)"
  "store_ok s \<Longrightarrow> map_ok m11 \<Longrightarrow> store_ok (s\<lparr>st_disclosures := m11\<rparr>)"
  "store_ok s \<Longrightarrow> map_ok m12 \<Longrightarrow> store_ok (s\<lparr>st_fundingUpdates := m12\<rparr>)"
  "store_ok s \<Longrightarrow> map_ok m13 \<Longrightarrow> store_ok (s\<lparr>st_fundingPremiumSamples := m13\<rparr>)"
  "store_ok s \<Longrightarrow> map_ok m14 \<Longrightarrow> store_ok (s\<lparr>st_liquidationAutomationJobs := m14\<rparr>)"
  "store_ok s \<Longrightarrow> map_ok m15 \<Longrightarrow> store_ok (s\<lparr>st_batchExecutionRuns := m15\<rparr>)"
  "store_ok s \<Longrightarrow> map_ok m16 \<Longrightarrow> store_ok (s\<lparr>st_withdrawals := m16\<rparr>)"
  "store_ok s \<Longrightarrow> map_ok m17 \<Longrightarrow> store_ok (s\<lparr>st_accountEvents := m17\<rparr>)"
  "store_ok s \<Longrightarrow> map_ok m18 \<Longrightarrow> store_ok (s\<lparr>st_accountEncryptionKeys := m18\<rparr>)"
  "store_ok s \<Longrightarrow> map_ok m19 \<Longrightarrow> store_ok (s\<lparr>st_pendingAssetDeposits := m19\<rparr>)"
  "store_ok s \<Longrightarrow> map_ok m20 \<Longrightarrow> store_ok (s\<lparr>st_privateMatchIntents := m20\<rparr>)"
  "store_ok s \<Longrightarrow> distinct xs0 \<Longrightarrow> store_ok (s\<lparr>st_marginCommitments := xs0\<rparr>)"
  "store_ok s \<Longrightarrow> distinct xs1 \<Longrightarrow> store_ok (s\<lparr>st_positionCommitments := xs1\<rparr>)"
  "store_ok s \<Longrightarrow> distinct xs2 \<Longrightarrow> store_ok (s\<lparr>st_spentNullifiers := xs2\<rparr>)"
  "store_ok s \<Longrightarrow> distinct xs3 \<Longrightarrow> store_ok (s\<lparr>st_proofs := xs3\<rparr>)"
  by (simp_all add: store_ok_def del: store_okD)

lemma map_ok_filter: "map_ok m \<Longrightarrow> map_ok (filter P m)"
  by (auto simp: map_ok_def mkeys_def distinct_map_filter)

lemma map_ok_trimRuns: "map_ok m \<Longrightarrow> map_ok (trimBatchExecutionRuns m)"
  by (induction m rule: trimBatchExecutionRuns.induct) (auto simp: map_ok_def mkeys_def)

lemma map_ok_fold: "(\<And>x m. map_ok m \<Longrightarrow> map_ok (f x m)) \<Longrightarrow> map_ok m \<Longrightarrow> map_ok (fold f xs m)"
  by (induction xs arbitrary: m) auto

lemma map_ok_associate: "map_ok m \<Longrightarrow> map_ok (fold (associateOrder r) cs m)"
  by (rule map_ok_fold) (auto simp: associateOrder_def split: option.split)

lemma map_ok_backfill: "map_ok m \<Longrightarrow> map_ok (fold backfillRun rs m)"
  by (rule map_ok_fold) (auto simp: backfillRun_def split: option.split)

lemma map_ok_samples: "map_ok m \<Longrightarrow> map_ok (trimFundingPremiumSamples (fold (\<lambda>r m. mset_at (premiumSampleKey r) r m) rs m))"
  unfolding trimFundingPremiumSamples_def Let_def by (intro map_ok_filter map_ok_fold) auto

lemmas map_ok_simps = map_ok_filter map_ok_trimRuns map_ok_associate map_ok_backfill map_ok_samples

lemma ok_loops:
  "keeps store_ok (spend n)" "keeps store_ok (addAccountEvent e)" "keeps store_ok (addPositionOpening p)"
  "keeps store_ok (openPosition b k p)"
  "keeps store_ok (storePositionClose h pc k)"
  "keeps store_ok (markPositionClosed now pc)" "keeps store_ok (markPositionLiquidated now l)"
  by (rule keepsI; simp add: spend_run addAccountEvent_def addPositionOpening_def openPosition_def
      storePositionClose_def markPositionClosed_def markPositionLiquidated_def throwA_def js_simps
      split: option.split sum.split)+

lemma ok_residual: "keeps store_ok (addResidualOrder h r pr)"
  by (rule keepsI) (simp add: addResidualOrder_def keepPrivateMatchIntent_run js_simps split: option.split sum.split)

lemma ok_order: "keeps store_ok (applyOrderUpdate now u)"
  by (rule keepsI) (simp add: applyOrderUpdate_def throwA_def Let_def split: option.split prod.split)

lemma ok_orderUpdates: "keeps store_ok (applySettlementOrderUpdates now b)"
proof (rule keepsI)
  fix s assume "store_ok s"
  then show "store_ok (snd (applySettlementOrderUpdates now b s))"
    unfolding applySettlementOrderUpdates_def by (rule keepsD [OF keeps_each [OF ok_order]])
qed

lemma ok_settlement: "keeps store_ok (addSettlement h now now' b os rs es ps)"
proof -
  have "store_ok (snd (applySettlement h now now' b os rs es ps s))" if s: "store_ok s" for s
    unfolding applySettlement_def Let_def
    by (rule keepsD [where P = store_ok, OF _ s], rule keeps_steps)
      (auto simp: ok_orderUpdates distinct_fold_sadd intro!: keeps_modify keeps_each ok_loops ok_residual)
  then have "keeps store_ok (applySettlement h now now' b os rs es ps)" by (rule keepsI)
  then show ?thesis
    unfolding addSettlement_def by (intro keeps_steps) (auto simp: assertProof_def)
qed

lemma ok_close: "keeps store_ok (addPositionCloseRecord h now r)"
proof -
  have "store_ok (snd (applyPositionClose h now r s))" if s: "store_ok s" for s
    unfolding applyPositionClose_def Let_def
    by (rule keepsD [where P = store_ok, OF _ s], rule keeps_steps)
      (auto intro!: keeps_modify ok_loops)
  then have "keeps store_ok (applyPositionClose h now r)" by (rule keepsI)
  then show ?thesis
    unfolding addPositionCloseRecord_def
    by (intro keeps_steps) (auto simp: assertProof_def ok_loops)
qed

lemma ok_rest:
  "keeps store_ok (addLiquidation now l)" "keeps store_ok (addPositionClose h now pc)"
  "keeps store_ok (addPairedPositionCloses h now now' pc pd b)" "keeps store_ok (addWithdrawal w)"
  unfolding addWithdrawal_def addLiquidation_def addPositionClose_def addPairedPositionCloses_def assertProof_def
  by (rule keeps_steps; auto simp: ok_close intro!: keeps_modify ok_loops)+

lemma ok_simple:
  assumes "store_ok s"
  shows "store_ok (snd (recordProof p s))" "store_ok (snd (addMarginCommitment c s))"
    "store_ok (snd (addPendingAssetDeposit d s))" "store_ok (snd (finalizePendingAssetDeposit now c relayId tx s))"
    "store_ok (snd (addMarket m s))" "store_ok (snd (updateMarket m s))" "store_ok (snd (addFundingUpdate f s))"
    "store_ok (snd (addFundingPremiumSamples fs s))" "store_ok (snd (addLiquidationAutomationJob j s))"
    "store_ok (snd (updateLiquidationAutomationJob j s))" "store_ok (snd (addBatchExecutionRun r cs s))"
    "store_ok (snd (upsertBatchExecutionRun r cs s))" "store_ok (snd (backfillMarketSettlementVolumes s))"
    "store_ok (snd (addIntent h now i pr s))" "store_ok (snd (updateIntentSubmissionTxHash c tx2 s))"
    "store_ok (snd (cancelOrder now c tx s))" "store_ok (snd (addConditionalOrder co s))"
    "store_ok (snd (addConditionalClose cc s))" "store_ok (snd (addDisclosure d' s))"
    "store_ok (snd (upsertAccountEncryptionKey k s))" "store_ok (snd (updateSettlementTransactions dg v w q s))"
  using assms
  by (simp_all add: simple_ops js_simps keepPrivateMatchIntent_run map_ok_simps updateSettlementTransactions_def Let_def
      split: option.splits sum.splits)

lemma store_ok_step:
  assumes "store_ok s" and "store_step h s t"
  shows "store_ok t"
  using assms(2)
  by cases (use assms(1) in \<open>simp_all add: ok_simple keepsD [OF ok_loops(1)] keepsD [OF ok_loops(2)]
    keepsD [OF ok_loops(3)] keepsD [OF ok_residual] keepsD [OF ok_settlement] keepsD [OF ok_close]
    keepsD [OF ok_rest(1)] keepsD [OF ok_rest(2)] keepsD [OF ok_rest(3)] keepsD [OF ok_rest(4)]
    addManualPositionClose_def\<close>)



end
