(* ===== verification/Store_Snapshot.thy ===== *)
theory Store_Snapshot
  imports Store_Wellformed
begin

text \<open>
  Saving and loading the protocol store: \<^verbatim>\<open>server/src/shared/state/protocol-snapshot.ts\<close> (the
  snapshot of the Mongo store) and \<^verbatim>\<open>persistent-store.ts\<close> (the store in a JSON file), with the
  BigInt tagging of their JSON. A snapshot has one optional list of entries per collection, as old
  snapshots may lack some; of the entries whose fields have defaults on loading (\<open>value.x ?? "0x0"\<close>)
  the document types carry these fields as options. The JSON text is represented by the tree it
  parses to.
\<close>

text \<open>\<open>x ?? d\<close>\<close>

definition nullish :: "'a option \<Rightarrow> 'a \<Rightarrow> 'a" where
  "nullish x d = (case x of None \<Rightarrow> d | Some v \<Rightarrow> v)"

lemma nullish_simps [simp]: "nullish None d = d" "nullish (Some v) d = v"
  by (simp_all add: nullish_def)

record IntentDoc =
  idoc_value :: IntentRecord
  idoc_batchDigest :: "Hex option"
  idoc_marketDigest :: "Hex option"
  idoc_noteChangeCommitment :: "Hex option"
  idoc_ownerCommitmentField :: "Hex option"

record PrivateIntentDoc =
  pdoc_value :: PrivateMatchIntent
  pdoc_noteChangeCommitment :: "Hex option"

record SettlementDoc =
  sdoc_value :: BatchSettlement
  sdoc_matchTranscriptDigest :: "Hex option"
  sdoc_residualMargins :: "int list option"
  sdoc_settlementDigest :: "Hex option"

text \<open>The document of a value in memory: every field that is set.\<close>

definition doc_of_intent :: "IntentRecord \<Rightarrow> IntentDoc" where
  "doc_of_intent r = \<lparr>idoc_value = r, idoc_batchDigest = Some (ir_batchDigest r),
     idoc_marketDigest = Some (ir_marketDigest r),
     idoc_noteChangeCommitment = Some (ir_noteChangeCommitment r),
     idoc_ownerCommitmentField = Some (ir_ownerCommitmentField r)\<rparr>"

definition doc_of_private :: "PrivateMatchIntent \<Rightarrow> PrivateIntentDoc" where
  "doc_of_private r = \<lparr>pdoc_value = r, pdoc_noteChangeCommitment = Some (pmi_noteChangeCommitment r)\<rparr>"

definition doc_of_settlement :: "BatchSettlement \<Rightarrow> SettlementDoc" where
  "doc_of_settlement r = \<lparr>sdoc_value = r, sdoc_matchTranscriptDigest = Some (bs_matchTranscriptDigest r),
     sdoc_residualMargins = Some (bs_residualMargins r),
     sdoc_settlementDigest = Some (bs_settlementDigest r)\<rparr>"

text \<open>The values that loading stores.\<close>

definition intent_of_doc :: "IntentDoc \<Rightarrow> IntentRecord" where
  "intent_of_doc d = (idoc_value d)\<lparr>ir_batchDigest := nullish (idoc_batchDigest d) ZERO_HEX,
     ir_marketDigest := nullish (idoc_marketDigest d) ZERO_HEX,
     ir_noteChangeCommitment := nullish (idoc_noteChangeCommitment d) ZERO_HEX,
     ir_ownerCommitmentField := nullish (idoc_ownerCommitmentField d) ZERO_HEX\<rparr>"

definition private_of_doc :: "PrivateIntentDoc \<Rightarrow> PrivateMatchIntent" where
  "private_of_doc d = (pdoc_value d)\<lparr>pmi_noteChangeCommitment :=
     nullish (pdoc_noteChangeCommitment d) ZERO_HEX\<rparr>"

definition settlement_of_doc :: "SettlementDoc \<Rightarrow> BatchSettlement" where
  "settlement_of_doc d = (sdoc_value d)\<lparr>
     bs_matchTranscriptDigest := nullish (sdoc_matchTranscriptDigest d) ZERO_HEX,
     bs_marginChangeCommitments := Some (nullish (bs_marginChangeCommitments (sdoc_value d)) []),
     bs_residualMargins := nullish (sdoc_residualMargins d) [],
     bs_orderUpdates := Some (nullish (bs_orderUpdates (sdoc_value d)) []),
     bs_settlementDigest := nullish (sdoc_settlementDigest d) ZERO_HEX\<rparr>"

record ProtocolStoreSnapshot =
  sn_accountEvents :: "(Hex \<times> AccountEventRecord) list option"
  sn_accountEncryptionKeys :: "(Hex \<times> AccountEncryptionKeyRecord) list option"
  sn_batchExecutionRuns :: "(Hex \<times> BatchExecutionRunRecord) list option"
  sn_conditionalCloses :: "(Hex \<times> ConditionalOrderRecord) list option"
  sn_conditionalOrders :: "(Hex \<times> ConditionalOrderCommitment) list option"
  sn_disclosures :: "(Hex \<times> DisclosureRecord) list option"
  sn_fundingUpdates :: "(string \<times> FundingUpdateRecord) list option"
  sn_fundingPremiumSamples :: "(string \<times> FundingPremiumSampleRecord) list option"
  sn_intents :: "(Hex \<times> IntentDoc) list option"
  sn_liquidationAutomationJobs :: "(Hex \<times> LiquidationAutomationJobRecord) list option"
  sn_liquidations :: "(Hex \<times> LiquidationRecord) list option"
  sn_marginCommitments :: "Hex list option"
  sn_markets :: "(string \<times> MarketConfig) list option"
  sn_marketSettlementVolumes :: "(Hex \<times> MarketSettlementVolumeRecord) list option"
  sn_orderLifecycle :: "(Hex \<times> OrderLifecycleRecord) list option"
  sn_pendingAssetDeposits :: "(Hex \<times> PendingAssetDepositRecord) list option"
  sn_positionCloses :: "(Hex \<times> PositionCloseRecord) list option"
  sn_positionCommitments :: "Hex list option"
  sn_positionLifecycle :: "(Hex \<times> PositionLifecycleRecord) list option"
  sn_privateMatchIntents :: "(Hex \<times> PrivateIntentDoc) list option"
  sn_proofs :: "string list option"
  sn_residualOrders :: "(Hex \<times> ResidualOrderRecord) list option"
  sn_settlements :: "(string \<times> SettlementDoc) list option"
  sn_spentNullifiers :: "Hex list option"
  sn_withdrawals :: "(Hex \<times> WithdrawalRecord) list option"

subsection \<open>protocol-snapshot.ts\<close>

definition snapshotProtocolStore :: "ProtocolStore \<Rightarrow> ProtocolStoreSnapshot" where
  "snapshotProtocolStore s = \<lparr>
     sn_accountEvents = Some (st_accountEvents s),
      sn_accountEncryptionKeys = Some (st_accountEncryptionKeys s),
      sn_batchExecutionRuns = Some (retainedBatchExecutionRuns (st_batchExecutionRuns s)),
      sn_conditionalCloses = Some (st_conditionalCloses s),
      sn_conditionalOrders = Some (st_conditionalOrders s),
      sn_disclosures = Some (st_disclosures s), sn_fundingUpdates = Some (st_fundingUpdates s),
      sn_fundingPremiumSamples = Some (retainedFundingPremiumSamples (st_fundingPremiumSamples s)),
      sn_intents = Some (map (map_prod id doc_of_intent) (st_intents s)),
      sn_liquidationAutomationJobs = Some (st_liquidationAutomationJobs s),
      sn_liquidations = Some (st_liquidations s),
      sn_marginCommitments = Some (st_marginCommitments s), sn_markets = Some (st_markets s),
      sn_marketSettlementVolumes = Some (st_marketSettlementVolumes s),
      sn_orderLifecycle = Some (st_orderLifecycle s),
      sn_pendingAssetDeposits = Some (st_pendingAssetDeposits s),
      sn_positionCloses = Some (st_positionCloses s),
      sn_positionCommitments = Some (st_positionCommitments s),
      sn_positionLifecycle = Some (st_positionLifecycle s),
      sn_privateMatchIntents = Some (map (map_prod id doc_of_private) (st_privateMatchIntents s)),
      sn_proofs = Some (st_proofs s), sn_residualOrders = Some (st_residualOrders s),
      sn_settlements = Some (map (map_prod id doc_of_settlement) (st_settlements s)),
      sn_spentNullifiers = Some (st_spentNullifiers s), sn_withdrawals = Some (st_withdrawals s)\<rparr>"

definition applyProtocolStoreSnapshot ::
  "ProtocolStore \<Rightarrow> ProtocolStoreSnapshot \<Rightarrow> ProtocolStore" where
  "applyProtocolStoreSnapshot store snapshot =
     (let cleared = store\<lparr>
     st_marginCommitments := [], st_positionCommitments := [], st_spentNullifiers := [],
      st_intents := [], st_residualOrders := [], st_orderLifecycle := [],
      st_positionLifecycle := [], st_markets := [], st_settlements := [],
      st_marketSettlementVolumes := [], st_liquidations := [], st_conditionalOrders := [],
      st_conditionalCloses := [], st_positionCloses := [], st_disclosures := [],
      st_fundingUpdates := [], st_fundingPremiumSamples := [], st_liquidationAutomationJobs := [],
      st_batchExecutionRuns := [], st_withdrawals := [], st_proofs := [], st_accountEvents := [],
      st_accountEncryptionKeys := [], st_pendingAssetDeposits := [], st_privateMatchIntents := []\<rparr>;
          loaded = cleared\<lparr>
     st_accountEvents := map_new (nullish (sn_accountEvents snapshot) []),
      st_accountEncryptionKeys := map_new (nullish (sn_accountEncryptionKeys snapshot) []),
      st_pendingAssetDeposits := map_new (nullish (sn_pendingAssetDeposits snapshot) []),
      st_marginCommitments := set_new (nullish (sn_marginCommitments snapshot) []),
      st_positionCommitments := set_new (nullish (sn_positionCommitments snapshot) []),
      st_spentNullifiers := set_new (nullish (sn_spentNullifiers snapshot) []),
      st_intents := map_new (map (map_prod id intent_of_doc) (nullish (sn_intents snapshot) [])),
      st_residualOrders := map_new (nullish (sn_residualOrders snapshot) []),
      st_privateMatchIntents := map_new (map (map_prod id private_of_doc) (nullish (sn_privateMatchIntents snapshot) [])),
      st_orderLifecycle := map_new (nullish (sn_orderLifecycle snapshot) []),
      st_positionLifecycle := map_new (nullish (sn_positionLifecycle snapshot) []),
      st_markets := map_new (nullish (sn_markets snapshot) []),
      st_marketSettlementVolumes := map_new (nullish (sn_marketSettlementVolumes snapshot) []),
      st_settlements := map_new (map (map_prod id settlement_of_doc) (nullish (sn_settlements snapshot) [])),
      st_liquidations := map_new (nullish (sn_liquidations snapshot) []),
      st_conditionalOrders := map_new (nullish (sn_conditionalOrders snapshot) []),
      st_conditionalCloses := map_new (nullish (sn_conditionalCloses snapshot) []),
      st_positionCloses := map_new (nullish (sn_positionCloses snapshot) []),
      st_disclosures := map_new (nullish (sn_disclosures snapshot) []),
      st_fundingUpdates := map_new (nullish (sn_fundingUpdates snapshot) []),
      st_fundingPremiumSamples := map_new (retainedFundingPremiumSamples (nullish (sn_fundingPremiumSamples snapshot) [])),
      st_liquidationAutomationJobs := map_new (nullish (sn_liquidationAutomationJobs snapshot) []),
      st_batchExecutionRuns := map_new (retainedBatchExecutionRuns (nullish (sn_batchExecutionRuns snapshot) []))\<rparr>;
          backfilled = snd (backfillMarketSettlementVolumes loaded)
      in backfilled\<lparr>st_withdrawals := map_new (nullish (sn_withdrawals snapshot) []),
      st_proofs := set_new (nullish (sn_proofs snapshot) [])\<rparr>)"

subsection \<open>persistent-store.ts: the file\<close>

text \<open>
  \<open>for (... of undefined)\<close> is a TypeError. \<open>FileProtocolStore\<close> saves and loads no premium samples;
  its constructor loads into the new store, so that a throw leaves no object behind.
\<close>

definition entries_of :: "'a list option \<Rightarrow> 'a list result" where
  "entries_of x = (case x of None \<Rightarrow> throw ''TypeError: undefined is not iterable'' | Some es \<Rightarrow> Inr es)"

definition file_snapshot :: "ProtocolStore \<Rightarrow> ProtocolStoreSnapshot" where
  "file_snapshot s = \<lparr>
     sn_accountEvents = Some (st_accountEvents s),
      sn_accountEncryptionKeys = Some (st_accountEncryptionKeys s),
      sn_batchExecutionRuns = Some (retainedBatchExecutionRuns (st_batchExecutionRuns s)),
      sn_conditionalCloses = Some (st_conditionalCloses s),
      sn_conditionalOrders = Some (st_conditionalOrders s),
      sn_disclosures = Some (st_disclosures s), sn_fundingUpdates = Some (st_fundingUpdates s),
      sn_fundingPremiumSamples = None,
      sn_intents = Some (map (map_prod id doc_of_intent) (st_intents s)),
      sn_liquidationAutomationJobs = Some (st_liquidationAutomationJobs s),
      sn_liquidations = Some (st_liquidations s),
      sn_marginCommitments = Some (st_marginCommitments s), sn_markets = Some (st_markets s),
      sn_marketSettlementVolumes = Some (st_marketSettlementVolumes s),
      sn_orderLifecycle = Some (st_orderLifecycle s),
      sn_pendingAssetDeposits = Some (st_pendingAssetDeposits s),
      sn_positionCloses = Some (st_positionCloses s),
      sn_positionCommitments = Some (st_positionCommitments s),
      sn_positionLifecycle = Some (st_positionLifecycle s),
      sn_privateMatchIntents = Some (map (map_prod id doc_of_private) (st_privateMatchIntents s)),
      sn_proofs = Some (st_proofs s), sn_residualOrders = Some (st_residualOrders s),
      sn_settlements = Some (map (map_prod id doc_of_settlement) (st_settlements s)),
      sn_spentNullifiers = Some (st_spentNullifiers s), sn_withdrawals = Some (st_withdrawals s)\<rparr>"

definition file_load :: "ProtocolStoreSnapshot \<Rightarrow> ProtocolStore \<Rightarrow> ProtocolStore result" where
  "file_load snapshot store =
     (let cleared = store\<lparr>
     st_marginCommitments := [], st_positionCommitments := [], st_spentNullifiers := [],
      st_intents := [], st_residualOrders := [], st_orderLifecycle := [],
      st_positionLifecycle := [], st_markets := [], st_settlements := [],
      st_marketSettlementVolumes := [], st_liquidations := [], st_conditionalOrders := [],
      st_conditionalCloses := [], st_positionCloses := [], st_disclosures := [],
      st_fundingUpdates := [], st_liquidationAutomationJobs := [], st_batchExecutionRuns := [],
      st_withdrawals := [], st_proofs := [], st_accountEvents := [], st_accountEncryptionKeys := [],
      st_pendingAssetDeposits := [], st_privateMatchIntents := []\<rparr>
      in
      bindE (entries_of (sn_marginCommitments snapshot)) (\<lambda>marginCommitments.
      bindE (entries_of (sn_positionCommitments snapshot)) (\<lambda>positionCommitments.
      bindE (entries_of (sn_spentNullifiers snapshot)) (\<lambda>spentNullifiers.
      bindE (entries_of (sn_intents snapshot)) (\<lambda>intents.
      bindE (entries_of (sn_markets snapshot)) (\<lambda>markets.
      bindE (entries_of (sn_settlements snapshot)) (\<lambda>settlements.
      bindE (entries_of (sn_liquidations snapshot)) (\<lambda>liquidations.
      bindE (entries_of (sn_conditionalOrders snapshot)) (\<lambda>conditionalOrders.
      bindE (entries_of (sn_conditionalCloses snapshot)) (\<lambda>conditionalCloses.
      bindE (entries_of (sn_positionCloses snapshot)) (\<lambda>positionCloses.
      bindE (entries_of (sn_disclosures snapshot)) (\<lambda>disclosures.
      bindE (entries_of (sn_withdrawals snapshot)) (\<lambda>withdrawals.
      bindE (entries_of (sn_proofs snapshot)) (\<lambda>proofs.
      (let loaded = cleared\<lparr>
     st_accountEvents := map_new (nullish (sn_accountEvents snapshot) []),
      st_accountEncryptionKeys := map_new (nullish (sn_accountEncryptionKeys snapshot) []),
      st_pendingAssetDeposits := map_new (nullish (sn_pendingAssetDeposits snapshot) []),
      st_marginCommitments := set_new (marginCommitments),
      st_positionCommitments := set_new (positionCommitments),
      st_spentNullifiers := set_new (spentNullifiers),
      st_intents := map_new (map (map_prod id intent_of_doc) (intents)),
      st_residualOrders := map_new (nullish (sn_residualOrders snapshot) []),
      st_privateMatchIntents := map_new (map (map_prod id private_of_doc) (nullish (sn_privateMatchIntents snapshot) [])),
      st_orderLifecycle := map_new (nullish (sn_orderLifecycle snapshot) []),
      st_positionLifecycle := map_new (nullish (sn_positionLifecycle snapshot) []),
      st_markets := map_new (markets),
      st_marketSettlementVolumes := map_new (nullish (sn_marketSettlementVolumes snapshot) []),
      st_settlements := map_new (map (map_prod id settlement_of_doc) (settlements)),
      st_liquidations := map_new (liquidations),
      st_conditionalOrders := map_new (conditionalOrders),
      st_conditionalCloses := map_new (conditionalCloses),
      st_positionCloses := map_new (positionCloses), st_disclosures := map_new (disclosures),
      st_fundingUpdates := map_new (nullish (sn_fundingUpdates snapshot) []),
      st_liquidationAutomationJobs := map_new (nullish (sn_liquidationAutomationJobs snapshot) []),
      st_batchExecutionRuns := map_new (retainedBatchExecutionRuns (nullish (sn_batchExecutionRuns snapshot) []))\<rparr>;
          backfilled = snd (backfillMarketSettlementVolumes loaded)
       in Inr (backfilled\<lparr>st_withdrawals := map_new (withdrawals), st_proofs := set_new (proofs)\<rparr>))))))))))))))))"

text \<open>
  \<open>persist\<close> runs a mutation and, at depth one, writes the file. \<open>io\<close> is what the file system answers
  to the write and the rename: \<open>None\<close>, or the error it throws, which leaves the old file in place.
  \<open>super m\<close> runs the method of the base class. Its calls of overridden methods run at a depth above
  one and write nothing (\<open>persist_nested\<close>), so they are the plain methods.
\<close>

type_synonym file_io = "ProtocolStoreSnapshot \<Rightarrow> string option"

record FileStore =
  fs_store :: ProtocolStore
  fs_disk :: "ProtocolStoreSnapshot option"
  fs_saveDepth :: nat

definition new_FileStore :: "ProtocolStoreSnapshot option \<Rightarrow> FileStore result" where
  "new_FileStore disk =
     (case disk of
        None \<Rightarrow> Inr \<lparr>fs_store = new_ProtocolStore, fs_disk = None, fs_saveDepth = 0\<rparr>
      | Some snapshot \<Rightarrow> bindE (file_load snapshot new_ProtocolStore) (\<lambda>s.
          Inr \<lparr>fs_store = s, fs_disk = Some snapshot, fs_saveDepth = 0\<rparr>))"

definition super :: "(ProtocolStore, 'a) act \<Rightarrow> (FileStore, 'a) act" where
  "super m f = (let (r, s) = m (fs_store f) in (r, f\<lparr>fs_store := s\<rparr>))"

definition save :: "file_io \<Rightarrow> (FileStore, unit) act" where
  "save io f =
     (let snapshot = file_snapshot (fs_store f) in
      case io snapshot of
        Some e \<Rightarrow> (Inl e, f)
      | None \<Rightarrow> (Inr (), f\<lparr>fs_disk := Some snapshot\<rparr>))"

definition persist :: "file_io \<Rightarrow> (FileStore, 'a) act \<Rightarrow> (FileStore, 'a) act" where
  "persist io mutation f =
     (let (r, g) = bindA mutation (\<lambda>a g.
            if fs_saveDepth g = 1 then seqA (save io) (returnA a) g else returnA a g)
          (f\<lparr>fs_saveDepth := fs_saveDepth f + 1\<rparr>)
      in (r, g\<lparr>fs_saveDepth := fs_saveDepth g - 1\<rparr>))"

text \<open>A call of one of the overridden methods.\<close>

inductive file_call :: "file_io \<Rightarrow> host \<Rightarrow> FileStore \<Rightarrow> FileStore \<Rightarrow> bool" for io h where
  file_record_proof: "file_call io h x (snd (persist io (super (recordProof p)) x))"
| file_spend_nullifier: "file_call io h x (snd (persist io (super (spend n)) x))"
| file_add_margin_commitment: "file_call io h x (snd (persist io (super (addMarginCommitment c)) x))"
| file_add_deposit: "file_call io h x (snd (persist io (super (addPendingAssetDeposit d)) x))"
| file_finalize_deposit: "file_call io h x (snd (persist io (super (finalizePendingAssetDeposit now c relayId tx)) x))"
| file_add_market: "file_call io h x (snd (persist io (super (addMarket m)) x))"
| file_update_market: "file_call io h x (snd (persist io (super (updateMarket m)) x))"
| file_add_funding: "file_call io h x (snd (persist io (super (addFundingUpdate f)) x))"
| file_add_samples: "file_call io h x (snd (persist io (super (addFundingPremiumSamples fs)) x))"
| file_add_job: "file_call io h x (snd (persist io (super (addLiquidationAutomationJob j)) x))"
| file_update_job: "file_call io h x (snd (persist io (super (updateLiquidationAutomationJob j)) x))"
| file_add_run: "file_call io h x (snd (persist io (super (addBatchExecutionRun r cs)) x))"
| file_upsert_run: "file_call io h x (snd (persist io (super (upsertBatchExecutionRun r cs)) x))"
| file_add_intent: "file_call io h x (snd (persist io (super (addIntent h now i p)) x))"
| file_update_intent: "file_call io h x (snd (persist io (super (updateIntentSubmissionTxHash c tx)) x))"
| file_cancel: "file_call io h x (snd (persist io (super (cancelOrder now c tx')) x))"
| file_add_residual: "file_call io h x (snd (persist io (super (addResidualOrder h r' p)) x))"
| file_add_opening: "file_call io h x (snd (persist io (super (addPositionOpening o')) x))"
| file_add_settlement: "file_call io h x (snd (persist io (super (addSettlement h now now' b os rs es ps)) x))"
| file_update_settlement: "file_call io h x (snd (persist io (super (updateSettlementTransactions c v w q)) x))"
| file_add_event: "file_call io h x (snd (persist io (super (addAccountEvent e)) x))"
| file_add_liquidation: "file_call io h x (snd (persist io (super (addLiquidation now l)) x))"
| file_add_conditional_order: "file_call io h x (snd (persist io (super (addConditionalOrder co)) x))"
| file_add_conditional_close: "file_call io h x (snd (persist io (super (addConditionalClose cc)) x))"
| file_add_close: "file_call io h x (snd (persist io (super (addPositionClose h now pc)) x))"
| file_add_manual_close: "file_call io h x (snd (persist io (super (addManualPositionClose h now pc)) x))"
| file_add_paired_closes: "file_call io h x (snd (persist io (super (addPairedPositionCloses h now now' pc pd conditional)) x))"
| file_add_disclosure: "file_call io h x (snd (persist io (super (addDisclosure d')) x))"
| file_add_withdrawal: "file_call io h x (snd (persist io (super (addWithdrawal w')) x))"
| file_upsert_key: "file_call io h x (snd (persist io (super (upsertAccountEncryptionKey k)) x))"

text \<open>The runs of the store: calls, with any answers of the file system, and restarts from the file.\<close>

inductive file_reachable :: "host \<Rightarrow> FileStore \<Rightarrow> bool" for h where
  file_start: "new_FileStore None = Inr f \<Longrightarrow> file_reachable h f"
| file_calls: "file_reachable h f \<Longrightarrow> file_call io h f g \<Longrightarrow> file_reachable h g"
| file_restart: "file_reachable h f \<Longrightarrow> new_FileStore (fs_disk f) = Inr g \<Longrightarrow> file_reachable h g"

subsection \<open>BigInts in JSON\<close>

text \<open>
  \<open>BigInt(s)\<close> of a string: white space at the ends is ignored, nothing is 0, and a decimal literal may
  have a sign; other literals are those of \<open>bigint_of_hex\<close> or an error.
\<close>

definition blank :: "char \<Rightarrow> bool" where
  "blank c \<longleftrightarrow> c \<in> {CHR '' '', CHR 0x09, CHR 0x0A, CHR 0x0B, CHR 0x0C, CHR 0x0D}"

definition js_trim :: "string \<Rightarrow> string" where
  "js_trim s = rev (dropWhile blank (rev (dropWhile blank s)))"

definition decimal_of :: "string \<Rightarrow> int result" where
  "decimal_of ds =
     (case (if ds = [] then None else str_nat 10 0 ds) of
        Some n \<Rightarrow> Inr (int n) | None \<Rightarrow> throw ''SyntaxError: Cannot convert to a BigInt'')"

definition bigint_of_string :: "string \<Rightarrow> int result" where
  "bigint_of_string s =
     (case js_trim s of
        [] \<Rightarrow> Inr 0
      | c # cs \<Rightarrow>
          if c = CHR ''-'' then bindE (decimal_of cs) (\<lambda>n. Inr (- n))
          else if c = CHR ''+'' then decimal_of cs
          else if cs \<noteq> [] \<and> c = CHR ''0'' \<and> hd cs = CHR ''x'' then bigint_of_hex (c # cs)
          else decimal_of (c # cs))"

definition bigintReplacer :: "jsval \<Rightarrow> jsval" where
  "bigintReplacer v = (case v of JBig n \<Rightarrow> JObj [(''__pnlxBigInt'', JStr (int_str n))] | _ \<Rightarrow> v)"

definition bigintReviver :: "jsval \<Rightarrow> jsval result" where
  "bigintReviver v =
     (case v of
        JObj es \<Rightarrow>
          (case map_of es ''__pnlxBigInt'' of
             Some (JStr s) \<Rightarrow> bindE (bigint_of_string s) (\<lambda>n. Inr (JBig n))
           | _ \<Rightarrow> Inr v)
      | _ \<Rightarrow> Inr v)"

text \<open>
  \<open>JSON.stringify(v, bigintReplacer)\<close> replaces a value before its parts, \<open>JSON.parse(raw, bigintReviver)\<close>
  revives the parts before the value.
\<close>

lemma mapE_cong [fundef_cong]:
  "xs = ys \<Longrightarrow> (\<And>x. x \<in> set ys \<Longrightarrow> f x = g x) \<Longrightarrow> mapE f xs = mapE g ys"
  by (induction xs arbitrary: ys) auto

fun stringifySnapshot :: "jsval \<Rightarrow> jsval" where
  "stringifySnapshot (JArr vs) = JArr (map stringifySnapshot vs)"
| "stringifySnapshot (JObj es) = JObj (map (\<lambda>(k, v). (k, stringifySnapshot v)) es)"
| "stringifySnapshot v = bigintReplacer v"

fun parseSnapshot :: "jsval \<Rightarrow> jsval result" where
  "parseSnapshot (JArr vs) = bindE (mapE parseSnapshot vs) (\<lambda>vs'. bigintReviver (JArr vs'))"
| "parseSnapshot (JObj es) =
     bindE (mapE (\<lambda>(k, v). bindE (parseSnapshot v) (\<lambda>v'. Inr (k, v'))) es) (\<lambda>es'. bigintReviver (JObj es'))"
| "parseSnapshot v = bigintReviver v"

subsection \<open>Lemmas: JSON\<close>

fun untagged :: "jsval \<Rightarrow> bool" where
  "untagged (JArr vs) \<longleftrightarrow> (\<forall>v\<in>set vs. untagged v)"
| "untagged (JObj es) \<longleftrightarrow> ''__pnlxBigInt'' \<notin> fst ` set es \<and> (\<forall>e\<in>set es. untagged (snd e))"
| "untagged v \<longleftrightarrow> True"

lemma nat_str_digits: "c \<in> set (nat_str 10 n) \<Longrightarrow> c \<in> set ''0123456789''"
proof (induction n rule: less_induct)
  case (less n)
  have digit: "digit_char d \<in> set ''0123456789''" if "d < 10" for d
    using that by (auto simp: digit_char_def less_Suc_eq numeral_eq_Suc)
  show ?case
  proof (cases "n < 10")
    case True
    with less.prems digit show ?thesis by (simp add: nat_str.simps [of 10 n])
  next
    case False
    with less.prems have "c \<in> set (nat_str 10 (n div 10)) \<or> c = digit_char (n mod 10)"
      by (auto simp: nat_str.simps [of 10 n])
    with less.IH [of "n div 10"] digit [of "n mod 10"] False show ?thesis by auto
  qed
qed

lemma nat_str_nonempty: "nat_str b n \<noteq> []"
  by (simp add: nat_str.simps [of b n])

lemma js_trim_id: "(\<And>c. c \<in> set s \<Longrightarrow> \<not> blank c) \<Longrightarrow> js_trim s = s"
proof -
  assume a: "\<And>c. c \<in> set s \<Longrightarrow> \<not> blank c"
  then have "dropWhile blank s = s" by (cases s) auto
  moreover from a have "\<And>c. c \<in> set (rev s) \<Longrightarrow> \<not> blank c" by simp
  then have "dropWhile blank (rev s) = rev s" by (cases "rev s") auto
  ultimately show ?thesis by (simp add: js_trim_def)
qed

lemma bigint_of_int_str: "bigint_of_string (int_str n) = Inr n"
proof -
  define m where "m = nat \<bar>n\<bar>"
  define ds where "ds = nat_str 10 m"
  have ds: "ds \<noteq> []" "\<And>c. c \<in> set ds \<Longrightarrow> c \<in> set ''0123456789''"
    using nat_str_digits [of _ m] by (auto simp: ds_def nat_str_nonempty)
  have dec: "decimal_of ds = Inr (int m)"
    using ds(1) by (simp add: decimal_of_def ds_def str_nat_nat_str)
  have plain: "\<not> blank c" "c \<noteq> CHR ''-''" "c \<noteq> CHR ''+''" "c \<noteq> CHR ''x''" if "c \<in> set ds" for c
    using ds(2) [OF that] by (auto simp: blank_def)
  show ?thesis
  proof (cases "n < 0")
    case True
    then have s: "int_str n = CHR ''-'' # ds" by (simp add: int_str_def ds_def m_def)
    have "js_trim (int_str n) = CHR ''-'' # ds" unfolding s by (rule js_trim_id) (use plain in \<open>auto simp: blank_def\<close>)
    with dec True show ?thesis by (simp add: bigint_of_string_def m_def)
  next
    case False
    then have s: "int_str n = ds" by (simp add: int_str_def ds_def m_def)
    obtain c cs where c: "ds = c # cs" using ds(1) by (cases ds) auto
    have "js_trim ds = ds" by (rule js_trim_id) (use plain in auto)
    moreover have "c \<noteq> CHR ''-''" "c \<noteq> CHR ''+''" "cs \<noteq> [] \<Longrightarrow> hd cs \<noteq> CHR ''x''"
      using plain c by auto
    ultimately show ?thesis using dec c s False by (cases cs) (simp_all add: bigint_of_string_def m_def)
  qed
qed

text \<open>What \<open>bigintReplacer\<close> writes \<open>bigintReviver\<close> reads back: a value whose objects have no property
  \<open>__pnlxBigInt\<close> survives \<open>JSON.stringify\<close> and \<open>JSON.parse\<close> with its BigInts, of any sign and size.\<close>

theorem snapshot_json_roundtrip:
  assumes "untagged v"
  shows "parseSnapshot (stringifySnapshot v) = Inr v"
  using assms
proof (induction v rule: stringifySnapshot.induct)
  case (1 vs)
  have "mapE parseSnapshot (map stringifySnapshot vs) = Inr vs"
    using 1 by (induction vs) auto
  then show ?case by (simp add: bigintReviver_def)
next
  case (2 es)
  have "mapE (\<lambda>(k, v). bindE (parseSnapshot v) (\<lambda>v'. Inr (k, v'))) (map (\<lambda>(k, v). (k, stringifySnapshot v)) es) = Inr es"
    using 2 by (induction es) force+
  moreover have "map_of es ''__pnlxBigInt'' = None" using 2(2) by (simp add: map_of_eq_None_iff)
  ultimately show ?case by (simp add: bigintReviver_def)
qed (simp_all add: bigintReplacer_def bigintReviver_def bigint_of_int_str)

theorem snapshot_json_roundtrip_witness:
  "parseSnapshot (stringifySnapshot (JObj [(''price'', JBig (- 70000000000000)), (''tags'', JArr [JNull, JStr ''5''])]))
     = Inr (JObj [(''price'', JBig (- 70000000000000)), (''tags'', JArr [JNull, JStr ''5''])])"
  by (rule snapshot_json_roundtrip) simp

end
