(* ===== verification/Store_Durability.thy ===== *)
theory Store_Durability
  imports Store_Snapshot
begin

text \<open>
  What survives a restart. Reading back a snapshot gives the store that was saved up to retention,
  backfilled volumes and filled-in defaults; a persisted call changes the file only with a snapshot
  of the state it leaves; and the invariants of the protocol store hold in every state that calls,
  failing writes and restarts reach.
\<close>

subsection \<open>Lemmas: reading back\<close>

lemma map_new_ok: "map_ok m \<Longrightarrow> map_new m = m"
  by (rule map_new_distinct) (simp add: map_ok_def mkeys_def)

lemma map_prod_snd: "map_prod id f = (\<lambda>(k, v). (k, f v))"
  by (simp add: fun_eq_iff)

lemma map_ok_map: "map_ok m \<Longrightarrow> map_ok (map (map_prod id f) m)"
  by (simp add: map_ok_def mkeys_def comp_def)

lemma map_new_map: "map_ok m \<Longrightarrow> map_new (map (map_prod id f) m) = map (map_prod id f) m"
  by (rule map_new_ok [OF map_ok_map])

lemma intent_of_doc_of [simp]: "intent_of_doc (doc_of_intent r) = r"
  by (cases r) (simp add: intent_of_doc_def doc_of_intent_def)

lemma private_of_doc_of [simp]: "private_of_doc (doc_of_private r) = r"
  by (cases r) (simp add: private_of_doc_def doc_of_private_def)

text \<open>The settlement that is read back: two optional fields have become empty lists.\<close>

definition settlement_filled :: "BatchSettlement \<Rightarrow> BatchSettlement" where
  "settlement_filled b = b\<lparr>bs_marginChangeCommitments := Some (nullish (bs_marginChangeCommitments b) []),
     bs_orderUpdates := Some (nullish (bs_orderUpdates b) [])\<rparr>"

lemma settlement_of_doc_of [simp]: "settlement_of_doc (doc_of_settlement b) = settlement_filled b"
  by (cases b) (simp add: settlement_of_doc_def doc_of_settlement_def settlement_filled_def)

lemma intents_back [simp]: "map (map_prod id intent_of_doc) (map (map_prod id doc_of_intent) m) = m"
  by (simp add: comp_def map_prod_def case_prod_unfold)

lemma privates_back [simp]: "map (map_prod id private_of_doc) (map (map_prod id doc_of_private) m) = m"
  by (simp add: comp_def map_prod_def case_prod_unfold)

lemma settlements_back [simp]: "map (map_prod id settlement_of_doc) (map (map_prod id doc_of_settlement) m)
    = map (map_prod id settlement_filled) m"
  by (simp add: comp_def map_prod_def case_prod_unfold)

lemma retained_runs_ok: "map_ok m \<Longrightarrow> map_ok (retainedBatchExecutionRuns m)"
  by (simp add: retainedBatchExecutionRuns_def map_ok_def mkeys_def drop_map [symmetric] del: drop_map)

lemma retained_runs_idem [simp]:
  "retainedBatchExecutionRuns (retainedBatchExecutionRuns m) = retainedBatchExecutionRuns m"
  by (simp add: retainedBatchExecutionRuns_def)

lemma retained_samples_ok: "map_ok m \<Longrightarrow> map_ok (retainedFundingPremiumSamples m)"
  unfolding retainedFundingPremiumSamples_def Let_def by (rule map_ok_filter)

lemma retained_samples_idem:
  assumes "map_ok m"
  shows "retainedFundingPremiumSamples (retainedFundingPremiumSamples m) = retainedFundingPremiumSamples m"
proof -
  let ?r = "retainedFundingPremiumSamples m" and ?N = FUNDING_PREMIUM_SAMPLE_RETENTION
  have "fst e \<in> set (retainSamples [] [] (rev ?r))" if e: "e \<in> set ?r" for e
  proof -
    let ?m = "fps_marketId (snd e)"
    have "length (of_market ?m ?r) \<le> ?N" using retained_newest [OF assms, of ?m] by (simp add: Let_def)
    then have "take ?N (of_market ?m (rev ?r)) = of_market ?m (rev ?r)" by (simp add: rev_filter [symmetric])
    moreover have "e \<in> set (of_market ?m (rev ?r))" using e by simp
    ultimately have "fst e \<in> fst ` set (take (?N - counted [] ?m) (of_market ?m (rev ?r)))"
      by (simp add: counted_def)
    then show ?thesis unfolding set_retainSamples by blast
  qed
  then show ?thesis
    by (simp add: retainedFundingPremiumSamples_def [of ?r] Let_def case_prod_unfold filter_id_conv)
qed

text \<open>The store that a snapshot of \<open>s\<close> is read back as, with the premium samples \<open>samples\<close>.\<close>

definition reloaded :: "(string, FundingPremiumSampleRecord) jsmap \<Rightarrow> ProtocolStore \<Rightarrow> ProtocolStore" where
  "reloaded samples s = s\<lparr>
     st_batchExecutionRuns := retainedBatchExecutionRuns (st_batchExecutionRuns s),
     st_fundingPremiumSamples := samples,
     st_settlements := map (map_prod id settlement_filled) (st_settlements s),
     st_marketSettlementVolumes :=
       fold backfillRun (mvalues (retainedBatchExecutionRuns (st_batchExecutionRuns s)))
         (st_marketSettlementVolumes s)\<rparr>"

lemmas back_simps = set_new_distinct map_new_ok map_new_map retained_runs_ok retained_samples_ok
  retained_samples_idem backfillMarketSettlementVolumes_def js_simps

text \<open>Applying the snapshot of a well-formed store gives the store back, whatever store it is applied to,
  except that only the retained runs and premium samples are left, the volumes of the retained settled
  runs are filled in, and a settlement without margin changes or order updates has empty lists there.\<close>

theorem snapshot_roundtrip:
  assumes "store_ok s"
  shows "applyProtocolStoreSnapshot s0 (snapshotProtocolStore s)
    = s\<lparr>st_batchExecutionRuns := retainedBatchExecutionRuns (st_batchExecutionRuns s),
        st_fundingPremiumSamples := retainedFundingPremiumSamples (st_fundingPremiumSamples s),
        st_settlements := map (map_prod id settlement_filled) (st_settlements s),
        st_marketSettlementVolumes :=
          fold backfillRun (mvalues (retainedBatchExecutionRuns (st_batchExecutionRuns s)))
            (st_marketSettlementVolumes s)\<rparr>"
  using assms
  by (cases s; cases s0)
    (simp add: applyProtocolStoreSnapshot_def snapshotProtocolStore_def back_simps store_ok_def Let_def
      del: map_map)

theorem snapshot_roundtrip_witness:
  "applyProtocolStoreSnapshot new_ProtocolStore (snapshotProtocolStore demo_store) = demo_store"
proof -
  have "store_ok demo_store" by (simp add: store_ok_def demo_store_eq new_ProtocolStore_def map_ok_def mkeys_def)
  from snapshot_roundtrip [OF this, of new_ProtocolStore] show ?thesis
    by (simp add: demo_store_eq new_ProtocolStore_def retainedBatchExecutionRuns_def
        retainedFundingPremiumSamples_def mvalues_def)
qed

lemma file_load_back:
  assumes "store_ok s"
  shows "file_load (file_snapshot s) s0 = Inr (reloaded (st_fundingPremiumSamples s0) s)"
  using assms
  by (cases s; cases s0)
    (simp add: file_load_def file_snapshot_def entries_of_def reloaded_def back_simps store_ok_def Let_def
      del: map_map)

subsection \<open>Lemmas: persisted calls\<close>

lemma super_run: "super m f = (fst (m (fs_store f)), f\<lparr>fs_store := snd (m (fs_store f))\<rparr>)"
  by (simp add: super_def Let_def case_prod_unfold)

text \<open>Inside another persisted call nothing is written.\<close>

lemma persist_nested: "0 < fs_saveDepth f \<Longrightarrow> persist io (super m) f = super m f"
  by (cases f)
    (auto simp: persist_def super_run bindA_def returnA_def Let_def case_prod_unfold split: sum.split)

text \<open>An outermost call: the file holds the new state exactly when the call returns.\<close>

lemma persist_outer:
  assumes "fs_saveDepth f = 0" and "m (fs_store f) = (res, t)"
  shows "persist io (super m) f = (case res of
      Inl e \<Rightarrow> (Inl e, f\<lparr>fs_store := t\<rparr>)
    | Inr a \<Rightarrow> (case io (file_snapshot t) of
        Some e \<Rightarrow> (Inl e, f\<lparr>fs_store := t\<rparr>)
      | None \<Rightarrow> (Inr a, f\<lparr>fs_store := t, fs_disk := Some (file_snapshot t)\<rparr>)))"
  using assms
  by (cases f)
    (auto simp: persist_def super_run save_def bindA_def seqA_def returnA_def Let_def case_prod_unfold
      split: sum.split option.split)

lemma persist_effect:
  assumes "store_step h (fs_store f) (snd (m (fs_store f)))"
  shows "store_step h (fs_store f) (fs_store (snd (persist io (super m) f)))
    \<and> fs_saveDepth (snd (persist io (super m) f)) = fs_saveDepth f
    \<and> fs_disk (snd (persist io (super m) f))
        \<in> {fs_disk f, Some (file_snapshot (fs_store (snd (persist io (super m) f))))}"
proof (cases "fs_saveDepth f")
  case 0
  then show ?thesis using assms persist_outer [OF 0 surjective_pairing, of io m]
    by (auto split: sum.splits option.splits)
next
  case (Suc n)
  then show ?thesis using assms by (simp add: persist_nested super_run)
qed

text \<open>A call of the store on a file is a step of the protocol store, and writes its snapshot or nothing.\<close>

lemma file_call_step:
  assumes "file_call io h f g"
  shows "store_step h (fs_store f) (fs_store g) \<and> fs_saveDepth g = fs_saveDepth f
    \<and> fs_disk g \<in> {fs_disk f, Some (file_snapshot (fs_store g))}"
  using assms
  by cases (hypsubst, rule persist_effect, rule store_step.intros)+

text \<open>The invariants of the store, all together, and of the file.\<close>

definition sound :: "ProtocolStore \<Rightarrow> bool" where
  "sound s \<longleftrightarrow> store_ok s \<and> single_spend s \<and> linked s \<and> proved s"

lemma sound_step: "sound s \<Longrightarrow> store_step h s t \<Longrightarrow> sound t"
  unfolding sound_def using store_ok_step single_spend_step linked_step proved_step by blast

lemma sound_new: "sound new_ProtocolStore"
  by (simp add: sound_def store_ok_def single_spend_def used_nullifiers_def linked_def proved_def
      new_ProtocolStore_def mkeys_def mvalues_def)

lemma mvalues_map [simp]: "mvalues (map (map_prod id f) m) = map f (mvalues m)"
  by (simp add: mvalues_def)

lemma settlement_filled_sel [simp]:
  "bs_spentNullifiers (settlement_filled b) = bs_spentNullifiers b"
  "bs_proof (settlement_filled b) = bs_proof b"
  by (simp_all add: settlement_filled_def)

lemma reloaded_sel [simp]:
  "st_withdrawals (reloaded m s) = st_withdrawals s" "st_liquidations (reloaded m s) = st_liquidations s"
  "st_positionCloses (reloaded m s) = st_positionCloses s" "st_spentNullifiers (reloaded m s) = st_spentNullifiers s"
  "st_settlements (reloaded m s) = map (map_prod id settlement_filled) (st_settlements s)"
  "link_view (reloaded m s) = link_view s" "hasProof p (reloaded m s) = hasProof p s"
  "st_intents (reloaded m s) = st_intents s" "st_conditionalCloses (reloaded m s) = st_conditionalCloses s"
  "st_disclosures (reloaded m s) = st_disclosures s" "st_fundingPremiumSamples (reloaded m s) = m"
  by (simp_all add: reloaded_def link_view_def hasProof_def)

lemma sound_reloaded:
  assumes s: "sound s" and m: "map_ok m"
  shows "sound (reloaded m s)"
proof -
  have ok: "store_ok s" using s by (simp add: sound_def)
  then have "store_ok (reloaded m s)"
    using m by (simp add: reloaded_def map_ok_map map_ok_backfill retained_runs_ok)
  moreover have "single_spend (reloaded m s)"
    using s by (simp add: sound_def single_spend_def used_nullifiers_def map_ok_map comp_def)
  moreover have "linked (reloaded m s)" using s linked_view [of "reloaded m s" s] by (simp add: sound_def)
  moreover have "proved (reloaded m s)" using s by (simp add: sound_def proved_def)
  ultimately show ?thesis by (simp add: sound_def)
qed

definition durable :: "FileStore \<Rightarrow> bool" where
  "durable f \<longleftrightarrow> sound (fs_store f)
     \<and> (fs_disk f = None \<or> (\<exists>s. sound s \<and> fs_disk f = Some (file_snapshot s)))"

lemma new_FileStore_durable:
  assumes "disk = None \<or> (\<exists>s. sound s \<and> disk = Some (file_snapshot s))"
  obtains g where "new_FileStore disk = Inr g" "durable g"
  using assms
proof (elim disjE exE conjE)
  assume "disk = None"
  then show ?thesis using that sound_new by (simp add: new_FileStore_def durable_def)
next
  fix s assume s: "sound s" "disk = Some (file_snapshot s)"
  then have "file_load (file_snapshot s) new_ProtocolStore = Inr (reloaded [] s)"
    by (simp add: file_load_back sound_def new_ProtocolStore_def)
  with s that sound_reloaded [OF s(1), of "[]"] show ?thesis
    by (auto simp: new_FileStore_def durable_def)
qed

lemma file_durable: "file_reachable h f \<Longrightarrow> durable f"
proof (induction rule: file_reachable.induct)
  case (file_start f)
  then show ?case using new_FileStore_durable [of None] by auto
next
  case (file_calls f io g)
  then show ?case using file_call_step [OF file_calls(2)] sound_step by (auto simp: durable_def)
next
  case (file_restart f g)
  then show ?case using new_FileStore_durable [of "fs_disk f"] by (auto simp: durable_def)
qed

text \<open>C9: A store on a file keeps its promises across restarts: in every state that calls, whether they return,
  throw or fail to write, and restarts reach, the used nullifiers are different and spent, positions refer to
  tree leaves and stored records carry recorded proofs; and a restart from the file never fails.\<close>

theorem durable_invariants:
  assumes "file_reachable h f"
  shows "distinct (used_nullifiers (fs_store f))
    \<and> set (used_nullifiers (fs_store f)) \<subseteq> set (st_spentNullifiers (fs_store f))
    \<and> store_ok (fs_store f) \<and> linked (fs_store f) \<and> proved (fs_store f)
    \<and> (\<exists>g. new_FileStore (fs_disk f) = Inr g)"
proof -
  have d: "durable f" by (rule file_durable [OF assms])
  then obtain g where "new_FileStore (fs_disk f) = Inr g"
    using new_FileStore_durable [of "fs_disk f"] by (auto simp: durable_def)
  with d show ?thesis by (auto simp: durable_def sound_def single_spend_def)
qed

definition demo_file :: FileStore where
  "demo_file = snd (persist (\<lambda>_. None) (super (addWithdrawal demo_withdrawal))
     (snd (persist (\<lambda>_. None) (super (recordProof demo_proof))
       \<lparr>fs_store = new_ProtocolStore, fs_disk = None, fs_saveDepth = 0\<rparr>)))"

lemma demo_file_reachable: "file_reachable h demo_file"
  unfolding demo_file_def
  by (rule file_calls [OF file_calls [OF file_start file_record_proof] file_add_withdrawal])
    (simp add: new_FileStore_def)

lemma demo_file_store: "fs_store demo_file = demo_store" "fs_saveDepth demo_file = 0"
proof -
  have eff: "fs_store (snd (persist io (super m) f)) = snd (m (fs_store f))
      \<and> fs_saveDepth (snd (persist io (super m) f)) = 0" if "fs_saveDepth f = 0"
    for io f and m :: "(ProtocolStore, unit) act"
    unfolding persist_outer [OF that surjective_pairing] using that by (simp split: sum.split option.split)
  show "fs_store demo_file = demo_store" "fs_saveDepth demo_file = 0"
    by (simp_all add: demo_file_def eff demo_store_def demo_proved_store_def)
qed

theorem durable_invariants_witness:
  "set (used_nullifiers (fs_store demo_file)) \<subseteq> {''0xa''} \<and> (\<exists>g. new_FileStore (fs_disk demo_file) = Inr g)"
  using durable_invariants [OF demo_file_reachable [of demo_host]] by (simp add: demo_file_store demo_store_eq)



end
