(* ===== verification/Settlement_Proof.thy ===== *)
theory Settlement_Proof
  imports Batch_Matcher
begin

text \<open>
  What a batch settlement commits to. \<^verbatim>\<open>packages/proof-system/src\<close>: the public inputs of the
  contracts, circuit keys and bound proofs. \<^verbatim>\<open>server/src/shared/protocol\<close>: the fee configuration, the
  public input hash of a settlement, the ids and data commitments that bind account events.
  \<^verbatim>\<open>server/src/workers/risc0-matcher/risc0-proof.ts\<close> and \<^verbatim>\<open>proof-coordinator.service.ts\<close>: the
  settlement drafted from a match. The prover itself and the encryption of events are parameters.
\<close>

text \<open>Reading a field that the type promises but that may be missing.\<close>

definition required :: "'a option \<Rightarrow> 'a result" where
  "required x = (case x of None \<Rightarrow> throw ''TypeError: undefined is not an object'' | Some v \<Rightarrow> Inr v)"

lemma required_simps [simp]: "required (Some v) = Inr v" "required None = Inl e \<longleftrightarrow> e = ''TypeError: undefined is not an object''"
  by (auto simp: required_def)

subsection \<open>public-inputs.ts\<close>

datatype ContractPublicInput = PublicField Hex | PublicI128 int | PublicU128 int

definition U128_MAX :: int where "U128_MAX = 2 ^ 128 - 1"

text \<open>A buffer is the hex text of its bytes.\<close>

definition bytes32 :: "int \<Rightarrow> string result" where
  "bytes32 v =
     (let hex = pad_start 64 CHR ''0'' (nat_str 16 (nat v))
      in if length hex > 64 then throw ''public input field out of range'' else Inr hex)"

definition fieldBytes :: "Hex \<Rightarrow> string result" where
  "fieldBytes v = bindE (bigint_of_hex v) (\<lambda>b. bytes32 (field_mod b))"

definition u128Bytes :: "int \<Rightarrow> string result" where
  "u128Bytes v = (if v < 0 \<or> v > U128_MAX then throw ''public u128 out of range'' else bytes32 v)"

definition inputBytes :: "ContractPublicInput \<Rightarrow> string result" where
  "inputBytes i =
     (case i of
        PublicField v \<Rightarrow> fieldBytes v
      | PublicU128 v \<Rightarrow> u128Bytes v
      | PublicI128 v \<Rightarrow>
          (let negative = v < 0 in
           bindE (u128Bytes (if negative then - v else v)) (\<lambda>a.
           bindE (u128Bytes (if negative then 1 else 0)) (\<lambda>b. Inr (a @ b)))))"

definition publicBytes :: "ContractPublicInput list \<Rightarrow> string result" where
  "publicBytes inputs = bindE (mapE inputBytes inputs) (\<lambda>bs. Inr (concat bs))"

definition contractPublicInputHash :: "host \<Rightarrow> ContractPublicInput list \<Rightarrow> Hex result" where
  "contractPublicInputHash h inputs =
     bindE (publicBytes inputs) (\<lambda>bytes. Inr (''0x'' @ sha256_bytes h bytes))"

subsection \<open>contract.ts, proof.ts\<close>

definition circuitKey :: "host \<Rightarrow> string \<Rightarrow> Hex" where
  "circuitKey h circuitId = hashFields h ''circuit-id'' [JStr circuitId]"

record ContractProofMeta =
  cpm_circuitId :: Hex
  cpm_circuitHash :: Hex
  cpm_verifierHash :: Hex
  cpm_publicInputHash :: Hex
  cpm_proofDigest :: Hex

definition toContractProof :: "ProofMeta \<Rightarrow> ContractProofMeta" where
  "toContractProof proof = \<lparr>cpm_circuitId = pm_circuitKey proof, cpm_circuitHash = pm_circuitHash proof,
     cpm_verifierHash = pm_verifierHash proof, cpm_publicInputHash = pm_publicInputHash proof,
     cpm_proofDigest = pm_proofDigest proof\<rparr>"

record CircuitMeta =
  cm_id :: string
  cm_sourceHash :: Hex
  cm_verifierHash :: Hex

record ProofArtifact =
  pa_circuitId :: string
  pa_circuitKey :: Hex
  pa_bytecodeHash :: Hex
  pa_witnessHash :: Hex
  pa_proofHash :: Hex
  pa_publicInputsHash :: Hex
  pa_vkHash :: Hex
  pa_proofPath :: string
  pa_publicInputsPath :: string
  pa_vkPath :: string

definition publicInputDigest :: "host \<Rightarrow> string \<Rightarrow> jsval list \<Rightarrow> Hex" where
  "publicInputDigest h domain inputs = hashFields h (''public-inputs:'' @ domain) inputs"

definition bindProof :: "host \<Rightarrow> CircuitMeta \<Rightarrow> Hex \<Rightarrow> ProofArtifact option \<Rightarrow> ProofMeta result" where
  "bindProof h circuit publicInputs artifact =
     (if (\<exists>a\<in>set_option artifact. pa_circuitId a \<noteq> cm_id circuit)
        then throw ''proof artifact circuit mismatch''
      else
        let key = circuitKey h (cm_id circuit);
            verifierHash = (case artifact of Some a \<Rightarrow> pa_vkHash a | None \<Rightarrow> cm_verifierHash circuit);
            publicInputHash = (case artifact of Some a \<Rightarrow> pa_publicInputsHash a | None \<Rightarrow> publicInputs);
            proofDigest = (case artifact of Some a \<Rightarrow> pa_proofHash a
              | None \<Rightarrow> hashFields h ''bound-proof''
                  [JStr (cm_id circuit), JStr key, JStr (cm_sourceHash circuit), JStr verifierHash,
                   JStr publicInputs])
        in Inr \<lparr>pm_circuitId = cm_id circuit, pm_circuitKey = key, pm_circuitHash = cm_sourceHash circuit,
             pm_verifierHash = verifierHash, pm_publicInputHash = publicInputHash,
             pm_proofDigest = proofDigest, pm_proofSystem = None,
             pm_bytecodeHash = map_option pa_bytecodeHash artifact, pm_boundlessRequestId = None,
             pm_imageId = None, pm_journalDigest = None, pm_witnessHash = map_option pa_witnessHash artifact,
             pm_proofHash = map_option pa_proofHash artifact,
             pm_publicInputsHash = map_option pa_publicInputsHash artifact, pm_sealDigest = None,
             pm_vkHash = map_option pa_vkHash artifact\<rparr>)"

subsection \<open>fee-config.ts\<close>

definition FEE_EPOCH :: int where "FEE_EPOCH = 1"

definition FEE_CONFIG_HASH :: "host \<Rightarrow> Hex result" where
  "FEE_CONFIG_HASH h = contractPublicInputHash h
     [PublicU128 FEE_EPOCH, PublicU128 TAKER_FEE_PPM, PublicU128 MAKER_REBATE_PPM, PublicU128 INSURANCE_FEE_PPM]"

subsection \<open>batch-settlement-proof.ts\<close>

definition MAX_PUBLIC_ITEMS :: nat where "MAX_PUBLIC_ITEMS = 8"
definition CAPACITY_MARKER :: string where "CAPACITY_MARKER = ''; capacity=''"

record BatchSettlementCapacity =
  bsc_limit :: nat
  bsc_filledIntents :: nat
  bsc_positionOutputs :: nat
  bsc_marginChangeOutputs :: nat
  bsc_notesToSpend :: nat
  bsc_matchedExecutions :: "nat option"

text \<open>\<open>JSON.stringify(capacity)\<close>\<close>

definition capacity_json :: "BatchSettlementCapacity \<Rightarrow> string" where
  "capacity_json c =
     (let field = (\<lambda>k n. CHR 0x22 # k @ CHR 0x22 # '':'' @ nat_str 10 n)
      in ''{'' @ js_join '',''
           ([field ''limit'' (bsc_limit c), field ''filledIntents'' (bsc_filledIntents c),
             field ''positionOutputs'' (bsc_positionOutputs c),
             field ''marginChangeOutputs'' (bsc_marginChangeOutputs c),
             field ''notesToSpend'' (bsc_notesToSpend c)]
            @ (case bsc_matchedExecutions c of None \<Rightarrow> [] | Some n \<Rightarrow> [field ''matchedExecutions'' n])) @ ''}'')"

definition assertBatchSettlementCapacity :: "BatchSettlement \<Rightarrow> nat option \<Rightarrow> unit result" where
  "assertBatchSettlementCapacity settlement matchedExecutions =
     bindE (required (bs_orderUpdates settlement)) (\<lambda>updates.
     bindE (required (bs_marginChangeCommitments settlement)) (\<lambda>changes.
       let capacity = \<lparr>bsc_limit = MAX_PUBLIC_ITEMS, bsc_filledIntents = length updates,
             bsc_positionOutputs = length (bs_newCommitments settlement),
             bsc_marginChangeOutputs = length changes,
             bsc_notesToSpend = length (bs_spentNullifiers settlement),
             bsc_matchedExecutions = matchedExecutions\<rparr>
       in if \<exists>c\<in>set [bsc_filledIntents capacity, bsc_positionOutputs capacity,
                bsc_marginChangeOutputs capacity, bsc_notesToSpend capacity,
                length (bs_matchingPayloadCommitments settlement), length (bs_residualCommitments settlement),
                length (bs_residualMargins settlement), length (bs_residualPayloadCommitments settlement),
                length (bs_makerIntents settlement), length (bs_takerIntents settlement)].
              c > bsc_limit capacity
          then throw (''batch proof supports at most '' @ nat_str 10 MAX_PUBLIC_ITEMS @ '' public items''
            @ CAPACITY_MARKER @ capacity_json capacity)
          else Inr ()))"

definition too_many :: string where
  "too_many = ''batch proof supports at most '' @ nat_str 10 MAX_PUBLIC_ITEMS @ '' public items''"

definition publicAmounts :: "int list \<Rightarrow> ContractPublicInput list result" where
  "publicAmounts vs =
     (if length vs > MAX_PUBLIC_ITEMS then throw too_many
      else Inr ([PublicU128 (int (length vs))] @ map PublicU128 vs
        @ replicate (MAX_PUBLIC_ITEMS - length vs) (PublicU128 0)))"

definition publicVec :: "Hex list \<Rightarrow> ContractPublicInput list result" where
  "publicVec vs =
     (if length vs > MAX_PUBLIC_ITEMS then throw too_many
      else Inr ([PublicU128 (int (length vs))] @ map PublicField vs
        @ replicate (MAX_PUBLIC_ITEMS - length vs) (PublicField ''0x0'')))"

text \<open>The array literal of \<open>batchSettlementPublicInputHash\<close>.\<close>

definition settlementInputs ::
  "host \<Rightarrow> BatchSettlement \<Rightarrow> OrderLifecycleUpdate list \<Rightarrow> Hex list \<Rightarrow> ContractPublicInput list result" where
  "settlementInputs h s updates changes =
     bindE (publicVec (map olu_intentCommitment updates)) (\<lambda>intents.
     bindE (publicVec (bs_newCommitments s)) (\<lambda>commitments.
     bindE (publicVec changes) (\<lambda>marginChanges.
     bindE (publicVec (bs_spentNullifiers s)) (\<lambda>nullifiers.
     bindE (publicVec (bs_matchingPayloadCommitments s)) (\<lambda>payloads.
     bindE (publicVec (bs_residualCommitments s)) (\<lambda>residuals.
     bindE (publicAmounts (bs_residualMargins s)) (\<lambda>margins.
     bindE (publicVec (bs_residualPayloadCommitments s)) (\<lambda>residualPayloads.
     bindE (publicVec (bs_makerIntents s)) (\<lambda>makers.
     bindE (publicVec (bs_takerIntents s)) (\<lambda>takers.
       Inr ([PublicField (hashFields h ''batch-id'' [JStr (bs_batchId s)]),
             PublicField (hashFields h ''market-id'' [JStr (bs_marketId s)]),
             PublicField (bs_settlementDigest s)]
         @ intents @ commitments @ marginChanges @ nullifiers @ payloads @ residuals @ margins
         @ residualPayloads
         @ [PublicU128 (bs_residualSize s), PublicU128 (bs_aggregateVolume s), PublicField (bs_feeConfigHash s),
            PublicU128 (bs_grossTakerFee s), PublicU128 (bs_makerRebate s), PublicU128 (bs_insuranceFee s),
            PublicU128 (bs_treasuryFee s)]
         @ makers @ takers)))))))))))"

definition batchSettlementPublicInputHash :: "host \<Rightarrow> BatchSettlement \<Rightarrow> Hex result" where
  "batchSettlementPublicInputHash h settlement =
     bindE (assertBatchSettlementCapacity settlement None) (\<lambda>_.
     bindE (required (bs_orderUpdates settlement)) (\<lambda>updates.
     bindE (required (bs_marginChangeCommitments settlement)) (\<lambda>changes.
       if \<exists>n\<in>set [length (bs_matchingPayloadCommitments settlement),
              length (bs_residualCommitments settlement), length (bs_residualMargins settlement),
              length (bs_residualPayloadCommitments settlement)]. n \<noteq> length updates
       then throw ''intent payload count mismatch''
       else bindE (settlementInputs h settlement updates changes) (contractPublicInputHash h))))"

subsection \<open>Lemmas: the bytes determine the inputs\<close>

definition same_field :: "Hex \<Rightarrow> Hex \<Rightarrow> bool" where
  "same_field v w \<longleftrightarrow> (\<exists>a b. bigint_of_hex v = Inr a \<and> bigint_of_hex w = Inr b
     \<and> a mod FIELD_PRIME = b mod FIELD_PRIME)"

fun same_value :: "ContractPublicInput \<Rightarrow> ContractPublicInput \<Rightarrow> bool" where
  "same_value (PublicField v) (PublicField w) \<longleftrightarrow> same_field v w"
| "same_value (PublicU128 a) (PublicU128 b) \<longleftrightarrow> a = b"
| "same_value _ _ \<longleftrightarrow> False"

fun kind :: "ContractPublicInput \<Rightarrow> nat" where
  "kind (PublicField v) = 0" | "kind (PublicU128 v) = 1" | "kind (PublicI128 v) = 2"

lemma bytes32_Inr: "bytes32 v = Inr b \<Longrightarrow> length b = 64 \<and> str_nat 16 0 b = Some (nat v)"
  by (auto simp: bytes32_def Let_def str_nat_pad str_nat_nat_str pad_start_def split: if_splits)
    (simp add: str_nat_zeros str_nat_nat_str)?

lemma nat_mod_field_eq: "nat (a mod FIELD_PRIME) = nat (b mod FIELD_PRIME) \<Longrightarrow> a mod FIELD_PRIME = b mod FIELD_PRIME"
  by (simp add: eq_nat_nat_iff)

lemma inputBytes_value:
  assumes "inputBytes i = Inr b" "inputBytes j = Inr b" "kind i = kind j" "kind i \<noteq> 2"
  shows "same_value i j"
  using assms
  by (cases i; cases j)
    (auto simp: inputBytes_def fieldBytes_def u128Bytes_def same_field_def bindE_Inr_iff field_mod_eq
      dest!: bytes32_Inr nat_mod_field_eq split: if_splits)

lemma inputBytes_length: "inputBytes i = Inr b \<Longrightarrow> kind i \<noteq> 2 \<Longrightarrow> length b = 64"
  by (cases i) (auto simp: inputBytes_def fieldBytes_def u128Bytes_def bindE_Inr_iff dest!: bytes32_Inr split: if_splits)

lemma concat_values:
  assumes "list_all2 (\<lambda>i b. inputBytes i = Inr b) xs bs" "list_all2 (\<lambda>i b. inputBytes i = Inr b) ys cs"
    and "map kind xs = map kind ys" "2 \<notin> set (map kind xs)" "concat bs = concat cs"
  shows "list_all2 same_value xs ys"
  using assms
proof (induction xs arbitrary: bs ys cs)
  case Nil
  then show ?case by simp
next
  case (Cons x xs)
  then obtain y ys' b bs' c cs' where eqs: "ys = y # ys'" "bs = b # bs'" "cs = c # cs'"
    by (auto simp: list_all2_Cons1 map_eq_Cons_conv)
  with Cons.prems have "length b = 64" "length c = 64"
    by (auto intro: inputBytes_length)
  with Cons.prems eqs have "b = c" "concat bs' = concat cs'" by auto
  with Cons.prems Cons.IH [of bs' ys' cs'] eqs show ?case by (auto intro: inputBytes_value)
qed

lemma publicBytes_values:
  assumes "publicBytes xs = Inr b" "publicBytes ys = Inr b"
    and "map kind xs = map kind ys" "2 \<notin> set (map kind xs)"
  shows "list_all2 same_value xs ys"
  using assms concat_values by (fastforce simp: publicBytes_def bindE_Inr_iff mapE_Inr_iff)

lemma publicVec_Inr: "publicVec vs = Inr xs \<Longrightarrow> length vs \<le> 8 \<and> map kind xs = 1 # replicate 8 0
    \<and> xs = PublicU128 (int (length vs)) # map PublicField vs @ replicate (8 - length vs) (PublicField ''0x0'')"
  by (auto simp: publicVec_def MAX_PUBLIC_ITEMS_def map_replicate_const [symmetric] replicate_add [symmetric] comp_def
      split: if_splits) (simp add: map_replicate_const replicate_add [symmetric])?

lemma publicAmounts_Inr: "publicAmounts vs = Inr xs \<Longrightarrow> length vs \<le> 8 \<and> map kind xs = 1 # replicate 8 1
    \<and> xs = PublicU128 (int (length vs)) # map PublicU128 vs @ replicate (8 - length vs) (PublicU128 0)"
  by (auto simp: publicAmounts_def MAX_PUBLIC_ITEMS_def comp_def split: if_splits)
    (simp add: map_replicate_const replicate_add [symmetric])?

lemma vec_values:
  assumes "publicVec vs = Inr xs" "publicVec ws = Inr ys" "list_all2 same_value xs ys"
  shows "list_all2 same_field vs ws"
proof -
  have "length vs = length ws"
    using assms(3) publicVec_Inr [OF assms(1)] publicVec_Inr [OF assms(2)] by auto
  with assms publicVec_Inr [OF assms(1)] publicVec_Inr [OF assms(2)] show ?thesis
    by (auto simp: list_all2_append list_all2_map1 list_all2_map2)
qed

lemma amount_values:
  assumes "publicAmounts vs = Inr xs" "publicAmounts ws = Inr ys" "list_all2 same_value xs ys"
  shows "vs = ws"
proof -
  have "length vs = length ws"
    using assms(3) publicAmounts_Inr [OF assms(1)] publicAmounts_Inr [OF assms(2)] by auto
  with assms publicAmounts_Inr [OF assms(1)] publicAmounts_Inr [OF assms(2)] show ?thesis
    by (auto simp: list_all2_append list_all2_map1 list_all2_map2 list_all2_eq [symmetric])
qed

lemma publicVec_shape: "publicVec vs = Inr xs \<Longrightarrow> length xs = 9 \<and> map kind xs = 1 # replicate 8 0"
proof -
  assume "publicVec vs = Inr xs"
  then have k: "map kind xs = 1 # replicate 8 0" by (blast dest: publicVec_Inr)
  have "length xs = 9" using arg_cong [OF k, of length] by simp
  with k show ?thesis by simp
qed

lemma publicAmounts_shape: "publicAmounts vs = Inr xs \<Longrightarrow> length xs = 9 \<and> map kind xs = 1 # replicate 8 1"
proof -
  assume "publicAmounts vs = Inr xs"
  then have k: "map kind xs = 1 # replicate 8 1" by (blast dest: publicAmounts_Inr)
  have "length xs = 9" using arg_cong [OF k, of length] by simp
  with k show ?thesis by simp
qed

lemma settlementInputs_shape:
  "settlementInputs h s us cs = Inr xs \<Longrightarrow>
     map kind xs = [0, 0, 0] @ concat (replicate 6 (1 # replicate 8 0)) @ (1 # replicate 8 1) @ (1 # replicate 8 0)
       @ [1, 1, 0, 1, 1, 1, 1] @ concat (replicate 2 (1 # replicate 8 0))"
  by (auto simp: settlementInputs_def bindE_Inr_iff numeral_eq_Suc dest!: publicVec_shape publicAmounts_shape)

text \<open>What a settlement shows the verifier: its lists of commitments, its amounts and the fee configuration.\<close>

lemma settlementInputs_values:
  assumes "settlementInputs h s us cs = Inr xs" "settlementInputs h s' us' cs' = Inr xs'"
    and "list_all2 same_value xs xs'"
  shows "list_all2 same_field (map olu_intentCommitment us) (map olu_intentCommitment us')"
    and "list_all2 same_field (bs_newCommitments s) (bs_newCommitments s')"
    and "list_all2 same_field cs cs'"
    and "list_all2 same_field (bs_spentNullifiers s) (bs_spentNullifiers s')"
    and "list_all2 same_field (bs_matchingPayloadCommitments s) (bs_matchingPayloadCommitments s')"
    and "list_all2 same_field (bs_residualCommitments s) (bs_residualCommitments s')"
    and "bs_residualMargins s = bs_residualMargins s'"
    and "same_field (bs_settlementDigest s) (bs_settlementDigest s')"
    and "same_field (bs_feeConfigHash s) (bs_feeConfigHash s')"
    and "bs_residualSize s = bs_residualSize s'" and "bs_aggregateVolume s = bs_aggregateVolume s'"
    and "bs_grossTakerFee s = bs_grossTakerFee s'" and "bs_makerRebate s = bs_makerRebate s'"
    and "bs_insuranceFee s = bs_insuranceFee s'" and "bs_treasuryFee s = bs_treasuryFee s'"
proof -
  from assms(1) obtain v1 v2 v3 v4 v5 v6 v7 v8 v9 v10 where v:
    "publicVec (map olu_intentCommitment us) = Inr v1" "publicVec (bs_newCommitments s) = Inr v2"
    "publicVec cs = Inr v3" "publicVec (bs_spentNullifiers s) = Inr v4"
    "publicVec (bs_matchingPayloadCommitments s) = Inr v5" "publicVec (bs_residualCommitments s) = Inr v6"
    "publicAmounts (bs_residualMargins s) = Inr v7" "publicVec (bs_residualPayloadCommitments s) = Inr v8"
    "publicVec (bs_makerIntents s) = Inr v9" "publicVec (bs_takerIntents s) = Inr v10"
    and xs: "xs = [PublicField (hashFields h ''batch-id'' [JStr (bs_batchId s)]),
      PublicField (hashFields h ''market-id'' [JStr (bs_marketId s)]), PublicField (bs_settlementDigest s)]
      @ v1 @ v2 @ v3 @ v4 @ v5 @ v6 @ v7 @ v8 @ [PublicU128 (bs_residualSize s), PublicU128 (bs_aggregateVolume s),
        PublicField (bs_feeConfigHash s), PublicU128 (bs_grossTakerFee s), PublicU128 (bs_makerRebate s),
        PublicU128 (bs_insuranceFee s), PublicU128 (bs_treasuryFee s)] @ v9 @ v10"
    by (auto simp: settlementInputs_def bindE_Inr_iff)
  from assms(2) obtain w1 w2 w3 w4 w5 w6 w7 w8 w9 w10 where w:
    "publicVec (map olu_intentCommitment us') = Inr w1" "publicVec (bs_newCommitments s') = Inr w2"
    "publicVec cs' = Inr w3" "publicVec (bs_spentNullifiers s') = Inr w4"
    "publicVec (bs_matchingPayloadCommitments s') = Inr w5" "publicVec (bs_residualCommitments s') = Inr w6"
    "publicAmounts (bs_residualMargins s') = Inr w7" "publicVec (bs_residualPayloadCommitments s') = Inr w8"
    "publicVec (bs_makerIntents s') = Inr w9" "publicVec (bs_takerIntents s') = Inr w10"
    and ys: "xs' = [PublicField (hashFields h ''batch-id'' [JStr (bs_batchId s')]),
      PublicField (hashFields h ''market-id'' [JStr (bs_marketId s')]), PublicField (bs_settlementDigest s')]
      @ w1 @ w2 @ w3 @ w4 @ w5 @ w6 @ w7 @ w8 @ [PublicU128 (bs_residualSize s'), PublicU128 (bs_aggregateVolume s'),
        PublicField (bs_feeConfigHash s'), PublicU128 (bs_grossTakerFee s'), PublicU128 (bs_makerRebate s'),
        PublicU128 (bs_insuranceFee s'), PublicU128 (bs_treasuryFee s')] @ w9 @ w10"
    by (auto simp: settlementInputs_def bindE_Inr_iff)
  have len: "length v1 = length w1" "length v2 = length w2" "length v3 = length w3" "length v4 = length w4"
    "length v5 = length w5" "length v6 = length w6" "length v7 = length w7" "length v8 = length w8"
    "length v9 = length w9"
    using v w by (simp_all add: publicVec_shape publicAmounts_shape)
  have parts: "list_all2 same_value v1 w1" "list_all2 same_value v2 w2" "list_all2 same_value v3 w3"
    "list_all2 same_value v4 w4" "list_all2 same_value v5 w5" "list_all2 same_value v6 w6"
    "list_all2 same_value v7 w7"
    and rest: "same_field (bs_settlementDigest s) (bs_settlementDigest s')"
    "same_field (bs_feeConfigHash s) (bs_feeConfigHash s')"
    "bs_residualSize s = bs_residualSize s'" "bs_aggregateVolume s = bs_aggregateVolume s'"
    "bs_grossTakerFee s = bs_grossTakerFee s'" "bs_makerRebate s = bs_makerRebate s'"
    "bs_insuranceFee s = bs_insuranceFee s'" "bs_treasuryFee s = bs_treasuryFee s'"
    using assms(3) len unfolding xs ys by (simp_all add: list_all2_append)
  show "list_all2 same_field (map olu_intentCommitment us) (map olu_intentCommitment us')"
    "list_all2 same_field (bs_newCommitments s) (bs_newCommitments s')"
    "list_all2 same_field cs cs'"
    "list_all2 same_field (bs_spentNullifiers s) (bs_spentNullifiers s')"
    "list_all2 same_field (bs_matchingPayloadCommitments s) (bs_matchingPayloadCommitments s')"
    "list_all2 same_field (bs_residualCommitments s) (bs_residualCommitments s')"
    "bs_residualMargins s = bs_residualMargins s'"
    by (rule vec_values [OF v(1) w(1) parts(1)] vec_values [OF v(2) w(2) parts(2)] vec_values [OF v(3) w(3) parts(3)]
        vec_values [OF v(4) w(4) parts(4)] vec_values [OF v(5) w(5) parts(5)] vec_values [OF v(6) w(6) parts(6)]
        amount_values [OF v(7) w(7) parts(7)])+
  show "same_field (bs_settlementDigest s) (bs_settlementDigest s')"
    "same_field (bs_feeConfigHash s) (bs_feeConfigHash s')"
    "bs_residualSize s = bs_residualSize s'" "bs_aggregateVolume s = bs_aggregateVolume s'"
    "bs_grossTakerFee s = bs_grossTakerFee s'" "bs_makerRebate s = bs_makerRebate s'"
    "bs_insuranceFee s = bs_insuranceFee s'" "bs_treasuryFee s = bs_treasuryFee s'"
    by (fact rest)+
qed


text \<open>A hash exists as soon as every field reads as a number and every amount fits 128 bits.\<close>

fun printable :: "ContractPublicInput \<Rightarrow> bool" where
  "printable (PublicField v) \<longleftrightarrow> (\<exists>n. bigint_of_hex v = Inr n)"
| "printable (PublicU128 n) \<longleftrightarrow> 0 \<le> n \<and> n \<le> U128_MAX"
| "printable (PublicI128 n) \<longleftrightarrow> \<bar>n\<bar> \<le> U128_MAX"

lemma bytes32_total: "v < 16 ^ 64 \<Longrightarrow> \<exists>b. bytes32 v = Inr b"
proof -
  assume "v < 16 ^ 64"
  then have "nat v < 16 ^ Suc 63" by (simp add: nat_less_iff)
  then have "length (nat_str 16 (nat v)) \<le> Suc 63" by (intro length_nat_str) simp_all
  then show ?thesis by (simp add: bytes32_def pad_start_def)
qed

lemma inputBytes_total: "printable i \<Longrightarrow> \<exists>b. inputBytes i = Inr b"
proof -
  have u: "\<exists>b. u128Bytes n = Inr b" if "0 \<le> n" "n \<le> U128_MAX" for n
    using that bytes32_total [of n] by (simp add: u128Bytes_def U128_MAX_def)
  have f: "\<exists>b. bytes32 (field_mod n) = Inr b" for n
    by (rule bytes32_total, rule less_le_trans [OF field_mod_range(2) FIELD_PRIME_bound])
  show "printable i \<Longrightarrow> ?thesis"
  proof (cases i)
    case (PublicI128 n)
    assume "printable i"
    with PublicI128 have "\<bar>n\<bar> \<le> U128_MAX" by simp
    with u [of "if n < 0 then - n else n"] u [of "if n < 0 then 1 else 0"] PublicI128 show ?thesis
      by (auto simp: inputBytes_def Let_def U128_MAX_def)
  qed (use u f in \<open>auto simp: inputBytes_def fieldBytes_def\<close>)
qed

lemma contractPublicInputHash_total:
  assumes "\<And>i. i \<in> set xs \<Longrightarrow> printable i"
  shows "\<exists>d. contractPublicInputHash h xs = Inr d"
proof -
  have "\<exists>bs. mapE inputBytes xs = Inr bs"
    using assms
  proof (induction xs)
    case (Cons i xs)
    obtain b where "inputBytes i = Inr b" using inputBytes_total [of i] Cons.prems by auto
    with Cons show ?case by auto
  qed simp
  then show ?thesis by (auto simp: contractPublicInputHash_def publicBytes_def)
qed

lemma printable_hash: "hex_hash h \<Longrightarrow> printable (PublicField (hashFields h d fs))"
proof -
  assume h: "hex_hash h"
  obtain c cs where c: "sha256_hex h (hash_preimage h d fs) = c # cs"
    using h by (cases "sha256_hex h (hash_preimage h d fs)") (auto simp: hex_hash_def)
  moreover from h obtain n where "str_nat 16 0 (c # cs) = Some n" unfolding hex_hash_def c [symmetric] by blast
  ultimately show ?thesis by (auto simp: hashFields_def bigint_of_hex_def)
qed

definition demo_public_settlement :: BatchSettlement where
  "demo_public_settlement = \<lparr>bs_batchId = ''1'', bs_marketId = ''btc'', bs_matchTranscriptDigest = ''0x20'',
     bs_settlementDigest = ''0x21'', bs_newCommitments = [''0x11'', ''0x12''], bs_marginChangeCommitments = Some [],
     bs_spentNullifiers = [''0x13'', ''0x14''], bs_matchingPayloadCommitments = [], bs_residualCommitments = [],
     bs_residualMargins = [], bs_residualPayloadCommitments = [], bs_fillCount = 2, bs_feeConfigHash = ''0x0'',
     bs_grossTakerFee = 3, bs_makerRebate = 1, bs_insuranceFee = 1, bs_treasuryFee = 1, bs_makerIntents = [],
     bs_takerIntents = [], bs_aggregateVolume = 200, bs_openInterestDelta = 0, bs_orderUpdates = Some [],
     bs_residualSize = 0, bs_proof = \<lparr>pm_circuitId = ''batch-match'', pm_circuitKey = ''0x1'',
       pm_circuitHash = ''0x2'', pm_verifierHash = ''0x3'', pm_publicInputHash = ''0x4'', pm_proofDigest = ''0x5'',
       pm_proofSystem = None, pm_bytecodeHash = None, pm_boundlessRequestId = None, pm_imageId = None,
       pm_journalDigest = None, pm_witnessHash = None, pm_proofHash = None, pm_publicInputsHash = None,
       pm_sealDigest = None, pm_vkHash = None\<rparr>, bs_proofVerificationTxHash = None, bs_settlementTxHash = None,
     bs_onchainConfirmed = None\<rparr>"

lemma demo_hash_returns: "\<exists>d. batchSettlementPublicInputHash demo_host demo_public_settlement = Inr d"
proof -
  have "bigint_of_hex x = Inr n \<Longrightarrow> printable (PublicField x)" for x n by simp
  obtain xs where xs: "settlementInputs demo_host demo_public_settlement [] [] = Inr xs"
    by (simp add: settlementInputs_def publicVec_def publicAmounts_def MAX_PUBLIC_ITEMS_def demo_public_settlement_def)
  have "printable i" if "i \<in> set xs" for i
    using xs that printable_hash [OF hex_hash_demo]
    by (auto simp: settlementInputs_def publicVec_def publicAmounts_def MAX_PUBLIC_ITEMS_def demo_public_settlement_def
        U128_MAX_def bigint_of_hex_def digit_val_def upt_rec)
  then obtain d where "contractPublicInputHash demo_host xs = Inr d"
    using contractPublicInputHash_total by blast
  with xs show ?thesis
    by (simp add: batchSettlementPublicInputHash_def assertBatchSettlementCapacity_def demo_public_settlement_def
        MAX_PUBLIC_ITEMS_def)
qed


end
