(* ===== verification/Settlement_Draft.thy ===== *)
theory Settlement_Draft
  imports Settlement_Proof Protocol_Store Match_Properties
begin

text \<open>
  Account events and the settlement that the prover is asked for. \<^verbatim>\<open>account-event-binding.ts\<close> and
  \<^verbatim>\<open>account-event-outcomes.ts\<close>: events whose ids and data commitments bind them to a position, a
  residual order, a close or a liquidation; the encryption of a payload is a parameter.
  \<^verbatim>\<open>risc0-proof.ts\<close>: the draft of a settlement from a match and the checks around the prover, which
  with the files it reads is the parameter \<open>risc0_env\<close>. \<^verbatim>\<open>proof-coordinator.service.ts\<close>: the
  settlement that tests use in its place.
\<close>

subsection \<open>account-event-binding.ts\<close>

definition positionOpeningAccountEventDataCommitment ::
  "host \<Rightarrow> PositionLifecycleRecord \<Rightarrow> string \<Rightarrow> Hex" where
  "positionOpeningAccountEventDataCommitment h opening ciphertext =
     hashFields h ''account-event-data:position-opening''
       [JStr (plr_settlementDigest opening), JStr (plr_positionCommitment opening),
        JStr (plr_ownerCommitment opening), JStr ciphertext]"

definition positionOpeningAccountEventId :: "host \<Rightarrow> PositionLifecycleRecord \<Rightarrow> Hex \<Rightarrow> Hex" where
  "positionOpeningAccountEventId h opening dataCommitment =
     hashFields h ''account-event:position-opening''
       [JStr (plr_settlementDigest opening), JStr (plr_positionCommitment opening), JStr dataCommitment]"

definition residualOrderAccountEventDataCommitment ::
  "host \<Rightarrow> ResidualOrderRecord \<Rightarrow> Hex \<Rightarrow> string \<Rightarrow> Hex" where
  "residualOrderAccountEventDataCommitment h residual settlementDigest ciphertext =
     hashFields h ''account-event-data:residual-order''
       [JStr settlementDigest, JStr (ror_intentCommitment residual),
        JStr (ror_sourceIntentCommitment residual), JStr (ror_ownerCommitment residual), JStr ciphertext]"

definition residualOrderAccountEventId :: "host \<Rightarrow> ResidualOrderRecord \<Rightarrow> Hex \<Rightarrow> Hex \<Rightarrow> Hex" where
  "residualOrderAccountEventId h residual settlementDigest dataCommitment =
     hashFields h ''account-event:residual-order''
       [JStr settlementDigest, JStr (ror_intentCommitment residual),
        JStr (ror_sourceIntentCommitment residual), JStr dataCommitment]"

definition positionCloseAccountEventDataCommitment ::
  "host \<Rightarrow> PositionCloseRecord \<Rightarrow> Hex \<Rightarrow> string \<Rightarrow> Hex" where
  "positionCloseAccountEventDataCommitment h r owner ciphertext =
     hashFields h ''account-event-data:position-close''
       [JStr (pcr_closeCommitment r), JStr (pcr_positionCommitment r), JStr (pcr_positionNullifier r),
        JStr owner, JStr ciphertext]"

definition positionCloseAccountEventId :: "host \<Rightarrow> PositionCloseRecord \<Rightarrow> Hex \<Rightarrow> Hex" where
  "positionCloseAccountEventId h r dataCommitment =
     hashFields h ''account-event:position-close''
       [JStr (pcr_closeCommitment r), JStr (pcr_positionNullifier r), JStr dataCommitment]"

definition liquidationAccountEventDataCommitment ::
  "host \<Rightarrow> LiquidationRecord \<Rightarrow> Hex \<Rightarrow> string \<Rightarrow> Hex" where
  "liquidationAccountEventDataCommitment h r owner ciphertext =
     hashFields h ''account-event-data:liquidation''
       [JStr (lr_positionCommitment r), JStr (lr_positionNullifier r), JStr (lr_rewardCommitment r),
        JStr owner, JStr ciphertext]"

definition liquidationAccountEventId :: "host \<Rightarrow> LiquidationRecord \<Rightarrow> Hex \<Rightarrow> Hex" where
  "liquidationAccountEventId h r dataCommitment =
     hashFields h ''account-event:liquidation''
       [JStr (lr_positionNullifier r), JStr (lr_rewardCommitment r), JStr dataCommitment]"

definition assertPositionOpeningAccountEvent ::
  "host \<Rightarrow> PositionLifecycleRecord \<Rightarrow> AccountEventRecord \<Rightarrow> unit result" where
  "assertPositionOpeningAccountEvent h opening event =
     (if aer_ownerCommitment event \<noteq> plr_ownerCommitment opening
        then throw ''position account event owner mismatch''
      else let dataCommitment = positionOpeningAccountEventDataCommitment h opening (aer_ciphertext event) in
        if aer_dataCommitment event \<noteq> dataCommitment
          then throw ''position account event data commitment mismatch''
        else if aer_eventId event \<noteq> positionOpeningAccountEventId h opening dataCommitment
          then throw ''position account event id mismatch''
        else Inr ())"

definition assertResidualOrderAccountEvent ::
  "host \<Rightarrow> ResidualOrderRecord \<Rightarrow> Hex \<Rightarrow> AccountEventRecord \<Rightarrow> unit result" where
  "assertResidualOrderAccountEvent h residual settlementDigest event =
     (if aer_ownerCommitment event \<noteq> ror_ownerCommitment residual
        then throw ''residual account event owner mismatch''
      else let dataCommitment = residualOrderAccountEventDataCommitment h residual settlementDigest
                 (aer_ciphertext event) in
        if aer_dataCommitment event \<noteq> dataCommitment
          then throw ''residual account event data commitment mismatch''
        else if aer_eventId event \<noteq> residualOrderAccountEventId h residual settlementDigest dataCommitment
          then throw ''residual account event id mismatch''
        else Inr ())"

definition assertPositionCloseAccountEvent ::
  "host \<Rightarrow> PositionCloseRecord \<Rightarrow> Hex \<Rightarrow> AccountEventRecord \<Rightarrow> unit result" where
  "assertPositionCloseAccountEvent h r owner event =
     (if aer_ownerCommitment event \<noteq> owner
        then throw ''position close account event owner mismatch''
      else let dataCommitment = positionCloseAccountEventDataCommitment h r owner (aer_ciphertext event) in
        if aer_dataCommitment event \<noteq> dataCommitment
          then throw ''position close account event data commitment mismatch''
        else if aer_eventId event \<noteq> positionCloseAccountEventId h r dataCommitment
          then throw ''position close account event id mismatch''
        else Inr ())"

definition assertLiquidationAccountEvent ::
  "host \<Rightarrow> LiquidationRecord \<Rightarrow> Hex \<Rightarrow> AccountEventRecord \<Rightarrow> unit result" where
  "assertLiquidationAccountEvent h r owner event =
     (if aer_ownerCommitment event \<noteq> owner
        then throw ''liquidation account event owner mismatch''
      else let dataCommitment = liquidationAccountEventDataCommitment h r owner (aer_ciphertext event) in
        if aer_dataCommitment event \<noteq> dataCommitment
          then throw ''liquidation account event data commitment mismatch''
        else if aer_eventId event \<noteq> liquidationAccountEventId h r dataCommitment
          then throw ''liquidation account event id mismatch''
        else Inr ())"

subsection \<open>account-event-outcomes.ts\<close>

record PositionOpeningAccountEventPayload =
  pop_entryFee :: "int option"
  pop_entryPrice :: int
  pop_fundingIndex :: int
  pop_margin :: int
  pop_marketId :: string
  pop_positionCommitment :: Hex
  pop_positionNullifier :: Hex
  pop_side :: side
  pop_size :: int
  pop_sourceIntentCommitment :: Hex

record LifecyclePayload =
  lp_marketId :: string
  lp_ownerCommitment :: Hex
  lp_positionCommitment :: Hex
  lp_positionNullifier :: Hex
  lp_status :: PositionStatus

text \<open>The payloads, by their \<open>kind\<close>.\<close>

datatype AccountEventPayload =
    OpeningPayload PositionOpeningAccountEventPayload
  | ResidualPayload ResidualOrderRecord Hex
  | ClosePayload LifecyclePayload PositionCloseRecord
  | LiquidationPayload LiquidationRecord LifecyclePayload

definition lifecyclePayload :: "PositionLifecycleRecord \<Rightarrow> LifecyclePayload" where
  "lifecyclePayload p = \<lparr>lp_marketId = plr_marketId p, lp_ownerCommitment = plr_ownerCommitment p,
     lp_positionCommitment = plr_positionCommitment p, lp_positionNullifier = plr_positionNullifier p,
     lp_status = plr_status p\<rparr>"

text \<open>
  \<open>encrypt payload publicKey\<close> is \<open>encryptAccountEventPayload\<close>: Node's ECDH and AES with fresh keys, or
  an error for a key that is not a point.
\<close>

definition encryptAccountEvent ::
  "(AccountEventPayload \<Rightarrow> string \<Rightarrow> string result) \<Rightarrow> AccountEventPayload \<Rightarrow> string option
     \<Rightarrow> (AccountEventPayload \<Rightarrow> string result) option \<Rightarrow> string result" where
  "encryptAccountEvent encrypt payload publicKey encryptor =
     (case encryptor of
        Some enc \<Rightarrow> enc payload
      | None \<Rightarrow>
          (case publicKey of
             Some key \<Rightarrow> if key = [] then throw ''account encryption key not found'' else encrypt payload key
           | None \<Rightarrow> throw ''account encryption key not found''))"

definition createPositionOpeningAccountEvent where
  "createPositionOpeningAccountEvent h encrypt opening event publicKey encryptor =
     bindE (encryptAccountEvent encrypt (OpeningPayload event) publicKey encryptor) (\<lambda>ciphertext.
       let dataCommitment = positionOpeningAccountEventDataCommitment h opening ciphertext
       in Inr \<lparr>aer_ciphertext = ciphertext, aer_createdAt = plr_openedAt opening,
            aer_dataCommitment = dataCommitment,
            aer_eventId = positionOpeningAccountEventId h opening dataCommitment,
            aer_ownerCommitment = plr_ownerCommitment opening\<rparr>)"

definition createResidualOrderAccountEvent where
  "createResidualOrderAccountEvent h encrypt residual settlementDigest publicKey encryptor =
     bindE (encryptAccountEvent encrypt (ResidualPayload residual settlementDigest) publicKey encryptor)
       (\<lambda>ciphertext.
       let dataCommitment = residualOrderAccountEventDataCommitment h residual settlementDigest ciphertext
       in Inr \<lparr>aer_ciphertext = ciphertext, aer_createdAt = ror_createdAt residual,
            aer_dataCommitment = dataCommitment,
            aer_eventId = residualOrderAccountEventId h residual settlementDigest dataCommitment,
            aer_ownerCommitment = ror_ownerCommitment residual\<rparr>)"

definition createPositionCloseAccountEvent where
  "createPositionCloseAccountEvent h encrypt r position publicKey createdAt =
     bindE (encrypt (ClosePayload (lifecyclePayload position) r) publicKey) (\<lambda>ciphertext.
       let dataCommitment = positionCloseAccountEventDataCommitment h r (plr_ownerCommitment position) ciphertext
       in Inr \<lparr>aer_ciphertext = ciphertext, aer_createdAt = createdAt, aer_dataCommitment = dataCommitment,
            aer_eventId = positionCloseAccountEventId h r dataCommitment,
            aer_ownerCommitment = plr_ownerCommitment position\<rparr>)"

definition createLiquidationAccountEvent where
  "createLiquidationAccountEvent h encrypt r position publicKey createdAt =
     bindE (encrypt (LiquidationPayload r (lifecyclePayload position)) publicKey) (\<lambda>ciphertext.
       let dataCommitment = liquidationAccountEventDataCommitment h r (plr_ownerCommitment position) ciphertext
       in Inr \<lparr>aer_ciphertext = ciphertext, aer_createdAt = createdAt, aer_dataCommitment = dataCommitment,
            aer_eventId = liquidationAccountEventId h r dataCommitment,
            aer_ownerCommitment = plr_ownerCommitment position\<rparr>)"

subsection \<open>risc0-proof.ts: the draft\<close>

record SettlementProofInput =
  spi_batchId :: string
  spi_market :: MarketConfig
  spi_intents :: "PrivateMatchIntent list"
  spi_match :: MatchResult

text \<open>\<open>Omit<BatchSettlement, "proof">\<close> is a function of the proof that completes it.\<close>

type_synonym SettlementDraft = "ProofMeta \<Rightarrow> BatchSettlement"

definition assertMatchTranscript :: "host \<Rightarrow> SettlementProofInput \<Rightarrow> unit result" where
  "assertMatchTranscript h input =
     (if mres_matchTranscriptDigest (spi_match input) \<noteq> matchTranscriptDigest h (spi_match input)
      then throw ''match transcript digest mismatch'' else Inr ())"

definition risc0SettlementDigest :: "host \<Rightarrow> SettlementProofInput \<Rightarrow> Hex list \<Rightarrow> Hex" where
  "risc0SettlementDigest h input newCommitments =
     (let m = spi_match input in hashFields h ''risc0-settlement''
       [JStr (spi_batchId input), JStr (mc_marketId (spi_market input)), JStr (mres_matchTranscriptDigest m),
        JArr (map (\<lambda>u. JObj
          ([(''intentCommitment'', JStr (olu_intentCommitment u)),
            (''status'', JStr (order_status_str (olu_status u)))]
           @ (if truthy_str (olu_residualCommitment u)
              then [(''residualCommitment'', JStr (the (olu_residualCommitment u)))] else [])))
          (mres_orderUpdates m)),
        JArr (map JStr newCommitments), JArr (map JStr (mres_marginChangeCommitments m)),
        JArr (map JStr (mres_spentNullifiers m)), JBig (mres_aggregateVolume m),
        JBig (mres_openInterestDelta m), JBig (mres_residualSize m)])"

text \<open>\<open>new Map(xs.map((x) => [key(x), x]))\<close>\<close>

definition index_by :: "('a \<Rightarrow> 'k) \<Rightarrow> 'a list \<Rightarrow> ('k, 'a) jsmap" where
  "index_by key xs = map_new (map (\<lambda>x. (key x, x)) xs)"

definition payloadCommitmentOf :: "host \<Rightarrow> (Hex, PrivateMatchIntent) jsmap \<Rightarrow> OrderLifecycleUpdate \<Rightarrow> Hex result" where
  "payloadCommitmentOf h intents u =
     (case mget intents (olu_intentCommitment u) of
        None \<Rightarrow> throw ''filled intent private payload is missing''
      | Some intent \<Rightarrow> Inr (matchingPayloadCommitment h intent))"

definition residualMarginOf :: "(Hex option, PrivateMatchIntent) jsmap \<Rightarrow> OrderLifecycleUpdate \<Rightarrow> int" where
  "residualMarginOf residuals u =
     (case mget residuals (Some (olu_intentCommitment u)) of Some r \<Rightarrow> pmi_margin r | None \<Rightarrow> 0)"

definition residualCommitmentOf :: "OrderLifecycleUpdate \<Rightarrow> Hex" where
  "residualCommitmentOf u = (case olu_residualCommitment u of Some c \<Rightarrow> c | None \<Rightarrow> ''0x0'')"

definition residualPayloadOf ::
  "host \<Rightarrow> (Hex option, PrivateMatchIntent) jsmap \<Rightarrow> OrderLifecycleUpdate \<Rightarrow> Hex result" where
  "residualPayloadOf h residuals u =
     (let residual = mget residuals (Some (olu_intentCommitment u)) in
      if (residual \<noteq> None) \<noteq> truthy_str (olu_residualCommitment u)
        then throw ''residual private payload does not match order update''
      else case residual of
        None \<Rightarrow> Inr ''0x0''
      | Some r \<Rightarrow>
          if Some (pmi_intentCommitment r) \<noteq> olu_residualCommitment u
            then throw ''residual commitment does not match order update''
          else Inr (matchingPayloadCommitment h r))"

definition prepareRisc0SettlementDraft :: "host \<Rightarrow> SettlementProofInput \<Rightarrow> SettlementDraft result" where
  "prepareRisc0SettlementDraft h input =
     bindE (assertMatchTranscript h input) (\<lambda>_.
     let m = spi_match input;
         newCommitments = map fill_positionCommitment (mres_fills m);
         settlementDigest = risc0SettlementDigest h input newCommitments;
         intentByCommitment = index_by pmi_intentCommitment (spi_intents input);
         residualBySource = index_by pmi_sourceIntentCommitment (mres_residuals m)
     in bindE (mapE (payloadCommitmentOf h intentByCommitment) (mres_orderUpdates m)) (\<lambda>payloads.
        bindE (mapE (residualPayloadOf h residualBySource) (mres_orderUpdates m)) (\<lambda>residualPayloads.
        bindE (FEE_CONFIG_HASH h) (\<lambda>feeConfigHash.
        Inr (\<lambda>proof. \<lparr>bs_batchId = spi_batchId input, bs_marketId = mc_marketId (spi_market input),
           bs_matchTranscriptDigest = mres_matchTranscriptDigest m, bs_settlementDigest = settlementDigest,
           bs_newCommitments = newCommitments,
           bs_marginChangeCommitments = Some (mres_marginChangeCommitments m),
           bs_spentNullifiers = mres_spentNullifiers m, bs_matchingPayloadCommitments = payloads,
           bs_residualCommitments = map residualCommitmentOf (mres_orderUpdates m),
           bs_residualMargins = map (residualMarginOf residualBySource) (mres_orderUpdates m),
           bs_residualPayloadCommitments = residualPayloads, bs_fillCount = int (length (mres_fills m)),
           bs_feeConfigHash = feeConfigHash, bs_grossTakerFee = fee_grossTakerFee (mres_fees m),
           bs_makerRebate = fee_makerRebate (mres_fees m), bs_insuranceFee = fee_insurance (mres_fees m),
           bs_treasuryFee = fee_treasury (mres_fees m),
           bs_makerIntents = map me_makerIntentCommitment (mres_executions m),
           bs_takerIntents = map me_takerIntentCommitment (mres_executions m),
           bs_aggregateVolume = mres_aggregateVolume m, bs_openInterestDelta = mres_openInterestDelta m,
           bs_orderUpdates = Some (mres_orderUpdates m), bs_residualSize = mres_residualSize m,
           bs_proof = proof, bs_proofVerificationTxHash = None, bs_settlementTxHash = None,
           bs_onchainConfirmed = None\<rparr>)))))"

subsection \<open>risc0-proof.ts: the prover's output\<close>

record Risc0ProverOutput =
  rpo_boundless_request_id :: "Hex option"
  rpo_image_id :: Hex
  rpo_journal_digest :: Hex
  rpo_journal_path :: string
  rpo_seal_digest :: Hex
  rpo_seal_path :: string

text \<open>
  The files and the prover: the image id, source hash and verifier hash that the module reads when it
  loads, the check of the deployment registry and the run of the prover on an input and its draft.
\<close>

record risc0_env =
  RISC0_BATCH_MATCH_IMAGE_ID :: Hex
  RISC0_BATCH_MATCH_CIRCUIT_HASH :: Hex
  RISC0_STELLAR_VERIFIER_HASH :: Hex
  deployedImageId :: "unit result"
  runRisc0Prover :: "SettlementProofInput \<Rightarrow> SettlementDraft \<Rightarrow> Risc0ProverOutput result"
  vkPath :: string
  inputHash :: "SettlementProofInput \<Rightarrow> Hex"

definition RISC0_BATCH_MATCH_CIRCUIT_ID :: string where
  "RISC0_BATCH_MATCH_CIRCUIT_ID = ''batch-match''"

definition RISC0_BATCH_MATCH_CIRCUIT_KEY :: "host \<Rightarrow> Hex" where
  "RISC0_BATCH_MATCH_CIRCUIT_KEY h = hashFields h ''circuit-key'' [JStr ''risc0-batch-match-append-tree'']"

definition proofMeta :: "host \<Rightarrow> risc0_env \<Rightarrow> Risc0ProverOutput \<Rightarrow> ProofMeta" where
  "proofMeta h env receipt =
     \<lparr>pm_circuitId = RISC0_BATCH_MATCH_CIRCUIT_ID, pm_circuitKey = RISC0_BATCH_MATCH_CIRCUIT_KEY h,
      pm_circuitHash = RISC0_BATCH_MATCH_CIRCUIT_HASH env, pm_verifierHash = RISC0_STELLAR_VERIFIER_HASH env,
      pm_publicInputHash = rpo_journal_digest receipt, pm_proofDigest = rpo_seal_digest receipt,
      pm_proofSystem = Some Risc0_Groth16, pm_bytecodeHash = None,
      pm_boundlessRequestId = rpo_boundless_request_id receipt, pm_imageId = Some (rpo_image_id receipt),
      pm_journalDigest = Some (rpo_journal_digest receipt), pm_witnessHash = None, pm_proofHash = None,
      pm_publicInputsHash = None, pm_sealDigest = Some (rpo_seal_digest receipt), pm_vkHash = None\<rparr>"

definition createRisc0BatchSettlement ::
  "host \<Rightarrow> risc0_env \<Rightarrow> SettlementProofInput \<Rightarrow> (ProofArtifact \<times> BatchSettlement) result" where
  "createRisc0BatchSettlement h env input =
     bindE (prepareRisc0SettlementDraft h input) (\<lambda>draft.
     bindE (assertBatchSettlementCapacity (draft (proofMeta h env
         \<lparr>rpo_boundless_request_id = None, rpo_image_id = [], rpo_journal_digest = [], rpo_journal_path = [],
          rpo_seal_digest = [], rpo_seal_path = []\<rparr>)) (Some (length (mres_executions (spi_match input))))) (\<lambda>_.
     bindE (deployedImageId env) (\<lambda>_.
     bindE (runRisc0Prover env input draft) (\<lambda>proverOutput.
       if rpo_image_id proverOutput \<noteq> RISC0_BATCH_MATCH_IMAGE_ID env
       then throw (''RISC0 batch-match image id mismatch: expected '' @ RISC0_BATCH_MATCH_IMAGE_ID env
         @ '', received '' @ rpo_image_id proverOutput)
       else
         let proof = proofMeta h env proverOutput
         in bindE (batchSettlementPublicInputHash h (draft proof)) (\<lambda>expectedJournalDigest.
            if rpo_journal_digest proverOutput \<noteq> expectedJournalDigest
            then throw ''RISC0 journal digest does not match batch settlement public input hash''
            else Inr (\<lparr>pa_circuitId = RISC0_BATCH_MATCH_CIRCUIT_ID,
                 pa_circuitKey = RISC0_BATCH_MATCH_CIRCUIT_KEY h,
                 pa_bytecodeHash = RISC0_BATCH_MATCH_CIRCUIT_HASH env, pa_witnessHash = inputHash env input,
                 pa_proofHash = rpo_seal_digest proverOutput,
                 pa_publicInputsHash = rpo_journal_digest proverOutput,
                 pa_vkHash = RISC0_STELLAR_VERIFIER_HASH env, pa_proofPath = rpo_seal_path proverOutput,
                 pa_publicInputsPath = rpo_journal_path proverOutput, pa_vkPath = vkPath env\<rparr>,
                draft proof))))))"

subsection \<open>proof-coordinator.service.ts: the settlement of the tests\<close>

definition test_proof :: "host \<Rightarrow> risc0_env \<Rightarrow> Hex \<Rightarrow> Hex \<Rightarrow> Hex option \<Rightarrow> bool \<Rightarrow> ProofMeta" where
  "test_proof h env publicInputHash proofDigest imageId final =
     \<lparr>pm_circuitId = RISC0_BATCH_MATCH_CIRCUIT_ID, pm_circuitKey = RISC0_BATCH_MATCH_CIRCUIT_KEY h,
      pm_circuitHash = RISC0_BATCH_MATCH_CIRCUIT_HASH env, pm_verifierHash = RISC0_STELLAR_VERIFIER_HASH env,
      pm_publicInputHash = publicInputHash, pm_proofDigest = proofDigest, pm_proofSystem = Some Risc0_Groth16,
      pm_bytecodeHash = None, pm_boundlessRequestId = None, pm_imageId = imageId,
      pm_journalDigest = (if final then Some publicInputHash else None), pm_witnessHash = None,
      pm_proofHash = None, pm_publicInputsHash = None,
      pm_sealDigest = (if final then Some proofDigest else None), pm_vkHash = None\<rparr>"

definition testResidualPayloadOf :: "host \<Rightarrow> (Hex option, PrivateMatchIntent) jsmap \<Rightarrow> OrderLifecycleUpdate \<Rightarrow> Hex" where
  "testResidualPayloadOf h residuals u =
     (case mget residuals (Some (olu_intentCommitment u)) of
        Some r \<Rightarrow> matchingPayloadCommitment h r | None \<Rightarrow> ''0x0'')"

definition createOfflineTestSettlement :: "host \<Rightarrow> risc0_env \<Rightarrow> SettlementProofInput \<Rightarrow> BatchSettlement result" where
  "createOfflineTestSettlement h env input =
     (let m = spi_match input;
          privateByIntent = index_by pmi_intentCommitment (spi_intents input);
          residualBySource = index_by pmi_sourceIntentCommitment (mres_residuals m)
      in bindE (FEE_CONFIG_HASH h) (\<lambda>feeConfigHash.
         bindE (mapE (payloadCommitmentOf h privateByIntent) (mres_orderUpdates m)) (\<lambda>payloads.
         let draft = (\<lambda>proof. \<lparr>bs_batchId = spi_batchId input, bs_marketId = mc_marketId (spi_market input),
               bs_matchTranscriptDigest = mres_matchTranscriptDigest m,
               bs_settlementDigest = hashFields h ''test-risc0-settlement''
                 [JStr (spi_batchId input), JStr (mc_marketId (spi_market input)),
                  JStr (mres_matchTranscriptDigest m)],
               bs_newCommitments = map fill_positionCommitment (mres_fills m),
               bs_marginChangeCommitments = Some (mres_marginChangeCommitments m),
               bs_spentNullifiers = mres_spentNullifiers m, bs_matchingPayloadCommitments = payloads,
               bs_residualCommitments = map residualCommitmentOf (mres_orderUpdates m),
               bs_residualMargins = map (residualMarginOf residualBySource) (mres_orderUpdates m),
               bs_residualPayloadCommitments = map (testResidualPayloadOf h residualBySource) (mres_orderUpdates m),
               bs_fillCount = int (length (mres_fills m)), bs_feeConfigHash = feeConfigHash,
               bs_grossTakerFee = fee_grossTakerFee (mres_fees m), bs_makerRebate = fee_makerRebate (mres_fees m),
               bs_insuranceFee = fee_insurance (mres_fees m), bs_treasuryFee = fee_treasury (mres_fees m),
               bs_makerIntents = map me_makerIntentCommitment (mres_executions m),
               bs_takerIntents = map me_takerIntentCommitment (mres_executions m),
               bs_aggregateVolume = mres_aggregateVolume m, bs_openInterestDelta = mres_openInterestDelta m,
               bs_orderUpdates = Some (mres_orderUpdates m), bs_residualSize = mres_residualSize m,
               bs_proof = proof, bs_proofVerificationTxHash = None, bs_settlementTxHash = None,
               bs_onchainConfirmed = None\<rparr>)
         in bindE (batchSettlementPublicInputHash h (draft (test_proof h env ''0x0'' ''0x0'' None False)))
              (\<lambda>publicInputHash.
            let sealDigest = hashFields h ''test-risc0-seal'' [JStr (spi_batchId input), JStr publicInputHash];
                imageId = hashFields h ''test-risc0-image'' [JStr (spi_batchId input), JStr (mc_marketId (spi_market input))]
            in Inr (draft (test_proof h env publicInputHash sealDigest (Some imageId) True))))))"

text \<open>\<open>test\<close>: \<open>NODE_ENV === "test" && RISC0_REAL_PROVER !== "true"\<close>\<close>

definition createSettlement :: "host \<Rightarrow> risc0_env \<Rightarrow> bool \<Rightarrow> SettlementProofInput \<Rightarrow> BatchSettlement result" where
  "createSettlement h env test input =
     (if test then bindE (assertMatchTranscript h input) (\<lambda>_. createOfflineTestSettlement h env input)
      else throw ''production settlement proofs must use createSettlementAsync'')"

definition createSettlementAsync :: "host \<Rightarrow> risc0_env \<Rightarrow> bool \<Rightarrow> SettlementProofInput \<Rightarrow> BatchSettlement result" where
  "createSettlementAsync h env test input =
     (if test then createSettlement h env test input
      else bindE (createRisc0BatchSettlement h env input) (\<lambda>(artifact, settlement). Inr settlement))"

subsection \<open>Lemmas: the draft of a match\<close>

lemma index_by_get:
  assumes "distinct (map key xs)"
  shows "x \<in> set xs \<Longrightarrow> mget (index_by key xs) (key x) = Some x"
    and "k \<notin> key ` set xs \<Longrightarrow> mget (index_by key xs) k = None"
proof -
  have e: "index_by key xs = map (\<lambda>x. (key x, x)) xs"
    unfolding index_by_def by (rule map_new_distinct) (simp add: assms comp_def)
  show "x \<in> set xs \<Longrightarrow> mget (index_by key xs) (key x) = Some x"
    using assms unfolding e mget_def by (intro map_of_is_SomeI) (simp_all add: comp_def)
  show "k \<notin> key ` set xs \<Longrightarrow> mget (index_by key xs) k = None"
    unfolding e mget_def map_of_eq_None_iff by (auto simp: image_iff)
qed

definition residual_of :: "host \<Rightarrow> MatchInput \<Rightarrow> BookOrder \<Rightarrow> PrivateMatchIntent" where
  "residual_of h i order = \<lparr>pmi_batchId = mi_batchId i, pmi_intentCommitment = residualCommitment h order,
     pmi_limitPrice = limit_of order, pmi_margin = pmi_margin (bo_intent order) - bo_allocatedMargin order,
     pmi_marketId = pmi_marketId (bo_intent order), pmi_noteChangeCommitment = ZERO_HEX,
     pmi_noteNullifier = residualNullifier h order, pmi_ownerCommitment = pmi_ownerCommitment (bo_intent order),
     pmi_signedSize = (if bo_side order = Long then bo_remaining order else - bo_remaining order),
     pmi_sourceIntentCommitment = Some (pmi_intentCommitment (bo_intent order))\<rparr>"

lemma createResiduals_map:
  assumes "createResiduals h i orders = Inr rs"
  shows "rs = map (residual_of h i) (filter (\<lambda>x. bo_filled x > 0 \<and> bo_remaining x > 0) orders)"
proof -
  have "list_all2 (\<lambda>x y. y = residual_of h i x) (filter (\<lambda>x. bo_filled x > 0 \<and> bo_remaining x > 0) orders) rs"
    using assms unfolding createResiduals_def mapE_Inr_iff
    by (rule list_all2_mono) (auto simp: residual_of_def Let_def split: if_splits)
  then show ?thesis by (simp add: list_all2_eq [symmetric] list_all2_map1 list_all2_conv_all_nth list_eq_iff_nth_eq)
qed

lemma residualCommitment_nonempty [simp]: "truthy_str (Some (residualCommitment h x))"
  by (simp add: truthy_str_def residualCommitment_def hashFields_def)

lemma FEE_CONFIG_HASH_returns: "\<exists>d. FEE_CONFIG_HASH h = Inr d"
  unfolding FEE_CONFIG_HASH_def
  by (rule contractPublicInputHash_total)
    (auto simp: FEE_EPOCH_def TAKER_FEE_PPM_def MAKER_REBATE_PPM_def INSURANCE_FEE_PPM_def U128_MAX_def)

text \<open>The lists of the draft, order by order of the filled orders of the book.\<close>

lemma draft_lists:
  assumes m: "batch_match h i = Inr m" and dist: "distinct (map pmi_intentCommitment (mi_intents i))"
  obtains draft filled where
    "prepareRisc0SettlementDraft h \<lparr>spi_batchId = mi_batchId i, spi_market = mi_market i,
       spi_intents = mi_intents i, spi_match = m\<rparr> = Inr draft"
    "set (map bo_intent filled) \<subseteq> set (mi_intents i)"
    "distinct (map (\<lambda>x. pmi_intentCommitment (bo_intent x)) filled)"
    "mres_orderUpdates m = map (\<lambda>x. \<lparr>olu_intentCommitment = pmi_intentCommitment (bo_intent x),
       olu_residualCommitment = (if bo_remaining x > 0 then Some (residualCommitment h x) else None),
       olu_status = (if bo_remaining x > 0 then PartiallyFilled else OrderFilled)\<rparr>) filled"
    "mres_residuals m = map (residual_of h i) (filter (\<lambda>x. bo_remaining x > 0) filled)"
    "\<And>p. bs_matchingPayloadCommitments (draft p) = map (\<lambda>x. matchingPayloadCommitment h (bo_intent x)) filled"
    "\<And>p. bs_residualCommitments (draft p)
       = map (\<lambda>x. if bo_remaining x > 0 then residualCommitment h x else ''0x0'') filled"
    "\<And>p. bs_residualMargins (draft p)
       = map (\<lambda>x. if bo_remaining x > 0 then pmi_margin (residual_of h i x) else 0) filled"
    "\<And>p. bs_residualPayloadCommitments (draft p)
       = map (\<lambda>x. if bo_remaining x > 0 then matchingPayloadCommitment h (residual_of h i x) else ''0x0'') filled"
    "\<And>p. bs_orderUpdates (draft p) = Some (mres_orderUpdates m)"
    "\<And>p. bs_spentNullifiers (draft p) = mres_spentNullifiers m" "\<And>p. bs_proof (draft p) = p"
    "\<And>p. bs_newCommitments (draft p) = map fill_positionCommitment (mres_fills m)"
    "\<And>p. bs_fillCount (draft p) = int (length (mres_fills m))"
    "\<And>p. bs_marginChangeCommitments (draft p) = Some (mres_marginChangeCommitments m)"
proof -
  obtain st rs where st: "matchBook h i = Inr st" "createResiduals h i (ms_orders st) = Inr rs"
    "mres_residuals m = rs" "mres_orderUpdates m = createOrderUpdates h (ms_orders st)"
    by (rule batch_match_elim [OF m]) blast
  define filled where "filled = filter (\<lambda>x. bo_filled x > 0) (ms_orders st)"
  have book: "map bo_intent (ms_orders st) = mi_intents i"
    by (rule matchBook_elim [OF st(1)]) (simp add: book_ok_def)
  have sub: "set (map bo_intent filled) \<subseteq> set (mi_intents i)" by (auto simp: filled_def book [symmetric])
  have d: "distinct (map (\<lambda>x. pmi_intentCommitment (bo_intent x)) filled)"
    using dist unfolding book [symmetric] filled_def by (simp add: comp_def distinct_map_filter)
  let ?u = "\<lambda>x. \<lparr>olu_intentCommitment = pmi_intentCommitment (bo_intent x),
       olu_residualCommitment = (if bo_remaining x > 0 then Some (residualCommitment h x) else None),
       olu_status = (if bo_remaining x > 0 then PartiallyFilled else OrderFilled)\<rparr>"
  have us: "mres_orderUpdates m = map ?u filled" by (simp add: st(4) createOrderUpdates_def filled_def)
  have "rs = map (residual_of h i) (filter (\<lambda>x. bo_filled x > 0 \<and> bo_remaining x > 0) (ms_orders st))"
    by (rule createResiduals_map [OF st(2)])
  then have rs: "mres_residuals m = map (residual_of h i) (filter (\<lambda>x. bo_remaining x > 0) filled)"
    by (simp add: st(3) filled_def conj_commute)
  let ?open = "filter (\<lambda>x. bo_remaining x > 0) filled"
  let ?R = "index_by pmi_sourceIntentCommitment (mres_residuals m)"
  have src: "map pmi_sourceIntentCommitment (mres_residuals m) = map (\<lambda>x. Some (pmi_intentCommitment (bo_intent x))) ?open"
    by (simp add: rs residual_of_def)
  have dsrc: "distinct (map pmi_sourceIntentCommitment (mres_residuals m))"
    using d unfolding src by (simp add: distinct_map distinct_map_filter inj_on_def)
  have get: "mget ?R (Some (pmi_intentCommitment (bo_intent x)))
      = (if bo_remaining x > 0 then Some (residual_of h i x) else None)" if x: "x \<in> set filled" for x
  proof (cases "bo_remaining x > 0")
    case True
    then have "residual_of h i x \<in> set (mres_residuals m)" using x by (simp add: rs)
    from index_by_get(1) [OF dsrc this] True show ?thesis by (simp add: residual_of_def)
  next
    case False
    have "Some (pmi_intentCommitment (bo_intent x)) \<notin> pmi_sourceIntentCommitment ` set (mres_residuals m)"
    proof
      assume "Some (pmi_intentCommitment (bo_intent x)) \<in> pmi_sourceIntentCommitment ` set (mres_residuals m)"
      then obtain y where "y \<in> set filled" "bo_remaining y > 0"
        "pmi_intentCommitment (bo_intent y) = pmi_intentCommitment (bo_intent x)"
        by (auto simp: rs residual_of_def)
      with d x have "y = x" by (auto simp: distinct_map dest: inj_onD)
      with False \<open>bo_remaining y > 0\<close> show False by simp
    qed
    from index_by_get(2) [OF dsrc this] False show ?thesis by simp
  qed
  have pay: "mapE (payloadCommitmentOf h (index_by pmi_intentCommitment (mi_intents i))) (mres_orderUpdates m)
      = Inr (map (\<lambda>x. matchingPayloadCommitment h (bo_intent x)) filled)"
  proof -
    have "payloadCommitmentOf h (index_by pmi_intentCommitment (mi_intents i)) (?u x)
        = Inr (matchingPayloadCommitment h (bo_intent x))" if "x \<in> set filled" for x
      using index_by_get(1) [OF dist, of "bo_intent x"] sub that by (simp add: payloadCommitmentOf_def subset_iff)
    then show ?thesis unfolding us by (simp add: mapE_Inr_iff list_all2_map1 list_all2_map2 list_all2_same)
  qed
  have respay: "mapE (residualPayloadOf h ?R) (mres_orderUpdates m)
      = Inr (map (\<lambda>x. if bo_remaining x > 0 then matchingPayloadCommitment h (residual_of h i x) else ''0x0'') filled)"
  proof -
    have "residualPayloadOf h ?R (?u x)
        = Inr (if bo_remaining x > 0 then matchingPayloadCommitment h (residual_of h i x) else ''0x0'')"
      if "x \<in> set filled" for x
      using get [OF that] by (simp add: residualPayloadOf_def Let_def) (simp add: residual_of_def truthy_str_def)
    then show ?thesis unfolding us by (simp add: mapE_Inr_iff list_all2_map1 list_all2_map2 list_all2_same)
  qed
  have margins: "map (residualMarginOf ?R) (mres_orderUpdates m)
      = map (\<lambda>x. if bo_remaining x > 0 then pmi_margin (residual_of h i x) else 0) filled"
    unfolding us using get by (simp add: residualMarginOf_def)
  have coms: "map residualCommitmentOf (mres_orderUpdates m)
      = map (\<lambda>x. if bo_remaining x > 0 then residualCommitment h x else ''0x0'') filled"
    unfolding us by (simp add: residualCommitmentOf_def)
  have digest: "mres_matchTranscriptDigest m = matchTranscriptDigest h m"
    using m by (auto simp: batch_match_def bindE_Inr_iff Let_def matchTranscriptDigest_def split: if_splits)
  obtain fee where fee: "FEE_CONFIG_HASH h = Inr fee" using FEE_CONFIG_HASH_returns by blast
  show ?thesis
    by (rule that [OF _ sub d us rs], simp add: prepareRisc0SettlementDraft_def assertMatchTranscript_def Let_def
        pay respay margins coms fee digest [symmetric]) (simp_all only: BatchSettlement.select_convs)
qed

subsection \<open>The property\<close>

text \<open>C26: For every match of intents with different commitments the prover is given a draft, and its lists
  follow the order updates one by one: entry k is the payload commitment of the intent that update k
  is about and, when the order is only partly filled, the commitment, the margin and the payload commitment of
  the residual that stays of it; a filled order has 0x0 and 0 there. The draft opens one position per
  fill, and carries the spent nullifiers and the margin changes of the match.\<close>

theorem draft_follows_match:
  assumes m: "batch_match h i = Inr m" and dist: "distinct (map pmi_intentCommitment (mi_intents i))"
  shows "\<exists>draft filled.
    prepareRisc0SettlementDraft h \<lparr>spi_batchId = mi_batchId i, spi_market = mi_market i,
       spi_intents = mi_intents i, spi_match = m\<rparr> = Inr draft
    \<and> set (map bo_intent filled) \<subseteq> set (mi_intents i)
    \<and> map olu_intentCommitment (mres_orderUpdates m) = map (\<lambda>x. pmi_intentCommitment (bo_intent x)) filled
    \<and> mres_residuals m = map (residual_of h i) (filter (\<lambda>x. bo_remaining x > 0) filled)
    \<and> (\<forall>p. bs_matchingPayloadCommitments (draft p) = map (\<lambda>x. matchingPayloadCommitment h (bo_intent x)) filled
        \<and> bs_residualCommitments (draft p)
            = map (\<lambda>x. if bo_remaining x > 0 then pmi_intentCommitment (residual_of h i x) else ''0x0'') filled
        \<and> bs_residualMargins (draft p)
            = map (\<lambda>x. if bo_remaining x > 0 then pmi_margin (residual_of h i x) else 0) filled
        \<and> bs_residualPayloadCommitments (draft p)
            = map (\<lambda>x. if bo_remaining x > 0 then matchingPayloadCommitment h (residual_of h i x) else ''0x0'') filled
        \<and> bs_orderUpdates (draft p) = Some (mres_orderUpdates m)
        \<and> bs_newCommitments (draft p) = map fill_positionCommitment (mres_fills m)
        \<and> bs_spentNullifiers (draft p) = mres_spentNullifiers m
        \<and> bs_marginChangeCommitments (draft p) = Some (mres_marginChangeCommitments m))"
  apply (rule draft_lists [OF m dist])
  subgoal for draft filled
    by (rule exI [of _ draft], rule exI [of _ filled]) (simp add: residual_of_def comp_def)
  done

theorem draft_follows_match_witness:
  "\<exists>m draft. batch_match demo_host demo_batch = Inr m
    \<and> prepareRisc0SettlementDraft demo_host \<lparr>spi_batchId = ''1'', spi_market = demo_market,
        spi_intents = mi_intents demo_batch, spi_match = m\<rparr> = Inr draft"
proof -
  obtain m where m: "batch_match demo_host demo_batch = Inr m" using demo_batch_returns by blast
  have "distinct (map pmi_intentCommitment (mi_intents demo_batch))"
    by (simp add: demo_batch_def demo_sized_batch_def demo_private_intent_def)
  from draft_follows_match [OF m this] m show ?thesis
    by (auto simp: demo_batch_def demo_sized_batch_def)
qed

end
