(* ===== verification/Executor.thy ===== *)
theory Executor
  imports Settlement_Draft Store_Durability
begin

text \<open>
  \<^verbatim>\<open>workers/executor/executor.service.ts\<close>: the service that accepts prepared intents, builds the
  settlement of a batch, commits it, and checks and commits transcripts that external provers sent. Its
  state is the protocol store and the two maps of openings and residual orders that wait for the
  commit of their settlement. The store is the class \<open>ProtocolStore\<close> itself (the default argument of
  the constructor); that each of its calls survives on a file is shown in \<open>Store_Durability\<close>.
\<close>

subsection \<open>executor.model.ts\<close>

record SubmitIntentInput =
  sii_intent :: TradeIntent
  sii_validity :: IntentValidityRecord

record PreparedIntentSubmission =
  pis_privateMatchIntent :: PrivateMatchIntent
  pis_record :: IntentRecord

record SettleBatchInput =
  sbi_batchId :: string
  sbi_marketId :: string

record ExternalBatchSettlementTranscript =
  ebt_accountEvents :: "AccountEventRecord list"
  ebt_privateMatchIntents :: "PrivateMatchIntent list option"
  ebt_positionOpenings :: "PositionLifecycleRecord list"
  ebt_residualOrders :: "ResidualOrderRecord list option"
  ebt_settlement :: BatchSettlement

subsection \<open>The state of the service\<close>

record ExecutorService =
  ex_store :: ProtocolStore
  ex_pendingPositionOpenings :: "(Hex, PositionLifecycleRecord list) jsmap"
  ex_pendingResidualOrders :: "(Hex, ResidualOrderRecord list) jsmap"

definition new_ExecutorService :: "ProtocolStore \<Rightarrow> ExecutorService" where
  "new_ExecutorService s =
     \<lparr>ex_store = s, ex_pendingPositionOpenings = [], ex_pendingResidualOrders = []\<rparr>"

text \<open>A call of a method of \<open>this.store\<close>.\<close>

definition store_call :: "(ProtocolStore, 'a) act \<Rightarrow> (ExecutorService, 'a) act" where
  "store_call m e = (case m (ex_store e) of (r, t) \<Rightarrow> (r, e\<lparr>ex_store := t\<rparr>))"

text \<open>\<open>Map.delete\<close>; \<open>xs[i]\<close>, which is undefined out of range.\<close>

definition mdelete :: "'k \<Rightarrow> ('k, 'v) jsmap \<Rightarrow> ('k, 'v) jsmap" where
  "mdelete k m = filter (\<lambda>e. fst e \<noteq> k) m"

text \<open>\<open>xs ?? []\<close>\<close>

definition or_empty :: "'a list option \<Rightarrow> 'a list" where
  "or_empty xs = (case xs of Some ys \<Rightarrow> ys | None \<Rightarrow> [])"

definition item :: "'a list \<Rightarrow> nat \<Rightarrow> 'a option" where
  "item xs i = (if i < length xs then Some (xs ! i) else None)"

definition executor_addMarket :: "MarketConfig \<Rightarrow> (ExecutorService, unit) act" where
  "executor_addMarket market = store_call (addMarket market)"

definition deposit :: "Hex \<Rightarrow> (ExecutorService, unit) act" where
  "deposit commitment = store_call (addMarginCommitment commitment)"

subsection \<open>Intents\<close>

definition assertIntentRisk :: "ProtocolStore \<Rightarrow> PrivateMatchIntent \<Rightarrow> unit result" where
  "assertIntentRisk s intent =
     (case mget (st_markets s) (pmi_marketId intent) of
        None \<Rightarrow> Inr ()
      | Some market \<Rightarrow>
          let sz = (if pmi_signedSize intent < 0 then - pmi_signedSize intent else pmi_signedSize intent) in
          if sz \<le> 0 then throw ''intent size cannot be zero''
          else if pmi_limitPrice intent \<le> 0 then throw ''intent limit price must be positive''
          else if \<not> hasInitialMargin sz (pmi_limitPrice intent) (pmi_margin intent) (mc_initialMarginRate market)
            then throw ''intent exceeds available margin at selected leverage''
          else if \<not> hasMaxLeverage sz (pmi_limitPrice intent) (pmi_margin intent) (mc_maxLeverage market)
            then throw ''intent exceeds market max leverage''
          else if pmi_margin intent \<le> maintenanceMargin sz (pmi_limitPrice intent) (mc_maintenanceMarginRate market)
            then throw ''intent margin is below maintenance buffer''
          else Inr ())"

definition prepareIntent :: "host \<Rightarrow> SubmitIntentInput \<Rightarrow> ProtocolStore \<Rightarrow> PreparedIntentSubmission result" where
  "prepareIntent h input s =
     (let intent = sii_intent input; validity = sii_validity input in
      bindE (commitIntent h intent) (\<lambda>intentCommitment.
      if ivr_intentCommitment validity \<noteq> intentCommitment then throw ''intent proof commitment mismatch''
      else if ivr_noteNullifier validity \<noteq> ti_noteNullifier intent then throw ''intent proof nullifier mismatch''
      else if pm_circuitId (ivr_proof validity) \<noteq> ''intent-validity'' then throw ''intent proof circuit mismatch''
      else bindE (intentBindingFields h intent) (\<lambda>binding.
      if ivr_batchDigest validity \<noteq> cic_batchDigest binding
          \<or> ivr_marketDigest validity \<noteq> cic_marketDigest binding
          \<or> ivr_ownerCommitmentField validity \<noteq> cic_ownerCommitmentField binding
        then throw ''intent proof public binding mismatch''
      else bindE (marginMembershipRoot h s) (\<lambda>root.
      if ivr_marginRoot validity \<noteq> root then throw ''intent margin root is not current''
      else
        let private = privateMatchIntentFromTradeIntent intent intentCommitment
              (ivr_noteChangeCommitment validity) (ownerCommitment h (ti_owner intent))
        in bindE (assertIntentRisk s private) (\<lambda>_.
           Inr \<lparr>pis_privateMatchIntent = private,
             pis_record = \<lparr>ir_batchId = ti_batchId intent, ir_batchDigest = cic_batchDigest binding,
               ir_marketId = ti_marketId intent, ir_marketDigest = cic_marketDigest binding,
               ir_marginRoot = ivr_marginRoot validity,
               ir_ownerCommitmentField = cic_ownerCommitmentField binding,
               ir_ownerCommitment = pmi_ownerCommitment private, ir_intentCommitment = intentCommitment,
               ir_matchingPayloadCommitment = matchingPayloadCommitment h private,
               ir_noteChangeCommitment = ivr_noteChangeCommitment validity, ir_proof = ivr_proof validity,
               ir_noteNullifier = ti_noteNullifier intent, ir_submissionTxHash = None,
               ir_submissionSequence = None\<rparr>\<rparr>)))))"

definition commitPreparedIntent ::
  "host \<Rightarrow> int \<Rightarrow> PreparedIntentSubmission \<Rightarrow> (ExecutorService, IntentRecord) act" where
  "commitPreparedIntent h now input =
     seqA (store_call (addIntent h now (pis_record input) (Some (pis_privateMatchIntent input))))
       (returnA (pis_record input))"

definition submitIntent :: "host \<Rightarrow> int \<Rightarrow> SubmitIntentInput \<Rightarrow> (ExecutorService, IntentRecord) act" where
  "submitIntent h now input =
     bindA (liftA (\<lambda>e. prepareIntent h input (ex_store e))) (commitPreparedIntent h now)"

subsection \<open>The orders of a batch\<close>

definition is_open :: "ProtocolStore \<Rightarrow> Hex \<Rightarrow> bool" where
  "is_open s c \<longleftrightarrow> map_option olr_status (mget (st_orderLifecycle s) c) = Some OrderOpen"

text \<open>What the validation reads of an intent record or a residual order is their \<open>MatchRecord\<close>.\<close>

definition activeOrderRecords :: "ProtocolStore \<Rightarrow> string \<Rightarrow> (Hex, MatchRecord) jsmap" where
  "activeOrderRecords s marketId =
     index_by mr_intentCommitment
       (filter (\<lambda>order. mr_marketId order = marketId \<and> is_open s (mr_intentCommitment order))
         (map matchRecordOfIntent (mvalues (st_intents s))
          @ map matchRecordOfResidual (mvalues (st_residualOrders s))))"

definition activeResiduals :: "ProtocolStore \<Rightarrow> string \<Rightarrow> string \<Rightarrow> ResidualOrderRecord list" where
  "activeResiduals s marketId batchId =
     map (\<lambda>order. order\<lparr>ror_batchId := batchId\<rparr>)
       (filter (\<lambda>order. ror_marketId order = marketId \<and> is_open s (ror_intentCommitment order))
         (mvalues (st_residualOrders s)))"

definition privateMatchIntentFor ::
  "host \<Rightarrow> ProtocolStore \<Rightarrow> MatchRecord \<Rightarrow> string \<Rightarrow> PrivateMatchIntent result" where
  "privateMatchIntentFor h s r batchId =
     (case mget (st_privateMatchIntents s) (mr_intentCommitment r) of
        None \<Rightarrow> throw ''private match payload not found''
      | Some payload \<Rightarrow>
          bindE (assertPrivateMatchIntent h r payload) (\<lambda>_. Inr (payload\<lparr>pmi_batchId := batchId\<rparr>)))"

definition privateMatchIntentsFor ::
  "host \<Rightarrow> ProtocolStore \<Rightarrow> string \<Rightarrow> IntentRecord list \<Rightarrow> ResidualOrderRecord list
     \<Rightarrow> PrivateMatchIntent list result" where
  "privateMatchIntentsFor h s batchId records residuals =
     bindE (mapE (\<lambda>r. privateMatchIntentFor h s (matchRecordOfResidual r) batchId) residuals) (\<lambda>rs.
     bindE (mapE (\<lambda>r. privateMatchIntentFor h s (matchRecordOfIntent r) batchId) records) (\<lambda>is.
       Inr (rs @ is)))"

definition createPositionOpenings :: "int \<Rightarrow> BatchSettlement \<Rightarrow> Fill list \<Rightarrow> PositionLifecycleRecord list" where
  "createPositionOpenings now settlement fills =
     map (\<lambda>fill. \<lparr>plr_batchId = bs_batchId settlement, plr_closeCommitment = None, plr_fundingIndex = None,
        plr_liquidationRewardCommitment = None, plr_marginOutputCommitment = None,
        plr_marketId = fill_marketId fill, plr_newPositionCommitment = None, plr_openedAt = now,
        plr_ownerCommitment = fill_ownerCommitment fill,
        plr_positionCommitment = fill_positionCommitment fill, plr_positionIndex = None,
        plr_positionNullifier = fill_positionNullifier fill,
        plr_settlementDigest = bs_settlementDigest settlement,
        plr_sourceIntentCommitment = fill_intentCommitment fill, plr_status = PositionOpen,
        plr_updatedAt = now\<rparr>) fills"

definition submissionSequenceOf :: "ProtocolStore \<Rightarrow> Hex \<Rightarrow> int option" where
  "submissionSequenceOf s c =
     (case Option.bind (mget (st_intents s) c) ir_submissionSequence of
        Some n \<Rightarrow> Some n
      | None \<Rightarrow> Option.bind (mget (st_residualOrders s) c) ror_submissionSequence)"

definition createResidualOrderRecords ::
  "host \<Rightarrow> int \<Rightarrow> ProtocolStore \<Rightarrow> BatchSettlement \<Rightarrow> PrivateMatchIntent list \<Rightarrow> ResidualOrderRecord list" where
  "createResidualOrderRecords h now s settlement residuals =
     map (\<lambda>residual.
       let source = (case pmi_sourceIntentCommitment residual of
                       Some c \<Rightarrow> c | None \<Rightarrow> pmi_intentCommitment residual)
       in \<lparr>ror_batchId = bs_batchId settlement, ror_createdAt = now,
           ror_intentCommitment = pmi_intentCommitment residual, ror_marketId = pmi_marketId residual,
           ror_matchingPayloadCommitment = matchingPayloadCommitment h residual,
           ror_noteNullifier = pmi_noteNullifier residual, ror_ownerCommitment = pmi_ownerCommitment residual,
           ror_sourceIntentCommitment = source, ror_submissionSequence = submissionSequenceOf s source,
           ror_updatedAt = now\<rparr>) residuals"

subsection \<open>Building the settlement of a batch\<close>

text \<open>
  \<open>createBatchSettlement\<close> and \<open>createBatchSettlementAsync\<close> have the same text but for the await of the
  prover. \<open>batchRequest\<close> is what they compute before the proof, \<open>recordBatch\<close> what they do after it.
\<close>

definition batchRequest :: "host \<Rightarrow> SettleBatchInput \<Rightarrow> ProtocolStore \<Rightarrow> SettlementProofInput result" where
  "batchRequest h input s =
     (case mget (st_markets s) (sbi_marketId input) of
        None \<Rightarrow> throw ''unknown market''
      | Some market \<Rightarrow>
          let relevant = filter (\<lambda>intent. ir_batchId intent = sbi_batchId input
                \<and> ir_marketId intent = sbi_marketId input \<and> is_open s (ir_intentCommitment intent))
                (mvalues (st_intents s));
              residuals = activeResiduals s (sbi_marketId input) (sbi_batchId input)
          in if length relevant = 0 \<and> length residuals = 0 then throw ''batch has no active intents''
             else bindE (privateMatchIntentsFor h s (sbi_batchId input) relevant residuals) (\<lambda>intents.
               bindE (batch_match h \<lparr>mi_batchId = sbi_batchId input, mi_market = market, mi_intents = intents\<rparr>)
                 (\<lambda>m. Inr \<lparr>spi_batchId = sbi_batchId input, spi_market = market, spi_intents = intents,
                        spi_match = m\<rparr>)))"

definition recordBatch ::
  "host \<Rightarrow> int \<Rightarrow> int \<Rightarrow> SettlementProofInput \<Rightarrow> BatchSettlement \<Rightarrow> (ExecutorService, BatchSettlement) act" where
  "recordBatch h openedAt createdAt request settlement e =
     (let positionOpenings = createPositionOpenings openedAt settlement (mres_fills (spi_match request));
          residualPrivateIntents = mres_residuals (spi_match request);
          residualOrders = createResidualOrderRecords h createdAt (ex_store e) settlement residualPrivateIntents;
          digest = bs_settlementDigest settlement
      in (Inr settlement,
          e\<lparr>ex_pendingPositionOpenings := mset_at digest positionOpenings (ex_pendingPositionOpenings e),
            ex_pendingResidualOrders := mset_at digest residualOrders (ex_pendingResidualOrders e),
            ex_store := ex_store e\<lparr>st_privateMatchIntents :=
              fold (\<lambda>p. mset_at (pmi_intentCommitment p) p) residualPrivateIntents
                (st_privateMatchIntents (ex_store e))\<rparr>\<rparr>))"

definition createBatchSettlement ::
  "host \<Rightarrow> risc0_env \<Rightarrow> bool \<Rightarrow> int \<Rightarrow> int \<Rightarrow> SettleBatchInput \<Rightarrow> (ExecutorService, BatchSettlement) act" where
  "createBatchSettlement h env test openedAt createdAt input e =
     (case bindE (batchRequest h input (ex_store e)) (\<lambda>request.
          bindE (createSettlement h env test request) (\<lambda>settlement. Inr (request, settlement))) of
        Inl err \<Rightarrow> (Inl err, e)
      | Inr (request, settlement) \<Rightarrow> recordBatch h openedAt createdAt request settlement e)"

text \<open>\<open>during\<close> is what other calls do to the service while the prover runs.\<close>

definition createBatchSettlementAsync ::
  "host \<Rightarrow> risc0_env \<Rightarrow> bool \<Rightarrow> (ExecutorService \<Rightarrow> ExecutorService) \<Rightarrow> int \<Rightarrow> int \<Rightarrow> SettleBatchInput
     \<Rightarrow> (ExecutorService, BatchSettlement) act" where
  "createBatchSettlementAsync h env test during openedAt createdAt input e =
     (case batchRequest h input (ex_store e) of
        Inl err \<Rightarrow> (Inl err, e)
      | Inr request \<Rightarrow>
          (case createSettlementAsync h env test request of
             Inl err \<Rightarrow> (Inl err, during e)
           | Inr settlement \<Rightarrow> recordBatch h openedAt createdAt request settlement (during e)))"

text \<open>The pending entries are only dropped when the store has accepted the settlement.\<close>

definition commitBatchSettlement ::
  "host \<Rightarrow> int \<Rightarrow> int \<Rightarrow> BatchSettlement \<Rightarrow> (ExecutorService, BatchSettlement) act" where
  "commitBatchSettlement h now settledAt settlement =
     seqA (store_call (recordProof (bs_proof settlement))) (\<lambda>e.
       let digest = bs_settlementDigest settlement;
           openings = or_empty (mget (ex_pendingPositionOpenings e) digest);
           residuals = or_empty (mget (ex_pendingResidualOrders e) digest);
           privateResiduals = List.map_filter (\<lambda>r.
             mget (st_privateMatchIntents (ex_store e)) (ror_intentCommitment r)) residuals
       in seqA (store_call (addSettlement h now settledAt settlement openings residuals [] privateResiduals))
            (\<lambda>e. (Inr settlement, e\<lparr>
               ex_pendingPositionOpenings := mdelete digest (ex_pendingPositionOpenings e),
               ex_pendingResidualOrders := mdelete digest (ex_pendingResidualOrders e)\<rparr>)) e)"

definition settleBatch ::
  "host \<Rightarrow> risc0_env \<Rightarrow> bool \<Rightarrow> int \<Rightarrow> int \<Rightarrow> int \<Rightarrow> int \<Rightarrow> SettleBatchInput
     \<Rightarrow> (ExecutorService, BatchSettlement) act" where
  "settleBatch h env test openedAt createdAt now settledAt input =
     bindA (createBatchSettlement h env test openedAt createdAt input) (commitBatchSettlement h now settledAt)"

subsection \<open>Validating a transcript\<close>

text \<open>
  The loops that reject a second element with the same key and collect the keys: \<open>key\<close> is looked up in
  the set \<open>seen\<close>, added to it, and \<open>check\<close> is the rest of the body at index \<open>i\<close>.
\<close>

fun checkEach :: "string \<Rightarrow> ('x \<Rightarrow> 'k) \<Rightarrow> (nat \<Rightarrow> 'x \<Rightarrow> unit result) \<Rightarrow> nat \<Rightarrow> 'k list \<Rightarrow> 'x list \<Rightarrow> 'k list result" where
  "checkEach duplicate key check i seen [] = Inr seen"
| "checkEach duplicate key check i seen (x # xs) =
     (if key x \<in> set seen then throw duplicate
      else bindE (check i x) (\<lambda>_. checkEach duplicate key check (Suc i) (sadd (key x) seen) xs))"

definition checkSettlementProof :: "host \<Rightarrow> BatchSettlement \<Rightarrow> unit result" where
  "checkSettlementProof h b =
     (let proof = bs_proof b in
      if bs_fillCount b \<noteq> int (length (bs_newCommitments b)) then throw ''external settlement fill count mismatch''
      else if length (set_new (bs_newCommitments b)) \<noteq> length (bs_newCommitments b)
        then throw ''external settlement duplicate commitment''
      else if pm_circuitId proof \<noteq> ''batch-match'' then throw ''external settlement proof circuit mismatch''
      else if pm_proofSystem proof \<noteq> Some Risc0_Groth16 then throw ''external settlement proof system mismatch''
      else bindE (batchSettlementPublicInputHash h b) (\<lambda>publicInputHash.
      if pm_publicInputHash proof \<noteq> publicInputHash
        then throw ''external settlement proof public input mismatch''
      else if \<not> truthy_str (pm_imageId proof) \<or> \<not> truthy_str (pm_journalDigest proof)
          \<or> \<not> truthy_str (pm_sealDigest proof)
        then throw ''external settlement RISC0 receipt metadata is required''
      else if pm_journalDigest proof \<noteq> Some (pm_publicInputHash proof)
        then throw ''external settlement RISC0 journal mismatch''
      else if pm_sealDigest proof \<noteq> Some (pm_proofDigest proof)
        then throw ''external settlement RISC0 seal mismatch''
      else Inr ()))"

definition checkOrderUpdate ::
  "(Hex, MatchRecord) jsmap \<Rightarrow> BatchSettlement \<Rightarrow> nat \<Rightarrow> OrderLifecycleUpdate \<Rightarrow> unit result" where
  "checkOrderUpdate activeOrders b index update =
     (case mget activeOrders (olu_intentCommitment update) of
        None \<Rightarrow> throw ''external settlement unknown active order''
      | Some order \<Rightarrow>
          if item (bs_matchingPayloadCommitments b) index \<noteq> Some (mr_matchingPayloadCommitment order)
            then throw ''external settlement registered payload mismatch''
          else if item (bs_residualCommitments b) index \<noteq> Some (residualCommitmentOf update)
            then throw ''external settlement residual commitment mismatch''
          else if olu_status update \<noteq> OrderFilled \<and> olu_status update \<noteq> PartiallyFilled
            then throw ''external settlement invalid order status''
          else if mr_noteNullifier order \<notin> set (bs_spentNullifiers b)
            then throw ''external settlement spent nullifier mismatch''
          else if truthy_str (mr_noteChangeCommitment order) \<and> mr_noteChangeCommitment order \<noteq> Some ZERO_HEX
            then bindE (required (bs_marginChangeCommitments b)) (\<lambda>changes.
              if the (mr_noteChangeCommitment order) \<notin> set changes
                then throw ''external settlement missing margin note change'' else Inr ())
          else Inr ())"

definition expectedSpentNullifiers :: "(Hex, MatchRecord) jsmap \<Rightarrow> OrderLifecycleUpdate list \<Rightarrow> Hex list" where
  "expectedSpentNullifiers activeOrders updates =
     set_new (List.map_filter (\<lambda>u. map_option mr_noteNullifier (mget activeOrders (olu_intentCommitment u))) updates)"

definition checkOrderUpdates ::
  "(Hex, MatchRecord) jsmap \<Rightarrow> BatchSettlement \<Rightarrow> OrderLifecycleUpdate list \<Rightarrow> unit result" where
  "checkOrderUpdates activeOrders b updates =
     bindE (checkEach ''external settlement duplicate order update'' olu_intentCommitment
       (checkOrderUpdate activeOrders b) 0 [] updates) (\<lambda>_.
     let expected = expectedSpentNullifiers activeOrders updates in
     if length (bs_spentNullifiers b) \<noteq> length expected
       then throw ''external settlement spent nullifier mismatch''
     else eachE (\<lambda>n. if n \<notin> set expected then throw ''external settlement spent nullifier mismatch'' else Inr ())
       (bs_spentNullifiers b))"

text \<open>\<open>updateOwners.get(c)\<close>: the owner of the active order that an update is about.\<close>

definition updateOwners ::
  "(Hex, MatchRecord) jsmap \<Rightarrow> OrderLifecycleUpdate list \<Rightarrow> (Hex, Hex option) jsmap" where
  "updateOwners activeOrders updates =
     map_new (map (\<lambda>u. (olu_intentCommitment u,
       map_option mr_ownerCommitment (mget activeOrders (olu_intentCommitment u)))) updates)"

definition checkOwner :: "(Hex, Hex option) jsmap \<Rightarrow> Hex \<Rightarrow> Hex \<Rightarrow> bool" where
  "checkOwner owners c owner =
     (let found = Option.bind (mget owners c) id in truthy_str found \<and> found = Some owner)"

definition checkOpening ::
  "(Hex, Hex option) jsmap \<Rightarrow> BatchSettlement \<Rightarrow> nat \<Rightarrow> PositionLifecycleRecord \<Rightarrow> unit result" where
  "checkOpening owners b index opening =
     (if plr_positionCommitment opening \<notin> set (bs_newCommitments b)
        then throw ''external position opening commitment mismatch''
      else if plr_settlementDigest opening \<noteq> bs_settlementDigest b
        then throw ''external position opening settlement mismatch''
      else if plr_batchId opening \<noteq> bs_batchId b \<or> plr_marketId opening \<noteq> bs_marketId b
        then throw ''external position opening batch mismatch''
      else if \<not> checkOwner owners (plr_sourceIntentCommitment opening) (plr_ownerCommitment opening)
        then throw ''external position opening owner mismatch''
      else Inr ())"

definition checkOpenings ::
  "(Hex, Hex option) jsmap \<Rightarrow> BatchSettlement \<Rightarrow> PositionLifecycleRecord list \<Rightarrow> unit result" where
  "checkOpenings owners b openings =
     bindE (checkEach ''external position opening duplicate commitment'' plr_positionCommitment
       (checkOpening owners b) 0 [] openings) (\<lambda>opened.
     if length openings \<noteq> length (bs_newCommitments b) then throw ''external position opening count mismatch''
     else eachE (\<lambda>c. if c \<notin> set opened then throw ''external position opening commitment mismatch'' else Inr ())
       (bs_newCommitments b))"

definition updatesByResidual :: "OrderLifecycleUpdate list \<Rightarrow> (Hex, OrderLifecycleUpdate) jsmap" where
  "updatesByResidual updates =
     index_by (\<lambda>u. the (olu_residualCommitment u)) (filter (\<lambda>u. truthy_str (olu_residualCommitment u)) updates)"

text \<open>\<open>xs[updates.findIndex(p)]\<close>: the index -1 of an absent update reads undefined.\<close>

definition item_of :: "'a list \<Rightarrow> (OrderLifecycleUpdate \<Rightarrow> bool) \<Rightarrow> OrderLifecycleUpdate list \<Rightarrow> 'a option" where
  "item_of xs p updates = Option.bind (findIndex p updates) (item xs)"

definition checkResidual ::
  "ProtocolStore \<Rightarrow> (Hex, Hex option) jsmap \<Rightarrow> BatchSettlement \<Rightarrow> OrderLifecycleUpdate list \<Rightarrow> nat
     \<Rightarrow> ResidualOrderRecord \<Rightarrow> unit result" where
  "checkResidual s owners b updates index residual =
     (case mget (updatesByResidual updates) (ror_intentCommitment residual) of
        None \<Rightarrow> throw ''external residual order update mismatch''
      | Some update \<Rightarrow>
          if olu_status update \<noteq> PartiallyFilled then throw ''external residual order update mismatch''
          else if ror_batchId residual \<noteq> bs_batchId b \<or> ror_marketId residual \<noteq> bs_marketId b
            then throw ''external residual order batch mismatch''
          else if ror_sourceIntentCommitment residual \<noteq> olu_intentCommitment update
            then throw ''external residual order source mismatch''
          else if item_of (bs_residualPayloadCommitments b)
              (\<lambda>u. olu_intentCommitment u = olu_intentCommitment update) updates
              \<noteq> Some (ror_matchingPayloadCommitment residual)
            then throw ''external residual order payload mismatch''
          else if submissionSequenceOf s (olu_intentCommitment update) \<noteq> None
              \<and> ror_submissionSequence residual \<noteq> submissionSequenceOf s (olu_intentCommitment update)
            then throw ''external residual order priority mismatch''
          else if \<not> checkOwner owners (olu_intentCommitment update) (ror_ownerCommitment residual)
            then throw ''external residual order owner mismatch''
          else if ror_noteNullifier residual \<in> set (bs_spentNullifiers b)
            then throw ''external residual order nullifier mismatch''
          else Inr ())"

fun checkFilled :: "BatchSettlement \<Rightarrow> nat \<Rightarrow> OrderLifecycleUpdate list \<Rightarrow> unit result" where
  "checkFilled b index [] = Inr ()"
| "checkFilled b index (u # us) =
     (if \<not> truthy_str (olu_residualCommitment u) \<and> item (bs_residualPayloadCommitments b) index \<noteq> Some ZERO_HEX
      then throw ''external settlement unexpected residual payload'' else checkFilled b (Suc index) us)"

definition checkPrivateResidual ::
  "host \<Rightarrow> BatchSettlement \<Rightarrow> OrderLifecycleUpdate list \<Rightarrow> PrivateMatchIntent list \<Rightarrow> ResidualOrderRecord
     \<Rightarrow> unit result" where
  "checkPrivateResidual h b updates privates residual =
     (case mget (index_by pmi_intentCommitment privates) (ror_intentCommitment residual) of
        None \<Rightarrow> throw ''external residual private match payload is required''
      | Some payload \<Rightarrow>
          bindE (assertPrivateMatchIntent h (matchRecordOfResidual residual) payload) (\<lambda>_.
          if item_of (bs_residualMargins b) (\<lambda>u. olu_residualCommitment u = Some (ror_intentCommitment residual)) updates
              \<noteq> Some (pmi_margin payload)
            then throw ''external residual order margin mismatch'' else Inr ()))"

definition checkResiduals ::
  "host \<Rightarrow> ProtocolStore \<Rightarrow> (Hex, Hex option) jsmap \<Rightarrow> BatchSettlement \<Rightarrow> OrderLifecycleUpdate list
     \<Rightarrow> ResidualOrderRecord list \<Rightarrow> PrivateMatchIntent list \<Rightarrow> unit result" where
  "checkResiduals h s owners b updates residuals privates =
     bindE (checkEach ''external residual order duplicate commitment'' ror_intentCommitment
       (checkResidual s owners b updates) 0 [] residuals) (\<lambda>_.
     if length residuals \<noteq> length (updatesByResidual updates)
       then throw ''external residual order count mismatch''
     else bindE (checkFilled b 0 updates) (\<lambda>_.
       eachE (checkPrivateResidual h b updates privates) residuals))"

subsection \<open>Validating the account events\<close>

definition findPositionOpeningEvent ::
  "host \<Rightarrow> PositionLifecycleRecord \<Rightarrow> AccountEventRecord list \<Rightarrow> AccountEventRecord option" where
  "findPositionOpeningEvent h opening events = find (\<lambda>event.
     aer_eventId event = positionOpeningAccountEventId h opening
       (positionOpeningAccountEventDataCommitment h opening (aer_ciphertext event))) events"

definition findResidualOrderEvent ::
  "host \<Rightarrow> ResidualOrderRecord \<Rightarrow> Hex \<Rightarrow> AccountEventRecord list \<Rightarrow> AccountEventRecord option" where
  "findResidualOrderEvent h residual digest events = find (\<lambda>event.
     aer_eventId event = residualOrderAccountEventId h residual digest
       (residualOrderAccountEventDataCommitment h residual digest (aer_ciphertext event))) events"

definition openingEvent ::
  "host \<Rightarrow> AccountEventRecord list \<Rightarrow> PositionLifecycleRecord \<Rightarrow> Hex result" where
  "openingEvent h events opening =
     (case findPositionOpeningEvent h opening events of
        None \<Rightarrow> throw ''external position account event is required''
      | Some event \<Rightarrow> bindE (assertPositionOpeningAccountEvent h opening event) (\<lambda>_. Inr (aer_eventId event)))"

definition residualEvent ::
  "host \<Rightarrow> Hex \<Rightarrow> AccountEventRecord list \<Rightarrow> ResidualOrderRecord \<Rightarrow> Hex result" where
  "residualEvent h digest events residual =
     (case findResidualOrderEvent h residual digest events of
        None \<Rightarrow> throw ''external residual account event is required''
      | Some event \<Rightarrow> bindE (assertResidualOrderAccountEvent h residual digest event) (\<lambda>_. Inr (aer_eventId event)))"

definition validateExternalAccountEvents ::
  "host \<Rightarrow> Hex \<Rightarrow> PositionLifecycleRecord list \<Rightarrow> ResidualOrderRecord list \<Rightarrow> AccountEventRecord list
     \<Rightarrow> unit result" where
  "validateExternalAccountEvents h digest openings residuals events =
     (let byId = index_by aer_eventId events in
      if length byId \<noteq> length events then throw ''external account event duplicate id''
      else bindE (mapE (openingEvent h (mvalues byId)) openings) (\<lambda>os.
        bindE (mapE (residualEvent h digest (mvalues byId)) residuals) (\<lambda>rs.
        if length events \<noteq> length (set_new (os @ rs)) then throw ''external account event count mismatch''
        else Inr ())))"

subsection \<open>Committing a transcript\<close>

definition validateExternalBatchSettlement ::
  "host \<Rightarrow> ExternalBatchSettlementTranscript \<Rightarrow> ProtocolStore \<Rightarrow> unit result" where
  "validateExternalBatchSettlement h transcript s =
     (let b = ebt_settlement transcript;
          residualOrders = or_empty (ebt_residualOrders transcript);
          privates = or_empty (ebt_privateMatchIntents transcript);
          activeOrders = activeOrderRecords s (bs_marketId b)
      in case mget (st_markets s) (bs_marketId b) of
           None \<Rightarrow> throw ''unknown market''
         | Some market \<Rightarrow>
             bindE (checkSettlementProof h b) (\<lambda>_.
             bindE (required (bs_orderUpdates b)) (\<lambda>updates.
             bindE (checkOrderUpdates activeOrders b updates) (\<lambda>_.
             bindE (checkOpenings (updateOwners activeOrders updates) b (ebt_positionOpenings transcript)) (\<lambda>_.
             bindE (checkResiduals h s (updateOwners activeOrders updates) b updates residualOrders privates) (\<lambda>_.
               validateExternalAccountEvents h (bs_settlementDigest b) (ebt_positionOpenings transcript)
                 residualOrders (ebt_accountEvents transcript)))))))"

definition commitExternalBatchSettlement ::
  "host \<Rightarrow> int \<Rightarrow> int \<Rightarrow> ExternalBatchSettlementTranscript \<Rightarrow> bool \<Rightarrow> (ExecutorService, BatchSettlement) act" where
  "commitExternalBatchSettlement h now settledAt transcript proofVerified =
     (let b = ebt_settlement transcript in
      seqA (liftA (\<lambda>e. validateExternalBatchSettlement h transcript (ex_store e)))
        (seqA (if proofVerified then store_call (recordProof (bs_proof b)) else returnA ())
        (seqA (guardA (\<lambda>e. \<not> hasProof (bs_proof b) (ex_store e)) ''external settlement proof is not verified'')
        (seqA (store_call (addSettlement h now settledAt b (ebt_positionOpenings transcript)
            (or_empty (ebt_residualOrders transcript)) (ebt_accountEvents transcript)
            (or_empty (ebt_privateMatchIntents transcript))))
          (returnA b)))))"

subsection \<open>Lemmas: what the loops accept\<close>

lemma checkEach_iff:
  "checkEach duplicate key check i seen xs = Inr out \<longleftrightarrow>
     distinct (map key xs) \<and> set (map key xs) \<inter> set seen = {}
     \<and> (\<forall>j<length xs. check (i + j) (xs ! j) = Inr ()) \<and> out = fold sadd (map key xs) seen"
proof (induction xs arbitrary: i seen)
  case (Cons x xs)
  have all: "(\<forall>j<Suc (length xs). check (i + j) ((x # xs) ! j) = Inr ())
      \<longleftrightarrow> check i x = Inr () \<and> (\<forall>j<length xs. check (Suc i + j) (xs ! j) = Inr ())"
    by (auto simp: less_Suc_eq_0_disj)
  show ?case
    by (auto simp: Cons.IH all bindE_Inr_iff)
qed auto

lemma checkFilled_iff:
  "checkFilled b i us = Inr () \<longleftrightarrow> (\<forall>j<length us. \<not> truthy_str (olu_residualCommitment (us ! j))
     \<longrightarrow> item (bs_residualPayloadCommitments b) (i + j) = Some ZERO_HEX)"
proof (induction us arbitrary: i)
  case (Cons u us)
  show ?case by (auto simp: Cons.IH less_Suc_eq_0_disj)
qed auto

lemma mget_map_new: "mget (map_new kvs) k = map_of (rev kvs) k"
  by (induction kvs rule: rev_induct) (auto simp: map_new_def)

lemma index_by_Some: "mget (index_by key xs) k = Some x \<Longrightarrow> x \<in> set xs \<and> key x = k"
  by (auto simp: index_by_def mget_map_new dest!: map_of_SomeD)

lemma index_by_None: "mget (index_by key xs) k = None \<longleftrightarrow> k \<notin> key ` set xs"
  by (auto simp: index_by_def mget_map_new map_of_eq_None_iff image_image)

lemma index_by_keys: "mkeys (index_by key xs) = set_new (map key xs)"
proof -
  have "mkeys (fold (\<lambda>(k, v). mset_at k v) (map (\<lambda>x. (key x, x)) xs) m) = fold sadd (map key xs) (mkeys m)" for m
    by (induction xs arbitrary: m) (auto simp: mkeys_set sadd_def mhas_keys)
  then show ?thesis by (simp add: index_by_def map_new_def set_new_def mkeys_def)
qed

lemma index_by_length: "length (index_by key xs) = card (key ` set xs)"
  using arg_cong [OF index_by_keys [of key xs], of length] by (simp add: mkeys_def length_set_new)

lemma index_by_length_distinct: "length (index_by key xs) = length xs \<longleftrightarrow> distinct (map key xs)"
  using card_distinct [of "map key xs"] distinct_card [of "map key xs"] by (auto simp: index_by_length)

lemma residualUpdates_get:
  assumes "mget (updatesByResidual us) c = Some u" "olu_status u = PartiallyFilled" "bs_orderUpdates b = Some us"
  shows "mget (residualUpdates b) c = Some (olu_intentCommitment u)"
proof -
  have "map_of (rev (map (\<lambda>u. (the (olu_residualCommitment u), u)) (filter (\<lambda>u. truthy_str (olu_residualCommitment u)) us))) c
      = Some u \<Longrightarrow> olu_status u = PartiallyFilled \<Longrightarrow>
    map_of (rev (map (\<lambda>u. (the (olu_residualCommitment u), olu_intentCommitment u))
      (filter (\<lambda>u. olu_status u = PartiallyFilled \<and> truthy_str (olu_residualCommitment u)) us))) c
      = Some (olu_intentCommitment u)" for us
    by (induction us rule: rev_induct) (auto split: if_splits)
  with assms show ?thesis
    by (simp add: updatesByResidual_def index_by_def residualUpdates_def mget_map_new)
qed

lemma activeOrder:
  assumes "mget (activeOrderRecords s m) c = Some r"
  shows "mr_intentCommitment r = c" "mr_marketId r = m" "is_open s c"
    and "r \<in> matchRecordOfIntent ` set (mvalues (st_intents s)) \<union> matchRecordOfResidual ` set (mvalues (st_residualOrders s))"
  using index_by_Some [OF assms [unfolded activeOrderRecords_def]] by auto

lemma linked_lifecycle_fresh:
  "linked s \<Longrightarrow> c \<notin> set (st_positionCommitments s) \<Longrightarrow> \<not> mhas (st_positionLifecycle s) c"
  unfolding not_mhas_mget by (cases "mget (st_positionLifecycle s) c") (auto simp: linked_def)

lemma sound_intent_key:
  assumes "sound s" "r \<in> set (mvalues (st_intents s))"
  shows "ir_intentCommitment r \<in> set (mkeys (st_intents s))"
proof -
  have ok: "map_ok (st_intents s)" "linked s" using assms(1) by (simp_all add: sound_def)
  from assms(2) obtain k where k: "(k, r) \<in> set (st_intents s)" by (auto simp: in_mvalues)
  then have "mget (st_intents s) k = Some r" using ok(1) by (simp add: mget_iff_in)
  then have "ir_intentCommitment r = k" using ok(2) by (simp add: linked_def)
  with k show ?thesis by (force simp: mkeys_def)
qed

lemma sound_residual_key:
  assumes "sound s" "r \<in> set (mvalues (st_residualOrders s))"
  shows "ror_intentCommitment r \<in> set (mkeys (st_residualOrders s))"
proof -
  have ok: "map_ok (st_residualOrders s)" "linked s" using assms(1) by (simp_all add: sound_def)
  from assms(2) obtain k where k: "(k, r) \<in> set (st_residualOrders s)" by (auto simp: in_mvalues)
  then have "mget (st_residualOrders s) k = Some r" using ok(1) by (simp add: mget_iff_in)
  then have "ror_intentCommitment r = k" using ok(2) by (simp add: linked_def)
  with k show ?thesis by (force simp: mkeys_def)
qed

lemma activeOrder_known:
  assumes "sound s" "mget (activeOrderRecords s m) c = Some r"
  shows "mhas (st_intents s) c \<or> mhas (st_residualOrders s) c"
  using activeOrder(1,4) [OF assms(2)] sound_intent_key [OF assms(1)] sound_residual_key [OF assms(1)]
  by (auto simp: mhas_keys matchRecordOfIntent_def matchRecordOfResidual_def)

lemma checkOwner_iff:
  "checkOwner (updateOwners active us) c owner \<longleftrightarrow>
     (\<exists>u\<in>set us. olu_intentCommitment u = c \<and> owner \<noteq> [] \<and> map_option mr_ownerCommitment (mget active c) = Some owner)"
proof (cases "c \<in> olu_intentCommitment ` set us")
  case True
  have "map_of (rev (map (\<lambda>u. (olu_intentCommitment u, f (olu_intentCommitment u))) us)) c = Some (f c)" for f :: "Hex \<Rightarrow> 'b"
    using True by (induction us rule: rev_induct) auto
  then have "mget (updateOwners active us) c = Some (map_option mr_ownerCommitment (mget active c))"
    by (simp add: updateOwners_def mget_map_new)
  then show ?thesis using True
    by (cases "mget active c") (auto simp: checkOwner_def truthy_str_def Let_def)
next
  case False
  then have "mget (updateOwners active us) c = None"
    by (auto simp: updateOwners_def mget_map_new map_of_eq_None_iff image_image)
  with False show ?thesis by (auto simp: checkOwner_def truthy_str_def)
qed

text \<open>What a transcript that passes the validation satisfies, unpacked.\<close>

lemma validated:
  assumes "validateExternalBatchSettlement h tr s = Inr ()"
  obtains us where "bs_orderUpdates (ebt_settlement tr) = Some us"
    "mhas (st_markets s) (bs_marketId (ebt_settlement tr))"
    "checkSettlementProof h (ebt_settlement tr) = Inr ()"
    "checkOrderUpdates (activeOrderRecords s (bs_marketId (ebt_settlement tr))) (ebt_settlement tr) us = Inr ()"
    "checkOpenings (updateOwners (activeOrderRecords s (bs_marketId (ebt_settlement tr))) us) (ebt_settlement tr)
       (ebt_positionOpenings tr) = Inr ()"
    "checkResiduals h s (updateOwners (activeOrderRecords s (bs_marketId (ebt_settlement tr))) us) (ebt_settlement tr) us
       (or_empty (ebt_residualOrders tr)) (or_empty (ebt_privateMatchIntents tr)) = Inr ()"
    "validateExternalAccountEvents h (bs_settlementDigest (ebt_settlement tr)) (ebt_positionOpenings tr)
       (or_empty (ebt_residualOrders tr)) (ebt_accountEvents tr) = Inr ()"
  using assms
  by (cases "bs_orderUpdates (ebt_settlement tr)")
    (auto simp: validateExternalBatchSettlement_def Let_def bindE_Inr_iff required_def mget_mhas split: option.splits)

lemma checkSettlementProof_Inr:
  "checkSettlementProof h b = Inr () \<longleftrightarrow>
     bs_fillCount b = int (length (bs_newCommitments b)) \<and> distinct (bs_newCommitments b)
     \<and> pm_circuitId (bs_proof b) = ''batch-match'' \<and> pm_proofSystem (bs_proof b) = Some Risc0_Groth16
     \<and> batchSettlementPublicInputHash h b = Inr (pm_publicInputHash (bs_proof b))
     \<and> truthy_str (pm_imageId (bs_proof b)) \<and> truthy_str (pm_journalDigest (bs_proof b)) \<and> truthy_str (pm_sealDigest (bs_proof b))
     \<and> pm_journalDigest (bs_proof b) = Some (pm_publicInputHash (bs_proof b))
     \<and> pm_sealDigest (bs_proof b) = Some (pm_proofDigest (bs_proof b))"
  by (auto simp: checkSettlementProof_def Let_def bindE_Inr_iff set_new_size_distinct split: if_splits)

text \<open>The orders that the updates are about, update by update.\<close>

definition update_ok :: "(Hex, MatchRecord) jsmap \<Rightarrow> BatchSettlement \<Rightarrow> nat \<Rightarrow> OrderLifecycleUpdate \<Rightarrow> MatchRecord \<Rightarrow> bool" where
  "update_ok active b k u r \<longleftrightarrow> mget active (olu_intentCommitment u) = Some r
     \<and> item (bs_matchingPayloadCommitments b) k = Some (mr_matchingPayloadCommitment r)
     \<and> item (bs_residualCommitments b) k = Some (residualCommitmentOf u)
     \<and> (olu_status u = OrderFilled \<or> olu_status u = PartiallyFilled)
     \<and> mr_noteNullifier r \<in> set (bs_spentNullifiers b)
     \<and> (truthy_str (mr_noteChangeCommitment r) \<and> mr_noteChangeCommitment r \<noteq> Some ZERO_HEX \<longrightarrow>
          (\<exists>cs. bs_marginChangeCommitments b = Some cs \<and> the (mr_noteChangeCommitment r) \<in> set cs))"

lemma checkOrderUpdate_Inr: "checkOrderUpdate active b k u = Inr () \<longleftrightarrow> (\<exists>r. update_ok active b k u r)"
  by (cases "mget active (olu_intentCommitment u)"; cases "bs_marginChangeCommitments b")
    (auto simp: checkOrderUpdate_def update_ok_def required_def split: if_splits)

lemma map_filter_Some: "(\<And>x. x \<in> set xs \<Longrightarrow> f x = Some (g x)) \<Longrightarrow> List.map_filter f xs = map g xs"
  by (induction xs) (simp_all add: List.map_filter_simps)

lemma checkOrderUpdates_Inr:
  "checkOrderUpdates active b us = Inr () \<longleftrightarrow> distinct (map olu_intentCommitment us)
     \<and> (\<exists>rs. length rs = length us \<and> (\<forall>k<length us. update_ok active b k (us ! k) (rs ! k))
          \<and> distinct (bs_spentNullifiers b) \<and> set (bs_spentNullifiers b) = mr_noteNullifier ` set rs)"
proof -
  have expected: "expectedSpentNullifiers active us = set_new (map mr_noteNullifier rs)"
    if "length rs = length us" "\<And>k. k < length us \<Longrightarrow> mget active (olu_intentCommitment (us ! k)) = Some (rs ! k)" for rs
  proof -
    have "map (\<lambda>u. mget active (olu_intentCommitment u)) us = map Some rs"
      using that by (intro nth_equalityI) simp_all
    moreover have "map (\<lambda>u. mget active (olu_intentCommitment u)) us = map Some rs \<Longrightarrow>
      List.map_filter (\<lambda>u. map_option mr_noteNullifier (mget active (olu_intentCommitment u))) us = map mr_noteNullifier rs"
      for us :: "OrderLifecycleUpdate list" and rs :: "MatchRecord list"
      by (induction us arbitrary: rs) (auto simp: List.map_filter_simps Cons_eq_map_conv)
    ultimately show ?thesis by (simp add: expectedSpentNullifiers_def)
  qed
  have sizes: "length ns = length (set_new xs) \<and> (\<forall>n\<in>set ns. n \<in> set xs) \<longleftrightarrow> distinct ns \<and> set ns = set xs"
    if "set xs \<subseteq> set ns" for ns xs :: "Hex list"
    using that card_distinct [of ns] distinct_card [of ns] by (auto simp: length_set_new) (metis subset_antisym subsetI)
  show ?thesis
  proof (cases "\<exists>rs. length rs = length us \<and> (\<forall>k<length us. update_ok active b k (us ! k) (rs ! k))")
    case True
    then obtain rs where rs: "length rs = length us" "\<And>k. k < length us \<Longrightarrow> update_ok active b k (us ! k) (rs ! k)" by blast
    have same: "rs' = rs" if "length rs' = length us" "\<forall>k<length us. update_ok active b k (us ! k) (rs' ! k)" for rs'
      using that rs by (intro nth_equalityI) (auto simp: update_ok_def)
    have "set (map mr_noteNullifier rs) \<subseteq> set (bs_spentNullifiers b)"
      using rs by (auto simp: in_set_conv_nth update_ok_def)
    note size = sizes [OF this]
    have exp: "expectedSpentNullifiers active us = set_new (map mr_noteNullifier rs)"
      by (rule expected) (use rs in \<open>simp_all add: update_ok_def\<close>)
    have loop: "(\<exists>r. update_ok active b k (us ! k) r)" if "k < length us" for k using rs(2) [OF that] by blast
    have "checkOrderUpdates active b us = Inr () \<longleftrightarrow> distinct (map olu_intentCommitment us)
        \<and> length (bs_spentNullifiers b) = length (set_new (map mr_noteNullifier rs))
        \<and> (\<forall>n\<in>set (bs_spentNullifiers b). n \<in> set (map mr_noteNullifier rs))"
      using loop by (simp add: checkOrderUpdates_def bindE_Inr_iff checkEach_iff checkOrderUpdate_Inr Let_def exp eachE_Inr_iff)
    then have run: "checkOrderUpdates active b us = Inr () \<longleftrightarrow> distinct (map olu_intentCommitment us)
        \<and> distinct (bs_spentNullifiers b) \<and> set (bs_spentNullifiers b) = mr_noteNullifier ` set rs"
      unfolding size by simp
    show ?thesis unfolding run
    proof
      assume "distinct (map olu_intentCommitment us) \<and> distinct (bs_spentNullifiers b)
        \<and> set (bs_spentNullifiers b) = mr_noteNullifier ` set rs"
      with rs show "distinct (map olu_intentCommitment us) \<and> (\<exists>rs. length rs = length us
        \<and> (\<forall>k<length us. update_ok active b k (us ! k) (rs ! k)) \<and> distinct (bs_spentNullifiers b)
        \<and> set (bs_spentNullifiers b) = mr_noteNullifier ` set rs)" by blast
    next
      assume "distinct (map olu_intentCommitment us) \<and> (\<exists>rs. length rs = length us
        \<and> (\<forall>k<length us. update_ok active b k (us ! k) (rs ! k)) \<and> distinct (bs_spentNullifiers b)
        \<and> set (bs_spentNullifiers b) = mr_noteNullifier ` set rs)"
      then show "distinct (map olu_intentCommitment us) \<and> distinct (bs_spentNullifiers b)
        \<and> set (bs_spentNullifiers b) = mr_noteNullifier ` set rs" using same by blast
    qed
  next
    case False
    have "\<exists>rs. length rs = length us \<and> (\<forall>k<length us. update_ok active b k (us ! k) (rs ! k))"
      if "\<forall>k<length us. \<exists>r. update_ok active b k (us ! k) r"
      using that Skolem_list_nth [of "length us" "\<lambda>k r. update_ok active b k (us ! k) r"] by auto
    with False have "\<not> (\<forall>k<length us. \<exists>r. update_ok active b k (us ! k) r)" by blast
    then have "checkOrderUpdates active b us \<noteq> Inr ()"
      by (auto simp: checkOrderUpdates_def bindE_Inr_iff checkEach_iff checkOrderUpdate_Inr)
    with False show ?thesis by blast
  qed
qed

definition opening_ok ::
  "(Hex, MatchRecord) jsmap \<Rightarrow> BatchSettlement \<Rightarrow> OrderLifecycleUpdate list \<Rightarrow> PositionLifecycleRecord \<Rightarrow> bool" where
  "opening_ok active b us p \<longleftrightarrow> plr_settlementDigest p = bs_settlementDigest b \<and> plr_batchId p = bs_batchId b
     \<and> plr_marketId p = bs_marketId b
     \<and> (\<exists>u\<in>set us. olu_intentCommitment u = plr_sourceIntentCommitment p \<and> plr_ownerCommitment p \<noteq> []
          \<and> map_option mr_ownerCommitment (mget active (plr_sourceIntentCommitment p)) = Some (plr_ownerCommitment p))"

lemma checkOpening_Inr:
  "checkOpening (updateOwners active us) b k p = Inr () \<longleftrightarrow>
     plr_positionCommitment p \<in> set (bs_newCommitments b) \<and> opening_ok active b us p"
  by (auto simp: checkOpening_def checkOwner_iff opening_ok_def)

lemma checkOpenings_Inr:
  "checkOpenings (updateOwners active us) b os = Inr () \<longleftrightarrow>
     distinct (map plr_positionCommitment os) \<and> length os = length (bs_newCommitments b)
     \<and> set (map plr_positionCommitment os) = set (bs_newCommitments b)
     \<and> (\<forall>p\<in>set os. opening_ok active b us p)"
proof -
  have "(\<forall>j<length os. checkOpening (updateOwners active us) b (0 + j) (os ! j) = Inr ())
      \<longleftrightarrow> (\<forall>p\<in>set os. plr_positionCommitment p \<in> set (bs_newCommitments b) \<and> opening_ok active b us p)"
    unfolding checkOpening_Inr by (simp add: all_set_conv_all_nth)
  then have "checkOpenings (updateOwners active us) b os = Inr () \<longleftrightarrow>
     distinct (map plr_positionCommitment os)
     \<and> (\<forall>p\<in>set os. plr_positionCommitment p \<in> set (bs_newCommitments b) \<and> opening_ok active b us p)
     \<and> length os = length (bs_newCommitments b)
     \<and> (\<forall>c\<in>set (bs_newCommitments b). c \<in> set (map plr_positionCommitment os))"
    unfolding checkOpenings_def bindE_Inr_iff checkEach_iff by (simp add: eachE_Inr_iff set_fold_sadd)
  then show ?thesis by auto
qed

definition residual_ok ::
  "ProtocolStore \<Rightarrow> (Hex, MatchRecord) jsmap \<Rightarrow> BatchSettlement \<Rightarrow> OrderLifecycleUpdate list \<Rightarrow> ResidualOrderRecord
     \<Rightarrow> OrderLifecycleUpdate \<Rightarrow> bool" where
  "residual_ok s active b us r u \<longleftrightarrow> mget (updatesByResidual us) (ror_intentCommitment r) = Some u
     \<and> olu_status u = PartiallyFilled \<and> ror_batchId r = bs_batchId b \<and> ror_marketId r = bs_marketId b
     \<and> ror_sourceIntentCommitment r = olu_intentCommitment u
     \<and> item_of (bs_residualPayloadCommitments b) (\<lambda>v. olu_intentCommitment v = olu_intentCommitment u) us
         = Some (ror_matchingPayloadCommitment r)
     \<and> (submissionSequenceOf s (olu_intentCommitment u) = None
         \<or> ror_submissionSequence r = submissionSequenceOf s (olu_intentCommitment u))
     \<and> ror_ownerCommitment r \<noteq> []
     \<and> map_option mr_ownerCommitment (mget active (olu_intentCommitment u)) = Some (ror_ownerCommitment r)
     \<and> ror_noteNullifier r \<notin> set (bs_spentNullifiers b)"

lemma updatesByResidual_Some:
  "mget (updatesByResidual us) c = Some u \<Longrightarrow> u \<in> set us \<and> olu_residualCommitment u = Some c \<and> c \<noteq> []"
  by (auto simp: updatesByResidual_def truthy_str_def dest!: index_by_Some split: option.splits)

lemma checkResidual_Inr:
  "checkResidual s (updateOwners active us) b us k r = Inr () \<longleftrightarrow> (\<exists>u. residual_ok s active b us r u)"
proof (cases "mget (updatesByResidual us) (ror_intentCommitment r)")
  case None
  then show ?thesis by (simp add: checkResidual_def residual_ok_def)
next
  case (Some u)
  with updatesByResidual_Some have "u \<in> set us" by blast
  with Some show ?thesis
    by (auto simp: checkResidual_def residual_ok_def checkOwner_iff)
qed

definition private_ok ::
  "host \<Rightarrow> BatchSettlement \<Rightarrow> OrderLifecycleUpdate list \<Rightarrow> PrivateMatchIntent list \<Rightarrow> ResidualOrderRecord \<Rightarrow> bool" where
  "private_ok h b us privates r \<longleftrightarrow> (\<exists>p. mget (index_by pmi_intentCommitment privates) (ror_intentCommitment r) = Some p
     \<and> assertPrivateMatchIntent h (matchRecordOfResidual r) p = Inr ()
     \<and> item_of (bs_residualMargins b) (\<lambda>u. olu_residualCommitment u = Some (ror_intentCommitment r)) us
         = Some (pmi_margin p))"

lemma checkPrivateResidual_Inr: "checkPrivateResidual h b us privates r = Inr () \<longleftrightarrow> private_ok h b us privates r"
  by (auto simp: checkPrivateResidual_def private_ok_def bindE_Inr_iff split: option.splits if_splits)

lemma checkResiduals_Inr:
  "checkResiduals h s (updateOwners active us) b us rs privates = Inr () \<longleftrightarrow>
     distinct (map ror_intentCommitment rs) \<and> (\<forall>r\<in>set rs. \<exists>u. residual_ok s active b us r u)
     \<and> length rs = length (updatesByResidual us)
     \<and> (\<forall>k<length us. \<not> truthy_str (olu_residualCommitment (us ! k))
          \<longrightarrow> item (bs_residualPayloadCommitments b) k = Some ZERO_HEX)
     \<and> (\<forall>r\<in>set rs. private_ok h b us privates r)"
proof -
  have "(\<forall>j<length rs. checkResidual s (updateOwners active us) b us (0 + j) (rs ! j) = Inr ())
      \<longleftrightarrow> (\<forall>r\<in>set rs. \<exists>u. residual_ok s active b us r u)"
    unfolding checkResidual_Inr by (simp add: all_set_conv_all_nth)
  then show ?thesis
    unfolding checkResiduals_def bindE_Inr_iff checkEach_iff
    by (simp add: eachE_Inr_iff checkFilled_iff bindE_Inr_iff checkPrivateResidual_Inr)
qed

lemma residual_commitments:
  assumes "distinct (map ror_intentCommitment rs)" "\<forall>r\<in>set rs. \<exists>u. residual_ok s active b us r u"
    "length rs = length (updatesByResidual us)"
  shows "set (map ror_intentCommitment rs) = {c. c \<noteq> [] \<and> (\<exists>u\<in>set us. olu_residualCommitment u = Some c)}"
proof -
  let ?K = "(\<lambda>u. the (olu_residualCommitment u)) ` set (filter (\<lambda>u. truthy_str (olu_residualCommitment u)) us)"
  have K: "?K = {c. c \<noteq> [] \<and> (\<exists>u\<in>set us. olu_residualCommitment u = Some c)}"
    by (force simp: truthy_str_def split: option.splits)
  have "set (map ror_intentCommitment rs) \<subseteq> ?K"
    unfolding K using assms(2) by (auto simp: residual_ok_def dest!: updatesByResidual_Some)
  moreover have "card (set (map ror_intentCommitment rs)) = card ?K"
    using assms(3) distinct_card [OF assms(1)] by (simp add: updatesByResidual_def index_by_length)
  ultimately show ?thesis unfolding K [symmetric] by (intro card_subset_eq) auto
qed

lemma item_of_update:
  assumes "distinct (map olu_intentCommitment us)" "k < length us" "olu_intentCommitment (us ! k) = c"
  shows "item_of xs (\<lambda>u. olu_intentCommitment u = c) us = item xs k"
proof (cases "findIndex (\<lambda>u. olu_intentCommitment u = c) us")
  case None
  with assms show ?thesis by (force simp: findIndex_None)
next
  case (Some j)
  then have "j < length us" "olu_intentCommitment (us ! j) = c" by (auto dest: findIndex_Some)
  with assms have "j = k" by (metis distinct_map nth_eq_iff_index_eq length_map nth_map)
  with Some show ?thesis by (simp add: item_of_def)
qed

end
