(* ===== verification/Executor_Properties.thy ===== *)
theory Executor_Properties
  imports Executor
begin

text \<open>
  What the executor promises: a transcript that passes the validation settles exactly the open orders it
  names, and is committed by the store when its commitments, nullifiers and events are new; intents
  that are prepared are accepted by the store.
\<close>

subsection \<open>Transcripts\<close>

text \<open>C1: A transcript that passes the validation settles different open orders of the market, each with the
  payload that was registered for it; its spent nullifiers are exactly those of these orders, none
  listed twice; its openings are one per new commitment, each owned by the owner of the settled
  order it comes from; its residual orders are one per residual commitment of the updates, each owned by
  the owner of the partly filled order and with a nullifier that the settlement does not spend; and the
  proof is about the public inputs of this very settlement.\<close>

theorem validated_transcript:
  assumes valid: "validateExternalBatchSettlement h tr s = Inr ()"
    and b: "b = ebt_settlement tr" and rs: "rs = or_empty (ebt_residualOrders tr)"
  shows "\<exists>us orders. bs_orderUpdates b = Some us \<and> distinct (map olu_intentCommitment us) \<and> length orders = length us
    \<and> (\<forall>k<length us. mr_intentCommitment (orders ! k) = olu_intentCommitment (us ! k)
        \<and> mr_marketId (orders ! k) = bs_marketId b \<and> is_open s (olu_intentCommitment (us ! k))
        \<and> orders ! k \<in> matchRecordOfIntent ` set (mvalues (st_intents s))
            \<union> matchRecordOfResidual ` set (mvalues (st_residualOrders s))
        \<and> item (bs_matchingPayloadCommitments b) k = Some (mr_matchingPayloadCommitment (orders ! k)))
    \<and> distinct (bs_spentNullifiers b) \<and> set (bs_spentNullifiers b) = mr_noteNullifier ` set orders
    \<and> distinct (bs_newCommitments b) \<and> distinct (map plr_positionCommitment (ebt_positionOpenings tr))
    \<and> set (map plr_positionCommitment (ebt_positionOpenings tr)) = set (bs_newCommitments b)
    \<and> (\<forall>p\<in>set (ebt_positionOpenings tr). \<exists>r\<in>set orders.
        plr_sourceIntentCommitment p = mr_intentCommitment r \<and> plr_ownerCommitment p = mr_ownerCommitment r)
    \<and> distinct (map ror_intentCommitment rs)
    \<and> set (map ror_intentCommitment rs) = {c. c \<noteq> [] \<and> (\<exists>u\<in>set us. olu_residualCommitment u = Some c)}
    \<and> (\<forall>r\<in>set rs. \<exists>k<length us. olu_residualCommitment (us ! k) = Some (ror_intentCommitment r)
        \<and> olu_status (us ! k) = PartiallyFilled \<and> ror_sourceIntentCommitment r = olu_intentCommitment (us ! k)
        \<and> ror_ownerCommitment r = mr_ownerCommitment (orders ! k)
        \<and> item (bs_residualPayloadCommitments b) k = Some (ror_matchingPayloadCommitment r)
        \<and> ror_noteNullifier r \<notin> set (bs_spentNullifiers b))
    \<and> batchSettlementPublicInputHash h b = Inr (pm_publicInputHash (bs_proof b))"
proof (rule validated [OF valid, folded b rs])
  let ?active = "activeOrderRecords s (bs_marketId b)" and ?os = "ebt_positionOpenings tr"
  fix us assume us: "bs_orderUpdates b = Some us"
    and receipt: "checkSettlementProof h b = Inr ()"
    and updates: "checkOrderUpdates ?active b us = Inr ()"
    and openings: "checkOpenings (updateOwners ?active us) b ?os = Inr ()"
    and residuals: "checkResiduals h s (updateOwners ?active us) b us rs
      (or_empty (ebt_privateMatchIntents tr)) = Inr ()"
  from updates obtain orders where dist: "distinct (map olu_intentCommitment us)"
    and len: "length orders = length us" and ok: "\<And>k. k < length us \<Longrightarrow> update_ok ?active b k (us ! k) (orders ! k)"
    and spent: "distinct (bs_spentNullifiers b)" "set (bs_spentNullifiers b) = mr_noteNullifier ` set orders"
    unfolding checkOrderUpdates_Inr by blast
  have get: "mget ?active (olu_intentCommitment (us ! k)) = Some (orders ! k)" if "k < length us" for k
    using ok [OF that] by (simp add: update_ok_def)
  have orders: "\<forall>k<length us. mr_intentCommitment (orders ! k) = olu_intentCommitment (us ! k)
        \<and> mr_marketId (orders ! k) = bs_marketId b \<and> is_open s (olu_intentCommitment (us ! k))
        \<and> orders ! k \<in> matchRecordOfIntent ` set (mvalues (st_intents s))
            \<union> matchRecordOfResidual ` set (mvalues (st_residualOrders s))
        \<and> item (bs_matchingPayloadCommitments b) k = Some (mr_matchingPayloadCommitment (orders ! k))"
    using activeOrder [OF get] ok by (auto simp: update_ok_def)
  have "\<exists>r\<in>set orders. plr_sourceIntentCommitment p = mr_intentCommitment r \<and> plr_ownerCommitment p = mr_ownerCommitment r"
    if "p \<in> set ?os" for p
  proof -
    have "opening_ok ?active b us p" using openings that by (simp add: checkOpenings_Inr)
    then obtain k where k: "k < length us" "olu_intentCommitment (us ! k) = plr_sourceIntentCommitment p"
        "map_option mr_ownerCommitment (mget ?active (plr_sourceIntentCommitment p)) = Some (plr_ownerCommitment p)"
      by (auto simp: opening_ok_def in_set_conv_nth)
    with get [OF k(1)] orders show ?thesis by (intro bexI [of _ "orders ! k"]) (simp_all add: len)
  qed
  moreover have "\<exists>k<length us. olu_residualCommitment (us ! k) = Some (ror_intentCommitment r)
        \<and> olu_status (us ! k) = PartiallyFilled \<and> ror_sourceIntentCommitment r = olu_intentCommitment (us ! k)
        \<and> ror_ownerCommitment r = mr_ownerCommitment (orders ! k)
        \<and> item (bs_residualPayloadCommitments b) k = Some (ror_matchingPayloadCommitment r)
        \<and> ror_noteNullifier r \<notin> set (bs_spentNullifiers b)" if "r \<in> set rs" for r
  proof -
    from residuals that obtain u where u: "residual_ok s ?active b us r u" by (auto simp: checkResiduals_Inr)
    then have "u \<in> set us" "olu_residualCommitment u = Some (ror_intentCommitment r)"
      by (auto simp: residual_ok_def dest!: updatesByResidual_Some)
    then obtain k where k: "k < length us" "us ! k = u" by (auto simp: in_set_conv_nth)
    with u get [OF k(1)] item_of_update [OF dist k(1), where c = "olu_intentCommitment u"
        and xs = "bs_residualPayloadCommitments b"]
      \<open>olu_residualCommitment u = Some (ror_intentCommitment r)\<close>
    show ?thesis by (intro exI [of _ k]) (simp add: residual_ok_def)
  qed
  moreover have "set (map ror_intentCommitment rs) = {c. c \<noteq> [] \<and> (\<exists>u\<in>set us. olu_residualCommitment u = Some c)}"
    using residuals by (intro residual_commitments [of rs s ?active b]) (auto simp: checkResiduals_Inr)
  ultimately show ?thesis
    using us dist len orders spent receipt openings residuals
    unfolding checkSettlementProof_Inr checkOpenings_Inr checkResiduals_Inr
    by (intro exI [of _ us] exI [of _ orders] conjI ballI) (blast | simp)+
qed

lemma matchingPayloadCommitment_nonempty: "matchingPayloadCommitment h p \<noteq> []"
  by (simp add: matchingPayloadCommitment_def hashFields_def)

lemma assertPrivateMatchIntent_payload:
  "assertPrivateMatchIntent h r p = Inr () \<Longrightarrow> mr_matchingPayloadCommitment r = matchingPayloadCommitment h p"
  by (auto simp: assertPrivateMatchIntent_def split: if_splits)

text \<open>The checks that \<open>addSettlement\<close> repeats pass for a validated transcript.\<close>

lemma validated_settlement_checks:
  assumes valid: "validateExternalBatchSettlement h tr s = Inr ()"
    and b: "b = ebt_settlement tr" and rs: "rs = or_empty (ebt_residualOrders tr)"
    and ps: "ps = or_empty (ebt_privateMatchIntents tr)"
    and source: "\<forall>r\<in>set rs. ror_sourceIntentCommitment r \<noteq> []"
  shows "validatePositionOpenings b (ebt_positionOpenings tr) = Inr ()" "validateResidualOrders b rs = Inr ()"
    "\<forall>r\<in>set rs. ror_matchingPayloadCommitment r \<noteq> []
      \<and> (case mget (map_new (map (\<lambda>p. (pmi_intentCommitment p, p)) ps)) (ror_intentCommitment r) of
           None \<Rightarrow> True | Some p \<Rightarrow> assertPrivateMatchIntent h (matchRecordOfResidual r) p = Inr ())"
    "distinct (map aer_eventId (ebt_accountEvents tr))"
proof -
  obtain us where us: "bs_orderUpdates b = Some us"
    and openings: "checkOpenings (updateOwners (activeOrderRecords s (bs_marketId b)) us) b (ebt_positionOpenings tr) = Inr ()"
    and residuals: "checkResiduals h s (updateOwners (activeOrderRecords s (bs_marketId b)) us) b us rs ps = Inr ()"
    and events: "validateExternalAccountEvents h (bs_settlementDigest b) (ebt_positionOpenings tr) rs (ebt_accountEvents tr)
      = Inr ()"
    by (rule validated [OF valid, folded b rs ps])
  show "validatePositionOpenings b (ebt_positionOpenings tr) = Inr ()"
    using openings by (auto simp: validatePositionOpenings_def eachE_Inr_iff checkOpenings_Inr opening_ok_def)
  have "ror_batchId r = bs_batchId b \<and> ror_marketId r = bs_marketId b
      \<and> mget (residualUpdates b) (ror_intentCommitment r) = Some (ror_sourceIntentCommitment r)" if r: "r \<in> set rs" for r
  proof -
    from residuals r obtain u where u: "residual_ok s (activeOrderRecords s (bs_marketId b)) b us r u"
      by (auto simp: checkResiduals_Inr)
    from residualUpdates_get [OF _ _ us] u show ?thesis by (simp add: residual_ok_def)
  qed
  with source show "validateResidualOrders b rs = Inr ()"
    by (simp add: validateResidualOrders_def eachE_Inr_iff Let_def truthy_str_def)
  have "private_ok h b us ps r" if "r \<in> set rs" for r using residuals that by (simp add: checkResiduals_Inr)
  then show "\<forall>r\<in>set rs. ror_matchingPayloadCommitment r \<noteq> []
      \<and> (case mget (map_new (map (\<lambda>p. (pmi_intentCommitment p, p)) ps)) (ror_intentCommitment r) of
           None \<Rightarrow> True | Some p \<Rightarrow> assertPrivateMatchIntent h (matchRecordOfResidual r) p = Inr ())"
    using assertPrivateMatchIntent_payload [of h "matchRecordOfResidual _"] matchingPayloadCommitment_nonempty
    unfolding index_by_def [symmetric]
    by (fastforce simp: private_ok_def matchRecordOfResidual_def)
  show "distinct (map aer_eventId (ebt_accountEvents tr))"
    using events by (auto simp: validateExternalAccountEvents_def Let_def index_by_length_distinct split: if_splits)
qed

lemma recordProof_run: "recordProof p s = (Inr (), s\<lparr>st_proofs := sadd (proofKey p) (st_proofs s)\<rparr>)"
  by (simp add: recordProof_def modifyA_def)

text \<open>C2: A validated transcript is committed whenever its proof is verified (by the caller now or earlier), its
  batch is not settled, its leaves, residual orders and events are new to the store, its nullifiers are
  unspent and its openings are open: validation leaves nothing else to go wrong in the store. Then the
  settlement is stored, its commitments are appended to the position tree, every opening and every residual
  order is stored, and exactly its nullifiers become spent.\<close>

theorem validated_commits:
  assumes sound: "sound (ex_store e)" and valid: "validateExternalBatchSettlement h tr (ex_store e) = Inr ()"
    and b: "b = ebt_settlement tr" and rs: "rs = or_empty (ebt_residualOrders tr)"
    and verified: "proofVerified \<or> hasProof (bs_proof b) (ex_store e)"
    and new: "\<not> mhas (st_settlements (ex_store e)) (settlementKey b)" "bs_matchTranscriptDigest b \<noteq> []"
    and leaves: "set (bs_newCommitments b) \<inter> set (st_positionCommitments (ex_store e)) = {}"
    and unspent: "set (bs_spentNullifiers b) \<inter> set (st_spentNullifiers (ex_store e)) = {}"
    and openings: "\<forall>p\<in>set (ebt_positionOpenings tr). plr_status p = PositionOpen"
    and residuals: "\<forall>r\<in>set rs. ror_sourceIntentCommitment r \<noteq> []
      \<and> \<not> mhas (st_residualOrders (ex_store e)) (ror_intentCommitment r)"
    and events: "\<forall>v\<in>set (ebt_accountEvents tr). \<not> mhas (st_accountEvents (ex_store e)) (aer_eventId v)"
  shows "\<exists>e'. commitExternalBatchSettlement h now settledAt tr proofVerified e = (Inr b, e')
    \<and> mget (st_settlements (ex_store e')) (settlementKey b) = Some b
    \<and> st_positionCommitments (ex_store e') = st_positionCommitments (ex_store e) @ bs_newCommitments b
    \<and> (\<forall>p\<in>set (ebt_positionOpenings tr). \<exists>i<length (st_positionCommitments (ex_store e')).
        st_positionCommitments (ex_store e') ! i = plr_positionCommitment p
        \<and> mget (st_positionLifecycle (ex_store e')) (plr_positionCommitment p) = Some (p\<lparr>plr_positionIndex := Some i\<rparr>))
    \<and> (\<forall>r\<in>set rs. mget (st_residualOrders (ex_store e')) (ror_intentCommitment r) = Some r)
    \<and> set (st_spentNullifiers (ex_store e')) = set (bs_spentNullifiers b) \<union> set (st_spentNullifiers (ex_store e))"
proof -
  let ?s = "ex_store e" and ?ps = "or_empty (ebt_privateMatchIntents tr)" and ?os = "ebt_positionOpenings tr"
  define s where "s = (if proofVerified then ?s\<lparr>st_proofs := sadd (proofKey (bs_proof b)) (st_proofs ?s)\<rparr> else ?s)"
  have same: "st_settlements s = st_settlements ?s" "st_positionCommitments s = st_positionCommitments ?s"
    "st_spentNullifiers s = st_spentNullifiers ?s" "st_intents s = st_intents ?s"
    "st_residualOrders s = st_residualOrders ?s" "st_positionLifecycle s = st_positionLifecycle ?s"
    "st_accountEvents s = st_accountEvents ?s" and proved: "hasProof (bs_proof b) s"
    using verified by (auto simp: s_def hasProof_def)
  have linked: "linked ?s" using sound by (simp add: sound_def)
  obtain us where us: "bs_orderUpdates b = Some us" and receipt: "checkSettlementProof h b = Inr ()"
    and updates: "checkOrderUpdates (activeOrderRecords ?s (bs_marketId b)) b us = Inr ()"
    and opened: "checkOpenings (updateOwners (activeOrderRecords ?s (bs_marketId b)) us) b ?os = Inr ()"
    and rolled: "checkResiduals h ?s (updateOwners (activeOrderRecords ?s (bs_marketId b)) us) b us rs ?ps = Inr ()"
    by (rule validated [OF valid, folded b rs])
  note checks = validated_settlement_checks [OF valid b rs refl]
  have "mhas (st_intents s) (olu_intentCommitment u) \<or> mhas (st_residualOrders s) (olu_intentCommitment u)" if "u \<in> set us" for u
  proof -
    from that updates obtain r where "mget (activeOrderRecords ?s (bs_marketId b)) (olu_intentCommitment u) = Some r"
      by (force simp: checkOrderUpdates_Inr update_ok_def in_set_conv_nth)
    from activeOrder_known [OF sound this] show ?thesis by (simp add: same)
  qed
  moreover have "\<not> mhas (st_positionLifecycle s) (plr_positionCommitment p)" if "p \<in> set ?os" for p
    using linked_lifecycle_fresh [OF linked] opened that leaves by (auto simp: same checkOpenings_Inr)
  ultimately have "\<exists>t. addSettlement h now settledAt b ?os rs (ebt_accountEvents tr) ?ps s = (Inr (), t)
    \<and> mget (st_settlements t) (settlementKey b) = Some b
    \<and> st_positionCommitments t = st_positionCommitments s @ bs_newCommitments b
    \<and> (\<forall>p\<in>set ?os. \<exists>i<length (st_positionCommitments t). st_positionCommitments t ! i = plr_positionCommitment p
        \<and> mget (st_positionLifecycle t) (plr_positionCommitment p) = Some (p\<lparr>plr_positionIndex := Some i\<rparr>))
    \<and> (\<forall>r\<in>set rs. mget (st_residualOrders t) (ror_intentCommitment r) = Some r)
    \<and> set (st_spentNullifiers t) = set (bs_spentNullifiers b) \<union> set (st_spentNullifiers s)"
    using new leaves unspent openings residuals events proved linked us receipt updates opened rolled checks
    by (intro settlement_accepted [where us = us])
      (auto simp: same checkSettlementProof_Inr checkOrderUpdates_Inr checkOpenings_Inr checkResiduals_Inr linked_def)
  then obtain t where t: "addSettlement h now settledAt b ?os rs (ebt_accountEvents tr) ?ps s = (Inr (), t)"
    "mget (st_settlements t) (settlementKey b) = Some b"
    "st_positionCommitments t = st_positionCommitments s @ bs_newCommitments b"
    "\<forall>p\<in>set ?os. \<exists>i<length (st_positionCommitments t). st_positionCommitments t ! i = plr_positionCommitment p
        \<and> mget (st_positionLifecycle t) (plr_positionCommitment p) = Some (p\<lparr>plr_positionIndex := Some i\<rparr>)"
    "\<forall>r\<in>set rs. mget (st_residualOrders t) (ror_intentCommitment r) = Some r"
    "set (st_spentNullifiers t) = set (bs_spentNullifiers b) \<union> set (st_spentNullifiers s)" by blast
  have "commitExternalBatchSettlement h now settledAt tr proofVerified e = (Inr b, e\<lparr>ex_store := t\<rparr>)"
    using t(1) valid proved verified
    by (auto simp: commitExternalBatchSettlement_def Let_def seqA_def bindA_def liftA_def store_call_def recordProof_run
        guardA_def returnA_def modifyA_def b [symmetric] rs [symmetric] s_def hasProof_def)
  with t show ?thesis by (intro exI [of _ "e\<lparr>ex_store := t\<rparr>"]) (simp add: same)
qed

subsection \<open>A concrete transcript\<close>

text \<open>One open order, filled by a settlement that opens one position for its owner.\<close>

definition demo_record :: IntentRecord where
  "demo_record = \<lparr>ir_batchId = ''1'', ir_batchDigest = ''0x6'', ir_marketId = ''btc'', ir_marketDigest = ''0x7'',
     ir_marginRoot = ''0x8'', ir_ownerCommitmentField = ''0x9'', ir_ownerCommitment = ''0x30'',
     ir_intentCommitment = ''0x32'', ir_matchingPayloadCommitment = ''0x33'', ir_noteChangeCommitment = ZERO_HEX,
     ir_proof = demo_proof, ir_noteNullifier = ''0x13'', ir_submissionTxHash = None, ir_submissionSequence = Some 0\<rparr>"

definition demo_order_store :: ProtocolStore where
  "demo_order_store = new_ProtocolStore\<lparr>st_proofs := [proofKey demo_proof], st_markets := [(''btc'', demo_market)],
     st_intents := [(''0x32'', demo_record)],
     st_orderLifecycle := [(''0x32'', open_order ''1'' 0 ''0x32'' ''btc'' ''0x30'' 0)]\<rparr>"

definition demo_filled_settlement :: BatchSettlement where
  "demo_filled_settlement = demo_public_settlement\<lparr>bs_newCommitments := [''0x11''],
     bs_spentNullifiers := [''0x13''], bs_matchingPayloadCommitments := [''0x33''],
     bs_residualCommitments := [ZERO_HEX], bs_residualMargins := [0], bs_residualPayloadCommitments := [ZERO_HEX],
     bs_fillCount := 1, bs_orderUpdates := Some [\<lparr>olu_intentCommitment = ''0x32'', olu_residualCommitment = None,
       olu_status = OrderFilled\<rparr>]\<rparr>"

definition demo_receipt :: "Hex \<Rightarrow> ProofMeta" where
  "demo_receipt d = demo_proof\<lparr>pm_circuitId := ''batch-match'', pm_proofSystem := Some Risc0_Groth16,
     pm_publicInputHash := d, pm_journalDigest := Some d, pm_imageId := Some ''0x40'', pm_sealDigest := Some ''0x5''\<rparr>"

definition demo_settled_opening :: PositionLifecycleRecord where
  "demo_settled_opening = demo_opening\<lparr>plr_positionCommitment := ''0x11''\<rparr>"

definition demo_event :: AccountEventRecord where
  "demo_event = (let d = positionOpeningAccountEventDataCommitment demo_host demo_settled_opening ''secret''
     in \<lparr>aer_ciphertext = ''secret'', aer_createdAt = 0, aer_dataCommitment = d,
         aer_eventId = positionOpeningAccountEventId demo_host demo_settled_opening d,
         aer_ownerCommitment = ''0x30''\<rparr>)"

definition demo_transcript :: "Hex \<Rightarrow> ExternalBatchSettlementTranscript" where
  "demo_transcript d = \<lparr>ebt_accountEvents = [demo_event], ebt_privateMatchIntents = None,
     ebt_positionOpenings = [demo_settled_opening], ebt_residualOrders = None,
     ebt_settlement = demo_filled_settlement\<lparr>bs_proof := demo_receipt d\<rparr>\<rparr>"

lemma settlementInputs_proof: "settlementInputs h (b\<lparr>bs_proof := p\<rparr>) us cs = settlementInputs h b us cs"
  by (simp add: settlementInputs_def)

lemma capacity_proof: "assertBatchSettlementCapacity (b\<lparr>bs_proof := p\<rparr>) n = assertBatchSettlementCapacity b n"
  by (simp add: assertBatchSettlementCapacity_def)

lemma publicInputHash_proof:
  "batchSettlementPublicInputHash h (b\<lparr>bs_proof := p\<rparr>) = batchSettlementPublicInputHash h b"
  by (simp add: batchSettlementPublicInputHash_def settlementInputs_proof capacity_proof cong: if_cong)

lemma contractPublicInputHash_nonempty: "batchSettlementPublicInputHash h b = Inr d \<Longrightarrow> d \<noteq> []"
  by (auto simp: batchSettlementPublicInputHash_def contractPublicInputHash_def bindE_Inr_iff split: if_splits)

lemma demo_filled_hash: "\<exists>d. batchSettlementPublicInputHash demo_host demo_filled_settlement = Inr d"
proof -
  obtain xs where xs: "settlementInputs demo_host demo_filled_settlement
      [\<lparr>olu_intentCommitment = ''0x32'', olu_residualCommitment = None, olu_status = OrderFilled\<rparr>] [] = Inr xs"
    by (simp add: settlementInputs_def publicVec_def publicAmounts_def MAX_PUBLIC_ITEMS_def demo_filled_settlement_def
        demo_public_settlement_def ZERO_HEX_def)
  have "printable i" if "i \<in> set xs" for i
    using xs that printable_hash [OF hex_hash_demo]
    by (auto simp: settlementInputs_def publicVec_def publicAmounts_def MAX_PUBLIC_ITEMS_def demo_filled_settlement_def
        demo_public_settlement_def ZERO_HEX_def U128_MAX_def bigint_of_hex_def digit_val_def upt_rec)
  then obtain d where "contractPublicInputHash demo_host xs = Inr d"
    using contractPublicInputHash_total by blast
  with xs show ?thesis
    by (simp add: batchSettlementPublicInputHash_def assertBatchSettlementCapacity_def demo_filled_settlement_def
        demo_public_settlement_def MAX_PUBLIC_ITEMS_def)
qed

lemma demo_active: "activeOrderRecords demo_order_store ''btc'' = [(''0x32'', matchRecordOfIntent demo_record)]"
  by (simp add: activeOrderRecords_def demo_order_store_def new_ProtocolStore_def mvalues_def is_open_def mget_def
      matchRecordOfIntent_def demo_record_def open_order_def index_by_def map_new_def mset_at_fresh mhas_def)

lemma demo_transcript_valid:
  assumes d: "batchSettlementPublicInputHash demo_host demo_filled_settlement = Inr d"
  shows "validateExternalBatchSettlement demo_host (demo_transcript d) demo_order_store = Inr ()"
proof -
  let ?b = "demo_filled_settlement\<lparr>bs_proof := demo_receipt d\<rparr>" and ?o = "matchRecordOfIntent demo_record"
  let ?us = "[\<lparr>olu_intentCommitment = ''0x32'', olu_residualCommitment = None, olu_status = OrderFilled\<rparr>]"
  let ?active = "[(''0x32'', ?o)]"
  have "checkSettlementProof demo_host ?b = Inr ()"
    unfolding checkSettlementProof_Inr publicInputHash_proof d
    using contractPublicInputHash_nonempty [OF d]
    by (simp add: demo_receipt_def demo_proof_def demo_filled_settlement_def truthy_str_def)
  moreover have "checkOrderUpdates ?active ?b ?us = Inr ()"
    unfolding checkOrderUpdates_Inr
    by (rule conjI, simp, rule exI [of _ "[?o]"])
      (simp add: update_ok_def mget_def demo_filled_settlement_def item_def matchRecordOfIntent_def demo_record_def
        residualCommitmentOf_def truthy_str_def ZERO_HEX_def)
  moreover have "checkOpenings (updateOwners ?active ?us) ?b [demo_settled_opening] = Inr ()"
    unfolding checkOpenings_Inr
    by (simp add: opening_ok_def mget_def demo_filled_settlement_def demo_public_settlement_def demo_settled_opening_def
        demo_opening_def matchRecordOfIntent_def demo_record_def)
  moreover have "checkResiduals demo_host demo_order_store (updateOwners ?active ?us) ?b ?us [] [] = Inr ()"
    unfolding checkResiduals_Inr
    by (simp add: updatesByResidual_def index_by_def map_new_def truthy_str_def item_def demo_filled_settlement_def)
  moreover have "validateExternalAccountEvents demo_host ''0x21'' [demo_settled_opening] [] [demo_event] = Inr ()"
    by (simp add: validateExternalAccountEvents_def index_by_def map_new_def mset_at_fresh mhas_def mvalues_def Let_def
        openingEvent_def findPositionOpeningEvent_def demo_event_def assertPositionOpeningAccountEvent_def
        set_new_def sadd_def) (simp add: demo_settled_opening_def demo_opening_def)
  moreover have "mget (st_markets demo_order_store) ''btc'' = Some demo_market"
    by (simp add: demo_order_store_def mget_def)
  ultimately show ?thesis
    by (simp add: validateExternalBatchSettlement_def demo_transcript_def demo_active or_empty_def Let_def required_def)
      (simp add: demo_filled_settlement_def demo_public_settlement_def demo_active)
qed

lemma demo_order_store_sound: "sound demo_order_store"
  by (simp add: sound_def store_ok_def single_spend_def used_nullifiers_def linked_def proved_def
      demo_order_store_def new_ProtocolStore_def mkeys_def mvalues_def map_ok_def mget_def mhas_def hasProof_def
      demo_record_def open_order_def)

theorem validated_transcript_witness:
  "\<exists>d. validateExternalBatchSettlement demo_host (demo_transcript d) demo_order_store = Inr ()
     \<and> distinct (bs_spentNullifiers (ebt_settlement (demo_transcript d)))"
proof -
  obtain d where d: "batchSettlementPublicInputHash demo_host demo_filled_settlement = Inr d"
    using demo_filled_hash by blast
  from validated_transcript [OF demo_transcript_valid [OF d] refl refl]
  have "distinct (bs_spentNullifiers (ebt_settlement (demo_transcript d)))" by (elim exE conjE)
  with demo_transcript_valid [OF d] show ?thesis by blast
qed

theorem validated_commits_witness:
  "\<exists>d e'. commitExternalBatchSettlement demo_host 0 0 (demo_transcript d) True (new_ExecutorService demo_order_store)
       = (Inr (ebt_settlement (demo_transcript d)), e')
     \<and> st_positionCommitments (ex_store e') = [''0x11''] \<and> set (st_spentNullifiers (ex_store e')) = {''0x13''}"
proof -
  obtain d where d: "batchSettlementPublicInputHash demo_host demo_filled_settlement = Inr d"
    using demo_filled_hash by blast
  have s: "ex_store (new_ExecutorService demo_order_store) = demo_order_store" by (simp add: new_ExecutorService_def)
  note commits = validated_commits [where e = "new_ExecutorService demo_order_store" and h = demo_host
      and tr = "demo_transcript d" and proofVerified = True and now = 0 and settledAt = 0, unfolded s,
      OF demo_order_store_sound demo_transcript_valid [OF d] refl refl]
  let ?b = "ebt_settlement (demo_transcript d)"
  have t: "ebt_settlement (demo_transcript d) = demo_filled_settlement\<lparr>bs_proof := demo_receipt d\<rparr>"
    "ebt_positionOpenings (demo_transcript d) = [demo_settled_opening]" "or_empty (ebt_residualOrders (demo_transcript d)) = []"
    by (simp_all add: demo_transcript_def or_empty_def)
  have st: "st_settlements demo_order_store = []" "st_positionCommitments demo_order_store = []"
    "st_spentNullifiers demo_order_store = []" "st_accountEvents demo_order_store = []"
    by (simp_all add: demo_order_store_def new_ProtocolStore_def)
  have b: "bs_matchTranscriptDigest ?b \<noteq> []" "bs_newCommitments ?b = [''0x11'']" "bs_spentNullifiers ?b = [''0x13'']"
    by (simp_all add: t demo_filled_settlement_def demo_public_settlement_def)
  have "plr_status demo_settled_opening = PositionOpen" by (simp add: demo_settled_opening_def demo_opening_def)
  with commits b obtain e' where
    "commitExternalBatchSettlement demo_host 0 0 (demo_transcript d) True (new_ExecutorService demo_order_store) = (Inr ?b, e')"
    "st_positionCommitments (ex_store e') = st_positionCommitments demo_order_store @ bs_newCommitments ?b"
    "set (st_spentNullifiers (ex_store e')) = set (bs_spentNullifiers ?b) \<union> set (st_spentNullifiers demo_order_store)"
    by (auto simp: st t(2,3) s)
  then show ?thesis by (intro exI [of _ d] exI [of _ e']) (simp add: st b)
qed

subsection \<open>Intents\<close>

lemma binding_nonempty:
  assumes "intentBindingFields h intent = Inr b"
  shows "cic_batchDigest b \<noteq> []" "cic_marketDigest b \<noteq> []" "cic_ownerCommitmentField b \<noteq> []"
  using assms by (auto simp: intentBindingFields_def bindE_Inr_iff Let_def digestToFieldHex_def
      intentOwnerCommitmentField_def fieldHex_def CircuitIntentCommitmentInput.extend_def)

text \<open>C16: A prepared intent is consistent: its record is bound to the commitment, the digests and the
  margin root that the proof is about, its private payload matches the record, and on a known market it
  is collateralised: margin for the initial rate, for the maximal leverage and above the maintenance
  buffer. The store then accepts it exactly if its proof is recorded, its commitment is new, and its
  nullifier is neither spent nor locked by another order.\<close>

theorem prepared_intent_accepted:
  assumes "prepareIntent h input (ex_store e) = Inr p"
  shows "commitIntent h (sii_intent input) = Inr (ir_intentCommitment (pis_record p))
    \<and> assertPrivateMatchIntent h (matchRecordOfIntent (pis_record p)) (pis_privateMatchIntent p) = Inr ()
    \<and> marginMembershipRoot h (ex_store e) = Inr (ir_marginRoot (pis_record p))
    \<and> (\<forall>market. mget (st_markets (ex_store e)) (ti_marketId (sii_intent input)) = Some market \<longrightarrow>
         (let sz = \<bar>ti_size (sii_intent input)\<bar>; price = ti_limitPrice (sii_intent input);
              margin = ti_margin (sii_intent input) in
          0 < sz \<and> 0 < price \<and> initialMargin sz price (mc_initialMarginRate market) \<le> margin
          \<and> notional sz price \<le> margin * mc_maxLeverage market
          \<and> maintenanceMargin sz price (mc_maintenanceMarginRate market) < margin))
    \<and> ((\<exists>e'. commitPreparedIntent h now p e = (Inr (pis_record p), e')) \<longleftrightarrow>
         hasProof (ir_proof (pis_record p)) (ex_store e)
         \<and> \<not> mhas (st_intents (ex_store e)) (ir_intentCommitment (pis_record p))
         \<and> ir_noteNullifier (pis_record p) \<notin> set (st_spentNullifiers (ex_store e))
         \<and> \<not> intent_locked (ir_noteNullifier (pis_record p)) (ex_store e))"
proof -
  let ?i = "sii_intent input" and ?v = "sii_validity input" and ?s = "ex_store e"
  obtain c b where c: "commitIntent h ?i = Inr c" and b: "intentBindingFields h ?i = Inr b"
    and root: "marginMembershipRoot h ?s = Inr (ivr_marginRoot ?v)"
    and risk: "assertIntentRisk ?s (privateMatchIntentFromTradeIntent ?i c (ivr_noteChangeCommitment ?v)
      (ownerCommitment h (ti_owner ?i))) = Inr ()"
    and payload: "pis_privateMatchIntent p = privateMatchIntentFromTradeIntent ?i c (ivr_noteChangeCommitment ?v)
      (ownerCommitment h (ti_owner ?i))"
    and r: "ir_intentCommitment (pis_record p) = c" "ir_marginRoot (pis_record p) = ivr_marginRoot ?v"
      "ir_marketId (pis_record p) = ti_marketId ?i" "ir_noteNullifier (pis_record p) = ti_noteNullifier ?i"
      "ir_ownerCommitment (pis_record p) = ownerCommitment h (ti_owner ?i)"
      "ir_noteChangeCommitment (pis_record p) = ivr_noteChangeCommitment ?v"
      "ir_matchingPayloadCommitment (pis_record p) = matchingPayloadCommitment h (pis_privateMatchIntent p)"
      "ir_batchDigest (pis_record p) = cic_batchDigest b" "ir_marketDigest (pis_record p) = cic_marketDigest b"
      "ir_ownerCommitmentField (pis_record p) = cic_ownerCommitmentField b"
    using assms
    by (auto simp: prepareIntent_def Let_def bindE_Inr_iff privateMatchIntentFromTradeIntent_def split: if_splits)
  have ok: "assertPrivateMatchIntent h (matchRecordOfIntent (pis_record p)) (pis_privateMatchIntent p) = Inr ()"
    by (simp add: assertPrivateMatchIntent_def matchRecordOfIntent_def r)
      (simp add: payload privateMatchIntentFromTradeIntent_def)
  have "(\<exists>e'. commitPreparedIntent h now p e = (Inr (pis_record p), e'))
      \<longleftrightarrow> (\<exists>t. addIntent h now (pis_record p) (Some (pis_privateMatchIntent p)) ?s = (Inr (), t))"
    by (cases "addIntent h now (pis_record p) (Some (pis_privateMatchIntent p)) ?s")
      (auto simp: commitPreparedIntent_def store_call_def seqA_def bindA_def returnA_def split: sum.splits prod.splits)
  also have "\<dots> \<longleftrightarrow> hasProof (ir_proof (pis_record p)) ?s \<and> \<not> mhas (st_intents ?s) (ir_intentCommitment (pis_record p))
       \<and> ir_noteNullifier (pis_record p) \<notin> set (st_spentNullifiers ?s)
       \<and> \<not> intent_locked (ir_noteNullifier (pis_record p)) ?s"
    using ok root binding_nonempty [OF b] matchingPayloadCommitment_nonempty [of h "pis_privateMatchIntent p"]
    by (simp add: addIntent_def assertProof_def js_simps keepPrivateMatchIntent_run r hasProof_def
        marginMembershipRoot_def intent_locked_def)
  finally show ?thesis
    using c root ok risk
    by (auto simp: r Let_def assertIntentRisk_def privateMatchIntentFromTradeIntent_def hasInitialMargin_def
        hasMaxLeverage_def split: if_splits)
qed

lemma intentBindingFields_total:
  assumes h: "hex_hash h" and n: "toField (FHex (ti_noteNullifier intent)) = Inr n"
  shows "\<exists>b. intentBindingFields h intent = Inr b"
proof -
  obtain a1 a2 a3 a4 where "digestToFieldHex h (''batch:'' @ ti_batchId intent) = Inr (fieldHex a1)"
    "digestToFieldHex h (''market:'' @ ti_marketId intent) = Inr (fieldHex a2)"
    "digestToFieldHex h (''nonce:'' @ ti_nonce intent) = Inr (fieldHex a3)"
    "digestToFieldHex h (''salt:'' @ ti_salt intent) = Inr (fieldHex a4)"
    using digest_total [OF h] by metis
  moreover obtain v where "bigint_of_hex (ownerCommitment h (ti_owner intent)) = Inr v"
    using printable_hash [OF h] by (auto simp: ownerCommitment_def)
  ultimately show ?thesis
    using n by (simp add: intentBindingFields_def intentOwnerCommitmentField_def circuitIntentCommitment_def
        fieldHashPair_total Let_def)
qed

lemma demo_nullifier: "toField (FHex (ti_noteNullifier demo_intent)) = Inr 9"
  by (simp add: demo_intent_def toField_def bigint_of_hex_def digit_val_def upt_rec field_mod_eq FIELD_PRIME_def)

definition demo_validity :: "Hex \<Rightarrow> IntentBindingFields \<Rightarrow> Hex \<Rightarrow> IntentValidityRecord" where
  "demo_validity c b r = \<lparr>ivr_batchDigest = cic_batchDigest b, ivr_currentBatch = 1, ivr_expiryBatch = 2,
     ivr_intentCommitment = c, ivr_marketDigest = cic_marketDigest b, ivr_noteChangeCommitment = ZERO_HEX,
     ivr_noteCommitment = ''0x1'', ivr_marginRoot = r, ivr_noteNullifier = ti_noteNullifier demo_intent,
     ivr_ownerCommitmentField = cic_ownerCommitmentField b,
     ivr_proof = demo_proof\<lparr>pm_circuitId := ''intent-validity''\<rparr>\<rparr>"

theorem prepared_intent_accepted_witness:
  "\<exists>p e'. pis_privateMatchIntent p = privateMatchIntentFromTradeIntent demo_intent (ir_intentCommitment (pis_record p))
         ZERO_HEX (ownerCommitment demo_host (ti_owner demo_intent))
     \<and> commitPreparedIntent demo_host 0 p (new_ExecutorService (new_ProtocolStore\<lparr>st_proofs :=
         [proofKey (demo_proof\<lparr>pm_circuitId := ''intent-validity''\<rparr>)]\<rparr>)) = (Inr (pis_record p), e')"
proof -
  let ?s = "new_ProtocolStore\<lparr>st_proofs := [proofKey (demo_proof\<lparr>pm_circuitId := ''intent-validity''\<rparr>)]\<rparr>"
  obtain b where b: "intentBindingFields demo_host demo_intent = Inr b"
    using intentBindingFields_total [OF hex_hash_demo demo_nullifier] by blast
  then have c: "commitIntent demo_host demo_intent = Inr (ibf_intentCommitment b)" by (simp add: commitIntent_binding)
  have "\<exists>levels. buildFieldMerkleLevels demo_host [] FIELD_MERKLE_DEPTH = Inr levels"
    unfolding buildFieldMerkleLevels_Inr by simp
  then obtain r where r: "marginMembershipRoot demo_host ?s = Inr r"
    by (auto simp: marginMembershipRoot_def fieldMerkleRoot_def new_ProtocolStore_def)
  have "st_markets ?s = []" "st_intents ?s = []" "st_spentNullifiers ?s = []" by (simp_all add: new_ProtocolStore_def)
  note empty = this
  let ?in = "\<lparr>sii_intent = demo_intent, sii_validity = demo_validity (ibf_intentCommitment b) b r\<rparr>"
  obtain p where p: "prepareIntent demo_host ?in ?s = Inr p"
    and fields: "ir_proof (pis_record p) = demo_proof\<lparr>pm_circuitId := ''intent-validity''\<rparr>"
      "pis_privateMatchIntent p = privateMatchIntentFromTradeIntent demo_intent (ir_intentCommitment (pis_record p))
         ZERO_HEX (ownerCommitment demo_host (ti_owner demo_intent))"
    by (simp add: prepareIntent_def c b r demo_validity_def assertIntentRisk_def empty Let_def)
  have e: "ex_store (new_ExecutorService ?s) = ?s" by (simp add: new_ExecutorService_def)
  from prepared_intent_accepted [of demo_host ?in "new_ExecutorService ?s" p 0, unfolded e, OF p]
  have "\<exists>e'. commitPreparedIntent demo_host 0 p (new_ExecutorService ?s) = (Inr (pis_record p), e')"
    by (simp add: empty fields hasProof_def intent_locked_def mvalues_def)
  with fields(2) show ?thesis by blast
qed

end
