(* ===== verification/Executor_Settle.thy ===== *)
theory Executor_Settle
  imports Executor_Properties
begin

text \<open>
  From the open orders of a batch to the committed settlement: the request that the executor makes of the
  store, the match, the settlement of the proof coordinator and the commit fit together. The lemmas
  follow the data: which orders a request holds, which intents the fills come from, which fields
  a settlement has, what the pending records of it are.
\<close>

subsection \<open>Fills come from the submitted intents\<close>

definition from_intent :: "PrivateMatchIntent list \<Rightarrow> Fill \<Rightarrow> bool" where
  "from_intent intents f \<longleftrightarrow> (\<exists>p\<in>set intents. fill_intentCommitment f = pmi_intentCommitment p
     \<and> fill_ownerCommitment f = pmi_ownerCommitment p \<and> fill_marketId f = pmi_marketId p)"

lemma createFill_intent:
  "createFill h i x sz price k fee = Inr (f, y) \<Longrightarrow> bo_intent x \<in> set intents \<Longrightarrow> from_intent intents f"
  by (auto simp: createFill_def Let_def bindE_Inr_iff from_intent_def split: prod.splits)

lemma fills_from_intents:
  assumes "matchBook h i = Inr st"
  shows "\<forall>f\<in>set (ms_fills st). from_intent (mi_intents i) f"
proof -
  obtain orders where o: "toBookOrders (mi_intents i) = Inr orders"
    and loop: "matchLoop h i (book_refs Long compareLongPriority orders)
         (book_refs Short compareShortPriority orders)
         \<lparr>ms_orders = orders, ms_fills = [], ms_executions = [], ms_spent = [],
          ms_longIndex = 0, ms_shortIndex = 0\<rparr> = Inr st"
    using assms by (auto simp: matchBook_def bindE_Inr_iff)
  let ?L = "book_refs Long compareLongPriority orders" and ?S = "book_refs Short compareShortPriority orders"
  let ?P = "\<lambda>st. book_ok i ?L ?S st \<and> (\<forall>f\<in>set (ms_fills st). from_intent (mi_intents i) f)"
  have step: "?P u" if P: "?P t" and c: "crossing ?L ?S t" and u: "matchStep h i ?L ?S t = Inr u" for t u
  proof -
    have "?L ! ms_longIndex t \<in> set ?L" "?S ! ms_shortIndex t \<in> set ?S"
      using c by (simp_all add: crossing_def)
    then have "?L ! ms_longIndex t < length (ms_orders t)" "?S ! ms_shortIndex t < length (ms_orders t)"
      and ints: "map bo_intent (ms_orders t) = mi_intents i"
      using P by (auto simp: book_ok_def refs_ok_def)
    then have "bo_intent (deref t (?L ! ms_longIndex t)) \<in> set (mi_intents i)"
        "bo_intent (deref t (?S ! ms_shortIndex t)) \<in> set (mi_intents i)"
      unfolding ints [symmetric] by (simp_all add: deref_def)
    note ints = this
    have "\<forall>f\<in>set (ms_fills u). from_intent (mi_intents i) f"
      by (rule matchStep_elim [OF u]) (use P ints in \<open>auto dest: createFill_intent\<close>)
    with book_ok_step [OF _ c u] P show ?thesis by blast
  qed
  have "?P st \<and> \<not> crossing ?L ?S st"
  proof (rule matchLoop_induct [OF loop, where P = ?P])
    show "?P \<lparr>ms_orders = orders, ms_fills = [], ms_executions = [], ms_spent = [],
          ms_longIndex = 0, ms_shortIndex = 0\<rparr>" using initial_book_ok [OF o] by simp
  qed (rule step)
  then show ?thesis by blast
qed

subsection \<open>The orders of a request\<close>

lemma privateMatchIntentFor_Inr:
  "privateMatchIntentFor h s r batchId = Inr p \<Longrightarrow> pmi_intentCommitment p = mr_intentCommitment r
     \<and> pmi_marketId p = mr_marketId r \<and> pmi_ownerCommitment p = mr_ownerCommitment r"
  by (auto simp: privateMatchIntentFor_def bindE_Inr_iff assertPrivateMatchIntent_def split: option.splits if_splits)

lemma list_all2_source: "list_all2 P xs ys \<Longrightarrow> y \<in> set ys \<Longrightarrow> \<exists>x\<in>set xs. P x y"
  by (induction rule: list_all2_induct) auto

lemma batchRequest_Inr:
  assumes "batchRequest h input s = Inr request"
  obtains market m where "mget (st_markets s) (sbi_marketId input) = Some market"
    "batch_match h \<lparr>mi_batchId = sbi_batchId input, mi_market = market, mi_intents = spi_intents request\<rparr> = Inr m"
    "request = \<lparr>spi_batchId = sbi_batchId input, spi_market = market, spi_intents = spi_intents request, spi_match = m\<rparr>"
    "\<forall>p\<in>set (spi_intents request). pmi_marketId p = sbi_marketId input
       \<and> pmi_intentCommitment p \<in> ir_intentCommitment ` set (mvalues (st_intents s))
           \<union> ror_intentCommitment ` set (mvalues (st_residualOrders s))"
proof -
  let ?records = "filter (\<lambda>intent. ir_batchId intent = sbi_batchId input
      \<and> ir_marketId intent = sbi_marketId input \<and> is_open s (ir_intentCommitment intent)) (mvalues (st_intents s))"
  let ?residuals = "activeResiduals s (sbi_marketId input) (sbi_batchId input)"
  obtain market intents m where m: "mget (st_markets s) (sbi_marketId input) = Some market"
    "privateMatchIntentsFor h s (sbi_batchId input) ?records ?residuals = Inr intents"
    "batch_match h \<lparr>mi_batchId = sbi_batchId input, mi_market = market, mi_intents = intents\<rparr> = Inr m"
    "request = \<lparr>spi_batchId = sbi_batchId input, spi_market = market, spi_intents = intents, spi_match = m\<rparr>"
    using assms
    by (cases "mget (st_markets s) (sbi_marketId input)")
      (auto simp: batchRequest_def Let_def bindE_Inr_iff split: if_splits)
  then obtain rs ns where split: "intents = rs @ ns"
    "list_all2 (\<lambda>r p. privateMatchIntentFor h s (matchRecordOfResidual r) (sbi_batchId input) = Inr p) ?residuals rs"
    "list_all2 (\<lambda>r p. privateMatchIntentFor h s (matchRecordOfIntent r) (sbi_batchId input) = Inr p) ?records ns"
    by (auto simp: privateMatchIntentsFor_def bindE_Inr_iff mapE_Inr_iff)
  have "pmi_marketId p = sbi_marketId input \<and> pmi_intentCommitment p \<in> ir_intentCommitment ` set (mvalues (st_intents s))
           \<union> ror_intentCommitment ` set (mvalues (st_residualOrders s))" if "p \<in> set intents" for p
    using that unfolding split(1) set_append
  proof
    assume "p \<in> set rs"
    then obtain r where "r \<in> set ?residuals"
      "privateMatchIntentFor h s (matchRecordOfResidual r) (sbi_batchId input) = Inr p"
      using list_all2_source [OF split(2)] by blast
    then show ?thesis
      by (auto simp: activeResiduals_def matchRecordOfResidual_def dest!: privateMatchIntentFor_Inr)
  next
    assume "p \<in> set ns"
    then obtain r where "r \<in> set ?records"
      "privateMatchIntentFor h s (matchRecordOfIntent r) (sbi_batchId input) = Inr p"
      using list_all2_source [OF split(3)] by blast
    then show ?thesis by (auto simp: matchRecordOfIntent_def dest!: privateMatchIntentFor_Inr)
  qed
  then show ?thesis using m by (intro that [of market m]) auto
qed

subsection \<open>The fields of a settlement\<close>

definition settles :: "SettlementProofInput \<Rightarrow> BatchSettlement \<Rightarrow> bool" where
  "settles request b \<longleftrightarrow> bs_batchId b = spi_batchId request \<and> bs_marketId b = mc_marketId (spi_market request)
     \<and> bs_matchTranscriptDigest b = mres_matchTranscriptDigest (spi_match request)
     \<and> bs_newCommitments b = map fill_positionCommitment (mres_fills (spi_match request))
     \<and> bs_spentNullifiers b = mres_spentNullifiers (spi_match request)
     \<and> bs_orderUpdates b = Some (mres_orderUpdates (spi_match request))"

lemma draft_settles: "prepareRisc0SettlementDraft h request = Inr draft \<Longrightarrow> settles request (draft p)"
  by (auto simp: prepareRisc0SettlementDraft_def bindE_Inr_iff Let_def settles_def)

lemma createSettlementAsync_settles:
  assumes "createSettlementAsync h env test request = Inr b"
  shows "settles request b"
proof (cases test)
  case True
  with assms show ?thesis
    by (auto simp: createSettlementAsync_def createSettlement_def createOfflineTestSettlement_def bindE_Inr_iff Let_def
        settles_def)
next
  case False
  with assms obtain draft p where "prepareRisc0SettlementDraft h request = Inr draft" "b = draft p"
    by (auto simp: createSettlementAsync_def createRisc0BatchSettlement_def bindE_Inr_iff Let_def split: if_splits)
  with draft_settles show ?thesis by blast
qed

subsection \<open>The lists of a match\<close>

lemma match_lists:
  assumes m: "batch_match h i = Inr m"
  obtains filled where "set (map bo_intent filled) \<subseteq> set (mi_intents i)"
    "mres_orderUpdates m = map (\<lambda>x. \<lparr>olu_intentCommitment = pmi_intentCommitment (bo_intent x),
       olu_residualCommitment = (if bo_remaining x > 0 then Some (residualCommitment h x) else None),
       olu_status = (if bo_remaining x > 0 then PartiallyFilled else OrderFilled)\<rparr>) filled"
    "mres_residuals m = map (residual_of h i) (filter (\<lambda>x. bo_remaining x > 0) filled)"
    "\<forall>f\<in>set (mres_fills m). from_intent (mi_intents i) f" "distinct (mres_spentNullifiers m)"
    "mres_matchTranscriptDigest m \<noteq> []"
proof -
  obtain st rs where st: "matchBook h i = Inr st" "createResiduals h i (ms_orders st) = Inr rs"
    "mres_residuals m = rs" "mres_orderUpdates m = createOrderUpdates h (ms_orders st)"
    "mres_fills m = ms_fills st" "mres_spentNullifiers m = ms_spent st"
    by (rule batch_match_elim [OF m]) blast
  define filled where "filled = filter (\<lambda>x. bo_filled x > 0) (ms_orders st)"
  have book: "map bo_intent (ms_orders st) = mi_intents i" "distinct (ms_spent st)"
    by (rule matchBook_elim [OF st(1)]; simp add: book_ok_def recorded_ok_def)+
  show ?thesis
  proof (rule that [of filled])
    show "set (map bo_intent filled) \<subseteq> set (mi_intents i)" by (auto simp: filled_def book(1) [symmetric])
    show "mres_residuals m = map (residual_of h i) (filter (\<lambda>x. bo_remaining x > 0) filled)"
      using createResiduals_map [OF st(2)] by (simp add: st(3) filled_def conj_commute)
    show "mres_matchTranscriptDigest m \<noteq> []"
      using m by (auto simp: batch_match_def bindE_Inr_iff Let_def matchTranscriptDigest_def hashFields_def split: if_splits)
  qed (use st book fills_from_intents [OF st(1)] in \<open>simp_all add: createOrderUpdates_def filled_def\<close>)
qed

lemma residual_matches:
  "assertPrivateMatchIntent h (matchRecordOfResidual \<lparr>ror_batchId = b, ror_createdAt = n,
     ror_intentCommitment = pmi_intentCommitment (residual_of h i x), ror_marketId = pmi_marketId (residual_of h i x),
     ror_matchingPayloadCommitment = matchingPayloadCommitment h (residual_of h i x),
     ror_noteNullifier = pmi_noteNullifier (residual_of h i x), ror_ownerCommitment = pmi_ownerCommitment (residual_of h i x),
     ror_sourceIntentCommitment = c, ror_submissionSequence = q, ror_updatedAt = n'\<rparr>) (residual_of h i x) = Inr ()"
  by (simp add: assertPrivateMatchIntent_def matchRecordOfResidual_def residual_of_def ZERO_HEX_def)

lemma mget_fold_set:
  "distinct (map key xs) \<Longrightarrow> x \<in> set xs \<Longrightarrow> mget (fold (\<lambda>x. mset_at (key x) x) xs m) (key x) = Some x"
proof (induction xs arbitrary: m rule: rev_induct)
  case (snoc y xs)
  then show ?case by (auto simp: image_iff)
qed simp

lemma map_filter_all: "(\<And>x. x \<in> set xs \<Longrightarrow> f (g x) = Some x) \<Longrightarrow> List.map_filter f (map g xs) = xs"
  by (induction xs) (simp_all add: List.map_filter_simps)

lemma residualUpdates_unique:
  assumes "distinct (map (\<lambda>x. residualCommitment h x) (filter (\<lambda>x. bo_remaining x > 0) filled))"
    and "bs_orderUpdates b = Some (map (\<lambda>x. \<lparr>olu_intentCommitment = pmi_intentCommitment (bo_intent x),
       olu_residualCommitment = (if bo_remaining x > 0 then Some (residualCommitment h x) else None),
       olu_status = (if bo_remaining x > 0 then PartiallyFilled else OrderFilled)\<rparr>) filled)"
    and "x \<in> set filled" "bo_remaining x > 0"
  shows "mget (residualUpdates b) (residualCommitment h x) = Some (pmi_intentCommitment (bo_intent x))"
proof -
  let ?o = "filter (\<lambda>x. bo_remaining x > 0) filled"
  have "residualUpdates b = map_new (map (\<lambda>x. (residualCommitment h x, pmi_intentCommitment (bo_intent x))) ?o)"
  proof -
    have "map (\<lambda>u. (the (olu_residualCommitment u), olu_intentCommitment u))
        (filter (\<lambda>u. olu_status u = PartiallyFilled \<and> truthy_str (olu_residualCommitment u))
          (map (\<lambda>x. \<lparr>olu_intentCommitment = pmi_intentCommitment (bo_intent x),
             olu_residualCommitment = (if bo_remaining x > 0 then Some (residualCommitment h x) else None),
             olu_status = (if bo_remaining x > 0 then PartiallyFilled else OrderFilled)\<rparr>) xs))
      = map (\<lambda>x. (residualCommitment h x, pmi_intentCommitment (bo_intent x))) (filter (\<lambda>x. bo_remaining x > 0) xs)" for xs
      by (induction xs) auto
    with assms(2) show ?thesis by (simp add: residualUpdates_def)
  qed
  moreover have "map_new (map (\<lambda>x. (residualCommitment h x, pmi_intentCommitment (bo_intent x))) ?o)
      = map (\<lambda>x. (residualCommitment h x, pmi_intentCommitment (bo_intent x))) ?o"
    by (rule map_new_distinct) (use assms(1) in \<open>simp add: comp_def\<close>)
  moreover have "map_of (map (\<lambda>x. (residualCommitment h x, pmi_intentCommitment (bo_intent x))) ?o) (residualCommitment h x)
      = Some (pmi_intentCommitment (bo_intent x))"
    by (rule map_of_is_SomeI) (use assms in \<open>simp_all add: comp_def\<close>)
  ultimately show ?thesis by (simp add: mget_def)
qed

subsection \<open>The created batch is committed\<close>

text \<open>The records that a created batch leaves behind for its commit.\<close>

lemma created_batch:
  assumes "createBatchSettlementAsync h env test (\<lambda>e. e) openedAt createdAt input e = (Inr b, e1)"
  obtains request where "batchRequest h input (ex_store e) = Inr request" "settles request b"
    "e1 = snd (recordBatch h openedAt createdAt request b e)"
  using assms createSettlementAsync_settles
  by (auto simp: createBatchSettlementAsync_def recordBatch_def Let_def split: sum.splits)

lemma commit_created:
  assumes "e1 = snd (recordBatch h openedAt createdAt request b e)"
    and dist: "distinct (map pmi_intentCommitment (mres_residuals (spi_match request)))"
    and run: "addSettlement h now settledAt b (createPositionOpenings openedAt b (mres_fills (spi_match request)))
        (createResidualOrderRecords h createdAt (ex_store e) b (mres_residuals (spi_match request))) []
        (mres_residuals (spi_match request))
        (ex_store e1\<lparr>st_proofs := sadd (proofKey (bs_proof b)) (st_proofs (ex_store e1))\<rparr>) = (Inr (), t)"
  shows "\<exists>e2. commitBatchSettlement h now settledAt b e1 = (Inr b, e2) \<and> ex_store e2 = t"
proof -
  let ?R = "mres_residuals (spi_match request)" and ?s1 = "st_privateMatchIntents (ex_store e1)"
  have pending: "mget (ex_pendingPositionOpenings e1) (bs_settlementDigest b)
      = Some (createPositionOpenings openedAt b (mres_fills (spi_match request)))"
    "mget (ex_pendingResidualOrders e1) (bs_settlementDigest b)
      = Some (createResidualOrderRecords h createdAt (ex_store e) b ?R)"
    and priv: "?s1 = fold (\<lambda>p. mset_at (pmi_intentCommitment p) p) ?R (st_privateMatchIntents (ex_store e))"
    by (simp_all add: assms(1) recordBatch_def Let_def)
  have "mget ?s1 (pmi_intentCommitment p) = Some p" if "p \<in> set ?R" for p
    unfolding priv by (rule mget_fold_set [OF dist that])
  then have "List.map_filter (\<lambda>r. mget ?s1 (ror_intentCommitment r))
      (createResidualOrderRecords h createdAt (ex_store e) b ?R) = ?R"
    unfolding createResidualOrderRecords_def by (intro map_filter_all) (simp add: Let_def)
  then show ?thesis
    using run by (simp add: commitBatchSettlement_def seqA_def bindA_def store_call_def recordProof_run pending or_empty_def Let_def)
qed

text \<open>The parts fit together: whenever a settlement is created from the open orders of a batch, the commit
  succeeds, as long as its batch is not settled yet, its position and residual commitments are new and
  different, its nullifiers are unspent and no order has the empty commitment. The settlement is stored, one
  position is opened per fill at the index of its leaf, one residual order per unfilled rest, and exactly
  the nullifiers of the filled orders become spent.\<close>

theorem created_batch_commits:
  assumes sound: "sound (ex_store e)"
    and created: "createBatchSettlementAsync h env test (\<lambda>e. e) openedAt createdAt input e = (Inr b, e1)"
    and market: "\<forall>market. mget (st_markets (ex_store e)) (sbi_marketId input) = Some market \<longrightarrow> mc_marketId market = sbi_marketId input"
    and named: "[] \<notin> set (mkeys (st_intents (ex_store e))) \<union> set (mkeys (st_residualOrders (ex_store e)))"
    and new: "\<not> mhas (st_settlements (ex_store e)) (settlementKey b)"
    and leaves: "distinct (st_positionCommitments (ex_store e) @ bs_newCommitments b)"
    and unspent: "set (bs_spentNullifiers b) \<inter> set (st_spentNullifiers (ex_store e)) = {}"
    and fresh: "distinct (List.map_filter olu_residualCommitment (the (bs_orderUpdates b)))"
      "\<forall>c\<in>set (List.map_filter olu_residualCommitment (the (bs_orderUpdates b))). \<not> mhas (st_residualOrders (ex_store e)) c"
  shows "\<exists>e2. commitBatchSettlement h now settledAt b e1 = (Inr b, e2)
    \<and> mget (st_settlements (ex_store e2)) (settlementKey b) = Some b
    \<and> st_positionCommitments (ex_store e2) = st_positionCommitments (ex_store e) @ bs_newCommitments b
    \<and> (\<forall>c\<in>set (bs_newCommitments b). \<exists>p i. mget (st_positionLifecycle (ex_store e2)) c = Some p
         \<and> plr_status p = PositionOpen \<and> plr_settlementDigest p = bs_settlementDigest b
         \<and> plr_positionIndex p = Some i \<and> i < length (st_positionCommitments (ex_store e2))
         \<and> st_positionCommitments (ex_store e2) ! i = c)
    \<and> (\<forall>c\<in>set (List.map_filter olu_residualCommitment (the (bs_orderUpdates b))).
         mhas (st_residualOrders (ex_store e2)) c)
    \<and> set (st_spentNullifiers (ex_store e2)) = set (bs_spentNullifiers b) \<union> set (st_spentNullifiers (ex_store e))"
proof -
  let ?s = "ex_store e"
  obtain request where request: "batchRequest h input ?s = Inr request" and b: "settles request b"
    and e1: "e1 = snd (recordBatch h openedAt createdAt request b e)" by (rule created_batch [OF created])
  let ?m = "spi_match request" and ?i = "\<lparr>mi_batchId = sbi_batchId input, mi_market = spi_market request,
      mi_intents = spi_intents request\<rparr>"
  let ?fills = "mres_fills ?m" and ?R = "mres_residuals ?m"
  let ?os = "createPositionOpenings openedAt b ?fills" and ?rs = "createResidualOrderRecords h createdAt ?s b ?R"
  obtain cfg where cfg: "mget (st_markets ?s) (sbi_marketId input) = Some cfg" "spi_market request = cfg"
      "spi_batchId request = sbi_batchId input" and m: "batch_match h ?i = Inr ?m"
    and ints: "\<forall>p\<in>set (spi_intents request). pmi_marketId p = sbi_marketId input
       \<and> pmi_intentCommitment p \<in> ir_intentCommitment ` set (mvalues (st_intents ?s))
           \<union> ror_intentCommitment ` set (mvalues (st_residualOrders ?s))"
    by (rule batchRequest_Inr [OF request]) (metis SettlementProofInput.select_convs)
  obtain filled where filled: "set (map bo_intent filled) \<subseteq> set (spi_intents request)"
    and us: "mres_orderUpdates ?m = map (\<lambda>x. \<lparr>olu_intentCommitment = pmi_intentCommitment (bo_intent x),
       olu_residualCommitment = (if bo_remaining x > 0 then Some (residualCommitment h x) else None),
       olu_status = (if bo_remaining x > 0 then PartiallyFilled else OrderFilled)\<rparr>) filled"
    and R: "?R = map (residual_of h ?i) (filter (\<lambda>x. bo_remaining x > 0) filled)"
    and fills: "\<forall>f\<in>set ?fills. from_intent (spi_intents request) f"
    and spent: "distinct (mres_spentNullifiers ?m)" and digest: "mres_matchTranscriptDigest ?m \<noteq> []"
    by (rule match_lists [OF m]) simp
  note b = b [unfolded settles_def]
  have marketId: "bs_marketId b = sbi_marketId input" using b cfg market by simp
  have ok: "map_ok (st_intents ?s)" "map_ok (st_residualOrders ?s)" "linked ?s" using sound by (simp_all add: sound_def)
  have known: "(mhas (st_intents ?s) (pmi_intentCommitment p) \<or> mhas (st_residualOrders ?s) (pmi_intentCommitment p))
      \<and> pmi_intentCommitment p \<noteq> [] \<and> pmi_marketId p = bs_marketId b" if "p \<in> set (spi_intents request)" for p
  proof -
    have "pmi_intentCommitment p \<in> set (mkeys (st_intents ?s)) \<union> set (mkeys (st_residualOrders ?s))"
      using ints that sound_intent_key [OF sound] sound_residual_key [OF sound] by auto
    with named ints that marketId show ?thesis by (auto simp: mhas_keys)
  qed
  have sub: "bo_intent x \<in> set (spi_intents request)" if "x \<in> set filled" for x using filled that by auto
  have rcs: "List.map_filter olu_residualCommitment (mres_orderUpdates ?m)
      = map (residualCommitment h) (filter (\<lambda>x. bo_remaining x > 0) filled)"
    unfolding us by (induction filled) (simp_all add: List.map_filter_simps)
  have dR: "distinct (map pmi_intentCommitment ?R)"
    using fresh(1) b rcs by (simp add: R comp_def residual_of_def)
  define t0 where "t0 = ex_store e1\<lparr>st_proofs := sadd (proofKey (bs_proof b)) (st_proofs (ex_store e1))\<rparr>"
  have same: "st_settlements t0 = st_settlements ?s" "st_positionCommitments t0 = st_positionCommitments ?s"
    "st_spentNullifiers t0 = st_spentNullifiers ?s" "st_intents t0 = st_intents ?s"
    "st_residualOrders t0 = st_residualOrders ?s" "st_positionLifecycle t0 = st_positionLifecycle ?s"
    and proved: "hasProof (bs_proof b) t0"
    by (simp_all add: t0_def e1 recordBatch_def Let_def hasProof_def)
  have openings: "map plr_positionCommitment ?os = bs_newCommitments b"
    using b by (simp add: createPositionOpenings_def comp_def)
  have valid1: "validatePositionOpenings b ?os = Inr ()"
    using known fills b
    by (fastforce simp: validatePositionOpenings_def eachE_Inr_iff createPositionOpenings_def from_intent_def)
  have lifecycle: "plr_status p = PositionOpen \<and> plr_settlementDigest p = bs_settlementDigest b
      \<and> \<not> mhas (st_positionLifecycle t0) (plr_positionCommitment p)" if p: "p \<in> set ?os" for p
  proof -
    have "plr_positionCommitment p \<in> set (bs_newCommitments b)" using p unfolding openings [symmetric] by simp
    then have "plr_positionCommitment p \<notin> set (st_positionCommitments ?s)" using leaves by auto
    then have "\<not> mhas (st_positionLifecycle t0) (plr_positionCommitment p)"
      using linked_lifecycle_fresh [OF ok(3)] by (simp add: same)
    with p show ?thesis by (auto simp: createPositionOpenings_def)
  qed
  have residual: "ror_batchId r = bs_batchId b \<and> ror_marketId r = bs_marketId b \<and> ror_sourceIntentCommitment r \<noteq> []
      \<and> mget (residualUpdates b) (ror_intentCommitment r) = Some (ror_sourceIntentCommitment r)
      \<and> \<not> mhas (st_residualOrders t0) (ror_intentCommitment r) \<and> ror_matchingPayloadCommitment r \<noteq> []
      \<and> (\<exists>p\<in>set ?R. ror_intentCommitment r = pmi_intentCommitment p
           \<and> assertPrivateMatchIntent h (matchRecordOfResidual r) p = Inr ())" if r: "r \<in> set ?rs" for r
  proof -
    from r obtain x where x: "x \<in> set filled" "bo_remaining x > 0"
      and r: "r = \<lparr>ror_batchId = bs_batchId b, ror_createdAt = createdAt,
        ror_intentCommitment = pmi_intentCommitment (residual_of h ?i x), ror_marketId = pmi_marketId (residual_of h ?i x),
        ror_matchingPayloadCommitment = matchingPayloadCommitment h (residual_of h ?i x),
        ror_noteNullifier = pmi_noteNullifier (residual_of h ?i x),
        ror_ownerCommitment = pmi_ownerCommitment (residual_of h ?i x),
        ror_sourceIntentCommitment = pmi_intentCommitment (bo_intent x),
        ror_submissionSequence = submissionSequenceOf ?s (pmi_intentCommitment (bo_intent x)),
        ror_updatedAt = createdAt\<rparr>"
      by (auto simp: createResidualOrderRecords_def R Let_def residual_of_def)
    have "mget (residualUpdates b) (residualCommitment h x) = Some (pmi_intentCommitment (bo_intent x))"
      by (rule residualUpdates_unique [OF _ _ x]) (use b us fresh(1) rcs in simp_all)
    moreover have "\<not> mhas (st_residualOrders t0) (residualCommitment h x)"
      using fresh(2) b rcs x by (simp add: same)
    moreover have "residual_of h ?i x \<in> set ?R" using x by (simp add: R)
    ultimately show ?thesis
      using known [OF sub [OF x(1)]] residual_matches [of h "bs_batchId b" createdAt ?i x]
      by (auto simp: r matchingPayloadCommitment_nonempty residual_of_def intro!: bexI [of _ "residual_of h ?i x"])
  qed
  have valid2: "validateResidualOrders b ?rs = Inr ()"
    using residual by (simp add: validateResidualOrders_def eachE_Inr_iff Let_def truthy_str_def)
  have rdist: "distinct (map ror_intentCommitment ?rs)"
    using dR by (simp add: createResidualOrderRecords_def Let_def comp_def)
  have "(case mget (map_new (map (\<lambda>p. (pmi_intentCommitment p, p)) ?R)) (ror_intentCommitment r) of
           None \<Rightarrow> True | Some p \<Rightarrow> assertPrivateMatchIntent h (matchRecordOfResidual r) p = Inr ())" if "r \<in> set ?rs" for r
    using residual [OF that] index_by_get(1) [OF dR] by (auto simp: index_by_def [symmetric])
  moreover have "mhas (st_intents t0) (olu_intentCommitment u) \<or> mhas (st_residualOrders t0) (olu_intentCommitment u)"
    if "u \<in> set (mres_orderUpdates ?m)" for u
  proof -
    from that obtain x where x: "x \<in> set filled" "olu_intentCommitment u = pmi_intentCommitment (bo_intent x)"
      by (auto simp: us)
    show ?thesis unfolding same x(2) using known [OF sub [OF x(1)]] by blast
  qed
  ultimately have "\<exists>t. addSettlement h now settledAt b ?os ?rs [] ?R t0 = (Inr (), t)
    \<and> mget (st_settlements t) (settlementKey b) = Some b
    \<and> st_positionCommitments t = st_positionCommitments t0 @ bs_newCommitments b
    \<and> (\<forall>p\<in>set ?os. \<exists>i<length (st_positionCommitments t). st_positionCommitments t ! i = plr_positionCommitment p
        \<and> mget (st_positionLifecycle t) (plr_positionCommitment p) = Some (p\<lparr>plr_positionIndex := Some i\<rparr>))
    \<and> (\<forall>r\<in>set ?rs. mget (st_residualOrders t) (ror_intentCommitment r) = Some r)
    \<and> set (st_spentNullifiers t) = set (bs_spentNullifiers b) \<union> set (st_spentNullifiers t0)"
    using new leaves unspent b digest spent proved valid1 valid2 lifecycle residual rdist openings
    by (intro settlement_accepted [where us = "mres_orderUpdates ?m"]) (simp_all add: same)
  then obtain t where t: "addSettlement h now settledAt b ?os ?rs [] ?R t0 = (Inr (), t)"
    "mget (st_settlements t) (settlementKey b) = Some b"
    "st_positionCommitments t = st_positionCommitments t0 @ bs_newCommitments b"
    "\<forall>p\<in>set ?os. \<exists>i<length (st_positionCommitments t). st_positionCommitments t ! i = plr_positionCommitment p
        \<and> mget (st_positionLifecycle t) (plr_positionCommitment p) = Some (p\<lparr>plr_positionIndex := Some i\<rparr>)"
    "\<forall>r\<in>set ?rs. mget (st_residualOrders t) (ror_intentCommitment r) = Some r"
    "set (st_spentNullifiers t) = set (bs_spentNullifiers b) \<union> set (st_spentNullifiers t0)" by blast
  obtain e2 where e2: "commitBatchSettlement h now settledAt b e1 = (Inr b, e2)" "ex_store e2 = t"
    using commit_created [OF e1 dR t(1) [unfolded t0_def]] by blast
  have "\<exists>p i. mget (st_positionLifecycle t) c = Some p \<and> plr_status p = PositionOpen
      \<and> plr_settlementDigest p = bs_settlementDigest b \<and> plr_positionIndex p = Some i
      \<and> i < length (st_positionCommitments t) \<and> st_positionCommitments t ! i = c" if "c \<in> set (bs_newCommitments b)" for c
  proof -
    from that obtain p where p: "p \<in> set ?os" "plr_positionCommitment p = c" unfolding openings [symmetric] by auto
    with t(4) lifecycle [OF p(1)] show ?thesis by force
  qed
  moreover have "mhas (st_residualOrders t) c" if "c \<in> set (List.map_filter olu_residualCommitment (the (bs_orderUpdates b)))" for c
  proof -
    have "map ror_intentCommitment ?rs = map (residualCommitment h) (filter (\<lambda>x. bo_remaining x > 0) filled)"
      by (simp add: createResidualOrderRecords_def R Let_def comp_def residual_of_def)
    then have "c \<in> set (map ror_intentCommitment ?rs)" using that b rcs by simp
    with t(5) show ?thesis by (auto intro: mget_mhas)
  qed
  ultimately show ?thesis using e2 t(2,3,6) by (intro exI [of _ e2]) (simp add: same)
qed

end
