(* ===== verification/Funding_Engine.thy ===== *)
theory Funding_Engine
  imports Store_Snapshot
begin

text \<open>
  \<^verbatim>\<open>workers/funding-engine\<close> and the calls of \<^verbatim>\<open>features/funding\<close>: the premium of a market is
  sampled from the impact prices of its private order book, averaged over a window and turned into a
  change of the funding index of the market. Times are milliseconds and integers (\<open>Date.now()\<close> is an
  argument); the prover and the relay to the chain are the arguments that the constructor gets.
\<close>

subsection \<open>Configuration and results\<close>

datatype PremiumMode = ModeFixed | ModeImpactTwap
datatype book_side = AskSide | BidSide

definition DEFAULT_FUNDING_INTERVAL_MS :: int where "DEFAULT_FUNDING_INTERVAL_MS = 60 * 60 * 1000"
definition DEFAULT_PREMIUM_RATE :: int where "DEFAULT_PREMIUM_RATE = 0"
definition DEFAULT_SAMPLE_INTERVAL_MS :: int where "DEFAULT_SAMPLE_INTERVAL_MS = 60 * 1000"
definition DEFAULT_MINIMUM_SAMPLES :: int where "DEFAULT_MINIMUM_SAMPLES = 10"
definition DEFAULT_IMPACT_MARGIN :: int where "DEFAULT_IMPACT_MARGIN = 500 * 10000000"
definition DEFAULT_PREMIUM_RATE_CAP :: int where "DEFAULT_PREMIUM_RATE_CAP = 5000"

lemmas funding_defaults = DEFAULT_FUNDING_INTERVAL_MS_def DEFAULT_PREMIUM_RATE_def
  DEFAULT_SAMPLE_INTERVAL_MS_def DEFAULT_MINIMUM_SAMPLES_def DEFAULT_IMPACT_MARGIN_def
  DEFAULT_PREMIUM_RATE_CAP_def

record FundingEngineConfig =
  fec_impactMargin :: "int option"
  fec_intervalMs :: int
  fec_maxFundingDelta :: "int option"
  fec_minimumSamples :: "int option"
  fec_premiumMode :: "PremiumMode option"
  fec_premiumRate :: int
  fec_premiumRateCap :: "int option"
  fec_sampleIntervalMs :: "int option"
  fec_settlementsOnchainRequired :: bool

definition default_FundingEngineConfig :: FundingEngineConfig where
  "default_FundingEngineConfig = \<lparr>fec_impactMargin = None, fec_intervalMs = DEFAULT_FUNDING_INTERVAL_MS,
     fec_maxFundingDelta = None, fec_minimumSamples = None, fec_premiumMode = None,
     fec_premiumRate = DEFAULT_PREMIUM_RATE, fec_premiumRateCap = None, fec_sampleIntervalMs = None,
     fec_settlementsOnchainRequired = False\<rparr>"

record RunFundingCycleInput =
  rfi_appliedAt :: "int option"
  rfi_elapsedMs :: "int option"
  rfi_marketId :: "string option"
  rfi_maxFundingDelta :: "int option"
  rfi_premiumRate :: "int option"

record FundingCycleMarketResult =
  fcr_elapsedMs :: int
  fcr_marketId :: string
  fcr_reason :: "string option"
  fcr_skipped :: bool
  fcr_update :: "FundingUpdateRecord option"

record FundingPremium =
  fpr_rate :: int
  fpr_reason :: "string option"
  fpr_sampleCount :: "int option"
  fpr_source :: PremiumSource

subsection \<open>The prover and the chain\<close>

record FundingSettlementProofInput =
  fsi_appliedAt :: int
  fsi_elapsedMs :: int
  fsi_intervalMs :: int
  fsi_markPrice :: int
  fsi_marketId :: string
  fsi_maxFundingDelta :: "int option"
  fsi_newFundingIndex :: int
  fsi_oldFundingIndex :: int
  fsi_premiumRate :: int

record FundingSettlementRecord =
  fsr_update :: FundingUpdateRecord
  fsr_elapsedMs :: int
  fsr_intervalMs :: int
  fsr_markPrice :: int
  fsr_maxFundingDelta :: "int option"
  fsr_premiumRate :: int
  fsr_proof :: ProofMeta

text \<open>Of a relayed transaction the server reads these fields.\<close>

record RelayedTx =
  rtx_functionName :: "string option"
  rtx_relayId :: Hex
  rtx_kind :: string
  rtx_submitted :: bool
  rtx_txHash :: "Hex option"

definition assertSubmittedRelay :: "RelayedTx list option \<Rightarrow> string \<Rightarrow> unit result" where
  "assertSubmittedRelay relays functionName =
     (if (case relays of None \<Rightarrow> False
          | Some rs \<Rightarrow> list_ex (\<lambda>relay. rtx_functionName relay = Some functionName \<and> rtx_submitted relay
              \<and> truthy_str (rtx_txHash relay)) rs)
      then Inr () else throw (functionName @ '' transaction was not submitted''))"

text \<open>The constructor's \<open>prover\<close> and \<open>onchain\<close>, which may be missing.\<close>

record funding_ports =
  fp_enabled :: bool
  fp_prover :: "(FundingSettlementProofInput \<Rightarrow> FundingSettlementRecord result) option"
  fp_settleFunding :: "FundingSettlementRecord \<Rightarrow> RelayedTx list result"

subsection \<open>Premium samples\<close>

definition clampSigned :: "int \<Rightarrow> int \<Rightarrow> int result" where
  "clampSigned v cap =
     (if cap \<le> 0 then throw ''funding premium cap must be positive''
      else if v > cap then Inr cap
      else if v < - cap then Inr (- cap)
      else Inr v)"

definition sampleBucket :: "int \<Rightarrow> int \<Rightarrow> int result" where
  "sampleBucket sampledAt intervalMs =
     (if sampledAt < 0 then throw ''invalid funding sample time''
      else if intervalMs \<le> 0 then throw ''funding sample interval must be positive''
      else Inr (sampledAt div intervalMs * intervalMs))"

definition byImpactPrice :: "host \<Rightarrow> book_side \<Rightarrow> PrivateMatchIntent \<Rightarrow> PrivateMatchIntent \<Rightarrow> int" where
  "byImpactPrice h sd l r =
     (if pmi_limitPrice l = pmi_limitPrice r
      then localeCompare h (pmi_intentCommitment l) (pmi_intentCommitment r)
      else if sd = BidSide then (if pmi_limitPrice l > pmi_limitPrice r then - 1 else 1)
      else (if pmi_limitPrice l < pmi_limitPrice r then - 1 else 1))"

definition availableSize :: "PrivateMatchIntent \<Rightarrow> int" where
  "availableSize intent = (if pmi_signedSize intent < 0 then - pmi_signedSize intent
     else pmi_signedSize intent)"

text \<open>The loop of \<open>impactExecutionPrice\<close> with its three accumulators, \<open>continue\<close> and \<open>break\<close>.\<close>

fun impactLoop :: "int \<Rightarrow> PrivateMatchIntent list \<Rightarrow> int \<Rightarrow> int \<Rightarrow> int \<Rightarrow> int \<times> int \<times> int" where
  "impactLoop impactNotional [] filledNotional filledSize priceSize
     = (filledNotional, filledSize, priceSize)"
| "impactLoop impactNotional (intent # rest) filledNotional filledSize priceSize =
     (if availableSize intent \<le> 0 \<or> pmi_limitPrice intent \<le> 0
      then impactLoop impactNotional rest filledNotional filledSize priceSize
      else
        let remainingNotional = impactNotional - filledNotional;
            requestedSize = ceilDiv (remainingNotional * PRICE_SCALE) (pmi_limitPrice intent);
            takeSize = (if requestedSize < availableSize intent then requestedSize
                        else availableSize intent)
        in if takeSize \<le> 0 then impactLoop impactNotional rest filledNotional filledSize priceSize
           else
             let filledSize' = filledSize + takeSize;
                 priceSize' = priceSize + takeSize * pmi_limitPrice intent;
                 filledNotional' = filledNotional + (takeSize * pmi_limitPrice intent) sdiv PRICE_SCALE
             in if filledNotional' \<ge> impactNotional then (filledNotional', filledSize', priceSize')
                else impactLoop impactNotional rest filledNotional' filledSize' priceSize')"

definition impactExecutionPrice ::
  "host \<Rightarrow> PrivateMatchIntent list \<Rightarrow> int \<Rightarrow> book_side \<Rightarrow> int option result" where
  "impactExecutionPrice h intents impactNotional sd =
     (if impactNotional \<le> 0 then throw ''impact notional must be positive''
      else
        let ordered = js_sort (byImpactPrice h sd) intents
        in case impactLoop impactNotional ordered 0 0 0 of (filledNotional, filledSize, priceSize) \<Rightarrow>
             if filledNotional < impactNotional \<or> filledSize = 0 then Inr None
             else Inr (Some (priceSize sdiv filledSize)))"

definition fundingPremiumSample ::
  "host \<Rightarrow> MarketConfig \<Rightarrow> PrivateMatchIntent list \<Rightarrow> int \<Rightarrow> int \<Rightarrow> int
    \<Rightarrow> FundingPremiumSampleRecord result" where
  "fundingPremiumSample h market intents sampledAt impactMargin premiumRateCap =
     (if mc_oraclePrice market \<le> 0 then throw ''funding index price must be positive''
      else if mc_initialMarginRate market \<le> 0
        then throw ''funding initial margin rate must be positive''
      else if impactMargin \<le> 0 then throw ''funding impact margin must be positive''
      else if premiumRateCap \<le> 0 then throw ''funding premium cap must be positive''
      else
        let index = mc_oraclePrice market;
            impactNotional = (impactMargin * RATE_SCALE) sdiv mc_initialMarginRate market;
            bids = filter (\<lambda>intent. pmi_signedSize intent > 0) intents;
            asks = filter (\<lambda>intent. pmi_signedSize intent < 0) intents
        in bindE (impactExecutionPrice h bids impactNotional BidSide) (\<lambda>impactBidPrice.
           bindE (impactExecutionPrice h asks impactNotional AskSide) (\<lambda>impactAskPrice.
           let positive = (case impactBidPrice of
                 Some p \<Rightarrow> if p \<noteq> 0 \<and> p > index then ((p - index) * RATE_SCALE) sdiv index else 0
               | None \<Rightarrow> 0);
               negative = (case impactAskPrice of
                 Some p \<Rightarrow> if p \<noteq> 0 \<and> p < index then ((index - p) * RATE_SCALE) sdiv index else 0
               | None \<Rightarrow> 0)
           in bindE (clampSigned (positive - negative) premiumRateCap) (\<lambda>premiumRate.
              Inr \<lparr>fps_impactAskPrice = impactAskPrice, fps_impactBidPrice = impactBidPrice,
                   fps_impactNotional = impactNotional, fps_indexPrice = index,
                   fps_marketId = mc_marketId market, fps_premiumRate = premiumRate,
                   fps_sampledAt = sampledAt\<rparr>))))"

subsection \<open>The premium of a market\<close>

definition windowSamples ::
  "FundingPremiumSampleRecord list \<Rightarrow> int \<Rightarrow> string \<Rightarrow> int \<Rightarrow> FundingPremiumSampleRecord list" where
  "windowSamples records intervalMs marketId appliedAt =
     (let cutoff = appliedAt - intervalMs
      in js_sort (\<lambda>l r. fps_sampledAt l - fps_sampledAt r)
           (filter (\<lambda>r. fps_sampledAt r > cutoff \<and> fps_sampledAt r \<le> appliedAt)
             (filter (\<lambda>r. fps_marketId r = marketId) records)))"

definition currentFundingPremium ::
  "FundingPremiumSampleRecord list \<Rightarrow> FundingEngineConfig \<Rightarrow> string \<Rightarrow> int \<Rightarrow> int option
    \<Rightarrow> FundingPremium result" where
  "currentFundingPremium records config marketId appliedAt override =
     (let cap = nullish (fec_premiumRateCap config) DEFAULT_PREMIUM_RATE_CAP in
      if override \<noteq> None \<or> nullish (fec_premiumMode config) ModeFixed = ModeFixed
      then bindE (clampSigned (nullish override (fec_premiumRate config)) cap) (\<lambda>rate.
             Inr \<lparr>fpr_rate = rate, fpr_reason = None, fpr_sampleCount = None,
                  fpr_source = SourceFixed\<rparr>)
      else
        let samples = windowSamples records (fec_intervalMs config) marketId appliedAt;
            count = int (length samples);
            minimum = nullish (fec_minimumSamples config) DEFAULT_MINIMUM_SAMPLES
        in if count < minimum
           then Inr \<lparr>fpr_rate = 0,
                     fpr_reason = Some (''insufficient premium samples: '' @ int_str count @ ''/''
                       @ int_str minimum),
                     fpr_sampleCount = Some count, fpr_source = SourceImpactTwap\<rparr>
           else if count = 0 then throw ''Division by zero''
           else
             let average = sum_list (map fps_premiumRate samples) sdiv count
             in bindE (clampSigned average cap) (\<lambda>rate.
                  Inr \<lparr>fpr_rate = rate, fpr_reason = None, fpr_sampleCount = Some count,
                       fpr_source = SourceImpactTwap\<rparr>))"

subsection \<open>A funding cycle\<close>

text \<open>\<open>xs.map(f)\<close> with an \<open>f\<close> that changes the store and may throw.\<close>

fun mapA :: "('a \<Rightarrow> ('s, 'b) act) \<Rightarrow> 'a list \<Rightarrow> ('s, 'b list) act" where
  "mapA f [] = returnA []"
| "mapA f (x # xs) = bindA (f x) (\<lambda>y. bindA (mapA f xs) (\<lambda>ys. returnA (y # ys)))"

definition markets_of :: "string option \<Rightarrow> ProtocolStore \<Rightarrow> MarketConfig list result" where
  "markets_of marketId s =
     (if \<not> truthy_str marketId then Inr (mvalues (st_markets s))
      else case mget (st_markets s) (the marketId) of
             None \<Rightarrow> throw ''unknown market''
           | Some market \<Rightarrow> Inr [market])"

definition elapsedSinceLastFunding :: "FundingEngineConfig \<Rightarrow> string \<Rightarrow> int \<Rightarrow> ProtocolStore \<Rightarrow> int" where
  "elapsedSinceLastFunding config marketId appliedAt s =
     (case js_sort (\<lambda>a b. fur_appliedAt b - fur_appliedAt a)
        (filter (\<lambda>u. fur_marketId u = marketId) (mvalues (st_fundingUpdates s))) of
        latest # _ \<Rightarrow> appliedAt - fur_appliedAt latest
      | [] \<Rightarrow> fec_intervalMs config)"

definition activePrivateIntents :: "string \<Rightarrow> ProtocolStore \<Rightarrow> PrivateMatchIntent list" where
  "activePrivateIntents marketId s =
     filter (\<lambda>intent.
       if pmi_marketId intent \<noteq> marketId then False
       else case mget (st_orderLifecycle s) (pmi_intentCommitment intent) of
              None \<Rightarrow> False
            | Some order \<Rightarrow> olr_status order = OrderOpen \<or> olr_status order = PartiallyFilled)
       (mvalues (st_privateMatchIntents s))"

definition applyFunding ::
  "MarketConfig \<Rightarrow> int \<Rightarrow> int \<Rightarrow> int \<Rightarrow> int option \<Rightarrow> PremiumSource
    \<Rightarrow> (ProtocolStore, FundingUpdateRecord) act" where
  "applyFunding market fundingDelta appliedAt premiumRate premiumSampleCount premiumSource =
     (if fundingDelta = 0 then throwA ''funding delta cannot be zero''
      else
        let r = \<lparr>fur_appliedAt = appliedAt, fur_fundingDelta = fundingDelta,
                 fur_marketId = mc_marketId market,
                 fur_newFundingIndex = mc_fundingIndex market + fundingDelta,
                 fur_oldFundingIndex = mc_fundingIndex market, fur_premiumRate = Some premiumRate,
                 fur_premiumSampleCount = premiumSampleCount, fur_premiumSource = Some premiumSource\<rparr>
        in seqA (updateMarket (market\<lparr>mc_fundingIndex := fur_newFundingIndex r\<rparr>))
             (seqA (addFundingUpdate r) (returnA r)))"

text \<open>The settlement on chain comes before any write of the store.\<close>

definition settleOnchain ::
  "FundingEngineConfig \<Rightarrow> funding_ports \<Rightarrow> FundingSettlementProofInput \<Rightarrow> unit result" where
  "settleOnchain config ports input =
     (case fp_prover ports of
        Some proveFundingSettlement \<Rightarrow>
          if fp_enabled ports
          then bindE (proveFundingSettlement input) (\<lambda>settlement.
               bindE (fp_settleFunding ports settlement) (\<lambda>relay.
               if fec_settlementsOnchainRequired config
               then assertSubmittedRelay (Some relay) ''settle'' else Inr ()))
          else if fec_settlementsOnchainRequired config
          then throw ''settlements require on-chain relay'' else Inr ()
      | None \<Rightarrow> if fec_settlementsOnchainRequired config
          then throw ''settlements require on-chain relay'' else Inr ())"

definition skippedMarket :: "int \<Rightarrow> MarketConfig \<Rightarrow> string \<Rightarrow> FundingCycleMarketResult" where
  "skippedMarket elapsedMs market reason =
     \<lparr>fcr_elapsedMs = elapsedMs, fcr_marketId = mc_marketId market, fcr_reason = Some reason,
      fcr_skipped = True, fcr_update = None\<rparr>"

definition runMarket ::
  "FundingEngineConfig \<Rightarrow> funding_ports \<Rightarrow> int \<Rightarrow> RunFundingCycleInput \<Rightarrow> MarketConfig
    \<Rightarrow> (ProtocolStore, FundingCycleMarketResult) act" where
  "runMarket config ports appliedAt input market s =
     (let elapsedMs = (case rfi_elapsedMs input of Some e \<Rightarrow> e
            | None \<Rightarrow> elapsedSinceLastFunding config (mc_marketId market) appliedAt s);
          maxFundingDelta = (case rfi_maxFundingDelta input of Some d \<Rightarrow> Some d
            | None \<Rightarrow> fec_maxFundingDelta config)
      in if elapsedMs \<le> 0 then (Inr (skippedMarket elapsedMs market ''no elapsed interval''), s)
      else case currentFundingPremium (mvalues (st_fundingPremiumSamples s)) config
                  (mc_marketId market) appliedAt (rfi_premiumRate input) of
        Inl e \<Rightarrow> (Inl e, s)
      | Inr premium \<Rightarrow>
          if truthy_str (fpr_reason premium)
          then (Inr (skippedMarket elapsedMs market (the (fpr_reason premium))), s)
          else case fundingIndexDelta \<lparr>fid_elapsedMs = of_int elapsedMs,
                      fid_intervalMs = of_int (fec_intervalMs config),
                      fid_markPrice = mc_oraclePrice market, fid_maxFundingDelta = maxFundingDelta,
                      fid_premiumRate = fpr_rate premium\<rparr> of
            Inl e \<Rightarrow> (Inl e, s)
          | Inr fundingDelta \<Rightarrow>
              if fundingDelta = 0
              then (Inr (skippedMarket elapsedMs market ''zero funding delta''), s)
              else case settleOnchain config ports
                     \<lparr>fsi_appliedAt = appliedAt, fsi_elapsedMs = elapsedMs,
                      fsi_intervalMs = fec_intervalMs config, fsi_markPrice = mc_oraclePrice market,
                      fsi_marketId = mc_marketId market, fsi_maxFundingDelta = maxFundingDelta,
                      fsi_newFundingIndex = mc_fundingIndex market + fundingDelta,
                      fsi_oldFundingIndex = mc_fundingIndex market,
                      fsi_premiumRate = fpr_rate premium\<rparr> of
                Inl e \<Rightarrow> (Inl e, s)
              | Inr _ \<Rightarrow>
                  bindA (applyFunding market fundingDelta appliedAt (fpr_rate premium)
                           (fpr_sampleCount premium) (fpr_source premium))
                    (\<lambda>update. returnA \<lparr>fcr_elapsedMs = elapsedMs, fcr_marketId = mc_marketId market,
                       fcr_reason = None, fcr_skipped = False, fcr_update = Some update\<rparr>) s)"

definition runOnce ::
  "FundingEngineConfig \<Rightarrow> funding_ports \<Rightarrow> int \<Rightarrow> RunFundingCycleInput
    \<Rightarrow> (ProtocolStore, int \<times> FundingCycleMarketResult list) act" where
  "runOnce config ports now input =
     (let appliedAt = nullish (rfi_appliedAt input) now
      in bindA (liftA (markets_of (rfi_marketId input))) (\<lambda>markets.
         bindA (mapA (runMarket config ports appliedAt input) markets) (\<lambda>results.
         returnA (appliedAt, results))))"

definition sampleOnce ::
  "host \<Rightarrow> FundingEngineConfig \<Rightarrow> int \<Rightarrow> string option \<Rightarrow> int option
    \<Rightarrow> (ProtocolStore, FundingPremiumSampleRecord list) act" where
  "sampleOnce h config now marketId sampledAt s =
     (case bindE (sampleBucket (nullish sampledAt now)
                   (nullish (fec_sampleIntervalMs config) DEFAULT_SAMPLE_INTERVAL_MS)) (\<lambda>bucket.
           bindE (markets_of marketId s) (\<lambda>markets.
           mapE (\<lambda>market. fundingPremiumSample h market (activePrivateIntents (mc_marketId market) s)
                   bucket (nullish (fec_impactMargin config) DEFAULT_IMPACT_MARGIN)
                   (nullish (fec_premiumRateCap config) DEFAULT_PREMIUM_RATE_CAP)) markets)) of
        Inl e \<Rightarrow> (Inl e, s)
      | Inr records \<Rightarrow>
          if length records > 0
          then seqA (addFundingPremiumSamples records) (returnA records) s
          else (Inr records, s))"

subsection \<open>The timers\<close>

text \<open>
  The two timers are set or not; a tick runs the callback, which swallows errors. The store keeps what
  the callback wrote before it threw.
\<close>

record FundingTimers =
  ft_funding :: bool
  ft_sample :: bool
  ft_store :: ProtocolStore

definition sampleSafely :: "host \<Rightarrow> FundingEngineConfig \<Rightarrow> int \<Rightarrow> ProtocolStore \<Rightarrow> ProtocolStore" where
  "sampleSafely h config now s = snd (sampleOnce h config now None None s)"

definition startTimers :: "host \<Rightarrow> FundingEngineConfig \<Rightarrow> int \<Rightarrow> FundingTimers \<Rightarrow> FundingTimers" where
  "startTimers h config now e =
     (if ft_funding e \<or> ft_sample e then e
      else if nullish (fec_premiumMode config) ModeFixed = ModeImpactTwap
      then e\<lparr>ft_funding := True, ft_sample := True, ft_store := sampleSafely h config now (ft_store e)\<rparr>
      else e\<lparr>ft_funding := True\<rparr>)"

definition stopTimers :: "FundingTimers \<Rightarrow> FundingTimers" where
  "stopTimers e = e\<lparr>ft_funding := False, ft_sample := False\<rparr>"

definition fundingTick ::
  "FundingEngineConfig \<Rightarrow> funding_ports \<Rightarrow> RunFundingCycleInput \<Rightarrow> int \<Rightarrow> FundingTimers \<Rightarrow> FundingTimers" where
  "fundingTick config ports input now e = (if ft_funding e
     then e\<lparr>ft_store := snd (runOnce config ports now input (ft_store e))\<rparr> else e)"

definition sampleTick :: "host \<Rightarrow> FundingEngineConfig \<Rightarrow> int \<Rightarrow> FundingTimers \<Rightarrow> FundingTimers" where
  "sampleTick h config now e = (if ft_sample e
     then e\<lparr>ft_store := sampleSafely h config now (ft_store e)\<rparr> else e)"

subsection \<open>Calls of the administrator\<close>

definition normalizeAddress :: "string \<Rightarrow> string" where
  "normalizeAddress address = map upper_char (js_trim address)"

definition assertProtocolAdmin :: "string option \<Rightarrow> string list \<Rightarrow> bool \<Rightarrow> unit result" where
  "assertProtocolAdmin authenticated admins required =
     (if required \<and> length admins = 0 then throw ''protocol admin addresses are not configured''
      else if required \<and> \<not> truthy_str authenticated
        then throw ''protocol admin authentication is required''
      else if \<not> truthy_str authenticated \<or> length admins = 0 then Inr ()
      else if \<not> List.member (map normalizeAddress admins) (normalizeAddress (the authenticated))
        then throw ''authenticated account is not a protocol admin''
      else Inr ())"

definition advance ::
  "string list \<Rightarrow> bool \<Rightarrow> int \<Rightarrow> int option \<Rightarrow> int \<Rightarrow> string \<Rightarrow> string option
    \<Rightarrow> (ProtocolStore, FundingUpdateRecord) act" where
  "advance admins required now appliedAt fundingDelta marketId authenticated s =
     (case assertProtocolAdmin authenticated admins required of
        Inl e \<Rightarrow> (Inl e, s)
      | Inr _ \<Rightarrow>
          if fundingDelta = 0 then (Inl ''funding delta cannot be zero'', s)
          else case mget (st_markets s) marketId of
            None \<Rightarrow> (Inl ''unknown market'', s)
          | Some market \<Rightarrow>
              let r = \<lparr>fur_appliedAt = nullish appliedAt now, fur_fundingDelta = fundingDelta,
                       fur_marketId = mc_marketId market,
                       fur_newFundingIndex = mc_fundingIndex market + fundingDelta,
                       fur_oldFundingIndex = mc_fundingIndex market, fur_premiumRate = None,
                       fur_premiumSampleCount = None, fur_premiumSource = None\<rparr>
              in seqA (updateMarket (market\<lparr>mc_fundingIndex := fur_newFundingIndex r\<rparr>))
                   (seqA (addFundingUpdate r) (returnA r)) s)"

definition runFunding ::
  "string list \<Rightarrow> bool \<Rightarrow> FundingEngineConfig \<Rightarrow> funding_ports \<Rightarrow> int \<Rightarrow> RunFundingCycleInput
    \<Rightarrow> string option \<Rightarrow> (ProtocolStore, int \<times> FundingCycleMarketResult list) act" where
  "runFunding admins required config ports now input authenticated s =
     (case assertProtocolAdmin authenticated admins required of
        Inl e \<Rightarrow> (Inl e, s)
      | Inr _ \<Rightarrow> runOnce config ports now input s)"

end
