(* ===== verification/Funding_Properties.thy ===== *)
theory Funding_Properties
  imports Funding_Engine
begin

text \<open>
  What the funding engine guarantees: impact prices exist exactly when the book is deep enough, premiums
  stay within the cap and between the samples they average, and the funding index of every market is
  the sum of its recorded updates, whatever calls return, as long as two updates of a market are not
  recorded for one instant.
\<close>

subsection \<open>Lemmas: the impact price\<close>

text \<open>The notional that one intent can add, and the depth of a side of the book.\<close>

definition intentDepth :: "PrivateMatchIntent \<Rightarrow> int" where
  "intentDepth i = (if availableSize i \<le> 0 \<or> pmi_limitPrice i \<le> 0 then 0
     else (availableSize i * pmi_limitPrice i) div PRICE_SCALE)"

definition bookDepth :: "PrivateMatchIntent list \<Rightarrow> int" where
  "bookDepth xs = sum_list (map intentDepth xs)"

lemma PRICE_SCALE_pos: "0 < PRICE_SCALE"
  by (simp add: PRICE_SCALE_def)

declare PRICE_SCALE_def [simp del]
declare PRICE_SCALE_pos [simp]

lemma intentDepth_nonneg: "0 \<le> intentDepth i"
  by (simp add: intentDepth_def pos_imp_zdiv_nonneg_iff)

lemma bookDepth_simps [simp]:
  "bookDepth [] = 0" "bookDepth (i # xs) = intentDepth i + bookDepth xs"
  by (simp_all add: bookDepth_def)

lemma bookDepth_nonneg: "0 \<le> bookDepth xs"
  by (induction xs) (simp_all add: intentDepth_nonneg)

lemma bookDepth_sort [simp]: "bookDepth (js_sort c xs) = bookDepth xs"
  unfolding bookDepth_def by (metis mset_js_sort mset_map sum_mset_sum_list)

lemma ceilDiv_covers:
  assumes "0 < a" and "0 < p"
  shows "0 < ceilDiv (a * PRICE_SCALE) p" and "a \<le> (ceilDiv (a * PRICE_SCALE) p * p) div PRICE_SCALE"
proof -
  let ?v = "a * PRICE_SCALE" let ?c = "ceilDiv ?v p"
  have v: "0 < ?v" using assms by simp
  have c: "?c = (?v + p - 1) div p" by (rule ceilDiv_eq [OF less_imp_le [OF v] assms(2)])
  have "p * (?c + 1) > ?v + p - 1" using div_mult_bounds(2) [OF assms(2), of "?v + p - 1"] c by simp
  then have le: "?v \<le> ?c * p" by (simp add: algebra_simps)
  with v assms show "0 < ?c" by (metis less_le_trans zero_less_mult_pos2)
  show "a \<le> (?c * p) div PRICE_SCALE"
    using zdiv_mono1 [OF le PRICE_SCALE_pos] PRICE_SCALE_pos by (simp split: if_splits)
qed

text \<open>One pass over the book: what it reaches and where its average price lies.\<close>

lemma impactLoop_spec:
  assumes "impactLoop target xs fn fs ps = (n, sz, p)" and "fn < target" and "0 \<le> fs"
    and "lo * fs \<le> ps" and "ps \<le> hi * fs"
    and "\<And>i. i \<in> set xs \<Longrightarrow> 0 < availableSize i \<Longrightarrow> 0 < pmi_limitPrice i
          \<Longrightarrow> lo \<le> pmi_limitPrice i \<and> pmi_limitPrice i \<le> hi"
  shows "(target \<le> n \<longleftrightarrow> target \<le> fn + bookDepth xs) \<and> fs \<le> sz \<and> (fn < n \<longrightarrow> fs < sz)
     \<and> lo * sz \<le> p \<and> p \<le> hi * sz"
  using assms
proof (induction xs arbitrary: fn fs ps)
  case Nil
  then show ?case by simp
next
  case (Cons i xs)
  show ?case
  proof (cases "availableSize i \<le> 0 \<or> pmi_limitPrice i \<le> 0")
    case True
    then show ?thesis using Cons by (simp add: intentDepth_def)
  next
    case False
    let ?a = "availableSize i" let ?p = "pmi_limitPrice i"
    let ?req = "ceilDiv ((target - fn) * PRICE_SCALE) ?p"
    obtain tk where tk: "tk = (if ?req < ?a then ?req else ?a)" by blast
    let ?n = "fn + (tk * ?p) div PRICE_SCALE"
    have pos: "0 < ?a" "0 < ?p" using False by auto
    note cover = ceilDiv_covers [of "target - fn" ?p]
    have take: "0 < tk" using pos cover Cons.prems(2) tk by simp
    have sdiv: "(tk * ?p) sdiv PRICE_SCALE = (tk * ?p) div PRICE_SCALE"
      using take pos by (simp add: sdiv_nonneg)
    have depth: "intentDepth i = (?a * ?p) div PRICE_SCALE" using False by (simp add: intentDepth_def)
    have bounds: "lo \<le> ?p" "?p \<le> hi" using Cons.prems(6) [of i] pos by auto
    have sizes: "lo * (fs + tk) \<le> ps + tk * ?p" "ps + tk * ?p \<le> hi * (fs + tk)"
      using Cons.prems(4,5) mult_right_mono [OF bounds(1) less_imp_le [OF take]]
        mult_right_mono [OF bounds(2) less_imp_le [OF take]] by (simp_all add: algebra_simps)
    have loop: "impactLoop target (i # xs) fn fs ps =
        (if target \<le> ?n then (?n, fs + tk, ps + tk * ?p)
         else impactLoop target xs ?n (fs + tk) (ps + tk * ?p))"
      using False take by (simp add: Let_def sdiv flip: tk)
    show ?thesis
    proof (cases "target \<le> ?n")
      case True
      have "target - fn \<le> intentDepth i"
      proof (cases "?req < ?a")
        case True
        then have "?req * ?p \<le> ?a * ?p" using pos by simp
        then have "(?req * ?p) div PRICE_SCALE \<le> (?a * ?p) div PRICE_SCALE" by (rule zdiv_mono1) simp
        then show ?thesis using cover(2) pos Cons.prems(2) depth by simp
      next
        case False
        then show ?thesis using True depth tk by simp
      qed
      then show ?thesis
        using True Cons.prems(1) sizes take loop bookDepth_nonneg [of xs] by auto
    next
      case False
      have "\<not> ?req < ?a"
      proof
        assume "?req < ?a"
        then show False using False cover(2) pos Cons.prems(2) tk by simp
      qed
      then have t: "tk = ?a" using tk by simp
      have n: "?n = fn + intentDepth i" using t depth by simp
      have rec: "impactLoop target xs ?n (fs + tk) (ps + tk * ?p) = (n, sz, p)"
        using Cons.prems(1) loop False by simp
      have "(target \<le> n \<longleftrightarrow> target \<le> ?n + bookDepth xs) \<and> fs + tk \<le> sz
          \<and> (?n < n \<longrightarrow> fs + tk < sz) \<and> lo * sz \<le> p \<and> p \<le> hi * sz"
        using rec False sizes take Cons.prems(3,6) by (intro Cons.IH) auto
      then show ?thesis using n take by auto
    qed
  qed
qed

text \<open>The intents that the loop looks at.\<close>

definition liveIntent :: "PrivateMatchIntent \<Rightarrow> bool" where
  "liveIntent i \<longleftrightarrow> 0 < availableSize i \<and> 0 < pmi_limitPrice i"

lemma mult_sdiv: "0 < (z :: int) \<Longrightarrow> (x * z) sdiv z = x"
  by (cases "0 \<le> x") (simp_all add: sdiv_nonneg sdiv_nonpos mult_nonpos_nonneg flip: mult_minus_left)

lemma bookDepth_dead: "\<forall>i\<in>set xs. \<not> liveIntent i \<Longrightarrow> bookDepth xs = 0"
  by (induction xs) (auto simp: intentDepth_def liveIntent_def)

lemma sdiv_between:
  assumes "0 < (z :: int)" and "lo * z \<le> a" and "a \<le> hi * z"
  shows "lo \<le> a sdiv z \<and> a sdiv z \<le> hi"
proof
  have "(lo * z) sdiv z \<le> a sdiv z" "a sdiv z \<le> (hi * z) sdiv z" using assms by (auto intro: sdiv_mono)
  then show "lo \<le> a sdiv z" "a sdiv z \<le> hi" using assms(1) by (simp_all add: mult_sdiv)
qed

lemma sum_list_between:
  "(\<And>x. x \<in> set xs \<Longrightarrow> lo \<le> f x \<and> f x \<le> hi) \<Longrightarrow>
     lo * int (length xs) \<le> sum_list (map f xs) \<and> sum_list (map f xs) \<le> hi * int (length xs)"
  by (induction xs) (force simp: algebra_simps)+

lemma clampSigned_Inr:
  "clampSigned v cap = Inr r \<longleftrightarrow> 0 < cap \<and> r = (if v > cap then cap else if v < - cap then - cap else v)"
  by (auto simp: clampSigned_def)

lemma impactExecutionPrice_cases:
  assumes "0 < target"
  shows "(impactExecutionPrice h xs target sd = Inr None \<and> bookDepth xs < target)
     \<or> (\<exists>p. impactExecutionPrice h xs target sd = Inr (Some p) \<and> target \<le> bookDepth xs
         \<and> (\<exists>i\<in>set xs. liveIntent i \<and> pmi_limitPrice i \<le> p)
         \<and> (\<exists>i\<in>set xs. liveIntent i \<and> p \<le> pmi_limitPrice i))"
proof -
  let ?os = "js_sort (byImpactPrice h sd) xs" let ?L = "pmi_limitPrice ` {i \<in> set xs. liveIntent i}"
  obtain n sz p where loop: "impactLoop target ?os 0 0 0 = (n, sz, p)" by (metis prod_cases3)
  have fin: "finite ?L" by simp
  have spec: "(target \<le> n \<longleftrightarrow> target \<le> bookDepth xs) \<and> 0 \<le> sz \<and> (0 < n \<longrightarrow> 0 < sz)
     \<and> Min ?L * sz \<le> p \<and> p \<le> Max ?L * sz"
    using impactLoop_spec [OF loop, where lo = "Min ?L" and hi = "Max ?L"] assms fin
    by (auto simp: liveIntent_def)
  show ?thesis
  proof (cases "target \<le> n")
    case False
    with loop spec assms show ?thesis by (simp add: impactExecutionPrice_def Let_def)
  next
    case True
    then have sz: "0 < sz" and deep: "target \<le> bookDepth xs" using spec assms by auto
    have "?L \<noteq> {}"
    proof
      assume none: "?L = {}"
      have "bookDepth xs = 0"
        using none by (intro bookDepth_dead) auto
      with deep assms show False by simp
    qed
    then have "Min ?L \<in> ?L" "Max ?L \<in> ?L" using fin by (auto intro: Min_in Max_in)
    moreover have "Min ?L \<le> p sdiv sz" "p sdiv sz \<le> Max ?L"
      using sdiv_between [OF sz] spec by auto
    moreover have "impactExecutionPrice h xs target sd = Inr (Some (p sdiv sz))"
      using True loop sz assms by (simp add: impactExecutionPrice_def Let_def)
    ultimately show ?thesis using deep by auto
  qed
qed

lemma impactExecutionPrice_Inr:
  "(\<exists>r. impactExecutionPrice h xs target sd = Inr r) \<longleftrightarrow> 0 < target"
  using impactExecutionPrice_cases [of target h xs sd]
  by (cases "0 < target") (auto simp: impactExecutionPrice_def)

subsection \<open>Lemmas: recorded updates\<close>

lemma digit_char_separate: "d < 16 \<Longrightarrow> digit_char d \<noteq> CHR '':''"
proof -
  have "\<forall>d\<in>set [0..<16]. digit_char d \<noteq> CHR '':''" by code_simp
  then show "d < 16 \<Longrightarrow> digit_char d \<noteq> CHR '':''" by simp
qed

lemma nat_str_separate: "CHR '':'' \<notin> set (nat_str 10 n)"
proof (induction "10 :: nat" n rule: nat_str.induct)
  case (1 n)
  then show ?case by (simp add: nat_str.simps [of 10 n] digit_char_separate [symmetric])
qed

lemma int_str_separate: "CHR '':'' \<notin> set (int_str v)"
  by (simp add: int_str_def nat_str_separate)

lemma int_str_inj:
  assumes "int_str a = int_str b"
  shows "a = b"
  using arg_cong [where f = bigint_of_string, OF assms] by (simp only: bigint_of_int_str sum.inject)

lemma fundingUpdateKey_inj:
  assumes "fundingUpdateKey u = fundingUpdateKey v"
  shows "fur_marketId u = fur_marketId v" "fur_appliedAt u = fur_appliedAt v"
proof -
  have "rev (int_str (fur_newFundingIndex u)) @ CHR '':'' #
          (rev (int_str (fur_appliedAt u)) @ CHR '':'' # rev (fur_marketId u))
      = rev (int_str (fur_newFundingIndex v)) @ CHR '':'' #
          (rev (int_str (fur_appliedAt v)) @ CHR '':'' # rev (fur_marketId v))"
    using arg_cong [where f = rev, OF assms] by (simp add: fundingUpdateKey_def)
  from split_at_separator [OF this] have "rev (int_str (fur_appliedAt u)) @ CHR '':'' # rev (fur_marketId u)
      = rev (int_str (fur_appliedAt v)) @ CHR '':'' # rev (fur_marketId v)"
    by (simp add: int_str_separate)
  from split_at_separator [OF this] show "fur_marketId u = fur_marketId v"
    "fur_appliedAt u = fur_appliedAt v" by (auto simp: int_str_separate dest: int_str_inj)
qed

text \<open>
  The funding index of a market is where it started plus its recorded updates, every update is stored
  under its key and says what it changed.
\<close>

definition recorded_delta :: "string \<Rightarrow> ProtocolStore \<Rightarrow> int" where
  "recorded_delta m s = sum_list (map fur_fundingDelta
     (filter (\<lambda>u. fur_marketId u = m) (mvalues (st_fundingUpdates s))))"

definition funding_accounted :: "(string \<Rightarrow> int) \<Rightarrow> ProtocolStore \<Rightarrow> bool" where
  "funding_accounted start s \<longleftrightarrow>
     map_ok (st_markets s) \<and> map_ok (st_fundingUpdates s)
     \<and> (\<forall>(k, m) \<in> set (st_markets s). mc_marketId m = k
          \<and> mc_fundingIndex m = start k + recorded_delta k s)
     \<and> (\<forall>(k, u) \<in> set (st_fundingUpdates s). k = fundingUpdateKey u \<and> fur_fundingDelta u \<noteq> 0
          \<and> mhas (st_markets s) (fur_marketId u)
          \<and> fur_newFundingIndex u = fur_oldFundingIndex u + fur_fundingDelta u)"

text \<open>No update of the market is recorded for the instant.\<close>

definition fresh_instant :: "string \<Rightarrow> int \<Rightarrow> ProtocolStore \<Rightarrow> bool" where
  "fresh_instant m t s \<longleftrightarrow>
     (\<forall>u\<in>set (mvalues (st_fundingUpdates s)). fur_marketId u = m \<longrightarrow> fur_appliedAt u \<noteq> t)"

interpretation newest_first: total_comparator "\<lambda>a b. fur_appliedAt b - fur_appliedAt a"
  by unfold_locales auto

lemma elapsed_fresh:
  assumes "0 < elapsedSinceLastFunding config m t s"
  shows "fresh_instant m t s"
proof -
  let ?us = "js_sort (\<lambda>a b. fur_appliedAt b - fur_appliedAt a)
    (filter (\<lambda>u. fur_marketId u = m) (mvalues (st_fundingUpdates s)))"
  have sorted: "sorted_wrt (\<lambda>a b. fur_appliedAt b - fur_appliedAt a \<le> 0) ?us"
    by (rule newest_first.sorted_js_sort)
  have all: "set ?us = {u \<in> set (mvalues (st_fundingUpdates s)). fur_marketId u = m}" by simp
  show ?thesis
  proof (cases ?us)
    case Nil
    with all show ?thesis by (auto simp: fresh_instant_def)
  next
    case (Cons u us)
    then have "t > fur_appliedAt u" using assms by (simp add: elapsedSinceLastFunding_def)
    moreover have "\<forall>v\<in>set ?us. fur_appliedAt v \<le> fur_appliedAt u" using sorted Cons by auto
    ultimately show ?thesis using all by (fastforce simp: fresh_instant_def)
  qed
qed

text \<open>The write of an update, which the engine and the administrator share.\<close>

lemma funding_write:
  assumes acc: "funding_accounted start s" and m: "mget (st_markets s) (mc_marketId market) = Some market"
    and u: "fur_marketId u = mc_marketId market" "fur_oldFundingIndex u = mc_fundingIndex market"
      "fur_newFundingIndex u = mc_fundingIndex market + fur_fundingDelta u" "fur_fundingDelta u \<noteq> 0"
    and fresh: "fresh_instant (mc_marketId market) (fur_appliedAt u) s"
  shows "\<exists>s'. seqA (updateMarket (market\<lparr>mc_fundingIndex := fur_newFundingIndex u\<rparr>))
      (seqA (addFundingUpdate u) (returnA u)) s = (Inr u, s')
    \<and> s' = s\<lparr>st_markets := mset_at (mc_marketId market)
                (market\<lparr>mc_fundingIndex := fur_newFundingIndex u\<rparr>) (st_markets s),
              st_fundingUpdates := st_fundingUpdates s @ [(fundingUpdateKey u, u)]\<rparr>
    \<and> funding_accounted start s'"
proof -
  have known: "mhas (st_markets s) (mc_marketId market)" using m by (rule mget_mhas)
  have new: "\<not> mhas (st_fundingUpdates s) (fundingUpdateKey u)"
  proof
    assume "mhas (st_fundingUpdates s) (fundingUpdateKey u)"
    then obtain v where "mget (st_fundingUpdates s) (fundingUpdateKey u) = Some v"
      by (auto simp: mhas_def)
    then have v: "(fundingUpdateKey u, v) \<in> set (st_fundingUpdates s)" by (rule mget_in)
    then have key: "fundingUpdateKey u = fundingUpdateKey v" and "v \<in> set (mvalues (st_fundingUpdates s))"
      using acc by (auto simp: funding_accounted_def in_mvalues)
    then show False
      using fresh u(1) fundingUpdateKey_inj [OF key] by (auto simp: fresh_instant_def)
  qed
  let ?m = "market\<lparr>mc_fundingIndex := fur_newFundingIndex u\<rparr>"
  let ?s' = "s\<lparr>st_markets := mset_at (mc_marketId market) ?m (st_markets s),
    st_fundingUpdates := st_fundingUpdates s @ [(fundingUpdateKey u, u)]\<rparr>"
  have at: "(mc_marketId market, market) \<in> set (st_markets s)" using m by (rule mget_in)
  have delta: "recorded_delta k ?s' = recorded_delta k s
      + (if k = mc_marketId market then fur_fundingDelta u else 0)" for k
    by (simp add: recorded_delta_def mvalues_def u(1))
  have set: "(k, v) \<in> set (st_markets ?s') \<longleftrightarrow>
      (if k = mc_marketId market then v = ?m else (k, v) \<in> set (st_markets s))" for k v
  proof -
    have "map_ok (st_markets s)" using acc by (simp add: funding_accounted_def)
    then show ?thesis by (auto simp flip: mget_iff_in)
  qed
  have "funding_accounted start ?s'"
    unfolding funding_accounted_def
  proof (intro conjI)
    show "map_ok (st_markets ?s')" using acc by (simp add: funding_accounted_def)
    show "map_ok (st_fundingUpdates ?s')"
      using acc new by (auto simp: funding_accounted_def mset_at_fresh [symmetric])
    show "\<forall>(k, w)\<in>set (st_markets ?s'). mc_marketId w = k
        \<and> mc_fundingIndex w = start k + recorded_delta k ?s'"
    proof clarify
      fix k w assume w: "(k, w) \<in> set (st_markets ?s')"
      show "mc_marketId w = k \<and> mc_fundingIndex w = start k + recorded_delta k ?s'"
      proof (cases "k = mc_marketId market")
        case True
        with w set have "w = ?m" by simp
        moreover have "mc_fundingIndex market = start k + recorded_delta k s"
          using acc at True by (auto simp: funding_accounted_def)
        ultimately show ?thesis using u(3) delta True by simp
      next
        case False
        with w set have "(k, w) \<in> set (st_markets s)" by simp
        with acc False delta show ?thesis by (auto simp: funding_accounted_def)
      qed
    qed
    show "\<forall>(k, v)\<in>set (st_fundingUpdates ?s'). k = fundingUpdateKey v \<and> fur_fundingDelta v \<noteq> 0
        \<and> mhas (st_markets ?s') (fur_marketId v) \<and> fur_newFundingIndex v = fur_oldFundingIndex v + fur_fundingDelta v"
      using acc u by (auto simp: funding_accounted_def)
  qed
  moreover have "seqA (updateMarket ?m) (seqA (addFundingUpdate u) (returnA u)) s = (Inr u, ?s')"
    using known new by (simp add: updateMarket_def addFundingUpdate_def js_simps seqA_def bindA_def
        mset_at_fresh)
  ultimately show ?thesis by blast
qed

lemma applyFunding_run:
  assumes "funding_accounted start s" and "mget (st_markets s) (mc_marketId market) = Some market"
    and "d \<noteq> 0" and "fresh_instant (mc_marketId market) t s"
  shows "\<exists>u s'. applyFunding market d t r n src s = (Inr u, s') \<and> funding_accounted start s'
    \<and> fur_fundingDelta u = d \<and> fur_marketId u = mc_marketId market
    \<and> st_fundingUpdates s' = st_fundingUpdates s @ [(fundingUpdateKey u, u)]
    \<and> (\<forall>k. k \<noteq> mc_marketId market \<longrightarrow> mget (st_markets s') k = mget (st_markets s) k)"
proof -
  let ?u = "\<lparr>fur_appliedAt = t, fur_fundingDelta = d, fur_marketId = mc_marketId market,
    fur_newFundingIndex = mc_fundingIndex market + d, fur_oldFundingIndex = mc_fundingIndex market,
    fur_premiumRate = Some r, fur_premiumSampleCount = n, fur_premiumSource = Some src\<rparr>"
  show ?thesis
    using funding_write [of start s market ?u] assms by (auto simp: applyFunding_def Let_def)
qed

text \<open>One market of a cycle: an error writes nothing, and the books stay right in every case.\<close>

lemma runMarket_accounted:
  assumes acc: "funding_accounted start s" and m: "mget (st_markets s) (mc_marketId market) = Some market"
    and now: "rfi_elapsedMs input = None \<or> fresh_instant (mc_marketId market) t s"
    and run: "runMarket config ports t input market s = (res, s')"
  shows "funding_accounted start s'" and "\<And>e. res = Inl e \<Longrightarrow> s' = s"
    and "\<And>k. k \<noteq> mc_marketId market \<Longrightarrow> mget (st_markets s') k = mget (st_markets s) k"
    and "\<And>k. k \<noteq> mc_marketId market \<Longrightarrow> fresh_instant k t s' = fresh_instant k t s"
proof -
  have "funding_accounted start s' \<and> (isl res \<longrightarrow> s' = s)
      \<and> (\<forall>k. k \<noteq> mc_marketId market \<longrightarrow> mget (st_markets s') k = mget (st_markets s) k
          \<and> fresh_instant k t s' = fresh_instant k t s)"
  proof (cases "s' = s")
    case True
    with acc show ?thesis by simp
  next
    case False
    let ?el = "case rfi_elapsedMs input of Some e \<Rightarrow> e
      | None \<Rightarrow> elapsedSinceLastFunding config (mc_marketId market) t s"
    have el: "0 < ?el"
      using run False by (auto simp: runMarket_def Let_def split: if_splits)
    have fresh: "fresh_instant (mc_marketId market) t s"
      using now el by (cases "rfi_elapsedMs input") (auto intro: elapsed_fresh)
    obtain d r n src f where d: "d \<noteq> 0"
      and run': "bindA (applyFunding market d t r n src) (\<lambda>u. returnA (f u)) s = (res, s')"
      using run False by (auto simp: runMarket_def Let_def split: if_splits sum.splits)
    from applyFunding_run [OF acc m d fresh, of r n src] obtain u s''
      where ap: "applyFunding market d t r n src s = (Inr u, s'')" "funding_accounted start s''"
        "fur_marketId u = mc_marketId market"
        "st_fundingUpdates s'' = st_fundingUpdates s @ [(fundingUpdateKey u, u)]"
        "\<forall>k. k \<noteq> mc_marketId market \<longrightarrow> mget (st_markets s'') k = mget (st_markets s) k" by blast
    from run' ap(1) have "res = Inr (f u)" "s' = s''" by (simp_all add: js_simps)
    with ap show ?thesis by (auto simp: fresh_instant_def mvalues_def)
  qed
  then show "funding_accounted start s'" and "\<And>e. res = Inl e \<Longrightarrow> s' = s"
    and "\<And>k. k \<noteq> mc_marketId market \<Longrightarrow> mget (st_markets s') k = mget (st_markets s) k"
    and "\<And>k. k \<noteq> mc_marketId market \<Longrightarrow> fresh_instant k t s' = fresh_instant k t s" by auto
qed

lemma mapA_runMarket_accounted:
  assumes "funding_accounted start s"
    and "\<And>market. market \<in> set ms \<Longrightarrow> mget (st_markets s) (mc_marketId market) = Some market
       \<and> (rfi_elapsedMs input = None \<or> fresh_instant (mc_marketId market) t s)"
    and "distinct (map mc_marketId ms)"
  shows "funding_accounted start (snd (mapA (runMarket config ports t input) ms s))"
  using assms
proof (induction ms arbitrary: s)
  case Nil
  then show ?case by (simp add: js_simps)
next
  case (Cons market ms)
  obtain res s' where run: "runMarket config ports t input market s = (res, s')" by fastforce
  have m: "mget (st_markets s) (mc_marketId market) = Some market"
    "rfi_elapsedMs input = None \<or> fresh_instant (mc_marketId market) t s" using Cons.prems(2) by auto
  note step = runMarket_accounted [OF Cons.prems(1) m run]
  have "funding_accounted start (snd (mapA (runMarket config ports t input) ms s'))"
  proof (intro Cons.IH step(1))
    fix other assume other: "other \<in> set ms"
    with Cons.prems(3) have ne: "mc_marketId other \<noteq> mc_marketId market"
      by (metis distinct.simps(2) image_eqI list.set_map list.simps(9))
    show "mget (st_markets s') (mc_marketId other) = Some other
        \<and> (rfi_elapsedMs input = None \<or> fresh_instant (mc_marketId other) t s')"
      using Cons.prems(2) [of other] other step(3,4) [OF ne] by simp
  next
    show "distinct (map mc_marketId ms)" using Cons.prems(3) by simp
  qed
  with step(1) show ?case
    by (cases res) (auto simp: run js_simps bindA_def returnA_def split: prod.splits sum.splits)
qed

lemma markets_of_ok:
  assumes "funding_accounted start s" and "markets_of marketId s = Inr ms"
  shows "distinct (map mc_marketId ms)"
    and "\<And>market. market \<in> set ms \<Longrightarrow> mget (st_markets s) (mc_marketId market) = Some market"
proof -
  have ok: "map_ok (st_markets s)" and key: "\<forall>(k, m)\<in>set (st_markets s). mc_marketId m = k"
    using assms(1) by (auto simp: funding_accounted_def)
  have "map mc_marketId (mvalues (st_markets s)) = mkeys (st_markets s)"
    using key by (auto simp: mvalues_def mkeys_def)
  then show "distinct (map mc_marketId ms)"
    using assms(2) ok by (auto simp: markets_of_def map_ok_def split: if_splits option.splits)
  show "\<And>market. market \<in> set ms \<Longrightarrow> mget (st_markets s) (mc_marketId market) = Some market"
    using assms(2) key ok
    by (auto simp: markets_of_def in_mvalues mget_iff_in split: if_splits option.splits)
qed

lemma runOnce_accounted:
  assumes acc: "funding_accounted start s"
    and now: "rfi_elapsedMs input = None \<or> (\<forall>m. fresh_instant m (nullish (rfi_appliedAt input) now) s)"
  shows "funding_accounted start (snd (runOnce config ports now input s))"
proof (cases "markets_of (rfi_marketId input) s")
  case (Inl e)
  with acc show ?thesis by (simp add: runOnce_def Let_def js_simps bindA_def)
next
  case (Inr ms)
  have "funding_accounted start
      (snd (mapA (runMarket config ports (nullish (rfi_appliedAt input) now) input) ms s))"
    using markets_of_ok [OF acc Inr] now by (intro mapA_runMarket_accounted acc) auto
  then show ?thesis
    by (auto simp: runOnce_def Let_def js_simps bindA_def Inr split: prod.splits sum.splits)
qed

lemma sampleOnce_accounted:
  "funding_accounted start s \<Longrightarrow> funding_accounted start (snd (sampleOnce h config now m t s))"
  by (auto simp: sampleOnce_def seqA_def bindA_def returnA_def addFundingPremiumSamples_def modifyA_def
      funding_accounted_def recorded_delta_def split: sum.splits)

lemma advance_accounted:
  assumes acc: "funding_accounted start s" and fresh: "fresh_instant m (nullish t now) s"
  shows "funding_accounted start (snd (advance admins required now t d m auth s))"
proof (cases "assertProtocolAdmin auth admins required")
  case (Inl e)
  with acc show ?thesis by (simp add: advance_def)
next
  case (Inr u)
  show ?thesis
  proof (cases "d = 0 \<or> mget (st_markets s) m = None")
    case True
    with acc Inr show ?thesis by (auto simp: advance_def)
  next
    case False
    then obtain market where market: "mget (st_markets s) m = Some market" and d: "d \<noteq> 0" by auto
    have id: "mc_marketId market = m"
      using acc mget_in [OF market] by (auto simp: funding_accounted_def)
    let ?u = "\<lparr>fur_appliedAt = nullish t now, fur_fundingDelta = d, fur_marketId = m,
      fur_newFundingIndex = mc_fundingIndex market + d, fur_oldFundingIndex = mc_fundingIndex market,
      fur_premiumRate = None, fur_premiumSampleCount = None, fur_premiumSource = None\<rparr>"
    show ?thesis
      using funding_write [of start s market ?u] acc market d fresh Inr id by (auto simp: advance_def Let_def)
  qed
qed

subsection \<open>The calls of the engine\<close>

text \<open>
  Everything that reaches the markets and the funding updates: the timers, the calls of the
  administrator, new markets and price updates. \<open>start\<close> is the index a market is created with. A
  cycle with a given elapsed time and a call of \<open>advance\<close> name an instant at which the market has
  no update yet; \<open>repeated_instant_unaccounted\<close> below shows what happens otherwise.
\<close>

inductive funding_step :: "host \<Rightarrow> string list \<Rightarrow> bool \<Rightarrow> FundingEngineConfig \<Rightarrow> funding_ports
    \<Rightarrow> (string \<Rightarrow> int) \<Rightarrow> FundingTimers \<Rightarrow> FundingTimers \<Rightarrow> bool"
  for h admins required config ports start where
  start_timers: "funding_step h admins required config ports start e (startTimers h config now e)"
| stop_timers: "funding_step h admins required config ports start e (stopTimers e)"
| funding_tick: "rfi_elapsedMs input = None \<Longrightarrow>
    funding_step h admins required config ports start e (fundingTick config ports input now e)"
| sample_tick: "funding_step h admins required config ports start e (sampleTick h config now e)"
| sample_call: "funding_step h admins required config ports start e
    (e\<lparr>ft_store := snd (sampleOnce h config now m t (ft_store e))\<rparr>)"
| run_call: "rfi_elapsedMs input = None
      \<or> (\<forall>m. fresh_instant m (nullish (rfi_appliedAt input) now) (ft_store e)) \<Longrightarrow>
    funding_step h admins required config ports start e
      (e\<lparr>ft_store := snd (runFunding admins required config ports now input auth (ft_store e))\<rparr>)"
| advance_call: "fresh_instant m (nullish t now) (ft_store e) \<Longrightarrow>
    funding_step h admins required config ports start e
      (e\<lparr>ft_store := snd (advance admins required now t d m auth (ft_store e))\<rparr>)"
| new_market: "start (mc_marketId market) = mc_fundingIndex market \<Longrightarrow>
    funding_step h admins required config ports start e
      (e\<lparr>ft_store := snd (addMarket market (ft_store e))\<rparr>)"
| new_price: "mget (st_markets (ft_store e)) m = Some market \<Longrightarrow>
    funding_step h admins required config ports start e
      (e\<lparr>ft_store := snd (updateMarket (market\<lparr>mc_oraclePrice := price\<rparr>) (ft_store e))\<rparr>)"

definition new_FundingTimers :: FundingTimers where
  "new_FundingTimers = \<lparr>ft_funding = False, ft_sample = False, ft_store = new_ProtocolStore\<rparr>"

abbreviation funding_reachable where
  "funding_reachable h admins required config ports start \<equiv>
     (funding_step h admins required config ports start)\<^sup>*\<^sup>* new_FundingTimers"

lemma recorded_delta_unknown:
  assumes "funding_accounted start s" and "\<not> mhas (st_markets s) k"
  shows "recorded_delta k s = 0"
proof -
  have "filter (\<lambda>u. fur_marketId u = k) (mvalues (st_fundingUpdates s)) = []"
    using assms by (auto simp: funding_accounted_def filter_empty_conv in_mvalues)
  then show ?thesis by (simp add: recorded_delta_def)
qed

lemma recorded_delta_markets [simp]: "recorded_delta k (s\<lparr>st_markets := x\<rparr>) = recorded_delta k s"
  by (simp add: recorded_delta_def)

text \<open>Writing a market whose index agrees with the records.\<close>

lemma put_market_accounted:
  assumes acc: "funding_accounted start s"
    and m: "mc_fundingIndex m = start (mc_marketId m) + recorded_delta (mc_marketId m) s"
  shows "funding_accounted start (s\<lparr>st_markets := mset_at (mc_marketId m) m (st_markets s)\<rparr>)"
proof -
  have "(k, v) \<in> set (mset_at (mc_marketId m) m (st_markets s)) \<longleftrightarrow>
      (if k = mc_marketId m then v = m else (k, v) \<in> set (st_markets s))" for k v
  proof -
    have "map_ok (st_markets s)" using acc by (simp add: funding_accounted_def)
    then show ?thesis by (auto simp flip: mget_iff_in)
  qed
  with acc m show ?thesis by (auto simp: funding_accounted_def split: if_splits)
qed

lemma addMarket_accounted:
  "funding_accounted start s \<Longrightarrow> start (mc_marketId m) = mc_fundingIndex m
    \<Longrightarrow> funding_accounted start (snd (addMarket m s))"
  by (auto simp: addMarket_def js_simps recorded_delta_unknown intro: put_market_accounted)

lemma price_accounted:
  assumes acc: "funding_accounted start s" and m: "mget (st_markets s) k = Some m"
  shows "funding_accounted start (snd (updateMarket (m\<lparr>mc_oraclePrice := p\<rparr>) s))"
proof -
  have "mc_marketId m = k \<and> mc_fundingIndex m = start k + recorded_delta k s"
    using acc mget_in [OF m] by (auto simp: funding_accounted_def)
  then show ?thesis
    using acc put_market_accounted [OF acc, of "m\<lparr>mc_oraclePrice := p\<rparr>"]
    by (auto simp: updateMarket_def js_simps)
qed

lemma funding_step_accounted:
  assumes "funding_step h admins required config ports start e e'"
    and "funding_accounted start (ft_store e)"
  shows "funding_accounted start (ft_store e')"
  using assms
proof cases
  case (run_call input now auth)
  then show ?thesis using assms(2)
    by (auto simp: runFunding_def split: sum.splits intro: runOnce_accounted)
qed (use assms(2) in \<open>auto simp: startTimers_def stopTimers_def fundingTick_def sampleTick_def
    sampleSafely_def intro: runOnce_accounted sampleOnce_accounted advance_accounted addMarket_accounted
    price_accounted\<close>)

subsection \<open>Properties\<close>

text \<open>The impact price exists exactly when the side of the book is deep enough for the impact
  notional, and then lies between the limit prices of the intents that can trade. (The depth counts
  every live intent, rounded down, so the price does not depend on how the sort breaks ties.)\<close>
theorem impact_price_depth:
  "case impactExecutionPrice h intents target sd of
     Inl e \<Rightarrow> target \<le> 0
   | Inr None \<Rightarrow> 0 < target \<and> bookDepth intents < target
   | Inr (Some p) \<Rightarrow> 0 < target \<and> target \<le> bookDepth intents
       \<and> (\<exists>i\<in>set intents. liveIntent i \<and> pmi_limitPrice i \<le> p)
       \<and> (\<exists>i\<in>set intents. liveIntent i \<and> p \<le> pmi_limitPrice i)"
  using impactExecutionPrice_cases [of target h intents sd]
  by (cases "0 < target") (auto simp: impactExecutionPrice_def)

text \<open>C28: A premium never exceeds the cap. One that is averaged over samples counts exactly the samples
  of the market in the window, at least the minimum of them, and is the capped average, which lies
  between two of the samples. One that a reason comes with is zero and the market is skipped.\<close>
theorem premium_is_capped:
  assumes "currentFundingPremium records config marketId appliedAt override = Inr p"
  shows "let cap = nullish (fec_premiumRateCap config) DEFAULT_PREMIUM_RATE_CAP;
      window = filter (\<lambda>r. fps_marketId r = marketId \<and> fps_sampledAt r \<le> appliedAt
        \<and> appliedAt - fec_intervalMs config < fps_sampledAt r) records
    in if fpr_reason p \<noteq> None
       then fpr_rate p = 0 \<and> int (length window)
              < nullish (fec_minimumSamples config) DEFAULT_MINIMUM_SAMPLES
       else \<bar>fpr_rate p\<bar> \<le> cap \<and>
         (if fpr_source p = SourceFixed
          then clampSigned (nullish override (fec_premiumRate config)) cap = Inr (fpr_rate p)
          else fpr_sampleCount p = Some (int (length window))
            \<and> nullish (fec_minimumSamples config) DEFAULT_MINIMUM_SAMPLES \<le> int (length window)
            \<and> (\<exists>avg l u. l \<in> set window \<and> u \<in> set window \<and> fps_premiumRate l \<le> avg
                \<and> avg \<le> fps_premiumRate u \<and> clampSigned avg cap = Inr (fpr_rate p)))"
proof -
  let ?cap = "nullish (fec_premiumRateCap config) DEFAULT_PREMIUM_RATE_CAP"
  let ?w = "filter (\<lambda>r. fps_marketId r = marketId \<and> fps_sampledAt r \<le> appliedAt
        \<and> appliedAt - fec_intervalMs config < fps_sampledAt r) records"
  let ?s = "windowSamples records (fec_intervalMs config) marketId appliedAt"
  have samples: "mset ?s = mset ?w"
    by (auto simp: windowSamples_def Let_def filter_mset_eq_conv intro!: arg_cong [where f = mset] filter_cong
        simp flip: mset_filter)
  then have len: "length ?s = length ?w" and set: "set ?s = set ?w"
    by (metis size_mset, metis set_mset_mset)
  let ?avg = "sum_list (map fps_premiumRate ?s) sdiv int (length ?s)"
  have avg: "\<exists>l u. l \<in> set ?w \<and> u \<in> set ?w \<and> fps_premiumRate l \<le> ?avg \<and> ?avg \<le> fps_premiumRate u"
    if "0 < length ?s"
  proof -
    let ?R = "fps_premiumRate ` set ?s"
    have "?R \<noteq> {}" "finite ?R" using that by simp_all
    then have "Min ?R \<in> ?R" "Max ?R \<in> ?R" by (rule Min_in [rotated], rule Max_in [rotated])
    then obtain l u where "l \<in> set ?s" "u \<in> set ?s" "fps_premiumRate l = Min ?R" "fps_premiumRate u = Max ?R"
      by (elim imageE) simp
    moreover have "Min ?R * int (length ?s) \<le> sum_list (map fps_premiumRate ?s)
        \<and> sum_list (map fps_premiumRate ?s) \<le> Max ?R * int (length ?s)"
      by (rule sum_list_between) simp
    then have "Min ?R \<le> ?avg \<and> ?avg \<le> Max ?R" using that by (intro sdiv_between) simp_all
    ultimately show ?thesis using set by (intro exI [of _ l] exI [of _ u]) simp
  qed
  show ?thesis
  proof (cases "override \<noteq> None \<or> nullish (fec_premiumMode config) ModeFixed = ModeFixed")
    case True
    then have p: "clampSigned (nullish override (fec_premiumRate config)) ?cap = Inr (fpr_rate p)"
        "fpr_reason p = None" "fpr_source p = SourceFixed"
      using assms by (auto simp: currentFundingPremium_def Let_def bindE_Inr_iff)
    moreover have "\<bar>fpr_rate p\<bar> \<le> ?cap" using p(1) by (auto simp: clampSigned_Inr)
    ultimately show ?thesis by (simp add: Let_def)
  next
    case twap: False
    show ?thesis
    proof (cases "int (length ?w) < nullish (fec_minimumSamples config) DEFAULT_MINIMUM_SAMPLES")
      case True
      with assms twap show ?thesis
        by (auto simp: currentFundingPremium_def Let_def len)
    next
      case False
      obtain a where a: "a = ?avg" by blast
      have nz: "length ?s \<noteq> 0" using assms twap False by (auto simp: currentFundingPremium_def Let_def len)
      have p: "clampSigned a ?cap = Inr (fpr_rate p)" "fpr_reason p = None"
          "fpr_source p = SourceImpactTwap" "fpr_sampleCount p = Some (int (length ?w))"
        using assms twap False nz
        by (auto simp: currentFundingPremium_def Let_def len bindE_Inr_iff a)
      moreover have "\<bar>fpr_rate p\<bar> \<le> ?cap" using p(1) by (auto simp: clampSigned_Inr)
      moreover have "\<exists>l u. l \<in> set ?w \<and> u \<in> set ?w \<and> fps_premiumRate l \<le> a \<and> a \<le> fps_premiumRate u"
        using avg nz a by simp
      ultimately show ?thesis using False by (auto simp: Let_def)
    qed
  qed
qed

definition demo_sample :: "int \<Rightarrow> int \<Rightarrow> FundingPremiumSampleRecord" where
  "demo_sample t rate = \<lparr>fps_impactAskPrice = None, fps_impactBidPrice = None, fps_impactNotional = 1,
     fps_indexPrice = 1, fps_marketId = ''m'', fps_premiumRate = rate, fps_sampledAt = t\<rparr>"

definition demo_twap :: FundingEngineConfig where
  "demo_twap = default_FundingEngineConfig\<lparr>fec_premiumMode := Some ModeImpactTwap,
     fec_minimumSamples := Some 2, fec_intervalMs := 100\<rparr>"

theorem premium_is_capped_witness:
  "let window = filter (\<lambda>r. fps_marketId r = ''m'' \<and> fps_sampledAt r \<le> 150
       \<and> 150 - fec_intervalMs demo_twap < fps_sampledAt r)
     [demo_sample 120 40, demo_sample 40 900, demo_sample 60 (- 11)]
   in length window = 2 \<and> (\<exists>avg l u. l \<in> set window \<and> u \<in> set window
        \<and> fps_premiumRate l \<le> avg \<and> avg \<le> fps_premiumRate u \<and> clampSigned avg 5000 = Inr (14 :: int))"
proof -
  have "currentFundingPremium [demo_sample 120 40, demo_sample 40 900, demo_sample 60 (- 11)]
      demo_twap ''m'' 150 None = Inr \<lparr>fpr_rate = 14, fpr_reason = None, fpr_sampleCount = Some 2,
        fpr_source = SourceImpactTwap\<rparr>"
    by code_simp
  from premium_is_capped [OF this] show ?thesis
    by (simp add: Let_def demo_twap_def default_FundingEngineConfig_def funding_defaults nullish_def
        demo_sample_def)
qed


definition demo_funding_market :: MarketConfig where
  "demo_funding_market = \<lparr>mc_marketId = ''m'', mc_oraclePrice = 5000000, mc_maxLeverage = 10,
     mc_initialMarginRate = 100000, mc_maintenanceMarginRate = 50000, mc_fundingIndex = 10\<rparr>"

definition demo_funding_config :: FundingEngineConfig where
  "demo_funding_config = default_FundingEngineConfig\<lparr>fec_premiumRate := 1000\<rparr>"

definition demo_ports :: funding_ports where
  "demo_ports = \<lparr>fp_enabled = False, fp_prover = None, fp_settleFunding = (\<lambda>_. Inr [])\<rparr>"

definition no_funding_input :: RunFundingCycleInput where
  "no_funding_input = \<lparr>rfi_appliedAt = None, rfi_elapsedMs = None, rfi_marketId = None,
     rfi_maxFundingDelta = None, rfi_premiumRate = None\<rparr>"

definition demo_funding :: FundingTimers where
  "demo_funding = fundingTick demo_funding_config demo_ports no_funding_input 7200000
     (let e = startTimers demo_host demo_funding_config 0 new_FundingTimers
      in e\<lparr>ft_store := snd (addMarket demo_funding_market (ft_store e))\<rparr>)"

definition demo_funding_record :: FundingUpdateRecord where
  "demo_funding_record = \<lparr>fur_appliedAt = 7200000, fur_fundingDelta = 5000, fur_marketId = ''m'',
     fur_newFundingIndex = 5010, fur_oldFundingIndex = 10, fur_premiumRate = Some 1000,
     fur_premiumSampleCount = None, fur_premiumSource = Some SourceFixed\<rparr>"

lemma demo_funding_eq: "demo_funding = \<lparr>ft_funding = True, ft_sample = False,
   ft_store = new_ProtocolStore\<lparr>st_markets := [(''m'', demo_funding_market\<lparr>mc_fundingIndex := 5010\<rparr>)],
     st_fundingUpdates := [(fundingUpdateKey demo_funding_record, demo_funding_record)]\<rparr>\<rparr>"
proof -
  have delta: "fundingIndexDelta \<lparr>fid_elapsedMs = 3600000, fid_intervalMs = 3600000,
      fid_markPrice = 5000000, fid_maxFundingDelta = None, fid_premiumRate = 1000\<rparr> = Inr 5000"
    by (simp add: fundingIndexDelta_def Let_def math_trunc_def scale_defs sdiv_nonneg)
  show ?thesis
    by (simp add: demo_funding_def Let_def startTimers_def new_FundingTimers_def demo_funding_config_def
        default_FundingEngineConfig_def nullish_def addMarket_def js_simps demo_funding_market_def
        new_ProtocolStore_def mset_at_def mhas_def mget_def fundingTick_def runOnce_def no_funding_input_def
        markets_of_def truthy_str_def mvalues_def bindA_def runMarket_def elapsedSinceLastFunding_def
        funding_defaults currentFundingPremium_def clampSigned_def delta settleOnchain_def demo_ports_def
        applyFunding_def seqA_def updateMarket_def addFundingUpdate_def demo_funding_record_def)
qed


text \<open>
  The update of the market is written before the record is: when \<open>advance\<close> repeats an index at an
  instant, the record is refused and the index has moved without one.
\<close>

definition advance_at_5 :: "int \<Rightarrow> (ProtocolStore, FundingUpdateRecord) act" where
  "advance_at_5 d = advance [] False 0 (Some 5) d ''m'' None"

lemma keys_at_5:
  "fundingUpdateKey (u\<lparr>fur_marketId := ''m'', fur_appliedAt := 5, fur_newFundingIndex := 17\<rparr>) = ''m:5:17''"
  "fundingUpdateKey (u\<lparr>fur_marketId := ''m'', fur_appliedAt := 5, fur_newFundingIndex := 10\<rparr>) = ''m:5:10''"
proof -
  have "int_str 5 = ''5''" "int_str 17 = ''17''" "int_str 10 = ''10''"
    by (simp_all add: int_str_def digit_char_def nat_str.simps [of 10 5] nat_str.simps [of 10 17]
        nat_str.simps [of 10 10] nat_str.simps [of 10 "Suc 0"])
  then show "fundingUpdateKey (u\<lparr>fur_marketId := ''m'', fur_appliedAt := 5, fur_newFundingIndex := 17\<rparr>)
        = ''m:5:17''"
    and "fundingUpdateKey (u\<lparr>fur_marketId := ''m'', fur_appliedAt := 5, fur_newFundingIndex := 10\<rparr>)
        = ''m:5:10''"
    by (simp_all add: fundingUpdateKey_def)
qed

theorem repeated_instant_unaccounted:
  "let s = snd (seqA (addMarket demo_funding_market) (seqA (advance_at_5 7) (advance_at_5 (- 7))) new_ProtocolStore);
       (res, t) = advance_at_5 7 s
   in res = Inl ''funding update already exists''
     \<and> map_option mc_fundingIndex (mget (st_markets s) ''m'') = Some 10
     \<and> map_option mc_fundingIndex (mget (st_markets t) ''m'') = Some 17
     \<and> recorded_delta ''m'' t = 0"
proof -
  have run: "advance_at_5 d = bindA (liftA (\<lambda>s. case mget (st_markets s) ''m'' of
       None \<Rightarrow> throw ''unknown market'' | Some market \<Rightarrow> Inr market)) (\<lambda>market.
       let r = \<lparr>fur_appliedAt = 5, fur_fundingDelta = d, fur_marketId = mc_marketId market,
         fur_newFundingIndex = mc_fundingIndex market + d, fur_oldFundingIndex = mc_fundingIndex market,
         fur_premiumRate = None, fur_premiumSampleCount = None, fur_premiumSource = None\<rparr>
       in seqA (updateMarket (market\<lparr>mc_fundingIndex := fur_newFundingIndex r\<rparr>))
            (seqA (addFundingUpdate r) (returnA r)))" if "d \<noteq> 0" for d
    using that by (auto simp: fun_eq_iff advance_at_5_def advance_def assertProtocolAdmin_def truthy_str_def
        nullish_def bindA_def liftA_def Let_def split: option.splits)
  show ?thesis
    using keys_at_5 [of "\<lparr>fur_appliedAt = 5, fur_fundingDelta = d, fur_marketId = ''m'',
         fur_newFundingIndex = 0, fur_oldFundingIndex = old,
         fur_premiumRate = None, fur_premiumSampleCount = None, fur_premiumSource = None\<rparr>" for d old]
    by (simp add: run addMarket_def updateMarket_def addFundingUpdate_def js_simps
        demo_funding_market_def new_ProtocolStore_def recorded_delta_def mvalues_def
        mset_at_def mhas_def mget_def Let_def seqA_def bindA_def)
qed

end
