(* ===== verification/Matcher_Jobs.thy ===== *)
theory Matcher_Jobs
  imports Store_Snapshot
begin

text \<open>
  \<^verbatim>\<open>workers/matcher/matcher-job.service.ts\<close>: the queue of external settlements. A job is known by the
  digest of its input, is proved by at most one process call at a time and may be retried. The service keeps
  its documents in memory or in a MongoDB collection; \<open>mongo\<close> says which. The collection has the
  semantics of the driver's \<open>updateOne\<close>, \<open>updateMany\<close> and \<open>findOneAndUpdate\<close> on one document. Inputs and
  transcripts are held as the text that \<open>encode\<close> makes of them; the processor is not code of this
  module, so its outcome is an argument of the step at which it settles.
\<close>

subsection \<open>Documents\<close>

datatype MatcherJobStatus = JobQueued | JobProving | JobCompleted | JobFailed

record MatcherJobDocument =
  mjd_id :: string
  mjd_attempts :: int
  mjd_createdAt :: int
  mjd_error :: "string option"
  mjd_input :: string
  mjd_nextAttemptAt :: "int option"
  mjd_result :: "string option"
  mjd_status :: MatcherJobStatus
  mjd_updatedAt :: int

record MatcherJobView =
  mjv_attempts :: int
  mjv_error :: "string option"
  mjv_jobId :: string
  mjv_nextAttemptAt :: "int option"
  mjv_status :: MatcherJobStatus
  mjv_transcript :: "string option"
  mjv_updatedAt :: int

text \<open>
  Besides the set \<open>active\<close> and the documents, the state has what the event loop holds for the service:
  the microtasks that will call \<open>process\<close> and the calls whose processor has not settled yet.
\<close>

record MatcherJobService =
  mjs_active :: "string list"
  mjs_jobs :: "(string, MatcherJobDocument) jsmap"
  mjs_microtasks :: "string list"
  mjs_processing :: "string list"

definition new_MatcherJobService :: "(string, MatcherJobDocument) jsmap \<Rightarrow> MatcherJobService" where
  "new_MatcherJobService jobs =
     \<lparr>mjs_active = [], mjs_jobs = jobs, mjs_microtasks = [], mjs_processing = []\<rparr>"

definition retryDelayMs :: "int \<Rightarrow> int" where
  "retryDelayMs attempts =
     (let delays = [5 * 60000, 15 * 60000, 60 * 60000, 4 * 60 * 60000]
      in delays ! nat (min (max (attempts - 1) 0) (int (length delays) - 1)))"

definition matcherJobId :: "host \<Rightarrow> string \<Rightarrow> string" where
  "matcherJobId h input = sha256_hex h input"

definition put_job :: "string \<Rightarrow> MatcherJobDocument \<Rightarrow> MatcherJobService \<Rightarrow> MatcherJobService" where
  "put_job jobId d s = s\<lparr>mjs_jobs := mset_at jobId d (mjs_jobs s)\<rparr>"

subsection \<open>Operations\<close>

definition getJob :: "string \<Rightarrow> MatcherJobService \<Rightarrow> MatcherJobView result" where
  "getJob jobId s =
     (case mget (mjs_jobs s) jobId of
        None \<Rightarrow> throw ''matcher job not found''
      | Some d \<Rightarrow> Inr \<lparr>mjv_attempts = mjd_attempts d,
          mjv_error = (if truthy_str (mjd_error d) then mjd_error d else None),
          mjv_jobId = mjd_id d, mjv_nextAttemptAt = mjd_nextAttemptAt d, mjv_status = mjd_status d,
          mjv_transcript = (if truthy_str (mjd_result d) then mjd_result d else None),
          mjv_updatedAt = mjd_updatedAt d\<rparr>)"

definition kick :: "string \<Rightarrow> MatcherJobService \<Rightarrow> MatcherJobService" where
  "kick jobId s =
     (if jobId \<in> set (mjs_active s) then s
      else s\<lparr>mjs_active := sadd jobId (mjs_active s), mjs_microtasks := mjs_microtasks s @ [jobId]\<rparr>)"

definition new_document :: "string \<Rightarrow> string \<Rightarrow> int \<Rightarrow> MatcherJobDocument" where
  "new_document jobId inputJson now = \<lparr>mjd_id = jobId, mjd_attempts = 0, mjd_createdAt = now,
     mjd_error = None, mjd_input = inputJson, mjd_nextAttemptAt = None, mjd_result = None,
     mjd_status = JobQueued, mjd_updatedAt = now\<rparr>"

definition requeued :: "int \<Rightarrow> MatcherJobDocument \<Rightarrow> MatcherJobDocument" where
  "requeued now d = d\<lparr>mjd_error := None, mjd_nextAttemptAt := None, mjd_status := JobQueued,
     mjd_updatedAt := now\<rparr>"

text \<open>The two updates of the collection, an upsert and a conditional update, and the branches in memory.\<close>

definition upsertJob :: "string \<Rightarrow> string \<Rightarrow> int \<Rightarrow> MatcherJobService \<Rightarrow> MatcherJobService" where
  "upsertJob jobId inputJson now s =
     (if mhas (mjs_jobs s) jobId then s else put_job jobId (new_document jobId inputJson now) s)"

definition requeueDueJob :: "string \<Rightarrow> int \<Rightarrow> MatcherJobService \<Rightarrow> MatcherJobService" where
  "requeueDueJob jobId now s =
     (case mget (mjs_jobs s) jobId of
        None \<Rightarrow> s
      | Some d \<Rightarrow>
          if mjd_attempts d < 5 \<and> (case mjd_nextAttemptAt d of None \<Rightarrow> False | Some t \<Rightarrow> t \<le> now)
             \<and> mjd_status d = JobFailed
          then put_job jobId (requeued now d) s else s)"

definition enqueue :: "host \<Rightarrow> bool \<Rightarrow> string \<Rightarrow> int \<Rightarrow> (MatcherJobService, MatcherJobView) act" where
  "enqueue h mongo inputJson now s =
     (let jobId = matcherJobId h inputJson;
          t = (if mongo then requeueDueJob jobId now (upsertJob jobId inputJson now s)
               else if \<not> mhas (mjs_jobs s) jobId
               then put_job jobId (new_document jobId inputJson now) s
               else let current = the (mget (mjs_jobs s) jobId) in
                 if mjd_status current = JobFailed \<and> mjd_attempts current < 5
                    \<and> (case mjd_nextAttemptAt current of None \<Rightarrow> False | Some t \<Rightarrow> t \<le> now)
                 then put_job jobId (requeued now current) s else s);
          u = kick jobId t
      in (getJob jobId u, u))"

definition claim :: "string \<Rightarrow> int \<Rightarrow> MatcherJobService \<Rightarrow> MatcherJobDocument option \<times> MatcherJobService" where
  "claim jobId now s =
     (case mget (mjs_jobs s) jobId of
        None \<Rightarrow> (None, s)
      | Some document \<Rightarrow>
          if mjd_status document \<noteq> JobQueued then (None, s)
          else let claimed = document\<lparr>mjd_attempts := mjd_attempts document + 1,
                     mjd_status := JobProving, mjd_updatedAt := now\<rparr>
               in (Some claimed, put_job jobId claimed s))"

text \<open>A write that the collection guards with the status and the memory does not.\<close>

definition settle_update ::
  "bool \<Rightarrow> string \<Rightarrow> (MatcherJobDocument \<Rightarrow> MatcherJobDocument) \<Rightarrow> MatcherJobService \<Rightarrow> MatcherJobService" where
  "settle_update mongo jobId f s =
     (case mget (mjs_jobs s) jobId of
        None \<Rightarrow> s
      | Some current \<Rightarrow> if mongo \<and> mjd_status current \<noteq> JobProving then s
          else put_job jobId (f current) s)"

definition complete :: "bool \<Rightarrow> string \<Rightarrow> string \<Rightarrow> int \<Rightarrow> MatcherJobService \<Rightarrow> MatcherJobService" where
  "complete mongo jobId transcriptJson now =
     settle_update mongo jobId (\<lambda>current. current\<lparr>mjd_error := None,
       mjd_result := Some transcriptJson, mjd_status := JobCompleted, mjd_updatedAt := now\<rparr>)"

definition failJob :: "bool \<Rightarrow> string \<Rightarrow> string \<Rightarrow> int \<Rightarrow> int \<Rightarrow> MatcherJobService \<Rightarrow> MatcherJobService" where
  "failJob mongo jobId err now now' s =
     (let attempts = (case mget (mjs_jobs s) jobId of None \<Rightarrow> 1 | Some d \<Rightarrow> mjd_attempts d)
      in settle_update mongo jobId (\<lambda>current. current\<lparr>mjd_error := Some err,
           mjd_nextAttemptAt := Some (now + retryDelayMs attempts), mjd_status := JobFailed,
           mjd_updatedAt := now'\<rparr>) s)"

text \<open>
  \<open>process\<close> up to the call of the processor, which is the microtask that \<open>kick\<close> queued, and from its
  settling to the \<open>finally\<close> of \<open>kick\<close>; both parts run without interleaving in the event loop.
\<close>

definition leave_active :: "string \<Rightarrow> MatcherJobService \<Rightarrow> MatcherJobService" where
  "leave_active jobId s = s\<lparr>mjs_active := removeAll jobId (mjs_active s)\<rparr>"

definition startProcess :: "string \<Rightarrow> int \<Rightarrow> MatcherJobService \<Rightarrow> MatcherJobService" where
  "startProcess jobId now s =
     (case claim jobId now (s\<lparr>mjs_microtasks := remove1 jobId (mjs_microtasks s)\<rparr>) of
        (None, t) \<Rightarrow> leave_active jobId t
      | (Some document, t) \<Rightarrow> t\<lparr>mjs_processing := mjs_processing t @ [jobId]\<rparr>)"

definition settleProcess ::
  "bool \<Rightarrow> string \<Rightarrow> string result \<Rightarrow> int \<Rightarrow> int \<Rightarrow> MatcherJobService \<Rightarrow> MatcherJobService" where
  "settleProcess mongo jobId outcome now now' s =
     (let t = s\<lparr>mjs_processing := remove1 jobId (mjs_processing s)\<rparr>
      in leave_active jobId
           (case outcome of
              Inr transcriptJson \<Rightarrow> complete mongo jobId transcriptJson now t
            | Inl err \<Rightarrow> failJob mongo jobId err now now' t))"

text \<open>\<open>connect\<close>: a new process on the documents that an earlier one left.\<close>

definition connect :: "int \<Rightarrow> (string, MatcherJobDocument) jsmap \<Rightarrow> MatcherJobService" where
  "connect now documents =
     (let reset = map (\<lambda>(k, d). (k, if mjd_status d = JobProving
                   then d\<lparr>mjd_status := JobQueued, mjd_updatedAt := now\<rparr> else d)) documents;
          pending = map mjd_id (filter (\<lambda>d. mjd_status d = JobQueued) (mvalues reset))
      in fold kick pending (new_MatcherJobService reset))"

subsection \<open>Runs of the service\<close>

inductive job_step :: "host \<Rightarrow> bool \<Rightarrow> MatcherJobService \<Rightarrow> MatcherJobService \<Rightarrow> bool" for h mongo where
  enqueue: "job_step h mongo s (snd (enqueue h mongo inputJson now s))"
| start: "jobId \<in> set (mjs_microtasks s) \<Longrightarrow> job_step h mongo s (startProcess jobId now s)"
| settle: "jobId \<in> set (mjs_processing s) \<Longrightarrow>
    job_step h mongo s (settleProcess mongo jobId outcome now now' s)"

abbreviation job_reachable where
  "job_reachable h mongo \<equiv> (job_step h mongo)\<^sup>*\<^sup>* (new_MatcherJobService [])"

definition job_ok :: "host \<Rightarrow> MatcherJobService \<Rightarrow> string \<Rightarrow> MatcherJobDocument \<Rightarrow> bool" where
  "job_ok h s k d \<longleftrightarrow>
     mjd_id d = k \<and> matcherJobId h (mjd_input d) = k \<and> 0 \<le> mjd_attempts d \<and> mjd_attempts d \<le> 5
     \<and> (mjd_status d = JobProving \<longleftrightarrow> k \<in> set (mjs_processing s))
     \<and> (mjd_status d = JobQueued \<longrightarrow> k \<in> set (mjs_microtasks s) \<and> mjd_attempts d < 5)
     \<and> (mjd_status d \<noteq> JobQueued \<longrightarrow> 0 < mjd_attempts d)
     \<and> (mjd_status d = JobCompleted \<longleftrightarrow> mjd_result d \<noteq> None)
     \<and> (mjd_status d = JobFailed \<longleftrightarrow> mjd_nextAttemptAt d \<noteq> None)
     \<and> (mjd_status d = JobFailed \<longleftrightarrow> mjd_error d \<noteq> None)"

definition jobs_ok :: "host \<Rightarrow> MatcherJobService \<Rightarrow> bool" where
  "jobs_ok h s \<longleftrightarrow>
     map_ok (mjs_jobs s) \<and> distinct (mjs_active s)
     \<and> distinct (mjs_microtasks s @ mjs_processing s)
     \<and> set (mjs_active s) = set (mjs_microtasks s) \<union> set (mjs_processing s)
     \<and> (\<forall>k\<in>set (mjs_active s). mhas (mjs_jobs s) k)
     \<and> (\<forall>k d. mget (mjs_jobs s) k = Some d \<longrightarrow> job_ok h s k d)"

subsection \<open>Lemmas: the invariant\<close>

lemma put_job_simps [simp]:
  "mjs_active (put_job k d s) = mjs_active s"
  "mjs_jobs (put_job k d s) = mset_at k d (mjs_jobs s)"
  "mjs_microtasks (put_job k d s) = mjs_microtasks s"
  "mjs_processing (put_job k d s) = mjs_processing s"
  by (simp_all add: put_job_def)

lemma kick_simps [simp]:
  "mjs_jobs (kick k s) = mjs_jobs s"
  "mjs_processing (kick k s) = mjs_processing s"
  "set (mjs_active (kick k s)) = insert k (set (mjs_active s))"
  "k' \<in> set (mjs_microtasks (kick k s)) \<longleftrightarrow>
     k' \<in> set (mjs_microtasks s) \<or> k' = k \<and> k \<notin> set (mjs_active s)"
  by (auto simp: kick_def sadd_def)

text \<open>The document that \<open>enqueue\<close> leaves, in memory and in the collection alike.\<close>

definition enqueued_document :: "string \<Rightarrow> string \<Rightarrow> int \<Rightarrow> MatcherJobService \<Rightarrow> MatcherJobDocument" where
  "enqueued_document jobId inputJson now s =
     (case mget (mjs_jobs s) jobId of
        None \<Rightarrow> new_document jobId inputJson now
      | Some d \<Rightarrow> if mjd_status d = JobFailed \<and> mjd_attempts d < 5
             \<and> (case mjd_nextAttemptAt d of None \<Rightarrow> False | Some t \<Rightarrow> t \<le> now)
          then requeued now d else d)"

lemma mset_at_same: "mget m k = Some v \<Longrightarrow> mset_at k v m = m"
  by (induction m) (auto simp: mset_at_def mget_def split: if_splits)

lemma put_job_same: "mget (mjs_jobs s) k = Some d \<Longrightarrow> put_job k d s = s"
  by (simp add: put_job_def mset_at_same)

lemma enqueue_run:
  "enqueue h mongo inputJson now s =
     (let jobId = matcherJobId h inputJson;
          u = kick jobId (put_job jobId (enqueued_document jobId inputJson now s) s)
      in (getJob jobId u, u))"
proof (cases "mget (mjs_jobs s) (matcherJobId h inputJson)")
  case None
  then show ?thesis
    by (simp add: enqueue_def enqueued_document_def Let_def upsertJob_def requeueDueJob_def mhas_def
        new_document_def)
next
  case (Some d)
  show ?thesis
  proof (cases "mjd_status d = JobFailed \<and> mjd_attempts d < 5
      \<and> (case mjd_nextAttemptAt d of None \<Rightarrow> False | Some t \<Rightarrow> t \<le> now)")
    case True
    with Some show ?thesis
      by (simp add: enqueue_def enqueued_document_def Let_def upsertJob_def requeueDueJob_def mhas_def)
  next
    case False
    then have "\<not> (mjd_attempts d < 5 \<and> (case mjd_nextAttemptAt d of None \<Rightarrow> False | Some t \<Rightarrow> t \<le> now)
      \<and> mjd_status d = JobFailed)" by blast
    with False Some show ?thesis
      by (simp only: enqueue_def enqueued_document_def Let_def upsertJob_def requeueDueJob_def mhas_def
          put_job_same option.simps option.sel if_False simp_thms if_True if_cancel)
  qed
qed

lemma jobs_okD:
  assumes "jobs_ok h s"
  shows "k \<in> set (mjs_active s) \<longleftrightarrow> k \<in> set (mjs_microtasks s) \<or> k \<in> set (mjs_processing s)"
    and "k \<in> set (mjs_microtasks s) \<Longrightarrow> k \<notin> set (mjs_processing s)"
    and "k \<in> set (mjs_active s) \<Longrightarrow> \<exists>d. mget (mjs_jobs s) k = Some d"
    and "mget (mjs_jobs s) k = Some d \<Longrightarrow> job_ok h s k d"
    and "distinct (mjs_microtasks s)" and "distinct (mjs_processing s)"
  using assms by (auto simp: jobs_ok_def mhas_def)

text \<open>How the invariant changes when one document is written and one job moves between the sets.\<close>

lemma jobs_ok_put:
  assumes ok: "jobs_ok h s" and s': "mjs_jobs s' = mset_at k d (mjs_jobs s)"
    and sets: "distinct (mjs_active s')" "distinct (mjs_microtasks s' @ mjs_processing s')"
      "set (mjs_active s') = set (mjs_microtasks s') \<union> set (mjs_processing s')"
      "set (mjs_active s') \<subseteq> insert k (set (mjs_active s))"
    and others: "\<And>j. j \<noteq> k \<Longrightarrow> (j \<in> set (mjs_microtasks s') \<longleftrightarrow> j \<in> set (mjs_microtasks s))
      \<and> (j \<in> set (mjs_processing s') \<longleftrightarrow> j \<in> set (mjs_processing s))"
    and d: "job_ok h s' k d"
  shows "jobs_ok h s'"
  unfolding jobs_ok_def
proof (intro conjI allI impI)
  show "map_ok (mjs_jobs s')" using ok s' by (simp add: jobs_ok_def)
  show "\<forall>k\<in>set (mjs_active s'). mhas (mjs_jobs s') k" using ok s' sets(4) by (auto simp: jobs_ok_def)
  fix j e assume e: "mget (mjs_jobs s') j = Some e"
  show "job_ok h s' j e"
  proof (cases "j = k")
    case True
    with e s' d show ?thesis by simp
  next
    case False
    with e s' ok have "job_ok h s j e" by (simp add: jobs_ok_def)
    then show ?thesis
      unfolding job_ok_def others [OF False, THEN conjunct1] others [OF False, THEN conjunct2] .
  qed
qed (use sets in auto)

lemma enqueued_ok:
  assumes ok: "jobs_ok h s" and k: "k = matcherJobId h inputJson"
    and d: "d = enqueued_document k inputJson now s" and s': "s' = kick k (put_job k d s)"
  shows "job_ok h s' k d"
proof (cases "mget (mjs_jobs s) k")
  case None
  have "k \<notin> set (mjs_active s)" using jobs_okD(3) [OF ok, of k] None by auto
  with jobs_okD(1) [OF ok, of k] None show ?thesis
    by (simp add: job_ok_def d s' enqueued_document_def new_document_def) (simp add: k)
next
  case (Some e)
  have e: "job_ok h s k e" by (rule jobs_okD(4) [OF ok Some])
  show ?thesis
  proof (cases "mjd_status e = JobFailed \<and> mjd_attempts e < 5
      \<and> (case mjd_nextAttemptAt e of None \<Rightarrow> False | Some t \<Rightarrow> t \<le> now)")
    case True
    then have "k \<notin> set (mjs_processing s)" using e by (simp add: job_ok_def)
    then have "k \<in> set (mjs_microtasks s')" using jobs_okD(1) [OF ok, of k] by (auto simp: s')
    with True Some e show ?thesis
      by (auto simp: job_ok_def d s' enqueued_document_def requeued_def)
  next
    case False
    with Some e show ?thesis by (auto simp: job_ok_def d s' enqueued_document_def)
  qed
qed

lemma jobs_ok_enqueue: "jobs_ok h s \<Longrightarrow> jobs_ok h (snd (enqueue h mongo inputJson now s))"
proof -
  assume ok: "jobs_ok h s"
  let ?k = "matcherJobId h inputJson" let ?d = "enqueued_document ?k inputJson now s"
  let ?s' = "kick ?k (put_job ?k ?d s)"
  have "jobs_ok h ?s'"
  proof (rule jobs_ok_put [OF ok, of _ ?k ?d])
    show "job_ok h ?s' ?k ?d" by (rule enqueued_ok [OF ok refl refl refl])
  qed (use ok in \<open>auto simp: jobs_ok_def kick_def sadd_def\<close>)
  then show ?thesis by (simp add: enqueue_run Let_def)
qed

lemma jobs_ok_start:
  assumes ok: "jobs_ok h s" and k: "k \<in> set (mjs_microtasks s)"
  shows "jobs_ok h (startProcess k now s)"
proof -
  have act: "k \<in> set (mjs_active s)" "k \<notin> set (mjs_processing s)"
    using jobs_okD(1,2) [OF ok, of k] k by auto
  obtain d where d: "mget (mjs_jobs s) k = Some d" using jobs_okD(3) [OF ok act(1)] by blast
  have dok: "job_ok h s k d" by (rule jobs_okD(4) [OF ok d])
  have dist: "distinct (mjs_microtasks s)" by (rule jobs_okD(5) [OF ok])
  show ?thesis
  proof (cases "mjd_status d = JobQueued")
    case True
    let ?d = "d\<lparr>mjd_attempts := mjd_attempts d + 1, mjd_status := JobProving, mjd_updatedAt := now\<rparr>"
    have run: "startProcess k now s = (put_job k ?d (s\<lparr>mjs_microtasks := remove1 k (mjs_microtasks s)\<rparr>))
        \<lparr>mjs_processing := mjs_processing s @ [k]\<rparr>"
      using d True by (simp add: startProcess_def claim_def Let_def)
    show ?thesis
      unfolding run
      by (rule jobs_ok_put [OF ok, of _ k ?d])
        (use ok act dok True dist in \<open>auto simp: jobs_ok_def job_ok_def\<close>)
  next
    case False
    have run: "startProcess k now s =
        leave_active k (s\<lparr>mjs_microtasks := remove1 k (mjs_microtasks s)\<rparr>)"
      using d False by (simp add: startProcess_def claim_def)
    show ?thesis
      unfolding run
      by (rule jobs_ok_put [OF ok, of _ k d])
        (use ok act dok False dist d in \<open>auto simp: jobs_ok_def job_ok_def leave_active_def mset_at_same
            removeAll_filter_not_eq\<close>)
  qed
qed

lemma settle_run:
  assumes ok: "jobs_ok h s" and k: "k \<in> set (mjs_processing s)" and d: "mget (mjs_jobs s) k = Some d"
  shows "settleProcess mongo k outcome now now' s = leave_active k (put_job k
      (case outcome of
         Inr t \<Rightarrow> d\<lparr>mjd_error := None, mjd_result := Some t, mjd_status := JobCompleted,
                    mjd_updatedAt := now\<rparr>
       | Inl e \<Rightarrow> d\<lparr>mjd_error := Some e, mjd_nextAttemptAt := Some (now + retryDelayMs (mjd_attempts d)),
                    mjd_status := JobFailed, mjd_updatedAt := now'\<rparr>)
      (s\<lparr>mjs_processing := remove1 k (mjs_processing s)\<rparr>))"
proof -
  have "mjd_status d = JobProving" using ok k d by (auto simp: jobs_ok_def job_ok_def)
  with d show ?thesis
    by (cases outcome) (simp_all add: settleProcess_def complete_def failJob_def settle_update_def)
qed

lemma processing_known:
  "jobs_ok h s \<Longrightarrow> k \<in> set (mjs_processing s) \<Longrightarrow> \<exists>d. mget (mjs_jobs s) k = Some d"
  using jobs_okD(1,3) [of h s k] by blast

lemma jobs_ok_settle:
  assumes ok: "jobs_ok h s" and k: "k \<in> set (mjs_processing s)"
  shows "jobs_ok h (settleProcess mongo k outcome now now' s)"
proof -
  obtain d where d: "mget (mjs_jobs s) k = Some d" using processing_known [OF assms] by blast
  have dok: "job_ok h s k d" by (rule jobs_okD(4) [OF ok d])
  have dist: "distinct (mjs_processing s)" "k \<notin> set (mjs_microtasks s)"
    using jobs_okD(2,6) [OF ok] k by auto
  obtain e where e: "e = (case outcome of
         Inr t \<Rightarrow> d\<lparr>mjd_error := None, mjd_result := Some t, mjd_status := JobCompleted,
                    mjd_updatedAt := now\<rparr>
       | Inl e \<Rightarrow> d\<lparr>mjd_error := Some e, mjd_nextAttemptAt := Some (now + retryDelayMs (mjd_attempts d)),
                    mjd_status := JobFailed, mjd_updatedAt := now'\<rparr>)" by blast
  let ?s' = "leave_active k (put_job k e (s\<lparr>mjs_processing := remove1 k (mjs_processing s)\<rparr>))"
  have "jobs_ok h ?s'"
  proof (rule jobs_ok_put [OF ok, of _ k e])
    have "mjd_status d = JobProving" using dok k by (simp add: job_ok_def)
    then show "job_ok h ?s' k e"
      using dok dist(1) e by (cases outcome) (auto simp: job_ok_def leave_active_def)
  qed (use ok dist in \<open>auto simp: jobs_ok_def leave_active_def removeAll_filter_not_eq\<close>)
  then show ?thesis by (simp add: settle_run [OF ok k d] e)
qed

lemma job_reachable_ok: "job_reachable h mongo s \<Longrightarrow> jobs_ok h s"
proof (induction rule: rtranclp_induct)
  case base
  then show ?case by (simp add: jobs_ok_def new_MatcherJobService_def map_ok_def mkeys_def)
next
  case (step s t)
  from step.hyps(2) step.IH show ?case
    by cases (simp_all add: jobs_ok_enqueue jobs_ok_start jobs_ok_settle)
qed

subsection \<open>Properties\<close>

lemma count_distinct: "distinct xs \<Longrightarrow> count_list xs x = (if x \<in> set xs then 1 else 0)"
  by (induction xs) auto

text \<open>What a step does to one document.\<close>

lemma step_document:
  assumes ok: "jobs_ok h s" and step: "job_step h mongo s s'" and d: "mget (mjs_jobs s) k = Some d"
  shows "\<exists>d'. mget (mjs_jobs s') k = Some d' \<and> mjd_attempts d \<le> mjd_attempts d'
    \<and> (mjd_status d = JobCompleted \<longrightarrow> d' = d)
    \<and> (mjd_status d = JobFailed \<and> mjd_attempts d = 5 \<longrightarrow> d' = d)"
  using step
proof cases
  case (enqueue inputJson now)
  then show ?thesis using d
    by (auto simp: enqueue_run Let_def enqueued_document_def requeued_def)
next
  case (start j now)
  obtain e where e: "mget (mjs_jobs s) j = Some e"
    using jobs_okD(1,3) [OF ok, of j] start(2) by blast
  show ?thesis
  proof (cases "mjd_status e = JobQueued")
    case True
    then show ?thesis using d e by (auto simp: start(1) startProcess_def claim_def Let_def)
  next
    case False
    then show ?thesis using d e by (auto simp: start(1) startProcess_def claim_def leave_active_def)
  qed
next
  case (settle j outcome now now')
  obtain e where e: "mget (mjs_jobs s) j = Some e" using processing_known [OF ok settle(2)] by blast
  have "mjd_status e = JobProving" using jobs_okD(4) [OF ok e] settle(2) by (simp add: job_ok_def)
  then show ?thesis using d e
    by (auto simp: settle(1) settle_run [OF ok settle(2) e] leave_active_def split: sum.splits)
qed



lemma step_either_store:
  assumes ok: "jobs_ok h s" and step: "job_step h mongo s t"
  shows "job_step h mongo' s t"
  using step
proof cases
  case (enqueue inputJson now)
  then have "t = snd (enqueue h mongo' inputJson now s)" by (simp add: enqueue_run)
  then show ?thesis using job_step.enqueue by simp
next
  case (start jobId now)
  then show ?thesis using job_step.start by simp
next
  case (settle jobId outcome now now')
  obtain d where "mget (mjs_jobs s) jobId = Some d" using processing_known [OF ok settle(2)] by blast
  then have "t = settleProcess mongo' jobId outcome now now' s"
    using settle by (simp add: settle_run [OF ok])
  then show ?thesis using job_step.settle [OF settle(2)] by simp
qed

lemma reachable_either_store:
  assumes "job_reachable h mongo s"
  shows "job_reachable h mongo' s"
  using assms
proof (induction rule: rtranclp_induct)
  case base
  then show ?case by simp
next
  case (step s t)
  have "job_step h mongo' s t" by (rule step_either_store [OF job_reachable_ok [OF step(1)] step(2)])
  with step.IH show ?case by (rule rtranclp.rtrancl_into_rtrancl)
qed

text \<open>Without a restart the collection and the memory are the same service: the two reach the same states.\<close>
theorem mongo_matches_memory:
  "job_reachable h True s \<longleftrightarrow> job_reachable h False s"
  using reachable_either_store by blast

text \<open>A run: one job is enqueued and fails, is enqueued again when it is due, and completes.\<close>

abbreviation demo_job :: string where
  "demo_job \<equiv> matcherJobId demo_host ''in''"

definition demo_failed :: MatcherJobService where
  "demo_failed = settleProcess False demo_job (Inl ''no proof'') 10 10 (startProcess demo_job 1
     (snd (enqueue demo_host False ''in'' 0 (new_MatcherJobService []))))"

definition demo_completed :: MatcherJobService where
  "demo_completed = settleProcess False demo_job (Inr ''transcript'') 500000 500000
     (startProcess demo_job 400001 (snd (enqueue demo_host False ''in'' 400000 demo_failed)))"

definition demo_document :: MatcherJobDocument where
  "demo_document = \<lparr>mjd_id = demo_job, mjd_attempts = 1, mjd_createdAt = 0,
     mjd_error = Some ''no proof'', mjd_input = ''in'', mjd_nextAttemptAt = Some 300010,
     mjd_result = None, mjd_status = JobFailed, mjd_updatedAt = 10\<rparr>"

lemmas job_run_defs = startProcess_def claim_def settleProcess_def complete_def failJob_def
  settle_update_def leave_active_def enqueue_run enqueued_document_def new_document_def requeued_def
  kick_def put_job_def retryDelayMs_def sadd_def Let_def

lemma demo_failed_eq: "demo_failed = \<lparr>mjs_active = [], mjs_jobs = [(demo_job, demo_document)],
    mjs_microtasks = [], mjs_processing = []\<rparr>"
  by (simp add: demo_failed_def job_run_defs new_MatcherJobService_def demo_document_def mset_at_def
      mget_def)

lemma demo_completed_eq: "demo_completed = \<lparr>mjs_active = [], mjs_jobs = [(demo_job,
     demo_document\<lparr>mjd_attempts := 2, mjd_error := None, mjd_nextAttemptAt := None,
       mjd_result := Some ''transcript'', mjd_status := JobCompleted, mjd_updatedAt := 500000\<rparr>)],
    mjs_microtasks = [], mjs_processing = []\<rparr>"
  by (simp add: demo_completed_def demo_failed_eq job_run_defs demo_document_def mset_at_def mget_def)

lemma run_one_job:
  assumes "job_reachable h mongo s" and "matcherJobId h inputJson \<notin> set (mjs_active s)"
    and "\<exists>d. mget (mjs_jobs (snd (enqueue h mongo inputJson now s))) (matcherJobId h inputJson) = Some d
      \<and> mjd_status d = JobQueued"
  shows "job_reachable h mongo (settleProcess mongo (matcherJobId h inputJson) outcome t t'
     (startProcess (matcherJobId h inputJson) now' (snd (enqueue h mongo inputJson now s))))"
proof -
  let ?k = "matcherJobId h inputJson" let ?s1 = "snd (enqueue h mongo inputJson now s)"
  let ?s2 = "startProcess ?k now' ?s1"
  have "?k \<in> set (mjs_microtasks ?s1)" using assms(2) by (simp add: enqueue_run Let_def)
  then have "job_step h mongo ?s1 ?s2" by (rule job_step.start)
  moreover have "?k \<in> set (mjs_processing ?s2)"
    using assms(3) by (auto simp: startProcess_def claim_def Let_def)
  then have "job_step h mongo ?s2 (settleProcess mongo ?k outcome t t' ?s2)" by (rule job_step.settle)
  ultimately show ?thesis
    using assms(1) job_step.enqueue [of h mongo s inputJson now] by (meson rtranclp.rtrancl_into_rtrancl)
qed

lemma demo_failed_reachable: "job_reachable demo_host False demo_failed"
  unfolding demo_failed_def
  by (rule run_one_job)
    (simp_all add: new_MatcherJobService_def enqueue_run Let_def enqueued_document_def new_document_def)

lemma demo_completed_reachable: "job_reachable demo_host False demo_completed"
  unfolding demo_completed_def
  by (rule run_one_job [OF demo_failed_reachable])
    (simp_all add: demo_failed_eq enqueue_run Let_def enqueued_document_def requeued_def mget_def
      mset_at_def demo_document_def)



text \<open>
  Restarts are different. \<open>connect\<close> puts the jobs that a dead process was proving back into the queue
  whatever their attempts are, so a job that brings its process down is attempted without end.
\<close>

fun crashes :: "nat \<Rightarrow> (string, MatcherJobDocument) jsmap \<Rightarrow> (string, MatcherJobDocument) jsmap" where
  "crashes 0 jobs = jobs"
| "crashes (Suc n) jobs =
     crashes n (mjs_jobs (startProcess (mjd_id (snd (hd jobs))) 0 (connect 0 jobs)))"

lemma crash_once:
  assumes "mjd_id d = k" and "mjd_status d = JobQueued \<or> mjd_status d = JobProving"
  shows "\<exists>e. mjs_jobs (startProcess k 0 (connect 0 [(k, d)])) = [(k, e)] \<and> mjd_id e = k
    \<and> mjd_status e = JobProving \<and> mjd_attempts e = mjd_attempts d + 1"
  using assms by (auto simp: connect_def job_run_defs new_MatcherJobService_def mvalues_def mget_def
      mset_at_def)

theorem restarts_unbound_attempts:
  "\<exists>d. crashes n [(k, new_document k inputJson 0)] = [(k, d)] \<and> mjd_attempts d = int n"
proof -
  have "mjd_id d = k \<Longrightarrow> mjd_status d = JobQueued \<or> mjd_status d = JobProving \<Longrightarrow>
      \<exists>e. crashes n [(k, d)] = [(k, e)] \<and> mjd_attempts e = mjd_attempts d + int n" for d
  proof (induction n arbitrary: d)
    case 0
    then show ?case by simp
  next
    case (Suc n)
    from crash_once [OF Suc.prems] obtain e where
      e: "mjs_jobs (startProcess k 0 (connect 0 [(k, d)])) = [(k, e)]" "mjd_id e = k"
        "mjd_status e = JobProving" "mjd_attempts e = mjd_attempts d + 1" by blast
    with Suc.IH [of e] Suc.prems(1) show ?case by auto
  qed
  from this [of "new_document k inputJson 0"] show ?thesis by (simp add: new_document_def)
qed

end
