(* ===== verification/Batch_Runs.thy ===== *)
theory Batch_Runs
  imports Executor_Properties Funding_Engine
begin

text \<open>
  \<^verbatim>\<open>workers/batch-executor\<close>: one run of a batch for a market, from the open orders to the committed
  settlement. A run goes through phases whose work is done by other services (oracle, maker liquidity,
  matcher, chain); these are the ports of the model, actions on the executor that also stand for what
  other calls do while the run waits. Every run is recorded, and failed ones wait before they are retried.
\<close>

subsection \<open>Configuration and state\<close>

definition FAILED_BATCH_RETRY_COOLDOWN_MS :: int where "FAILED_BATCH_RETRY_COOLDOWN_MS = 60000"
definition MISSING_LIQUIDITY_RETRY_COOLDOWN_MS :: int where "MISSING_LIQUIDITY_RETRY_COOLDOWN_MS = 30000"
definition DEFAULT_ORACLE_REFRESH_INTERVAL_MS :: int where "DEFAULT_ORACLE_REFRESH_INTERVAL_MS = 60000"
definition DEFAULT_BATCH_PREFIX :: string where "DEFAULT_BATCH_PREFIX = ''auto''"

record BatchExecutorConfig =
  bxc_batchIdPrefix :: "string option"
  bxc_intervalMs :: int
  bxc_oracleRefreshIntervalMs :: "int option"
  bxc_refreshMarketOracle :: "(string \<Rightarrow> (ExecutorService, unit) act) option"
  bxc_sampleFundingPremium :: "(string \<Rightarrow> int \<Rightarrow> (ExecutorService, unit) act) option"
  bxc_settlementsOnchainRequired :: bool

record RunBatchExecutorInput =
  rbi_batchIdPrefix :: "string option"
  rbi_marketId :: "string option"
  rbi_now :: "int option"

record BatchExecutorMarketResult =
  bmr_marketId :: string
  bmr_record :: BatchExecutionRunRecord

text \<open>
  The services of the constructor: the chain may be missing or lack a call, and maker liquidity may be
  missing. The chain is asked twice whether the batch is settled, before and after the relay.
\<close>

record batch_ports =
  bpo_positionRoot :: "Hex result option"
  bpo_isBatchSettled :: "(bool \<Rightarrow> string \<Rightarrow> string \<Rightarrow> Hex \<Rightarrow> bool result) option"
  bpo_settleBatch :: "(BatchSettlement \<Rightarrow> (ExecutorService, RelayedTx list) act) option"
  bpo_createSettlementTranscript ::
    "string \<Rightarrow> Hex list \<Rightarrow> string \<Rightarrow> (ExecutorService, ExternalBatchSettlementTranscript) act"
  bpo_ensureForMarket :: "(string \<Rightarrow> string \<Rightarrow> (ExecutorService, unit) act) option"
  bpo_finalizeSettlement :: "(BatchSettlement \<Rightarrow> (ExecutorService, unit) act) option"
  bpo_flush :: "(ExecutorService, unit) act"

text \<open>The places where the code reads the clock.\<close>

datatype clock_read = AtProgress BatchExecutionPhase | AtCommit | AtSettled | AtRetry | AtEnd

record BatchExecutorService =
  bex_executor :: ExecutorService
  bex_batchRetryAfter :: "(string, int) jsmap"
  bex_oracleRefreshAfter :: "(string, int) jsmap"

abbreviation bex_store :: "BatchExecutorService \<Rightarrow> ProtocolStore" where
  "bex_store b \<equiv> ex_store (bex_executor b)"

definition on_executor :: "(ExecutorService, 'a) act \<Rightarrow> (BatchExecutorService, 'a) act" where
  "on_executor m b = (case m (bex_executor b) of (r, e) \<Rightarrow> (r, b\<lparr>bex_executor := e\<rparr>))"

definition optional_port :: "('p \<Rightarrow> (ExecutorService, unit) act) \<Rightarrow> 'p option \<Rightarrow> (BatchExecutorService, unit) act" where
  "optional_port call port = (case port of None \<Rightarrow> returnA () | Some p \<Rightarrow> on_executor (call p))"

subsection \<open>Errors with a phase\<close>

type_synonym ('s, 'a) run = "'s \<Rightarrow> ((BatchExecutionPhase option \<times> string) + 'a) \<times> 's"

definition phase_str :: "BatchExecutionPhase \<Rightarrow> string" where
  "phase_str p = (case p of PhOracle \<Rightarrow> ''oracle'' | PhMakerLiquidity \<Rightarrow> ''maker-liquidity''
     | PhMatcher \<Rightarrow> ''matcher'' | PhProving \<Rightarrow> ''proving'' | PhBatchSettlement \<Rightarrow> ''batch-settlement''
     | PhSettlementCommit \<Rightarrow> ''settlement-commit'' | PhMakerFinalize \<Rightarrow> ''maker-finalize'')"

definition runPhase :: "BatchExecutionPhase \<Rightarrow> ('s, 'a) act \<Rightarrow> ('s, 'a) run" where
  "runPhase p m s = (case m s of
     (Inl msg, t) \<Rightarrow> (Inl (Some p, phase_str p @ '': '' @ msg), t) | (Inr a, t) \<Rightarrow> (Inr a, t))"

text \<open>A statement outside \<open>runPhase\<close>: its error has no phase.\<close>

definition plainR :: "('s, 'a) act \<Rightarrow> ('s, 'a) run" where
  "plainR m s = (case m s of (Inl msg, t) \<Rightarrow> (Inl (None, msg), t) | (Inr a, t) \<Rightarrow> (Inr a, t))"

definition bindR :: "('s, 'a) run \<Rightarrow> ('a \<Rightarrow> ('s, 'b) run) \<Rightarrow> ('s, 'b) run" where
  "bindR m f s = (case m s of (Inl e, t) \<Rightarrow> (Inl e, t) | (Inr a, t) \<Rightarrow> f a t)"

definition seqR :: "('s, 'a) run \<Rightarrow> ('s, 'b) run \<Rightarrow> ('s, 'b) run" where
  "seqR m n = bindR m (\<lambda>_. n)"

fun str_includes :: "string \<Rightarrow> string \<Rightarrow> bool" where
  "str_includes [] needle = (needle = [])"
| "str_includes (c # cs) needle = (take (length needle) (c # cs) = needle \<or> str_includes cs needle)"

definition shouldSkip :: "string \<Rightarrow> bool" where
  "shouldSkip reason = list_ex (str_includes reason)
     [''batch has no active intents'', ''batch has no crossed liquidity'',
      ''batch intent no longer active'', ''private match payload not found'',
      ''account encryption key not found'']"

subsection \<open>Run records\<close>

text \<open>
  The object that \<open>record\<close> and \<open>progress\<close> get: \<open>None\<close> is an absent key. The phase may also be present
  and undefined (\<open>Some None\<close>), as in the record of a failed run.
\<close>

record RunUpdate =
  ru_aggregateVolume :: "int option"
  ru_batchId :: string
  ru_completedAt :: "int option"
  ru_fillCount :: "int option"
  ru_marketId :: string
  ru_phase :: "BatchExecutionPhase option option"
  ru_reason :: "string option"
  ru_runId :: Hex
  ru_settlementDigest :: "Hex option"
  ru_startedAt :: int
  ru_status :: BatchExecutionRunStatus
  ru_updatedAt :: "int option"

definition or_else :: "'a option \<Rightarrow> 'a option \<Rightarrow> 'a option" where
  "or_else new old = (case new of Some v \<Rightarrow> Some v | None \<Rightarrow> old)"

definition enrichRunRecord :: "int \<Rightarrow> RunUpdate \<Rightarrow> ProtocolStore \<Rightarrow> BatchExecutionRunRecord" where
  "enrichRunRecord now u s =
     (let existing = mget (st_batchExecutionRuns s) (ru_runId u);
          old = nullish (case existing of None \<Rightarrow> None | Some r \<Rightarrow> ber_phaseTimestamps r) [];
          stamps = (case ru_phase u of
              Some (Some p) \<Rightarrow> if mhas old p then old
                else mset_at p (nullish (ru_updatedAt u) (nullish (ru_completedAt u) now)) old
            | _ \<Rightarrow> old)
      in \<lparr>ber_aggregateVolume = or_else (ru_aggregateVolume u) (case existing of None \<Rightarrow> None | Some r \<Rightarrow> ber_aggregateVolume r),
          ber_batchId = ru_batchId u,
          ber_completedAt = or_else (ru_completedAt u) (case existing of None \<Rightarrow> None | Some r \<Rightarrow> ber_completedAt r),
          ber_fillCount = or_else (ru_fillCount u) (case existing of None \<Rightarrow> None | Some r \<Rightarrow> ber_fillCount r),
          ber_marketId = ru_marketId u,
          ber_phase = spread (case existing of None \<Rightarrow> None | Some r \<Rightarrow> ber_phase r) (ru_phase u),
          ber_phaseTimestamps = (if length stamps > 0 then Some stamps
            else case existing of None \<Rightarrow> None | Some r \<Rightarrow> ber_phaseTimestamps r),
          ber_reason = or_else (ru_reason u) (case existing of None \<Rightarrow> None | Some r \<Rightarrow> ber_reason r),
          ber_runId = ru_runId u,
          ber_settlementDigest = or_else (ru_settlementDigest u) (case existing of None \<Rightarrow> None | Some r \<Rightarrow> ber_settlementDigest r),
          ber_startedAt = ru_startedAt u, ber_status = ru_status u,
          ber_updatedAt = or_else (ru_updatedAt u) (case existing of None \<Rightarrow> None | Some r \<Rightarrow> ber_updatedAt r)\<rparr>)"

definition recordRun :: "int \<Rightarrow> RunUpdate \<Rightarrow> Hex list
    \<Rightarrow> BatchExecutorService \<Rightarrow> BatchExecutorMarketResult \<times> BatchExecutorService" where
  "recordRun now u intentCommitments b =
     (let enriched = enrichRunRecord now u (bex_store b)
      in (\<lparr>bmr_marketId = ber_marketId enriched, bmr_record = enriched\<rparr>,
          snd (on_executor (store_call (upsertBatchExecutionRun enriched intentCommitments)) b)))"

definition progress :: "batch_ports \<Rightarrow> int \<Rightarrow> RunUpdate \<Rightarrow> Hex list \<Rightarrow> (BatchExecutorService, unit) run" where
  "progress ports now u intentCommitments =
     plainR (seqA (\<lambda>b. (Inr (), snd (recordRun now u intentCommitments b))) (on_executor (bpo_flush ports)))"

subsection \<open>Orders and batches\<close>

definition sortedStrings :: "string list \<Rightarrow> string list" where
  "sortedStrings = js_sort str_cmp"

definition activeIntentCommitments :: "string \<Rightarrow> ProtocolStore \<Rightarrow> Hex list" where
  "activeIntentCommitments marketId s = sortedStrings (map olr_intentCommitment
     (filter (\<lambda>order. olr_marketId order = marketId \<and> olr_status order = OrderOpen)
       (mvalues (st_orderLifecycle s))))"

definition marketIds :: "string option \<Rightarrow> ProtocolStore \<Rightarrow> string list result" where
  "marketIds marketId s =
     (if truthy_str marketId
      then if \<not> mhas (st_markets s) (the marketId) then throw ''unknown market'' else Inr [the marketId]
      else Inr (sortedStrings (set_new (map olr_marketId
             (filter (\<lambda>order. olr_status order = OrderOpen) (mvalues (st_orderLifecycle s)))))))"

definition startsWith :: "string \<Rightarrow> string \<Rightarrow> bool" where
  "startsWith s prefix = (take (length prefix) s = prefix)"

definition batchIdForMarket ::
  "host \<Rightarrow> BatchExecutorConfig \<Rightarrow> RunBatchExecutorInput \<Rightarrow> string \<Rightarrow> int \<Rightarrow> ProtocolStore \<Rightarrow> string" where
  "batchIdForMarket h config input marketId startedAt s =
     (let prefix = nullish (rbi_batchIdPrefix input) (nullish (bxc_batchIdPrefix config) DEFAULT_BATCH_PREFIX);
          timed = prefix @ ''-'' @ marketId @ ''-'' @ int_str startedAt
      in if rbi_now input \<noteq> None then timed
      else
        let clientOrderIds = sortedStrings (map olr_intentCommitment
              (filter (\<lambda>order. olr_marketId order = marketId \<and> olr_status order = OrderOpen
                  \<and> \<not> startsWith (olr_batchId order) ''maker-auto-'')
                (mvalues (st_orderLifecycle s))))
        in if length clientOrderIds = 0 then timed
           else prefix @ ''-'' @ marketId @ ''-''
             @ take 16 (drop 2 (hashFields h ''batch-active-orders''
                 (JStr marketId # map JStr clientOrderIds))))"

definition batchRunId :: "host \<Rightarrow> string \<Rightarrow> string \<Rightarrow> int \<Rightarrow> Hex" where
  "batchRunId h batchId marketId startedAt =
     hashFields h ''batch-execution-run'' [JStr batchId, JStr marketId, JNum startedAt]"

definition isCoolingDown ::
  "host \<Rightarrow> BatchExecutorConfig \<Rightarrow> int \<Rightarrow> RunBatchExecutorInput \<Rightarrow> string \<Rightarrow> int \<Rightarrow> BatchExecutorService
    \<Rightarrow> bool \<times> BatchExecutorService" where
  "isCoolingDown h config now input marketId startedAt b =
     (let batchId = batchIdForMarket h config input marketId startedAt (bex_store b)
      in case mget (bex_batchRetryAfter b) batchId of
           None \<Rightarrow> (False, b)
         | Some retryAfter \<Rightarrow>
             if retryAfter = 0 then (False, b)
             else if retryAfter \<le> now
             then (False, b\<lparr>bex_batchRetryAfter := mdelete batchId (bex_batchRetryAfter b)\<rparr>)
             else (True, b))"

subsection \<open>The phases\<close>

definition assertPositionRootSynchronized ::
  "host \<Rightarrow> BatchExecutorConfig \<Rightarrow> batch_ports \<Rightarrow> (BatchExecutorService, unit) act" where
  "assertPositionRootSynchronized h config ports = liftA (\<lambda>b.
     (case bpo_positionRoot ports of
        None \<Rightarrow> Inr ()
      | Some chain \<Rightarrow>
          if \<not> bxc_settlementsOnchainRequired config then Inr ()
          else bindE (positionMembershipRoot h (bex_store b)) (\<lambda>localRoot.
               bindE chain (\<lambda>onchainRoot.
               if map lower_char localRoot \<noteq> map lower_char onchainRoot
               then throw (''position root out of sync: local '' @ localRoot @ '', on-chain '' @ onchainRoot)
               else Inr ()))))"

text \<open>A refresh that another run of the market has in flight is awaited there; here it is the port's.\<close>

definition refreshMarketOracleIfNeeded ::
  "BatchExecutorConfig \<Rightarrow> string \<Rightarrow> int \<Rightarrow> (BatchExecutorService, unit) act" where
  "refreshMarketOracleIfNeeded config marketId now b =
     (case bxc_refreshMarketOracle config of
        None \<Rightarrow> (Inr (), b)
      | Some refresh \<Rightarrow>
          if (case mget (bex_oracleRefreshAfter b) marketId of None \<Rightarrow> False
              | Some retryAfter \<Rightarrow> retryAfter \<noteq> 0 \<and> retryAfter > now)
          then (Inr (), b)
          else seqA (on_executor (refresh marketId))
            (modifyA (\<lambda>b. b\<lparr>bex_oracleRefreshAfter := mset_at marketId
               (now + nullish (bxc_oracleRefreshIntervalMs config) DEFAULT_ORACLE_REFRESH_INTERVAL_MS)
               (bex_oracleRefreshAfter b)\<rparr>)) b)"

definition assertSettlementOrdersActive :: "BatchSettlement \<Rightarrow> (BatchExecutorService, unit) act" where
  "assertSettlementOrdersActive settlement = liftA (\<lambda>b.
     (let inactive = filter (\<lambda>c. case mget (st_orderLifecycle (bex_store b)) c of
              None \<Rightarrow> True | Some order \<Rightarrow> olr_status order \<noteq> OrderOpen)
            (map olu_intentCommitment (or_empty (bs_orderUpdates settlement)))
      in if length inactive > 0
         then throw (''batch intent no longer active: '' @ js_join '','' inactive) else Inr ()))"

definition isSettledOnchain :: "batch_ports \<Rightarrow> bool \<Rightarrow> BatchSettlement \<Rightarrow> bool" where
  "isSettledOnchain ports late settlement =
     (case bpo_isBatchSettled ports of
        None \<Rightarrow> False
      | Some ask \<Rightarrow> (case ask late (bs_batchId settlement) (bs_marketId settlement)
                           (bs_settlementDigest settlement) of Inl _ \<Rightarrow> False | Inr answer \<Rightarrow> answer))"

definition trySettleOnchain ::
  "BatchExecutorConfig \<Rightarrow> batch_ports \<Rightarrow> BatchSettlement
    \<Rightarrow> (BatchExecutorService, RelayedTx list option) act" where
  "trySettleOnchain config ports settlement b =
     (case bpo_settleBatch ports of
        None \<Rightarrow> (Inr None, b)
      | Some relayBatch \<Rightarrow> (case on_executor (relayBatch settlement) b of
            (Inl e, t) \<Rightarrow> (if bxc_settlementsOnchainRequired config then Inl e else Inr None, t)
          | (Inr relays, t) \<Rightarrow> (Inr (Some relays), t)))"

definition hasSubmittedProofVerification :: "RelayedTx list option \<Rightarrow> bool" where
  "hasSubmittedProofVerification result =
     list_ex (\<lambda>relay. rtx_functionName relay = Some ''verify_and_record'' \<and> rtx_submitted relay) (or_empty result)"

definition submittedTxHash :: "(RelayedTx \<Rightarrow> bool) \<Rightarrow> RelayedTx list option \<Rightarrow> Hex option" where
  "submittedTxHash p result =
     (case find (\<lambda>relay. p relay \<and> rtx_submitted relay) (or_empty result) of
        None \<Rightarrow> None
      | Some relay \<Rightarrow> if truthy_str (rtx_txHash relay) then rtx_txHash relay else None)"

definition withOnchainTransactions ::
  "ExternalBatchSettlementTranscript \<Rightarrow> RelayedTx list option \<Rightarrow> bool
    \<Rightarrow> ExternalBatchSettlementTranscript" where
  "withOnchainTransactions transcript result confirmedOnchain =
     transcript\<lparr>ebt_settlement := (ebt_settlement transcript)\<lparr>
       bs_onchainConfirmed := Some confirmedOnchain,
       bs_proofVerificationTxHash :=
         submittedTxHash (\<lambda>relay. rtx_functionName relay = Some ''verify_and_record'') result,
       bs_settlementTxHash := submittedTxHash (\<lambda>relay. rtx_functionName relay = Some ''settle''
         \<and> rtx_kind relay = ''batch-settlement'') result\<rparr>\<rparr>"

subsection \<open>A run\<close>

definition running :: "string \<Rightarrow> string \<Rightarrow> Hex \<Rightarrow> int \<Rightarrow> BatchExecutionPhase \<Rightarrow> Hex option \<Rightarrow> int \<Rightarrow> RunUpdate" where
  "running batchId marketId runId startedAt phase digest now =
     \<lparr>ru_aggregateVolume = None, ru_batchId = batchId, ru_completedAt = None, ru_fillCount = None,
      ru_marketId = marketId, ru_phase = Some (Some phase), ru_reason = None, ru_runId = runId,
      ru_settlementDigest = digest, ru_startedAt = startedAt, ru_status = RunRunning,
      ru_updatedAt = Some now\<rparr>"

definition enterPhase ::
  "batch_ports \<Rightarrow> (clock_read \<Rightarrow> int) \<Rightarrow> string \<Rightarrow> string \<Rightarrow> Hex \<Rightarrow> int \<Rightarrow> Hex list
    \<Rightarrow> BatchExecutionPhase \<Rightarrow> Hex option \<Rightarrow> (BatchExecutorService, unit) run" where
  "enterPhase ports clock batchId marketId runId startedAt intentCommitments phase digest =
     (let now = clock (AtProgress phase)
      in progress ports now (running batchId marketId runId startedAt phase digest now) intentCommitments)"

text \<open>
  The \<open>try\<close> block in four parts: up to the second look at the open orders, the transcript, the relay, and
  the commit.
\<close>

definition prepareRun ::
  "host \<Rightarrow> BatchExecutorConfig \<Rightarrow> batch_ports \<Rightarrow> (clock_read \<Rightarrow> int) \<Rightarrow> string \<Rightarrow> string \<Rightarrow> Hex \<Rightarrow> int
    \<Rightarrow> Hex list \<Rightarrow> (BatchExecutorService, unit) run" where
  "prepareRun h config ports clock batchId marketId runId startedAt intentCommitments =
     seqR (enterPhase ports clock batchId marketId runId startedAt intentCommitments PhMatcher None)
     (seqR (runPhase PhMatcher (assertPositionRootSynchronized h config ports))
     (seqR (runPhase PhOracle (refreshMarketOracleIfNeeded config marketId startedAt))
     (seqR (runPhase PhMakerLiquidity (optional_port (\<lambda>ensure. ensure batchId marketId) (bpo_ensureForMarket ports)))
     (seqR (runPhase PhMakerLiquidity (on_executor (bpo_flush ports)))
       (runPhase PhOracle (optional_port (\<lambda>smp. smp marketId startedAt) (bxc_sampleFundingPremium config)))))))"

definition commitRun ::
  "host \<Rightarrow> BatchExecutorConfig \<Rightarrow> batch_ports \<Rightarrow> (clock_read \<Rightarrow> int) \<Rightarrow> string \<Rightarrow> string \<Rightarrow> Hex \<Rightarrow> int
    \<Rightarrow> Hex list \<Rightarrow> ExternalBatchSettlementTranscript \<Rightarrow> bool \<Rightarrow> (BatchExecutorService, BatchSettlement) run" where
  "commitRun h config ports clock batchId marketId runId startedAt intentCommitments settledTranscript proofVerified =
     seqR (enterPhase ports clock batchId marketId runId startedAt intentCommitments PhSettlementCommit
             (Some (bs_settlementDigest (ebt_settlement settledTranscript))))
     (bindR (runPhase PhSettlementCommit (on_executor
        (commitExternalBatchSettlement h (clock AtCommit) (clock AtSettled) settledTranscript proofVerified)))
      (\<lambda>settlement.
        seqR (enterPhase ports clock batchId marketId runId startedAt intentCommitments PhMakerFinalize
                (Some (bs_settlementDigest settlement)))
        (seqR (runPhase PhMakerFinalize
           (optional_port (\<lambda>finalize. finalize settlement) (bpo_finalizeSettlement ports)))
        (seqR (runPhase PhMakerFinalize (on_executor (bpo_flush ports)))
          (plainR (returnA settlement))))))"

definition relayRun ::
  "host \<Rightarrow> BatchExecutorConfig \<Rightarrow> batch_ports \<Rightarrow> (clock_read \<Rightarrow> int) \<Rightarrow> string \<Rightarrow> string \<Rightarrow> Hex \<Rightarrow> int
    \<Rightarrow> Hex list \<Rightarrow> ExternalBatchSettlementTranscript \<Rightarrow> (BatchExecutorService, BatchSettlement) run" where
  "relayRun h config ports clock batchId marketId runId startedAt intentCommitments transcript =
     (let proposed = ebt_settlement transcript;
          required = bxc_settlementsOnchainRequired config;
          alreadySettledOnchain = isSettledOnchain ports False proposed
      in seqR (enterPhase ports clock batchId marketId runId startedAt intentCommitments PhBatchSettlement
                 (Some (bs_settlementDigest proposed)))
         (seqR (runPhase PhBatchSettlement (assertSettlementOrdersActive proposed))
         (bindR (if alreadySettledOnchain then plainR (returnA None)
                 else runPhase PhBatchSettlement (trySettleOnchain config ports proposed)) (\<lambda>relay.
          let confirmedOnchain = (alreadySettledOnchain \<or> isSettledOnchain ports True proposed);
              proofVerified = (alreadySettledOnchain \<or> hasSubmittedProofVerification relay)
          in if required \<and> \<not> confirmedOnchain
             then plainR (throwA ''batch settlement and fee allocation are not confirmed on-chain'')
             else if required \<and> \<not> proofVerified
             then plainR (throwA ''settlements require on-chain relay'')
             else commitRun h config ports clock batchId marketId runId startedAt intentCommitments
                    (withOnchainTransactions transcript relay confirmedOnchain)
                    (proofVerified \<or> \<not> required)))))"

definition settleRun ::
  "host \<Rightarrow> BatchExecutorConfig \<Rightarrow> batch_ports \<Rightarrow> (clock_read \<Rightarrow> int) \<Rightarrow> string \<Rightarrow> string \<Rightarrow> Hex \<Rightarrow> int
    \<Rightarrow> Hex list \<Rightarrow> (BatchExecutorService, BatchSettlement) run" where
  "settleRun h config ports clock batchId marketId runId startedAt intentCommitments =
     (if length intentCommitments < 2
      then plainR (throwA (if length intentCommitments = 0 then ''batch has no active intents''
             else ''batch has no crossed liquidity''))
      else seqR (enterPhase ports clock batchId marketId runId startedAt intentCommitments PhProving None)
        (bindR (runPhase PhProving
           (on_executor (bpo_createSettlementTranscript ports batchId intentCommitments marketId)))
         (relayRun h config ports clock batchId marketId runId startedAt intentCommitments)))"

definition failedRun ::
  "(clock_read \<Rightarrow> int) \<Rightarrow> string \<Rightarrow> string \<Rightarrow> Hex \<Rightarrow> int \<Rightarrow> Hex list \<Rightarrow> BatchExecutionPhase option \<times> string
    \<Rightarrow> BatchExecutorService \<Rightarrow> BatchExecutorMarketResult \<times> BatchExecutorService" where
  "failedRun clock batchId marketId runId startedAt intentCommitments err b =
     (let (phase, reason) = err;
          retry = (\<lambda>ms. b\<lparr>bex_batchRetryAfter := mset_at batchId (clock AtRetry + ms) (bex_batchRetryAfter b)\<rparr>);
          waiting = (if str_includes reason ''batch has no crossed liquidity''
                     then retry MISSING_LIQUIDITY_RETRY_COOLDOWN_MS
                     else if \<not> shouldSkip reason then retry FAILED_BATCH_RETRY_COOLDOWN_MS
                     else b)
      in recordRun (clock AtEnd) \<lparr>ru_aggregateVolume = None, ru_batchId = batchId,
           ru_completedAt = Some (clock AtEnd), ru_fillCount = None, ru_marketId = marketId,
           ru_phase = Some phase, ru_reason = Some reason, ru_runId = runId, ru_settlementDigest = None,
           ru_startedAt = startedAt, ru_status = (if shouldSkip reason then RunSkipped else RunFailed),
           ru_updatedAt = None\<rparr> intentCommitments waiting)"

definition settledRun ::
  "(clock_read \<Rightarrow> int) \<Rightarrow> string \<Rightarrow> string \<Rightarrow> Hex \<Rightarrow> int \<Rightarrow> Hex list \<Rightarrow> BatchSettlement
    \<Rightarrow> BatchExecutorService \<Rightarrow> BatchExecutorMarketResult \<times> BatchExecutorService" where
  "settledRun clock batchId marketId runId startedAt intentCommitments settlement =
     recordRun (clock AtEnd) \<lparr>ru_aggregateVolume = Some (bs_aggregateVolume settlement),
       ru_batchId = batchId, ru_completedAt = Some (clock AtEnd),
       ru_fillCount = Some (bs_fillCount settlement), ru_marketId = marketId, ru_phase = None,
       ru_reason = None, ru_runId = runId, ru_settlementDigest = Some (bs_settlementDigest settlement),
       ru_startedAt = startedAt, ru_status = RunSettled, ru_updatedAt = None\<rparr> intentCommitments"

definition batch_runMarket ::
  "host \<Rightarrow> BatchExecutorConfig \<Rightarrow> batch_ports \<Rightarrow> (clock_read \<Rightarrow> int) \<Rightarrow> RunBatchExecutorInput \<Rightarrow> string
    \<Rightarrow> int \<Rightarrow> BatchExecutorService \<Rightarrow> BatchExecutorMarketResult \<times> BatchExecutorService" where
  "batch_runMarket h config ports clock input marketId startedAt b =
     (let batchId = batchIdForMarket h config input marketId startedAt (bex_store b);
          runId = batchRunId h batchId marketId startedAt;
          before = activeIntentCommitments marketId (bex_store b)
      in case prepareRun h config ports clock batchId marketId runId startedAt before b of
           (Inl err, c) \<Rightarrow> failedRun clock batchId marketId runId startedAt before err c
         | (Inr _, c) \<Rightarrow>
             let intentCommitments = activeIntentCommitments marketId (bex_store c)
             in case settleRun h config ports clock batchId marketId runId startedAt intentCommitments c of
                  (Inl err, d) \<Rightarrow> failedRun clock batchId marketId runId startedAt intentCommitments err d
                | (Inr settlement, d) \<Rightarrow>
                    settledRun clock batchId marketId runId startedAt intentCommitments settlement d)"

text \<open>
  \<open>runOnce\<close> starts the runs of its markets together; here they run one after the other, and what they do
  in between of each other is in the ports.
\<close>

fun coolDown ::
  "host \<Rightarrow> BatchExecutorConfig \<Rightarrow> int \<Rightarrow> RunBatchExecutorInput \<Rightarrow> int \<Rightarrow> string list \<Rightarrow> BatchExecutorService
    \<Rightarrow> string list \<times> BatchExecutorService" where
  "coolDown h config now input startedAt [] b = ([], b)"
| "coolDown h config now input startedAt (m # ms) b =
     (case isCoolingDown h config now input m startedAt b of (cooling, c) \<Rightarrow>
      case coolDown h config now input startedAt ms c of (rest, d) \<Rightarrow>
        (if cooling then rest else m # rest, d))"

fun runMarkets ::
  "host \<Rightarrow> BatchExecutorConfig \<Rightarrow> batch_ports \<Rightarrow> (string \<Rightarrow> clock_read \<Rightarrow> int) \<Rightarrow> RunBatchExecutorInput
    \<Rightarrow> int \<Rightarrow> string list \<Rightarrow> BatchExecutorService \<Rightarrow> BatchExecutorMarketResult list \<times> BatchExecutorService" where
  "runMarkets h config ports clock input startedAt [] b = ([], b)"
| "runMarkets h config ports clock input startedAt (m # ms) b =
     (case batch_runMarket h config ports (clock m) input m startedAt b of (r, c) \<Rightarrow>
      case runMarkets h config ports clock input startedAt ms c of (rs, d) \<Rightarrow> (r # rs, d))"

definition batch_runOnce ::
  "host \<Rightarrow> BatchExecutorConfig \<Rightarrow> batch_ports \<Rightarrow> (string \<Rightarrow> clock_read \<Rightarrow> int) \<Rightarrow> int \<Rightarrow> RunBatchExecutorInput
    \<Rightarrow> (BatchExecutorService, int \<times> BatchExecutorMarketResult list) act" where
  "batch_runOnce h config ports clock now input b =
     (let startedAt = nullish (rbi_now input) now
      in case marketIds (rbi_marketId input) (bex_store b) of
           Inl e \<Rightarrow> (Inl e, b)
         | Inr ids \<Rightarrow>
             (case coolDown h config now input startedAt ids b of (markets, c) \<Rightarrow>
              case runMarkets h config ports clock input startedAt markets c of (results, d) \<Rightarrow>
                (Inr (startedAt, results), d)))"

end
