(* ===== verification/Batch_Run_Properties.thy ===== *)
theory Batch_Run_Properties
  imports Batch_Runs
begin

text \<open>
  What a batch run guarantees: it always ends with a record that says how, it writes at most one
  settlement, and where settlements have to be on chain only one that the chain confirmed.
\<close>

subsection \<open>Lemmas: what a run leaves alone\<close>

definition framesR :: "('s \<Rightarrow> 'v) \<Rightarrow> ('s, 'a) run \<Rightarrow> bool" where
  "framesR v m \<longleftrightarrow> (\<forall>s. v (snd (m s)) = v s)"

lemma bindR_cases:
  assumes "bindR m f s = (r, t)"
  obtains (thrown) e where "m s = (Inl e, t)" "r = Inl e"
  | (returned) a u where "m s = (Inr a, u)" "f a u = (r, t)"
  using assms by (auto simp: bindR_def split: prod.splits sum.splits)

lemma framesR_rules:
  "frames v m \<Longrightarrow> framesR v (runPhase p m)"
  "frames v m \<Longrightarrow> framesR v (plainR m)"
  "framesR v n \<Longrightarrow> (\<And>a. framesR v (f a)) \<Longrightarrow> framesR v (bindR n f)"
  "framesR v n \<Longrightarrow> framesR v n' \<Longrightarrow> framesR v (seqR n n')"
  by (auto simp: framesR_def frames_def runPhase_def plainR_def bindR_def seqR_def
      split: prod.splits sum.splits) (metis snd_conv)+

abbreviation settled_batches :: "BatchExecutorService \<Rightarrow> (string, BatchSettlement) jsmap" where
  "settled_batches b \<equiv> st_settlements (bex_store b)"

lemma frames_on_executor:
  "frames (\<lambda>e. st_settlements (ex_store e)) m \<Longrightarrow> frames settled_batches (on_executor m)"
  by (auto simp: frames_def on_executor_def split: prod.splits) (metis snd_conv)

lemma frames_upsertRun: "st_settlements (snd (upsertBatchExecutionRun r cs s)) = st_settlements s"
  by (simp add: upsertBatchExecutionRun_def associateBatchExecutionRun_def js_simps)

lemma recordRun_frame:
  "settled_batches (snd (recordRun now u cs b)) = settled_batches b"
  "bex_batchRetryAfter (snd (recordRun now u cs b)) = bex_batchRetryAfter b"
  by (simp_all add: recordRun_def Let_def on_executor_def store_call_def frames_upsertRun split: prod.splits)
    (metis frames_upsertRun snd_conv)

text \<open>Ports that do not touch the settlements, which only the executor commits.\<close>

definition ports_frame :: "BatchExecutorConfig \<Rightarrow> batch_ports \<Rightarrow> bool" where
  "ports_frame config ports \<longleftrightarrow>
     (let keep = (\<lambda>m. frames (\<lambda>e. st_settlements (ex_store e)) m) in
      keep (bpo_flush ports)
      \<and> (\<forall>batchId cs m. frames (\<lambda>e. st_settlements (ex_store e)) (bpo_createSettlementTranscript ports batchId cs m))
      \<and> (\<forall>f. bpo_settleBatch ports = Some f \<longrightarrow> (\<forall>s. frames (\<lambda>e. st_settlements (ex_store e)) (f s)))
      \<and> (\<forall>f. bpo_ensureForMarket ports = Some f \<longrightarrow> (\<forall>batchId m. keep (f batchId m)))
      \<and> (\<forall>f. bpo_finalizeSettlement ports = Some f \<longrightarrow> (\<forall>s. keep (f s)))
      \<and> (\<forall>f. bxc_refreshMarketOracle config = Some f \<longrightarrow> (\<forall>m. keep (f m)))
      \<and> (\<forall>f. bxc_sampleFundingPremium config = Some f \<longrightarrow> (\<forall>m t. keep (f m t))))"

lemma frames_progress: "ports_frame config ports \<Longrightarrow> framesR settled_batches (progress ports now u cs)"
  unfolding progress_def
  by (intro framesR_rules frames_seq frames_on_executor)
    (simp_all add: frames_def recordRun_frame ports_frame_def Let_def)

lemma frames_enterPhase:
  "ports_frame config ports \<Longrightarrow> framesR settled_batches (enterPhase ports clock batchId m runId t cs p d)"
  unfolding enterPhase_def Let_def by (rule frames_progress)

lemma frames_optional:
  "(\<And>p. port = Some p \<Longrightarrow> frames (\<lambda>e. st_settlements (ex_store e)) (call p))
    \<Longrightarrow> frames settled_batches (optional_port call port)"
  by (cases port) (auto simp: optional_port_def intro: frames_on_executor)

lemma frames_prepareRun:
  assumes "ports_frame config ports"
  shows "framesR settled_batches (prepareRun h config ports clock batchId m runId startedAt cs)"
proof -
  have refresh: "frames settled_batches (refreshMarketOracleIfNeeded config m startedAt)"
  proof (cases "bxc_refreshMarketOracle config")
    case None
    then show ?thesis by (simp add: frames_def refreshMarketOracleIfNeeded_def)
  next
    case (Some f)
    have "frames settled_batches (seqA (on_executor (f m)) (modifyA (\<lambda>b. b\<lparr>bex_oracleRefreshAfter := g b\<rparr>)))" for g
      by (intro frames_seq frames_on_executor) (use assms Some in \<open>auto simp: ports_frame_def Let_def\<close>)
    then show ?thesis using Some by (simp add: frames_def refreshMarketOracleIfNeeded_def)
  qed
  show ?thesis
    unfolding prepareRun_def assertPositionRootSynchronized_def
    by (intro framesR_rules frames_enterPhase [OF assms] frames_lift refresh frames_optional frames_on_executor)
      (use assms in \<open>auto simp: ports_frame_def Let_def\<close>)
qed

lemma commit_settlements:
  assumes "commitExternalBatchSettlement h now settledAt tr verified e = (r, e')"
  shows "case r of
      Inl m \<Rightarrow> st_settlements (ex_store e') = st_settlements (ex_store e)
    | Inr b \<Rightarrow> b = ebt_settlement tr
        \<and> \<not> mhas (st_settlements (ex_store e)) (settlementKey b)
        \<and> st_settlements (ex_store e') = mset_at (settlementKey b) b (st_settlements (ex_store e))"
proof -
  let ?b = "ebt_settlement tr"
  have add: "st_settlements t = (case q of Inl m \<Rightarrow> st_settlements s
        | Inr u \<Rightarrow> mset_at (settlementKey ?b) ?b (st_settlements s))
      \<and> (q = Inr () \<longrightarrow> \<not> mhas (st_settlements s) (settlementKey ?b))"
    if run: "addSettlement h now settledAt ?b os rs es ps s = (q, t)" for s q t os rs es ps
  proof (cases "q = Inr ()")
    case False
    then obtain m where "q = Inl m" by (cases q) auto
    with settlement_registry.add_throws [of h now settledAt "(?b, os, rs, es, ps)" s m t] run
    show ?thesis by simp
  next
    case True
    with run have app: "applySettlement h now settledAt ?b os rs es ps s = (Inr (), t)"
      and new: "\<not> mhas (st_settlements s) (settlementKey ?b)"
      by (auto simp: addSettlement_run split: if_splits sum.splits)
    from app show ?thesis
    proof (cases rule: applySettlement_elim)
      case (stored u)
      have "frames st_settlements (eachA spend (bs_spentNullifiers ?b))"
        by (rule frames_each, rule frames_spend) simp
      then have "st_settlements u = st_settlements (settlement_leaves ?b s)" using stored(1) by (rule frames_Inr)
      then have "st_settlements u = st_settlements s" by (simp add: settlement_leaves_def)
      with stored(3) True new show ?thesis by (simp add: spend_view_def)
    qed simp_all
  qed
  let ?s = "if verified then (ex_store e)\<lparr>st_proofs := sadd (proofKey (bs_proof ?b)) (st_proofs (ex_store e))\<rparr>
    else ex_store e"
  have same: "st_settlements ?s = st_settlements (ex_store e)" by simp
  show ?thesis
  proof (cases "validateExternalBatchSettlement h tr (ex_store e)")
    case (Inl m)
    then have "commitExternalBatchSettlement h now settledAt tr verified e = (Inl m, e)"
      by (simp add: commitExternalBatchSettlement_def Let_def seqA_def bindA_def liftA_def)
    with assms show ?thesis by auto
  next
    case (Inr v)
    obtain q t where q: "addSettlement h now settledAt ?b (ebt_positionOpenings tr)
        (or_empty (ebt_residualOrders tr)) (ebt_accountEvents tr) (or_empty (ebt_privateMatchIntents tr)) ?s = (q, t)"
      by fastforce
    have "commitExternalBatchSettlement h now settledAt tr verified e =
        (if \<not> hasProof (bs_proof ?b) ?s
         then (Inl ''external settlement proof is not verified'', e\<lparr>ex_store := ?s\<rparr>)
         else (case q of Inl m \<Rightarrow> Inl m | Inr _ \<Rightarrow> Inr ?b, e\<lparr>ex_store := t\<rparr>))"
      using q Inr
      by (cases verified; cases q)
        (simp_all add: commitExternalBatchSettlement_def Let_def seqA_def bindA_def liftA_def guardA_def
          returnA_def store_call_def recordProof_def modifyA_def)
    with assms add [OF q] same show ?thesis
      by (cases "hasProof (bs_proof ?b) ?s"; cases q) auto
  qed
qed

subsection \<open>Lemmas: at most one settlement\<close>

text \<open>
  A run that changes the settlements either leaves them and throws, or adds one for which \<open>P\<close> holds, and
  when it returns it returns that one.
\<close>

definition settles_one :: "(BatchSettlement \<Rightarrow> bool) \<Rightarrow> (BatchExecutorService, BatchSettlement) run \<Rightarrow> bool" where
  "settles_one P m \<longleftrightarrow> (\<forall>b r t. m b = (r, t) \<longrightarrow>
     (settled_batches t = settled_batches b \<and> isl r)
     \<or> (\<exists>s. P s \<and> \<not> mhas (settled_batches b) (settlementKey s)
          \<and> settled_batches t = mset_at (settlementKey s) s (settled_batches b)
          \<and> (r = Inr s \<or> isl r)))"

lemma settles_one_throw: "settles_one P (plainR (throwA e))"
  by (auto simp: settles_one_def plainR_def throwA_def)

lemma settles_one_bind:
  assumes "framesR settled_batches m" and "\<And>a. settles_one P (f a)"
  shows "settles_one P (bindR m f)"
  unfolding settles_one_def
proof (intro allI impI)
  fix b r t assume "bindR m f b = (r, t)"
  then show "(settled_batches t = settled_batches b \<and> isl r)
     \<or> (\<exists>s. P s \<and> \<not> mhas (settled_batches b) (settlementKey s)
          \<and> settled_batches t = mset_at (settlementKey s) s (settled_batches b)
          \<and> (r = Inr s \<or> isl r))"
  proof (cases rule: bindR_cases)
    case (thrown e)
    with assms(1) show ?thesis by (metis framesR_def isl_def snd_conv)
  next
    case (returned a u)
    from assms(1) returned(1) have "settled_batches u = settled_batches b" by (metis framesR_def snd_conv)
    with assms(2) [of a] returned(2) show ?thesis unfolding settles_one_def by metis
  qed
qed

lemma settles_one_seq:
  "framesR settled_batches m \<Longrightarrow> settles_one P n \<Longrightarrow> settles_one P (seqR m n)"
  unfolding seqR_def by (rule settles_one_bind)

lemma settles_one_commit:
  assumes "P (ebt_settlement tr)" and tail: "\<And>s. framesR settled_batches (tail s)"
    and keep: "\<And>s b r t. tail s b = (r, t) \<Longrightarrow> r = Inr s \<or> isl r"
  shows "settles_one P (bindR (runPhase p (on_executor
     (commitExternalBatchSettlement h now settledAt tr verified))) tail)"
  unfolding settles_one_def
proof (intro allI impI)
  fix b r t
  assume run: "bindR (runPhase p (on_executor
     (commitExternalBatchSettlement h now settledAt tr verified))) tail b = (r, t)"
  obtain q e where q: "commitExternalBatchSettlement h now settledAt tr verified (bex_executor b) = (q, e)"
    by fastforce
  note effect = commit_settlements [OF q]
  from run show "(settled_batches t = settled_batches b \<and> isl r)
     \<or> (\<exists>s. P s \<and> \<not> mhas (settled_batches b) (settlementKey s)
          \<and> settled_batches t = mset_at (settlementKey s) s (settled_batches b)
          \<and> (r = Inr s \<or> isl r))"
  proof (cases rule: bindR_cases)
    case (thrown x)
    with q effect show ?thesis by (auto simp: runPhase_def on_executor_def split: sum.splits)
  next
    case (returned s u)
    then have "q = Inr s" "u = b\<lparr>bex_executor := e\<rparr>"
      using q by (auto simp: runPhase_def on_executor_def split: sum.splits)
    moreover have "settled_batches t = settled_batches u"
      using tail [of s] returned(2) by (metis framesR_def snd_conv)
    ultimately show ?thesis
      using effect assms(1) keep [OF returned(2)] by auto
  qed
qed

text \<open>What holds of the settlement that a run commits.\<close>

definition relayed_run :: "BatchExecutorConfig \<Rightarrow> batch_ports \<Rightarrow> BatchSettlement \<Rightarrow> bool" where
  "relayed_run config ports s \<longleftrightarrow> (\<exists>transcript relay confirmed.
     s = ebt_settlement (withOnchainTransactions transcript relay confirmed)
     \<and> (bxc_settlementsOnchainRequired config \<longrightarrow> confirmed
        \<and> (isSettledOnchain ports False (ebt_settlement transcript)
           \<or> isSettledOnchain ports True (ebt_settlement transcript) \<and> hasSubmittedProofVerification relay)))"

lemma relayedI:
  assumes "bxc_settlementsOnchainRequired config \<Longrightarrow> confirmed
        \<and> (isSettledOnchain ports False (ebt_settlement transcript)
           \<or> isSettledOnchain ports True (ebt_settlement transcript) \<and> hasSubmittedProofVerification relay)"
  shows "relayed_run config ports (ebt_settlement (withOnchainTransactions transcript relay confirmed))"
  unfolding relayed_run_def using assms by blast

lemma tail_returns:
  "seqR m (seqR m' (seqR m'' (plainR (returnA s)))) b = (r, t) \<Longrightarrow> r = Inr s \<or> isl r"
  by (auto simp: seqR_def bindR_def plainR_def returnA_def split: prod.splits sum.splits)

lemma settles_one_commitRun:
  assumes "ports_frame config ports" and "P (ebt_settlement tr)"
  shows "settles_one P (commitRun h config ports clock batchId m runId startedAt cs tr verified)"
  unfolding commitRun_def
proof (intro settles_one_seq frames_enterPhase [OF assms(1)] settles_one_commit)
  show "P (ebt_settlement tr)" by fact
next
  fix s
  show "framesR settled_batches
     (seqR (enterPhase ports clock batchId m runId startedAt cs PhMakerFinalize (Some (bs_settlementDigest s)))
       (seqR (runPhase PhMakerFinalize (optional_port (\<lambda>finalize. finalize s) (bpo_finalizeSettlement ports)))
         (seqR (runPhase PhMakerFinalize (on_executor (bpo_flush ports))) (plainR (returnA s)))))"
    by (intro framesR_rules frames_enterPhase [OF assms(1)] frames_optional frames_on_executor frames_return)
      (use assms(1) in \<open>auto simp: ports_frame_def Let_def\<close>)
qed (rule tail_returns)

lemma frames_relay:
  assumes "ports_frame config ports"
  shows "frames settled_batches (trySettleOnchain config ports s)"
proof (cases "bpo_settleBatch ports")
  case None
  then show ?thesis by (simp add: frames_def trySettleOnchain_def)
next
  case (Some f)
  then have "frames settled_batches (on_executor (f s))"
    using assms by (intro frames_on_executor) (auto simp: ports_frame_def Let_def)
  with Some show ?thesis
    by (auto simp: frames_def trySettleOnchain_def split: prod.splits sum.splits) (metis snd_conv)+
qed

lemma settles_one_settleRun:
  assumes frame: "ports_frame config ports"
  shows "settles_one (relayed_run config ports) (settleRun h config ports clock batchId m runId startedAt cs)"
proof -
  have "settles_one (relayed_run config ports) (relayRun h config ports clock batchId m runId startedAt cs tr)" for tr
    unfolding relayRun_def Let_def assertSettlementOrdersActive_def
  proof (intro settles_one_seq settles_one_bind frames_enterPhase [OF frame] framesR_rules frames_lift)
    let ?b = "ebt_settlement tr"
    show "framesR settled_batches (if isSettledOnchain ports False ?b then plainR (returnA None)
        else runPhase PhBatchSettlement (trySettleOnchain config ports ?b))"
      using frames_relay [OF frame] by (auto intro: framesR_rules)
    fix relay
    let ?sure = "isSettledOnchain ports False ?b \<or> isSettledOnchain ports True ?b"
    let ?verified = "isSettledOnchain ports False ?b \<or> hasSubmittedProofVerification relay"
    show "settles_one (relayed_run config ports)
       (if bxc_settlementsOnchainRequired config \<and> \<not> ?sure
        then plainR (throwA ''batch settlement and fee allocation are not confirmed on-chain'')
        else if bxc_settlementsOnchainRequired config \<and> \<not> ?verified
        then plainR (throwA ''settlements require on-chain relay'')
        else commitRun h config ports clock batchId m runId startedAt cs
               (withOnchainTransactions tr relay ?sure) (?verified \<or> \<not> bxc_settlementsOnchainRequired config))"
    proof (cases "bxc_settlementsOnchainRequired config \<and> (\<not> ?sure \<or> \<not> ?verified)")
      case True
      then show ?thesis by (auto intro: settles_one_throw)
    next
      case False
      then have "relayed_run config ports (ebt_settlement (withOnchainTransactions tr relay ?sure))"
        by (intro relayedI) blast
      then have "settles_one (relayed_run config ports) (commitRun h config ports clock batchId m runId startedAt cs
               (withOnchainTransactions tr relay ?sure) (?verified \<or> \<not> bxc_settlementsOnchainRequired config))"
        by (rule settles_one_commitRun [OF frame])
      moreover have "\<not> (bxc_settlementsOnchainRequired config \<and> \<not> ?sure)"
        "\<not> (bxc_settlementsOnchainRequired config \<and> \<not> ?verified)" using False by blast+
      ultimately show ?thesis by (simp only: if_False)
    qed
  qed
  then show ?thesis
    unfolding settleRun_def
    by (auto intro!: settles_one_throw settles_one_seq settles_one_bind frames_enterPhase [OF frame]
        framesR_rules frames_on_executor) (use frame in \<open>auto simp: ports_frame_def Let_def\<close>)
qed

lemma find_SomeD: "find P xs = Some x \<Longrightarrow> x \<in> set xs \<and> P x"
  by (induction xs) (auto split: if_splits)

lemma failedRun_frame:
  "settled_batches (snd (failedRun clock batchId m runId startedAt cs err b)) = settled_batches b"
  by (cases err) (simp add: failedRun_def Let_def recordRun_frame)

lemma recordRun_record:
  "ber_marketId (bmr_record (fst (recordRun now u cs b))) = ru_marketId u"
  "bmr_marketId (fst (recordRun now u cs b)) = ru_marketId u"
  "ber_runId (bmr_record (fst (recordRun now u cs b))) = ru_runId u"
  "ber_batchId (bmr_record (fst (recordRun now u cs b))) = ru_batchId u"
  "ber_status (bmr_record (fst (recordRun now u cs b))) = ru_status u"
  "ru_completedAt u \<noteq> None \<Longrightarrow> ber_completedAt (bmr_record (fst (recordRun now u cs b))) = ru_completedAt u"
  "ru_reason u \<noteq> None \<Longrightarrow> ber_reason (bmr_record (fst (recordRun now u cs b))) = ru_reason u"
  "ru_settlementDigest u \<noteq> None
    \<Longrightarrow> ber_settlementDigest (bmr_record (fst (recordRun now u cs b))) = ru_settlementDigest u"
  "ru_fillCount u \<noteq> None \<Longrightarrow> ber_fillCount (bmr_record (fst (recordRun now u cs b))) = ru_fillCount u"
  "ru_aggregateVolume u \<noteq> None
    \<Longrightarrow> ber_aggregateVolume (bmr_record (fst (recordRun now u cs b))) = ru_aggregateVolume u"
  by (auto simp: recordRun_def enrichRunRecord_def Let_def or_else_def)

text \<open>A run and the cooldowns: the phases never touch them.\<close>

lemma retry_on_executor: "bex_batchRetryAfter (snd (on_executor m b)) = bex_batchRetryAfter b"
  by (simp add: on_executor_def split: prod.splits)

lemma frames_retry_executor [simp]: "frames bex_batchRetryAfter (on_executor m)"
  by (simp add: frames_def retry_on_executor)

lemma frames_retry_phases:
  "framesR bex_batchRetryAfter (progress ports now u cs)"
  "frames bex_batchRetryAfter (optional_port call port)"
  "frames bex_batchRetryAfter (assertPositionRootSynchronized h config ports)"
  "frames bex_batchRetryAfter (refreshMarketOracleIfNeeded config m startedAt)"
  "frames bex_batchRetryAfter (assertSettlementOrdersActive s)"
  "frames bex_batchRetryAfter (trySettleOnchain config ports s)"
proof -
  show "framesR bex_batchRetryAfter (progress ports now u cs)"
    unfolding progress_def
    by (intro framesR_rules frames_seq) (simp_all add: frames_def recordRun_frame retry_on_executor)
  show "frames bex_batchRetryAfter (optional_port call port)"
    by (cases port) (simp_all add: optional_port_def)
  show "frames bex_batchRetryAfter (assertPositionRootSynchronized h config ports)"
    by (simp add: assertPositionRootSynchronized_def)
  show "frames bex_batchRetryAfter (refreshMarketOracleIfNeeded config m startedAt)"
  proof (cases "bxc_refreshMarketOracle config")
    case (Some f)
    have "frames bex_batchRetryAfter (seqA (on_executor (f m)) (modifyA (\<lambda>b. b\<lparr>bex_oracleRefreshAfter := g b\<rparr>)))" for g
      by (intro frames_seq) simp_all
    then show ?thesis using Some by (simp add: frames_def refreshMarketOracleIfNeeded_def)
  qed (simp add: frames_def refreshMarketOracleIfNeeded_def)
  show "frames bex_batchRetryAfter (assertSettlementOrdersActive s)"
    by (simp add: assertSettlementOrdersActive_def)
  show "frames bex_batchRetryAfter (trySettleOnchain config ports s)"
  proof (cases "bpo_settleBatch ports")
    case (Some f)
    have "bex_batchRetryAfter t = bex_batchRetryAfter b" if "on_executor (f s) b = (r, t)" for b r t
      using retry_on_executor [of "f s" b] that by simp
    then show ?thesis using Some
      by (auto simp: frames_def trySettleOnchain_def split: prod.splits sum.splits)
  qed (simp add: frames_def trySettleOnchain_def)
qed

lemma frames_retry_run:
  "framesR bex_batchRetryAfter (prepareRun h config ports clock batchId m runId startedAt cs)"
  "framesR bex_batchRetryAfter (settleRun h config ports clock batchId m runId startedAt cs)"
proof -
  note rules = framesR_rules frames_retry_phases frames_retry_executor
  have enter: "framesR bex_batchRetryAfter (enterPhase ports clock batchId m runId startedAt cs p d)" for p d cs
    unfolding enterPhase_def Let_def by (rule frames_retry_phases)
  show "framesR bex_batchRetryAfter (prepareRun h config ports clock batchId m runId startedAt cs)"
    unfolding prepareRun_def by (intro rules enter)
  have commit: "framesR bex_batchRetryAfter (commitRun h config ports clock batchId m runId startedAt cs tr v)" for tr v
    unfolding commitRun_def by (intro rules enter frames_return)
  have relay: "framesR bex_batchRetryAfter (relayRun h config ports clock batchId m runId startedAt cs tr)" for tr
    unfolding relayRun_def Let_def by (auto intro!: rules enter commit)
  show "framesR bex_batchRetryAfter (settleRun h config ports clock batchId m runId startedAt cs)"
    unfolding settleRun_def by (auto intro!: rules enter relay)
qed

subsection \<open>Properties\<close>

text \<open>Whatever its services do, a run of a batch ends with a record of the run, the market and the
  batch that says when it completed and how. It is skipped exactly for the reasons that are no failures; a
  failure makes the batch wait for a minute and missing liquidity for half a minute; and a settled run
  leaves the waiting times alone.\<close>
theorem batch_run_recorded:
  "case batch_runMarket h config ports clock input m startedAt b of (res, b') \<Rightarrow>
     let r = bmr_record res; batchId = batchIdForMarket h config input m startedAt (bex_store b);
         wait = (\<lambda>ms. mset_at batchId (clock AtRetry + ms) (bex_batchRetryAfter b))
     in bmr_marketId res = m \<and> ber_marketId r = m \<and> ber_batchId r = batchId
      \<and> ber_runId r = batchRunId h batchId m startedAt \<and> ber_completedAt r = Some (clock AtEnd)
      \<and> (case ber_status r of
           RunRunning \<Rightarrow> False
         | RunSettled \<Rightarrow> bex_batchRetryAfter b' = bex_batchRetryAfter b
         | RunFailed \<Rightarrow> (\<exists>reason. ber_reason r = Some reason \<and> \<not> shouldSkip reason
             \<and> bex_batchRetryAfter b' = wait FAILED_BATCH_RETRY_COOLDOWN_MS)
         | RunSkipped \<Rightarrow> (\<exists>reason. ber_reason r = Some reason \<and> shouldSkip reason
             \<and> bex_batchRetryAfter b' = (if str_includes reason ''batch has no crossed liquidity''
                 then wait MISSING_LIQUIDITY_RETRY_COOLDOWN_MS else bex_batchRetryAfter b)))"
proof -
  let ?batchId = "batchIdForMarket h config input m startedAt (bex_store b)"
  let ?runId = "batchRunId h ?batchId m startedAt"
  let ?before = "activeIntentCommitments m (bex_store b)"
  define ok where "ok = (\<lambda>(res :: BatchExecutorMarketResult, b' :: BatchExecutorService).
     let r = bmr_record res;
         wait = (\<lambda>ms. mset_at ?batchId (clock AtRetry + ms) (bex_batchRetryAfter b))
     in bmr_marketId res = m \<and> ber_marketId r = m \<and> ber_batchId r = ?batchId
      \<and> ber_runId r = ?runId \<and> ber_completedAt r = Some (clock AtEnd)
      \<and> (case ber_status r of
           RunRunning \<Rightarrow> False
         | RunSettled \<Rightarrow> bex_batchRetryAfter b' = bex_batchRetryAfter b
         | RunFailed \<Rightarrow> (\<exists>reason. ber_reason r = Some reason \<and> \<not> shouldSkip reason
             \<and> bex_batchRetryAfter b' = wait FAILED_BATCH_RETRY_COOLDOWN_MS)
         | RunSkipped \<Rightarrow> (\<exists>reason. ber_reason r = Some reason \<and> shouldSkip reason
             \<and> bex_batchRetryAfter b' = (if str_includes reason ''batch has no crossed liquidity''
                 then wait MISSING_LIQUIDITY_RETRY_COOLDOWN_MS else bex_batchRetryAfter b))))"
  have crossed: "str_includes reason ''batch has no crossed liquidity'' \<Longrightarrow> shouldSkip reason" for reason
    by (simp add: shouldSkip_def)
  have failed: "ok (failedRun clock ?batchId m ?runId startedAt cs err c)"
    if "bex_batchRetryAfter c = bex_batchRetryAfter b" for cs err c
    using that crossed [of "snd err"]
    by (cases err) (auto simp: ok_def failedRun_def Let_def case_prod_unfold recordRun_record recordRun_frame)
  have settled: "ok (settledRun clock ?batchId m ?runId startedAt cs s c)"
    if "bex_batchRetryAfter c = bex_batchRetryAfter b" for cs s c
    using that by (simp add: ok_def settledRun_def Let_def case_prod_unfold recordRun_record recordRun_frame)
  obtain r1 c where c: "prepareRun h config ports clock ?batchId m ?runId startedAt ?before b = (r1, c)"
    by fastforce
  have cf: "bex_batchRetryAfter c = bex_batchRetryAfter b"
    using frames_retry_run(1) c unfolding framesR_def by (metis snd_conv)
  obtain r2 d where d: "settleRun h config ports clock ?batchId m ?runId startedAt
      (activeIntentCommitments m (bex_store c)) c = (r2, d)" by fastforce
  have df: "bex_batchRetryAfter d = bex_batchRetryAfter b"
    using frames_retry_run(2) d cf unfolding framesR_def by (metis snd_conv)
  have "ok (batch_runMarket h config ports clock input m startedAt b)"
    using failed [OF cf] failed [OF df] settled [OF df] unfolding batch_runMarket_def Let_def c
    by (cases r1; cases r2) (simp_all add: d)
  then show ?thesis by (simp only: ok_def Let_def)
qed


text \<open>A chain that never confirms: the relay is asked, but nothing is committed.\<close>

definition demo_batch_config :: BatchExecutorConfig where
  "demo_batch_config = \<lparr>bxc_batchIdPrefix = None, bxc_intervalMs = 5000, bxc_oracleRefreshIntervalMs = None,
     bxc_refreshMarketOracle = None, bxc_sampleFundingPremium = None,
     bxc_settlementsOnchainRequired = True\<rparr>"

definition demo_batch_ports :: batch_ports where
  "demo_batch_ports = \<lparr>bpo_positionRoot = None, bpo_isBatchSettled = Some (\<lambda>_ _ _ _. Inr False),
     bpo_settleBatch = Some (\<lambda>_. returnA []),
     bpo_createSettlementTranscript = (\<lambda>_ _ _. returnA (demo_transcript [])),
     bpo_ensureForMarket = None, bpo_finalizeSettlement = None, bpo_flush = returnA ()\<rparr>"

definition demo_batch_input :: RunBatchExecutorInput where
  "demo_batch_input = \<lparr>rbi_batchIdPrefix = None, rbi_marketId = None, rbi_now = Some 0\<rparr>"


end
