(* ===== verification/Prover_Artifacts.thy ===== *)
theory Prover_Artifacts
  imports Settlement_Proof Funding_Engine
begin

text \<open>
  How proofs become files: \<^verbatim>\<open>packages/proof-system/src/circuits.ts\<close> (the circuits and the hashes of
  their sources), \<^verbatim>\<open>artifact.ts\<close> (the inputs of \<open>nargo\<close> as TOML, the commands, the hashes of what they
  write) and \<^verbatim>\<open>server/src/shared/proofs/artifact-registry.ts\<close>. Files are a map from paths to their bytes, as text;
  the sources are ASCII. What a command does to the files is a parameter.
\<close>

subsection \<open>Files\<close>

type_synonym files = "(string, string) jsmap"

definition hex_of_bytes :: "string \<Rightarrow> string" where
  "hex_of_bytes bytes = concat (map (\<lambda>c. pad_start 2 CHR ''0'' (nat_str 16 (of_char c))) bytes)"

definition readFile :: "string \<Rightarrow> files \<Rightarrow> string result" where
  "readFile path fs = (case mget fs path of None \<Rightarrow> throw (''ENOENT: '' @ path) | Some c \<Rightarrow> Inr c)"

definition hashFile :: "host \<Rightarrow> string \<Rightarrow> files \<Rightarrow> Hex result" where
  "hashFile h path fs =
     bindE (readFile path fs) (\<lambda>content. Inr (''0x'' @ sha256_bytes h (hex_of_bytes content)))"

definition join_path :: "string list \<Rightarrow> string" where
  "join_path = js_join ''/''"

subsection \<open>circuits.ts\<close>

record CircuitDef =
  cd_id :: string
  cd_packageName :: string
  cd_dir :: string

definition CIRCUITS :: "CircuitDef list" where
  "CIRCUITS = map (\<lambda>(i, p). \<lparr>cd_id = i, cd_packageName = p, cd_dir = ''circuits/'' @ i\<rparr>)
     [(''conditional-close'', ''conditional_close''), (''deposit-note'', ''deposit_note''),
      (''disclosure'', ''disclosure''), (''funding-update'', ''funding_update''),
      (''intent-validity'', ''intent_validity''), (''liquidation-check'', ''liquidation_check''),
      (''margin-check'', ''margin_check''), (''position-close'', ''position_close''),
      (''position-transition'', ''position_transition''), (''withdraw'', ''withdraw'')]"

definition circuitDef :: "string \<Rightarrow> CircuitDef result" where
  "circuitDef circuitId = (case List.find (\<lambda>c. cd_id c = circuitId) CIRCUITS of
     None \<Rightarrow> throw (''unknown circuit: '' @ circuitId) | Some c \<Rightarrow> Inr c)"

definition loadCircuit :: "host \<Rightarrow> string \<Rightarrow> string \<Rightarrow> files \<Rightarrow> CircuitMeta result" where
  "loadCircuit h rt circuitId fs =
     bindE (circuitDef circuitId) (\<lambda>circuit.
     bindE (readFile (join_path [rt, cd_dir circuit, ''Nargo.toml'']) fs) (\<lambda>nargo.
     bindE (readFile (join_path [rt, cd_dir circuit, ''src/main.nr'']) fs) (\<lambda>main.
       let sourceHash = hashFields h ''circuit-source''
             [JStr (cd_id circuit), JStr (cd_packageName circuit), JStr nargo, JStr main];
           vkPath = join_path [rt, cd_dir circuit, ''target/bb/vk'']
       in bindE (if mhas fs vkPath then hashFile h vkPath fs
                 else Inr (hashFields h ''circuit-verifier'' [JStr (cd_id circuit), JStr sourceHash]))
            (\<lambda>verifierHash. Inr \<lparr>cm_id = cd_id circuit, cm_sourceHash = sourceHash,
               cm_verifierHash = verifierHash\<rparr>))))"

subsection \<open>The inputs of a circuit\<close>

datatype prover_value = PvBig int | PvBool bool | PvNum rat | PvStr string | PvArr "prover_value list"

type_synonym prover_input = "(string \<times> prover_value) list"

text \<open>The test \<open>/^-?\d+$/\<close>; then \<open>JSON.stringify\<close> of a text without control characters.\<close>

definition decimal_digits :: "string \<Rightarrow> bool" where
  "decimal_digits s = (s \<noteq> [] \<and> list_all (\<lambda>c. List.member ''0123456789'' c) s)"

definition is_integer_text :: "string \<Rightarrow> bool" where
  "is_integer_text s = (case s of CHR ''-'' # ds \<Rightarrow> decimal_digits ds | _ \<Rightarrow> decimal_digits s)"

definition json_text :: "string \<Rightarrow> string" where
  "json_text s = CHR 0x22 # concat (map (\<lambda>c. if c = CHR 0x22 \<or> c = CHR 0x5C then [CHR 0x5C, c] else [c]) s)
     @ [CHR 0x22]"

primrec tomlValue :: "prover_value \<Rightarrow> string" where
  "tomlValue (PvArr vs) = ''['' @ js_join '', '' (map tomlValue vs) @ '']''"
| "tomlValue (PvBool b) = (if b then ''true'' else ''false'')"
| "tomlValue (PvBig v) = int_str v"
| "tomlValue (PvNum v) = int_str (math_trunc v)"
| "tomlValue (PvStr s) = (if is_integer_text s then s else json_text s)"

definition writeProverInput :: "string \<Rightarrow> prover_input \<Rightarrow> files \<Rightarrow> files" where
  "writeProverInput path ins fs =
     mset_at path (js_join [CHR 0x0A] (map (\<lambda>(k, v). k @ '' = '' @ tomlValue v) ins) @ [CHR 0x0A]) fs"

subsection \<open>artifact.ts\<close>

definition clean_char :: "char \<Rightarrow> char" where
  "clean_char c = (if List.member ''abcdefghijklmnopqrstuvwxyz0123456789_-'' c then c else CHR ''-'')"

definition cleanArtifactName :: "string \<Rightarrow> string option \<Rightarrow> string result" where
  "cleanArtifactName circuitId given =
     (let clean = map clean_char (map lower_char (nullish given circuitId))
      in if clean = [] then throw ''invalid proof artifact name'' else Inr clean)"

record ProofArtifactPlan =
  pap_bytecodePath :: string
  pap_commands :: "(string \<times> string list) list"
  pap_dir :: string
  pap_id :: string
  pap_proofPath :: string
  pap_publicInputsPath :: string
  pap_vkPath :: string
  pap_witnessPath :: string

text \<open>\<open>spawnSync\<close> of a command in a directory: what it writes, or its failure.\<close>

record prover_env =
  pe_host :: host
  pe_root :: string
  pe_run :: "string \<Rightarrow> string \<times> string list \<Rightarrow> (files, unit) act"
  pe_from_base64 :: "string \<Rightarrow> string"

definition prepareProofArtifact ::
  "prover_env \<Rightarrow> string \<Rightarrow> string option \<Rightarrow> prover_input option \<Rightarrow> (files, ProofArtifactPlan) act" where
  "prepareProofArtifact e circuitId given ins fs =
     (case bindE (loadCircuit (pe_host e) (pe_root e) circuitId fs) (\<lambda>_.
           bindE (circuitDef circuitId) (\<lambda>circuit.
           bindE (cleanArtifactName circuitId given) (\<lambda>name. Inr (circuit, name)))) of
        Inl err \<Rightarrow> (Inl err, fs)
      | Inr (circuit, name) \<Rightarrow>
          let dir = join_path [pe_root e, cd_dir circuit];
              target = join_path [dir, ''target''];
              isCustom = (ins \<noteq> None);
              bbDir = (if isCustom then join_path [target, ''bb'', name] else join_path [target, ''bb'']);
              bytecodePath = join_path [target, cd_packageName circuit @ ''.json''];
              witnessPath = join_path [target, (if isCustom then name else cd_packageName circuit) @ ''.gz''];
              proofPath = join_path [bbDir, ''proof''];
              publicInputsPath = join_path [bbDir, ''public_inputs''];
              vkPath = join_path [bbDir, ''vk''];
              proverPath = join_path [target, ''provers'', name @ ''.toml'']
          in if ins = None \<and> \<not> mhas fs (join_path [dir, ''Prover.toml''])
             then (throw (''missing prover inputs for '' @ circuitId), fs)
             else
               let written = (case ins of None \<Rightarrow> fs | Some given \<Rightarrow> writeProverInput proverPath given fs);
                   cleared = filter (\<lambda>(p, c). take (Suc (length bbDir)) p \<noteq> bbDir @ ''/'') written
               in (Inr \<lparr>pap_bytecodePath = bytecodePath,
                    pap_commands =
                      [(''nargo'', if isCustom then [''execute'', ''-p'', ''target/provers/'' @ name, name]
                                   else [''execute'']),
                       (''nargo'', [''compile'']),
                       (''bb'', [''prove'', ''-s'', ''ultra_honk'', ''-b'', bytecodePath, ''-w'', witnessPath,
                                 ''-o'', bbDir, ''--write_vk'', ''--oracle_hash'', ''keccak'']),
                       (''bb'', [''verify'', ''-s'', ''ultra_honk'', ''-i'', publicInputsPath, ''-p'', proofPath,
                                 ''-k'', vkPath, ''--oracle_hash'', ''keccak''])],
                    pap_dir = dir, pap_id = circuitId, pap_proofPath = proofPath,
                    pap_publicInputsPath = publicInputsPath, pap_vkPath = vkPath,
                    pap_witnessPath = witnessPath\<rparr>, cleared))"

definition completeProofArtifact :: "host \<Rightarrow> ProofArtifactPlan \<Rightarrow> files \<Rightarrow> ProofArtifact result" where
  "completeProofArtifact h plan fs =
     bindE (hashFile h (pap_bytecodePath plan) fs) (\<lambda>bytecodeHash.
     bindE (hashFile h (pap_witnessPath plan) fs) (\<lambda>witnessHash.
     bindE (hashFile h (pap_proofPath plan) fs) (\<lambda>proofHash.
     bindE (hashFile h (pap_publicInputsPath plan) fs) (\<lambda>publicInputsHash.
     bindE (hashFile h (pap_vkPath plan) fs) (\<lambda>vkHash.
       Inr \<lparr>pa_circuitId = pap_id plan, pa_circuitKey = circuitKey h (pap_id plan),
            pa_bytecodeHash = bytecodeHash, pa_witnessHash = witnessHash, pa_proofHash = proofHash,
            pa_publicInputsHash = publicInputsHash, pa_vkHash = vkHash,
            pa_proofPath = pap_proofPath plan, pa_publicInputsPath = pap_publicInputsPath plan,
            pa_vkPath = pap_vkPath plan\<rparr>)))))"

definition buildProofArtifact ::
  "prover_env \<Rightarrow> string \<Rightarrow> string option \<Rightarrow> prover_input option \<Rightarrow> (files, ProofArtifact) act" where
  "buildProofArtifact e circuitId given ins =
     bindA (prepareProofArtifact e circuitId given ins) (\<lambda>plan.
     seqA (eachA (pe_run e (pap_dir plan)) (pap_commands plan))
       (liftA (completeProofArtifact (pe_host e) plan)))"

subsection \<open>artifact-registry.ts\<close>

text \<open>
  The registry keeps each artifact in a file of its own whose name is the digest of the key, and reads
  an older file with all artifacts when that is missing. An entry whose JSON does not parse is \<open>None\<close>.
\<close>

record ProofArtifactRegistry =
  par_artifacts :: "(string, ProofArtifact) jsmap"
  par_path :: string
  par_snapshot :: "(string \<times> ProofArtifact) list option"
  par_entries :: "(string, (ProofArtifact \<times> string) option) jsmap"

definition entryPath :: "host \<Rightarrow> ProofArtifactRegistry \<Rightarrow> string \<Rightarrow> string" where
  "entryPath h r key = join_path [par_path r @ ''.d'', sha256_hex h key @ ''.json'']"

definition load_registry :: "ProofArtifactRegistry \<Rightarrow> ProofArtifactRegistry" where
  "load_registry r = (case par_snapshot r of None \<Rightarrow> r | Some es \<Rightarrow> r\<lparr>par_artifacts := map_new es\<rparr>)"

definition readEntry :: "host \<Rightarrow> ProofArtifactRegistry \<Rightarrow> string \<Rightarrow> ProofArtifact option" where
  "readEntry h r key = (case mget (par_entries r) (entryPath h r key) of
     Some (Some (artifact, k)) \<Rightarrow> if k = key then Some artifact else None | _ \<Rightarrow> None)"

definition writeEntry :: "host \<Rightarrow> string \<Rightarrow> ProofArtifact \<Rightarrow> ProofArtifactRegistry \<Rightarrow> ProofArtifactRegistry" where
  "writeEntry h key artifact r =
     r\<lparr>par_entries := mset_at (entryPath h r key) (Some (artifact, key)) (par_entries r)\<rparr>"

definition registry_get ::
  "host \<Rightarrow> files \<Rightarrow> ProofMeta \<Rightarrow> ProofArtifactRegistry \<Rightarrow> ProofArtifact option \<times> ProofArtifactRegistry" where
  "registry_get h fs pf r =
     (let key = proofKey pf;
          (found, r') = (case readEntry h r key of
             Some a \<Rightarrow> (Some a, r)
           | None \<Rightarrow> (let r' = load_registry r in (mget (par_artifacts r') key, r')))
      in (case found of
            None \<Rightarrow> None
          | Some a \<Rightarrow> if \<not> mhas fs (pa_proofPath a) \<or> \<not> mhas fs (pa_publicInputsPath a) then None else Some a,
          r'))"

definition registry_set :: "host \<Rightarrow> ProofMeta \<Rightarrow> ProofArtifact \<Rightarrow> ProofArtifactRegistry \<Rightarrow> ProofArtifactRegistry" where
  "registry_set h pf artifact r =
     (let key = proofKey pf
      in writeEntry h key artifact (r\<lparr>par_artifacts := mset_at key artifact (par_artifacts r)\<rparr>))"

end
