(* ===== verification/Prover_Service.thy ===== *)
theory Prover_Service
  imports Prover_Artifacts
begin

text \<open>
  \<^verbatim>\<open>server/src/workers/prover/prover.service.ts\<close>: the checks that the server makes before it proves
  something, the witness it hands to the circuit, the record it returns, and the checks of a proof that
  a client brought. Each \<open>prove...\<close> is a plan (checks, digest of the public inputs, name and inputs of the
  artifact, record without its proof) and one common run of it.
\<close>

subsection \<open>Witnesses (packages/protocol-types)\<close>

record IntentValidityWitness =
  ivw_assetDigest :: Hex
  ivw_blinding :: Hex
  ivw_changeBlinding :: Hex
  ivw_changeRhoDigest :: Hex
  ivw_currentBatch :: int
  ivw_expiryBatch :: int
  ivw_intent :: TradeIntent
  ivw_marginRoot :: Hex
  ivw_noteAmount :: int
  ivw_noteChangeCommitment :: Hex
  ivw_noteCommitment :: Hex
  ivw_ownerDigest :: Hex
  ivw_pathIndices :: "bool list"
  ivw_pathSiblings :: "Hex list"
  ivw_rhoDigest :: Hex
  ivw_spendSecretDigest :: Hex

record DepositNoteWitness =
  dnw_amount :: int
  dnw_blinding :: Hex
  dnw_commitment :: Hex
  dnw_ownerDigest :: Hex
  dnw_rhoDigest :: Hex
  dnw_tokenDigest :: Hex

record LiquidationWitness =
  lw_marketId :: string
  lw_positionCommitment :: Hex
  lw_positionNullifier :: Hex
  lw_positionRoot :: Hex
  lw_rewardCommitment :: Hex
  lw_side :: side
  lw_size :: int
  lw_entryPrice :: int
  lw_markPrice :: int
  lw_margin :: int
  lw_fundingPayment :: int
  lw_fundingIndex :: int
  lw_maintenanceRate :: int
  lw_marketDigest :: Hex
  lw_ownerDigest :: Hex
  lw_rhoDigest :: Hex
  lw_blinding :: Hex
  lw_spendSecretDigest :: Hex
  lw_pathIndices :: "bool list"
  lw_pathSiblings :: "Hex list"

record PositionCloseWitness =
  pcw_marketId :: string
  pcw_positionCommitment :: Hex
  pcw_positionNullifier :: Hex
  pcw_positionRoot :: Hex
  pcw_closeCommitment :: Hex
  pcw_side :: side
  pcw_size :: int
  pcw_closeSize :: int
  pcw_entryPrice :: int
  pcw_markPrice :: int
  pcw_margin :: int
  pcw_fundingIndex :: int
  pcw_fundingPayment :: int
  pcw_fee :: int
  pcw_newMargin :: int
  pcw_remainingMargin :: int
  pcw_marginOutputAmount :: int
  pcw_newPositionCommitment :: Hex
  pcw_marginOutputCommitment :: Hex
  pcw_marketDigest :: Hex
  pcw_ownerDigest :: Hex
  pcw_rhoDigest :: Hex
  pcw_blinding :: Hex
  pcw_spendSecretDigest :: Hex
  pcw_newPositionRhoDigest :: Hex
  pcw_newPositionBlinding :: Hex
  pcw_marginOutputAssetDigest :: Hex
  pcw_marginOutputRhoDigest :: Hex
  pcw_marginOutputBlinding :: Hex
  pcw_pathIndices :: "bool list"
  pcw_pathSiblings :: "Hex list"

record DisclosureInput =
  di_subject :: Hex
  di_claim :: string
  di_root :: Hex
  di_salt :: string
  di_saltDigest :: Hex
  di_value :: int
  di_threshold :: int
  di_pathIndices :: "bool list"
  di_pathSiblings :: "Hex list"

record WithdrawalRequest =
  wq_assetDigest :: Hex
  wq_blinding :: Hex
  wq_changeBlinding :: "Hex option"
  wq_changeRhoDigest :: "Hex option"
  wq_noteAmount :: int
  wq_noteCommitment :: Hex
  wq_withdrawAmount :: int
  wq_ownerDigest :: Hex
  wq_pathIndices :: "bool list"
  wq_pathSiblings :: "Hex list"
  wq_root :: Hex
  wq_rhoDigest :: Hex
  wq_nullifier :: Hex
  wq_recipient :: Hex
  wq_spendSecretDigest :: Hex
  wq_tokenDigest :: "Hex option"

subsection \<open>Helpers\<close>

definition field_text :: "Hex \<Rightarrow> string result" where
  "field_text v = bindE (bigint_of_hex v) (\<lambda>b. Inr (''0x'' @ nat_str 16 (nat (field_mod b))))"

definition requiredHex :: "Hex option \<Rightarrow> string \<Rightarrow> Hex result" where
  "requiredHex v fieldName = (if \<not> truthy_str v
     then throw (fieldName @ '' is required when withdrawal creates change'') else Inr (the v))"

definition signedFundingWitness :: "int \<Rightarrow> int \<times> bool" where
  "signedFundingWitness payment = (if payment < 0 then (- payment, True) else (payment, False))"

definition signedParts :: "int \<Rightarrow> int \<times> bool" where
  "signedParts v = (if v < 0 then (- v, True) else (v, False))"

definition isConditionalCloseTriggered :: "ConditionalOrderWitness \<Rightarrow> bool" where
  "isConditionalCloseTriggered input =
     (if cow_side input = Long
      then (if cow_kind input = TakeProfit then cow_markPrice input \<ge> cow_triggerPrice input
            else cow_markPrice input \<le> cow_triggerPrice input)
      else (if cow_kind input = TakeProfit then cow_markPrice input \<le> cow_triggerPrice input
            else cow_markPrice input \<ge> cow_triggerPrice input))"

text \<open>An index that the array lacks is \<open>undefined\<close>, which counts as false.\<close>

fun membershipRoot :: "host \<Rightarrow> Hex \<Rightarrow> Hex list \<Rightarrow> bool list \<Rightarrow> Hex result" where
  "membershipRoot h leaf [] indices = Inr leaf"
| "membershipRoot h leaf (s # ss) indices =
     bindE (case indices of True # _ \<Rightarrow> fieldHashPair h (FHex s) (FHex leaf)
            | _ \<Rightarrow> fieldHashPair h (FHex leaf) (FHex s))
       (\<lambda>current. membershipRoot h current ss (tl indices))"

definition artifactName :: "host \<Rightarrow> string \<Rightarrow> jsval list \<Rightarrow> string" where
  "artifactName h prefix parts =
     prefix @ ''-'' @ take 16 (drop 2 (hashFields h ''proof-artifact'' parts))"

text \<open>The entries of an \<open>inputs\<close> object; those that go through \<open>field\<close> are marked.\<close>

datatype input_entry = InBig int | InBool bool | InField Hex | InFields "Hex list" | InBools "bool list"

definition entry_value :: "input_entry \<Rightarrow> prover_value result" where
  "entry_value e = (case e of
     InBig v \<Rightarrow> Inr (PvBig v)
   | InBool b \<Rightarrow> Inr (PvBool b)
   | InField v \<Rightarrow> bindE (field_text v) (\<lambda>t. Inr (PvStr t))
   | InFields vs \<Rightarrow> bindE (mapE field_text vs) (\<lambda>ts. Inr (PvArr (map PvStr ts)))
   | InBools bs \<Rightarrow> Inr (PvArr (map PvBool bs)))"

definition circuit_inputs :: "(string \<times> input_entry) list \<Rightarrow> prover_input result" where
  "circuit_inputs es = mapE (\<lambda>(k, e). bindE (entry_value e) (\<lambda>v. Inr (k, v))) es"

text \<open>What a \<open>prove...\<close> has computed when it calls \<open>buildProofArtifact\<close>.\<close>

record 'r proof_plan =
  pp_publicInputs :: Hex
  pp_name :: string
  pp_inputs :: "(string \<times> input_entry) list"
  pp_record :: "ProofMeta \<Rightarrow> 'r"

subsection \<open>Funding and deposits\<close>

definition fundingSettlementPlan ::
  "host \<Rightarrow> FundingSettlementProofInput \<Rightarrow> FundingSettlementRecord proof_plan result" where
  "fundingSettlementPlan h input =
     bindE (checksE
       [failIf (fsi_newFundingIndex input = fsi_oldFundingIndex input) ''invalid funding index'',
        failIf (fsi_markPrice input \<le> 0) ''mark price must be positive'',
        failIf (fsi_elapsedMs input \<le> 0) ''elapsed time must be positive'',
        failIf (fsi_intervalMs input \<le> 0) ''funding interval must be positive'',
        failIf (\<exists>m\<in>set_option (fsi_maxFundingDelta input). m \<le> 0)
          ''max funding delta must be positive when enabled'']) (\<lambda>_.
     let maxDelta = nullish (fsi_maxFundingDelta input) 0;
         maxDeltaEnabled = (if fsi_maxFundingDelta input = None then 0 else 1 :: int);
         fundingDelta = fsi_newFundingIndex input - fsi_oldFundingIndex input;
         marketDigest = hashFields h ''market-id'' [JStr (fsi_marketId input)];
         oldIndex = signedParts (fsi_oldFundingIndex input);
         newIndex = signedParts (fsi_newFundingIndex input);
         premium = signedParts (fsi_premiumRate input)
     in Inr \<lparr>pp_publicInputs = publicInputDigest h ''funding-update''
            [JStr marketDigest, JBig (fst oldIndex), JBool (snd oldIndex), JBig (fst newIndex),
             JBool (snd newIndex), JBig (fsi_markPrice input), JBig (fst premium), JBool (snd premium),
             JBig (fsi_elapsedMs input), JBig (fsi_intervalMs input), JBig maxDelta, JBig maxDeltaEnabled],
          pp_name = artifactName h ''funding'' [JStr (fsi_marketId input), JBig (fsi_oldFundingIndex input),
            JBig (fsi_newFundingIndex input), JNum (fsi_appliedAt input)],
          pp_inputs =
            [(''market_id'', InField marketDigest), (''old_index_abs'', InBig (fst oldIndex)),
             (''old_index_is_negative'', InBool (snd oldIndex)), (''new_index_abs'', InBig (fst newIndex)),
             (''new_index_is_negative'', InBool (snd newIndex)), (''mark_price'', InBig (fsi_markPrice input)),
             (''premium_rate_abs'', InBig (fst premium)), (''premium_rate_is_negative'', InBool (snd premium)),
             (''elapsed_ms'', InBig (fsi_elapsedMs input)), (''interval_ms'', InBig (fsi_intervalMs input)),
             (''max_delta'', InBig maxDelta), (''max_delta_enabled'', InBig maxDeltaEnabled)],
          pp_record = (\<lambda>pf. \<lparr>fsr_update = \<lparr>fur_appliedAt = fsi_appliedAt input,
               fur_fundingDelta = fundingDelta, fur_marketId = fsi_marketId input,
               fur_newFundingIndex = fsi_newFundingIndex input, fur_oldFundingIndex = fsi_oldFundingIndex input,
               fur_premiumRate = Some (fsi_premiumRate input), fur_premiumSampleCount = None,
               fur_premiumSource = None\<rparr>,
             fsr_elapsedMs = fsi_elapsedMs input, fsr_intervalMs = fsi_intervalMs input,
             fsr_markPrice = fsi_markPrice input, fsr_maxFundingDelta = fsi_maxFundingDelta input,
             fsr_premiumRate = fsi_premiumRate input, fsr_proof = pf\<rparr>)\<rparr>)"

definition depositNotePlan :: "host \<Rightarrow> DepositNoteWitness \<Rightarrow> DepositNoteRecord proof_plan result" where
  "depositNotePlan h input =
     bindE (checksE
       [failIf (dnw_amount input \<le> 0) ''deposit amount must be positive'',
        failIf (dnw_tokenDigest input = ''0x0'') ''deposit token digest is empty'',
        failIf (dnw_commitment input = ''0x0'') ''deposit commitment is empty'']) (\<lambda>_.
     bindE (circuitMarginCommitment h \<lparr>cmn_amount = dnw_amount input, cmn_assetDigest = dnw_tokenDigest input,
       cmn_blinding = dnw_blinding input, cmn_ownerDigest = dnw_ownerDigest input,
       cmn_rhoDigest = dnw_rhoDigest input, cmn_spendSecretDigest = ''0x0''\<rparr>) (\<lambda>commitment.
     bindE (failIf (commitment \<noteq> dnw_commitment input) ''deposit note commitment mismatch'') (\<lambda>_.
     Inr \<lparr>pp_publicInputs = publicInputDigest h ''deposit-note''
            [JBig (dnw_amount input), JStr (dnw_tokenDigest input), JStr (dnw_commitment input)],
          pp_name = artifactName h ''deposit-note''
            [JStr (dnw_tokenDigest input), JStr (dnw_commitment input), JBig (dnw_amount input)],
          pp_inputs =
            [(''amount'', InBig (dnw_amount input)), (''token_digest'', InField (dnw_tokenDigest input)),
             (''commitment'', InField (dnw_commitment input)), (''owner_digest'', InField (dnw_ownerDigest input)),
             (''rho_digest'', InField (dnw_rhoDigest input)), (''blinding'', InField (dnw_blinding input)),
             (''zero_commitment'', InBig 0)],
          pp_record = (\<lambda>pf. \<lparr>dnr_amount = dnw_amount input, dnr_commitment = dnw_commitment input,
             dnr_tokenDigest = dnw_tokenDigest input, dnr_proof = pf\<rparr>)\<rparr>)))"

subsection \<open>Conditional closes and withdrawals\<close>

definition conditionalClosePlan ::
  "host \<Rightarrow> ConditionalOrderWitness \<Rightarrow> ConditionalOrderRecord proof_plan result" where
  "conditionalClosePlan h input =
     bindE (checksE
       [failIf (\<not> cow_reduceOnly input) ''conditional close must be reduce-only'',
        failIf (cow_size input \<le> 0) ''close size must be positive'',
        failIf (cow_triggerPrice input \<le> 0) ''trigger price must be positive'',
        failIf (cow_markPrice input \<le> 0) ''mark price must be positive'',
        failIf (\<not> isConditionalCloseTriggered input) ''conditional close not triggered'']) (\<lambda>_.
     bindE (conditionalOrderBindingFields h input) (\<lambda>binding.
     bindE (commitConditionalOrder h input) (\<lambda>closeCommitment.
     bindE (failIf (closeCommitment \<noteq> cob_closeCommitment binding)
       ''conditional close commitment binding mismatch'') (\<lambda>_.
     Inr \<lparr>pp_publicInputs = publicInputDigest h ''conditional-close''
            [JStr (cow_marketId input), JStr (cow_positionNullifier input), JStr closeCommitment,
             JBig (cow_markPrice input)],
          pp_name = artifactName h ''conditional-close''
            [JStr (cow_positionNullifier input), JStr closeCommitment, JBig (cow_markPrice input)],
          pp_inputs =
            [(''is_long'', InBool (cow_side input = Long)),
             (''is_take_profit'', InBool (cow_kind input = TakeProfit)),
             (''reduce_only'', InBool (cow_reduceOnly input)),
             (''market_digest'', InField (cco_marketDigest binding)),
             (''trigger_price'', InBig (cow_triggerPrice input)),
             (''mark_price'', InBig (cow_markPrice input)), (''size'', InBig (cow_size input)),
             (''position_nullifier'', InField (cow_positionNullifier input)),
             (''close_commitment'', InField closeCommitment),
             (''salt_digest'', InField (cco_saltDigest binding)), (''zero_value'', InBig 0)],
          pp_record = (\<lambda>pf. \<lparr>cor_marketId = cow_marketId input, cor_markPrice = cow_markPrice input,
             cor_positionNullifier = cow_positionNullifier input, cor_closeCommitment = closeCommitment,
             cor_proof = pf, cor_proofVerificationTxHash = None, cor_triggerTxHash = None\<rparr>)\<rparr>))))"

definition pathChecks :: "nat \<Rightarrow> Hex list \<Rightarrow> bool list \<Rightarrow> string \<Rightarrow> unit result list" where
  "pathChecks depth siblings indices e =
     [failIf (length siblings \<noteq> depth) e, failIf (length indices \<noteq> depth) e]"

definition withdrawalPlan :: "host \<Rightarrow> WithdrawalRequest \<Rightarrow> WithdrawalRecord proof_plan result" where
  "withdrawalPlan h input =
     bindE (checksE
       ([failIf (wq_noteAmount input \<le> 0) ''note amount must be positive'',
         failIf (wq_withdrawAmount input \<le> 0) ''withdraw amount must be positive'',
         failIf (wq_withdrawAmount input > wq_noteAmount input) ''withdraw amount exceeds note'']
        @ pathChecks FIELD_MERKLE_DEPTH (wq_pathSiblings input) (wq_pathIndices input)
            ''invalid withdrawal membership path'')) (\<lambda>_.
     bindE (circuitMarginCommitment h \<lparr>cmn_amount = wq_noteAmount input, cmn_assetDigest = wq_assetDigest input,
       cmn_blinding = wq_blinding input, cmn_ownerDigest = wq_ownerDigest input,
       cmn_rhoDigest = wq_rhoDigest input, cmn_spendSecretDigest = wq_spendSecretDigest input\<rparr>)
       (\<lambda>noteCommitment.
     bindE (failIf (noteCommitment \<noteq> wq_noteCommitment input) ''withdrawal note commitment mismatch'') (\<lambda>_.
     bindE (circuitNullifier h (wq_rhoDigest input) (wq_spendSecretDigest input)) (\<lambda>noteNullifier.
     bindE (failIf (noteNullifier \<noteq> wq_nullifier input) ''withdrawal note nullifier mismatch'') (\<lambda>_.
     let change = wq_noteAmount input - wq_withdrawAmount input;
         tokenDigest = nullish (wq_tokenDigest input) (wq_assetDigest input)
     in bindE (failIf (tokenDigest \<noteq> wq_assetDigest input) ''withdrawal token digest mismatch'') (\<lambda>_.
     bindE (if change = 0 then Inr ''0x0''
            else bindE (requiredHex (wq_changeBlinding input) ''changeBlinding'') (\<lambda>changeBlinding.
                 bindE (requiredHex (wq_changeRhoDigest input) ''changeRhoDigest'') (\<lambda>changeRho.
                   circuitMarginCommitment h \<lparr>cmn_amount = change, cmn_assetDigest = wq_assetDigest input,
                     cmn_blinding = changeBlinding, cmn_ownerDigest = wq_ownerDigest input,
                     cmn_rhoDigest = changeRho, cmn_spendSecretDigest = wq_spendSecretDigest input\<rparr>)))
       (\<lambda>changeCommitment.
     Inr \<lparr>pp_publicInputs = publicInputDigest h ''withdraw''
            [JStr (wq_root input), JStr (wq_nullifier input), JStr tokenDigest, JStr (wq_recipient input),
             JBig (wq_withdrawAmount input), JStr changeCommitment],
          pp_name = artifactName h ''withdraw'' [JStr (wq_nullifier input), JBig (wq_withdrawAmount input)],
          pp_inputs =
            [(''note_amount'', InBig (wq_noteAmount input)), (''withdraw_amount'', InBig (wq_withdrawAmount input)),
             (''root'', InField (wq_root input)), (''nullifier'', InField (wq_nullifier input)),
             (''token_digest'', InField tokenDigest), (''recipient_digest'', InField (wq_recipient input)),
             (''change_commitment'', InField changeCommitment), (''asset_digest'', InField (wq_assetDigest input)),
             (''owner_digest'', InField (wq_ownerDigest input)), (''rho_digest'', InField (wq_rhoDigest input)),
             (''blinding'', InField (wq_blinding input)),
             (''spend_secret_digest'', InField (wq_spendSecretDigest input)),
             (''path_siblings'', InFields (wq_pathSiblings input)), (''path_indices'', InBools (wq_pathIndices input)),
             (''change_rho_digest'', InField (nullish (wq_changeRhoDigest input) ''0x0'')),
             (''change_blinding'', InField (nullish (wq_changeBlinding input) ''0x0'')),
             (''zero_value'', InBig 0)],
          pp_record = (\<lambda>pf. \<lparr>wr_root = wq_root input, wr_nullifier = wq_nullifier input,
             wr_recipient = wq_recipient input, wr_tokenDigest = tokenDigest,
             wr_withdrawAmount = wq_withdrawAmount input, wr_changeCommitment = changeCommitment,
             wr_proof = pf\<rparr>)\<rparr>)))))))"

subsection \<open>Liquidations and closes\<close>

text \<open>What \<open>validatePositionOpening\<close> picks of the two witnesses: the position with its path.\<close>

record PositionOpeningWitness = CircuitPositionNoteInput +
  pow_positionCommitment :: Hex
  pow_positionNullifier :: Hex
  pow_pathIndices :: "bool list"
  pow_pathSiblings :: "Hex list"

definition validatePositionOpening :: "host \<Rightarrow> PositionOpeningWitness \<Rightarrow> unit result" where
  "validatePositionOpening h input =
     bindE (checksE (pathChecks POSITION_MERKLE_DEPTH (pow_pathSiblings input) (pow_pathIndices input)
       ''invalid position membership path'')) (\<lambda>_.
     bindE (circuitPositionCommitment h (CircuitPositionNoteInput.truncate input)) (\<lambda>positionCommitment.
     bindE (failIf (positionCommitment \<noteq> pow_positionCommitment input) ''position commitment mismatch'') (\<lambda>_.
     bindE (circuitPositionNullifier h (cpn_rhoDigest input) (cpn_spendSecretDigest input)) (\<lambda>positionNullifier.
     failIf (positionNullifier \<noteq> pow_positionNullifier input) ''position nullifier mismatch''))))"

definition liquidation_opening :: "LiquidationWitness \<Rightarrow> PositionOpeningWitness" where
  "liquidation_opening i = \<lparr>cpn_blinding = lw_blinding i, cpn_entryPrice = lw_entryPrice i,
     cpn_fundingIndex = lw_fundingIndex i, cpn_margin = lw_margin i, cpn_marketDigest = lw_marketDigest i,
     cpn_ownerDigest = lw_ownerDigest i, cpn_rhoDigest = lw_rhoDigest i, cpn_side = lw_side i,
     cpn_size = lw_size i, cpn_spendSecretDigest = lw_spendSecretDigest i,
     pow_positionCommitment = lw_positionCommitment i, pow_positionNullifier = lw_positionNullifier i,
     pow_pathIndices = lw_pathIndices i, pow_pathSiblings = lw_pathSiblings i\<rparr>"

definition close_opening :: "PositionCloseWitness \<Rightarrow> PositionOpeningWitness" where
  "close_opening i = \<lparr>cpn_blinding = pcw_blinding i, cpn_entryPrice = pcw_entryPrice i,
     cpn_fundingIndex = pcw_fundingIndex i, cpn_margin = pcw_margin i, cpn_marketDigest = pcw_marketDigest i,
     cpn_ownerDigest = pcw_ownerDigest i, cpn_rhoDigest = pcw_rhoDigest i, cpn_side = pcw_side i,
     cpn_size = pcw_size i, cpn_spendSecretDigest = pcw_spendSecretDigest i,
     pow_positionCommitment = pcw_positionCommitment i, pow_positionNullifier = pcw_positionNullifier i,
     pow_pathIndices = pcw_pathIndices i, pow_pathSiblings = pcw_pathSiblings i\<rparr>"

definition liquidation_input :: "LiquidationWitness \<Rightarrow> LiquidationInput" where
  "liquidation_input i = \<lparr>li_side = lw_side i, li_size = lw_size i, li_entryPrice = lw_entryPrice i,
     li_markPrice = lw_markPrice i, li_margin = lw_margin i, li_fundingPayment = lw_fundingPayment i,
     li_maintenanceRate = lw_maintenanceRate i\<rparr>"

definition liquidation_inputs :: "LiquidationWitness \<Rightarrow> (string \<times> input_entry) list" where
  "liquidation_inputs i =
     (let funding = signedFundingWitness (lw_fundingPayment i) in
      [(''is_long'', InBool (lw_side i = Long)), (''size'', InBig (lw_size i)),
       (''entry_price'', InBig (lw_entryPrice i)), (''mark_price'', InBig (lw_markPrice i)),
       (''margin'', InBig (lw_margin i)), (''funding_index'', InBig (lw_fundingIndex i)),
       (''funding_payment_abs'', InBig (fst funding)), (''funding_is_credit'', InBool (snd funding)),
       (''maintenance_rate'', InBig (lw_maintenanceRate i)), (''price_scale'', InBig PRICE_SCALE),
       (''rate_scale'', InBig RATE_SCALE), (''position_root'', InField (lw_positionRoot i)),
       (''position_commitment_public'', InField (lw_positionCommitment i)),
       (''position_nullifier'', InField (lw_positionNullifier i)),
       (''reward_commitment'', InField (lw_rewardCommitment i)),
       (''market_digest'', InField (lw_marketDigest i)), (''owner_digest'', InField (lw_ownerDigest i)),
       (''rho_digest'', InField (lw_rhoDigest i)), (''blinding'', InField (lw_blinding i)),
       (''spend_secret_digest'', InField (lw_spendSecretDigest i)),
       (''path_siblings'', InFields (lw_pathSiblings i)), (''path_indices'', InBools (lw_pathIndices i)),
       (''zero_value'', InBig 0)])"

definition liquidationPlan :: "host \<Rightarrow> LiquidationWitness \<Rightarrow> LiquidationRecord proof_plan result" where
  "liquidationPlan h input =
     bindE (validatePositionOpening h (liquidation_opening input)) (\<lambda>_.
     bindE (failIf (\<not> isLiquidatable (liquidation_input input)) ''position is healthy'') (\<lambda>_.
     Inr \<lparr>pp_publicInputs = publicInputDigest h ''liquidation-check''
            [JBig (lw_markPrice input), JBig (lw_maintenanceRate input), JBig PRICE_SCALE, JBig RATE_SCALE,
             JStr (lw_positionRoot input), JStr (lw_positionCommitment input),
             JStr (lw_positionNullifier input), JStr (lw_rewardCommitment input)],
          pp_name = artifactName h ''liquidation'' [JStr (lw_positionNullifier input), JBig (lw_markPrice input)],
          pp_inputs = liquidation_inputs input,
          pp_record = (\<lambda>pf. \<lparr>lr_marketId = lw_marketId input, lr_markPrice = lw_markPrice input,
             lr_maintenanceRate = lw_maintenanceRate input, lr_positionCommitment = lw_positionCommitment input,
             lr_positionNullifier = lw_positionNullifier input, lr_positionRoot = lw_positionRoot input,
             lr_rewardCommitment = lw_rewardCommitment input, lr_proof = pf,
             lr_proofVerificationTxHash = None, lr_settlementTxHash = None\<rparr>)\<rparr>))"

definition close_settlement_input :: "PositionCloseWitness \<Rightarrow> CloseSettlementInput" where
  "close_settlement_input i = \<lparr>csi_side = pcw_side i, csi_closeSize = pcw_closeSize i,
     csi_entryPrice = pcw_entryPrice i, csi_markPrice = pcw_markPrice i, csi_margin = pcw_margin i,
     csi_fundingPayment = pcw_fundingPayment i, csi_fee = pcw_fee i\<rparr>"

definition closed_position_note :: "PositionCloseWitness \<Rightarrow> CircuitPositionNoteInput" where
  "closed_position_note i = \<lparr>cpn_blinding = pcw_newPositionBlinding i, cpn_entryPrice = pcw_entryPrice i,
     cpn_fundingIndex = pcw_fundingIndex i, cpn_margin = pcw_remainingMargin i,
     cpn_marketDigest = pcw_marketDigest i, cpn_ownerDigest = pcw_ownerDigest i,
     cpn_rhoDigest = pcw_newPositionRhoDigest i, cpn_side = pcw_side i,
     cpn_size = pcw_size i - pcw_closeSize i, cpn_spendSecretDigest = pcw_spendSecretDigest i\<rparr>"

definition margin_output_note :: "PositionCloseWitness \<Rightarrow> CircuitMarginNoteInput" where
  "margin_output_note i = \<lparr>cmn_amount = pcw_marginOutputAmount i, cmn_assetDigest = pcw_marginOutputAssetDigest i,
     cmn_blinding = pcw_marginOutputBlinding i, cmn_ownerDigest = pcw_ownerDigest i,
     cmn_rhoDigest = pcw_marginOutputRhoDigest i, cmn_spendSecretDigest = ''0x0''\<rparr>"

definition close_checks :: "host \<Rightarrow> PositionCloseWitness \<Rightarrow> unit result" where
  "close_checks h input =
     bindE (validatePositionOpening h (close_opening input)) (\<lambda>_.
     bindE (checksE
       [failIf (pcw_size input \<le> 0) ''position size must be positive'',
        failIf (pcw_closeSize input \<le> 0) ''close size must be positive'',
        failIf (pcw_closeSize input \<noteq> pcw_size input) ''position close must cover the full position'',
        failIf (pcw_entryPrice input \<le> 0) ''entry price must be positive'',
        failIf (pcw_markPrice input \<le> 0) ''mark price must be positive'',
        failIf (pcw_fee input < 0) ''fee cannot be negative'']) (\<lambda>_.
     bindE (settleClose (close_settlement_input input)) (\<lambda>settlement.
     bindE (checksE
       [failIf (pcw_newMargin input \<noteq> cs_newMargin settlement) ''invalid close settlement margin'',
        failIf (pcw_remainingMargin input < 0) ''remaining margin cannot be negative'',
        failIf (pcw_marginOutputAmount input < 0) ''margin output amount cannot be negative'',
        failIf (pcw_remainingMargin input + pcw_marginOutputAmount input \<noteq> pcw_newMargin input)
          ''invalid close margin split'',
        failIf (pcw_remainingMargin input \<noteq> 0) ''closed position cannot retain margin'']) (\<lambda>_.
     bindE (circuitPositionCommitment h (closed_position_note input)) (\<lambda>newPosition.
     bindE (failIf (pcw_newPositionCommitment input \<noteq> newPosition) ''new position commitment mismatch'') (\<lambda>_.
     bindE (circuitMarginCommitment h (margin_output_note input)) (\<lambda>output.
     failIf (pcw_marginOutputCommitment input \<noteq> output) ''margin output commitment mismatch'')))))))"

definition close_inputs :: "PositionCloseWitness \<Rightarrow> (string \<times> input_entry) list" where
  "close_inputs i =
     (let funding = signedFundingWitness (pcw_fundingPayment i) in
      [(''is_long'', InBool (pcw_side i = Long)), (''size'', InBig (pcw_size i)),
       (''close_size'', InBig (pcw_closeSize i)), (''entry_price'', InBig (pcw_entryPrice i)),
       (''mark_price'', InBig (pcw_markPrice i)), (''margin'', InBig (pcw_margin i)),
       (''funding_index'', InBig (pcw_fundingIndex i)), (''funding_payment_abs'', InBig (fst funding)),
       (''funding_is_credit'', InBool (snd funding)), (''fee'', InBig (pcw_fee i)),
       (''new_margin'', InBig (pcw_newMargin i)), (''remaining_margin'', InBig (pcw_remainingMargin i)),
       (''margin_output_amount'', InBig (pcw_marginOutputAmount i)), (''price_scale'', InBig PRICE_SCALE),
       (''position_root'', InField (pcw_positionRoot i)),
       (''position_commitment_public'', InField (pcw_positionCommitment i)),
       (''position_nullifier'', InField (pcw_positionNullifier i)),
       (''close_commitment'', InField (pcw_closeCommitment i)),
       (''new_position_commitment'', InField (pcw_newPositionCommitment i)),
       (''margin_output_commitment'', InField (pcw_marginOutputCommitment i)),
       (''market_digest'', InField (pcw_marketDigest i)), (''owner_digest'', InField (pcw_ownerDigest i)),
       (''rho_digest'', InField (pcw_rhoDigest i)), (''blinding'', InField (pcw_blinding i)),
       (''spend_secret_digest'', InField (pcw_spendSecretDigest i)),
       (''new_position_rho_digest'', InField (pcw_newPositionRhoDigest i)),
       (''new_position_blinding'', InField (pcw_newPositionBlinding i)),
       (''margin_output_asset_digest'', InField (pcw_marginOutputAssetDigest i)),
       (''margin_output_rho_digest'', InField (pcw_marginOutputRhoDigest i)),
       (''margin_output_blinding'', InField (pcw_marginOutputBlinding i)),
       (''path_siblings'', InFields (pcw_pathSiblings i)), (''path_indices'', InBools (pcw_pathIndices i)),
       (''zero_value'', InBig 0)])"

definition positionClosePlan :: "host \<Rightarrow> PositionCloseWitness \<Rightarrow> PositionCloseRecord proof_plan result" where
  "positionClosePlan h input =
     bindE (close_checks h input) (\<lambda>_.
     Inr \<lparr>pp_publicInputs = publicInputDigest h ''position-close''
            [JBig (pcw_markPrice input), JBig PRICE_SCALE, JStr (pcw_positionRoot input),
             JStr (pcw_positionCommitment input), JStr (pcw_positionNullifier input),
             JStr (pcw_closeCommitment input), JStr (pcw_newPositionCommitment input),
             JStr (pcw_marginOutputCommitment input)],
          pp_name = artifactName h ''position-close'' [JStr (pcw_positionNullifier input),
            JStr (pcw_closeCommitment input), JBig (pcw_markPrice input)],
          pp_inputs = close_inputs input,
          pp_record = (\<lambda>pf. \<lparr>pcr_marketId = pcw_marketId input, pcr_markPrice = pcw_markPrice input,
             pcr_positionCommitment = pcw_positionCommitment input,
             pcr_positionNullifier = pcw_positionNullifier input, pcr_positionRoot = pcw_positionRoot input,
             pcr_closeCommitment = pcw_closeCommitment input,
             pcr_newPositionCommitment = pcw_newPositionCommitment input,
             pcr_marginOutputCommitment = pcw_marginOutputCommitment input, pcr_outputPositionIndex = None,
             pcr_outputPositionRoot = None, pcr_proof = pf, pcr_proofVerificationTxHash = None,
             pcr_settlementTxHash = None\<rparr>)\<rparr>)"

subsection \<open>Disclosures and intents\<close>

definition disclosurePlan :: "host \<Rightarrow> DisclosureInput \<Rightarrow> DisclosureRecord proof_plan result" where
  "disclosurePlan h input =
     bindE (checksE (failIf (di_value input > di_threshold input) ''disclosure threshold exceeded''
       # pathChecks FIELD_MERKLE_DEPTH (di_pathSiblings input) (di_pathIndices input)
           ''invalid disclosure membership path'')) (\<lambda>_.
     let claimDigest = hashFields h ''disclosure-claim'' [JStr (di_claim input)]
     in bindE (circuitDisclosureCommitment h \<lparr>cdi_claimDigest = claimDigest, cdi_saltDigest = di_saltDigest input,
          cdi_subject = di_subject input, cdi_value = di_value input\<rparr>) (\<lambda>disclosureCommitment.
     bindE (membershipRoot h disclosureCommitment (di_pathSiblings input) (di_pathIndices input)) (\<lambda>rt.
     bindE (failIf (rt \<noteq> di_root input) ''disclosure root mismatch'') (\<lambda>_.
     let disclosureId = hashFields h ''disclosure-proof''
           [JStr (di_subject input), JStr claimDigest, JStr (di_root input), JStr (di_salt input)]
     in Inr \<lparr>pp_publicInputs = publicInputDigest h ''disclosure''
            [JStr (di_subject input), JStr claimDigest, JStr (di_root input), JBig (di_threshold input)],
          pp_name = artifactName h ''disclosure''
            [JStr (di_subject input), JStr claimDigest, JStr (di_root input)],
          pp_inputs =
            [(''value'', InBig (di_value input)), (''threshold'', InBig (di_threshold input)),
             (''subject'', InField (di_subject input)), (''claim_digest'', InField claimDigest),
             (''root'', InField (di_root input)), (''salt_digest'', InField (di_saltDigest input)),
             (''path_siblings'', InFields (di_pathSiblings input)), (''path_indices'', InBools (di_pathIndices input)),
             (''zero_digest'', InBig 0)],
          pp_record = (\<lambda>pf. \<lparr>dr_disclosureId = disclosureId, dr_subject = di_subject input,
             dr_claimDigest = claimDigest, dr_root = di_root input, dr_threshold = di_threshold input,
             dr_proof = pf\<rparr>)\<rparr>))))"

text \<open>The change of a note: nothing, or a note that nobody's secret is bound to yet.\<close>

definition checkNoteChange :: "host \<Rightarrow> IntentValidityWitness \<Rightarrow> unit result" where
  "checkNoteChange h input =
     (let noteChange = ivw_noteAmount input - ti_margin (ivw_intent input)
      in bindE (failIf (noteChange < 0) ''intent margin exceeds note'') (\<lambda>_.
         if noteChange = 0
         then failIf (ivw_noteChangeCommitment input \<noteq> ZERO_HEX) ''zero margin change must use zero commitment''
         else bindE (failIf (ivw_changeRhoDigest input = ZERO_HEX \<or> ivw_changeBlinding input = ZERO_HEX)
                ''margin change opening is required'') (\<lambda>_.
              bindE (circuitMarginCommitment h \<lparr>cmn_amount = noteChange,
                cmn_assetDigest = ivw_assetDigest input, cmn_blinding = ivw_changeBlinding input,
                cmn_ownerDigest = ivw_ownerDigest input, cmn_rhoDigest = ivw_changeRhoDigest input,
                cmn_spendSecretDigest = ZERO_HEX\<rparr>) (\<lambda>expected.
              failIf (expected \<noteq> ivw_noteChangeCommitment input) ''margin change commitment mismatch''))))"

definition intent_checks :: "host \<Rightarrow> IntentValidityWitness \<Rightarrow> unit result" where
  "intent_checks h input =
     (let intent = ivw_intent input in
      bindE (checksE
       ([failIf (ti_size intent \<le> 0) ''intent size must be positive'',
         failIf (ti_margin intent \<le> 0) ''intent margin must be positive'',
         failIf (ti_limitPrice intent \<le> 0) ''intent limit price must be positive'',
         failIf (ivw_expiryBatch input < ivw_currentBatch input) ''intent expired'',
         failIf (ivw_marginRoot input = ''0x0'') ''margin root is empty'',
         failIf (ti_noteNullifier intent = ''0x0'') ''note nullifier is empty'',
         failIf (ivw_noteAmount input < ti_margin intent) ''intent margin exceeds note'']
        @ pathChecks FIELD_MERKLE_DEPTH (ivw_pathSiblings input) (ivw_pathIndices input)
            ''invalid margin membership path'')) (\<lambda>_.
     bindE (circuitMarginCommitment h \<lparr>cmn_amount = ivw_noteAmount input,
       cmn_assetDigest = ivw_assetDigest input, cmn_blinding = ivw_blinding input,
       cmn_ownerDigest = ivw_ownerDigest input, cmn_rhoDigest = ivw_rhoDigest input,
       cmn_spendSecretDigest = ivw_spendSecretDigest input\<rparr>) (\<lambda>noteCommitment.
     bindE (failIf (noteCommitment \<noteq> ivw_noteCommitment input) ''margin note commitment mismatch'') (\<lambda>_.
     bindE (circuitNullifier h (ivw_rhoDigest input) (ivw_spendSecretDigest input)) (\<lambda>noteNullifier.
     bindE (failIf (noteNullifier \<noteq> ti_noteNullifier intent) ''margin note nullifier mismatch'') (\<lambda>_.
     checkNoteChange h input))))))"

definition intentValidityProofPlan :: "host \<Rightarrow> IntentValidityWitness \<Rightarrow> IntentValidityRecord proof_plan result" where
  "intentValidityProofPlan h input =
     (let intent = ivw_intent input in
      bindE (intent_checks h input) (\<lambda>_.
      bindE (intentBindingFields h intent) (\<lambda>binding.
      bindE (commitIntent h intent) (\<lambda>intentCommitment.
      bindE (failIf (intentCommitment \<noteq> ibf_intentCommitment binding) ''intent commitment binding mismatch'') (\<lambda>_.
      Inr \<lparr>pp_publicInputs = publicInputDigest h ''intent-validity''
            [JBig (ivw_currentBatch input), JStr (cic_batchDigest binding), JStr (cic_marketDigest binding),
             JStr (cic_ownerCommitmentField binding), JStr intentCommitment, JStr (ivw_marginRoot input),
             JStr (ivw_noteCommitment input), JStr (ti_noteNullifier intent),
             JStr (ivw_noteChangeCommitment input)],
          pp_name = artifactName h ''intent'' [JStr (ti_batchId intent), JStr (ti_marketId intent),
            JStr intentCommitment, JStr (ivw_marginRoot input)],
          pp_inputs =
            [(''size'', InBig (ti_size intent)), (''margin'', InBig (ti_margin intent)),
             (''limit_price'', InBig (ti_limitPrice intent)), (''is_long'', InBool (ti_side intent = Long)),
             (''expiry_batch'', InBig (ivw_expiryBatch input)), (''note_amount'', InBig (ivw_noteAmount input)),
             (''asset_digest'', InField (ivw_assetDigest input)), (''owner_digest'', InField (ivw_ownerDigest input)),
             (''rho_digest'', InField (ivw_rhoDigest input)), (''blinding'', InField (ivw_blinding input)),
             (''spend_secret_digest'', InField (ivw_spendSecretDigest input)),
             (''path_siblings'', InFields (ivw_pathSiblings input)),
             (''path_indices'', InBools (ivw_pathIndices input)),
             (''current_batch'', InBig (ivw_currentBatch input)),
             (''batch_digest'', InField (cic_batchDigest binding)),
             (''market_digest'', InField (cic_marketDigest binding)),
             (''owner_commitment_field'', InField (cic_ownerCommitmentField binding)),
             (''intent_commitment'', InField intentCommitment),
             (''margin_root'', InField (ivw_marginRoot input)),
             (''note_commitment_public'', InField (ivw_noteCommitment input)),
             (''note_nullifier'', InField (ti_noteNullifier intent)),
             (''note_change_commitment'', InField (ivw_noteChangeCommitment input)),
             (''nonce_digest'', InField (cic_nonceDigest binding)), (''salt_digest'', InField (cic_saltDigest binding)),
             (''change_rho_digest'', InField (ivw_changeRhoDigest input)),
             (''change_blinding'', InField (ivw_changeBlinding input)), (''zero_commitment'', InBig 0)],
          pp_record = (\<lambda>pf. \<lparr>ivr_batchDigest = cic_batchDigest binding,
             ivr_currentBatch = ivw_currentBatch input, ivr_expiryBatch = ivw_expiryBatch input,
             ivr_intentCommitment = intentCommitment, ivr_marketDigest = cic_marketDigest binding,
             ivr_noteChangeCommitment = ivw_noteChangeCommitment input,
             ivr_noteCommitment = ivw_noteCommitment input, ivr_marginRoot = ivw_marginRoot input,
             ivr_noteNullifier = ti_noteNullifier intent,
             ivr_ownerCommitmentField = cic_ownerCommitmentField binding, ivr_proof = pf\<rparr>)\<rparr>)))))"

subsection \<open>The service\<close>

record ProverService =
  ps_artifacts :: "(string, ProofArtifact) jsmap"
  ps_intentValidityRecords :: "(string, IntentValidityRecord) jsmap"
  ps_artifactRegistry :: ProofArtifactRegistry
  ps_files :: files

definition on_files :: "(files, 'a) act \<Rightarrow> (ProverService, 'a) act" where
  "on_files m s = (case m (ps_files s) of (r, fs) \<Rightarrow> (r, s\<lparr>ps_files := fs\<rparr>))"

definition artifactFor :: "host \<Rightarrow> ProofMeta \<Rightarrow> ProverService \<Rightarrow> ProofArtifact option \<times> ProverService" where
  "artifactFor h pf s =
     (case mget (ps_artifacts s) (proofKey pf) of
        Some a \<Rightarrow> (Some a, s)
      | None \<Rightarrow> (case registry_get h (ps_files s) pf (ps_artifactRegistry s) of
          (found, r) \<Rightarrow> (found, s\<lparr>ps_artifactRegistry := r\<rparr>)))"

definition intentValidityFor :: "ProofMeta \<Rightarrow> ProverService \<Rightarrow> IntentValidityRecord option" where
  "intentValidityFor pf s = mget (ps_intentValidityRecords s) (proofKey pf)"

definition put_artifact :: "host \<Rightarrow> ProofMeta \<Rightarrow> ProofArtifact \<Rightarrow> ProverService \<Rightarrow> ProverService" where
  "put_artifact h pf artifact s =
     s\<lparr>ps_artifacts := mset_at (proofKey pf) artifact (ps_artifacts s),
       ps_artifactRegistry := registry_set h pf artifact (ps_artifactRegistry s)\<rparr>"

definition bindArtifact ::
  "prover_env \<Rightarrow> string \<Rightarrow> Hex \<Rightarrow> ProofArtifact \<Rightarrow> (ProverService, ProofMeta) act" where
  "bindArtifact e circuitId publicInputs artifact s =
     (case bindE (loadCircuit (pe_host e) (pe_root e) circuitId (ps_files s)) (\<lambda>circuit.
           bindProof (pe_host e) circuit publicInputs (Some artifact)) of
        Inl err \<Rightarrow> (Inl err, s)
      | Inr bound \<Rightarrow>
          let pf = bound\<lparr>pm_proofSystem := Some Noir_Ultrahonk\<rparr>
          in (Inr pf, put_artifact (pe_host e) pf artifact s))"

definition prove_plan ::
  "prover_env \<Rightarrow> string \<Rightarrow> 'r proof_plan result \<Rightarrow> (ProverService, 'r) act" where
  "prove_plan e circuitId made =
     bindA (liftA (\<lambda>_. bindE made (\<lambda>plan. bindE (circuit_inputs (pp_inputs plan)) (\<lambda>ins. Inr (plan, ins)))))
       (\<lambda>(plan, ins).
     bindA (on_files (buildProofArtifact e circuitId (Some (pp_name plan)) (Some ins))) (\<lambda>artifact.
     bindA (bindArtifact e circuitId (pp_publicInputs plan) artifact) (\<lambda>pf.
     returnA (pp_record plan pf))))"

definition proveFundingSettlement ::
  "prover_env \<Rightarrow> FundingSettlementProofInput \<Rightarrow> (ProverService, FundingSettlementRecord) act" where
  "proveFundingSettlement e input = prove_plan e ''funding-update'' (fundingSettlementPlan (pe_host e) input)"

definition proveDepositNote :: "prover_env \<Rightarrow> DepositNoteWitness \<Rightarrow> (ProverService, DepositNoteRecord) act" where
  "proveDepositNote e input = prove_plan e ''deposit-note'' (depositNotePlan (pe_host e) input)"

definition recordIntentValidity :: "IntentValidityRecord \<Rightarrow> ProverService \<Rightarrow> ProverService" where
  "recordIntentValidity r s =
     s\<lparr>ps_intentValidityRecords := mset_at (proofKey (ivr_proof r)) r (ps_intentValidityRecords s)\<rparr>"

definition proveIntentValidity ::
  "prover_env \<Rightarrow> IntentValidityWitness \<Rightarrow> (ProverService, IntentValidityRecord) act" where
  "proveIntentValidity e input =
     bindA (prove_plan e ''intent-validity'' (intentValidityProofPlan (pe_host e) input)) (\<lambda>r.
       seqA (modifyA (recordIntentValidity r)) (returnA r))"

definition proveConditionalClose ::
  "prover_env \<Rightarrow> ConditionalOrderWitness \<Rightarrow> (ProverService, ConditionalOrderRecord) act" where
  "proveConditionalClose e input = prove_plan e ''conditional-close'' (conditionalClosePlan (pe_host e) input)"

definition proveWithdrawal :: "prover_env \<Rightarrow> WithdrawalRequest \<Rightarrow> (ProverService, WithdrawalRecord) act" where
  "proveWithdrawal e input = prove_plan e ''withdraw'' (withdrawalPlan (pe_host e) input)"

definition proveLiquidation :: "prover_env \<Rightarrow> LiquidationWitness \<Rightarrow> (ProverService, LiquidationRecord) act" where
  "proveLiquidation e input = prove_plan e ''liquidation-check'' (liquidationPlan (pe_host e) input)"

definition provePositionClose ::
  "prover_env \<Rightarrow> PositionCloseWitness \<Rightarrow> (ProverService, PositionCloseRecord) act" where
  "provePositionClose e input = prove_plan e ''position-close'' (positionClosePlan (pe_host e) input)"

definition proveDisclosure :: "prover_env \<Rightarrow> DisclosureInput \<Rightarrow> (ProverService, DisclosureRecord) act" where
  "proveDisclosure e input = prove_plan e ''disclosure'' (disclosurePlan (pe_host e) input)"

subsection \<open>Proofs of clients\<close>

record RegisterProofArtifactInput =
  rpa_bytecodeHash :: "Hex option"
  rpa_proof :: ProofMeta
  rpa_proofBase64 :: string
  rpa_publicInputsBase64 :: string
  rpa_vkBase64 :: string
  rpa_witnessHash :: "Hex option"

definition differs :: "Hex option \<Rightarrow> Hex \<Rightarrow> bool" where
  "differs v expected = (truthy_str v \<and> v \<noteq> Some expected)"

definition artifact_checks ::
  "ProofMeta \<Rightarrow> Hex \<Rightarrow> Hex \<Rightarrow> Hex \<Rightarrow> Hex \<Rightarrow> Hex \<Rightarrow> unit result" where
  "artifact_checks pf proofHash publicInputsHash vkHash bytecodeHash witnessHash = checksE
     [failIf (proofHash \<noteq> pm_proofDigest pf) ''proof artifact digest mismatch'',
      failIf (publicInputsHash \<noteq> pm_publicInputHash pf) ''proof artifact public input mismatch'',
      failIf (vkHash \<noteq> pm_verifierHash pf) ''proof artifact verifier mismatch'',
      failIf (differs (pm_proofHash pf) proofHash) ''proof hash mismatch'',
      failIf (differs (pm_publicInputsHash pf) publicInputsHash) ''proof public input hash mismatch'',
      failIf (differs (pm_vkHash pf) vkHash) ''proof verifier hash mismatch'',
      failIf (differs (pm_bytecodeHash pf) bytecodeHash) ''proof bytecode hash mismatch'',
      failIf (differs (pm_witnessHash pf) witnessHash) ''proof witness hash mismatch'']"

text \<open>The files are written before their hashes are compared, so they stay when a check fails.\<close>

definition registerProofArtifact ::
  "prover_env \<Rightarrow> RegisterProofArtifactInput \<Rightarrow> (ProverService, ProofArtifact) act" where
  "registerProofArtifact e input s =
     (let h = pe_host e; pf = rpa_proof input in
      case bindE (loadCircuit h (pe_root e) (pm_circuitId pf) (ps_files s)) (\<lambda>circuit.
           bindE (checksE
             [failIf (pm_circuitKey pf \<noteq> circuitKey h (cm_id circuit)) ''proof circuit key mismatch'',
              failIf (pm_circuitHash pf \<noteq> cm_sourceHash circuit) ''proof circuit hash mismatch'']) (\<lambda>_.
           Inr circuit)) of
        Inl err \<Rightarrow> (Inl err, s)
      | Inr circuit \<Rightarrow>
          let dir = join_path [pe_root e, ''.pnlx'', ''client-proof-artifacts'', sha256_hex h (proofKey pf)];
              proofPath = join_path [dir, ''proof''];
              publicInputsPath = join_path [dir, ''public_inputs''];
              vkPath = join_path [dir, ''vk''];
              fs = mset_at vkPath (pe_from_base64 e (rpa_vkBase64 input))
                    (mset_at publicInputsPath (pe_from_base64 e (rpa_publicInputsBase64 input))
                    (mset_at proofPath (pe_from_base64 e (rpa_proofBase64 input)) (ps_files s)));
              written = s\<lparr>ps_files := fs\<rparr>;
              bytecodeHash = nullish (rpa_bytecodeHash input) (nullish (pm_bytecodeHash pf) ''0x0'');
              witnessHash = nullish (rpa_witnessHash input) (nullish (pm_witnessHash pf) ''0x0'')
          in (case bindE (hashFile h proofPath fs) (\<lambda>proofHash.
                   bindE (hashFile h publicInputsPath fs) (\<lambda>publicInputsHash.
                   bindE (hashFile h vkPath fs) (\<lambda>vkHash.
                   bindE (artifact_checks pf proofHash publicInputsHash vkHash bytecodeHash witnessHash) (\<lambda>_.
                   Inr \<lparr>pa_circuitId = cm_id circuit, pa_circuitKey = pm_circuitKey pf,
                     pa_bytecodeHash = bytecodeHash, pa_witnessHash = witnessHash, pa_proofHash = proofHash,
                     pa_publicInputsHash = publicInputsHash, pa_vkHash = vkHash, pa_proofPath = proofPath,
                     pa_publicInputsPath = publicInputsPath, pa_vkPath = vkPath\<rparr>)))) of
                Inl err \<Rightarrow> (Inl err, written)
              | Inr artifact \<Rightarrow> (Inr artifact, put_artifact h pf artifact written)))"

definition assertFileHash :: "host \<Rightarrow> files \<Rightarrow> string \<Rightarrow> Hex \<Rightarrow> string \<Rightarrow> unit result" where
  "assertFileHash h fs path expected label =
     (if \<not> mhas fs path then throw (label @ '' not found'')
      else bindE (hashFile h path fs) (\<lambda>hash. failIf (hash \<noteq> expected) (label @ '' hash mismatch'')))"

definition bound_checks :: "host \<Rightarrow> CircuitMeta \<Rightarrow> ProofMeta \<Rightarrow> string \<Rightarrow> Hex \<Rightarrow> unit result" where
  "bound_checks h circuit pf expectedCircuitId expectedPublicInputHash = checksE
     [failIf (pm_circuitId pf \<noteq> expectedCircuitId) ''proof circuit mismatch'',
      failIf (pm_circuitKey pf \<noteq> circuitKey h expectedCircuitId) ''proof circuit key mismatch'',
      failIf (pm_circuitHash pf \<noteq> cm_sourceHash circuit) ''proof circuit hash mismatch'',
      failIf (pm_publicInputHash pf \<noteq> expectedPublicInputHash) ''proof public input mismatch'']"

definition bound_artifact_checks ::
  "host \<Rightarrow> files \<Rightarrow> ProofArtifact \<Rightarrow> ProofMeta \<Rightarrow> string \<Rightarrow> unit result" where
  "bound_artifact_checks h fs artifact pf expectedCircuitId = checksE
     [failIf (pa_circuitId artifact \<noteq> expectedCircuitId) ''proof artifact circuit mismatch'',
      failIf (pa_circuitKey artifact \<noteq> pm_circuitKey pf) ''proof artifact circuit key mismatch'',
      failIf (pa_publicInputsHash artifact \<noteq> pm_publicInputHash pf) ''proof artifact public input mismatch'',
      failIf (pa_proofHash artifact \<noteq> pm_proofDigest pf) ''proof artifact digest mismatch'',
      failIf (pa_vkHash artifact \<noteq> pm_verifierHash pf) ''proof artifact verifier mismatch'',
      failIf (differs (pm_publicInputsHash pf) (pm_publicInputHash pf)) ''proof public input hash mismatch'',
      failIf (differs (pm_proofHash pf) (pm_proofDigest pf)) ''proof hash mismatch'',
      failIf (differs (pm_vkHash pf) (pm_verifierHash pf)) ''proof verifier hash mismatch'',
      failIf (differs (pm_bytecodeHash pf) (pa_bytecodeHash artifact)) ''proof bytecode hash mismatch'',
      assertFileHash h fs (pa_publicInputsPath artifact) (pm_publicInputHash pf) ''proof public input file'',
      assertFileHash h fs (pa_proofPath artifact) (pm_proofDigest pf) ''proof file'',
      assertFileHash h fs (pa_vkPath artifact) (pm_verifierHash pf) ''proof verifier key file'']"

definition assertBoundProof :: "prover_env \<Rightarrow> ProofMeta \<Rightarrow> string \<Rightarrow> Hex \<Rightarrow> (ProverService, unit) act" where
  "assertBoundProof e pf expectedCircuitId expectedPublicInputHash s =
     (let h = pe_host e in
      case bindE (loadCircuit h (pe_root e) expectedCircuitId (ps_files s)) (\<lambda>circuit.
           bound_checks h circuit pf expectedCircuitId expectedPublicInputHash) of
        Inl err \<Rightarrow> (Inl err, s)
      | Inr _ \<Rightarrow>
          (case artifactFor h pf s of
             (None, t) \<Rightarrow> (throw ''proof artifact not found'', t)
           | (Some artifact, t) \<Rightarrow> (bound_artifact_checks h (ps_files t) artifact pf expectedCircuitId, t)))"

end
