(* ===== verification/Circuits.thy ===== *)
theory Circuits
  imports Prover_Service
begin

text \<open>
  The \<open>main\<close> functions of the Noir circuits under \<^verbatim>\<open>circuits/\<close>, as predicates: a circuit accepts when its
  inputs have the types of the parameters and no assertion fails. A \<open>Field\<close> is an integer below the field
  prime, a \<open>u128\<close> an integer in its range, and an operation of \<open>u128\<close> that leaves the range fails the circuit;
  inside a conditional only the branch that is taken can fail. The inputs are the ones that the prover
  service writes for \<open>nargo\<close>, read by name.
\<close>

subsection \<open>Reading the inputs\<close>

definition u128 :: "int \<Rightarrow> bool" where
  "u128 v \<longleftrightarrow> 0 \<le> v \<and> v < 2 ^ 128"

datatype abi_type = AbiU128 | AbiField | AbiBool | AbiFields nat | AbiBools nat

definition field_ok :: "prover_value \<Rightarrow> bool" where
  "field_ok v = (case v of PvStr s \<Rightarrow> (\<exists>b. bigint_of_hex s = Inr b \<and> 0 \<le> b \<and> b < FIELD_PRIME)
     | PvBig b \<Rightarrow> 0 \<le> b \<and> b < FIELD_PRIME | _ \<Rightarrow> False)"

definition field_value :: "prover_value \<Rightarrow> int" where
  "field_value v = (case v of PvStr s \<Rightarrow> hex_val s | PvBig b \<Rightarrow> field_mod b | _ \<Rightarrow> 0)"

definition is_pv_bool :: "prover_value \<Rightarrow> bool" where
  "is_pv_bool v = (case v of PvBool b \<Rightarrow> True | _ \<Rightarrow> False)"

definition has_type :: "abi_type \<Rightarrow> prover_value \<Rightarrow> bool" where
  "has_type t v = (case t of
     AbiU128 \<Rightarrow> (case v of PvBig n \<Rightarrow> u128 n | _ \<Rightarrow> False)
   | AbiField \<Rightarrow> field_ok v
   | AbiBool \<Rightarrow> is_pv_bool v
   | AbiFields k \<Rightarrow> (case v of PvArr vs \<Rightarrow> length vs = k \<and> list_all field_ok vs | _ \<Rightarrow> False)
   | AbiBools k \<Rightarrow> (case v of PvArr vs \<Rightarrow> length vs = k \<and> list_all is_pv_bool vs | _ \<Rightarrow> False))"

definition typed_inputs :: "(string \<times> abi_type) list \<Rightarrow> prover_input \<Rightarrow> bool" where
  "typed_inputs params ins = list_all (\<lambda>(k, t).
     case map_of ins k of None \<Rightarrow> False | Some v \<Rightarrow> has_type t v) params"

definition in_int :: "prover_input \<Rightarrow> string \<Rightarrow> int" where
  "in_int ins k = (case map_of ins k of Some (PvBig v) \<Rightarrow> v | _ \<Rightarrow> 0)"

definition in_field :: "prover_input \<Rightarrow> string \<Rightarrow> int" where
  "in_field ins k = (case map_of ins k of Some v \<Rightarrow> field_value v | None \<Rightarrow> 0)"

definition in_bool :: "prover_input \<Rightarrow> string \<Rightarrow> bool" where
  "in_bool ins k = (map_of ins k = Some (PvBool True))"

definition in_fields :: "prover_input \<Rightarrow> string \<Rightarrow> int list" where
  "in_fields ins k = (case map_of ins k of Some (PvArr vs) \<Rightarrow> map field_value vs | _ \<Rightarrow> [])"

definition in_bools :: "prover_input \<Rightarrow> string \<Rightarrow> bool list" where
  "in_bools ins k = (case map_of ins k of Some (PvArr vs) \<Rightarrow> map (\<lambda>v. v = PvBool True) vs | _ \<Rightarrow> [])"

subsection \<open>Functions that the circuits share\<close>

definition nr_position_commitment ::
  "host \<Rightarrow> bool \<Rightarrow> int \<Rightarrow> int \<Rightarrow> int \<Rightarrow> int \<Rightarrow> int \<Rightarrow> int \<Rightarrow> int \<Rightarrow> int \<Rightarrow> int" where
  "nr_position_commitment h is_long sz entry_price margin funding_index market_digest owner_digest
      rho_digest blinding =
     (let hash_pair = pairF h;
          side = (if is_long then 1 else 2);
          left = hash_pair (hash_pair market_digest side) (hash_pair sz entry_price);
          right = hash_pair (hash_pair margin funding_index)
                    (hash_pair owner_digest (hash_pair rho_digest blinding))
      in hash_pair left right)"

fun nr_merkle_root :: "host \<Rightarrow> int \<Rightarrow> int list \<Rightarrow> bool list \<Rightarrow> int" where
  "nr_merkle_root h current (s # ss) (b # bs) =
     nr_merkle_root h (if b then pairF h s current else pairF h current s) ss bs"
| "nr_merkle_root h current _ _ = current"

subsection \<open>position-close\<close>

record position_close_params =
  pc_is_long :: bool
  pc_size :: int
  pc_close_size :: int
  pc_entry_price :: int
  pc_mark_price :: int
  pc_margin :: int
  pc_funding_index :: int
  pc_funding_payment_abs :: int
  pc_funding_is_credit :: bool
  pc_fee :: int
  pc_new_margin :: int
  pc_remaining_margin :: int
  pc_margin_output_amount :: int
  pc_price_scale :: int
  pc_position_root :: int
  pc_position_commitment_public :: int
  pc_position_nullifier :: int
  pc_close_commitment :: int
  pc_new_position_commitment :: int
  pc_margin_output_commitment :: int
  pc_market_digest :: int
  pc_owner_digest :: int
  pc_rho_digest :: int
  pc_blinding :: int
  pc_spend_secret_digest :: int
  pc_new_position_rho_digest :: int
  pc_new_position_blinding :: int
  pc_margin_output_asset_digest :: int
  pc_margin_output_rho_digest :: int
  pc_margin_output_blinding :: int
  pc_path_siblings :: "int list"
  pc_path_indices :: "bool list"
  pc_zero_value :: int

text \<open>The price difference as a profit or a loss, and the margin that is left after it and after funding.\<close>

definition nr_is_profit :: "bool \<Rightarrow> int \<Rightarrow> int \<Rightarrow> bool" where
  "nr_is_profit is_long entry_price mark_price =
     (if is_long then mark_price \<ge> entry_price else entry_price \<ge> mark_price)"

definition nr_price_delta :: "bool \<Rightarrow> int \<Rightarrow> int \<Rightarrow> int" where
  "nr_price_delta is_long entry_price mark_price =
     (if nr_is_profit is_long entry_price mark_price
      then (if is_long then mark_price - entry_price else entry_price - mark_price)
      else (if is_long then entry_price - mark_price else mark_price - entry_price))"

definition position_close_margin :: "position_close_params \<Rightarrow> bool" where
  "position_close_margin p =
     (let is_profit = nr_is_profit (pc_is_long p) (pc_entry_price p) (pc_mark_price p);
          price_delta = nr_price_delta (pc_is_long p) (pc_entry_price p) (pc_mark_price p);
          pnl_abs = (pc_close_size p * price_delta) div pc_price_scale p;
          margin_after_pnl = (if is_profit then pc_margin p + pnl_abs else pc_margin p - pnl_abs);
          margin_after_funding = (if pc_funding_is_credit p
            then margin_after_pnl + pc_funding_payment_abs p
            else margin_after_pnl - pc_funding_payment_abs p)
      in u128 (pc_close_size p * price_delta)
       \<and> u128 margin_after_pnl
       \<and> u128 margin_after_funding
       \<and> margin_after_funding \<ge> pc_fee p
       \<and> pc_new_margin p = margin_after_funding - pc_fee p
       \<and> u128 (pc_remaining_margin p + pc_margin_output_amount p)
       \<and> pc_remaining_margin p + pc_margin_output_amount p = pc_new_margin p)"

definition position_close_main :: "host \<Rightarrow> position_close_params \<Rightarrow> bool" where
  "position_close_main h p \<longleftrightarrow>
     pc_size p > 0 \<and> pc_close_size p > 0 \<and> pc_close_size p = pc_size p
   \<and> pc_entry_price p > 0 \<and> pc_mark_price p > 0 \<and> pc_price_scale p > 0
   \<and> pc_position_root p \<noteq> pc_zero_value p
   \<and> pc_position_commitment_public p \<noteq> pc_zero_value p
   \<and> pc_position_nullifier p \<noteq> pc_zero_value p
   \<and> pc_close_commitment p \<noteq> pc_zero_value p
   \<and> pc_new_position_commitment p \<noteq> pc_zero_value p
   \<and> pc_margin_output_commitment p \<noteq> pc_zero_value p
   \<and> pc_new_position_commitment p \<noteq> pc_close_commitment p
   \<and> pc_margin_output_commitment p \<noteq> pc_close_commitment p
   \<and> pc_new_position_rho_digest p \<noteq> pc_zero_value p
   \<and> pc_new_position_blinding p \<noteq> pc_zero_value p
   \<and> pc_margin_output_asset_digest p \<noteq> pc_zero_value p
   \<and> pc_margin_output_rho_digest p \<noteq> pc_zero_value p
   \<and> pc_margin_output_blinding p \<noteq> pc_zero_value p
   \<and> nr_position_commitment h (pc_is_long p) (pc_size p) (pc_entry_price p) (pc_margin p)
       (pc_funding_index p) (pc_market_digest p) (pc_owner_digest p) (pc_rho_digest p) (pc_blinding p)
       = pc_position_commitment_public p
   \<and> nr_merkle_root h (pc_position_commitment_public p) (pc_path_siblings p) (pc_path_indices p)
       = pc_position_root p
   \<and> pairF h (pc_spend_secret_digest p) (pc_rho_digest p) = pc_position_nullifier p
   \<and> position_close_margin p
   \<and> pc_remaining_margin p = 0
   \<and> nr_position_commitment h (pc_is_long p) (pc_size p - pc_close_size p) (pc_entry_price p)
       (pc_remaining_margin p) (pc_funding_index p) (pc_market_digest p) (pc_owner_digest p)
       (pc_new_position_rho_digest p) (pc_new_position_blinding p) = pc_new_position_commitment p
   \<and> circuit_note_commitment h (pc_margin_output_asset_digest p) (pc_margin_output_amount p)
       (pc_owner_digest p) (pc_margin_output_rho_digest p) (pc_margin_output_blinding p)
       = pc_margin_output_commitment p"

definition position_close_abi :: "(string \<times> abi_type) list" where
  "position_close_abi =
     [(''is_long'', AbiBool), (''size'', AbiU128), (''close_size'', AbiU128), (''entry_price'', AbiU128),
      (''mark_price'', AbiU128), (''margin'', AbiU128), (''funding_index'', AbiU128),
      (''funding_payment_abs'', AbiU128), (''funding_is_credit'', AbiBool), (''fee'', AbiU128),
      (''new_margin'', AbiU128), (''remaining_margin'', AbiU128), (''margin_output_amount'', AbiU128),
      (''price_scale'', AbiU128), (''position_root'', AbiField), (''position_commitment_public'', AbiField),
      (''position_nullifier'', AbiField), (''close_commitment'', AbiField),
      (''new_position_commitment'', AbiField), (''margin_output_commitment'', AbiField),
      (''market_digest'', AbiField), (''owner_digest'', AbiField), (''rho_digest'', AbiField),
      (''blinding'', AbiField), (''spend_secret_digest'', AbiField), (''new_position_rho_digest'', AbiField),
      (''new_position_blinding'', AbiField), (''margin_output_asset_digest'', AbiField),
      (''margin_output_rho_digest'', AbiField), (''margin_output_blinding'', AbiField),
      (''path_siblings'', AbiFields 20), (''path_indices'', AbiBools 20), (''zero_value'', AbiField)]"

definition position_close_params_of :: "prover_input \<Rightarrow> position_close_params" where
  "position_close_params_of ins =
     \<lparr>pc_is_long = in_bool ins ''is_long'', pc_size = in_int ins ''size'',
      pc_close_size = in_int ins ''close_size'', pc_entry_price = in_int ins ''entry_price'',
      pc_mark_price = in_int ins ''mark_price'', pc_margin = in_int ins ''margin'',
      pc_funding_index = in_int ins ''funding_index'',
      pc_funding_payment_abs = in_int ins ''funding_payment_abs'',
      pc_funding_is_credit = in_bool ins ''funding_is_credit'', pc_fee = in_int ins ''fee'',
      pc_new_margin = in_int ins ''new_margin'', pc_remaining_margin = in_int ins ''remaining_margin'',
      pc_margin_output_amount = in_int ins ''margin_output_amount'',
      pc_price_scale = in_int ins ''price_scale'', pc_position_root = in_field ins ''position_root'',
      pc_position_commitment_public = in_field ins ''position_commitment_public'',
      pc_position_nullifier = in_field ins ''position_nullifier'',
      pc_close_commitment = in_field ins ''close_commitment'',
      pc_new_position_commitment = in_field ins ''new_position_commitment'',
      pc_margin_output_commitment = in_field ins ''margin_output_commitment'',
      pc_market_digest = in_field ins ''market_digest'', pc_owner_digest = in_field ins ''owner_digest'',
      pc_rho_digest = in_field ins ''rho_digest'', pc_blinding = in_field ins ''blinding'',
      pc_spend_secret_digest = in_field ins ''spend_secret_digest'',
      pc_new_position_rho_digest = in_field ins ''new_position_rho_digest'',
      pc_new_position_blinding = in_field ins ''new_position_blinding'',
      pc_margin_output_asset_digest = in_field ins ''margin_output_asset_digest'',
      pc_margin_output_rho_digest = in_field ins ''margin_output_rho_digest'',
      pc_margin_output_blinding = in_field ins ''margin_output_blinding'',
      pc_path_siblings = in_fields ins ''path_siblings'', pc_path_indices = in_bools ins ''path_indices'',
      pc_zero_value = in_field ins ''zero_value''\<rparr>"

definition position_close_accepts :: "host \<Rightarrow> prover_input \<Rightarrow> bool" where
  "position_close_accepts h ins \<longleftrightarrow>
     typed_inputs position_close_abi ins \<and> position_close_main h (position_close_params_of ins)"

subsection \<open>liquidation-check\<close>

record liquidation_params =
  lc_is_long :: bool
  lc_size :: int
  lc_entry_price :: int
  lc_mark_price :: int
  lc_margin :: int
  lc_funding_index :: int
  lc_funding_payment_abs :: int
  lc_funding_is_credit :: bool
  lc_maintenance_rate :: int
  lc_price_scale :: int
  lc_rate_scale :: int
  lc_position_root :: int
  lc_position_commitment_public :: int
  lc_position_nullifier :: int
  lc_reward_commitment :: int
  lc_market_digest :: int
  lc_owner_digest :: int
  lc_rho_digest :: int
  lc_blinding :: int
  lc_spend_secret_digest :: int
  lc_path_siblings :: "int list"
  lc_path_indices :: "bool list"
  lc_zero_value :: int

definition nr_adverse_delta :: "bool \<Rightarrow> int \<Rightarrow> int \<Rightarrow> int" where
  "nr_adverse_delta is_long entry_price mark_price =
     (if is_long then (if entry_price > mark_price then entry_price - mark_price else 0)
      else (if mark_price > entry_price then mark_price - entry_price else 0))"

definition nr_equity :: "bool \<Rightarrow> int \<Rightarrow> int \<Rightarrow> int \<Rightarrow> int \<Rightarrow> int \<Rightarrow> bool \<Rightarrow> int \<Rightarrow> int" where
  "nr_equity is_long sz entry_price mark_price margin funding_payment_abs funding_is_credit price_scale =
     (let loss = (sz * nr_adverse_delta is_long entry_price mark_price) div price_scale;
          equity_before_funding = (if margin > loss then margin - loss else 0)
      in if funding_is_credit then equity_before_funding + funding_payment_abs
         else if equity_before_funding > funding_payment_abs
         then equity_before_funding - funding_payment_abs else 0)"

definition liquidation_verdict :: "liquidation_params \<Rightarrow> bool" where
  "liquidation_verdict p =
     (let adverse_delta = nr_adverse_delta (lc_is_long p) (lc_entry_price p) (lc_mark_price p);
          equity = nr_equity (lc_is_long p) (lc_size p) (lc_entry_price p) (lc_mark_price p) (lc_margin p)
            (lc_funding_payment_abs p) (lc_funding_is_credit p) (lc_price_scale p);
          notional = (lc_size p * lc_mark_price p) div lc_price_scale p;
          maintenance = (notional * lc_maintenance_rate p) div lc_rate_scale p
      in u128 (lc_size p * adverse_delta) \<and> u128 equity \<and> u128 (lc_size p * lc_mark_price p)
       \<and> u128 (notional * lc_maintenance_rate p) \<and> equity < maintenance)"

definition liquidation_main :: "host \<Rightarrow> liquidation_params \<Rightarrow> bool" where
  "liquidation_main h p \<longleftrightarrow>
     lc_size p > 0 \<and> lc_entry_price p > 0 \<and> lc_mark_price p > 0
   \<and> lc_price_scale p > 0 \<and> lc_rate_scale p > 0
   \<and> lc_position_root p \<noteq> lc_zero_value p
   \<and> lc_position_commitment_public p \<noteq> lc_zero_value p
   \<and> lc_position_nullifier p \<noteq> lc_zero_value p
   \<and> lc_reward_commitment p \<noteq> lc_zero_value p
   \<and> nr_position_commitment h (lc_is_long p) (lc_size p) (lc_entry_price p) (lc_margin p)
       (lc_funding_index p) (lc_market_digest p) (lc_owner_digest p) (lc_rho_digest p) (lc_blinding p)
       = lc_position_commitment_public p
   \<and> nr_merkle_root h (lc_position_commitment_public p) (lc_path_siblings p) (lc_path_indices p)
       = lc_position_root p
   \<and> pairF h (lc_spend_secret_digest p) (lc_rho_digest p) = lc_position_nullifier p
   \<and> liquidation_verdict p"

definition liquidation_abi :: "(string \<times> abi_type) list" where
  "liquidation_abi =
     [(''is_long'', AbiBool), (''size'', AbiU128), (''entry_price'', AbiU128), (''mark_price'', AbiU128),
      (''margin'', AbiU128), (''funding_index'', AbiU128), (''funding_payment_abs'', AbiU128),
      (''funding_is_credit'', AbiBool), (''maintenance_rate'', AbiU128), (''price_scale'', AbiU128),
      (''rate_scale'', AbiU128), (''position_root'', AbiField), (''position_commitment_public'', AbiField),
      (''position_nullifier'', AbiField), (''reward_commitment'', AbiField), (''market_digest'', AbiField),
      (''owner_digest'', AbiField), (''rho_digest'', AbiField), (''blinding'', AbiField),
      (''spend_secret_digest'', AbiField), (''path_siblings'', AbiFields 20), (''path_indices'', AbiBools 20),
      (''zero_value'', AbiField)]"

definition liquidation_params_of :: "prover_input \<Rightarrow> liquidation_params" where
  "liquidation_params_of ins =
     \<lparr>lc_is_long = in_bool ins ''is_long'', lc_size = in_int ins ''size'',
      lc_entry_price = in_int ins ''entry_price'', lc_mark_price = in_int ins ''mark_price'',
      lc_margin = in_int ins ''margin'', lc_funding_index = in_int ins ''funding_index'',
      lc_funding_payment_abs = in_int ins ''funding_payment_abs'',
      lc_funding_is_credit = in_bool ins ''funding_is_credit'',
      lc_maintenance_rate = in_int ins ''maintenance_rate'', lc_price_scale = in_int ins ''price_scale'',
      lc_rate_scale = in_int ins ''rate_scale'', lc_position_root = in_field ins ''position_root'',
      lc_position_commitment_public = in_field ins ''position_commitment_public'',
      lc_position_nullifier = in_field ins ''position_nullifier'',
      lc_reward_commitment = in_field ins ''reward_commitment'',
      lc_market_digest = in_field ins ''market_digest'', lc_owner_digest = in_field ins ''owner_digest'',
      lc_rho_digest = in_field ins ''rho_digest'', lc_blinding = in_field ins ''blinding'',
      lc_spend_secret_digest = in_field ins ''spend_secret_digest'',
      lc_path_siblings = in_fields ins ''path_siblings'', lc_path_indices = in_bools ins ''path_indices'',
      lc_zero_value = in_field ins ''zero_value''\<rparr>"

definition liquidation_accepts :: "host \<Rightarrow> prover_input \<Rightarrow> bool" where
  "liquidation_accepts h ins \<longleftrightarrow>
     typed_inputs liquidation_abi ins \<and> liquidation_main h (liquidation_params_of ins)"

subsection \<open>intent-validity\<close>

record intent_params =
  iv_size :: int
  iv_margin :: int
  iv_limit_price :: int
  iv_is_long :: bool
  iv_expiry_batch :: int
  iv_note_amount :: int
  iv_asset_digest :: int
  iv_owner_digest :: int
  iv_rho_digest :: int
  iv_blinding :: int
  iv_spend_secret_digest :: int
  iv_path_siblings :: "int list"
  iv_path_indices :: "bool list"
  iv_current_batch :: int
  iv_batch_digest :: int
  iv_market_digest :: int
  iv_owner_commitment_field :: int
  iv_intent_commitment :: int
  iv_margin_root :: int
  iv_note_commitment_public :: int
  iv_note_nullifier :: int
  iv_note_change_commitment :: int
  iv_nonce_digest :: int
  iv_salt_digest :: int
  iv_change_rho_digest :: int
  iv_change_blinding :: int
  iv_zero_commitment :: int

definition compute_intent_commitment ::
  "host \<Rightarrow> int \<Rightarrow> int \<Rightarrow> int \<Rightarrow> bool \<Rightarrow> int \<Rightarrow> int \<Rightarrow> int \<Rightarrow> int \<Rightarrow> int \<Rightarrow> int \<Rightarrow> int" where
  "compute_intent_commitment h batch_digest market_digest owner_commitment_field is_long sz limit_price
      margin note_nullifier nonce_digest salt_digest =
     (let hash_pair = pairF h;
          side = (if is_long then 1 else 2);
          scope = hash_pair (hash_pair batch_digest market_digest) (hash_pair owner_commitment_field side);
          economics = hash_pair (hash_pair sz limit_price) (hash_pair margin note_nullifier);
          entropy = hash_pair nonce_digest salt_digest
      in hash_pair (hash_pair scope economics) entropy)"

definition intent_validity_main :: "host \<Rightarrow> intent_params \<Rightarrow> bool" where
  "intent_validity_main h p \<longleftrightarrow>
     iv_size p > 0 \<and> iv_margin p > 0 \<and> iv_note_amount p \<ge> iv_margin p \<and> iv_limit_price p > 0
   \<and> iv_expiry_batch p \<ge> iv_current_batch p
   \<and> iv_intent_commitment p \<noteq> iv_zero_commitment p
   \<and> iv_batch_digest p \<noteq> iv_zero_commitment p
   \<and> iv_market_digest p \<noteq> iv_zero_commitment p
   \<and> iv_owner_commitment_field p \<noteq> iv_zero_commitment p
   \<and> iv_margin_root p \<noteq> iv_zero_commitment p
   \<and> iv_note_commitment_public p \<noteq> iv_zero_commitment p
   \<and> iv_note_nullifier p \<noteq> iv_zero_commitment p
   \<and> iv_nonce_digest p \<noteq> iv_zero_commitment p
   \<and> iv_salt_digest p \<noteq> iv_zero_commitment p
   \<and> circuit_note_commitment h (iv_asset_digest p) (iv_note_amount p) (iv_owner_digest p) (iv_rho_digest p)
       (iv_blinding p) = iv_note_commitment_public p
   \<and> nr_merkle_root h (iv_note_commitment_public p) (iv_path_siblings p) (iv_path_indices p) = iv_margin_root p
   \<and> pairF h (iv_spend_secret_digest p) (iv_rho_digest p) = iv_note_nullifier p
   \<and> (let change = iv_note_amount p - iv_margin p
      in if change = 0 then iv_note_change_commitment p = iv_zero_commitment p
         else iv_change_rho_digest p \<noteq> iv_zero_commitment p
            \<and> iv_change_blinding p \<noteq> iv_zero_commitment p
            \<and> iv_note_change_commitment p = circuit_note_commitment h (iv_asset_digest p) change
                (iv_owner_digest p) (iv_change_rho_digest p) (iv_change_blinding p))
   \<and> compute_intent_commitment h (iv_batch_digest p) (iv_market_digest p) (iv_owner_commitment_field p)
       (iv_is_long p) (iv_size p) (iv_limit_price p) (iv_margin p) (iv_note_nullifier p)
       (iv_nonce_digest p) (iv_salt_digest p) = iv_intent_commitment p"

definition intent_abi :: "(string \<times> abi_type) list" where
  "intent_abi =
     [(''size'', AbiU128), (''margin'', AbiU128), (''limit_price'', AbiU128), (''is_long'', AbiBool),
      (''expiry_batch'', AbiU128), (''note_amount'', AbiU128), (''asset_digest'', AbiField),
      (''owner_digest'', AbiField), (''rho_digest'', AbiField), (''blinding'', AbiField),
      (''spend_secret_digest'', AbiField), (''path_siblings'', AbiFields 8), (''path_indices'', AbiBools 8),
      (''current_batch'', AbiU128), (''batch_digest'', AbiField), (''market_digest'', AbiField),
      (''owner_commitment_field'', AbiField), (''intent_commitment'', AbiField), (''margin_root'', AbiField),
      (''note_commitment_public'', AbiField), (''note_nullifier'', AbiField),
      (''note_change_commitment'', AbiField), (''nonce_digest'', AbiField), (''salt_digest'', AbiField),
      (''change_rho_digest'', AbiField), (''change_blinding'', AbiField), (''zero_commitment'', AbiField)]"

definition intent_params_of :: "prover_input \<Rightarrow> intent_params" where
  "intent_params_of ins =
     \<lparr>iv_size = in_int ins ''size'', iv_margin = in_int ins ''margin'',
      iv_limit_price = in_int ins ''limit_price'', iv_is_long = in_bool ins ''is_long'',
      iv_expiry_batch = in_int ins ''expiry_batch'', iv_note_amount = in_int ins ''note_amount'',
      iv_asset_digest = in_field ins ''asset_digest'', iv_owner_digest = in_field ins ''owner_digest'',
      iv_rho_digest = in_field ins ''rho_digest'', iv_blinding = in_field ins ''blinding'',
      iv_spend_secret_digest = in_field ins ''spend_secret_digest'',
      iv_path_siblings = in_fields ins ''path_siblings'', iv_path_indices = in_bools ins ''path_indices'',
      iv_current_batch = in_int ins ''current_batch'', iv_batch_digest = in_field ins ''batch_digest'',
      iv_market_digest = in_field ins ''market_digest'',
      iv_owner_commitment_field = in_field ins ''owner_commitment_field'',
      iv_intent_commitment = in_field ins ''intent_commitment'', iv_margin_root = in_field ins ''margin_root'',
      iv_note_commitment_public = in_field ins ''note_commitment_public'',
      iv_note_nullifier = in_field ins ''note_nullifier'',
      iv_note_change_commitment = in_field ins ''note_change_commitment'',
      iv_nonce_digest = in_field ins ''nonce_digest'', iv_salt_digest = in_field ins ''salt_digest'',
      iv_change_rho_digest = in_field ins ''change_rho_digest'',
      iv_change_blinding = in_field ins ''change_blinding'',
      iv_zero_commitment = in_field ins ''zero_commitment''\<rparr>"

definition intent_validity_accepts :: "host \<Rightarrow> prover_input \<Rightarrow> bool" where
  "intent_validity_accepts h ins \<longleftrightarrow>
     typed_inputs intent_abi ins \<and> intent_validity_main h (intent_params_of ins)"

subsection \<open>funding-update\<close>

record funding_params =
  fu_market_id :: int
  fu_old_index_abs :: int
  fu_old_index_is_negative :: bool
  fu_new_index_abs :: int
  fu_new_index_is_negative :: bool
  fu_mark_price :: int
  fu_premium_rate_abs :: int
  fu_premium_rate_is_negative :: bool
  fu_elapsed_ms :: int
  fu_interval_ms :: int
  fu_max_delta :: int
  fu_max_delta_enabled :: int

text \<open>\<open>None\<close> when an assertion or an operation fails.\<close>

definition nr_funding_delta :: "int \<Rightarrow> int \<Rightarrow> int \<Rightarrow> int \<Rightarrow> int \<Rightarrow> int \<Rightarrow> int option" where
  "nr_funding_delta mark_price premium_rate_abs elapsed_ms interval_ms max_delta max_delta_enabled =
     (if mark_price > 0 \<and> interval_ms > 0 \<and> (max_delta_enabled \<noteq> 0 \<longrightarrow> max_delta_enabled = 1)
       \<and> u128 (mark_price * premium_rate_abs) \<and> u128 (mark_price * premium_rate_abs * elapsed_ms)
       \<and> u128 (1000000 * interval_ms)
      then
        let raw = (mark_price * premium_rate_abs * elapsed_ms) div (1000000 * interval_ms)
        in Some (if max_delta_enabled = 1 then (if raw > max_delta then max_delta else raw) else raw)
      else None)"

definition assert_signed_add :: "int \<Rightarrow> bool \<Rightarrow> int \<Rightarrow> bool \<Rightarrow> int \<Rightarrow> bool \<Rightarrow> bool" where
  "assert_signed_add old_abs old_is_negative delta_abs delta_is_negative new_abs new_is_negative \<longleftrightarrow>
     (old_abs = 0 \<longrightarrow> \<not> old_is_negative) \<and> (new_abs = 0 \<longrightarrow> \<not> new_is_negative)
   \<and> (if old_is_negative = delta_is_negative
      then u128 (old_abs + delta_abs) \<and> new_abs = old_abs + delta_abs
         \<and> (if new_abs = 0 then \<not> new_is_negative else new_is_negative = old_is_negative)
      else if old_abs \<ge> delta_abs
      then new_abs = old_abs - delta_abs
         \<and> (if new_abs = 0 then \<not> new_is_negative else new_is_negative = old_is_negative)
      else new_abs = delta_abs - old_abs \<and> new_is_negative = delta_is_negative)"

definition funding_update_main :: "funding_params \<Rightarrow> bool" where
  "funding_update_main p \<longleftrightarrow> fu_market_id p \<noteq> 0 \<and>
     (case nr_funding_delta (fu_mark_price p) (fu_premium_rate_abs p) (fu_elapsed_ms p) (fu_interval_ms p)
         (fu_max_delta p) (fu_max_delta_enabled p) of
        None \<Rightarrow> False
      | Some delta \<Rightarrow> delta > 0 \<and> assert_signed_add (fu_old_index_abs p) (fu_old_index_is_negative p) delta
          (fu_premium_rate_is_negative p) (fu_new_index_abs p) (fu_new_index_is_negative p))"

definition funding_abi :: "(string \<times> abi_type) list" where
  "funding_abi =
     [(''market_id'', AbiField), (''old_index_abs'', AbiU128), (''old_index_is_negative'', AbiBool),
      (''new_index_abs'', AbiU128), (''new_index_is_negative'', AbiBool), (''mark_price'', AbiU128),
      (''premium_rate_abs'', AbiU128), (''premium_rate_is_negative'', AbiBool), (''elapsed_ms'', AbiU128),
      (''interval_ms'', AbiU128), (''max_delta'', AbiU128), (''max_delta_enabled'', AbiU128)]"

definition funding_params_of :: "prover_input \<Rightarrow> funding_params" where
  "funding_params_of ins =
     \<lparr>fu_market_id = in_field ins ''market_id'', fu_old_index_abs = in_int ins ''old_index_abs'',
      fu_old_index_is_negative = in_bool ins ''old_index_is_negative'',
      fu_new_index_abs = in_int ins ''new_index_abs'',
      fu_new_index_is_negative = in_bool ins ''new_index_is_negative'',
      fu_mark_price = in_int ins ''mark_price'', fu_premium_rate_abs = in_int ins ''premium_rate_abs'',
      fu_premium_rate_is_negative = in_bool ins ''premium_rate_is_negative'',
      fu_elapsed_ms = in_int ins ''elapsed_ms'', fu_interval_ms = in_int ins ''interval_ms'',
      fu_max_delta = in_int ins ''max_delta'', fu_max_delta_enabled = in_int ins ''max_delta_enabled''\<rparr>"

definition funding_update_accepts :: "prover_input \<Rightarrow> bool" where
  "funding_update_accepts ins \<longleftrightarrow> typed_inputs funding_abi ins \<and> funding_update_main (funding_params_of ins)"

subsection \<open>withdraw\<close>

record withdraw_params =
  wd_note_amount :: int
  wd_withdraw_amount :: int
  wd_root :: int
  wd_nullifier :: int
  wd_token_digest :: int
  wd_recipient_digest :: int
  wd_change_commitment :: int
  wd_asset_digest :: int
  wd_owner_digest :: int
  wd_rho_digest :: int
  wd_blinding :: int
  wd_spend_secret_digest :: int
  wd_path_siblings :: "int list"
  wd_path_indices :: "bool list"
  wd_change_rho_digest :: int
  wd_change_blinding :: int
  wd_zero_value :: int

definition withdraw_main :: "host \<Rightarrow> withdraw_params \<Rightarrow> bool" where
  "withdraw_main h p \<longleftrightarrow>
     wd_note_amount p > 0 \<and> wd_withdraw_amount p > 0 \<and> wd_withdraw_amount p \<le> wd_note_amount p
   \<and> wd_root p \<noteq> wd_zero_value p \<and> wd_nullifier p \<noteq> wd_zero_value p
   \<and> wd_token_digest p \<noteq> wd_zero_value p \<and> wd_recipient_digest p \<noteq> wd_zero_value p
   \<and> wd_asset_digest p = wd_token_digest p
   \<and> nr_merkle_root h (circuit_note_commitment h (wd_asset_digest p) (wd_note_amount p) (wd_owner_digest p)
       (wd_rho_digest p) (wd_blinding p)) (wd_path_siblings p) (wd_path_indices p) = wd_root p
   \<and> pairF h (wd_spend_secret_digest p) (wd_rho_digest p) = wd_nullifier p
   \<and> (let change = wd_note_amount p - wd_withdraw_amount p
      in if change = 0 then wd_change_commitment p = wd_zero_value p
         else wd_change_rho_digest p \<noteq> wd_zero_value p
            \<and> wd_change_blinding p \<noteq> wd_zero_value p
            \<and> wd_change_commitment p = circuit_note_commitment h (wd_asset_digest p) change
                (wd_owner_digest p) (wd_change_rho_digest p) (wd_change_blinding p))"

definition withdraw_abi :: "(string \<times> abi_type) list" where
  "withdraw_abi =
     [(''note_amount'', AbiU128), (''withdraw_amount'', AbiU128), (''root'', AbiField), (''nullifier'', AbiField),
      (''token_digest'', AbiField), (''recipient_digest'', AbiField), (''change_commitment'', AbiField),
      (''asset_digest'', AbiField), (''owner_digest'', AbiField), (''rho_digest'', AbiField),
      (''blinding'', AbiField), (''spend_secret_digest'', AbiField), (''path_siblings'', AbiFields 8),
      (''path_indices'', AbiBools 8), (''change_rho_digest'', AbiField), (''change_blinding'', AbiField),
      (''zero_value'', AbiField)]"

definition withdraw_params_of :: "prover_input \<Rightarrow> withdraw_params" where
  "withdraw_params_of ins =
     \<lparr>wd_note_amount = in_int ins ''note_amount'', wd_withdraw_amount = in_int ins ''withdraw_amount'',
      wd_root = in_field ins ''root'', wd_nullifier = in_field ins ''nullifier'',
      wd_token_digest = in_field ins ''token_digest'', wd_recipient_digest = in_field ins ''recipient_digest'',
      wd_change_commitment = in_field ins ''change_commitment'', wd_asset_digest = in_field ins ''asset_digest'',
      wd_owner_digest = in_field ins ''owner_digest'', wd_rho_digest = in_field ins ''rho_digest'',
      wd_blinding = in_field ins ''blinding'', wd_spend_secret_digest = in_field ins ''spend_secret_digest'',
      wd_path_siblings = in_fields ins ''path_siblings'', wd_path_indices = in_bools ins ''path_indices'',
      wd_change_rho_digest = in_field ins ''change_rho_digest'',
      wd_change_blinding = in_field ins ''change_blinding'', wd_zero_value = in_field ins ''zero_value''\<rparr>"

definition withdraw_accepts :: "host \<Rightarrow> prover_input \<Rightarrow> bool" where
  "withdraw_accepts h ins \<longleftrightarrow> typed_inputs withdraw_abi ins \<and> withdraw_main h (withdraw_params_of ins)"

end
