(* ===== verification/Prover_Properties.thy ===== *)
theory Prover_Properties
  imports Circuits
begin

text \<open>
  The prover service against the circuits. The inputs that a plan writes are read back by name; a witness
  is provable exactly when the checks of the server pass and what only the circuit checks holds too. The
  differences between the two (the path, ranges, and the arithmetic of liquidations) are explicit.
\<close>

subsection \<open>Lemmas: inputs by name\<close>

lemma bigint_of_nat_str: "bigint_of_hex (''0x'' @ nat_str 16 n) = Inr (int n)"
proof -
  have ne: "nat_str 16 n \<noteq> []" by (simp add: nat_str.simps [of 16 n])
  then obtain d ds where ds: "nat_str 16 n = d # ds" by (cases "nat_str 16 n") auto
  have "str_nat 16 0 (nat_str 16 n) = Some n" by (simp add: str_nat_nat_str)
  with ds have "str_nat 16 0 (d # ds) = Some n" by simp
  then show ?thesis by (simp add: ds bigint_of_hex_def del: str_nat.simps)
qed

lemma field_text_Inr:
  "field_text x = Inr t \<longleftrightarrow> (\<exists>b. bigint_of_hex x = Inr b) \<and> t = ''0x'' @ nat_str 16 (nat (hex_val x))"
  by (auto simp: field_text_def bindE_Inr_iff hex_val_def)

lemma hex_val_range [simp]: "0 \<le> hex_val x" "hex_val x < FIELD_PRIME"
  by (auto simp: hex_val_def split: sum.splits)

lemma field_text_value: "field_text x = Inr t \<Longrightarrow> field_ok (PvStr t) \<and> field_value (PvStr t) = hex_val x"
  using bigint_of_nat_str [of "nat (hex_val x)"]
  by (auto simp: field_text_Inr field_ok_def field_value_def hex_val_def [of "''0x'' @ s" for s]
      field_mod_eq simp del: append_Cons)

lemma circuit_inputs_map_of:
  assumes "circuit_inputs es = Inr ins"
  shows "(case map_of es k of None \<Rightarrow> map_of ins k = None
     | Some e \<Rightarrow> \<exists>v. entry_value e = Inr v \<and> map_of ins k = Some v)"
  using assms
proof (induction es arbitrary: ins)
  case Nil
  then show ?case by (simp add: circuit_inputs_def)
next
  case (Cons p es)
  then show ?case
    by (cases p) (auto simp: circuit_inputs_def bindE_Inr_iff split: option.splits)
qed

lemma read_inputs:
  assumes "circuit_inputs es = Inr ins"
  shows "map_of es k = Some (InBig v) \<Longrightarrow> in_int ins k = v"
    and "map_of es k = Some (InBig v) \<Longrightarrow> in_field ins k = field_mod v"
    and "map_of es k = Some (InField x) \<Longrightarrow> in_field ins k = hex_val x"
    and "map_of es k = Some (InBool b) \<Longrightarrow> in_bool ins k = b"
    and "map_of es k = Some (InFields xs) \<Longrightarrow> in_fields ins k = map hex_val xs"
    and "map_of es k = Some (InBools bs) \<Longrightarrow> in_bools ins k = bs"
proof -
  note m = circuit_inputs_map_of [OF assms, of k]
  show "map_of es k = Some (InBig v) \<Longrightarrow> in_int ins k = v"
    using m by (auto simp: entry_value_def in_int_def)
  show "map_of es k = Some (InBig v) \<Longrightarrow> in_field ins k = field_mod v"
    using m by (auto simp: entry_value_def in_field_def field_value_def)
  show "map_of es k = Some (InField x) \<Longrightarrow> in_field ins k = hex_val x"
    using m by (auto simp: entry_value_def in_field_def bindE_Inr_iff dest: field_text_value)
  show "map_of es k = Some (InBool b) \<Longrightarrow> in_bool ins k = b"
    using m by (auto simp: entry_value_def in_bool_def)
  show "map_of es k = Some (InBools bs) \<Longrightarrow> in_bools ins k = bs"
    using m by (auto simp: entry_value_def in_bools_def comp_def intro: map_idI)
  assume "map_of es k = Some (InFields xs)"
  with m obtain ts where ts: "mapE field_text xs = Inr ts" "map_of ins k = Some (PvArr (map PvStr ts))"
    by (auto simp: entry_value_def bindE_Inr_iff)
  from ts(1) have "map (field_value \<circ> PvStr) ts = map hex_val xs"
    by (simp add: mapE_Inr_iff list_all2_conv_all_nth list_eq_iff_nth_eq field_text_value)
  with ts(2) show "in_fields ins k = map hex_val xs" by (simp add: in_fields_def)
qed

definition entry_typed :: "abi_type \<Rightarrow> input_entry \<Rightarrow> bool" where
  "entry_typed t e = (case (t, e) of
     (AbiU128, InBig v) \<Rightarrow> u128 v
   | (AbiField, InField x) \<Rightarrow> True
   | (AbiField, InBig v) \<Rightarrow> 0 \<le> v \<and> v < FIELD_PRIME
   | (AbiBool, InBool b) \<Rightarrow> True
   | (AbiFields k, InFields xs) \<Rightarrow> length xs = k
   | (AbiBools k, InBools bs) \<Rightarrow> length bs = k
   | (AbiFields k, InBools bs) \<Rightarrow> k = 0 \<and> bs = []
   | (AbiBools k, InFields xs) \<Rightarrow> k = 0 \<and> xs = []
   | _ \<Rightarrow> False)"

lemma entry_typed_value:
  assumes "entry_value e = Inr v"
  shows "has_type t v \<longleftrightarrow> entry_typed t e"
proof (cases e)
  case (InFields xs)
  with assms obtain ts where ts: "mapE field_text xs = Inr ts" "v = PvArr (map PvStr ts)"
    by (auto simp: entry_value_def bindE_Inr_iff)
  from ts(1) have "list_all (\<lambda>t. field_ok (PvStr t)) ts"
    by (auto simp: mapE_Inr_iff list_all2_conv_all_nth list_all_length field_text_value)
  moreover have "length ts = length xs" using ts(1) by (rule mapE_length)
  ultimately show ?thesis using ts(2) InFields
    by (cases t) (auto simp: has_type_def entry_typed_def field_ok_def is_pv_bool_def list_all_iff)
next
  case (InField x)
  with assms show ?thesis
    by (cases t) (auto simp: entry_value_def has_type_def entry_typed_def bindE_Inr_iff is_pv_bool_def
        dest: field_text_value)
qed (use assms in \<open>cases t; auto simp: entry_value_def has_type_def entry_typed_def field_ok_def
      is_pv_bool_def list_all_iff\<close>)+

lemma typed_inputs_entries:
  assumes "circuit_inputs es = Inr ins"
  shows "typed_inputs params ins \<longleftrightarrow>
    list_all (\<lambda>(k, t). case map_of es k of None \<Rightarrow> False | Some e \<Rightarrow> entry_typed t e) params"
proof -
  have "(case map_of ins k of None \<Rightarrow> False | Some v \<Rightarrow> has_type t v)
      = (case map_of es k of None \<Rightarrow> False | Some e \<Rightarrow> entry_typed t e)" for k t
    using circuit_inputs_map_of [OF assms, of k]
    by (auto simp: entry_typed_value split: option.splits)
  then show ?thesis by (simp add: typed_inputs_def)
qed

subsection \<open>Lemmas: commitments as field elements\<close>

definition reads :: "Hex \<Rightarrow> bool" where
  "reads x \<longleftrightarrow> (\<exists>b. bigint_of_hex x = Inr b)"

lemma circuit_inputs_reads:
  "circuit_inputs es = Inr ins \<Longrightarrow>
    list_all (\<lambda>(k, e). case e of InField x \<Rightarrow> reads x | InFields xs \<Rightarrow> list_all reads xs | _ \<Rightarrow> True) es"
proof (induction es arbitrary: ins)
  case (Cons p es)
  have "mapE field_text xs = Inr ts \<Longrightarrow> list_all reads xs" for xs ts
    by (auto simp: mapE_Inr_iff list_all2_conv_all_nth list_all_length field_text_Inr reads_def)
  with Cons show ?case
    by (cases p) (auto simp: circuit_inputs_def bindE_Inr_iff entry_value_def field_text_Inr reads_def
        split: input_entry.splits)
qed (simp add: circuit_inputs_def)

lemma toField_reads: "reads x \<Longrightarrow> toField (FHex x) = Inr (hex_val x)"
  by (auto simp: reads_def toField_def hex_val_def)

lemma field_mod_small: "0 \<le> v \<Longrightarrow> v < FIELD_PRIME \<Longrightarrow> field_mod v = v"
  by (simp add: field_mod_eq)

lemma field_mod_u128 [simp]: "u128 v \<Longrightarrow> field_mod v = v"
  by (rule field_mod_small) (auto simp: u128_def FIELD_PRIME_def)

lemma field_mod_0 [simp]: "field_mod 0 = 0"
  by (simp add: field_mod_eq)

lemma position_commitment_value:
  assumes "reads (cpn_marketDigest i)" "reads (cpn_ownerDigest i)" "reads (cpn_rhoDigest i)" "reads (cpn_blinding i)"
  shows "circuitPositionCommitment h i = Inr (fieldHex (nr_position_commitment h (cpn_side i = Long)
    (field_mod (cpn_size i)) (field_mod (cpn_entryPrice i)) (field_mod (cpn_margin i))
    (field_mod (cpn_fundingIndex i)) (hex_val (cpn_marketDigest i)) (hex_val (cpn_ownerDigest i))
    (hex_val (cpn_rhoDigest i)) (hex_val (cpn_blinding i))))"
proof -
  have "field_mod (side_code s) = (if s = Long then 1 else 2)" for s
    by (simp add: side_code_def field_mod_small FIELD_PRIME_def)
  then show ?thesis
    by (simp add: circuitPositionCommitment_def fieldHashPair_total toField_reads assms
        nr_position_commitment_def Let_def)
qed

lemma margin_commitment_value:
  assumes "reads (cmn_assetDigest i)" "reads (cmn_ownerDigest i)" "reads (cmn_rhoDigest i)" "reads (cmn_blinding i)"
  shows "circuitMarginCommitment h i = Inr (fieldHex (circuit_note_commitment h (hex_val (cmn_assetDigest i))
    (field_mod (cmn_amount i)) (hex_val (cmn_ownerDigest i)) (hex_val (cmn_rhoDigest i))
    (hex_val (cmn_blinding i))))"
  by (simp add: circuitMarginCommitment_def fieldHashPair_total toField_reads assms Let_def
      circuit_note_commitment_def pairF_def [symmetric])

lemma nullifier_value:
  assumes "reads rhoD" "reads secret"
  shows "circuitNullifier h rhoD secret = Inr (fieldHex (pairF h (hex_val secret) (hex_val rhoD)))"
    and "circuitPositionNullifier h rhoD secret = Inr (fieldHex (pairF h (hex_val secret) (hex_val rhoD)))"
  by (simp_all add: circuitNullifier_def circuitPositionNullifier_def fieldHashPair_total toField_reads assms)

lemma canonical_eq: "canonical_hex s \<Longrightarrow> fieldHex v = s \<longleftrightarrow> field_mod v = hex_val s"
  by (auto simp: canonical_hex_def fieldHex_eq_iff)

lemma commitments_are_fields [simp]:
  "field_mod (nr_position_commitment h b a1 a2 a3 a4 a5 a6 a7 a8) = nr_position_commitment h b a1 a2 a3 a4 a5 a6 a7 a8"
  "field_mod (circuit_note_commitment h a1 a2 a3 a4 a5) = circuit_note_commitment h a1 a2 a3 a4 a5"
  by (simp_all add: nr_position_commitment_def circuit_note_commitment_def Let_def pairF_def [symmetric])

lemma pathChecks_Inr:
  "checksE (pathChecks d ss bs e) = Inr u \<longleftrightarrow> length ss = d \<and> length bs = d"
  by (simp add: pathChecks_def bindE_Inr_iff)

lemma validatePositionOpening_Inr:
  assumes "reads (cpn_marketDigest w)" "reads (cpn_ownerDigest w)" "reads (cpn_rhoDigest w)"
    "reads (cpn_blinding w)" "reads (cpn_spendSecretDigest w)"
    "canonical_hex (pow_positionCommitment w)" "canonical_hex (pow_positionNullifier w)"
  shows "validatePositionOpening h w = Inr u \<longleftrightarrow>
     length (pow_pathSiblings w) = 20 \<and> length (pow_pathIndices w) = 20
   \<and> nr_position_commitment h (cpn_side w = Long) (field_mod (cpn_size w)) (field_mod (cpn_entryPrice w))
       (field_mod (cpn_margin w)) (field_mod (cpn_fundingIndex w)) (hex_val (cpn_marketDigest w))
       (hex_val (cpn_ownerDigest w)) (hex_val (cpn_rhoDigest w)) (hex_val (cpn_blinding w))
       = hex_val (pow_positionCommitment w)
   \<and> pairF h (hex_val (cpn_spendSecretDigest w)) (hex_val (cpn_rhoDigest w)) = hex_val (pow_positionNullifier w)"
  using assms
  by (auto simp: validatePositionOpening_def bindE_Inr_iff pathChecks_Inr position_commitment_value
      nullifier_value CircuitPositionNoteInput.truncate_def canonical_eq POSITION_MERKLE_DEPTH_def)

subsection \<open>Closes\<close>

text \<open>What the circuit checks of a close and the server does not: the ranges of the numbers and of the
  intermediate results, that digests are not zero, and the path from the position to the root.\<close>

definition close_pnl :: "PositionCloseWitness \<Rightarrow> int" where
  "close_pnl i = unrealizedPnl (pcw_side i) (pcw_closeSize i) (pcw_entryPrice i) (pcw_markPrice i)"

definition close_ranges :: "PositionCloseWitness \<Rightarrow> bool" where
  "close_ranges i \<longleftrightarrow> list_all u128
     [pcw_size i, pcw_closeSize i, pcw_entryPrice i, pcw_markPrice i, pcw_margin i, pcw_fundingIndex i,
      \<bar>pcw_fundingPayment i\<bar>, pcw_fee i, pcw_newMargin i, pcw_remainingMargin i, pcw_marginOutputAmount i,
      pcw_closeSize i * \<bar>pcw_markPrice i - pcw_entryPrice i\<bar>, pcw_margin i + close_pnl i,
      pcw_margin i + close_pnl i - pcw_fundingPayment i]"

definition close_digests :: "PositionCloseWitness \<Rightarrow> bool" where
  "close_digests i \<longleftrightarrow> list_all (\<lambda>x. hex_val x \<noteq> 0)
     [pcw_positionRoot i, pcw_positionCommitment i, pcw_positionNullifier i, pcw_closeCommitment i,
      pcw_newPositionCommitment i, pcw_marginOutputCommitment i, pcw_newPositionRhoDigest i,
      pcw_newPositionBlinding i, pcw_marginOutputAssetDigest i, pcw_marginOutputRhoDigest i,
      pcw_marginOutputBlinding i]
   \<and> hex_val (pcw_newPositionCommitment i) \<noteq> hex_val (pcw_closeCommitment i)
   \<and> hex_val (pcw_marginOutputCommitment i) \<noteq> hex_val (pcw_closeCommitment i)"

definition close_member :: "host \<Rightarrow> PositionCloseWitness \<Rightarrow> bool" where
  "close_member h i \<longleftrightarrow> nr_merkle_root h (hex_val (pcw_positionCommitment i))
     (map hex_val (pcw_pathSiblings i)) (pcw_pathIndices i) = hex_val (pcw_positionRoot i)"

lemma pnl_as_delta:
  assumes "0 < sz"
  shows "unrealizedPnl sd sz e m = (if nr_is_profit (sd = Long) e m then 1 else - 1)
      * ((sz * nr_price_delta (sd = Long) e m) div PRICE_SCALE)"
    and "nr_price_delta (sd = Long) e m = \<bar>m - e\<bar>"
proof -
  show d: "nr_price_delta (sd = Long) e m = \<bar>m - e\<bar>"
    by (auto simp: nr_price_delta_def nr_is_profit_def)
  have "sz * x sdiv PRICE_SCALE = (if 0 \<le> x then sz * x div PRICE_SCALE else - (sz * (- x) div PRICE_SCALE))" for x
  proof (cases "0 \<le> x")
    case True
    with assms show ?thesis by (simp add: sdiv_nonneg)
  next
    case False
    then have "sz * x \<le> 0" using assms by (simp add: mult_le_0_iff)
    then show ?thesis using False by (simp add: sdiv_nonpos)
  qed
  then show "unrealizedPnl sd sz e m = (if nr_is_profit (sd = Long) e m then 1 else - 1)
      * ((sz * nr_price_delta (sd = Long) e m) div PRICE_SCALE)"
    unfolding d by (simp add: unrealizedPnl_def Let_def nr_is_profit_def abs_if del: mult_minus_right)
qed

definition close_params :: "PositionCloseWitness \<Rightarrow> position_close_params" where
  "close_params i =
     \<lparr>pc_is_long = (pcw_side i = Long), pc_size = pcw_size i, pc_close_size = pcw_closeSize i,
      pc_entry_price = pcw_entryPrice i, pc_mark_price = pcw_markPrice i, pc_margin = pcw_margin i,
      pc_funding_index = pcw_fundingIndex i, pc_funding_payment_abs = \<bar>pcw_fundingPayment i\<bar>,
      pc_funding_is_credit = (pcw_fundingPayment i < 0), pc_fee = pcw_fee i, pc_new_margin = pcw_newMargin i,
      pc_remaining_margin = pcw_remainingMargin i, pc_margin_output_amount = pcw_marginOutputAmount i,
      pc_price_scale = PRICE_SCALE, pc_position_root = hex_val (pcw_positionRoot i),
      pc_position_commitment_public = hex_val (pcw_positionCommitment i),
      pc_position_nullifier = hex_val (pcw_positionNullifier i),
      pc_close_commitment = hex_val (pcw_closeCommitment i),
      pc_new_position_commitment = hex_val (pcw_newPositionCommitment i),
      pc_margin_output_commitment = hex_val (pcw_marginOutputCommitment i),
      pc_market_digest = hex_val (pcw_marketDigest i), pc_owner_digest = hex_val (pcw_ownerDigest i),
      pc_rho_digest = hex_val (pcw_rhoDigest i), pc_blinding = hex_val (pcw_blinding i),
      pc_spend_secret_digest = hex_val (pcw_spendSecretDigest i),
      pc_new_position_rho_digest = hex_val (pcw_newPositionRhoDigest i),
      pc_new_position_blinding = hex_val (pcw_newPositionBlinding i),
      pc_margin_output_asset_digest = hex_val (pcw_marginOutputAssetDigest i),
      pc_margin_output_rho_digest = hex_val (pcw_marginOutputRhoDigest i),
      pc_margin_output_blinding = hex_val (pcw_marginOutputBlinding i),
      pc_path_siblings = map hex_val (pcw_pathSiblings i), pc_path_indices = pcw_pathIndices i,
      pc_zero_value = 0\<rparr>"

lemma close_lookups:
  "map_of (close_inputs i) ''is_long'' = Some (InBool (pcw_side i = Long))"
  "map_of (close_inputs i) ''size'' = Some (InBig (pcw_size i))"
  "map_of (close_inputs i) ''close_size'' = Some (InBig (pcw_closeSize i))"
  "map_of (close_inputs i) ''entry_price'' = Some (InBig (pcw_entryPrice i))"
  "map_of (close_inputs i) ''mark_price'' = Some (InBig (pcw_markPrice i))"
  "map_of (close_inputs i) ''margin'' = Some (InBig (pcw_margin i))"
  "map_of (close_inputs i) ''funding_index'' = Some (InBig (pcw_fundingIndex i))"
  "map_of (close_inputs i) ''funding_payment_abs'' = Some (InBig (\<bar>pcw_fundingPayment i\<bar>))"
  "map_of (close_inputs i) ''funding_is_credit'' = Some (InBool (pcw_fundingPayment i < 0))"
  "map_of (close_inputs i) ''fee'' = Some (InBig (pcw_fee i))"
  "map_of (close_inputs i) ''new_margin'' = Some (InBig (pcw_newMargin i))"
  "map_of (close_inputs i) ''remaining_margin'' = Some (InBig (pcw_remainingMargin i))"
  "map_of (close_inputs i) ''margin_output_amount'' = Some (InBig (pcw_marginOutputAmount i))"
  "map_of (close_inputs i) ''price_scale'' = Some (InBig PRICE_SCALE)"
  "map_of (close_inputs i) ''position_root'' = Some (InField (pcw_positionRoot i))"
  "map_of (close_inputs i) ''position_commitment_public'' = Some (InField (pcw_positionCommitment i))"
  "map_of (close_inputs i) ''position_nullifier'' = Some (InField (pcw_positionNullifier i))"
  "map_of (close_inputs i) ''close_commitment'' = Some (InField (pcw_closeCommitment i))"
  "map_of (close_inputs i) ''new_position_commitment'' = Some (InField (pcw_newPositionCommitment i))"
  "map_of (close_inputs i) ''margin_output_commitment'' = Some (InField (pcw_marginOutputCommitment i))"
  "map_of (close_inputs i) ''market_digest'' = Some (InField (pcw_marketDigest i))"
  "map_of (close_inputs i) ''owner_digest'' = Some (InField (pcw_ownerDigest i))"
  "map_of (close_inputs i) ''rho_digest'' = Some (InField (pcw_rhoDigest i))"
  "map_of (close_inputs i) ''blinding'' = Some (InField (pcw_blinding i))"
  "map_of (close_inputs i) ''spend_secret_digest'' = Some (InField (pcw_spendSecretDigest i))"
  "map_of (close_inputs i) ''new_position_rho_digest'' = Some (InField (pcw_newPositionRhoDigest i))"
  "map_of (close_inputs i) ''new_position_blinding'' = Some (InField (pcw_newPositionBlinding i))"
  "map_of (close_inputs i) ''margin_output_asset_digest'' = Some (InField (pcw_marginOutputAssetDigest i))"
  "map_of (close_inputs i) ''margin_output_rho_digest'' = Some (InField (pcw_marginOutputRhoDigest i))"
  "map_of (close_inputs i) ''margin_output_blinding'' = Some (InField (pcw_marginOutputBlinding i))"
  "map_of (close_inputs i) ''path_siblings'' = Some (InFields (pcw_pathSiblings i))"
  "map_of (close_inputs i) ''path_indices'' = Some (InBools (pcw_pathIndices i))"
  "map_of (close_inputs i) ''zero_value'' = Some (InBig 0)"
  by (simp_all add: close_inputs_def Let_def signedFundingWitness_def)

lemma close_params_read:
  assumes "circuit_inputs (close_inputs i) = Inr ins"
  shows "position_close_params_of ins = close_params i"
  unfolding position_close_params_of_def close_params_def
  by (simp add: read_inputs [OF assms] close_lookups)

lemma close_typed:
  assumes "circuit_inputs (close_inputs i) = Inr ins"
  shows "typed_inputs position_close_abi ins \<longleftrightarrow> list_all u128
     [pcw_size i, pcw_closeSize i, pcw_entryPrice i, pcw_markPrice i, pcw_margin i, pcw_fundingIndex i,
      \<bar>pcw_fundingPayment i\<bar>, pcw_fee i, pcw_newMargin i, pcw_remainingMargin i, pcw_marginOutputAmount i]
    \<and> length (pcw_pathSiblings i) = 20 \<and> length (pcw_pathIndices i) = 20"
proof -
  have "u128 PRICE_SCALE" by (simp add: u128_def PRICE_SCALE_def)
  then show ?thesis
    by (simp add: typed_inputs_entries [OF assms] position_close_abi_def close_lookups entry_typed_def conj_ac)
qed

lemma close_margin_read:
  assumes "0 < pcw_closeSize i"
  shows "position_close_margin (close_params i) \<longleftrightarrow>
     u128 (pcw_closeSize i * \<bar>pcw_markPrice i - pcw_entryPrice i\<bar>)
   \<and> u128 (pcw_margin i + close_pnl i) \<and> u128 (pcw_margin i + close_pnl i - pcw_fundingPayment i)
   \<and> pcw_fee i \<le> pcw_margin i + close_pnl i - pcw_fundingPayment i
   \<and> pcw_newMargin i = pcw_margin i + close_pnl i - pcw_fundingPayment i - pcw_fee i
   \<and> u128 (pcw_remainingMargin i + pcw_marginOutputAmount i)
   \<and> pcw_remainingMargin i + pcw_marginOutputAmount i = pcw_newMargin i"
proof -
  have "(if pcw_fundingPayment i < 0 then m + \<bar>pcw_fundingPayment i\<bar> else m - \<bar>pcw_fundingPayment i\<bar>)
      = m - pcw_fundingPayment i" for m by simp
  then show ?thesis
    unfolding position_close_margin_def close_pnl_def pnl_as_delta(1) [OF assms] Let_def
    by (simp add: close_params_def pnl_as_delta(2) [OF assms])
qed

lemma settleClose_Inr:
  "settleClose c = Inr r \<longleftrightarrow> 0 < csi_closeSize c \<and> 0 \<le> csi_margin c \<and> 0 \<le> csi_fee c
   \<and> 0 \<le> cs_newMargin r
   \<and> r = \<lparr>cs_realizedPnl = unrealizedPnl (csi_side c) (csi_closeSize c) (csi_entryPrice c) (csi_markPrice c),
      cs_newMargin = csi_margin c + unrealizedPnl (csi_side c) (csi_closeSize c) (csi_entryPrice c)
        (csi_markPrice c) - csi_fundingPayment c - csi_fee c\<rparr>"
  by (auto simp: settleClose_def Let_def)

lemma close_reads:
  assumes "circuit_inputs (close_inputs i) = Inr ins"
  shows "list_all reads [pcw_marketDigest i, pcw_ownerDigest i, pcw_rhoDigest i, pcw_blinding i,
    pcw_spendSecretDigest i, pcw_newPositionRhoDigest i, pcw_newPositionBlinding i,
    pcw_marginOutputAssetDigest i, pcw_marginOutputRhoDigest i, pcw_marginOutputBlinding i]"
  using circuit_inputs_reads [OF assms] by (simp add: close_inputs_def Let_def)

lemma close_checks_Inr:
  assumes "circuit_inputs (close_inputs i) = Inr ins"
    and "list_all canonical_hex [pcw_positionCommitment i, pcw_positionNullifier i,
      pcw_newPositionCommitment i, pcw_marginOutputCommitment i]"
  shows "close_checks h i = Inr () \<longleftrightarrow>
     validatePositionOpening h (close_opening i) = Inr ()
   \<and> 0 < pcw_size i \<and> pcw_closeSize i = pcw_size i \<and> 0 < pcw_entryPrice i \<and> 0 < pcw_markPrice i
   \<and> 0 \<le> pcw_fee i \<and> 0 \<le> pcw_margin i \<and> 0 \<le> pcw_newMargin i
   \<and> pcw_newMargin i = pcw_margin i + close_pnl i - pcw_fundingPayment i - pcw_fee i
   \<and> pcw_remainingMargin i = 0 \<and> pcw_marginOutputAmount i = pcw_newMargin i
   \<and> nr_position_commitment h (pcw_side i = Long) 0 (field_mod (pcw_entryPrice i)) 0
       (field_mod (pcw_fundingIndex i)) (hex_val (pcw_marketDigest i)) (hex_val (pcw_ownerDigest i))
       (hex_val (pcw_newPositionRhoDigest i)) (hex_val (pcw_newPositionBlinding i))
       = hex_val (pcw_newPositionCommitment i)
   \<and> circuit_note_commitment h (hex_val (pcw_marginOutputAssetDigest i)) (field_mod (pcw_marginOutputAmount i))
       (hex_val (pcw_ownerDigest i)) (hex_val (pcw_marginOutputRhoDigest i))
       (hex_val (pcw_marginOutputBlinding i)) = hex_val (pcw_marginOutputCommitment i)"
proof -
  note reads = close_reads [OF assms(1), simplified]
  note canon = assms(2) [simplified]
  have new: "circuitPositionCommitment h (closed_position_note i) = Inr (fieldHex
      (nr_position_commitment h (pcw_side i = Long) (field_mod (pcw_size i - pcw_closeSize i))
       (field_mod (pcw_entryPrice i)) (field_mod (pcw_remainingMargin i))
       (field_mod (pcw_fundingIndex i)) (hex_val (pcw_marketDigest i)) (hex_val (pcw_ownerDigest i))
       (hex_val (pcw_newPositionRhoDigest i)) (hex_val (pcw_newPositionBlinding i))))"
    by (subst position_commitment_value) (simp_all add: closed_position_note_def reads)
  have out: "circuitMarginCommitment h (margin_output_note i) = Inr (fieldHex
      (circuit_note_commitment h (hex_val (pcw_marginOutputAssetDigest i)) (field_mod (pcw_marginOutputAmount i))
       (hex_val (pcw_ownerDigest i)) (hex_val (pcw_marginOutputRhoDigest i))
       (hex_val (pcw_marginOutputBlinding i))))"
    by (subst margin_commitment_value) (simp_all add: margin_output_note_def reads)
  show ?thesis
    unfolding close_checks_def new out
    by (auto simp: bindE_Inr_iff settleClose_Inr close_settlement_input_def close_pnl_def
        eq_commute [of "pcw_newPositionCommitment i"] eq_commute [of "pcw_marginOutputCommitment i"]
        canonical_eq canon)
qed

subsection \<open>Liquidations\<close>

definition liq_params :: "LiquidationWitness \<Rightarrow> liquidation_params" where
  "liq_params i =
     \<lparr>lc_is_long = (lw_side i = Long), lc_size = lw_size i, lc_entry_price = lw_entryPrice i,
      lc_mark_price = lw_markPrice i, lc_margin = lw_margin i, lc_funding_index = lw_fundingIndex i,
      lc_funding_payment_abs = \<bar>lw_fundingPayment i\<bar>, lc_funding_is_credit = (lw_fundingPayment i < 0),
      lc_maintenance_rate = lw_maintenanceRate i, lc_price_scale = PRICE_SCALE, lc_rate_scale = RATE_SCALE,
      lc_position_root = hex_val (lw_positionRoot i),
      lc_position_commitment_public = hex_val (lw_positionCommitment i),
      lc_position_nullifier = hex_val (lw_positionNullifier i),
      lc_reward_commitment = hex_val (lw_rewardCommitment i), lc_market_digest = hex_val (lw_marketDigest i),
      lc_owner_digest = hex_val (lw_ownerDigest i), lc_rho_digest = hex_val (lw_rhoDigest i),
      lc_blinding = hex_val (lw_blinding i), lc_spend_secret_digest = hex_val (lw_spendSecretDigest i),
      lc_path_siblings = map hex_val (lw_pathSiblings i), lc_path_indices = lw_pathIndices i,
      lc_zero_value = 0\<rparr>"

lemma liquidation_lookups:
  "map_of (liquidation_inputs i) ''is_long'' = Some (InBool (lw_side i = Long))"
  "map_of (liquidation_inputs i) ''size'' = Some (InBig (lw_size i))"
  "map_of (liquidation_inputs i) ''entry_price'' = Some (InBig (lw_entryPrice i))"
  "map_of (liquidation_inputs i) ''mark_price'' = Some (InBig (lw_markPrice i))"
  "map_of (liquidation_inputs i) ''margin'' = Some (InBig (lw_margin i))"
  "map_of (liquidation_inputs i) ''funding_index'' = Some (InBig (lw_fundingIndex i))"
  "map_of (liquidation_inputs i) ''funding_payment_abs'' = Some (InBig (\<bar>lw_fundingPayment i\<bar>))"
  "map_of (liquidation_inputs i) ''funding_is_credit'' = Some (InBool (lw_fundingPayment i < 0))"
  "map_of (liquidation_inputs i) ''maintenance_rate'' = Some (InBig (lw_maintenanceRate i))"
  "map_of (liquidation_inputs i) ''price_scale'' = Some (InBig PRICE_SCALE)"
  "map_of (liquidation_inputs i) ''rate_scale'' = Some (InBig RATE_SCALE)"
  "map_of (liquidation_inputs i) ''position_root'' = Some (InField (lw_positionRoot i))"
  "map_of (liquidation_inputs i) ''position_commitment_public'' = Some (InField (lw_positionCommitment i))"
  "map_of (liquidation_inputs i) ''position_nullifier'' = Some (InField (lw_positionNullifier i))"
  "map_of (liquidation_inputs i) ''reward_commitment'' = Some (InField (lw_rewardCommitment i))"
  "map_of (liquidation_inputs i) ''market_digest'' = Some (InField (lw_marketDigest i))"
  "map_of (liquidation_inputs i) ''owner_digest'' = Some (InField (lw_ownerDigest i))"
  "map_of (liquidation_inputs i) ''rho_digest'' = Some (InField (lw_rhoDigest i))"
  "map_of (liquidation_inputs i) ''blinding'' = Some (InField (lw_blinding i))"
  "map_of (liquidation_inputs i) ''spend_secret_digest'' = Some (InField (lw_spendSecretDigest i))"
  "map_of (liquidation_inputs i) ''path_siblings'' = Some (InFields (lw_pathSiblings i))"
  "map_of (liquidation_inputs i) ''path_indices'' = Some (InBools (lw_pathIndices i))"
  "map_of (liquidation_inputs i) ''zero_value'' = Some (InBig 0)"
  by (simp_all add: liquidation_inputs_def Let_def signedFundingWitness_def)

lemma liq_params_read:
  assumes "circuit_inputs (liquidation_inputs i) = Inr ins"
  shows "liquidation_params_of ins = liq_params i"
  unfolding liquidation_params_of_def liq_params_def
  by (simp add: read_inputs [OF assms] liquidation_lookups)

definition liquidation_numbers :: "LiquidationWitness \<Rightarrow> int list" where
  "liquidation_numbers i = [lw_size i, lw_entryPrice i, lw_markPrice i, lw_margin i, lw_fundingIndex i,
     \<bar>lw_fundingPayment i\<bar>, lw_maintenanceRate i]"

lemma liq_typed:
  assumes "circuit_inputs (liquidation_inputs i) = Inr ins"
  shows "typed_inputs liquidation_abi ins \<longleftrightarrow> list_all u128 (liquidation_numbers i)
    \<and> length (lw_pathSiblings i) = 20 \<and> length (lw_pathIndices i) = 20"
proof -
  have "u128 PRICE_SCALE" "u128 RATE_SCALE" by (simp_all add: u128_def PRICE_SCALE_def RATE_SCALE_def)
  then show ?thesis
    by (simp add: typed_inputs_entries [OF assms] liquidation_abi_def liquidation_lookups entry_typed_def
        liquidation_numbers_def conj_ac)
qed

text \<open>The equity and the maintenance margin as the circuit computes them from a witness, and the rest of its
  conditions that the server does not check.\<close>

definition circuit_equity :: "LiquidationWitness \<Rightarrow> int" where
  "circuit_equity i = nr_equity (lw_side i = Long) (lw_size i) (lw_entryPrice i) (lw_markPrice i) (lw_margin i)
     \<bar>lw_fundingPayment i\<bar> (lw_fundingPayment i < 0) PRICE_SCALE"

definition liquidation_ranges :: "LiquidationWitness \<Rightarrow> bool" where
  "liquidation_ranges i \<longleftrightarrow> list_all u128 (liquidation_numbers i @
     [lw_size i * nr_adverse_delta (lw_side i = Long) (lw_entryPrice i) (lw_markPrice i), circuit_equity i,
      lw_size i * lw_markPrice i, notional (lw_size i) (lw_markPrice i) * lw_maintenanceRate i])
   \<and> 0 < lw_size i \<and> 0 < lw_entryPrice i \<and> 0 < lw_markPrice i"

definition liquidation_digests :: "LiquidationWitness \<Rightarrow> bool" where
  "liquidation_digests i \<longleftrightarrow> list_all (\<lambda>x. hex_val x \<noteq> 0)
     [lw_positionRoot i, lw_positionCommitment i, lw_positionNullifier i, lw_rewardCommitment i]"

definition liquidation_member :: "host \<Rightarrow> LiquidationWitness \<Rightarrow> bool" where
  "liquidation_member h i \<longleftrightarrow> nr_merkle_root h (hex_val (lw_positionCommitment i))
     (map hex_val (lw_pathSiblings i)) (lw_pathIndices i) = hex_val (lw_positionRoot i)"

lemma liquidation_accepts_iff:
  assumes "circuit_inputs (liquidation_inputs i) = Inr ins"
    and "list_all canonical_hex [lw_positionCommitment i, lw_positionNullifier i]"
  shows "liquidation_accepts h ins \<longleftrightarrow>
    validatePositionOpening h (liquidation_opening i) = Inr ()
  \<and> circuit_equity i < maintenanceMargin (lw_size i) (lw_markPrice i) (lw_maintenanceRate i)
  \<and> liquidation_ranges i \<and> liquidation_digests i \<and> liquidation_member h i"
proof -
  have opened: "validatePositionOpening h (liquidation_opening i) = Inr () \<longleftrightarrow>
      length (lw_pathSiblings i) = 20 \<and> length (lw_pathIndices i) = 20
    \<and> nr_position_commitment h (lw_side i = Long) (field_mod (lw_size i)) (field_mod (lw_entryPrice i))
        (field_mod (lw_margin i)) (field_mod (lw_fundingIndex i)) (hex_val (lw_marketDigest i))
        (hex_val (lw_ownerDigest i)) (hex_val (lw_rhoDigest i)) (hex_val (lw_blinding i))
        = hex_val (lw_positionCommitment i)
    \<and> pairF h (hex_val (lw_spendSecretDigest i)) (hex_val (lw_rhoDigest i)) = hex_val (lw_positionNullifier i)"
    using circuit_inputs_reads [OF assms(1)] assms(2)
    by (subst validatePositionOpening_Inr) (simp_all add: liquidation_opening_def liquidation_inputs_def Let_def)
  have scales: "0 < PRICE_SCALE" "0 < RATE_SCALE" by (simp_all add: PRICE_SCALE_def RATE_SCALE_def)
  show ?thesis
  proof (cases "list_all u128 (liquidation_numbers i)")
    case True
    then have u: "u128 (lw_size i)" "u128 (lw_entryPrice i)" "u128 (lw_margin i)" "u128 (lw_fundingIndex i)"
      and ge: "0 \<le> lw_size i" "0 \<le> lw_markPrice i" "0 \<le> lw_maintenanceRate i"
      by (simp_all add: liquidation_numbers_def u128_def)
    from ge have n: "lw_size i * lw_markPrice i div PRICE_SCALE = notional (lw_size i) (lw_markPrice i)"
      by (simp add: notional_def abs_big_def sdiv_nonneg PRICE_SCALE_def)
    moreover from ge have "0 \<le> notional (lw_size i) (lw_markPrice i)" by (simp add: notional_nonneg)
    ultimately have m: "notional (lw_size i) (lw_markPrice i) * lw_maintenanceRate i div RATE_SCALE
        = maintenanceMargin (lw_size i) (lw_markPrice i) (lw_maintenanceRate i)"
      using ge by (simp add: maintenanceMargin_def sdiv_nonneg RATE_SCALE_def)
    have verdict: "liquidation_verdict (liq_params i) \<longleftrightarrow>
        u128 (lw_size i * nr_adverse_delta (lw_side i = Long) (lw_entryPrice i) (lw_markPrice i))
      \<and> u128 (circuit_equity i) \<and> u128 (lw_size i * lw_markPrice i)
      \<and> u128 (notional (lw_size i) (lw_markPrice i) * lw_maintenanceRate i)
      \<and> circuit_equity i < maintenanceMargin (lw_size i) (lw_markPrice i) (lw_maintenanceRate i)"
      unfolding liquidation_verdict_def Let_def circuit_equity_def by (simp add: liq_params_def n m del: scale_defs)
    show ?thesis
      unfolding liquidation_accepts_def liq_typed [OF assms(1)] liq_params_read [OF assms(1)]
        liquidation_main_def verdict opened liquidation_ranges_def liquidation_digests_def liquidation_member_def
      using True u scales by (auto simp: liq_params_def)
  next
    case False
    then show ?thesis
      unfolding liquidation_accepts_def liq_typed [OF assms(1)] liquidation_ranges_def by auto
  qed
qed

definition liquidation_pnl :: "LiquidationWitness \<Rightarrow> int" where
  "liquidation_pnl i = unrealizedPnl (lw_side i) (lw_size i) (lw_entryPrice i) (lw_markPrice i)"

text \<open>The circuit counts losses only, and never goes below zero.\<close>

lemma circuit_equity_eq:
  assumes "0 < lw_size i"
  shows "circuit_equity i = max 0 (max 0 (lw_margin i + min 0 (liquidation_pnl i)) - lw_fundingPayment i)"
proof -
  let ?l = "lw_size i * nr_adverse_delta (lw_side i = Long) (lw_entryPrice i) (lw_markPrice i) div PRICE_SCALE"
  have d: "0 \<le> lw_size i * \<bar>lw_markPrice i - lw_entryPrice i\<bar> div PRICE_SCALE"
    using assms by (simp add: pos_imp_zdiv_nonneg_iff PRICE_SCALE_def)
  have "nr_adverse_delta b e m = (if nr_is_profit b e m then 0 else \<bar>m - e\<bar>)" for b and e m :: int
    by (auto simp: nr_adverse_delta_def nr_is_profit_def)
  then have "- ?l = min 0 (liquidation_pnl i)"
    using d unfolding liquidation_pnl_def pnl_as_delta [OF assms] by (simp add: min_def del: scale_defs)
  moreover have "circuit_equity i = max 0 (max 0 (lw_margin i - ?l) - lw_fundingPayment i)"
    unfolding circuit_equity_def nr_equity_def Let_def max_def by simp
  moreover have "lw_margin i - ?l = lw_margin i + - ?l" by (rule diff_conv_add_uminus)
  ultimately show ?thesis by (simp only:)
qed

lemma server_equity: "isLiquidatable (liquidation_input i) \<longleftrightarrow>
   lw_margin i + liquidation_pnl i - lw_fundingPayment i
     < maintenanceMargin (lw_size i) (lw_markPrice i) (lw_maintenanceRate i)"
  by (simp add: isLiquidatable_def liquidation_input_def equity_def liquidation_pnl_def)

lemma liquidationPlan_Inr: "(\<exists>plan. liquidationPlan h i = Inr plan) \<longleftrightarrow>
   validatePositionOpening h (liquidation_opening i) = Inr () \<and> isLiquidatable (liquidation_input i)"
  by (auto simp: liquidationPlan_def bindE_Inr_iff)

subsection \<open>Properties\<close>


text \<open>C13: For a position that is not in profit and whose margin covers its loss and its funding, the server
  and the circuit agree on liquidations: the circuit accepts the inputs exactly when \<open>proveLiquidation\<close> gets
  to prove them and ranges, digests and the path to the root are right.\<close>
theorem liquidation_proof_matches_circuit:
  assumes "circuit_inputs (liquidation_inputs i) = Inr ins"
    and "list_all canonical_hex [lw_positionCommitment i, lw_positionNullifier i]"
    and "liquidation_pnl i \<le> 0" "0 \<le> lw_margin i + liquidation_pnl i"
    and "lw_fundingPayment i \<le> lw_margin i + liquidation_pnl i"
  shows "liquidation_accepts h ins \<longleftrightarrow>
    (\<exists>plan. liquidationPlan h i = Inr plan)
  \<and> liquidation_ranges i \<and> liquidation_digests i \<and> liquidation_member h i"
proof -
  have "0 < lw_size i \<Longrightarrow> circuit_equity i = lw_margin i + liquidation_pnl i - lw_fundingPayment i"
    using assms(3-5) by (simp add: circuit_equity_eq)
  moreover have "liquidation_ranges i \<Longrightarrow> 0 < lw_size i" by (simp add: liquidation_ranges_def)
  ultimately show ?thesis
    unfolding liquidation_accepts_iff [OF assms(1,2)] liquidationPlan_Inr server_equity by auto
qed

text \<open>C22: The circuit leaves profits out: the proof of a liquidation exists for a position in profit whenever
  its margin alone, less its funding, is below maintenance, however large the profit; when the profit makes the
  position healthy the server refuses to prove it, and anybody else can.\<close>
theorem liquidation_circuit_ignores_profit:
  assumes "circuit_inputs (liquidation_inputs i) = Inr ins"
    and "list_all canonical_hex [lw_positionCommitment i, lw_positionNullifier i]"
    and "validatePositionOpening h (liquidation_opening i) = Inr ()"
    and "liquidation_ranges i" "liquidation_digests i" "liquidation_member h i"
    and "0 < liquidation_pnl i" "lw_fundingPayment i \<le> lw_margin i"
    and "maintenanceMargin (lw_size i) (lw_markPrice i) (lw_maintenanceRate i)
      \<le> lw_margin i + liquidation_pnl i - lw_fundingPayment i"
  shows "liquidationPlan h i = Inl ''position is healthy''
    \<and> (liquidation_accepts h ins \<longleftrightarrow> lw_margin i - lw_fundingPayment i
        < maintenanceMargin (lw_size i) (lw_markPrice i) (lw_maintenanceRate i))"
proof -
  have "0 < lw_size i" "0 \<le> lw_margin i"
    using assms(4) by (simp_all add: liquidation_ranges_def liquidation_numbers_def u128_def)
  then have "circuit_equity i = lw_margin i - lw_fundingPayment i"
    using assms(7,8) by (simp add: circuit_equity_eq)
  then have "liquidation_accepts h ins \<longleftrightarrow> lw_margin i - lw_fundingPayment i
        < maintenanceMargin (lw_size i) (lw_markPrice i) (lw_maintenanceRate i)"
    using assms(3-6) by (simp add: liquidation_accepts_iff [OF assms(1,2)])
  moreover have "\<not> isLiquidatable (liquidation_input i)" using assms(9) by (simp add: server_equity)
  ultimately show ?thesis using assms(3) by (simp add: liquidationPlan_def failIf_def)
qed

subsection \<open>Concrete inputs\<close>

lemma circuit_inputs_total:
  "list_all (\<lambda>(k, e). case e of InField x \<Rightarrow> reads x | InFields xs \<Rightarrow> list_all reads xs | _ \<Rightarrow> True) es
    \<Longrightarrow> \<exists>ins. circuit_inputs es = Inr ins"
proof (induction es)
  case (Cons p es)
  have "list_all reads xs \<Longrightarrow> \<exists>ts. mapE field_text xs = Inr ts" for xs
    by (induction xs) (auto simp: field_text_Inr reads_def bindE_Inr_iff)
  with Cons show ?case
    by (cases p) (fastforce simp: circuit_inputs_def bindE_Inr_iff entry_value_def field_text_Inr reads_def
        split: input_entry.splits)
qed (simp add: circuit_inputs_def)

lemma reads_fieldHex [simp]: "reads (fieldHex v)"
  by (simp add: reads_def)

definition demo_position :: "int \<Rightarrow> int \<Rightarrow> int" where
  "demo_position sz margin = nr_position_commitment demo_host True sz 100 margin 0 1 2 3 4"

definition demo_root :: "int \<Rightarrow> int" where
  "demo_root leaf = nr_merkle_root demo_host leaf (replicate 20 0) (replicate 20 False)"

definition demo_close :: PositionCloseWitness where
  "demo_close = \<lparr>pcw_marketId = ''btc'', pcw_positionCommitment = fieldHex (demo_position 100000000 50),
     pcw_positionNullifier = fieldHex (pairF demo_host 5 3),
     pcw_positionRoot = fieldHex (demo_root (demo_position 100000000 50)), pcw_closeCommitment = fieldHex 99,
     pcw_side = Long, pcw_size = 100000000, pcw_closeSize = 100000000, pcw_entryPrice = 100,
     pcw_markPrice = 110, pcw_margin = 50, pcw_fundingIndex = 0, pcw_fundingPayment = - 5, pcw_fee = 1,
     pcw_newMargin = 64, pcw_remainingMargin = 0, pcw_marginOutputAmount = 64,
     pcw_newPositionCommitment = fieldHex (nr_position_commitment demo_host True 0 100 0 0 1 2 6 7),
     pcw_marginOutputCommitment = fieldHex (circuit_note_commitment demo_host 8 64 2 9 10),
     pcw_marketDigest = fieldHex 1, pcw_ownerDigest = fieldHex 2, pcw_rhoDigest = fieldHex 3,
     pcw_blinding = fieldHex 4, pcw_spendSecretDigest = fieldHex 5, pcw_newPositionRhoDigest = fieldHex 6,
     pcw_newPositionBlinding = fieldHex 7, pcw_marginOutputAssetDigest = fieldHex 8,
     pcw_marginOutputRhoDigest = fieldHex 9, pcw_marginOutputBlinding = fieldHex 10,
     pcw_pathIndices = replicate 20 False, pcw_pathSiblings = replicate 20 (fieldHex 0)\<rparr>"

lemma demo_pairF: "pairF demo_host a b = (3 * a + 5 * b + 7) mod FIELD_PRIME"
  by (simp add: pairF_def demo_host_def field_mod_eq)

lemma demo_digits [simp]:
  "(numeral n :: int) < 21888242871839275222246405745257275088548364400416034343698204186575808495617
    \<Longrightarrow> field_mod (numeral n) = numeral n"
  "field_mod 1 = 1"
  by (simp_all add: field_mod_small FIELD_PRIME_def)

lemmas demo_hashes = demo_position_def demo_root_def nr_position_commitment_def circuit_note_commitment_def
  demo_pairF pairF_def [symmetric] Let_def FIELD_PRIME_def

lemma demo_values:
  "demo_position 100000000 50 = 4500014983" "demo_position 100000000 10 = 4500013183"
  by (simp_all add: demo_hashes)

lemma demo_root_values:
  "demo_root 4500014983 = 15690582059194425583" "demo_root 4500013183 = 15690575782982503783"
  by (simp_all add: demo_hashes eval_nat_numeral)

lemma demo_root_field [simp]: "field_mod (demo_root (demo_position a b)) = demo_root (demo_position a b)"
  by (simp add: demo_root_def eval_nat_numeral)

lemma demo_position_field [simp]: "field_mod (demo_position a b) = demo_position a b"
  by (simp add: demo_position_def)


definition demo_liquidation :: "int \<Rightarrow> int \<Rightarrow> int \<Rightarrow> LiquidationWitness" where
  "demo_liquidation margin markPrice funding =
     \<lparr>lw_marketId = ''btc'', lw_positionCommitment = fieldHex (demo_position 100000000 margin),
      lw_positionNullifier = fieldHex (pairF demo_host 5 3),
      lw_positionRoot = fieldHex (demo_root (demo_position 100000000 margin)),
      lw_rewardCommitment = fieldHex 99, lw_side = Long, lw_size = 100000000, lw_entryPrice = 100,
      lw_markPrice = markPrice, lw_margin = margin, lw_fundingPayment = funding, lw_fundingIndex = 0,
      lw_maintenanceRate = 100000, lw_marketDigest = fieldHex 1, lw_ownerDigest = fieldHex 2,
      lw_rhoDigest = fieldHex 3, lw_blinding = fieldHex 4, lw_spendSecretDigest = fieldHex 5,
      lw_pathIndices = replicate 20 False, lw_pathSiblings = replicate 20 (fieldHex 0)\<rparr>"

lemma demo_liquidation_facts:
  "\<exists>ins. circuit_inputs (liquidation_inputs (demo_liquidation m p f)) = Inr ins"
  "list_all canonical_hex [lw_positionCommitment (demo_liquidation m p f),
     lw_positionNullifier (demo_liquidation m p f)]"
  "liquidation_member demo_host (demo_liquidation m p f)"
  by (rule circuit_inputs_total) (simp_all add: liquidation_inputs_def demo_liquidation_def Let_def list_all_iff
      liquidation_member_def, simp add: demo_root_def)

lemma demo_liquidation_opened:
  "u128 m \<Longrightarrow> validatePositionOpening demo_host (liquidation_opening (demo_liquidation m p f)) = Inr ()"
  by (subst validatePositionOpening_Inr)
    (simp_all add: liquidation_opening_def demo_liquidation_def demo_position_def)

lemma demo_liquidation_pnl: "liquidation_pnl (demo_liquidation m p f) = p - 100"
proof -
  have "100000000 * (p - 100) sdiv 100000000 = p - 100"
    by (cases "100 \<le> p") (simp_all add: sdiv_nonneg sdiv_nonpos)
  then show ?thesis by (simp add: liquidation_pnl_def demo_liquidation_def unrealizedPnl_def)
qed

lemma demo_liquidation_digests:
  "liquidation_digests (demo_liquidation 50 p f)" "liquidation_digests (demo_liquidation 10 p f)"
  by (simp_all add: liquidation_digests_def demo_liquidation_def demo_values demo_root_values)
    (simp_all add: demo_hashes)

text \<open>A position that lost 40 of its margin of 50 and owes 5 of funding is liquidated; one that gained 60 on a
  margin of 10 is, although the server calls it healthy.\<close>

theorem liquidation_proof_matches_circuit_witness:
  "\<exists>ins. circuit_inputs (liquidation_inputs (demo_liquidation 50 60 5)) = Inr ins
     \<and> liquidation_accepts demo_host ins"
proof -
  let ?i = "demo_liquidation 50 60 5"
  obtain ins where ins: "circuit_inputs (liquidation_inputs ?i) = Inr ins"
    using demo_liquidation_facts(1) by blast
  have equity: "circuit_equity ?i = 5"
    by (subst circuit_equity_eq) (simp_all add: demo_liquidation_pnl, simp_all add: demo_liquidation_def)
  have "isLiquidatable (liquidation_input ?i)"
    unfolding server_equity demo_liquidation_pnl
    by (simp add: demo_liquidation_def maintenanceMargin_def notional_def abs_big_def sdiv_nonneg)
  then have "\<exists>plan. liquidationPlan demo_host ?i = Inr plan"
    unfolding liquidationPlan_Inr by (simp add: demo_liquidation_opened u128_def)
  moreover have "liquidation_ranges ?i"
    using equity by (simp add: liquidation_ranges_def liquidation_numbers_def u128_def)
      (simp add: demo_liquidation_def nr_adverse_delta_def notional_def abs_big_def sdiv_nonneg)
  moreover have "liquidation_digests ?i" "liquidation_member demo_host ?i"
    by (simp_all add: demo_liquidation_digests demo_liquidation_facts(3))
  moreover have "liquidation_pnl ?i \<le> 0" "0 \<le> lw_margin ?i + liquidation_pnl ?i"
    "lw_fundingPayment ?i \<le> lw_margin ?i + liquidation_pnl ?i"
    by (simp_all add: demo_liquidation_pnl) (simp_all add: demo_liquidation_def)
  ultimately show ?thesis
    using liquidation_proof_matches_circuit [OF ins demo_liquidation_facts(2), of demo_host] ins by blast
qed

theorem liquidation_circuit_ignores_profit_witness:
  "\<exists>ins. circuit_inputs (liquidation_inputs (demo_liquidation 10 160 0)) = Inr ins
     \<and> liquidation_accepts demo_host ins
     \<and> liquidationPlan demo_host (demo_liquidation 10 160 0) = Inl ''position is healthy''"
proof -
  let ?i = "demo_liquidation 10 160 0"
  let ?m = "maintenanceMargin (lw_size ?i) (lw_markPrice ?i) (lw_maintenanceRate ?i)"
  obtain ins where ins: "circuit_inputs (liquidation_inputs ?i) = Inr ins"
    using demo_liquidation_facts(1) by blast
  have equity: "circuit_equity ?i = 10"
    by (subst circuit_equity_eq) (simp_all add: demo_liquidation_pnl, simp_all add: demo_liquidation_def)
  have m: "?m = 16"
    by (simp add: demo_liquidation_def maintenanceMargin_def notional_def abs_big_def sdiv_nonneg)
  have "liquidation_ranges ?i"
    using equity by (simp add: liquidation_ranges_def liquidation_numbers_def u128_def)
      (simp add: demo_liquidation_def nr_adverse_delta_def notional_def abs_big_def sdiv_nonneg)
  moreover have "0 < liquidation_pnl ?i" "lw_fundingPayment ?i \<le> lw_margin ?i"
    "?m \<le> lw_margin ?i + liquidation_pnl ?i - lw_fundingPayment ?i"
    "lw_margin ?i - lw_fundingPayment ?i < ?m"
    by (simp_all only: m demo_liquidation_pnl) (simp_all add: demo_liquidation_def)
  ultimately show ?thesis
    using liquidation_circuit_ignores_profit [OF ins demo_liquidation_facts(2), of demo_host] ins
      demo_liquidation_opened [of 10 160 0] demo_liquidation_digests(2) demo_liquidation_facts(3)
    by (simp add: u128_def)
qed

end
