(* ===== verification/Prover_Flows.thy ===== *)
theory Prover_Flows
  imports Prover_Properties
begin

text \<open>
  The remaining flows that end in a proof: an intent, a withdrawal and a funding update that the server
  prepares are accepted by their circuits under the conditions that only the circuit checks.
\<close>

subsection \<open>Funding\<close>

lemma signedParts_eq: "signedParts v = (\<bar>v\<bar>, v < 0)"
  by (simp add: signedParts_def)

lemma hashFields_reads: "hex_hash h \<Longrightarrow> reads (hashFields h d fs)"
proof -
  assume h: "hex_hash h"
  let ?s = "sha256_hex h (hash_preimage h d fs)"
  from h obtain n where n: "str_nat 16 0 ?s = Some n" "?s \<noteq> []" by (auto simp: hex_hash_def)
  then obtain c cs where "?s = c # cs" by (cases ?s) auto
  with n(1) show ?thesis
    by (simp add: reads_def hashFields_def bigint_of_hex_def del: str_nat.simps)
qed

text \<open>The numbers of a funding update and what the circuit computes from them stay in range.\<close>

definition funding_ranges :: "FundingSettlementProofInput \<Rightarrow> bool" where
  "funding_ranges i \<longleftrightarrow> list_all u128
     [\<bar>fsi_oldFundingIndex i\<bar>, \<bar>fsi_newFundingIndex i\<bar>, fsi_markPrice i, \<bar>fsi_premiumRate i\<bar>, fsi_elapsedMs i,
      fsi_intervalMs i, nullish (fsi_maxFundingDelta i) 0, fsi_markPrice i * \<bar>fsi_premiumRate i\<bar>,
      fsi_markPrice i * \<bar>fsi_premiumRate i\<bar> * fsi_elapsedMs i, RATE_SCALE * fsi_intervalMs i,
      \<bar>fsi_oldFundingIndex i\<bar> + \<bar>fsi_newFundingIndex i - fsi_oldFundingIndex i\<bar>]"

lemma clamp_abs:
  fixes raw d :: int
  assumes "d = (case mx of None \<Rightarrow> raw | Some m \<Rightarrow> if raw > m then m else if raw < - m then - m else raw)"
    and "\<forall>m\<in>set_option mx. 0 < m"
  shows "\<bar>d\<bar> = (if mx \<noteq> None then (if \<bar>raw\<bar> > the mx then the mx else \<bar>raw\<bar>) else \<bar>raw\<bar>) \<and> (d < 0 \<longleftrightarrow> raw < 0)"
  using assms by (cases mx) auto

lemma clamp_pos:
  fixes raw d :: int
  assumes "d = (case mx of None \<Rightarrow> raw | Some m \<Rightarrow> if raw > m then m else if raw < - m then - m else raw)"
    and "d \<noteq> 0" "\<forall>m\<in>set_option mx. 0 \<le> m"
  shows "\<forall>m\<in>set_option mx. 0 < m" and "raw \<noteq> 0"
  using assms by (cases mx; cases "mx = Some 0"; auto split: if_splits)+

lemma abs_sdiv:
  assumes "0 \<le> (a::int)" "0 < b"
  shows "\<bar>(a * s) sdiv b\<bar> = (a * \<bar>s\<bar>) div b" and "(a * s) sdiv b < 0 \<Longrightarrow> s < 0" and "0 < (a * s) sdiv b \<Longrightarrow> 0 < s"
proof -
  have nn: "0 \<le> (a * \<bar>s\<bar>) div b" using assms by (simp add: pos_imp_zdiv_nonneg_iff)
  have neg: "s < 0 \<Longrightarrow> (a * s) sdiv b = - ((a * \<bar>s\<bar>) div b)"
    using assms by (simp add: sdiv_nonpos mult_nonneg_nonpos)
  have pos: "0 \<le> s \<Longrightarrow> (a * s) sdiv b = (a * \<bar>s\<bar>) div b" using assms by (simp add: sdiv_nonneg)
  show "\<bar>(a * s) sdiv b\<bar> = (a * \<bar>s\<bar>) div b" using nn neg pos by (cases "s < 0") simp_all
  show "(a * s) sdiv b < 0 \<Longrightarrow> s < 0" using nn pos by (cases "s < 0") simp_all
  show "0 < (a * s) sdiv b \<Longrightarrow> 0 < s" using nn neg pos by (cases "s < 0"; cases "s = 0") simp_all
qed

lemma signed_add_correct:
  assumes "new = old + d" "d \<noteq> 0" "u128 (\<bar>old\<bar> + \<bar>d\<bar>)"
  shows "assert_signed_add \<bar>old\<bar> (old < 0) \<bar>d\<bar> (d < 0) \<bar>new\<bar> (new < 0)"
  using assms by (auto simp: assert_signed_add_def)

definition funding_input ::
  "FundingEngineConfig \<Rightarrow> MarketConfig \<Rightarrow> int \<Rightarrow> int \<Rightarrow> int option \<Rightarrow> int \<Rightarrow> int \<Rightarrow> FundingSettlementProofInput" where
  "funding_input config market appliedAt elapsedMs maxFundingDelta rate fundingDelta =
     \<lparr>fsi_appliedAt = appliedAt, fsi_elapsedMs = elapsedMs, fsi_intervalMs = fec_intervalMs config,
      fsi_markPrice = mc_oraclePrice market, fsi_marketId = mc_marketId market,
      fsi_maxFundingDelta = maxFundingDelta,
      fsi_newFundingIndex = mc_fundingIndex market + fundingDelta,
      fsi_oldFundingIndex = mc_fundingIndex market, fsi_premiumRate = rate\<rparr>"

lemma funding_delta_circuit:
  assumes "fundingIndexDelta \<lparr>fid_elapsedMs = of_int el, fid_intervalMs = of_int iv, fid_markPrice = mp,
      fid_maxFundingDelta = mx, fid_premiumRate = rate\<rparr> = Inr d" "d \<noteq> 0" "0 < el"
    and "u128 (mp * \<bar>rate\<bar>)" "u128 (mp * \<bar>rate\<bar> * el)" "u128 (RATE_SCALE * iv)"
  shows "nr_funding_delta mp \<bar>rate\<bar> el iv (nullish mx 0) (if mx = None then 0 else 1) = Some \<bar>d\<bar>
    \<and> (d < 0 \<longleftrightarrow> rate < 0) \<and> 0 < mp \<and> 0 < iv \<and> (\<forall>m\<in>set_option mx. 0 < m)"
proof -
  let ?raw = "(mp * rate * el) sdiv (RATE_SCALE * iv)"
  from assms(1) have mp: "0 < mp" and iv: "0 < iv" and mx: "\<forall>m\<in>set_option mx. 0 \<le> m"
    and d: "d = (case mx of None \<Rightarrow> ?raw | Some m \<Rightarrow> if ?raw > m then m else if ?raw < - m then - m else ?raw)"
    by (auto simp: fundingIndexDelta_def Let_def math_trunc_int not_less split: if_splits option.splits)
  note pos = clamp_pos(1) [OF d assms(2) mx]
  have swap: "mp * rate * el = mp * el * rate" by simp
  have base: "0 \<le> mp * el" "0 < RATE_SCALE * iv" using mp iv assms(3) by (simp_all add: RATE_SCALE_def)
  note raw = abs_sdiv [OF base, of rate, folded swap]
  note clamp = clamp_abs [OF d pos]
  have sign: "d < 0 \<longleftrightarrow> rate < 0"
    using clamp raw(2,3) clamp_pos(2) [OF d assms(2) mx] by linarith
  have "\<bar>?raw\<bar> = mp * \<bar>rate\<bar> * el div (RATE_SCALE * iv)" using raw(1) by (simp add: mult.commute mult.left_commute)
  then have "nr_funding_delta mp \<bar>rate\<bar> el iv (nullish mx 0) (if mx = None then 0 else 1) = Some \<bar>d\<bar>"
    using clamp assms(4-6) mp iv by (cases mx) (auto simp: nr_funding_delta_def Let_def RATE_SCALE_def)
  with sign mp iv pos show ?thesis by simp
qed

definition funding_entries :: "host \<Rightarrow> FundingSettlementProofInput \<Rightarrow> (string \<times> input_entry) list" where
  "funding_entries h i =
       [(''market_id'', InField (hashFields h ''market-id'' [JStr (fsi_marketId i)])),
        (''old_index_abs'', InBig \<bar>fsi_oldFundingIndex i\<bar>), (''old_index_is_negative'', InBool (fsi_oldFundingIndex i < 0)),
        (''new_index_abs'', InBig \<bar>fsi_newFundingIndex i\<bar>), (''new_index_is_negative'', InBool (fsi_newFundingIndex i < 0)),
        (''mark_price'', InBig (fsi_markPrice i)), (''premium_rate_abs'', InBig \<bar>fsi_premiumRate i\<bar>),
        (''premium_rate_is_negative'', InBool (fsi_premiumRate i < 0)), (''elapsed_ms'', InBig (fsi_elapsedMs i)),
        (''interval_ms'', InBig (fsi_intervalMs i)), (''max_delta'', InBig (nullish (fsi_maxFundingDelta i) 0)),
        (''max_delta_enabled'', InBig (if fsi_maxFundingDelta i = None then 0 else 1))]"

lemma funding_plan:
  assumes "fsi_newFundingIndex i \<noteq> fsi_oldFundingIndex i" "0 < fsi_markPrice i" "0 < fsi_elapsedMs i"
    "0 < fsi_intervalMs i" "\<forall>m\<in>set_option (fsi_maxFundingDelta i). 0 < m"
  obtains plan where "fundingSettlementPlan h i = Inr plan"
    "pp_inputs plan = funding_entries h i"
    "\<And>pf. fur_fundingDelta (fsr_update (pp_record plan pf)) = fsi_newFundingIndex i - fsi_oldFundingIndex i"
proof -
  have "checksE
       [failIf (fsi_newFundingIndex i = fsi_oldFundingIndex i) ''invalid funding index'',
        failIf (fsi_markPrice i \<le> 0) ''mark price must be positive'',
        failIf (fsi_elapsedMs i \<le> 0) ''elapsed time must be positive'',
        failIf (fsi_intervalMs i \<le> 0) ''funding interval must be positive'',
        failIf (\<exists>m\<in>set_option (fsi_maxFundingDelta i). m \<le> 0)
          ''max funding delta must be positive when enabled''] = Inr ()"
    using assms by (auto simp: bindE_Inr_iff not_le)
  note checks = this [THEN arg_cong [where f = "\<lambda>r. bindE r f" for f], unfolded bindE_simps]
  show ?thesis
    by (rule that [OF fundingSettlementPlan_def [of h i, unfolded Let_def checks]])
      (simp_all add: signedParts_eq funding_entries_def)
qed

text \<open>C21: What the funding engine asks the prover to prove, the circuit accepts: for the change of the index
  that the engine computed from price, premium, time and cap the plan of the prover exists, and its inputs
  satisfy the circuit, which computes the change again on absolute values and adds it with signs.\<close>
theorem funding_cycle_provable:
  assumes "hex_hash h"
    and "fundingIndexDelta \<lparr>fid_elapsedMs = of_int el, fid_intervalMs = of_int (fec_intervalMs config),
      fid_markPrice = mc_oraclePrice market, fid_maxFundingDelta = mx, fid_premiumRate = rate\<rparr> = Inr d"
    and "d \<noteq> 0" "0 < el"
    and "funding_ranges (funding_input config market t el mx rate d)"
    and "hex_val (hashFields h ''market-id'' [JStr (mc_marketId market)]) \<noteq> 0"
  shows "\<exists>plan ins. fundingSettlementPlan h (funding_input config market t el mx rate d) = Inr plan
    \<and> circuit_inputs (pp_inputs plan) = Inr ins \<and> funding_update_accepts ins"
proof -
  let ?i = "funding_input config market t el mx rate d"
  let ?f = "funding_params_of"
  note numbers = assms(5) [unfolded funding_ranges_def, simplified]
  have delta: "nr_funding_delta (mc_oraclePrice market) \<bar>rate\<bar> el (fec_intervalMs config) (nullish mx 0)
      (if mx = None then 0 else 1) = Some \<bar>d\<bar>
    \<and> (d < 0 \<longleftrightarrow> rate < 0) \<and> 0 < mc_oraclePrice market \<and> 0 < fec_intervalMs config \<and> (\<forall>m\<in>set_option mx. 0 < m)"
    using numbers by (intro funding_delta_circuit [OF assms(2-4)]) (simp_all add: funding_input_def)
  obtain plan where plan: "fundingSettlementPlan h ?i = Inr plan"
    and es: "pp_inputs plan = funding_entries h ?i"
    by (rule funding_plan [of ?i h]) (use delta assms(3,4) in \<open>simp_all add: funding_input_def\<close>)
  have "\<exists>ins. circuit_inputs (pp_inputs plan) = Inr ins"
    unfolding es funding_entries_def by (rule circuit_inputs_total) (simp add: hashFields_reads [OF assms(1)])
  then obtain ins where ins: "circuit_inputs (pp_inputs plan) = Inr ins" ..
  note read = read_inputs [OF ins]
  have params: "?f ins = \<lparr>fu_market_id = hex_val (hashFields h ''market-id'' [JStr (mc_marketId market)]),
      fu_old_index_abs = \<bar>mc_fundingIndex market\<bar>, fu_old_index_is_negative = (mc_fundingIndex market < 0),
      fu_new_index_abs = \<bar>mc_fundingIndex market + d\<bar>, fu_new_index_is_negative = (mc_fundingIndex market + d < 0),
      fu_mark_price = mc_oraclePrice market, fu_premium_rate_abs = \<bar>rate\<bar>,
      fu_premium_rate_is_negative = (rate < 0), fu_elapsed_ms = el, fu_interval_ms = fec_intervalMs config,
      fu_max_delta = nullish mx 0, fu_max_delta_enabled = (if mx = None then 0 else 1)\<rparr>"
    unfolding funding_params_of_def by (simp add: read es funding_entries_def funding_input_def)
  have "typed_inputs funding_abi ins"
    using numbers by (simp add: typed_inputs_entries [OF ins] es funding_entries_def funding_abi_def entry_typed_def
        funding_input_def) (simp add: u128_def)
  moreover have "funding_update_main (?f ins)"
    using delta assms(3,6) numbers signed_add_correct [of _ "mc_fundingIndex market" d, OF refl assms(3)]
    unfolding params funding_update_main_def by (simp add: funding_input_def)
  ultimately show ?thesis using plan ins by (auto simp: funding_update_accepts_def)
qed

subsection \<open>Intents\<close>

definition intent_entries :: "IntentValidityWitness \<Rightarrow> IntentBindingFields \<Rightarrow> (string \<times> input_entry) list" where
  "intent_entries i b =
     [(''size'', InBig (ti_size (ivw_intent i))),
      (''margin'', InBig (ti_margin (ivw_intent i))),
      (''limit_price'', InBig (ti_limitPrice (ivw_intent i))),
      (''is_long'', InBool (ti_side (ivw_intent i) = Long)),
      (''expiry_batch'', InBig (ivw_expiryBatch i)),
      (''note_amount'', InBig (ivw_noteAmount i)),
      (''asset_digest'', InField (ivw_assetDigest i)),
      (''owner_digest'', InField (ivw_ownerDigest i)),
      (''rho_digest'', InField (ivw_rhoDigest i)),
      (''blinding'', InField (ivw_blinding i)),
      (''spend_secret_digest'', InField (ivw_spendSecretDigest i)),
      (''path_siblings'', InFields (ivw_pathSiblings i)),
      (''path_indices'', InBools (ivw_pathIndices i)),
      (''current_batch'', InBig (ivw_currentBatch i)),
      (''batch_digest'', InField (cic_batchDigest b)),
      (''market_digest'', InField (cic_marketDigest b)),
      (''owner_commitment_field'', InField (cic_ownerCommitmentField b)),
      (''intent_commitment'', InField (ibf_intentCommitment b)),
      (''margin_root'', InField (ivw_marginRoot i)),
      (''note_commitment_public'', InField (ivw_noteCommitment i)),
      (''note_nullifier'', InField (ti_noteNullifier (ivw_intent i))),
      (''note_change_commitment'', InField (ivw_noteChangeCommitment i)),
      (''nonce_digest'', InField (cic_nonceDigest b)),
      (''salt_digest'', InField (cic_saltDigest b)),
      (''change_rho_digest'', InField (ivw_changeRhoDigest i)),
      (''change_blinding'', InField (ivw_changeBlinding i)),
      (''zero_commitment'', InBig 0)]"

lemma intent_lookups:
  "map_of (intent_entries i b) ''size'' = Some (InBig (ti_size (ivw_intent i)))"
  "map_of (intent_entries i b) ''margin'' = Some (InBig (ti_margin (ivw_intent i)))"
  "map_of (intent_entries i b) ''limit_price'' = Some (InBig (ti_limitPrice (ivw_intent i)))"
  "map_of (intent_entries i b) ''is_long'' = Some (InBool (ti_side (ivw_intent i) = Long))"
  "map_of (intent_entries i b) ''expiry_batch'' = Some (InBig (ivw_expiryBatch i))"
  "map_of (intent_entries i b) ''note_amount'' = Some (InBig (ivw_noteAmount i))"
  "map_of (intent_entries i b) ''asset_digest'' = Some (InField (ivw_assetDigest i))"
  "map_of (intent_entries i b) ''owner_digest'' = Some (InField (ivw_ownerDigest i))"
  "map_of (intent_entries i b) ''rho_digest'' = Some (InField (ivw_rhoDigest i))"
  "map_of (intent_entries i b) ''blinding'' = Some (InField (ivw_blinding i))"
  "map_of (intent_entries i b) ''spend_secret_digest'' = Some (InField (ivw_spendSecretDigest i))"
  "map_of (intent_entries i b) ''path_siblings'' = Some (InFields (ivw_pathSiblings i))"
  "map_of (intent_entries i b) ''path_indices'' = Some (InBools (ivw_pathIndices i))"
  "map_of (intent_entries i b) ''current_batch'' = Some (InBig (ivw_currentBatch i))"
  "map_of (intent_entries i b) ''batch_digest'' = Some (InField (cic_batchDigest b))"
  "map_of (intent_entries i b) ''market_digest'' = Some (InField (cic_marketDigest b))"
  "map_of (intent_entries i b) ''owner_commitment_field'' = Some (InField (cic_ownerCommitmentField b))"
  "map_of (intent_entries i b) ''intent_commitment'' = Some (InField (ibf_intentCommitment b))"
  "map_of (intent_entries i b) ''margin_root'' = Some (InField (ivw_marginRoot i))"
  "map_of (intent_entries i b) ''note_commitment_public'' = Some (InField (ivw_noteCommitment i))"
  "map_of (intent_entries i b) ''note_nullifier'' = Some (InField (ti_noteNullifier (ivw_intent i)))"
  "map_of (intent_entries i b) ''note_change_commitment'' = Some (InField (ivw_noteChangeCommitment i))"
  "map_of (intent_entries i b) ''nonce_digest'' = Some (InField (cic_nonceDigest b))"
  "map_of (intent_entries i b) ''salt_digest'' = Some (InField (cic_saltDigest b))"
  "map_of (intent_entries i b) ''change_rho_digest'' = Some (InField (ivw_changeRhoDigest i))"
  "map_of (intent_entries i b) ''change_blinding'' = Some (InField (ivw_changeBlinding i))"
  "map_of (intent_entries i b) ''zero_commitment'' = Some (InBig 0)"
  by (simp_all add: intent_entries_def)

lemma intent_plan_cases:
  assumes "intentValidityProofPlan h i = Inr plan" "intentBindingFields h (ivw_intent i) = Inr b"
  shows "intent_checks h i = Inr ()" "pp_inputs plan = intent_entries i b"
  using assms by (auto simp: intentValidityProofPlan_def Let_def bindE_Inr_iff commitIntent_binding intent_entries_def)

lemma binding_fields:
  assumes "intentBindingFields h t = Inr b"
  shows "circuitIntentCommitment h b = Inr (ibf_intentCommitment b)" "cic_side b = ti_side t" "cic_size b = ti_size t"
    "cic_limitPrice b = ti_limitPrice t" "cic_margin b = ti_margin t" "cic_noteNullifier b = ti_noteNullifier t"
  using assms by (auto simp: intentBindingFields_def bindE_Inr_iff Let_def circuitIntentCommitment_def
      CircuitIntentCommitmentInput.extend_def)

lemma intent_commitment_value:
  assumes "circuitIntentCommitment h b = Inr c"
  shows "hex_val c = compute_intent_commitment h (hex_val (cic_batchDigest b)) (hex_val (cic_marketDigest b))
    (hex_val (cic_ownerCommitmentField b)) (cic_side b = Long) (field_mod (cic_size b))
    (field_mod (cic_limitPrice b)) (field_mod (cic_margin b)) (hex_val (cic_noteNullifier b))
    (hex_val (cic_nonceDigest b)) (hex_val (cic_saltDigest b))"
proof -
  have side: "field_mod (side_code s) = (if s = Long then 1 else 2)" for s
    by (simp add: side_code_def field_mod_small FIELD_PRIME_def)
  show ?thesis
    using assms by (auto simp: circuitIntentCommitment_def bindE_Inr_iff compute_intent_commitment_def Let_def side
        dest!: fieldHashPair_val)
qed

lemma hex_val_zero [simp]: "hex_val ''0x0'' = 0"
  using bigint_of_nat_str [of 0] by (simp add: nat_str.simps [of 16 0] digit_char_def hex_val_def)

lemma margin_commitment_hex:
  assumes "circuitMarginCommitment h n = Inr c"
  shows "hex_val c = circuit_note_commitment h (hex_val (cmn_assetDigest n)) (field_mod (cmn_amount n))
    (hex_val (cmn_ownerDigest n)) (hex_val (cmn_rhoDigest n)) (hex_val (cmn_blinding n))"
  using assms by (auto simp: circuitMarginCommitment_def bindE_Inr_iff Let_def circuit_note_commitment_def
      pairF_def [symmetric] dest!: fieldHashPair_val)

lemma nullifier_hex: "circuitNullifier h r s = Inr c \<Longrightarrow> hex_val c = pairF h (hex_val s) (hex_val r)"
  by (auto simp: circuitNullifier_def dest!: fieldHashPair_val)

definition intent_ranges :: "IntentValidityWitness \<Rightarrow> bool" where
  "intent_ranges i \<longleftrightarrow> list_all u128 [ti_size (ivw_intent i), ti_margin (ivw_intent i), ti_limitPrice (ivw_intent i),
     ivw_expiryBatch i, ivw_noteAmount i, ivw_currentBatch i]"

definition intent_digests :: "IntentValidityWitness \<Rightarrow> IntentBindingFields \<Rightarrow> bool" where
  "intent_digests i b \<longleftrightarrow> list_all (\<lambda>x. hex_val x \<noteq> 0)
     ([ibf_intentCommitment b, cic_batchDigest b, cic_marketDigest b, cic_ownerCommitmentField b,
       ivw_marginRoot i, ivw_noteCommitment i, ti_noteNullifier (ivw_intent i), cic_nonceDigest b, cic_saltDigest b]
      @ (if ivw_noteAmount i = ti_margin (ivw_intent i) then [] else [ivw_changeRhoDigest i, ivw_changeBlinding i]))"

definition intent_member :: "host \<Rightarrow> IntentValidityWitness \<Rightarrow> bool" where
  "intent_member h i \<longleftrightarrow> nr_merkle_root h (hex_val (ivw_noteCommitment i)) (map hex_val (ivw_pathSiblings i))
     (ivw_pathIndices i) = hex_val (ivw_marginRoot i)"

lemma intent_params_read:
  assumes "circuit_inputs (intent_entries i b) = Inr ins"
  shows "intent_params_of ins =
     \<lparr>iv_size = ti_size (ivw_intent i), iv_margin = ti_margin (ivw_intent i),
      iv_limit_price = ti_limitPrice (ivw_intent i), iv_is_long = (ti_side (ivw_intent i) = Long),
      iv_expiry_batch = ivw_expiryBatch i, iv_note_amount = ivw_noteAmount i,
      iv_asset_digest = hex_val (ivw_assetDigest i), iv_owner_digest = hex_val (ivw_ownerDigest i),
      iv_rho_digest = hex_val (ivw_rhoDigest i), iv_blinding = hex_val (ivw_blinding i),
      iv_spend_secret_digest = hex_val (ivw_spendSecretDigest i),
      iv_path_siblings = map hex_val (ivw_pathSiblings i), iv_path_indices = ivw_pathIndices i,
      iv_current_batch = ivw_currentBatch i, iv_batch_digest = hex_val (cic_batchDigest b),
      iv_market_digest = hex_val (cic_marketDigest b),
      iv_owner_commitment_field = hex_val (cic_ownerCommitmentField b),
      iv_intent_commitment = hex_val (ibf_intentCommitment b), iv_margin_root = hex_val (ivw_marginRoot i),
      iv_note_commitment_public = hex_val (ivw_noteCommitment i),
      iv_note_nullifier = hex_val (ti_noteNullifier (ivw_intent i)),
      iv_note_change_commitment = hex_val (ivw_noteChangeCommitment i),
      iv_nonce_digest = hex_val (cic_nonceDigest b), iv_salt_digest = hex_val (cic_saltDigest b),
      iv_change_rho_digest = hex_val (ivw_changeRhoDigest i), iv_change_blinding = hex_val (ivw_changeBlinding i),
      iv_zero_commitment = 0\<rparr>"
  unfolding intent_params_of_def by (simp add: read_inputs [OF assms] intent_lookups)

lemma intent_typed:
  assumes "circuit_inputs (intent_entries i b) = Inr ins"
  shows "typed_inputs intent_abi ins \<longleftrightarrow> intent_ranges i
    \<and> length (ivw_pathSiblings i) = 8 \<and> length (ivw_pathIndices i) = 8"
  by (simp add: typed_inputs_entries [OF assms] intent_abi_def intent_lookups entry_typed_def intent_ranges_def
      conj_ac)

lemma intent_checks_Inr:
  assumes "intent_checks h i = Inr ()"
  shows "0 < ti_size (ivw_intent i)" "0 < ti_margin (ivw_intent i)" "0 < ti_limitPrice (ivw_intent i)"
    "ivw_currentBatch i \<le> ivw_expiryBatch i" "ti_margin (ivw_intent i) \<le> ivw_noteAmount i"
    "length (ivw_pathSiblings i) = 8" "length (ivw_pathIndices i) = 8"
    "hex_val (ivw_noteCommitment i) = circuit_note_commitment h (hex_val (ivw_assetDigest i))
       (field_mod (ivw_noteAmount i)) (hex_val (ivw_ownerDigest i)) (hex_val (ivw_rhoDigest i)) (hex_val (ivw_blinding i))"
    "hex_val (ti_noteNullifier (ivw_intent i)) = pairF h (hex_val (ivw_spendSecretDigest i)) (hex_val (ivw_rhoDigest i))"
    "checkNoteChange h i = Inr ()"
  using assms
  by (auto simp: intent_checks_def Let_def bindE_Inr_iff pathChecks_def FIELD_MERKLE_DEPTH_def
      dest!: margin_commitment_hex nullifier_hex)

lemma checkNoteChange_Inr:
  assumes "checkNoteChange h i = Inr ()"
  shows "if ivw_noteAmount i = ti_margin (ivw_intent i) then hex_val (ivw_noteChangeCommitment i) = 0
    else hex_val (ivw_noteChangeCommitment i) = circuit_note_commitment h (hex_val (ivw_assetDigest i))
       (field_mod (ivw_noteAmount i - ti_margin (ivw_intent i))) (hex_val (ivw_ownerDigest i))
       (hex_val (ivw_changeRhoDigest i)) (hex_val (ivw_changeBlinding i))"
proof -
  from assms show ?thesis
    by (auto simp: checkNoteChange_def Let_def bindE_Inr_iff ZERO_HEX_def dest!: margin_commitment_hex
        split: if_splits)
qed


subsection \<open>Withdrawals\<close>

definition withdrawal_entries :: "WithdrawalRequest \<Rightarrow> Hex \<Rightarrow> (string \<times> input_entry) list" where
  "withdrawal_entries i c =
     [(''note_amount'', InBig (wq_noteAmount i)),
      (''withdraw_amount'', InBig (wq_withdrawAmount i)),
      (''root'', InField (wq_root i)),
      (''nullifier'', InField (wq_nullifier i)),
      (''token_digest'', InField (wq_assetDigest i)),
      (''recipient_digest'', InField (wq_recipient i)),
      (''change_commitment'', InField c),
      (''asset_digest'', InField (wq_assetDigest i)),
      (''owner_digest'', InField (wq_ownerDigest i)),
      (''rho_digest'', InField (wq_rhoDigest i)),
      (''blinding'', InField (wq_blinding i)),
      (''spend_secret_digest'', InField (wq_spendSecretDigest i)),
      (''path_siblings'', InFields (wq_pathSiblings i)),
      (''path_indices'', InBools (wq_pathIndices i)),
      (''change_rho_digest'', InField (nullish (wq_changeRhoDigest i) ''0x0'')),
      (''change_blinding'', InField (nullish (wq_changeBlinding i) ''0x0'')),
      (''zero_value'', InBig 0)]"

lemma withdrawal_lookups:
  "map_of (withdrawal_entries i c) ''note_amount'' = Some (InBig (wq_noteAmount i))"
  "map_of (withdrawal_entries i c) ''withdraw_amount'' = Some (InBig (wq_withdrawAmount i))"
  "map_of (withdrawal_entries i c) ''root'' = Some (InField (wq_root i))"
  "map_of (withdrawal_entries i c) ''nullifier'' = Some (InField (wq_nullifier i))"
  "map_of (withdrawal_entries i c) ''token_digest'' = Some (InField (wq_assetDigest i))"
  "map_of (withdrawal_entries i c) ''recipient_digest'' = Some (InField (wq_recipient i))"
  "map_of (withdrawal_entries i c) ''change_commitment'' = Some (InField c)"
  "map_of (withdrawal_entries i c) ''asset_digest'' = Some (InField (wq_assetDigest i))"
  "map_of (withdrawal_entries i c) ''owner_digest'' = Some (InField (wq_ownerDigest i))"
  "map_of (withdrawal_entries i c) ''rho_digest'' = Some (InField (wq_rhoDigest i))"
  "map_of (withdrawal_entries i c) ''blinding'' = Some (InField (wq_blinding i))"
  "map_of (withdrawal_entries i c) ''spend_secret_digest'' = Some (InField (wq_spendSecretDigest i))"
  "map_of (withdrawal_entries i c) ''path_siblings'' = Some (InFields (wq_pathSiblings i))"
  "map_of (withdrawal_entries i c) ''path_indices'' = Some (InBools (wq_pathIndices i))"
  "map_of (withdrawal_entries i c) ''change_rho_digest'' = Some (InField (nullish (wq_changeRhoDigest i) ''0x0''))"
  "map_of (withdrawal_entries i c) ''change_blinding'' = Some (InField (nullish (wq_changeBlinding i) ''0x0''))"
  "map_of (withdrawal_entries i c) ''zero_value'' = Some (InBig 0)"
  by (simp_all add: withdrawal_entries_def)

lemma withdrawal_plan_cases:
  assumes "withdrawalPlan h i = Inr plan"
  obtains c where "pp_inputs plan = withdrawal_entries i c"
    "0 < wq_noteAmount i" "0 < wq_withdrawAmount i" "wq_withdrawAmount i \<le> wq_noteAmount i"
    "length (wq_pathSiblings i) = 8" "length (wq_pathIndices i) = 8"
    "hex_val (wq_noteCommitment i) = circuit_note_commitment h (hex_val (wq_assetDigest i))
       (field_mod (wq_noteAmount i)) (hex_val (wq_ownerDigest i)) (hex_val (wq_rhoDigest i)) (hex_val (wq_blinding i))"
    "hex_val (wq_nullifier i) = pairF h (hex_val (wq_spendSecretDigest i)) (hex_val (wq_rhoDigest i))"
    "if wq_noteAmount i = wq_withdrawAmount i then hex_val c = 0
     else hex_val c = circuit_note_commitment h (hex_val (wq_assetDigest i))
       (field_mod (wq_noteAmount i - wq_withdrawAmount i)) (hex_val (wq_ownerDigest i))
       (hex_val (nullish (wq_changeRhoDigest i) ''0x0'')) (hex_val (nullish (wq_changeBlinding i) ''0x0''))"
    "\<And>pf. wr_changeCommitment (pp_record plan pf) = c"
proof -
  have required: "requiredHex v n = Inr x \<Longrightarrow> nullish v ''0x0'' = x" for v n x
    by (cases v) (auto simp: requiredHex_def truthy_str_def split: if_splits)
  have lengths: "FIELD_MERKLE_DEPTH = 8" by (simp add: FIELD_MERKLE_DEPTH_def)
  show ?thesis
    using assms
    by (auto simp: withdrawalPlan_def Let_def bindE_Inr_iff pathChecks_def lengths withdrawal_entries_def
        dest!: margin_commitment_hex nullifier_hex required split: if_splits intro!: that)
qed

definition withdrawal_ranges :: "WithdrawalRequest \<Rightarrow> bool" where
  "withdrawal_ranges i \<longleftrightarrow> u128 (wq_noteAmount i) \<and> u128 (wq_withdrawAmount i)"

definition withdrawal_digests :: "WithdrawalRequest \<Rightarrow> bool" where
  "withdrawal_digests i \<longleftrightarrow> list_all (\<lambda>x. hex_val x \<noteq> 0)
     ([wq_root i, wq_nullifier i, wq_assetDigest i, wq_recipient i]
      @ (if wq_noteAmount i = wq_withdrawAmount i then []
         else [nullish (wq_changeRhoDigest i) ''0x0'', nullish (wq_changeBlinding i) ''0x0'']))"

definition withdrawal_member :: "host \<Rightarrow> WithdrawalRequest \<Rightarrow> bool" where
  "withdrawal_member h i \<longleftrightarrow> nr_merkle_root h (hex_val (wq_noteCommitment i)) (map hex_val (wq_pathSiblings i))
     (wq_pathIndices i) = hex_val (wq_root i)"

lemma withdraw_params_read:
  assumes "circuit_inputs (withdrawal_entries i c) = Inr ins"
  shows "withdraw_params_of ins =
     \<lparr>wd_note_amount = wq_noteAmount i, wd_withdraw_amount = wq_withdrawAmount i, wd_root = hex_val (wq_root i),
      wd_nullifier = hex_val (wq_nullifier i), wd_token_digest = hex_val (wq_assetDigest i),
      wd_recipient_digest = hex_val (wq_recipient i), wd_change_commitment = hex_val c,
      wd_asset_digest = hex_val (wq_assetDigest i), wd_owner_digest = hex_val (wq_ownerDigest i),
      wd_rho_digest = hex_val (wq_rhoDigest i), wd_blinding = hex_val (wq_blinding i),
      wd_spend_secret_digest = hex_val (wq_spendSecretDigest i),
      wd_path_siblings = map hex_val (wq_pathSiblings i), wd_path_indices = wq_pathIndices i,
      wd_change_rho_digest = hex_val (nullish (wq_changeRhoDigest i) ''0x0''),
      wd_change_blinding = hex_val (nullish (wq_changeBlinding i) ''0x0''), wd_zero_value = 0\<rparr>"
  unfolding withdraw_params_of_def by (simp add: read_inputs [OF assms] withdrawal_lookups)


subsection \<open>Concrete inputs\<close>

definition demo_perp :: MarketConfig where
  "demo_perp = \<lparr>mc_marketId = ''btc'', mc_oraclePrice = 5000000000000, mc_maxLeverage = 10,
     mc_initialMarginRate = 100000, mc_maintenanceMarginRate = 50000, mc_fundingIndex = - 70\<rparr>"

lemma demo_sha: "hex_val (''0x'' @ sha256_hex demo_host s) = field_mod (int (sum_list (map of_char s)))"
  by (simp add: hex_val_def demo_host_def bigint_of_nat_str del: append_Cons)

lemma demo_digest: "digestToFieldHex demo_host s = Inr (fieldHex (int (sum_list (map of_char s))))"
proof -
  have "bigint_of_hex (''0x'' @ sha256_hex demo_host s) = Inr (int (sum_list (map of_char s)))"
    by (simp add: demo_host_def bigint_of_nat_str del: append_Cons)
  moreover have "fieldHex (v smod FIELD_PRIME) = fieldHex v" for v
  proof -
    have "v mod FIELD_PRIME = (FIELD_PRIME * (v sdiv FIELD_PRIME) + v smod FIELD_PRIME) mod FIELD_PRIME"
      by (simp only: mult_sdiv_smod_eq)
    then show ?thesis by (simp add: fieldHex_eq_iff field_mod_eq)
  qed
  ultimately show ?thesis by (simp add: digestToFieldHex_def hashToField_def del: append_Cons)
qed

theorem funding_cycle_provable_witness:
  "\<exists>plan ins. fundingSettlementPlan demo_host
       (funding_input default_FundingEngineConfig demo_perp 9 3600000 None (- 100) (- 500000000)) = Inr plan
     \<and> circuit_inputs (pp_inputs plan) = Inr ins \<and> funding_update_accepts ins"
proof (rule funding_cycle_provable [OF hex_hash_demo])
  show "fundingIndexDelta \<lparr>fid_elapsedMs = of_int 3600000, fid_intervalMs = of_int
      (fec_intervalMs default_FundingEngineConfig), fid_markPrice = mc_oraclePrice demo_perp,
      fid_maxFundingDelta = None, fid_premiumRate = - 100\<rparr> = Inr (- 500000000)"
    unfolding fundingIndexDelta_def
    by (simp add: Let_def math_trunc_int [of 3600000, simplified] default_FundingEngineConfig_def funding_defaults
        demo_perp_def sdiv_nonpos)
  show "funding_ranges (funding_input default_FundingEngineConfig demo_perp 9 3600000 None (- 100) (- 500000000))"
    by (simp add: funding_ranges_def funding_input_def demo_perp_def default_FundingEngineConfig_def
        funding_defaults u128_def)
  show "hex_val (hashFields demo_host ''market-id'' [JStr (mc_marketId demo_perp)]) \<noteq> 0"
    unfolding hashFields_def demo_sha by (simp add: hash_preimage_def demo_perp_def)
qed simp_all

definition demo_note :: int where
  "demo_note = circuit_note_commitment demo_host 8 10 2 3 4"

definition demo_note_root :: int where
  "demo_note_root = nr_merkle_root demo_host demo_note (replicate 8 0) (replicate 8 False)"

definition demo_trade :: TradeIntent where
  "demo_trade = \<lparr>ti_batchId = ''b'', ti_marketId = ''btc'', ti_owner = ''alice'', ti_side = Long, ti_size = 1,
     ti_limitPrice = 100, ti_margin = 10, ti_noteNullifier = fieldHex (pairF demo_host 5 3), ti_nonce = ''n'',
     ti_salt = ''s''\<rparr>"

definition demo_intent_witness :: IntentValidityWitness where
  "demo_intent_witness = \<lparr>ivw_assetDigest = fieldHex 8, ivw_blinding = fieldHex 4, ivw_changeBlinding = ZERO_HEX,
     ivw_changeRhoDigest = ZERO_HEX, ivw_currentBatch = 9, ivw_expiryBatch = 10, ivw_intent = demo_trade,
     ivw_marginRoot = fieldHex demo_note_root, ivw_noteAmount = 10, ivw_noteChangeCommitment = ZERO_HEX,
     ivw_noteCommitment = fieldHex demo_note, ivw_ownerDigest = fieldHex 2,
     ivw_pathIndices = replicate 8 False, ivw_pathSiblings = replicate 8 (fieldHex 0),
     ivw_rhoDigest = fieldHex 3, ivw_spendSecretDigest = fieldHex 5\<rparr>"

lemma demo_notes:
  "demo_note = 1215" "demo_note_root = 7994575"
  by (simp_all add: demo_note_def demo_note_root_def demo_hashes eval_nat_numeral)

lemma demo_binding:
  obtains b where "intentBindingFields demo_host demo_trade = Inr b"
    "cic_batchDigest b = fieldHex 670" "cic_marketDigest b = fieldHex 1015" "cic_nonceDigest b = fieldHex 699"
    "cic_saltDigest b = fieldHex 609" "cic_ownerCommitmentField b = fieldHex 1631"
    "circuitIntentCommitment demo_host b = Inr (ibf_intentCommitment b)"
proof -
  have owner: "intentOwnerCommitmentField (ownerCommitment demo_host ''alice'') = Inr (fieldHex 1631)"
    by (simp add: intentOwnerCommitmentField_def ownerCommitment_def hashFields_def hash_preimage_def
        demo_host_def bigint_of_nat_str del: append_Cons) simp?
  have "\<exists>b. intentBindingFields demo_host demo_trade = Inr b"
    by (simp add: intentBindingFields_def demo_trade_def demo_digest owner circuitIntentCommitment_def
        fieldHashPair_total Let_def)
  then obtain b where b: "intentBindingFields demo_host demo_trade = Inr b" ..
  with owner have "cic_batchDigest b = fieldHex 670" "cic_marketDigest b = fieldHex 1015"
    "cic_nonceDigest b = fieldHex 699" "cic_saltDigest b = fieldHex 609"
    "cic_ownerCommitmentField b = fieldHex 1631"
    by (auto simp: intentBindingFields_def bindE_Inr_iff Let_def demo_digest demo_trade_def
        CircuitIntentCommitmentInput.extend_def)
  with b binding_fields(1) [OF b] that show ?thesis by blast
qed

lemma fieldHex_not_zero [simp]: "fieldHex v \<noteq> ''0x0''"
proof
  assume "fieldHex v = ''0x0''"
  then have "length (fieldHex v) = length ''0x0''" by (rule arg_cong)
  then show False by simp
qed

lemma demo_intent_checks: "intent_checks demo_host demo_intent_witness = Inr ()"
proof -
  have "circuitMarginCommitment demo_host \<lparr>cmn_amount = 10, cmn_assetDigest = fieldHex 8,
      cmn_blinding = fieldHex 4, cmn_ownerDigest = fieldHex 2, cmn_rhoDigest = fieldHex 3,
      cmn_spendSecretDigest = fieldHex 5\<rparr> = Inr (fieldHex demo_note)"
    by (subst margin_commitment_value) (simp_all add: demo_note_def)
  moreover have "circuitNullifier demo_host (fieldHex 3) (fieldHex 5) = Inr (fieldHex (pairF demo_host 5 3))"
    by (subst nullifier_value) simp_all
  ultimately show ?thesis
    by (simp add: intent_checks_def demo_intent_witness_def demo_trade_def Let_def pathChecks_def FIELD_MERKLE_DEPTH_def
        failIf_def checkNoteChange_def)
qed


definition demo_withdraw_request :: WithdrawalRequest where
  "demo_withdraw_request = \<lparr>wq_assetDigest = fieldHex 8, wq_blinding = fieldHex 4, wq_changeBlinding = Some (fieldHex 7),
     wq_changeRhoDigest = Some (fieldHex 6), wq_noteAmount = 10, wq_noteCommitment = fieldHex demo_note,
     wq_withdrawAmount = 3, wq_ownerDigest = fieldHex 2, wq_pathIndices = replicate 8 False,
     wq_pathSiblings = replicate 8 (fieldHex 0), wq_root = fieldHex demo_note_root, wq_rhoDigest = fieldHex 3,
     wq_nullifier = fieldHex (pairF demo_host 5 3), wq_recipient = fieldHex 11,
     wq_spendSecretDigest = fieldHex 5, wq_tokenDigest = None\<rparr>"


end
