(* ===== verification/Prover_Bound.thy ===== *)
theory Prover_Bound
  imports Prover_Flows
begin

text \<open>
  Proofs and their files. A proof that the service just made passes its own check, for the public inputs it was
  made for and no others; what a client registers passes the same check whatever its bytes are.
\<close>

lemma hashFile_Inr: "hashFile h p fs = Inr x \<Longrightarrow> mhas fs p"
  by (auto simp: hashFile_def readFile_def bindE_Inr_iff mget_mhas split: option.splits)

lemma circuitDef_id: "circuitDef c = Inr d \<Longrightarrow> cd_id d = c"
  by (auto simp: circuitDef_def find_Some_iff split: option.splits)

lemma loadCircuit_id: "loadCircuit h rt c fs = Inr m \<Longrightarrow> cm_id m = c"
  by (auto simp: loadCircuit_def bindE_Inr_iff Let_def dest: circuitDef_id)

lemma prepare_cases:
  assumes "prepareProofArtifact e c given ins fs = (Inr plan, fs')"
  shows "pap_id plan = c"
  using assms by (auto simp: prepareProofArtifact_def Let_def split: sum.splits if_splits)

lemma build_complete:
  assumes "buildProofArtifact e c given ins fs = (Inr a, fs')"
  shows "pa_circuitId a = c" "pa_circuitKey a = circuitKey (pe_host e) c"
    "hashFile (pe_host e) (pa_proofPath a) fs' = Inr (pa_proofHash a)"
    "hashFile (pe_host e) (pa_publicInputsPath a) fs' = Inr (pa_publicInputsHash a)"
    "hashFile (pe_host e) (pa_vkPath a) fs' = Inr (pa_vkHash a)"
proof -
  from assms obtain plan fs1 fs2 where plan: "prepareProofArtifact e c given ins fs = (Inr plan, fs1)"
    and finished: "completeProofArtifact (pe_host e) plan fs2 = Inr a" "fs' = fs2"
    by (auto simp: buildProofArtifact_def bindA_Inr_iff seqA_Inr_iff liftA_def)
  show "pa_circuitId a = c" "pa_circuitKey a = circuitKey (pe_host e) c"
    "hashFile (pe_host e) (pa_proofPath a) fs' = Inr (pa_proofHash a)"
    "hashFile (pe_host e) (pa_publicInputsPath a) fs' = Inr (pa_publicInputsHash a)"
    "hashFile (pe_host e) (pa_vkPath a) fs' = Inr (pa_vkHash a)"
    using finished prepare_cases [OF plan] by (auto simp: completeProofArtifact_def bindE_Inr_iff)
qed

lemma bindArtifact_cases:
  assumes "bindArtifact e c pub a s = (Inr pf, t)"
  obtains circuit where "loadCircuit (pe_host e) (pe_root e) c (ps_files s) = Inr circuit"
    "pa_circuitId a = c" "t = put_artifact (pe_host e) pf a s"
    "pm_circuitId pf = c" "pm_circuitKey pf = circuitKey (pe_host e) c" "pm_circuitHash pf = cm_sourceHash circuit"
    "pm_verifierHash pf = pa_vkHash a" "pm_publicInputHash pf = pa_publicInputsHash a"
    "pm_proofDigest pf = pa_proofHash a" "pm_publicInputsHash pf = Some (pa_publicInputsHash a)"
    "pm_proofHash pf = Some (pa_proofHash a)" "pm_vkHash pf = Some (pa_vkHash a)"
    "pm_bytecodeHash pf = Some (pa_bytecodeHash a)"
proof -
  from assms obtain circuit bound where c: "loadCircuit (pe_host e) (pe_root e) c (ps_files s) = Inr circuit"
    and b: "bindProof (pe_host e) circuit pub (Some a) = Inr bound"
    and pf: "pf = bound\<lparr>pm_proofSystem := Some Noir_Ultrahonk\<rparr>" "t = put_artifact (pe_host e) pf a s"
    by (auto simp: bindArtifact_def bindE_Inr_iff Let_def split: sum.splits)
  from loadCircuit_id [OF c] b pf c that show ?thesis
    by (auto simp: bindProof_def Let_def split: if_splits)
qed

text \<open>C29: A proof that the prover service made passes \<open>assertBoundProof\<close> in the state it left, for the circuit and
  the public inputs of the artifact; for other public inputs the check throws.\<close>
theorem made_proof_is_bound:
  assumes "prove_plan e c made s = (Inr r, t)"
  shows "\<exists>plan pf. made = Inr plan \<and> r = pp_record plan pf
    \<and> assertBoundProof e pf c (pm_publicInputHash pf) t = (Inr (), t)
    \<and> (\<forall>x. x = pm_publicInputHash pf \<or> assertBoundProof e pf c x t = (Inl ''proof public input mismatch'', t))"
proof -
  let ?h = "pe_host e"
  from assms obtain plan ins a s1 pf where plan: "made = Inr plan"
    and build: "on_files (buildProofArtifact e c (Some (pp_name plan)) (Some ins)) s = (Inr a, s1)"
    and bind: "bindArtifact e c (pp_publicInputs plan) a s1 = (Inr pf, t)" and r: "r = pp_record plan pf"
    by (auto simp: prove_plan_def bindA_Inr_iff liftA_def returnA_def bindE_Inr_iff)
  from build obtain fs where "buildProofArtifact e c (Some (pp_name plan)) (Some ins) (ps_files s) = (Inr a, fs)"
    and s1: "s1 = s\<lparr>ps_files := fs\<rparr>"
    by (auto simp: on_files_def split: prod.splits)
  note files = build_complete [OF this(1)]
  from bind obtain circuit where circuit: "loadCircuit ?h (pe_root e) c (ps_files s1) = Inr circuit"
    and t: "t = put_artifact ?h pf a s1"
    and pm: "pm_circuitId pf = c" "pm_circuitKey pf = circuitKey ?h c" "pm_circuitHash pf = cm_sourceHash circuit"
    "pm_verifierHash pf = pa_vkHash a" "pm_publicInputHash pf = pa_publicInputsHash a"
    "pm_proofDigest pf = pa_proofHash a" "pm_publicInputsHash pf = Some (pa_publicInputsHash a)"
    "pm_proofHash pf = Some (pa_proofHash a)" "pm_vkHash pf = Some (pa_vkHash a)"
    "pm_bytecodeHash pf = Some (pa_bytecodeHash a)"
    by (rule bindArtifact_cases) blast
  have tf: "ps_files t = fs" using t s1 by (simp add: put_artifact_def)
  have load: "loadCircuit ?h (pe_root e) c (ps_files t) = Inr circuit" using circuit s1 tf by simp
  have art: "artifactFor ?h pf t = (Some a, t)" using t by (simp add: artifactFor_def put_artifact_def)
  have "bound_artifact_checks ?h (ps_files t) a pf c = Inr ()"
    using files pm tf by (simp add: bound_artifact_checks_def differs_def assertFileHash_def hashFile_Inr failIf_def)
  then have "assertBoundProof e pf c (pm_publicInputHash pf) t = (Inr (), t)"
    using load art pm by (simp add: assertBoundProof_def Let_def bound_checks_def failIf_def)
  moreover have "x = pm_publicInputHash pf \<or> assertBoundProof e pf c x t = (Inl ''proof public input mismatch'', t)" for x
    using load pm by (simp add: assertBoundProof_def Let_def bound_checks_def failIf_def)
  ultimately show ?thesis using plan r by blast
qed

text \<open>A machine on which every command ends well: the backend writes the bytecode, the witness and its output.\<close>

definition demo_run :: "string \<Rightarrow> string \<times> string list \<Rightarrow> (files, unit) act" where
  "demo_run dir call fs = (Inr (), (case snd call of
     op # a # b # c # bytecode # d # witness # f # out # rest \<Rightarrow>
       mset_at bytecode ''B'' (mset_at witness ''W'' (mset_at (join_path [out, ''proof'']) ''P''
         (mset_at (join_path [out, ''public_inputs'']) ''I'' (mset_at (join_path [out, ''vk'']) ''V'' fs))))
   | _ \<Rightarrow> fs))"

definition demo_prover :: prover_env where
  "demo_prover = \<lparr>pe_host = demo_host, pe_root = ''r'', pe_run = demo_run, pe_from_base64 = (\<lambda>t. t)\<rparr>"

definition demo_files :: files where
  "demo_files = [(''r/circuits/withdraw/Nargo.toml'', ''n''), (''r/circuits/withdraw/src/main.nr'', ''m'')]"

definition demo_prover_state :: ProverService where
  "demo_prover_state = \<lparr>ps_artifacts = [], ps_intentValidityRecords = [],
     ps_artifactRegistry = \<lparr>par_artifacts = [], par_path = ''reg'', par_snapshot = None, par_entries = []\<rparr>,
     ps_files = demo_files\<rparr>"

definition demo_bound_plan :: "ProofMeta proof_plan" where
  "demo_bound_plan = \<lparr>pp_publicInputs = ''0x1'', pp_name = ''w'', pp_inputs = [(''amount'', InBig 5)],
     pp_record = (\<lambda>pf. pf)\<rparr>"

lemma loadCircuit_total:
  assumes "circuitDef c = Inr d" "mhas fs (join_path [rt, cd_dir d, ''Nargo.toml''])"
    "mhas fs (join_path [rt, cd_dir d, ''src/main.nr''])"
  shows "\<exists>m. loadCircuit h rt c fs = Inr m \<and> cm_id m = cd_id d"
  using assms by (auto simp: loadCircuit_def readFile_def hashFile_def Let_def mhas_def split: option.splits)

lemma demo_def: "circuitDef ''withdraw'' = Inr \<lparr>cd_id = ''withdraw'', cd_packageName = ''withdraw'',
  cd_dir = ''circuits/withdraw''\<rparr>"
  by code_simp

lemma demo_name: "cleanArtifactName ''withdraw'' (Some ''w'') = Inr ''w''"
  by code_simp

lemma demo_load:
  assumes "mhas fs ''r/circuits/withdraw/Nargo.toml''" "mhas fs ''r/circuits/withdraw/src/main.nr''"
  obtains m where "loadCircuit demo_host ''r'' ''withdraw'' fs = Inr m" "cm_id m = ''withdraw''"
  using loadCircuit_total [OF demo_def, of fs "''r''" demo_host] assms by (auto simp: join_path_def)

lemma demo_has: "mhas demo_files ''r/circuits/withdraw/Nargo.toml''" "mhas demo_files ''r/circuits/withdraw/src/main.nr''"
  by code_simp+

lemma demo_prepare:
  "\<exists>plan fs. prepareProofArtifact demo_prover ''withdraw'' (Some ''w'') (Some ins) demo_files = (Inr plan, fs)
     \<and> (\<forall>p. p \<in> {''r/circuits/withdraw/Nargo.toml'', ''r/circuits/withdraw/src/main.nr''} \<longrightarrow> mhas fs p)
     \<and> (\<exists>out. pap_proofPath plan = join_path [out, ''proof''] \<and> pap_publicInputsPath plan = join_path [out, ''public_inputs'']
       \<and> pap_vkPath plan = join_path [out, ''vk'']
       \<and> map snd (pap_commands plan) = [[''execute'', ''-p'', ''target/provers/w'', ''w''], [''compile''],
          [''prove'', ''-s'', ''ultra_honk'', ''-b'', pap_bytecodePath plan, ''-w'', pap_witnessPath plan, ''-o'', out,
            ''--write_vk'', ''--oracle_hash'', ''keccak''],
          [''verify'', ''-s'', ''ultra_honk'', ''-i'', pap_publicInputsPath plan, ''-p'', pap_proofPath plan,
            ''-k'', pap_vkPath plan, ''--oracle_hash'', ''keccak'']])"
proof -
  obtain m where m: "loadCircuit demo_host ''r'' ''withdraw'' demo_files = Inr m" "cm_id m = ''withdraw''"
    using demo_load [OF demo_has] by blast
  show ?thesis
    by (simp add: prepareProofArtifact_def demo_prover_def m demo_def demo_name Let_def join_path_def)
      (simp add: writeProverInput_def demo_files_def mset_at_def mhas_def mget_def)
qed

lemma hashFile_total: "mhas fs p \<Longrightarrow> \<exists>x. hashFile h p fs = Inr x"
  by (auto simp: hashFile_def readFile_def mhas_def)

lemma demo_build:
  "\<exists>a fs. buildProofArtifact demo_prover ''withdraw'' (Some ''w'') (Some ins) demo_files = (Inr a, fs)
     \<and> mhas fs ''r/circuits/withdraw/Nargo.toml'' \<and> mhas fs ''r/circuits/withdraw/src/main.nr''"
proof -
  obtain plan fs out where prep: "prepareProofArtifact demo_prover ''withdraw'' (Some ''w'') (Some ins) demo_files = (Inr plan, fs)"
    and kept: "mhas fs ''r/circuits/withdraw/Nargo.toml''" "mhas fs ''r/circuits/withdraw/src/main.nr''"
    and paths: "pap_proofPath plan = join_path [out, ''proof'']" "pap_publicInputsPath plan = join_path [out, ''public_inputs'']"
      "pap_vkPath plan = join_path [out, ''vk'']"
    and cmds: "map snd (pap_commands plan) = [[''execute'', ''-p'', ''target/provers/w'', ''w''], [''compile''],
          [''prove'', ''-s'', ''ultra_honk'', ''-b'', pap_bytecodePath plan, ''-w'', pap_witnessPath plan, ''-o'', out,
            ''--write_vk'', ''--oracle_hash'', ''keccak''],
          [''verify'', ''-s'', ''ultra_honk'', ''-i'', pap_publicInputsPath plan, ''-p'', pap_proofPath plan,
            ''-k'', pap_vkPath plan, ''--oracle_hash'', ''keccak'']]"
    using demo_prepare [of ins] by auto
  let ?out = "mset_at (pap_bytecodePath plan) ''B'' (mset_at (pap_witnessPath plan) ''W'' (mset_at (pap_proofPath plan) ''P''
    (mset_at (pap_publicInputsPath plan) ''I'' (mset_at (pap_vkPath plan) ''V'' fs))))"
  obtain c1 c2 c3 c4 where four: "pap_commands plan = [c1, c2, c3, c4]" "snd c1 = [''execute'', ''-p'', ''target/provers/w'', ''w'']"
    "snd c2 = [''compile'']"
    "snd c3 = [''prove'', ''-s'', ''ultra_honk'', ''-b'', pap_bytecodePath plan, ''-w'', pap_witnessPath plan, ''-o'', out,
            ''--write_vk'', ''--oracle_hash'', ''keccak'']"
    "snd c4 = [''verify'', ''-s'', ''ultra_honk'', ''-i'', pap_publicInputsPath plan, ''-p'', pap_proofPath plan,
            ''-k'', pap_vkPath plan, ''--oracle_hash'', ''keccak'']"
    using cmds by (auto simp: map_eq_Cons_conv)
  have run: "\<exists>fs'. eachA (demo_run (pap_dir plan)) (pap_commands plan) fs = (Inr (), fs') \<and>
      (\<forall>p. mhas ?out p \<longrightarrow> mhas fs' p)"
    using four paths by (auto simp: seqA_def bindA_def returnA_def demo_run_def)
  then obtain fs' where ran: "eachA (demo_run (pap_dir plan)) (pap_commands plan) fs = (Inr (), fs')"
    and has: "\<And>p. mhas ?out p \<Longrightarrow> mhas fs' p" by blast
  obtain x1 x2 x3 x4 x5 where "hashFile demo_host (pap_bytecodePath plan) fs' = Inr x1"
    "hashFile demo_host (pap_witnessPath plan) fs' = Inr x2" "hashFile demo_host (pap_proofPath plan) fs' = Inr x3"
    "hashFile demo_host (pap_publicInputsPath plan) fs' = Inr x4" "hashFile demo_host (pap_vkPath plan) fs' = Inr x5"
    using hashFile_total has by (metis mhas_set)
  then have "\<exists>a. completeProofArtifact demo_host plan fs' = Inr a" by (simp add: completeProofArtifact_def)
  with prep ran has kept show ?thesis
    by (auto simp: buildProofArtifact_def bindA_def seqA_def liftA_def demo_prover_def)
qed

theorem made_proof_is_bound_witness:
  "\<exists>pf t. prove_plan demo_prover ''withdraw'' (Inr demo_bound_plan) demo_prover_state = (Inr pf, t)
     \<and> assertBoundProof demo_prover pf ''withdraw'' (pm_publicInputHash pf) t = (Inr (), t)"
proof -
  let ?ins = "[(''amount'', PvBig 5)]"
  obtain a fs where build: "buildProofArtifact demo_prover ''withdraw'' (Some ''w'') (Some ?ins) demo_files = (Inr a, fs)"
    and kept: "mhas fs ''r/circuits/withdraw/Nargo.toml''" "mhas fs ''r/circuits/withdraw/src/main.nr''"
    using demo_build by blast
  obtain m where m: "loadCircuit demo_host ''r'' ''withdraw'' fs = Inr m" "cm_id m = ''withdraw''"
    using demo_load kept by blast
  have inputs: "circuit_inputs (pp_inputs demo_bound_plan) = Inr ?ins" by code_simp
  have "\<exists>b. bindProof demo_host m ''0x1'' (Some a) = Inr b"
    using build_complete(1) [OF build] m by (simp add: bindProof_def Let_def)
  then have "\<exists>pf t. prove_plan demo_prover ''withdraw'' (Inr demo_bound_plan) demo_prover_state = (Inr pf, t)"
    using build m inputs
    by (auto simp: prove_plan_def bindA_def liftA_def returnA_def on_files_def bindArtifact_def demo_prover_state_def demo_bound_plan_def Let_def demo_prover_def)
  then obtain pf t where made: "prove_plan demo_prover ''withdraw'' (Inr demo_bound_plan) demo_prover_state = (Inr pf, t)"
    by blast
  from made_proof_is_bound [OF made] have "assertBoundProof demo_prover pf ''withdraw'' (pm_publicInputHash pf) t = (Inr (), t)"
    by (auto simp: demo_bound_plan_def)
  with made show ?thesis by blast
qed

subsection \<open>What a client registers\<close>

definition client_proof :: "host \<Rightarrow> CircuitMeta \<Rightarrow> string \<Rightarrow> string \<Rightarrow> string \<Rightarrow> ProofMeta" where
  "client_proof h circuit p i v =
     (let d = (\<lambda>b. ''0x'' @ sha256_bytes h (hex_of_bytes b))
      in \<lparr>pm_circuitId = cm_id circuit, pm_circuitKey = circuitKey h (cm_id circuit),
          pm_circuitHash = cm_sourceHash circuit, pm_verifierHash = d v, pm_publicInputHash = d i,
          pm_proofDigest = d p, pm_proofSystem = None, pm_bytecodeHash = None, pm_boundlessRequestId = None,
          pm_imageId = None, pm_journalDigest = None, pm_witnessHash = None, pm_proofHash = None,
          pm_publicInputsHash = None, pm_sealDigest = None, pm_vkHash = None\<rparr>)"

lemma circuitDef_dir: "circuitDef c = Inr d \<Longrightarrow> \<exists>i. cd_dir d = ''circuits/'' @ i"
proof -
  assume "circuitDef c = Inr d"
  then have "d \<in> set CIRCUITS" by (auto simp: circuitDef_def find_Some_iff split: option.splits)
  then show ?thesis by (auto simp: CIRCUITS_def)
qed

lemma readFile_other: "p \<noteq> q \<Longrightarrow> readFile p (mset_at q c fs) = readFile p fs"
  by (simp add: readFile_def)

lemma loadCircuit_other:
  assumes "q = join_path (rt # ''.pnlx'' # xs)" "xs \<noteq> []"
  shows "loadCircuit h rt c (mset_at q b fs) = loadCircuit h rt c fs"
proof (cases "circuitDef c")
  case (Inr d)
  with circuitDef_dir obtain i where "cd_dir d = ''circuits/'' @ i" by blast
  then have "join_path [rt, cd_dir d, x] \<noteq> q" for x using assms by (cases xs) (auto simp: join_path_def)
  then show ?thesis using Inr by (simp add: loadCircuit_def hashFile_def readFile_other cong: if_cong)
qed (simp add: loadCircuit_def)

text \<open>C30: The check of a proof is a check of hashes. Whatever bytes a client sends as proof, public inputs and key,
  there is a proof description with which they register, and which then passes \<open>assertBoundProof\<close> for a circuit that
  loads; its verifier hash is the hash of the key that the client sent.\<close>
theorem any_bytes_are_bound:
  assumes "loadCircuit (pe_host e) (pe_root e) c (ps_files s) = Inr circuit"
  shows "\<exists>pf a t. registerProofArtifact e \<lparr>rpa_bytecodeHash = None, rpa_proof = pf, rpa_proofBase64 = p,
      rpa_publicInputsBase64 = i, rpa_vkBase64 = v, rpa_witnessHash = None\<rparr> s = (Inr a, t)
    \<and> pm_verifierHash pf = ''0x'' @ sha256_bytes (pe_host e) (hex_of_bytes (pe_from_base64 e v))
    \<and> assertBoundProof e pf c (pm_publicInputHash pf) t = (Inr (), t)"
proof -
  let ?h = "pe_host e"
  let ?pf = "client_proof ?h circuit (pe_from_base64 e p) (pe_from_base64 e i) (pe_from_base64 e v)"
  define dir where "dir = join_path [pe_root e, ''.pnlx'', ''client-proof-artifacts'', sha256_hex ?h (proofKey ?pf)]"
  define fs where "fs = mset_at (join_path [dir, ''vk'']) (pe_from_base64 e v)
    (mset_at (join_path [dir, ''public_inputs'']) (pe_from_base64 e i)
    (mset_at (join_path [dir, ''proof'']) (pe_from_base64 e p) (ps_files s)))"
  have path: "join_path [dir, x] = join_path (pe_root e # ''.pnlx'' # [''client-proof-artifacts'', sha256_hex ?h (proofKey ?pf), x])"
    for x by (simp add: dir_def join_path_def)
  have c: "cm_id circuit = c" using loadCircuit_id [OF assms] .
  have load: "loadCircuit ?h (pe_root e) c fs = Inr circuit"
    unfolding fs_def by (simp add: loadCircuit_other [OF path] assms)
  have hashes: "hashFile ?h (join_path [dir, ''vk'']) fs = Inr (pm_verifierHash ?pf)"
    "hashFile ?h (join_path [dir, ''public_inputs'']) fs = Inr (pm_publicInputHash ?pf)"
    "hashFile ?h (join_path [dir, ''proof'']) fs = Inr (pm_proofDigest ?pf)"
    by (simp_all add: hashFile_def readFile_def fs_def join_path_def client_proof_def Let_def)
  have has: "mhas fs (join_path [dir, x])" if "x \<in> {''vk'', ''public_inputs'', ''proof''}" for x
    using that by (auto simp: fs_def)
  have fields: "pm_circuitId ?pf = c" "pm_circuitKey ?pf = circuitKey ?h c" "pm_circuitHash ?pf = cm_sourceHash circuit"
    "pm_bytecodeHash ?pf = None" "pm_witnessHash ?pf = None" "pm_proofHash ?pf = None"
    "pm_publicInputsHash ?pf = None" "pm_vkHash ?pf = None"
    using c by (simp_all add: client_proof_def Let_def)
  define a where "a = \<lparr>pa_circuitId = c, pa_circuitKey = circuitKey ?h c, pa_bytecodeHash = ''0x0'', pa_witnessHash = ''0x0'',
    pa_proofHash = pm_proofDigest ?pf, pa_publicInputsHash = pm_publicInputHash ?pf, pa_vkHash = pm_verifierHash ?pf,
    pa_proofPath = join_path [dir, ''proof''], pa_publicInputsPath = join_path [dir, ''public_inputs''],
    pa_vkPath = join_path [dir, ''vk'']\<rparr>"
  let ?t = "put_artifact ?h ?pf a (s\<lparr>ps_files := fs\<rparr>)"
  have "registerProofArtifact e \<lparr>rpa_bytecodeHash = None, rpa_proof = ?pf, rpa_proofBase64 = p,
      rpa_publicInputsBase64 = i, rpa_vkBase64 = v, rpa_witnessHash = None\<rparr> s = (Inr a, ?t)"
    using assms c hashes fields unfolding registerProofArtifact_def Let_def
    by (simp add: dir_def [symmetric] fs_def [symmetric] failIf_def artifact_checks_def differs_def truthy_str_def
        nullish_def a_def)
  moreover have "assertBoundProof e ?pf c (pm_publicInputHash ?pf) ?t = (Inr (), ?t)"
    using load hashes fields has
    by (simp add: assertBoundProof_def Let_def bound_checks_def failIf_def artifactFor_def put_artifact_def
        bound_artifact_checks_def a_def differs_def truthy_str_def assertFileHash_def)
  moreover have "pm_verifierHash ?pf = ''0x'' @ sha256_bytes ?h (hex_of_bytes (pe_from_base64 e v))"
    by (simp add: client_proof_def Let_def)
  ultimately show ?thesis by blast
qed

theorem any_bytes_are_bound_witness:
  "\<exists>pf a t. registerProofArtifact demo_prover \<lparr>rpa_bytecodeHash = None, rpa_proof = pf, rpa_proofBase64 = ''p'',
      rpa_publicInputsBase64 = ''i'', rpa_vkBase64 = ''v'', rpa_witnessHash = None\<rparr> demo_prover_state = (Inr a, t)
    \<and> pm_verifierHash pf = ''0x'' @ sha256_bytes demo_host (hex_of_bytes ''v'')
    \<and> assertBoundProof demo_prover pf ''withdraw'' (pm_publicInputHash pf) t = (Inr (), t)"
proof -
  obtain m where m: "loadCircuit demo_host ''r'' ''withdraw'' demo_files = Inr m" using demo_load [OF demo_has] by blast
  have "loadCircuit (pe_host demo_prover) (pe_root demo_prover) ''withdraw'' (ps_files demo_prover_state) = Inr m"
    using m by (simp add: demo_prover_def demo_prover_state_def)
  from any_bytes_are_bound [OF this, of "''p''" "''i''" "''v''"] show ?thesis by (simp add: demo_prover_def)
qed

end
