(* ===== verification/Account_Recovery.thy ===== *)
theory Account_Recovery
  imports Executor Funding_Engine
begin

text \<open>
  \<^verbatim>\<open>features/account-keys\<close>: the encryption keys of the accounts, and the repair of account
  events. A trader who registers a new key is sent the openings of his open positions again. The server
  does not keep the openings; it recomputes them from the intents of a settlement, by running the fills of
  the batch once more in the order of the position commitments, and keeps what opens its commitment.
\<close>

subsection \<open>account-key-recovery.ts: the book of a settlement\<close>

record BookState =
  rs_allocatedMargin :: int
  rs_filled :: int
  rs_intent :: PrivateMatchIntent
  rs_remaining :: int
  rs_side :: side
  rs_size :: int

definition stateFor :: "Hex \<Rightarrow> (Hex, PrivateMatchIntent) jsmap \<Rightarrow> (Hex, BookState) jsmap
    \<Rightarrow> BookState option \<times> (Hex, BookState) jsmap" where
  "stateFor intentCommitment privateMatchIntents state =
     (case mget state intentCommitment of
        Some existing \<Rightarrow> (Some existing, state)
      | None \<Rightarrow>
          (case mget privateMatchIntents intentCommitment of
             None \<Rightarrow> (None, state)
           | Some intent \<Rightarrow>
               let sd = (if pmi_signedSize intent \<ge> 0 then Long else Short);
                   sz = (if pmi_signedSize intent \<ge> 0 then pmi_signedSize intent
                         else - pmi_signedSize intent);
                   created = \<lparr>rs_allocatedMargin = 0, rs_filled = 0, rs_intent = intent,
                     rs_remaining = sz, rs_side = sd, rs_size = sz\<rparr>
               in (Some created, mset_at intentCommitment created state)))"

text \<open>
  The file has its own copies of \<open>ceilDiv\<close> and \<open>minBigInt\<close>, with the text of those of the matcher. An
  intent of size zero can be in the store, and BigInt division by zero throws.
\<close>

definition allocateRecovered :: "BookState \<Rightarrow> int \<Rightarrow> (int \<times> BookState) result" where
  "allocateRecovered order fillSize =
     (if rs_size order = 0 then throw ''Division by zero''
      else let nextFilled = rs_filled order + fillSize;
               nextAllocatedMargin = ceilDiv (pmi_margin (rs_intent order) * nextFilled) (rs_size order);
               fillMargin = nextAllocatedMargin - rs_allocatedMargin order
           in Inr (fillMargin, order\<lparr>rs_filled := nextFilled, rs_remaining := rs_remaining order - fillSize,
                                     rs_allocatedMargin := nextAllocatedMargin\<rparr>))"

definition matchesPosition ::
  "host \<Rightarrow> PositionLifecycleRecord \<Rightarrow> PositionOpeningAccountEventPayload \<Rightarrow> nat \<Rightarrow> bool result" where
  "matchesPosition h position payload fillIndex =
     (let source = pop_sourceIntentCommitment payload;
          rho = source @ '':position:'' @ nat_str 10 fillIndex
      in bindE (digestToFieldHex h (''market:'' @ pop_marketId payload)) (\<lambda>marketDigest.
         bindE (digestToFieldHex h (''owner:'' @ plr_ownerCommitment position)) (\<lambda>ownerDigest.
         bindE (digestToFieldHex h (''rho:'' @ rho)) (\<lambda>rhoDigest.
         bindE (digestToFieldHex h (''blinding:'' @ source @ '':blinding:'' @ nat_str 10 fillIndex)) (\<lambda>blinding.
         bindE (digestToFieldHex h (''spend:'' @ plr_ownerCommitment position @ '':'' @ rho))
           (\<lambda>spendSecretDigest.
         bindE (circuitPositionCommitment h
             \<lparr>cpn_blinding = blinding, cpn_entryPrice = pop_entryPrice payload,
              cpn_fundingIndex = pop_fundingIndex payload, cpn_margin = pop_margin payload,
              cpn_marketDigest = marketDigest, cpn_ownerDigest = ownerDigest, cpn_rhoDigest = rhoDigest,
              cpn_side = pop_side payload, cpn_size = pop_size payload,
              cpn_spendSecretDigest = spendSecretDigest\<rparr>) (\<lambda>commitment.
         bindE (circuitPositionNullifier h rhoDigest spendSecretDigest) (\<lambda>nullifier.
           Inr (commitment = plr_positionCommitment position
                \<and> nullifier = plr_positionNullifier position)))))))))"

type_synonym openings = "(Hex, PositionOpeningAccountEventPayload) jsmap"

definition addIfValid :: "host \<Rightarrow> PositionLifecycleRecord \<Rightarrow> PositionOpeningAccountEventPayload \<Rightarrow> nat
    \<Rightarrow> openings \<Rightarrow> openings result" where
  "addIfValid h position payload fillIndex out =
     bindE (matchesPosition h position payload fillIndex) (\<lambda>ok.
       Inr (if ok then mset_at (plr_positionCommitment position) payload out else out))"

subsection \<open>reconstructSettlementOpenings\<close>

text \<open>The two maps the loop fills.\<close>

record Reconstruction =
  rc_state :: "(Hex, BookState) jsmap"
  rc_out :: openings

text \<open>
  \<open>maker && taker && ...\<close>: the settlement names both intents of the pair. Commitments are never the
  empty string, which is false in JavaScript.
\<close>

definition feeBearing :: "Hex option \<Rightarrow> Hex option \<Rightarrow> Hex list \<Rightarrow> bool" where
  "feeBearing maker taker sources =
     (case (maker, taker) of
        (Some m, Some t) \<Rightarrow> m \<noteq> [] \<and> t \<noteq> [] \<and> m \<in> set sources \<and> t \<in> set sources \<and> m \<noteq> t
      | _ \<Rightarrow> False)"

definition entryFeeOf :: "FillFees option \<Rightarrow> Hex option \<Rightarrow> Hex \<Rightarrow> int" where
  "entryFeeOf fees maker source =
     (case fees of None \<Rightarrow> 0
      | Some f \<Rightarrow> if Some source = maker then - fee_makerRebate f else fee_grossTakerFee f)"

definition recoveredPayload :: "PositionLifecycleRecord \<Rightarrow> FillFees option \<Rightarrow> int \<Rightarrow> int \<Rightarrow> int \<Rightarrow> side \<Rightarrow> int
    \<Rightarrow> PositionOpeningAccountEventPayload" where
  "recoveredPayload position fees entryFee price margin sd sz =
     \<lparr>pop_entryFee = (if fees = None then None else Some entryFee), pop_entryPrice = price,
      pop_fundingIndex = (case plr_fundingIndex position of Some x \<Rightarrow> x | None \<Rightarrow> 0),
      pop_margin = margin, pop_marketId = plr_marketId position,
      pop_positionCommitment = plr_positionCommitment position,
      pop_positionNullifier = plr_positionNullifier position, pop_side = sd, pop_size = sz,
      pop_sourceIntentCommitment = plr_sourceIntentCommitment position\<rparr>"

text \<open>The body of the loop from the two states on. The assignments to the states are writes to the map.\<close>

definition openBoth :: "host \<Rightarrow> BatchSettlement \<Rightarrow> nat \<Rightarrow> PositionLifecycleRecord \<Rightarrow> PositionLifecycleRecord
    \<Rightarrow> BookState \<Rightarrow> BookState \<Rightarrow> Reconstruction \<Rightarrow> Reconstruction result" where
  "openBoth h settlement index left right leftState rightState st =
     (let leftSource = plr_sourceIntentCommitment left; rightSource = plr_sourceIntentCommitment right;
          long = (if rs_side leftState = Long then leftState else rightState);
          short = (if rs_side leftState = Short then leftState else rightState);
          maker = item (bs_makerIntents settlement) (index div 2);
          taker = item (bs_takerIntents settlement) (index div 2);
          bears = feeBearing maker taker [leftSource, rightSource];
          longPrice = pmi_limitPrice (rs_intent long); shortPrice = pmi_limitPrice (rs_intent short)
      in if \<not> bears \<and> bs_grossTakerFee settlement \<noteq> 0 then Inr st
         else if longPrice < shortPrice \<or> (\<not> bears \<and> longPrice \<noteq> shortPrice) then Inr st
         else
           let sz = min (rs_remaining long) (rs_remaining short);
               price = (if bears
                        then if maker = Some (pmi_intentCommitment (rs_intent long)) then longPrice else shortPrice
                        else longPrice)
           in bindE (if bears then bindE (fillFees sz price) (\<lambda>f. Inr (Some f)) else Inr None) (\<lambda>fees.
              let leftFee = entryFeeOf fees maker leftSource; rightFee = entryFeeOf fees maker rightSource
              in bindE (allocateRecovered leftState sz) (\<lambda>(leftAllocated, left').
                 bindE (allocateRecovered rightState sz) (\<lambda>(rightAllocated, right').
                 let leftPayload = recoveredPayload left fees leftFee price (leftAllocated - leftFee)
                       (rs_side leftState) sz;
                     rightPayload = recoveredPayload right fees rightFee price (rightAllocated - rightFee)
                       (rs_side rightState) sz
                 in bindE (addIfValid h left leftPayload index (rc_out st)) (\<lambda>out.
                    bindE (addIfValid h right rightPayload (index + 1) out) (\<lambda>out.
                      Inr \<lparr>rc_state = mset_at rightSource right' (mset_at leftSource left' (rc_state st)),
                           rc_out = out\<rparr>))))))"

definition openPair :: "host \<Rightarrow> BatchSettlement \<Rightarrow> (Hex, PositionLifecycleRecord) jsmap
    \<Rightarrow> (Hex, PrivateMatchIntent) jsmap \<Rightarrow> nat \<Rightarrow> Hex \<Rightarrow> Hex \<Rightarrow> Reconstruction \<Rightarrow> Reconstruction result" where
  "openPair h settlement positions privates index leftCommitment rightCommitment st =
     (case (mget positions leftCommitment, mget positions rightCommitment) of
        (Some left, Some right) \<Rightarrow>
          let (leftState, state1) = stateFor (plr_sourceIntentCommitment left) privates (rc_state st);
              (rightState, state2) = stateFor (plr_sourceIntentCommitment right) privates state1;
              st2 = st\<lparr>rc_state := state2\<rparr>
          in (case (leftState, rightState) of
                (Some l, Some r) \<Rightarrow>
                  if rs_side l = rs_side r then Inr st2
                  else openBoth h settlement index left right l r st2
              | _ \<Rightarrow> Inr st2)
      | _ \<Rightarrow> Inr st)"

text \<open>The loop; a last commitment without a partner has no right position and is passed over.\<close>

fun openPairs :: "host \<Rightarrow> BatchSettlement \<Rightarrow> (Hex, PositionLifecycleRecord) jsmap
    \<Rightarrow> (Hex, PrivateMatchIntent) jsmap \<Rightarrow> nat \<Rightarrow> Hex list \<Rightarrow> Reconstruction \<Rightarrow> Reconstruction result" where
  "openPairs h settlement positions privates index (left # right # cs) st =
     bindE (openPair h settlement positions privates index left right st)
       (openPairs h settlement positions privates (index + 2) cs)"
| "openPairs h settlement positions privates index cs st = Inr st"

definition reconstructSettlementOpenings :: "host \<Rightarrow> BatchSettlement
    \<Rightarrow> (Hex, PositionLifecycleRecord) jsmap \<Rightarrow> (Hex, PrivateMatchIntent) jsmap \<Rightarrow> openings result" where
  "reconstructSettlementOpenings h settlement positions privates =
     bindE (openPairs h settlement positions privates 0 (bs_newCommitments settlement)
         \<lparr>rc_state = [], rc_out = []\<rparr>) (\<lambda>st. Inr (rc_out st))"

definition reconstructPositionOpening :: "host \<Rightarrow> ProtocolStore \<Rightarrow> PositionLifecycleRecord
    \<Rightarrow> PositionOpeningAccountEventPayload option result" where
  "reconstructPositionOpening h s position =
     (case find (\<lambda>b. bs_settlementDigest b = plr_settlementDigest position) (mvalues (st_settlements s)) of
        None \<Rightarrow> Inr None
      | Some settlement \<Rightarrow>
          bindE (reconstructSettlementOpenings h settlement (st_positionLifecycle s) (st_privateMatchIntents s))
            (\<lambda>out. Inr (mget out (plr_positionCommitment position))))"

subsection \<open>recoverPositionOpeningEventsForOwner\<close>

record AccountKeyRecoverySkip =
  rsk_positionCommitment :: Hex
  rsk_reason :: string

record AccountKeyRecovery =
  akr_events :: "AccountEventRecord list"
  akr_skipped :: "AccountKeyRecoverySkip list"

definition groupBy :: "('v \<Rightarrow> 'k) \<Rightarrow> 'v list \<Rightarrow> ('k, 'v list) jsmap" where
  "groupBy keyFor values =
     fold (\<lambda>v groups. mset_at (keyFor v) (or_empty (mget groups (keyFor v)) @ [v]) groups) values []"

definition skip_position :: "string \<Rightarrow> PositionLifecycleRecord \<Rightarrow> AccountKeyRecovery \<Rightarrow> AccountKeyRecovery" where
  "skip_position reason position r =
     r\<lparr>akr_skipped := akr_skipped r
         @ [\<lparr>rsk_positionCommitment = plr_positionCommitment position, rsk_reason = reason\<rparr>]\<rparr>"

text \<open>The inner loop, over the positions of one settlement.\<close>

fun recoverPositions :: "host \<Rightarrow> (AccountEventPayload \<Rightarrow> string \<Rightarrow> string result) \<Rightarrow> string \<Rightarrow> openings
    \<Rightarrow> PositionLifecycleRecord list \<Rightarrow> AccountKeyRecovery \<Rightarrow> AccountKeyRecovery result" where
  "recoverPositions h encrypt publicKey reconstructed [] r = Inr r"
| "recoverPositions h encrypt publicKey reconstructed (position # ps) r =
     (case mget reconstructed (plr_positionCommitment position) of
        None \<Rightarrow> recoverPositions h encrypt publicKey reconstructed ps
                  (skip_position ''opening payload could not be reconstructed'' position r)
      | Some payload \<Rightarrow>
          bindE (createPositionOpeningAccountEvent h encrypt position payload (Some publicKey) None) (\<lambda>event.
            recoverPositions h encrypt publicKey reconstructed ps
              (r\<lparr>akr_events := akr_events r @ [event]\<rparr>)))"

fun recoverGroups :: "host \<Rightarrow> (AccountEventPayload \<Rightarrow> string \<Rightarrow> string result) \<Rightarrow> string
    \<Rightarrow> (Hex, BatchSettlement) jsmap \<Rightarrow> (Hex, PositionLifecycleRecord) jsmap
    \<Rightarrow> (Hex, PrivateMatchIntent) jsmap \<Rightarrow> (Hex \<times> PositionLifecycleRecord list) list
    \<Rightarrow> AccountKeyRecovery \<Rightarrow> AccountKeyRecovery result" where
  "recoverGroups h encrypt publicKey settlements positions privates [] r = Inr r"
| "recoverGroups h encrypt publicKey settlements positions privates ((digest, ps) # groups) r =
     (case mget settlements digest of
        None \<Rightarrow> recoverGroups h encrypt publicKey settlements positions privates groups
                  (fold (skip_position ''missing settlement'') ps r)
      | Some settlement \<Rightarrow>
          bindE (reconstructSettlementOpenings h settlement positions privates) (\<lambda>reconstructed.
          bindE (recoverPositions h encrypt publicKey reconstructed ps r)
            (recoverGroups h encrypt publicKey settlements positions privates groups)))"

definition recoverPositionOpeningEventsForOwner ::
  "host \<Rightarrow> (AccountEventPayload \<Rightarrow> string \<Rightarrow> string result) \<Rightarrow> ProtocolStore \<Rightarrow> Hex \<Rightarrow> string
     \<Rightarrow> AccountKeyRecovery result" where
  "recoverPositionOpeningEventsForOwner h encrypt s owner publicKey =
     (let positions = filter (\<lambda>p. plr_status p = PositionOpen) (positionsFor h owner s);
          settlements = index_by bs_settlementDigest (mvalues (st_settlements s));
          positionByCommitment = index_by plr_positionCommitment (mvalues (st_positionLifecycle s))
      in recoverGroups h encrypt publicKey settlements positionByCommitment (st_privateMatchIntents s)
           (groupBy plr_settlementDigest positions) \<lparr>akr_events = [], akr_skipped = []\<rparr>)"

subsection \<open>auth-context.ts\<close>

definition assertAuthenticatedAccount :: "string option \<Rightarrow> string option \<Rightarrow> string \<Rightarrow> unit result" where
  "assertAuthenticatedAccount authenticated account field =
     (case (authenticated, account) of
        (Some a, Some b) \<Rightarrow>
          if a = [] \<or> b = [] then Inr ()
          else if normalizeAddress b \<noteq> normalizeAddress a
            then throw (field @ '' does not match authenticated account'')
          else Inr ()
      | _ \<Rightarrow> Inr ())"

definition assertAuthenticatedOwnerCommitment ::
  "host \<Rightarrow> string option \<Rightarrow> Hex option \<Rightarrow> string \<Rightarrow> unit result" where
  "assertAuthenticatedOwnerCommitment h authenticated commitment field =
     (case (authenticated, commitment) of
        (Some a, Some c) \<Rightarrow>
          if a = [] \<or> c = [] then Inr ()
          else if map lower_char (ownerCommitment h (normalizeAddress a)) \<noteq> map lower_char c
            then throw (field @ '' does not match authenticated account'')
          else Inr ()
      | _ \<Rightarrow> Inr ())"

subsection \<open>account-keys.service.ts\<close>

record UpsertAccountKeyInput =
  uak_ownerCommitment :: Hex
  uak_publicKey :: string

record RecoverAccountKeyResult =
  rak_accountKey :: AccountEncryptionKeyRecord
  rak_repairedEventCount :: nat
  rak_skipped :: "AccountKeyRecoverySkip list"

definition accountKeyRecord ::
  "int \<Rightarrow> UpsertAccountKeyInput \<Rightarrow> AccountEncryptionKeyRecord option \<Rightarrow> AccountEncryptionKeyRecord" where
  "accountKeyRecord now input existing =
     \<lparr>aek_createdAt = (case existing of Some k \<Rightarrow> aek_createdAt k | None \<Rightarrow> now),
      aek_ownerCommitment = uak_ownerCommitment input, aek_publicKey = uak_publicKey input,
      aek_updatedAt = now\<rparr>"

definition accountKeys_upsert ::
  "host \<Rightarrow> int \<Rightarrow> UpsertAccountKeyInput \<Rightarrow> string option \<Rightarrow> (ExecutorService, AccountEncryptionKeyRecord) act" where
  "accountKeys_upsert h now input authenticated =
     seqA (liftA (\<lambda>_. assertAuthenticatedOwnerCommitment h authenticated (Some (uak_ownerCommitment input))
             ''ownerCommitment''))
     (bindA (liftA (\<lambda>e. Inr (accountEncryptionKey (uak_ownerCommitment input) (ex_store e)))) (\<lambda>existing.
        if (case existing of Some k \<Rightarrow> aek_publicKey k \<noteq> uak_publicKey input | None \<Rightarrow> False)
        then throwA ''account encryption key is already registered for this owner''
        else let record = accountKeyRecord now input existing
             in seqA (store_call (upsertAccountEncryptionKey record)) (returnA record)))"

definition accountKeys_get ::
  "host \<Rightarrow> Hex \<Rightarrow> string option \<Rightarrow> (ExecutorService, AccountEncryptionKeyRecord option) act" where
  "accountKeys_get h owner authenticated =
     seqA (liftA (\<lambda>_. assertAuthenticatedOwnerCommitment h authenticated (Some owner) ''ownerCommitment''))
       (liftA (\<lambda>e. Inr (accountEncryptionKey owner (ex_store e))))"

definition accountKeys_recover ::
  "host \<Rightarrow> (AccountEventPayload \<Rightarrow> string \<Rightarrow> string result) \<Rightarrow> int \<Rightarrow> UpsertAccountKeyInput \<Rightarrow> string option
     \<Rightarrow> (ExecutorService, RecoverAccountKeyResult) act" where
  "accountKeys_recover h encrypt now input authenticated =
     seqA (liftA (\<lambda>_. assertAuthenticatedOwnerCommitment h authenticated (Some (uak_ownerCommitment input))
             ''ownerCommitment''))
     (bindA (liftA (\<lambda>e. Inr (accountKeyRecord now input
                (accountEncryptionKey (uak_ownerCommitment input) (ex_store e))))) (\<lambda>accountKey.
      seqA (store_call (upsertAccountEncryptionKey accountKey))
      (bindA (liftA (\<lambda>e. recoverPositionOpeningEventsForOwner h encrypt (ex_store e)
                (uak_ownerCommitment input) (uak_publicKey input))) (\<lambda>recovery.
       seqA (eachA (\<lambda>event. store_call (addAccountEvent event)) (akr_events recovery))
         (returnA \<lparr>rak_accountKey = accountKey, rak_repairedEventCount = length (akr_events recovery),
                    rak_skipped = akr_skipped recovery\<rparr>)))))"

end
