(* ===== verification/Recovery_Properties.thy ===== *)
theory Recovery_Properties
  imports Account_Recovery Prover_Flows Match_Properties
begin

text \<open>
  That the recovered openings are right. The loop of \<open>reconstructSettlementOpenings\<close> is
  simulated by the crossing loop of the matcher: after every pair the states in its map agree with the
  orders of the book (\<open>tracked\<close>), and the pair's payloads open the position commitments of the two fills.
\<close>

subsection \<open>Lemmas: the loop over the pairs\<close>

lemma bindE_assoc: "bindE (bindE r f) g = bindE r (\<lambda>x. bindE (f x) g)"
  by (cases r) simp_all

lemma bindE_Inr_id [simp]: "bindE r Inr = r"
  by (cases r) simp_all

lemma openPairs_Nil: "openPairs h b positions privates k [] = Inr"
  by (rule ext) simp

lemma openPairs_snoc:
  "even (length cs) \<Longrightarrow> openPairs h b positions privates k (cs @ [c, d]) st
     = bindE (openPairs h b positions privates k cs st) (openPair h b positions privates (k + length cs) c d)"
proof (induction h b positions privates k cs st rule: openPairs.induct)
  case (1 h b positions privates k left right cs st)
  show ?case
  proof (cases "openPair h b positions privates k left right st")
    case (Inr u)
    with 1 show ?thesis by (simp add: bindE_assoc)
  qed simp
qed (simp_all add: openPairs_Nil)

subsection \<open>Lemmas: one pair\<close>

text \<open>The record of the position a fill opens; a missing funding index stands for 0.\<close>

definition recorded_index :: "PositionLifecycleRecord \<Rightarrow> int" where
  "recorded_index p = (case plr_fundingIndex p of Some x \<Rightarrow> x | None \<Rightarrow> 0)"

definition opens :: "Fill \<Rightarrow> PositionLifecycleRecord \<Rightarrow> bool" where
  "opens f p \<longleftrightarrow>
     plr_positionCommitment p = fill_positionCommitment f
     \<and> plr_positionNullifier p = fill_positionNullifier f
     \<and> plr_ownerCommitment p = fill_ownerCommitment f \<and> plr_marketId p = fill_marketId f
     \<and> plr_sourceIntentCommitment p = fill_intentCommitment f"

text \<open>What the account event of a fill of an execution has to hold.\<close>

definition opening_of :: "int \<Rightarrow> MatchExecution \<Rightarrow> Fill \<Rightarrow> PositionOpeningAccountEventPayload" where
  "opening_of fundingIndex e f =
     \<lparr>pop_entryFee = Some (if fill_intentCommitment f = me_makerIntentCommitment e
        then - fee_makerRebate e else fee_grossTakerFee e),
      pop_entryPrice = fill_price f, pop_fundingIndex = fundingIndex, pop_margin = fill_margin f,
      pop_marketId = fill_marketId f, pop_positionCommitment = fill_positionCommitment f,
      pop_positionNullifier = fill_positionNullifier f, pop_side = fill_side f, pop_size = fill_size f,
      pop_sourceIntentCommitment = fill_intentCommitment f\<rparr>"

text \<open>The entry of a fill in the result: its opening, if the recorded index is the one of its commitment.\<close>

definition entry_of :: "host \<Rightarrow> PositionLifecycleRecord \<Rightarrow> MatchExecution \<Rightarrow> Fill \<Rightarrow> nat
    \<Rightarrow> PositionOpeningAccountEventPayload option" where
  "entry_of h p e f k =
     (if matchesPosition h p (opening_of (recorded_index p) e f) k = Inr True
      then Some (opening_of (recorded_index p) e f) else None)"

definition put_entry :: "Hex \<Rightarrow> PositionOpeningAccountEventPayload option \<Rightarrow> openings \<Rightarrow> openings" where
  "put_entry c x out = (case x of None \<Rightarrow> out | Some payload \<Rightarrow> mset_at c payload out)"

lemma mget_put_entry: "mget (put_entry c x out) c'
    = (if c' = c then (case x of None \<Rightarrow> mget out c | Some payload \<Rightarrow> Some payload) else mget out c')"
  by (simp add: put_entry_def split: option.splits)

text \<open>The digests of a fill are field elements, so the commitment of its opening can be computed at any index.\<close>

lemma digest_field: "digestToFieldHex h s = Inr d \<Longrightarrow> \<exists>v. d = fieldHex v"
  by (auto simp: digestToFieldHex_def bindE_Inr_iff)

lemma createFill_digests:
  assumes "createFill h i x sz price k d = Inr (f, x')"
  obtains a b c e g where
    "digestToFieldHex h (''market:'' @ fill_marketId f) = Inr (fieldHex a)"
    "digestToFieldHex h (''owner:'' @ fill_ownerCommitment f) = Inr (fieldHex b)"
    "digestToFieldHex h (''rho:'' @ fill_intentCommitment f @ '':position:'' @ nat_str 10 k) = Inr (fieldHex c)"
    "digestToFieldHex h (''blinding:'' @ fill_intentCommitment f @ '':blinding:'' @ nat_str 10 k)
       = Inr (fieldHex e)"
    "digestToFieldHex h (''spend:'' @ fill_ownerCommitment f @ '':'' @ fill_intentCommitment f
       @ '':position:'' @ nat_str 10 k) = Inr (fieldHex g)"
    "circuitPositionCommitment h \<lparr>cpn_blinding = fieldHex e, cpn_entryPrice = fill_price f,
       cpn_fundingIndex = mc_fundingIndex (mi_market i), cpn_margin = fill_margin f,
       cpn_marketDigest = fieldHex a, cpn_ownerDigest = fieldHex b, cpn_rhoDigest = fieldHex c,
       cpn_side = fill_side f, cpn_size = fill_size f, cpn_spendSecretDigest = fieldHex g\<rparr>
     = Inr (fill_positionCommitment f)"
    "circuitPositionNullifier h (fieldHex c) (fieldHex g) = Inr (fill_positionNullifier f)"
  using assms
  by (fastforce simp: createFill_def bindE_Inr_iff Let_def allocateMargin_def dest: digest_field)

lemma matches_entry:
  assumes "createFill h i x sz price k d = Inr (f, x')" and "opens f p"
  obtains ok where "matchesPosition h p (opening_of idx e f) k = Inr ok"
    and "idx = mc_fundingIndex (mi_market i) \<Longrightarrow> ok"
proof -
  obtain a b c e' g where dg:
    "digestToFieldHex h (''market:'' @ fill_marketId f) = Inr (fieldHex a)"
    "digestToFieldHex h (''owner:'' @ fill_ownerCommitment f) = Inr (fieldHex b)"
    "digestToFieldHex h (''rho:'' @ fill_intentCommitment f @ '':position:'' @ nat_str 10 k) = Inr (fieldHex c)"
    "digestToFieldHex h (''blinding:'' @ fill_intentCommitment f @ '':blinding:'' @ nat_str 10 k)
       = Inr (fieldHex e')"
    "digestToFieldHex h (''spend:'' @ fill_ownerCommitment f @ '':'' @ fill_intentCommitment f
       @ '':position:'' @ nat_str 10 k) = Inr (fieldHex g)"
    and com: "circuitPositionCommitment h \<lparr>cpn_blinding = fieldHex e', cpn_entryPrice = fill_price f,
       cpn_fundingIndex = mc_fundingIndex (mi_market i), cpn_margin = fill_margin f,
       cpn_marketDigest = fieldHex a, cpn_ownerDigest = fieldHex b, cpn_rhoDigest = fieldHex c,
       cpn_side = fill_side f, cpn_size = fill_size f, cpn_spendSecretDigest = fieldHex g\<rparr>
     = Inr (fill_positionCommitment f)"
    and nul: "circuitPositionNullifier h (fieldHex c) (fieldHex g) = Inr (fill_positionNullifier f)"
    by (rule createFill_digests [OF assms(1)])
  obtain com' where com': "circuitPositionCommitment h \<lparr>cpn_blinding = fieldHex e', cpn_entryPrice = fill_price f,
       cpn_fundingIndex = idx, cpn_margin = fill_margin f,
       cpn_marketDigest = fieldHex a, cpn_ownerDigest = fieldHex b, cpn_rhoDigest = fieldHex c,
       cpn_side = fill_side f, cpn_size = fill_size f, cpn_spendSecretDigest = fieldHex g\<rparr> = Inr com'"
    by (simp add: circuitPositionCommitment_def fieldHashPair_total)
  have "matchesPosition h p (opening_of idx e f) k = Inr (com' = fill_positionCommitment f)"
    using assms(2)
    by (simp only: matchesPosition_def opening_of_def opens_def Let_def append_assoc
        PositionOpeningAccountEventPayload.select_convs dg com' nul bindE_simps simp_thms)
  then show ?thesis by (rule that) (use com com' in simp)
qed

text \<open>A state of the reconstruction and the order of the book it stands for.\<close>

definition book_rel :: "BookOrder \<Rightarrow> BookState \<Rightarrow> bool" where
  "book_rel x s \<longleftrightarrow>
     rs_allocatedMargin s = bo_allocatedMargin x \<and> rs_filled s = bo_filled x
     \<and> rs_remaining s = bo_remaining x \<and> rs_side s = bo_side x \<and> rs_size s = bo_size x
     \<and> pmi_limitPrice (rs_intent s) = limit_of x \<and> pmi_margin (rs_intent s) = pmi_margin (bo_intent x)
     \<and> pmi_intentCommitment (rs_intent s) = pmi_intentCommitment (bo_intent x)"

abbreviation commitment_of :: "BookOrder \<Rightarrow> Hex" where
  "commitment_of x \<equiv> pmi_intentCommitment (bo_intent x)"

definition tracked :: "BookOrder list \<Rightarrow> (Hex, BookState) jsmap \<Rightarrow> bool" where
  "tracked orders state \<longleftrightarrow> (\<forall>x\<in>set orders.
     case mget state (commitment_of x) of None \<Rightarrow> bo_filled x = 0 | Some s \<Rightarrow> book_rel x s)"

text \<open>The store keeps the terms of every intent of the batch; the matcher saw it under another batch id.\<close>

definition terms_kept :: "(Hex, PrivateMatchIntent) jsmap \<Rightarrow> PrivateMatchIntent \<Rightarrow> bool" where
  "terms_kept privates intent \<longleftrightarrow> (\<exists>kept batchId.
     mget privates (pmi_intentCommitment intent) = Some kept \<and> intent = kept\<lparr>pmi_batchId := batchId\<rparr>)"

lemma stateFor_tracked:
  assumes "tracked orders state" "x \<in> set orders" "order_ok x" "terms_kept privates (bo_intent x)"
  obtains s state' where "stateFor (commitment_of x) privates state = (Some s, state')" "book_rel x s"
    "\<And>c. mget state' c = (if c = commitment_of x then Some s else mget state c)"
proof (cases "mget state (commitment_of x)")
  case (Some s)
  then have "book_rel x s" using assms(1,2) by (force simp: tracked_def)
  with Some show ?thesis by (intro that [of s state]) (auto simp: stateFor_def)
next
  case None
  then have fresh: "bo_filled x = 0" using assms(1,2) by (force simp: tracked_def)
  obtain kept batchId where kept: "mget privates (commitment_of x) = Some kept"
    "bo_intent x = kept\<lparr>pmi_batchId := batchId\<rparr>" using assms(4) by (auto simp: terms_kept_def)
  let ?s = "\<lparr>rs_allocatedMargin = 0, rs_filled = 0, rs_intent = kept, rs_remaining = \<bar>pmi_signedSize kept\<bar>,
    rs_side = (if pmi_signedSize kept \<ge> 0 then Long else Short), rs_size = \<bar>pmi_signedSize kept\<bar>\<rparr>"
  have "stateFor (commitment_of x) privates state = (Some ?s, mset_at (commitment_of x) ?s state)"
    using None kept(1) by (simp add: stateFor_def Let_def)
  moreover have "book_rel x ?s"
    using assms(3) fresh order_ok_margin(4) [OF assms(3) fresh] kept(2)
    by (auto simp: book_rel_def order_ok_def)
  ultimately show ?thesis by (rule that) simp
qed

lemma allocateRecovered_rel:
  assumes "book_rel x s" and "0 < bo_size x"
  obtains s' where "allocateRecovered s sz = Inr (fst (allocateMargin x sz), s')"
    "book_rel (fill_order sz x) s'"
  using assms by (auto simp: allocateRecovered_def allocateMargin_def book_rel_def Let_def)

text \<open>The two states of a pair: the loop opens both fills of a step of the matcher and follows its orders.\<close>

lemma openBoth_fills:
  assumes opens: "opens lf p" "opens sf q"
    and fills: "createFill h i l sz price k (if bo_sequence l \<le> bo_sequence s
        then fee_makerRebate fees else - fee_grossTakerFee fees) = Inr (lf, l1)"
      "createFill h i s sz price (k + 1) (if bo_sequence l \<le> bo_sequence s
        then - fee_grossTakerFee fees else fee_makerRebate fees) = Inr (sf, s1)"
    and sides: "bo_side l = Long" "bo_side s = Short" and sizes: "0 < bo_size l" "0 < bo_size s"
    and price: "limit_of s \<le> limit_of l" "sz = min (bo_remaining l) (bo_remaining s)"
      "price = executionPrice l s" "fillFees sz price = Inr fees"
    and e: "e = createExecution l s sz price lf sf fees"
    and named: "item (bs_makerIntents b) (k div 2) = Some (me_makerIntentCommitment e)"
      "item (bs_takerIntents b) (k div 2) = Some (me_takerIntentCommitment e)"
    and keys: "commitment_of l \<noteq> commitment_of s" "commitment_of l \<noteq> []" "commitment_of s \<noteq> []"
    and rel: "book_rel l ls" "book_rel s ss"
  obtains ls' ss' where "book_rel (fill_order sz l) ls'" "book_rel (fill_order sz s) ss'"
    "openBoth h b k p q ls ss st = Inr
       \<lparr>rc_state = mset_at (commitment_of s) ss' (mset_at (commitment_of l) ls' (rc_state st)),
        rc_out = put_entry (fill_positionCommitment sf) (entry_of h q e sf (k + 1))
          (put_entry (fill_positionCommitment lf) (entry_of h p e lf k) (rc_out st))\<rparr>"
proof -
  let ?m = "bo_sequence l \<le> bo_sequence s"
  let ?lfee = "entryFeeOf (Some fees) (item (bs_makerIntents b) (k div 2)) (commitment_of l)"
  let ?sfee = "entryFeeOf (Some fees) (item (bs_makerIntents b) (k div 2)) (commitment_of s)"
  note lf = createFill_order [OF fills(1)] and sf = createFill_order [OF fills(2)]
  have src: "plr_sourceIntentCommitment p = commitment_of l" "plr_sourceIntentCommitment q = commitment_of s"
    "plr_positionCommitment p = fill_positionCommitment lf" "plr_positionCommitment q = fill_positionCommitment sf"
    using opens lf sf by (simp_all add: opens_def)
  have maker: "me_makerIntentCommitment e = (if ?m then commitment_of l else commitment_of s)"
    "me_takerIntentCommitment e = (if ?m then commitment_of s else commitment_of l)"
    "fee_makerRebate e = fee_makerRebate fees" "fee_grossTakerFee e = fee_grossTakerFee fees"
    by (simp_all add: e createExecution_def Let_def FillFees.extend_def)
  have bears: "feeBearing (item (bs_makerIntents b) (k div 2)) (item (bs_takerIntents b) (k div 2))
      [commitment_of l, commitment_of s]"
    unfolding named maker using keys by (auto simp: feeBearing_def)
  have lfee: "- ?lfee = (if ?m then fee_makerRebate fees else - fee_grossTakerFee fees)"
    and sfee: "- ?sfee = (if ?m then - fee_grossTakerFee fees else fee_makerRebate fees)"
    unfolding named maker using keys(1) by (auto simp: entryFeeOf_def)
  have price': "(if item (bs_makerIntents b) (k div 2) = Some (commitment_of l) then limit_of l else limit_of s) = price"
    unfolding named maker using keys(1) by (auto simp: price(3) executionPrice_def)
  obtain ls' where ls': "allocateRecovered ls sz = Inr (fst (allocateMargin l sz), ls')" "book_rel (fill_order sz l) ls'"
    by (rule allocateRecovered_rel [OF rel(1) sizes(1)])
  obtain ss' where ss': "allocateRecovered ss sz = Inr (fst (allocateMargin s sz), ss')" "book_rel (fill_order sz s) ss'"
    by (rule allocateRecovered_rel [OF rel(2) sizes(2)])
  have payl: "recoveredPayload p (Some fees) ?lfee price (fst (allocateMargin l sz) - ?lfee) Long sz
      = opening_of (recorded_index p) e lf"
    using opens(1) lf lfee sides(1) unfolding maker opening_of_def recoveredPayload_def named opens_def
    by (auto simp: entryFeeOf_def recorded_index_def)
  have pays: "recoveredPayload q (Some fees) ?sfee price (fst (allocateMargin s sz) - ?sfee) Short sz
      = opening_of (recorded_index q) e sf"
    using opens(2) sf sfee sides(2) unfolding maker opening_of_def recoveredPayload_def named opens_def
    by (auto simp: entryFeeOf_def recorded_index_def)
  obtain okl where "matchesPosition h p (opening_of (recorded_index p) e lf) k = Inr okl"
    by (rule matches_entry [OF fills(1) opens(1)])
  then have outl: "addIfValid h p (opening_of (recorded_index p) e lf) k out
      = Inr (put_entry (fill_positionCommitment lf) (entry_of h p e lf k) out)" for out
    by (simp add: addIfValid_def src put_entry_def entry_of_def)
  obtain oks where "matchesPosition h q (opening_of (recorded_index q) e sf) (k + 1) = Inr oks"
    by (rule matches_entry [OF fills(2) opens(2)])
  then have outs: "addIfValid h q (opening_of (recorded_index q) e sf) (k + 1) out
      = Inr (put_entry (fill_positionCommitment sf) (entry_of h q e sf (k + 1)) out)" for out
    by (simp add: addIfValid_def src put_entry_def entry_of_def)
  have rels: "rs_side ls = Long" "rs_side ss = Short" "pmi_limitPrice (rs_intent ls) = limit_of l"
    "pmi_limitPrice (rs_intent ss) = limit_of s" "rs_remaining ls = bo_remaining l"
    "rs_remaining ss = bo_remaining s" "pmi_intentCommitment (rs_intent ls) = commitment_of l"
    using rel sides by (simp_all add: book_rel_def)
  show ?thesis
    by (rule that [OF ls'(2) ss'(2)])
      (simp only: openBoth_def Let_def src rels side.distinct price(2) [symmetric] bears not_True_eq_False
        simp_thms if_False if_True price' price(4) bindE_simps ls'(1) ss'(1) prod.case payl pays outl outs
        linorder_not_less [THEN iffD2, OF price(1)])
qed

subsection \<open>Lemmas: the loop of the matcher\<close>

text \<open>What the settlement and the position records say of the fills and executions so far.\<close>

definition names_fills :: "BatchSettlement \<Rightarrow> (Hex, PositionLifecycleRecord) jsmap
    \<Rightarrow> Fill list \<Rightarrow> MatchExecution list \<Rightarrow> bool" where
  "names_fills b positions fills executions \<longleftrightarrow>
     take (length executions) (bs_makerIntents b) = map me_makerIntentCommitment executions
     \<and> take (length executions) (bs_takerIntents b) = map me_takerIntentCommitment executions
     \<and> distinct (map fill_positionCommitment fills)
     \<and> (\<forall>f\<in>set fills. \<exists>p. mget positions (fill_positionCommitment f) = Some p \<and> opens f p)"

lemma take_snoc_item: "take (Suc (length ys)) xs = ys @ [y] \<Longrightarrow> take (length ys) xs = ys \<and> item xs (length ys) = Some y"
  by (cases "length ys < length xs") (auto simp: take_Suc_conv_app_nth item_def)

lemma names_fills_snoc:
  assumes "names_fills b positions (fills @ [lf, sf]) (executions @ [e])"
  shows "names_fills b positions fills executions"
    and "item (bs_makerIntents b) (length executions) = Some (me_makerIntentCommitment e)"
    and "item (bs_takerIntents b) (length executions) = Some (me_takerIntentCommitment e)"
  using assms
    take_snoc_item [of "map me_makerIntentCommitment executions" "bs_makerIntents b" "me_makerIntentCommitment e"]
    take_snoc_item [of "map me_takerIntentCommitment executions" "bs_takerIntents b" "me_takerIntentCommitment e"]
  by (auto simp: names_fills_def)


definition recovers :: "host \<Rightarrow> (Hex, PrivateMatchIntent) jsmap \<Rightarrow> MatchState \<Rightarrow> bool" where
  "recovers h privates st \<longleftrightarrow>
     length (ms_fills st) = 2 * length (ms_executions st)
     \<and> (\<forall>b positions. names_fills b positions (ms_fills st) (ms_executions st) \<longrightarrow>
         (\<exists>r. openPairs h b positions privates 0 (map fill_positionCommitment (ms_fills st))
               \<lparr>rc_state = [], rc_out = []\<rparr> = Inr r
           \<and> tracked (ms_orders st) (rc_state r)
           \<and> (\<forall>c. c \<notin> fill_positionCommitment ` set (ms_fills st) \<longrightarrow> mget (rc_out r) c = None)
           \<and> (\<forall>k<length (ms_fills st). \<forall>p. mget positions (fill_positionCommitment (ms_fills st ! k)) = Some p \<longrightarrow>
               mget (rc_out r) (fill_positionCommitment (ms_fills st ! k))
                 = entry_of h p (ms_executions st ! (k div 2)) (ms_fills st ! k) k)))"

lemma tracked_put:
  assumes "tracked orders state" "book_rel x s" "x \<in> set orders" "distinct (map commitment_of orders)"
    and "\<And>c. mget state' c = (if c = commitment_of x then Some s else mget state c)"
  shows "tracked orders state'"
proof -
  have "y = x" if "y \<in> set orders" "commitment_of y = commitment_of x" for y
    using that assms(3,4) by (auto simp: distinct_map dest: inj_onD)
  then show ?thesis using assms(1,2,5) by (auto simp: tracked_def)
qed

lemma tracked_fill:
  assumes "tracked orders state" "distinct (map commitment_of orders)"
    and "l < length orders" "s < length orders" "l \<noteq> s"
    and "book_rel (fill_order sz (orders ! l)) ls" "book_rel (fill_order sz (orders ! s)) ss"
  shows "tracked (orders[l := fill_order sz (orders ! l), s := fill_order sz (orders ! s)])
    (mset_at (commitment_of (orders ! s)) ss (mset_at (commitment_of (orders ! l)) ls state))"
proof -
  have other: "commitment_of (orders ! k) \<noteq> commitment_of (orders ! j)"
    if "k < length orders" "j < length orders" "k \<noteq> j" for k j
    using that assms(2) by (simp add: distinct_conv_nth)
  have at: "case mget state (commitment_of (orders ! k)) of None \<Rightarrow> bo_filled (orders ! k) = 0
      | Some s \<Rightarrow> book_rel (orders ! k) s" if "k < length orders" for k
    using that assms(1) by (simp add: tracked_def)
  show ?thesis
    unfolding tracked_def set_upd2 [OF assms(5,3,4)]
    using assms(3-7) other at by auto
qed

lemma crossing_orders:
  assumes "book_ok i longs shorts st" "crossing longs shorts st"
  defines "l \<equiv> longs ! ms_longIndex st" and "s \<equiv> shorts ! ms_shortIndex st"
  shows "l < length (ms_orders st)" "s < length (ms_orders st)" "l \<noteq> s"
    "bo_side (ms_orders st ! l) = Long" "bo_side (ms_orders st ! s) = Short"
    "order_ok (ms_orders st ! l)" "order_ok (ms_orders st ! s)"
    "limit_of (ms_orders st ! s) \<le> limit_of (ms_orders st ! l)"
proof -
  have "l \<in> set longs" "s \<in> set shorts" using assms(2) by (auto simp: l_def s_def crossing_def)
  then show len: "l < length (ms_orders st)" "s < length (ms_orders st)"
    and sides: "bo_side (ms_orders st ! l) = Long" "bo_side (ms_orders st ! s) = Short"
    using assms(1) by (auto simp: book_ok_def refs_ok_def)
  then show "l \<noteq> s" by auto
  show "order_ok (ms_orders st ! l)" "order_ok (ms_orders st ! s)"
    using len assms(1) by (simp_all add: book_ok_def)
  show "limit_of (ms_orders st ! s) \<le> limit_of (ms_orders st ! l)"
    using assms(2) by (simp add: l_def s_def crossing_def deref_def)
qed

lemma recovers_step:
  assumes book: "book_ok i longs shorts st" and cross: "crossing longs shorts st"
    and step: "matchStep h i longs shorts st = Inr st'"
    and keys: "distinct (map pmi_intentCommitment (mi_intents i))" "[] \<notin> set (map pmi_intentCommitment (mi_intents i))"
    and kept: "\<And>x. x \<in> set (mi_intents i) \<Longrightarrow> terms_kept privates x"
    and rec: "recovers h privates st"
  shows "recovers h privates st'"
proof -
  let ?o = "ms_orders st" 
  let ?i = "longs ! ms_longIndex st" and ?j = "shorts ! ms_shortIndex st"
  let ?l = "?o ! ?i" and ?s = "?o ! ?j"
  let ?sz = "min (bo_remaining ?l) (bo_remaining ?s)" and ?price = "executionPrice ?l ?s"
  let ?k = "length (ms_fills st)"
  note ix = crossing_orders [OF book cross]
  have ints: "map bo_intent ?o = mi_intents i" using book by (simp add: book_ok_def)
  have commits: "map commitment_of ?o = map pmi_intentCommitment (mi_intents i)"
    unfolding ints [symmetric] by simp
  have dist: "distinct (map commitment_of ?o)" using keys(1) by (simp add: commits)
  have neq: "commitment_of ?l \<noteq> commitment_of ?s" using dist ix(1-3) by (simp add: distinct_conv_nth)
  have "commitment_of ?l \<in> set (map commitment_of ?o)" "commitment_of ?s \<in> set (map commitment_of ?o)"
    using ix(1,2) by auto
  then have nonempty: "commitment_of ?l \<noteq> []" "commitment_of ?s \<noteq> []" using keys(2) unfolding commits by metis+
  have mem: "?l \<in> set ?o" "?s \<in> set ?o" using ix(1,2) by simp_all
  then have terms: "terms_kept privates (bo_intent ?l)" "terms_kept privates (bo_intent ?s)"
    using kept by (simp_all add: ints [symmetric])
  have sizes: "0 < bo_size ?l" "0 < bo_size ?s" using ix(6,7) unfolding order_ok_def by blast+
  obtain fees lf l1 sf s1 where f: "fillFees ?sz ?price = Inr fees"
    and lf: "createFill h i ?l ?sz ?price ?k (if bo_sequence ?l \<le> bo_sequence ?s
        then fee_makerRebate fees else - fee_grossTakerFee fees) = Inr (lf, l1)"
    and sf: "createFill h i ?s ?sz ?price (?k + 1) (if bo_sequence ?l \<le> bo_sequence ?s
        then - fee_grossTakerFee fees else fee_makerRebate fees) = Inr (sf, s1)"
    and st': "ms_orders st' = ?o[?i := fill_order ?sz ?l, ?j := fill_order ?sz ?s]"
      "ms_fills st' = ms_fills st @ [lf, sf]"
      "ms_executions st' = ms_executions st @ [createExecution ?l ?s ?sz ?price lf sf fees]"
    by (rule matchStep_elim [OF step]) (simp add: deref_def)
  let ?e = "createExecution ?l ?s ?sz ?price lf sf fees"
  have half: "?k = 2 * length (ms_executions st)" using rec by (simp add: recovers_def)
  have "\<exists>r. openPairs h b positions privates 0 (map fill_positionCommitment (ms_fills st'))
               \<lparr>rc_state = [], rc_out = []\<rparr> = Inr r
           \<and> tracked (ms_orders st') (rc_state r)
           \<and> (\<forall>c. c \<notin> fill_positionCommitment ` set (ms_fills st') \<longrightarrow> mget (rc_out r) c = None)
           \<and> (\<forall>k<length (ms_fills st'). \<forall>p. mget positions (fill_positionCommitment (ms_fills st' ! k)) = Some p \<longrightarrow>
               mget (rc_out r) (fill_positionCommitment (ms_fills st' ! k))
                 = entry_of h p (ms_executions st' ! (k div 2)) (ms_fills st' ! k) k)"
    if names: "names_fills b positions (ms_fills st') (ms_executions st')" for b positions
  proof -
    note pre = names_fills_snoc [OF names [unfolded st'(2,3)]]
    obtain r where r: "openPairs h b positions privates 0 (map fill_positionCommitment (ms_fills st))
          \<lparr>rc_state = [], rc_out = []\<rparr> = Inr r" "tracked ?o (rc_state r)"
        "\<And>c. c \<notin> fill_positionCommitment ` set (ms_fills st) \<Longrightarrow> mget (rc_out r) c = None"
        "\<And>k p. k < ?k \<Longrightarrow> mget positions (fill_positionCommitment (ms_fills st ! k)) = Some p \<Longrightarrow>
           mget (rc_out r) (fill_positionCommitment (ms_fills st ! k))
             = entry_of h p (ms_executions st ! (k div 2)) (ms_fills st ! k) k"
      using rec pre(1) unfolding recovers_def by blast
    obtain p q where pq: "mget positions (fill_positionCommitment lf) = Some p" "opens lf p"
        "mget positions (fill_positionCommitment sf) = Some q" "opens sf q"
      using names unfolding names_fills_def st'(2) by auto
    have src: "plr_sourceIntentCommitment p = commitment_of ?l" "plr_sourceIntentCommitment q = commitment_of ?s"
      using pq(2,4) createFill_order [OF lf] createFill_order [OF sf] by (simp_all add: opens_def)
    obtain ls state1 where ls: "stateFor (commitment_of ?l) privates (rc_state r) = (Some ls, state1)"
        "book_rel ?l ls" "\<And>c. mget state1 c = (if c = commitment_of ?l then Some ls else mget (rc_state r) c)"
      by (rule stateFor_tracked [OF r(2) mem(1) ix(6) terms(1)]) blast
    have tr1: "tracked ?o state1" by (rule tracked_put [OF r(2) ls(2) mem(1) dist ls(3)])
    obtain ss state2 where ss: "stateFor (commitment_of ?s) privates state1 = (Some ss, state2)"
        "book_rel ?s ss" "\<And>c. mget state2 c = (if c = commitment_of ?s then Some ss else mget state1 c)"
      by (rule stateFor_tracked [OF tr1 mem(2) ix(7) terms(2)]) blast
    have tr2: "tracked ?o state2" by (rule tracked_put [OF tr1 ss(2) mem(2) dist ss(3)])
    have index: "?k div 2 = length (ms_executions st)" using half by simp
    obtain ls' ss' where body: "book_rel (fill_order ?sz ?l) ls'" "book_rel (fill_order ?sz ?s) ss'"
      "openBoth h b ?k p q ls ss (r\<lparr>rc_state := state2\<rparr>) = Inr
       \<lparr>rc_state = mset_at (commitment_of ?s) ss' (mset_at (commitment_of ?l) ls' state2),
        rc_out = put_entry (fill_positionCommitment sf) (entry_of h q ?e sf (?k + 1))
          (put_entry (fill_positionCommitment lf) (entry_of h p ?e lf ?k) (rc_out r))\<rparr>"
      by (rule openBoth_fills [OF pq(2,4) lf sf ix(4,5) sizes ix(8) refl refl f refl _ _ neq nonempty ls(2) ss(2),
            where st = "r\<lparr>rc_state := state2\<rparr>"])
        (use pre(2,3) index in simp_all)
    let ?r = "\<lparr>rc_state = mset_at (commitment_of ?s) ss' (mset_at (commitment_of ?l) ls' state2),
        rc_out = put_entry (fill_positionCommitment sf) (entry_of h q ?e sf (?k + 1))
          (put_entry (fill_positionCommitment lf) (entry_of h p ?e lf ?k) (rc_out r))\<rparr>"
    have "rs_side ls \<noteq> rs_side ss" using ls(2) ss(2) ix(4,5) by (simp add: book_rel_def)
    then have "openPair h b positions privates ?k (fill_positionCommitment lf) (fill_positionCommitment sf) r = Inr ?r"
      by (simp add: openPair_def pq(1,3) src ls(1) ss(1) body(3))
    then have run: "openPairs h b positions privates 0 (map fill_positionCommitment (ms_fills st'))
        \<lparr>rc_state = [], rc_out = []\<rparr> = Inr ?r"
      using openPairs_snoc [of "map fill_positionCommitment (ms_fills st)"] half
      by (simp add: st'(2) r(1))
    have "tracked (ms_orders st') (rc_state ?r)"
      using tracked_fill [OF tr2 dist ix(1-3) body(1,2)] by (simp add: st'(1))
    moreover have "mget (rc_out ?r) c = None" if "c \<notin> fill_positionCommitment ` set (ms_fills st')" for c
      using that r(3) by (simp add: st'(2) mget_put_entry)
    moreover have "mget (rc_out ?r) (fill_positionCommitment (ms_fills st' ! k))
        = entry_of h p' (ms_executions st' ! (k div 2)) (ms_fills st' ! k) k"
      if k: "k < length (ms_fills st')" and p': "mget positions (fill_positionCommitment (ms_fills st' ! k)) = Some p'"
      for k p'
    proof -
      have d: "distinct (map fill_positionCommitment (ms_fills st @ [lf, sf]))"
        using names by (simp add: names_fills_def st'(2))
      consider "k < ?k" | "k = ?k" | "k = Suc ?k" using k by (auto simp: st'(2) less_Suc_eq)
      then show ?thesis
      proof cases
        case 1
        then have "k div 2 < length (ms_executions st)" using half by simp
        moreover have "fill_positionCommitment (ms_fills st ! k) \<in> fill_positionCommitment ` set (ms_fills st)"
          using 1 by simp
        then have "fill_positionCommitment (ms_fills st ! k) \<noteq> fill_positionCommitment lf"
          "fill_positionCommitment (ms_fills st ! k) \<noteq> fill_positionCommitment sf"
          using d by auto
        ultimately show ?thesis using 1 r(4) p' by (simp add: st'(2,3) nth_append mget_put_entry)
      next
        case 2
        then have "p' = p" using p' pq(1) by (simp add: st'(2) nth_append)
        with 2 d index r(3) show ?thesis
          by (simp add: st'(2,3) nth_append mget_put_entry) (auto simp: mget_put_entry split: option.splits)
      next
        case 3
        then have "p' = q" using p' pq(3) by (simp add: st'(2) nth_append)
        moreover have "Suc ?k div 2 = length (ms_executions st)" using half by simp
        ultimately show ?thesis using 3 d r(3)
          by (simp add: st'(2,3) nth_append mget_put_entry) (auto simp: mget_put_entry split: option.splits)
      qed
    qed
    ultimately show ?thesis using run by blast
  qed
  moreover have "length (ms_fills st') = 2 * length (ms_executions st')" using half by (simp add: st'(2,3))
  ultimately show ?thesis unfolding recovers_def by blast
qed

text \<open>Every fill has the commitment of its opening at the market's index.\<close>

definition fills_open :: "host \<Rightarrow> int \<Rightarrow> Fill list \<Rightarrow> bool" where
  "fills_open h fundingIndex fills \<longleftrightarrow> (\<forall>k<length fills. \<forall>p e. opens (fills ! k) p \<longrightarrow>
     matchesPosition h p (opening_of fundingIndex e (fills ! k)) k = Inr True)"

lemma fills_open_step:
  assumes "matchStep h i longs shorts st = Inr st'"
    and "fills_open h (mc_fundingIndex (mi_market i)) (ms_fills st)"
  shows "fills_open h (mc_fundingIndex (mi_market i)) (ms_fills st')"
proof (rule matchStep_elim [OF assms(1)], goal_cases)
  case (1 long short sz price fees lf sf long1 short1)
  let ?fi = "mc_fundingIndex (mi_market i)" and ?k = "length (ms_fills st)"
  have lf: "matchesPosition h p (opening_of ?fi e lf) ?k = Inr True" if "opens lf p" for p e
    by (rule matches_entry [OF 1(6) that, of ?fi e]) simp
  have sf: "matchesPosition h p (opening_of ?fi e sf) (?k + 1) = Inr True" if "opens sf p" for p e
    by (rule matches_entry [OF 1(7) that, of ?fi e]) simp
  show ?case
    unfolding fills_open_def
  proof (intro allI impI)
    fix k p e assume k: "k < length (ms_fills st')" and p: "opens (ms_fills st' ! k) p"
    consider "k < ?k" | "k = ?k" | "k = Suc ?k" using k 1(9) by (auto simp: less_Suc_eq)
    then show "matchesPosition h p (opening_of ?fi e (ms_fills st' ! k)) k = Inr True"
      by cases (use assms(2) lf sf p 1(9) in \<open>auto simp: fills_open_def nth_append\<close>)
  qed
qed

lemma matchBook_recovers:
  assumes "matchBook h i = Inr st"
    and "distinct (map pmi_intentCommitment (mi_intents i))" "[] \<notin> set (map pmi_intentCommitment (mi_intents i))"
    and "\<And>x. x \<in> set (mi_intents i) \<Longrightarrow> terms_kept privates x"
  shows "recovers h privates st" "fills_open h (mc_fundingIndex (mi_market i)) (ms_fills st)"
proof -
  obtain orders where o: "toBookOrders (mi_intents i) = Inr orders"
    and loop: "matchLoop h i (book_refs Long compareLongPriority orders)
         (book_refs Short compareShortPriority orders)
         \<lparr>ms_orders = orders, ms_fills = [], ms_executions = [], ms_spent = [],
          ms_longIndex = 0, ms_shortIndex = 0\<rparr> = Inr st"
    using assms(1) by (auto simp: matchBook_def bindE_Inr_iff)
  let ?L = "book_refs Long compareLongPriority orders" and ?S = "book_refs Short compareShortPriority orders"
  let ?st = "\<lparr>ms_orders = orders, ms_fills = [], ms_executions = [], ms_spent = [],
          ms_longIndex = 0, ms_shortIndex = 0\<rparr>"
  let ?P = "\<lambda>st. book_ok i ?L ?S st \<and> recovers h privates st
      \<and> fills_open h (mc_fundingIndex (mi_market i)) (ms_fills st)"
  have "book_ok i ?L ?S ?st" by (rule initial_book_ok [OF o])
  moreover have "recovers h privates ?st"
    using toBookOrders_ok(3) [OF o] by (auto simp: recovers_def tracked_def)
  moreover have "fills_open h (mc_fundingIndex (mi_market i)) (ms_fills ?st)" by (simp add: fills_open_def)
  ultimately have "?P st \<and> \<not> crossing ?L ?S st"
    by (intro matchLoop_induct [OF loop, of ?P])
      (auto intro: book_ok_step recovers_step [OF _ _ _ assms(2-4)] fills_open_step)
  then show "recovers h privates st" "fills_open h (mc_fundingIndex (mi_market i)) (ms_fills st)" by blast+
qed

subsection \<open>Properties\<close>

text \<open>The settlement of a match, in what the reconstruction reads of it.\<close>

definition settlement_of :: "MatchResult \<Rightarrow> BatchSettlement \<Rightarrow> bool" where
  "settlement_of m b \<longleftrightarrow>
     bs_newCommitments b = map fill_positionCommitment (mres_fills m)
     \<and> bs_makerIntents b = map me_makerIntentCommitment (mres_executions m)
     \<and> bs_takerIntents b = map me_takerIntentCommitment (mres_executions m)"

lemma reconstruct_entries:
  assumes m: "batch_match h i = Inr m"
    and keys: "distinct (map pmi_intentCommitment (mi_intents i))" "[] \<notin> set (map pmi_intentCommitment (mi_intents i))"
    and kept: "\<And>x. x \<in> set (mi_intents i) \<Longrightarrow> terms_kept privates x"
    and b: "settlement_of m b" and dist: "distinct (map fill_positionCommitment (mres_fills m))"
    and p: "\<And>f. f \<in> set (mres_fills m) \<Longrightarrow> \<exists>p. mget positions (fill_positionCommitment f) = Some p \<and> opens f p"
  obtains out where "reconstructSettlementOpenings h b positions privates = Inr out"
    "\<And>k p. k < length (mres_fills m) \<Longrightarrow> mget positions (fill_positionCommitment (mres_fills m ! k)) = Some p \<Longrightarrow>
       mget out (fill_positionCommitment (mres_fills m ! k))
         = entry_of h p (mres_executions m ! (k div 2)) (mres_fills m ! k) k"
    "fills_open h (mc_fundingIndex (mi_market i)) (mres_fills m)"
proof -
  obtain st where st: "matchBook h i = Inr st" "mres_fills m = ms_fills st" "mres_executions m = ms_executions st"
    by (rule batch_match_elim [OF m])
  note rec = matchBook_recovers [OF st(1) keys kept]
  have "names_fills b positions (ms_fills st) (ms_executions st)"
    using b dist p by (simp add: names_fills_def settlement_of_def st(2,3))
  then obtain r where "openPairs h b positions privates 0 (map fill_positionCommitment (ms_fills st))
      \<lparr>rc_state = [], rc_out = []\<rparr> = Inr r"
    "\<forall>k<length (ms_fills st). \<forall>p. mget positions (fill_positionCommitment (ms_fills st ! k)) = Some p \<longrightarrow>
       mget (rc_out r) (fill_positionCommitment (ms_fills st ! k))
         = entry_of h p (ms_executions st ! (k div 2)) (ms_fills st ! k) k"
    using rec(1) unfolding recovers_def by blast
  then show ?thesis
    using b rec(2) by (intro that [of "rc_out r"])
      (auto simp: reconstructSettlementOpenings_def settlement_of_def st(2,3))
qed

text \<open>C4: The openings of a batch can be recovered. When the matcher matched a batch of intents with
  different commitments, the settlement lists the position commitments of its fills and the maker and
  taker of every execution, every position record says what its fill says and the market's funding
  index, and the store kept the intents, then the reconstruction returns, for every fill, the size, the
  price, the margin after fees, the fee and the side that the matcher gave it.\<close>
theorem recovery_recovers_batch:
  assumes "batch_match h i = Inr m"
    and "distinct (map pmi_intentCommitment (mi_intents i))" "[] \<notin> set (map pmi_intentCommitment (mi_intents i))"
    and "\<And>x. x \<in> set (mi_intents i) \<Longrightarrow> terms_kept privates x"
    and "settlement_of m b" and "distinct (map fill_positionCommitment (mres_fills m))"
    and "\<And>f. f \<in> set (mres_fills m) \<Longrightarrow> \<exists>p. mget positions (fill_positionCommitment f) = Some p
           \<and> opens f p \<and> recorded_index p = mc_fundingIndex (mi_market i)"
  shows "\<exists>out. reconstructSettlementOpenings h b positions privates = Inr out
    \<and> (\<forall>k<length (mres_fills m). mget out (fill_positionCommitment (mres_fills m ! k))
        = Some (opening_of (mc_fundingIndex (mi_market i)) (mres_executions m ! (k div 2)) (mres_fills m ! k)))"
proof -
  obtain out where out: "reconstructSettlementOpenings h b positions privates = Inr out"
    "\<And>k p. k < length (mres_fills m) \<Longrightarrow> mget positions (fill_positionCommitment (mres_fills m ! k)) = Some p \<Longrightarrow>
       mget out (fill_positionCommitment (mres_fills m ! k))
         = entry_of h p (mres_executions m ! (k div 2)) (mres_fills m ! k) k"
    "fills_open h (mc_fundingIndex (mi_market i)) (mres_fills m)"
    by (rule reconstruct_entries [OF assms(1-6)]) (use assms(7) in blast)+
  have "mget out (fill_positionCommitment (mres_fills m ! k))
      = Some (opening_of (mc_fundingIndex (mi_market i)) (mres_executions m ! (k div 2)) (mres_fills m ! k))"
    if k: "k < length (mres_fills m)" for k
  proof -
    obtain p where "mget positions (fill_positionCommitment (mres_fills m ! k)) = Some p"
      "opens (mres_fills m ! k) p" "recorded_index p = mc_fundingIndex (mi_market i)"
      using assms(7) [OF nth_mem [OF k]] by blast
    with out(2) [OF k] out(3) k show ?thesis by (simp add: fills_open_def entry_of_def)
  qed
  with out(1) show ?thesis by blast
qed

text \<open>C15: Positions that the executor opened in a market with a funding index can be lost: its records
  carry no index, the reconstruction then takes 0, and unless the opening at index 0 has the same
  commitment, it returns nothing for that fill.\<close>
theorem executor_openings_lost:
  assumes "batch_match h i = Inr m"
    and "distinct (map pmi_intentCommitment (mi_intents i))" "[] \<notin> set (map pmi_intentCommitment (mi_intents i))"
    and "\<And>x. x \<in> set (mi_intents i) \<Longrightarrow> terms_kept privates x"
    and "settlement_of m b" and dist: "distinct (map fill_positionCommitment (mres_fills m))"
    and k: "k < length (mres_fills m)"
    and other: "\<And>p. opens (mres_fills m ! k) p \<Longrightarrow>
      matchesPosition h p (opening_of 0 (mres_executions m ! (k div 2)) (mres_fills m ! k)) k \<noteq> Inr True"
  shows "\<exists>out. reconstructSettlementOpenings h b
      (index_by plr_positionCommitment (createPositionOpenings now b (mres_fills m))) privates = Inr out
    \<and> mget out (fill_positionCommitment (mres_fills m ! k)) = None"
proof -
  let ?os = "createPositionOpenings now b (mres_fills m)"
  have d: "distinct (map plr_positionCommitment ?os)" using dist by (simp add: createPositionOpenings_def comp_def)
  have get: "\<exists>p. mget (index_by plr_positionCommitment ?os) (fill_positionCommitment f) = Some p
      \<and> opens f p \<and> recorded_index p = 0" if "f \<in> set (mres_fills m)" for f
  proof -
    have all: "list_all2 (\<lambda>f p. opens f p \<and> recorded_index p = 0) (mres_fills m) ?os"
      by (simp add: createPositionOpenings_def list_all2_map2 list_all2_same opens_def recorded_index_def)
    obtain j where "j < length (mres_fills m)" "mres_fills m ! j = f" using \<open>f \<in> _\<close> by (auto simp: in_set_conv_nth)
    with all obtain p where p: "p \<in> set ?os" "opens f p" "recorded_index p = 0"
      unfolding list_all2_conv_all_nth by (metis nth_mem)
    with index_by_get(1) [OF d p(1)] show ?thesis by (auto simp: opens_def)
  qed
  obtain out where out: "reconstructSettlementOpenings h b (index_by plr_positionCommitment ?os) privates = Inr out"
    "\<And>k p. k < length (mres_fills m) \<Longrightarrow>
       mget (index_by plr_positionCommitment ?os) (fill_positionCommitment (mres_fills m ! k)) = Some p \<Longrightarrow>
       mget out (fill_positionCommitment (mres_fills m ! k))
         = entry_of h p (mres_executions m ! (k div 2)) (mres_fills m ! k) k"
    by (rule reconstruct_entries [OF assms(1-6)]) (use get in blast)+
  obtain p where "mget (index_by plr_positionCommitment ?os) (fill_positionCommitment (mres_fills m ! k)) = Some p"
    "opens (mres_fills m ! k) p" "recorded_index p = 0" using get [OF nth_mem [OF k]] by blast
  with out(2) [OF k] other show ?thesis using out(1) by (auto simp: entry_of_def)
qed

subsection \<open>A recovered and a lost batch\<close>

definition demo_fill_record :: "int option \<Rightarrow> Fill \<Rightarrow> PositionLifecycleRecord" where
  "demo_fill_record idx f = \<lparr>plr_batchId = ''1'', plr_closeCommitment = None, plr_fundingIndex = idx,
     plr_liquidationRewardCommitment = None, plr_marginOutputCommitment = None, plr_marketId = fill_marketId f,
     plr_newPositionCommitment = None, plr_openedAt = 0, plr_ownerCommitment = fill_ownerCommitment f,
     plr_positionCommitment = fill_positionCommitment f, plr_positionIndex = None,
     plr_positionNullifier = fill_positionNullifier f, plr_settlementDigest = ''0xd'',
     plr_sourceIntentCommitment = fill_intentCommitment f, plr_status = PositionOpen, plr_updatedAt = 0\<rparr>"

definition demo_privates :: "(Hex, PrivateMatchIntent) jsmap" where
  "demo_privates = index_by pmi_intentCommitment (mi_intents (demo_funded_batch 0 100000000))"

text \<open>The commitments of the two fills under the concrete hash, whose digests are sums of characters.\<close>

definition demo_commit :: "side \<Rightarrow> int \<Rightarrow> int \<Rightarrow> int \<Rightarrow> int" where
  "demo_commit sd idx rho blinding =
     nr_position_commitment demo_host (sd = Long) 100000000 1000 500 idx 1015 834 rho blinding"

lemma demo_commit_values:
  "demo_commit Long 0 1653 2117 = 4502131886" "demo_commit Short 0 1655 2119 = 4502133931"
  "demo_commit Long 1 1653 2117 = 4502131961" "demo_commit Short 1 1655 2119 = 4502134006"
  by (simp_all add: demo_commit_def nr_position_commitment_def demo_pairF Let_def FIELD_PRIME_def)

lemma demo_intents_distinct:
  "distinct (map pmi_intentCommitment (mi_intents (demo_funded_batch fi 100000000)))"
  "[] \<notin> set (map pmi_intentCommitment (mi_intents (demo_funded_batch fi 100000000)))"
  by (simp_all add: demo_funded_batch_def demo_sized_batch_def demo_private_intent_def)

lemma demo_terms: "x \<in> set (mi_intents (demo_funded_batch fi 100000000)) \<Longrightarrow> terms_kept demo_privates x"
proof -
  assume x: "x \<in> set (mi_intents (demo_funded_batch fi 100000000))"
  then have "mget demo_privates (pmi_intentCommitment x) = Some x"
    unfolding demo_privates_def
    by (intro index_by_get(1)) (simp_all add: demo_funded_batch_def demo_sized_batch_def demo_private_intent_def)
  moreover have "x = x\<lparr>pmi_batchId := pmi_batchId x\<rparr>" by simp
  ultimately show ?thesis unfolding terms_kept_def by blast
qed

lemma demo_matches:
  assumes "fill_marketId f = ''btc''" "fill_ownerCommitment f = ''0x5''" "fill_price f = 1000"
    "fill_margin f = 500" "fill_size f = 100000000" "opens f p"
    and "int (sum_list (map of_char (''rho:'' @ fill_intentCommitment f @ '':position:'' @ nat_str 10 k))) = r"
    and "int (sum_list (map of_char (''blinding:'' @ fill_intentCommitment f @ '':blinding:'' @ nat_str 10 k))) = b"
    and small: "r < 10000" "b < 10000" "0 \<le> r" "0 \<le> b"
    and "matchesPosition demo_host p (opening_of idx e f) k = Inr True"
  shows "fill_positionCommitment f = fieldHex (demo_commit (fill_side f) (field_mod idx) r b)"
proof -
  have dg: "digestToFieldHex demo_host (''market:'' @ fill_marketId f) = Inr (fieldHex 1015)"
    "digestToFieldHex demo_host (''owner:'' @ fill_ownerCommitment f) = Inr (fieldHex 834)"
    unfolding assms(1,2) demo_digest by simp_all
  have dg': "digestToFieldHex demo_host (''rho:'' @ fill_intentCommitment f @ '':position:'' @ nat_str 10 k) = Inr (fieldHex r)"
    "digestToFieldHex demo_host (''blinding:'' @ fill_intentCommitment f @ '':blinding:'' @ nat_str 10 k) = Inr (fieldHex b)"
    unfolding demo_digest assms(7,8) by simp_all
  have mods: "field_mod r = r" "field_mod b = b" using small by (simp_all add: field_mod_small FIELD_PRIME_def)
  have own: "plr_ownerCommitment p = fill_ownerCommitment f" "plr_positionCommitment p = fill_positionCommitment f"
    using assms(6) by (simp_all add: opens_def)
  show ?thesis
    using assms(13)
    unfolding matchesPosition_def opening_of_def Let_def PositionOpeningAccountEventPayload.select_convs own
      append_assoc dg dg' bindE_simps
    by (auto simp: bindE_Inr_iff position_commitment_value assms(3-5) demo_commit_def mods)
qed

lemma createFill_owner: "createFill h i x sz price k d = Inr (f, x') \<Longrightarrow>
    fill_ownerCommitment f = pmi_ownerCommitment (bo_intent x)"
  by (auto simp: createFill_def bindE_Inr_iff Let_def allocateMargin_def)

lemma demo_funded_fills:
  obtains m lf sf e where "batch_match demo_host (demo_funded_batch fi 100000000) = Inr m"
    "mres_fills m = [lf, sf]" "mres_executions m = [e]"
    "\<And>p idx e. opens lf p \<Longrightarrow> matchesPosition demo_host p (opening_of idx e lf) 0 = Inr True \<Longrightarrow>
       fill_positionCommitment lf = fieldHex (demo_commit Long (field_mod idx) 1653 2117)"
    "\<And>p idx e. opens sf p \<Longrightarrow> matchesPosition demo_host p (opening_of idx e sf) 1 = Inr True \<Longrightarrow>
       fill_positionCommitment sf = fieldHex (demo_commit Short (field_mod idx) 1655 2119)"
    "fill_positionCommitment lf = fieldHex (demo_commit Long (field_mod fi) 1653 2117)"
    "fill_positionCommitment sf = fieldHex (demo_commit Short (field_mod fi) 1655 2119)"
    "fill_price sf = 1000" "fill_size sf = 100000000" "fill_side sf = Short" "fill_margin sf = 500"
proof (rule demo_funded_match [of fi], goal_cases)
  case (1 m lf sf x y fees)
  note lf = createFill_order [OF 1(5)] createFill_owner [OF 1(5)]
    and sf = createFill_order [OF 1(6)] createFill_owner [OF 1(6)]
  have fi: "mc_fundingIndex (mi_market (demo_funded_batch fi 100000000)) = fi"
    by (simp add: demo_funded_batch_def)
  have lf': "fill_marketId lf = ''btc''" "fill_ownerCommitment lf = ''0x5''" "fill_price lf = 1000"
      "fill_size lf = 100000000" "fill_side lf = Long" "fill_intentCommitment lf = ''0x1''"
    and sf': "fill_marketId sf = ''btc''" "fill_ownerCommitment sf = ''0x5''" "fill_price sf = 1000"
      "fill_size sf = 100000000" "fill_side sf = Short" "fill_intentCommitment sf = ''0x2''"
    using lf sf by (simp_all add: demo_order_def demo_private_intent_def)
  have sums: "int (sum_list (map of_char (''rho:'' @ ''0x1'' @ '':position:'' @ nat_str 10 0))) = 1653"
    "int (sum_list (map of_char (''blinding:'' @ ''0x1'' @ '':blinding:'' @ nat_str 10 0))) = 2117"
    "int (sum_list (map of_char (''rho:'' @ ''0x2'' @ '':position:'' @ nat_str 10 1))) = 1655"
    "int (sum_list (map of_char (''blinding:'' @ ''0x2'' @ '':blinding:'' @ nat_str 10 1))) = 2119"
    by (simp_all add: nat_str.simps digit_char_def)
  have l: "fill_positionCommitment lf = fieldHex (demo_commit Long (field_mod idx) 1653 2117)"
    if "opens lf p" "matchesPosition demo_host p (opening_of idx e lf) 0 = Inr True" for p idx e
    using demo_matches [OF lf'(1-3) 1(7) lf'(4) that(1) sums(1,2) [folded lf'(6)] _ _ _ _ that(2)]
    by (simp add: lf'(5))
  have s: "fill_positionCommitment sf = fieldHex (demo_commit Short (field_mod idx) 1655 2119)"
    if "opens sf p" "matchesPosition demo_host p (opening_of idx e sf) 1 = Inr True" for p idx e
    using demo_matches [OF sf'(1-3) 1(8) sf'(4) that(1) sums(3,4) [folded sf'(6)] _ _ _ _ that(2)]
    by (simp add: sf'(5))
  have rec: "opens f (demo_fill_record None f)" for f by (simp add: opens_def demo_fill_record_def)
  have ml: "matchesPosition demo_host (demo_fill_record None lf) (opening_of fi e lf) 0 = Inr True" for e
    by (rule matches_entry [OF 1(5) rec, of fi e]) (simp add: fi)
  have ms: "matchesPosition demo_host (demo_fill_record None sf) (opening_of fi e sf) 1 = Inr True" for e
    by (rule matches_entry [OF 1(6) rec, of fi e]) (simp add: fi)
  show ?case by (rule 1(1) [OF 1(2-4) l s l [OF rec ml] s [OF rec ms] sf'(3-5) 1(8)])
qed

text \<open>A batch at index 0 is recovered.\<close>

theorem recovery_recovers_batch_witness:
  "\<exists>m b positions out. batch_match demo_host (demo_funded_batch 0 100000000) = Inr m \<and> settlement_of m b
    \<and> length (mres_fills m) = 2
    \<and> reconstructSettlementOpenings demo_host b positions demo_privates = Inr out
    \<and> mget out (fill_positionCommitment (mres_fills m ! 1))
        = Some (opening_of 0 (mres_executions m ! 0) (mres_fills m ! 1))"
proof (rule demo_funded_fills [of 0], goal_cases)
  case (1 m lf sf e)
  let ?b = "demo_settlement\<lparr>bs_newCommitments := map fill_positionCommitment (mres_fills m),
    bs_makerIntents := map me_makerIntentCommitment (mres_executions m),
    bs_takerIntents := map me_takerIntentCommitment (mres_executions m)\<rparr>"
  let ?ps = "map_new (map (\<lambda>f. (fill_positionCommitment f, demo_fill_record None f)) (mres_fills m))"
  have b: "settlement_of m ?b" by (simp add: settlement_of_def)
  have neq: "fill_positionCommitment lf \<noteq> fill_positionCommitment sf"
    unfolding 1(6,7) fieldHex_eq_iff by (simp add: demo_commit_values)
  have ps: "\<exists>p. mget ?ps (fill_positionCommitment f) = Some p \<and> opens f p
      \<and> recorded_index p = mc_fundingIndex (mi_market (demo_funded_batch 0 100000000))" if "f \<in> set (mres_fills m)" for f
    using that neq 1(2)
    by (auto simp: map_new_def opens_def demo_fill_record_def recorded_index_def demo_sized_batch_def demo_market_def)
  have d: "distinct (map fill_positionCommitment (mres_fills m))" and len: "length (mres_fills m) = 2"
    using neq 1(2) by simp_all
  obtain out where out: "reconstructSettlementOpenings demo_host ?b ?ps demo_privates = Inr out"
    "\<forall>k<length (mres_fills m). mget out (fill_positionCommitment (mres_fills m ! k))
      = Some (opening_of (mc_fundingIndex (mi_market (demo_funded_batch 0 100000000)))
          (mres_executions m ! (k div 2)) (mres_fills m ! k))"
    using recovery_recovers_batch [where privates = demo_privates, OF 1(1) demo_intents_distinct _ b d ps] demo_terms
    by blast
  have "mget out (fill_positionCommitment (mres_fills m ! 1))
      = Some (opening_of 0 (mres_executions m ! 0) (mres_fills m ! 1))"
    using out(2) len by (simp add: demo_sized_batch_def demo_market_def)
  with out(1) 1(1) b len show ?case by (intro exI conjI)
qed

text \<open>The same batch at index 1 is lost by the executor's records.\<close>

theorem executor_openings_lost_witness:
  "\<exists>m b out. batch_match demo_host (demo_funded_batch 1 100000000) = Inr m \<and> settlement_of m b
    \<and> reconstructSettlementOpenings demo_host b
        (index_by plr_positionCommitment (createPositionOpenings 5 b (mres_fills m))) demo_privates = Inr out
    \<and> mget out (fill_positionCommitment (mres_fills m ! 0)) = None"
proof (rule demo_funded_fills [of 1], goal_cases)
  case (1 m lf sf e)
  let ?b = "demo_settlement\<lparr>bs_newCommitments := map fill_positionCommitment (mres_fills m),
    bs_makerIntents := map me_makerIntentCommitment (mres_executions m),
    bs_takerIntents := map me_takerIntentCommitment (mres_executions m)\<rparr>"
  have b: "settlement_of m ?b" by (simp add: settlement_of_def)
  have neq: "fill_positionCommitment lf \<noteq> fill_positionCommitment sf"
    unfolding 1(6,7) fieldHex_eq_iff by (simp add: demo_commit_values)
  have other: "matchesPosition demo_host p (opening_of 0 (mres_executions m ! (0 div 2)) (mres_fills m ! 0)) 0 \<noteq> Inr True"
    if "opens (mres_fills m ! 0) p" for p
  proof
    assume "matchesPosition demo_host p (opening_of 0 (mres_executions m ! (0 div 2)) (mres_fills m ! 0)) 0 = Inr True"
    with 1(2,4) that have "fill_positionCommitment lf = fieldHex (demo_commit Long (field_mod 0) 1653 2117)" by simp
    with 1(6) show False by (simp add: fieldHex_eq_iff demo_commit_values)
  qed
  have d: "distinct (map fill_positionCommitment (mres_fills m))" and k: "0 < length (mres_fills m)"
    using neq 1(2) by simp_all
  obtain out where "reconstructSettlementOpenings demo_host ?b
        (index_by plr_positionCommitment (createPositionOpenings 5 ?b (mres_fills m))) demo_privates = Inr out"
      "mget out (fill_positionCommitment (mres_fills m ! 0)) = None"
    using executor_openings_lost [where privates = demo_privates and now = 5,
        OF 1(1) demo_intents_distinct _ b d k other] demo_terms
    by blast
  with 1(1) b show ?case by (intro exI conjI)
qed

end
