(* ===== verification/Account_Properties.thy ===== *)
theory Account_Properties
  imports Account_Recovery
begin

text \<open>
  The account services over the store: what a recovery returns for an owner, event by event, and
  what the key calls do to the store. Every call makes store steps only, so the store's invariants hold
  after it.
\<close>

subsection \<open>Lemmas: what is recovered opens its position\<close>

text \<open>The position at an index of the settlement, with an opening of its terms that has its commitment.\<close>

definition opens_at :: "host \<Rightarrow> Hex list \<Rightarrow> (Hex, PositionLifecycleRecord) jsmap \<Rightarrow> Hex
    \<Rightarrow> PositionOpeningAccountEventPayload \<Rightarrow> PositionLifecycleRecord \<Rightarrow> nat \<Rightarrow> bool" where
  "opens_at h cs positions c payload p k \<longleftrightarrow> (\<exists>d. item cs k = Some d \<and> mget positions d = Some p)
     \<and> plr_positionCommitment p = c
     \<and> pop_marketId payload = plr_marketId p
     \<and> pop_sourceIntentCommitment payload = plr_sourceIntentCommitment p
     \<and> matchesPosition h p payload k = Inr True"

definition opened_by :: "host \<Rightarrow> Hex list \<Rightarrow> (Hex, PositionLifecycleRecord) jsmap \<Rightarrow> openings \<Rightarrow> bool" where
  "opened_by h cs positions out \<longleftrightarrow>
     (\<forall>c payload. mget out c = Some payload \<longrightarrow> (\<exists>p k. opens_at h cs positions c payload p k))"

lemma addIfValid_opened:
  assumes "addIfValid h p payload k out = Inr out'" "opened_by h cs positions out"
    and "matchesPosition h p payload k = Inr True \<Longrightarrow> opens_at h cs positions (plr_positionCommitment p) payload p k"
  shows "opened_by h cs positions out'"
proof -
  obtain ok where ok: "matchesPosition h p payload k = Inr ok"
      "out' = (if ok then mset_at (plr_positionCommitment p) payload out else out)"
    using assms(1) by (auto simp: addIfValid_def bindE_Inr_iff)
  then show ?thesis using assms(2,3) by (auto simp: opened_by_def)
qed

lemma openBoth_opened:
  assumes "openBoth h b k p q l r st = Inr st'" "opened_by h cs positions (rc_out st)"
    and "item cs k = Some c" "mget positions c = Some p" "item cs (k + 1) = Some d" "mget positions d = Some q"
  shows "opened_by h cs positions (rc_out st')"
proof -
  consider "st' = st" | x y out where "addIfValid h p x k (rc_out st) = Inr out"
      "addIfValid h q y (k + 1) out = Inr (rc_out st')" "pop_marketId x = plr_marketId p"
      "pop_sourceIntentCommitment x = plr_sourceIntentCommitment p" "pop_marketId y = plr_marketId q"
      "pop_sourceIntentCommitment y = plr_sourceIntentCommitment q"
    using assms(1) by (auto simp: openBoth_def Let_def bindE_Inr_iff recoveredPayload_def split: if_splits)
  then show ?thesis
  proof cases
    case 2
    have "opened_by h cs positions out"
      by (rule addIfValid_opened [OF 2(1) assms(2)]) (use 2 assms(3,4) in \<open>auto simp: opens_at_def\<close>)
    from addIfValid_opened [OF 2(2) this] show ?thesis using 2 assms(5,6) by (auto simp: opens_at_def)
  qed (use assms(2) in simp)
qed

lemma openPair_opened:
  assumes "openPair h b positions privates k c d st = Inr st'" "opened_by h cs positions (rc_out st)"
    and "item cs k = Some c" "item cs (k + 1) = Some d"
  shows "opened_by h cs positions (rc_out st')"
  using assms
  by (auto simp: openPair_def Let_def split: option.splits prod.splits if_splits intro: openBoth_opened)

lemma item_drop_pair:
  assumes "drop k cs = c # d # rest"
  shows "item cs k = Some c" "item cs (k + 1) = Some d" "drop (k + 2) cs = rest"
proof -
  have len: "k < length cs" using assms by (metis drop_all linorder_not_le list.distinct(1))
  then have at: "cs = take k cs @ c # d # rest" "length (take k cs) = k"
    using append_take_drop_id [of k cs] assms by simp_all
  show "item cs k = Some c" by (subst at(1)) (use at(2) in \<open>simp add: item_def nth_append\<close>)
  show "item cs (k + 1) = Some d" by (subst at(1)) (use at(2) in \<open>simp add: item_def nth_append\<close>)
  show "drop (k + 2) cs = rest" by (subst at(1)) (use at(2) in \<open>simp add: drop_append\<close>)
qed

lemma openPairs_opened:
  "openPairs h b positions privates k rest st = Inr st' \<Longrightarrow> drop k cs = rest \<Longrightarrow>
     opened_by h cs positions (rc_out st) \<Longrightarrow> opened_by h cs positions (rc_out st')"
proof (induction h b positions privates k rest st rule: openPairs.induct)
  case (1 h b positions privates k c d rest st)
  obtain u where u: "openPair h b positions privates k c d st = Inr u"
      "openPairs h b positions privates (k + 2) rest u = Inr st'"
    using 1(2) by (auto simp: bindE_Inr_iff)
  have at: "item cs k = Some c" "item cs (k + 1) = Some d" "drop (k + 2) cs = rest"
    by (simp_all only: item_drop_pair [OF 1(3)])
  show ?case by (rule 1(1) [OF u(2) at(3) openPair_opened [OF u(1) 1(4) at(1,2)]])
qed simp_all

lemma reconstruct_opened:
  "reconstructSettlementOpenings h b positions privates = Inr out \<Longrightarrow> opened_by h (bs_newCommitments b) positions out"
  by (auto simp: reconstructSettlementOpenings_def bindE_Inr_iff opened_by_def [of _ _ _ "[]"]
      elim!: openPairs_opened)

subsection \<open>Lemmas: the loops over the positions\<close>

text \<open>The events are those of some of the positions, the others are skipped, each position once.\<close>

definition recovered_event :: "host \<Rightarrow> (AccountEventPayload \<Rightarrow> string \<Rightarrow> string result) \<Rightarrow> string
    \<Rightarrow> PositionLifecycleRecord \<Rightarrow> AccountEventRecord \<Rightarrow> bool" where
  "recovered_event h encrypt publicKey p event \<longleftrightarrow> (\<exists>payload k.
     matchesPosition h p payload k = Inr True
     \<and> createPositionOpeningAccountEvent h encrypt p payload (Some publicKey) None = Inr event)"

definition accounts_for :: "host \<Rightarrow> (AccountEventPayload \<Rightarrow> string \<Rightarrow> string result) \<Rightarrow> string
    \<Rightarrow> PositionLifecycleRecord multiset \<Rightarrow> AccountKeyRecovery \<Rightarrow> bool" where
  "accounts_for h encrypt publicKey ps r \<longleftrightarrow> (\<exists>opened missing.
     mset opened + mset missing = ps
     \<and> list_all2 (recovered_event h encrypt publicKey) opened (akr_events r)
     \<and> map rsk_positionCommitment (akr_skipped r) = map plr_positionCommitment missing)"

lemma accounts_skip:
  "accounts_for h encrypt publicKey ps r \<Longrightarrow>
     accounts_for h encrypt publicKey (add_mset p ps) (skip_position reason p r)"
  unfolding accounts_for_def skip_position_def
  by (elim exE conjE, rename_tac opened missing, rule_tac x = opened in exI,
      rule_tac x = "missing @ [p]" in exI) simp

lemma accounts_skips:
  "accounts_for h encrypt publicKey ps r \<Longrightarrow>
     accounts_for h encrypt publicKey (ps + mset qs) (fold (skip_position reason) qs r)"
proof (induction qs arbitrary: ps r)
  case (Cons q qs)
  from Cons.IH [OF accounts_skip [OF Cons.prems]] show ?case by simp
qed simp

lemma accounts_event:
  assumes "accounts_for h encrypt publicKey ps r" "recovered_event h encrypt publicKey p event"
  shows "accounts_for h encrypt publicKey (add_mset p ps) (r\<lparr>akr_events := akr_events r @ [event]\<rparr>)"
proof -
  obtain opened missing where "mset opened + mset missing = ps"
     "list_all2 (recovered_event h encrypt publicKey) opened (akr_events r)"
     "map rsk_positionCommitment (akr_skipped r) = map plr_positionCommitment missing"
    using assms(1) by (auto simp: accounts_for_def)
  with assms(2) show ?thesis
    unfolding accounts_for_def
    by (intro exI [of _ "opened @ [p]"] exI [of _ missing]) (auto simp: list_all2_appendI)
qed

text \<open>The map of the positions has one record per commitment, that of the store.\<close>

lemma recoverPositions_accounts:
  assumes "recoverPositions h encrypt publicKey out qs r = Inr r'" "accounts_for h encrypt publicKey ps r"
    and "opened_by h cs positions out"
    and "\<And>p q. p \<in> set (mvalues positions) \<Longrightarrow> q \<in> set qs \<Longrightarrow>
      plr_positionCommitment p = plr_positionCommitment q \<Longrightarrow> p = q"
  shows "accounts_for h encrypt publicKey (ps + mset qs) r'"
  using assms
proof (induction qs arbitrary: r ps)
  case (Cons q qs)
  show ?case
  proof (cases "mget out (plr_positionCommitment q)")
    case None
    with Cons.prems(1) have "recoverPositions h encrypt publicKey out qs
        (skip_position ''opening payload could not be reconstructed'' q r) = Inr r'" by simp
    from Cons.IH [OF this accounts_skip [OF Cons.prems(2)] Cons.prems(3)] Cons.prems(4)
    show ?thesis by simp
  next
    case (Some payload)
    then obtain event where e: "createPositionOpeningAccountEvent h encrypt q payload (Some publicKey) None = Inr event"
        "recoverPositions h encrypt publicKey out qs (r\<lparr>akr_events := akr_events r @ [event]\<rparr>) = Inr r'"
      using Cons.prems(1) by (auto simp: bindE_Inr_iff)
    obtain p k where p: "p \<in> set (mvalues positions)" "plr_positionCommitment p = plr_positionCommitment q"
        "matchesPosition h p payload k = Inr True"
      using Some Cons.prems(3) unfolding opened_by_def opens_at_def by (blast dest: mget_mvalues)
    have "p = q" by (rule Cons.prems(4) [OF p(1) _ p(2)]) simp
    with p e(1) have "recovered_event h encrypt publicKey q event" by (auto simp: recovered_event_def)
    from Cons.IH [OF e(2) accounts_event [OF Cons.prems(2) this] Cons.prems(3)] Cons.prems(4)
    show ?thesis by simp
  qed
qed simp

lemma recoverGroups_accounts:
  assumes "recoverGroups h encrypt publicKey settlements positions privates groups r = Inr r'"
    and "accounts_for h encrypt publicKey ps r"
    and "\<And>p q. p \<in> set (mvalues positions) \<Longrightarrow> q \<in> set (concat (map snd groups)) \<Longrightarrow>
      plr_positionCommitment p = plr_positionCommitment q \<Longrightarrow> p = q"
  shows "accounts_for h encrypt publicKey (ps + mset (concat (map snd groups))) r'"
  using assms
proof (induction groups arbitrary: r ps)
  case (Cons g groups)
  obtain digest qs where g: "g = (digest, qs)" by fastforce
  show ?case
  proof (cases "mget settlements digest")
    case None
    with Cons.prems(1) g have "recoverGroups h encrypt publicKey settlements positions privates groups
        (fold (skip_position ''missing settlement'') qs r) = Inr r'" by simp
    from Cons.IH [OF this accounts_skips [OF Cons.prems(2)]] Cons.prems(3)
    show ?thesis by (simp add: g add.assoc)
  next
    case (Some settlement)
    then obtain out r1 where out: "reconstructSettlementOpenings h settlement positions privates = Inr out"
        "recoverPositions h encrypt publicKey out qs r = Inr r1"
        "recoverGroups h encrypt publicKey settlements positions privates groups r1 = Inr r'"
      using Cons.prems(1) by (auto simp: g bindE_Inr_iff)
    have "accounts_for h encrypt publicKey (ps + mset qs) r1"
      by (rule recoverPositions_accounts [OF out(2) Cons.prems(2) reconstruct_opened [OF out(1)]])
        (use Cons.prems(3) g in auto)
    from Cons.IH [OF out(3) this] Cons.prems(3) show ?thesis by (simp add: g add.assoc)
  qed
qed simp

lemma groupBy_mset: "mset (concat (map snd (groupBy key xs))) = mset xs"
proof -
  have put: "mset (concat (map snd (mset_at k (or_empty (mget m k) @ [x]) m))) = add_mset x (mset (concat (map snd m)))"
    for k x and m :: "('b \<times> 'a list) list"
    by (induction m) (auto simp: mset_at_def mget_def or_empty_def split: option.splits)
  have "mset (concat (map snd (fold (\<lambda>v groups. mset_at (key v) (or_empty (mget groups (key v)) @ [v]) groups) xs m)))
      = mset (concat (map snd m)) + mset xs" for m
    by (induction xs arbitrary: m) (auto simp: put)
  then show ?thesis by (simp add: groupBy_def)
qed

lemma index_by_values: "p \<in> set (mvalues (index_by key xs)) \<Longrightarrow> p \<in> set xs"
proof -
  have "p \<in> set (mvalues (fold (\<lambda>(k, v). mset_at k v) (map (\<lambda>x. (key x, x)) xs) m)) \<Longrightarrow>
      p \<in> set xs \<or> p \<in> set (mvalues m)" for m
    by (induction xs arbitrary: m) (auto dest: in_mvalues_set)
  from this [of "[]"] show "p \<in> set (mvalues (index_by key xs)) \<Longrightarrow> p \<in> set xs"
    by (simp add: index_by_def map_new_def mvalues_def)
qed

lemma position_determined:
  assumes "reachable h s" "p \<in> set (mvalues (st_positionLifecycle s))" "q \<in> set (mvalues (st_positionLifecycle s))"
    and "plr_positionCommitment p = plr_positionCommitment q"
  shows "p = q"
proof -
  have l: "linked s"
    by (rule reachable_invariant [OF assms(1)]) (auto simp: sound_new [unfolded sound_def] intro: linked_step)
  then have "map_ok (st_positionLifecycle s)" by (simp add: linked_def)
  then have "mget (st_positionLifecycle s) (plr_positionCommitment x) = Some x"
    if "x \<in> set (mvalues (st_positionLifecycle s))" for x
    using that l by (auto simp: in_mvalues mget_iff_in linked_def)
  with assms(2-4) show ?thesis by (metis option.inject)
qed

subsection \<open>Properties\<close>

text \<open>C31: A recovery accounts for every open position of the owner, once each: it either sends an event,
  encrypted for the new key and bound to the position, whose opening has the position's commitment and
  nullifier, or it lists the position's commitment as skipped. Nothing else is sent or listed.\<close>
theorem recovery_accounts_for_all:
  assumes "reachable h s" and "recoverPositionOpeningEventsForOwner h encrypt s owner publicKey = Inr r"
  shows "\<exists>opened missing.
    mset opened + mset missing = mset (filter (\<lambda>p. plr_ownerCommitment p = owner \<and> plr_status p = PositionOpen)
      (mvalues (st_positionLifecycle s)))
    \<and> list_all2 (\<lambda>p event. \<exists>payload k. matchesPosition h p payload k = Inr True
        \<and> createPositionOpeningAccountEvent h encrypt p payload (Some publicKey) None = Inr event)
        opened (akr_events r)
    \<and> map rsk_positionCommitment (akr_skipped r) = map plr_positionCommitment missing"
proof -
  let ?open = "filter (\<lambda>p. plr_status p = PositionOpen) (positionsFor h owner s)"
  let ?groups = "groupBy plr_settlementDigest ?open"
  have groups: "mset (concat (map snd ?groups)) = mset ?open" by (rule groupBy_mset)
  have mine: "mset ?open = mset (filter (\<lambda>p. plr_ownerCommitment p = owner \<and> plr_status p = PositionOpen)
      (mvalues (st_positionLifecycle s)))"
    by (simp add: positionsFor_def filter_filter_mset conj_commute)
  have "accounts_for h encrypt publicKey ({#} + mset (concat (map snd ?groups))) r"
  proof (rule recoverGroups_accounts [OF assms(2) [unfolded recoverPositionOpeningEventsForOwner_def Let_def]])
    show "accounts_for h encrypt publicKey {#} \<lparr>akr_events = [], akr_skipped = []\<rparr>" by (simp add: accounts_for_def)
  next
    fix p q assume p: "p \<in> set (mvalues (index_by plr_positionCommitment (mvalues (st_positionLifecycle s))))"
      and q: "q \<in> set (concat (map snd ?groups))" and c: "plr_positionCommitment p = plr_positionCommitment q"
    have "q \<in> set ?open" using q mset_eq_setD [OF groups] by blast
    then have "q \<in> set (mvalues (st_positionLifecycle s))" by (auto simp: positionsFor_def)
    then show "p = q" by (rule position_determined [OF assms(1) index_by_values [OF p] _ c])
  qed
  then show ?thesis unfolding groups mine accounts_for_def recovered_event_def by simp
qed

definition demo_open_store :: ProtocolStore where
  "demo_open_store = snd (addPositionOpening demo_opening
     (snd (addSettlement demo_host 0 0 demo_settlement [] [] [] [] demo_proved_store)))"

lemma demo_settled:
  defines "t \<equiv> snd (addSettlement demo_host 0 0 demo_settlement [] [] [] [] demo_proved_store)"
  shows "st_positionLifecycle t = []" "st_positionCommitments t = [''0x11'', ''0x12'']"
    "mvalues (st_settlements t) = [demo_settlement]"
  by (simp_all add: t_def addSettlement_run applySettlement_def js_simps settlement_leaves_def stepsA.simps(2)
      demo_proved_store_eq demo_settlement_def new_ProtocolStore_def hasProof_def validatePositionOpenings_def
      validateResidualOrders_def spend_run Let_def applySettlementOrderUpdates_def mset_at_def
      mvalues_def sadd_def)

theorem recovery_accounts_for_all_witness:
  "\<exists>opened missing. mset opened + mset missing = {#demo_opening#} \<and> length opened = 0
    \<and> map plr_positionCommitment missing = [''0x12'']"
proof -
  have key: "plr_positionCommitment demo_opening = ''0x12''" "plr_status demo_opening = PositionOpen"
    "plr_ownerCommitment demo_opening = ''0x30''" "plr_settlementDigest demo_opening = ''0x21''"
    by (simp_all add: demo_opening_def)
  have s: "st_positionLifecycle demo_open_store = [(''0x12'', demo_opening)]"
    "mvalues (st_settlements demo_open_store) = [demo_settlement]"
    unfolding demo_open_store_def addPositionOpening_def
    by (simp_all add: js_simps demo_settled key mset_at_def)
  have pos: "positionsFor demo_host ''0x30'' demo_open_store = [demo_opening]"
    unfolding positionsFor_def s by (simp add: key mvalues_def)
  have none: "reconstructSettlementOpenings demo_host demo_settlement
      (index_by plr_positionCommitment [demo_opening]) privates = Inr []" for privates
    by (simp add: reconstructSettlementOpenings_def demo_settlement_def openPair_def index_by_def map_new_def
        mset_at_def mget_def key)
  have digest: "mget (index_by bs_settlementDigest [demo_settlement]) ''0x21'' = Some demo_settlement"
    by (simp add: index_by_def map_new_def mset_at_def mget_def demo_settlement_def)
  have run: "recoverPositionOpeningEventsForOwner demo_host (\<lambda>_ _. Inr ''c'') demo_open_store ''0x30'' ''key''
      = Inr \<lparr>akr_events = [], akr_skipped = [\<lparr>rsk_positionCommitment = ''0x12'',
           rsk_reason = ''opening payload could not be reconstructed''\<rparr>]\<rparr>"
    unfolding recoverPositionOpeningEventsForOwner_def pos s
    by (simp add: groupBy_def key mset_at_def or_empty_def mvalues_def digest none skip_position_def)
  have "reachable demo_host demo_proved_store"
    unfolding demo_proved_store_def by (rule reachable.step [OF reachable.start store_step.record_proof])
  then have "reachable demo_host demo_open_store"
    unfolding demo_open_store_def
    by (intro reachable.step [OF _ store_step.add_opening] reachable.step [OF _ store_step.add_settlement])
  from recovery_accounts_for_all [OF this run] show ?thesis
    unfolding s by (auto simp: mvalues_def key)
qed

subsection \<open>The key calls\<close>

lemma store_call_state: "ex_store (snd (store_call m e)) = snd (m (ex_store e))"
  by (simp add: store_call_def split: prod.split)

lemma sound_store_call: "(\<And>s. store_step h s (snd (m s))) \<Longrightarrow> keeps (\<lambda>e. sound (ex_store e)) (store_call m)"
  by (auto simp: keeps_def store_call_state intro: sound_step)

text \<open>The account calls keep the invariants of the store, whether they return or throw.\<close>
theorem account_keys_keep_store:
  assumes "sound (ex_store e)"
  shows "sound (ex_store (snd (accountKeys_upsert h now input authenticated e)))
    \<and> sound (ex_store (snd (accountKeys_recover h encrypt now input authenticated e)))"
proof -
  let ?P = "\<lambda>e. sound (ex_store e)"
  have key: "keeps ?P (store_call (upsertAccountEncryptionKey k))" for k
    by (rule sound_store_call [where h = h]) (rule store_step.upsert_key)
  have event: "keeps ?P (store_call (addAccountEvent ev))" for ev
    by (rule sound_store_call [where h = h]) (rule store_step.add_event)
  have upsert: "keeps ?P (accountKeys_upsert h now input authenticated)"
    unfolding accountKeys_upsert_def Let_def by (auto intro!: keeps_seq keeps_bind key)
  have recover: "keeps ?P (accountKeys_recover h encrypt now input authenticated)"
    unfolding accountKeys_recover_def by (auto intro!: keeps_seq keeps_bind keeps_each key event)
  show ?thesis using keepsD [OF upsert, of e] keepsD [OF recover, of e] assms by simp
qed

theorem account_keys_keep_store_witness:
  "sound (ex_store (snd (accountKeys_recover demo_host (\<lambda>_ _. Inr ''c'') 5
     \<lparr>uak_ownerCommitment = ''0x30'', uak_publicKey = ''key''\<rparr> None (new_ExecutorService new_ProtocolStore))))"
  using account_keys_keep_store [of "new_ExecutorService new_ProtocolStore"]
  by (simp add: new_ExecutorService_def sound_new)

text \<open>\<open>upsert\<close> never replaces a registered key: whatever it is called with, an owner who has a key has
  the same public key and the same time of registration afterwards.\<close>
theorem key_registered_once:
  assumes "accountEncryptionKey c (ex_store e) = Some k"
  shows "\<exists>k'. accountEncryptionKey c (ex_store (snd (accountKeys_upsert h now input authenticated e))) = Some k'
    \<and> aek_publicKey k' = aek_publicKey k \<and> aek_createdAt k' = aek_createdAt k"
proof -
  let ?owner = "uak_ownerCommitment input"
  let ?known = "accountEncryptionKey ?owner (ex_store e)"
  let ?entry = "accountKeyRecord now input ?known"
  let ?conflict = "case ?known of Some k \<Rightarrow> aek_publicKey k \<noteq> uak_publicKey input | None \<Rightarrow> False"
  have run: "accountKeys_upsert h now input authenticated e =
     (case assertAuthenticatedOwnerCommitment h authenticated (Some ?owner) ''ownerCommitment'' of
        Inl err \<Rightarrow> (Inl err, e)
      | Inr _ \<Rightarrow> if ?conflict then (Inl ''account encryption key is already registered for this owner'', e)
               else (Inr ?entry, e\<lparr>ex_store := snd (upsertAccountEncryptionKey ?entry (ex_store e))\<rparr>))"
    by (simp only: accountKeys_upsert_def seqA_def bindA_def liftA_def throwA_def returnA_def Let_def
        store_call_def upsertAccountEncryptionKey_def modifyA_def prod.case sum.case snd_conv
        if_distrib [of "\<lambda>m. m e"] split: sum.split if_split)
  consider "ex_store (snd (accountKeys_upsert h now input authenticated e)) = ex_store e"
    | "\<not> ?conflict" "ex_store (snd (accountKeys_upsert h now input authenticated e))
        = snd (upsertAccountEncryptionKey ?entry (ex_store e))"
    unfolding run
    by (cases "assertAuthenticatedOwnerCommitment h authenticated (Some ?owner) ''ownerCommitment''"; cases "?conflict")
      simp_all
  then show ?thesis
  proof cases
    case 2
    with assms show ?thesis
      by (cases "c = ?owner") (auto simp: upsertAccountEncryptionKey_def modifyA_def accountEncryptionKey_def
          accountKeyRecord_def)
  qed (use assms in simp)
qed

theorem key_registered_once_witness:
  "\<exists>k'. accountEncryptionKey ''0x30'' (ex_store (snd (accountKeys_upsert demo_host 5
       \<lparr>uak_ownerCommitment = ''0x30'', uak_publicKey = ''other''\<rparr> None
       (new_ExecutorService (new_ProtocolStore\<lparr>st_accountEncryptionKeys :=
         [(''0x30'', \<lparr>aek_createdAt = 1, aek_ownerCommitment = ''0x30'', aek_publicKey = ''key'',
            aek_updatedAt = 1\<rparr>)]\<rparr>))))) = Some k'
     \<and> aek_publicKey k' = ''key'' \<and> aek_createdAt k' = 1"
  by (rule key_registered_once [where k = "\<lparr>aek_createdAt = 1, aek_ownerCommitment = ''0x30'',
        aek_publicKey = ''key'', aek_updatedAt = 1\<rparr>", simplified])
    (simp add: accountEncryptionKey_def new_ExecutorService_def mget_def)

end
