(* ===== verification/Vault_Backing.thy ===== *)
theory Vault_Backing
  imports Account_Recovery
begin

text \<open>
  \<^verbatim>\<open>shared/vault-maker-backing.ts\<close> and the pairing of \<^verbatim>\<open>position-closes/vault-maker-pair.ts\<close>: which
  notes of the market maker may be quoted against the principal that the vault deployed, and which
  note and allocation stand behind a maker position that a trader closes. Notes and allocations are documents
  of the database; the functions here are pure and the model has all of them. A note is traced to the
  allocation over the notes it was split from; both loops stop because they refuse a commitment twice.
\<close>

subsection \<open>Stored notes and allocations\<close>

text \<open>\<open>Record<string, string | number | undefined>\<close>: an absent field is undefined.\<close>

datatype note_value = NoteStr string | NoteNum int

type_synonym StoredMakerNote = "(string, note_value) jsmap"

definition note_truthy :: "note_value option \<Rightarrow> bool" where
  "note_truthy v = (case v of None \<Rightarrow> False | Some (NoteStr s) \<Rightarrow> s \<noteq> [] | Some (NoteNum n) \<Rightarrow> n \<noteq> 0)"

text \<open>\<open>String(v)\<close>; \<open>BigInt(String(note.amount))\<close>.\<close>

definition note_string :: "note_value option \<Rightarrow> string" where
  "note_string v = (case v of None \<Rightarrow> ''undefined'' | Some (NoteStr s) \<Rightarrow> s | Some (NoteNum n) \<Rightarrow> int_str n)"

definition is_string :: "note_value option \<Rightarrow> bool" where
  "is_string v = (case v of Some (NoteStr _) \<Rightarrow> True | _ \<Rightarrow> False)"

definition note_amount :: "StoredMakerNote \<Rightarrow> int result" where
  "note_amount note = bigint_of_string (note_string (mget note ''amount''))"

datatype AllocationStatus = Outstanding | Draining | AllocationClosed

record VaultMakerAllocation =
  va_id :: string
  va_allocationLedger :: int
  va_allocationTxHash :: string
  va_amount :: string
  va_asset :: string
  va_maker :: string
  va_noteCommitments :: "string list"
  va_remainingPrincipal :: "string option"
  va_registeredAmount :: string
  va_series :: int
  va_status :: AllocationStatus
  va_vault :: string

definition isSafeInteger :: "int \<Rightarrow> bool" where
  "isSafeInteger n \<longleftrightarrow> \<bar>n\<bar> < 2 ^ 53"

definition remainingVaultMakerPrincipal :: "VaultMakerAllocation \<Rightarrow> int result" where
  "remainingVaultMakerPrincipal allocation =
     bindE (bigint_of_string (nullish (va_remainingPrincipal allocation) (va_amount allocation))) (\<lambda>remaining.
       if remaining < 0 then throw ''vault maker allocation has invalid remaining principal''
       else bindE (bigint_of_string (va_amount allocation)) (\<lambda>amount.
         if remaining > amount then throw ''vault maker allocation has invalid remaining principal''
         else Inr remaining))"

subsection \<open>Loops that may throw\<close>

fun filterE :: "('a \<Rightarrow> bool result) \<Rightarrow> 'a list \<Rightarrow> 'a list result" where
  "filterE p [] = Inr []"
| "filterE p (x # xs) = bindE (p x) (\<lambda>keep. bindE (filterE p xs) (\<lambda>ys. Inr (if keep then x # ys else ys)))"

fun foldE :: "('a \<Rightarrow> 'b \<Rightarrow> 'b result) \<Rightarrow> 'a list \<Rightarrow> 'b \<Rightarrow> 'b result" where
  "foldE f [] b = Inr b"
| "foldE f (x # xs) b = bindE (f x b) (foldE f xs)"

text \<open>\<open>p && q\<close>\<close>

definition andE :: "bool \<Rightarrow> bool result \<Rightarrow> bool result" where
  "andE b r = (if b then r else Inr False)"

definition recordedSeriesPrincipal :: "VaultMakerAllocation list \<Rightarrow> string \<Rightarrow> int \<Rightarrow> int result" where
  "recordedSeriesPrincipal allocations vault series =
     foldE (\<lambda>allocation total. bindE (remainingVaultMakerPrincipal allocation) (\<lambda>r. Inr (total + r)))
       (filter (\<lambda>a. va_vault a = vault \<and> va_series a = series \<and> va_status a \<noteq> AllocationClosed) allocations) 0"

subsection \<open>Parents\<close>

text \<open>
  \<open>new Map(notes.map((note) => [note.commitment, note]))\<close>. A commitment is whatever is stored under
  that name; a parent is looked up by a string.
\<close>

type_synonym notes_map = "(note_value option, StoredMakerNote) jsmap"

definition notes_by_commitment :: "StoredMakerNote list \<Rightarrow> notes_map" where
  "notes_by_commitment notes = index_by (\<lambda>note. mget note ''commitment'') notes"

definition spent_parent :: "string \<Rightarrow> string \<Rightarrow> StoredMakerNote \<Rightarrow> bool" where
  "spent_parent maker asset parent \<longleftrightarrow>
     mget parent ''status'' = Some (NoteStr ''spent'') \<and> mget parent ''walletAddress'' = Some (NoteStr maker)
     \<and> mget parent ''token'' = Some (NoteStr asset)"

text \<open>The measure of the walks over parents: a step goes from a note with an unvisited name to a note of the map.\<close>

definition walk_measure :: "(StoredMakerNote \<Rightarrow> 'k) \<Rightarrow> notes_map \<Rightarrow> 'k list \<Rightarrow> StoredMakerNote \<Rightarrow> nat" where
  "walk_measure name m visited note =
     card (name ` set (mvalues m) - set visited) + (if name note \<in> name ` set (mvalues m) then 0 else 1)"

lemma walk_measure_step:
  assumes "name note \<notin> set visited" and "parent \<in> set (mvalues m)"
  shows "walk_measure name m (name note # visited) parent < walk_measure name m visited note"
proof -
  let ?U = "name ` set (mvalues m)" and ?c = "name note"
  have set: "?U - set (?c # visited) = (?U - set visited) - {?c}" by auto
  have parent: "name parent \<in> ?U" using assms(2) by simp
  show ?thesis
  proof (cases "?c \<in> ?U")
    case True
    then have "card ((?U - set visited) - {?c}) < card (?U - set visited)"
      using assms(1) by (intro psubset_card_mono) auto
    with True parent show ?thesis unfolding walk_measure_def set by simp
  next
    case False
    with parent show ?thesis unfolding walk_measure_def set by simp
  qed
qed

text \<open>The loop of \<open>eligibleVaultMakerNotes\<close>: \<open>None\<close> is \<open>return false\<close>, else the last candidate.\<close>

function rootCandidate :: "notes_map \<Rightarrow> string \<Rightarrow> string \<Rightarrow> string \<Rightarrow> note_value option list \<Rightarrow> StoredMakerNote
    \<Rightarrow> StoredMakerNote option result" where
  "rootCandidate m maker asset aid visited candidate =
     (if \<not> note_truthy (mget candidate ''vaultParentCommitment'') then Inr (Some candidate)
      else if mget candidate ''commitment'' \<in> set visited
          \<or> mget candidate ''vaultAllocationId'' \<noteq> Some (NoteStr aid) then Inr None
      else (case mget m (Some (NoteStr (note_string (mget candidate ''vaultParentCommitment'')))) of
          None \<Rightarrow> Inr None
        | Some parent \<Rightarrow>
            if \<not> spent_parent maker asset parent then Inr None
            else (case note_amount parent of Inl e \<Rightarrow> Inl e | Inr parentAmount \<Rightarrow>
              (case note_amount candidate of Inl e \<Rightarrow> Inl e | Inr amount \<Rightarrow>
                if parentAmount < amount then Inr None
                else rootCandidate m maker asset aid (mget candidate ''commitment'' # visited) parent))))"
  by pat_completeness auto
termination
  by (relation "measure (\<lambda>(m, maker, asset, aid, visited, candidate). walk_measure (\<lambda>note. mget note ''commitment'') m visited candidate)")
    (auto intro: walk_measure_step [where name = "\<lambda>note. mget note ''commitment''"] dest: mget_mvalues)

declare rootCandidate.simps [simp del]

subsection \<open>eligibleVaultMakerNotes\<close>

record BackingInput =
  bki_asset :: string
  bki_deployedPrincipal :: int
  bki_maker :: string
  bki_seriesPrincipals :: "(int, int) jsmap"
  bki_vault :: string

definition candidateAllocation :: "BackingInput \<Rightarrow> VaultMakerAllocation \<Rightarrow> bool result" where
  "candidateAllocation input a =
     andE (va_status a = Outstanding \<and> va_vault a = bki_vault input \<and> va_maker a = bki_maker input
        \<and> va_asset a = bki_asset input \<and> isSafeInteger (va_series a) \<and> va_series a \<ge> 0)
     (bindE (remainingVaultMakerPrincipal a) (\<lambda>remaining.
      andE (nullish (mget (bki_seriesPrincipals input) (va_series a)) 0 \<ge> remaining \<and> remaining > 0)
     (bindE (bigint_of_string (va_registeredAmount a)) (\<lambda>registered.
      bindE (bigint_of_string (va_amount a)) (\<lambda>amount. Inr (registered \<le> amount))))))"

text \<open>\<open>map.set(key, (map.get(key) ?? 0n) + amount)\<close>\<close>

definition addTo :: "'k \<Rightarrow> int \<Rightarrow> ('k, int) jsmap \<Rightarrow> ('k, int) jsmap" where
  "addTo k n m = mset_at k (nullish (mget m k) 0 + n) m"

definition noteAllocationId :: "StoredMakerNote \<Rightarrow> string" where
  "noteAllocationId note = (case mget note ''vaultAllocationId'' of None \<Rightarrow> [] | v \<Rightarrow> note_string v)"

definition eligibleNote :: "BackingInput \<Rightarrow> notes_map \<Rightarrow> (string, VaultMakerAllocation) jsmap
    \<Rightarrow> StoredMakerNote \<Rightarrow> bool result" where
  "eligibleNote input m active note =
     (if mget note ''status'' \<noteq> Some (NoteStr ''available'')
          \<or> mget note ''walletAddress'' \<noteq> Some (NoteStr (bki_maker input))
          \<or> mget note ''token'' \<noteq> Some (NoteStr (bki_asset input)) then Inr False
      else (case mget active (noteAllocationId note) of
          None \<Rightarrow> Inr False
        | Some allocation \<Rightarrow>
            bindE (rootCandidate m (bki_maker input) (bki_asset input) (noteAllocationId note) [] note) (\<lambda>root.
              Inr (case root of None \<Rightarrow> False
                | Some candidate \<Rightarrow>
                    mget candidate ''vaultAllocationId'' = Some (NoteStr (noteAllocationId note))
                    \<and> (\<exists>c\<in>set (va_noteCommitments allocation).
                         mget candidate ''commitment'' = Some (NoteStr c))))))"

definition eligibleVaultMakerNotes ::
  "StoredMakerNote list \<Rightarrow> VaultMakerAllocation list \<Rightarrow> BackingInput \<Rightarrow> StoredMakerNote list result" where
  "eligibleVaultMakerNotes notes allocations input =
     bindE (filterE (candidateAllocation input) allocations) (\<lambda>candidates.
     bindE (foldE (\<lambda>a m. bindE (remainingVaultMakerPrincipal a) (\<lambda>r. Inr (addTo (va_series a) r m))) candidates [])
       (\<lambda>bySeries.
     let active = index_by va_id (filter (\<lambda>a.
           case (mget bySeries (va_series a), mget (bki_seriesPrincipals input) (va_series a)) of
             (Some outstanding, Some deployed) \<Rightarrow> outstanding \<le> deployed | _ \<Rightarrow> False) candidates)
     in bindE (foldE (\<lambda>a total. bindE (remainingVaultMakerPrincipal a) (\<lambda>r. Inr (total + r))) (mvalues active) 0)
       (\<lambda>totalOutstanding.
     if totalOutstanding = 0 \<or> totalOutstanding > bki_deployedPrincipal input then Inr []
     else
       bindE (filterE (eligibleNote input (notes_by_commitment notes) active) notes) (\<lambda>eligible.
       bindE (foldE (\<lambda>note m. bindE (note_amount note) (\<lambda>n. Inr (addTo (noteAllocationId note) n m))) eligible [])
         (\<lambda>availableByAllocation.
       bindE (filterE (\<lambda>(k, amount). case mget active k of None \<Rightarrow> throw ''TypeError''
           | Some a \<Rightarrow> bindE (remainingVaultMakerPrincipal a) (\<lambda>r. Inr (amount > r))) availableByAllocation)
         (\<lambda>overloaded.
       Inr (filter (\<lambda>note. noteAllocationId note \<notin> set (mkeys overloaded)) eligible)))))))"

subsection \<open>vault-maker-pair.ts: vaultMakerPairForTrader\<close>

record VaultMakerPair =
  vmp_allocation :: VaultMakerAllocation
  vmp_makerNote :: StoredMakerNote
  vmp_makerPosition :: PositionLifecycleRecord
  vmp_principal :: int

record VaultMakerPairInput =
  vpi_allocations :: "VaultMakerAllocation list"
  vpi_asset :: string
  vpi_maker :: string
  vpi_notes :: "StoredMakerNote list"
  vpi_trader :: PositionLifecycleRecord
  vpi_vault :: string

abbreviation commitment_string :: "StoredMakerNote \<Rightarrow> string" where
  "commitment_string note \<equiv> note_string (mget note ''commitment'')"

text \<open>The loop from the maker's note up to the note that was registered.\<close>

function noteAncestor :: "notes_map \<Rightarrow> string \<Rightarrow> string \<Rightarrow> note_value option \<Rightarrow> string list \<Rightarrow> StoredMakerNote
    \<Rightarrow> StoredMakerNote result" where
  "noteAncestor m maker asset aid visited ancestor =
     (case mget ancestor ''vaultParentCommitment'' of
        Some (NoteStr parentCommitment) \<Rightarrow>
          if commitment_string ancestor \<in> set visited then throw ''vault maker note ancestry has a cycle''
          else (case mget m (Some (NoteStr parentCommitment)) of
              None \<Rightarrow> throw ''paired vault maker note has invalid ancestry''
            | Some parent \<Rightarrow>
                if \<not> spent_parent maker asset parent \<or> mget parent ''vaultAllocationId'' \<noteq> aid
                  then throw ''paired vault maker note has invalid ancestry''
                else (case note_amount parent of Inl e \<Rightarrow> Inl e | Inr parentAmount \<Rightarrow>
                  (case note_amount ancestor of Inl e \<Rightarrow> Inl e | Inr amount \<Rightarrow>
                    if parentAmount < amount then throw ''paired vault maker note has invalid ancestry''
                    else noteAncestor m maker asset aid (commitment_string ancestor # visited) parent)))
      | _ \<Rightarrow> Inr ancestor)"
  by pat_completeness auto
termination
  by (relation "measure (\<lambda>(m, maker, asset, aid, visited, ancestor).
        walk_measure (\<lambda>note. commitment_string note) m visited ancestor)")
    (auto intro: walk_measure_step [where name = "\<lambda>note. commitment_string note"] dest: mget_mvalues)

declare noteAncestor.simps [simp del]

text \<open>\<open>index ^ 1\<close>\<close>

definition partner_index :: "nat \<Rightarrow> nat" where
  "partner_index i = (if even i then i + 1 else i - 1)"

definition settlement_by_digest :: "ProtocolStore \<Rightarrow> Hex \<Rightarrow> BatchSettlement option" where
  "settlement_by_digest s digest = find (\<lambda>b. bs_settlementDigest b = digest) (mvalues (st_settlements s))"

definition makerNotesFor :: "VaultMakerPairInput \<Rightarrow> Hex \<Rightarrow> StoredMakerNote list" where
  "makerNotesFor i source = filter (\<lambda>note.
     mget note ''walletAddress'' = Some (NoteStr (vpi_maker i)) \<and> mget note ''status'' = Some (NoteStr ''spent'')
     \<and> \<not> note_truthy (mget note ''recoveredAmount'')
     \<and> mget note ''lockedByIntentCommitment'' = Some (NoteStr source)
     \<and> is_string (mget note ''vaultAllocationId'')) (vpi_notes i)"

definition allocationsFor :: "VaultMakerPairInput \<Rightarrow> StoredMakerNote \<Rightarrow> VaultMakerAllocation list" where
  "allocationsFor i makerNote = filter (\<lambda>a.
     mget makerNote ''vaultAllocationId'' = Some (NoteStr (va_id a)) \<and> va_maker a = vpi_maker i
     \<and> va_vault a = vpi_vault i \<and> va_asset a = vpi_asset i \<and> va_status a \<noteq> AllocationClosed) (vpi_allocations i)"

text \<open>From the paired position on.\<close>

definition pairBacking :: "host \<Rightarrow> ProtocolStore \<Rightarrow> VaultMakerPairInput \<Rightarrow> PositionLifecycleRecord
    \<Rightarrow> VaultMakerPair result" where
  "pairBacking h s i paired =
     (case makerNotesFor i (plr_sourceIntentCommitment paired) of
        [makerNote] \<Rightarrow>
          (case allocationsFor i makerNote of
             [allocation] \<Rightarrow>
               if mget makerNote ''token'' \<noteq> Some (NoteStr (vpi_asset i))
                 then throw ''paired vault maker asset does not match''
               else bindE (noteAncestor (notes_by_commitment (vpi_notes i)) (vpi_maker i) (vpi_asset i)
                   (mget makerNote ''vaultAllocationId'') [] makerNote) (\<lambda>ancestor.
               if commitment_string ancestor \<notin> set (va_noteCommitments allocation)
                 then throw ''paired vault maker note is not rooted in its allocation''
               else if \<not> is_string (mget makerNote ''commitment'') \<or> \<not> is_string (mget makerNote ''assetDigest'')
                 then throw ''paired vault maker note is incomplete''
               else bindE (reconstructPositionOpening h s paired) (\<lambda>found.
                 (case found of
                    None \<Rightarrow> throw ''vault maker position opening cannot be reconstructed''
                  | Some opening \<Rightarrow>
                      let principal = pop_margin opening + nullish (pop_entryFee opening) 0 in
                      if principal \<le> 0 then throw ''vault maker position principal exceeds its note''
                      else bindE (note_amount makerNote) (\<lambda>amount.
                        if principal > amount then throw ''vault maker position principal exceeds its note''
                        else Inr \<lparr>vmp_allocation = allocation, vmp_makerNote = makerNote,
                               vmp_makerPosition = paired, vmp_principal = principal\<rparr>))))
           | _ \<Rightarrow> throw ''paired vault allocation is unavailable'')
      | _ \<Rightarrow> throw ''paired vault maker note is unavailable or ambiguous'')"

definition vaultMakerPairForTrader ::
  "host \<Rightarrow> ProtocolStore \<Rightarrow> VaultMakerPairInput \<Rightarrow> VaultMakerPair option result" where
  "vaultMakerPairForTrader h s i =
     (let trader = vpi_trader i in
      case settlement_by_digest s (plr_settlementDigest trader) of
        None \<Rightarrow> Inr None
      | Some settlement \<Rightarrow>
          (case indexOf (plr_positionCommitment trader) (bs_newCommitments settlement) of
             None \<Rightarrow> Inr None
           | Some index \<Rightarrow>
               if odd (length (bs_newCommitments settlement)) then Inr None
               else (case mget (st_positionLifecycle s) (bs_newCommitments settlement ! partner_index index) of
                   None \<Rightarrow> Inr None
                 | Some paired \<Rightarrow>
                     if plr_ownerCommitment paired \<noteq> ownerCommitment h (vpi_maker i) then Inr None
                     else if plr_batchId paired \<noteq> plr_batchId trader \<or> plr_marketId paired \<noteq> plr_marketId trader
                         \<or> plr_settlementDigest paired \<noteq> plr_settlementDigest trader
                       then throw ''vault maker position does not match the trader settlement''
                     else
                       let matched = [item (bs_makerIntents settlement) (index div 2),
                                      item (bs_takerIntents settlement) (index div 2)]
                       in if Some (plr_sourceIntentCommitment trader) \<notin> set matched
                              \<or> Some (plr_sourceIntentCommitment paired) \<notin> set matched
                            then throw ''vault maker intent does not match the trader fill''
                          else if plr_status paired \<noteq> PositionOpen
                            then throw ''paired vault maker position is not open''
                          else bindE (pairBacking h s i paired) (\<lambda>pair. Inr (Some pair)))))"

end
