(* ===== verification/Vault_Properties.thy ===== *)
theory Vault_Properties
  imports Vault_Backing
begin

text \<open>
  The bounds of the vault's backing: what may be quoted never exceeds what the vault deployed, in
  all, per series and per allocation; and a maker position that closes with its trader is backed by
  a note whose chain of parents ends in the allocation and never grows.
\<close>

subsection \<open>Lemmas: loops that may throw\<close>

definition val_of :: "('a \<Rightarrow> int result) \<Rightarrow> 'a \<Rightarrow> int" where
  "val_of g x = (case g x of Inr r \<Rightarrow> r | Inl _ \<Rightarrow> 0)"

lemma val_of_Inr [simp]: "g x = Inr r \<Longrightarrow> val_of g x = r"
  by (simp add: val_of_def)

lemma filterE_Inr: "filterE p xs = Inr ys \<Longrightarrow>
    ys = filter (\<lambda>x. p x = Inr True) xs \<and> (\<forall>x\<in>set xs. \<exists>b. p x = Inr b)"
  by (induction xs arbitrary: ys) (auto simp: bindE_Inr_iff)

lemma foldE_sum: "foldE (\<lambda>x t. bindE (g x) (\<lambda>r. Inr (t + r))) xs t = Inr t' \<Longrightarrow>
    t' = t + sum_list (map (val_of g) xs) \<and> (\<forall>x\<in>set xs. \<exists>r. g x = Inr r)"
proof (induction xs arbitrary: t)
  case (Cons x xs)
  obtain r where r: "g x = Inr r" "foldE (\<lambda>x t. bindE (g x) (\<lambda>r. Inr (t + r))) xs (t + r) = Inr t'"
    using Cons.prems by (auto simp: bindE_Inr_iff)
  from Cons.IH [OF r(2)] r(1) show ?case by simp
qed simp

lemma foldE_addTo: "foldE (\<lambda>x m. bindE (g x) (\<lambda>r. Inr (addTo (key x) r m))) xs m = Inr m' \<Longrightarrow>
    (\<forall>x\<in>set xs. \<exists>r. g x = Inr r) \<and> (map_ok m \<longrightarrow> map_ok m')
    \<and> (\<forall>k. mget m' k = (if k \<in> key ` set xs \<or> mhas m k
         then Some (nullish (mget m k) 0 + sum_list (map (val_of g) (filter (\<lambda>x. key x = k) xs))) else None))"
proof (induction xs arbitrary: m)
  case Nil
  then show ?case by (auto simp: mhas_def nullish_def split: option.split)
next
  case (Cons x xs)
  obtain r where r: "g x = Inr r" "foldE (\<lambda>x m. bindE (g x) (\<lambda>r. Inr (addTo (key x) r m))) xs (addTo (key x) r m) = Inr m'"
    using Cons.prems by (auto simp: bindE_Inr_iff)
  from Cons.IH [OF r(2)] show ?case
    using r(1) by (auto simp: addTo_def nullish_def mhas_def split: option.split)
qed

lemma sum_list_groups:
  assumes "finite K" "key ` set xs \<subseteq> K"
  shows "sum_list (map f xs) = (\<Sum>k\<in>K. sum_list (map f (filter (\<lambda>x. key x = k) xs)) :: int)"
  using assms(2)
proof (induction xs)
  case (Cons x xs)
  have "(\<Sum>k\<in>K. sum_list (map f (filter (\<lambda>y. key y = k) (x # xs))))
      = (\<Sum>k\<in>K. (if k = key x then f x else 0) + sum_list (map f (filter (\<lambda>y. key y = k) xs)))"
    by (intro sum.cong) auto
  also have "\<dots> = f x + (\<Sum>k\<in>K. sum_list (map f (filter (\<lambda>y. key y = k) xs)))"
    using Cons.prems assms(1) by (simp add: sum.distrib sum.delta)
  finally show ?case using Cons by simp
qed (simp add: assms(1))

lemma sum_mvalues:
  assumes "map_ok m"
  shows "sum_list (map f (mvalues m)) = (\<Sum>k\<in>set (mkeys m). f (the (mget m k)) :: int)"
proof -
  have d: "distinct (map fst m)" using assms by (simp add: map_ok_def mkeys_def)
  have "(\<Sum>k\<in>set (map fst m). f (the (mget m k))) = sum_list (map (\<lambda>k. f (the (mget m k))) (map fst m))"
    by (rule sum_list_distinct_conv_sum_set [OF d, symmetric])
  also have "map (\<lambda>k. f (the (mget m k))) (map fst m) = map f (mvalues m)"
    using d by (auto simp: mvalues_def mget_def)
  finally show ?thesis by (simp add: mkeys_def)
qed

lemma sum_set_le_sum_list: "(\<And>x. x \<in> set xs \<Longrightarrow> 0 \<le> (f x :: int)) \<Longrightarrow> (\<Sum>x\<in>set xs. f x) \<le> sum_list (map f xs)"
proof (induction xs)
  case (Cons x xs)
  have "(\<Sum>y\<in>set (x # xs). f y) \<le> f x + (\<Sum>y\<in>set xs. f y)"
    by (cases "x \<in> set xs") (use Cons.prems in \<open>simp_all add: insert_absorb\<close>)
  also have "(\<Sum>y\<in>set xs. f y) \<le> sum_list (map f xs)" using Cons by simp
  finally show ?case by simp
qed simp

lemma sum_list_grouped_le:
  assumes "finite K" and "\<And>x. x \<in> set xs \<Longrightarrow> key x \<in> K" and "\<And>k. k \<in> K \<Longrightarrow> 0 \<le> g k"
    and "\<And>x. x \<in> set xs \<Longrightarrow> sum_list (map f (filter (\<lambda>y. key y = key x) xs)) \<le> g (key x)"
  shows "sum_list (map f xs) \<le> (\<Sum>k\<in>K. g k :: int)"
proof -
  have "sum_list (map f xs) = (\<Sum>k\<in>K. sum_list (map f (filter (\<lambda>x. key x = k) xs)))"
    using assms(1,2) by (intro sum_list_groups) auto
  also have "\<dots> \<le> (\<Sum>k\<in>K. g k)"
  proof (rule sum_mono)
    fix k assume k: "k \<in> K"
    show "sum_list (map f (filter (\<lambda>x. key x = k) xs)) \<le> g k"
    proof (cases "filter (\<lambda>x. key x = k) xs")
      case Nil
      then show ?thesis using assms(3) [OF k] by simp
    next
      case (Cons x ys)
      then have "x \<in> set xs" "key x = k" by (auto dest!: filter_eq_ConsD)
      then show ?thesis using assms(4) [of x] by simp
    qed
  qed
  finally show ?thesis .
qed

subsection \<open>The notes that may be quoted\<close>

definition remaining_of :: "VaultMakerAllocation \<Rightarrow> int" where
  "remaining_of = val_of remainingVaultMakerPrincipal"

definition quoted :: "(StoredMakerNote \<Rightarrow> bool) \<Rightarrow> StoredMakerNote list \<Rightarrow> int" where
  "quoted P notes = sum_list (map (val_of note_amount) (filter P notes))"

definition usable :: "BackingInput \<Rightarrow> VaultMakerAllocation \<Rightarrow> bool" where
  "usable input a \<longleftrightarrow> candidateAllocation input a = Inr True"

definition outstanding_in :: "VaultMakerAllocation list \<Rightarrow> int \<Rightarrow> int" where
  "outstanding_in as series = sum_list (map remaining_of (filter (\<lambda>a. va_series a = series) as))"

lemma remaining_nonneg: "remainingVaultMakerPrincipal a = Inr r \<Longrightarrow> 0 \<le> r"
  by (auto simp: remainingVaultMakerPrincipal_def bindE_Inr_iff split: if_splits)

lemma remaining_of_nonneg: "0 \<le> remaining_of a"
  by (auto simp: remaining_of_def val_of_def split: sum.split dest: remaining_nonneg)

lemma usable_is:
  "usable input a \<Longrightarrow> va_status a = Outstanding \<and> va_vault a = bki_vault input \<and> va_maker a = bki_maker input
     \<and> va_asset a = bki_asset input \<and> remainingVaultMakerPrincipal a = Inr (remaining_of a) \<and> 0 < remaining_of a"
  by (auto simp: usable_def candidateAllocation_def andE_def bindE_Inr_iff remaining_of_def split: if_splits)

text \<open>What the function has computed when it offers a note.\<close>

definition backed :: "BackingInput \<Rightarrow> VaultMakerAllocation list \<Rightarrow> (string, VaultMakerAllocation) jsmap \<Rightarrow> bool" where
  "backed input allocations active \<longleftrightarrow> map_ok active
     \<and> (\<forall>k a. mget active k = Some a \<longrightarrow> a \<in> set allocations \<and> usable input a \<and> va_id a = k
          \<and> (\<exists>p. mget (bki_seriesPrincipals input) (va_series a) = Some p
               \<and> outstanding_in (filter (usable input) allocations) (va_series a) \<le> p))
     \<and> sum_list (map remaining_of (mvalues active)) \<le> bki_deployedPrincipal input"

lemma backed_active:
  assumes series: "foldE (\<lambda>a m. bindE (remainingVaultMakerPrincipal a) (\<lambda>r. Inr (addTo (va_series a) r m))) cs [] = Inr bySeries"
    and cs: "cs = filter (usable input) allocations"
    and active: "active = index_by va_id (filter (\<lambda>a.
           case (mget bySeries (va_series a), mget (bki_seriesPrincipals input) (va_series a)) of
             (Some outstanding, Some deployed) \<Rightarrow> outstanding \<le> deployed | _ \<Rightarrow> False) cs)"
    and total: "sum_list (map remaining_of (mvalues active)) \<le> bki_deployedPrincipal input"
  shows "backed input allocations active"
proof -
  have get: "mget bySeries k = Some d \<Longrightarrow> d = outstanding_in cs k" for k d
    using foldE_addTo [OF series] by (auto simp: outstanding_in_def remaining_of_def nullish_def split: if_splits)
  have "a \<in> set allocations \<and> usable input a \<and> va_id a = k
          \<and> (\<exists>p. mget (bki_seriesPrincipals input) (va_series a) = Some p
               \<and> outstanding_in (filter (usable input) allocations) (va_series a) \<le> p)"
    if a: "mget active k = Some a" for k a
  proof -
    from index_by_Some [OF a [unfolded active]] have mem: "a \<in> set allocations" "usable input a" "va_id a = k"
      by (auto simp: cs)
    from index_by_Some [OF a [unfolded active]] obtain d p where dp: "mget bySeries (va_series a) = Some d"
        "mget (bki_seriesPrincipals input) (va_series a) = Some p" "d \<le> p"
      by (auto split: option.splits)
    from mem dp get [OF dp(1)] show ?thesis by (auto simp: cs)
  qed
  moreover have "map_ok active" by (simp add: active map_ok_def index_by_keys)
  ultimately show ?thesis unfolding backed_def using total by blast
qed

definition keeps_within :: "StoredMakerNote list \<Rightarrow> (string, VaultMakerAllocation) jsmap \<Rightarrow> bool" where
  "keeps_within es active \<longleftrightarrow> (\<forall>n\<in>set es. note_amount n = Inr (val_of note_amount n)
     \<and> (\<exists>a. mget active (noteAllocationId n) = Some a
          \<and> quoted (\<lambda>m. noteAllocationId m = noteAllocationId n) es \<le> remaining_of a))"

lemma not_overloaded:
  assumes eligible: "\<forall>n\<in>set ns. \<exists>a. mget active (noteAllocationId n) = Some a"
    and amounts: "foldE (\<lambda>note m. bindE (note_amount note) (\<lambda>n. Inr (addTo (noteAllocationId note) n m))) ns [] = Inr available"
    and over: "filterE (\<lambda>(k, amount). case mget active k of None \<Rightarrow> throw ''TypeError''
           | Some a \<Rightarrow> bindE (remainingVaultMakerPrincipal a) (\<lambda>r. Inr (amount > r))) available = Inr exceeded"
    and es: "es = filter (\<lambda>note. noteAllocationId note \<notin> set (mkeys exceeded)) ns"
  shows "keeps_within es active"
  unfolding keeps_within_def
proof
  fix n assume n: "n \<in> set es"
  let ?k = "noteAllocationId n" and ?p = "\<lambda>(k, amount). case mget active k of None \<Rightarrow> throw ''TypeError''
           | Some a \<Rightarrow> bindE (remainingVaultMakerPrincipal a) (\<lambda>r. Inr (amount > r))"
  let ?sum = "quoted (\<lambda>m. noteAllocationId m = ?k) ns"
  obtain a where a: "mget active ?k = Some a" using eligible n es by auto
  note f = foldE_addTo [OF amounts]
  have "mget available ?k = Some ?sum" using f n es by (auto simp: quoted_def nullish_def)
  then have mem: "(?k, ?sum) \<in> set available" by (rule mget_in)
  then have "?p (?k, ?sum) \<noteq> Inr True" "\<exists>b. ?p (?k, ?sum) = Inr b"
    using filterE_Inr [OF over] n es by (force simp: mkeys_def)+
  then have le: "?sum \<le> remaining_of a" using a by (auto simp: bindE_Inr_iff remaining_of_def)
  have "filter (\<lambda>m. noteAllocationId m = ?k) es = filter (\<lambda>m. noteAllocationId m = ?k) ns"
    using n by (auto simp: es intro: filter_cong)
  moreover have "note_amount n = Inr (val_of note_amount n)" using f n es by auto
  moreover have "quoted (\<lambda>m. noteAllocationId m = ?k) es \<le> remaining_of a"
    using le calculation(1) by (simp only: quoted_def)
  ultimately show "note_amount n = Inr (val_of note_amount n)
      \<and> (\<exists>a. mget active ?k = Some a \<and> quoted (\<lambda>m. noteAllocationId m = ?k) es \<le> remaining_of a)"
    using a by blast
qed

lemma eligible_backed:
  assumes "eligibleVaultMakerNotes notes allocations input = Inr es" and "es \<noteq> []"
  obtains active where "backed input allocations active" "keeps_within es active" "set es \<subseteq> set notes"
proof -
  obtain cs bySeries total ns available exceeded active where
    cs: "filterE (candidateAllocation input) allocations = Inr cs" and
    series: "foldE (\<lambda>a m. bindE (remainingVaultMakerPrincipal a) (\<lambda>r. Inr (addTo (va_series a) r m))) cs [] = Inr bySeries" and
    active: "active = index_by va_id (filter (\<lambda>a.
           case (mget bySeries (va_series a), mget (bki_seriesPrincipals input) (va_series a)) of
             (Some outstanding, Some deployed) \<Rightarrow> outstanding \<le> deployed | _ \<Rightarrow> False) cs)" and
    total: "foldE (\<lambda>a total. bindE (remainingVaultMakerPrincipal a) (\<lambda>r. Inr (total + r))) (mvalues active) 0 = Inr total"
      "total \<le> bki_deployedPrincipal input" and
    ns: "filterE (eligibleNote input (notes_by_commitment notes) active) notes = Inr ns" and
    amounts: "foldE (\<lambda>note m. bindE (note_amount note) (\<lambda>n. Inr (addTo (noteAllocationId note) n m))) ns [] = Inr available" and
    over: "filterE (\<lambda>(k, amount). case mget active k of None \<Rightarrow> throw ''TypeError''
           | Some a \<Rightarrow> bindE (remainingVaultMakerPrincipal a) (\<lambda>r. Inr (amount > r))) available = Inr exceeded" and
    es: "es = filter (\<lambda>note. noteAllocationId note \<notin> set (mkeys exceeded)) ns"
    using assms unfolding eligibleVaultMakerNotes_def bindE_Inr_iff Let_def
    by (elim exE conjE) (auto simp: bindE_Inr_iff split: if_splits)
  have "cs = filter (usable input) allocations"
    using filterE_Inr [OF cs] by (simp add: usable_def [abs_def])
  moreover have "sum_list (map remaining_of (mvalues active)) \<le> bki_deployedPrincipal input"
    using foldE_sum [OF total(1)] total(2) by (simp add: remaining_of_def)
  ultimately have b: "backed input allocations active" by (rule backed_active [OF series _ active])
  have "\<forall>n\<in>set ns. \<exists>a. mget active (noteAllocationId n) = Some a"
    using filterE_Inr [OF ns] by (auto simp: eligibleNote_def split: if_splits option.splits)
  from not_overloaded [OF this amounts over es] have "keeps_within es active" .
  moreover have "set es \<subseteq> set notes" using filterE_Inr [OF ns] es by auto
  ultimately show ?thesis using b that by blast
qed

lemma within_groups:
  assumes b: "backed input allocations active" and w: "keeps_within es active"
  shows "quoted (\<lambda>n. P (the (mget active (noteAllocationId n)))) es
    \<le> (\<Sum>k\<in>{k \<in> set (mkeys active). P (the (mget active k))}. remaining_of (the (mget active k)))"
  unfolding quoted_def
proof (rule sum_list_grouped_le [where key = noteAllocationId])
  let ?Q = "\<lambda>n. P (the (mget active (noteAllocationId n)))"
  fix n assume n: "n \<in> set (filter ?Q es)"
  then show "noteAllocationId n \<in> {k \<in> set (mkeys active). P (the (mget active k))}"
    using w by (auto simp: keeps_within_def mhas_keys [symmetric] mhas_def)
  have "filter (\<lambda>m. noteAllocationId m = noteAllocationId n) (filter ?Q es)
      = filter (\<lambda>m. noteAllocationId m = noteAllocationId n) es"
    using n by (auto intro: filter_cong)
  then show "sum_list (map (val_of note_amount) (filter (\<lambda>m. noteAllocationId m = noteAllocationId n) (filter ?Q es)))
      \<le> remaining_of (the (mget active (noteAllocationId n)))"
    using w n by (auto simp: keeps_within_def quoted_def)
qed (auto intro: remaining_of_nonneg)

lemma series_sum:
  assumes b: "backed input allocations active"
  shows "(\<Sum>k\<in>{k \<in> set (mkeys active). va_series (the (mget active k)) = s}. remaining_of (the (mget active k)))
    \<le> outstanding_in (filter (usable input) allocations) s"
proof -
  let ?K = "{k \<in> set (mkeys active). va_series (the (mget active k)) = s}" and ?f = "\<lambda>k. the (mget active k)"
  let ?as = "filter (\<lambda>a. va_series a = s) (filter (usable input) allocations)"
  have get: "mget active k = Some (?f k)" if "k \<in> ?K" for k using that by (auto simp: mhas_keys [symmetric] mhas_def)
  have id: "va_id (?f k) = k" and mem: "?f k \<in> set ?as" if "k \<in> ?K" for k
    using b get [OF that] that by (auto simp: backed_def)
  have "inj_on ?f ?K" by (rule inj_on_inverseI [where g = va_id]) (rule id)
  then have "(\<Sum>k\<in>?K. remaining_of (?f k)) = (\<Sum>a\<in>?f ` ?K. remaining_of a)" by (simp add: sum.reindex)
  also have "\<dots> \<le> (\<Sum>a\<in>set ?as. remaining_of a)"
    using mem by (intro sum_mono2) (auto intro: remaining_of_nonneg)
  also have "\<dots> \<le> outstanding_in (filter (usable input) allocations) s"
    unfolding outstanding_in_def by (rule sum_set_le_sum_list) (rule remaining_of_nonneg)
  finally show ?thesis .
qed

lemma within_series:
  assumes b: "backed input allocations active" and w: "keeps_within es active"
  shows "quoted (\<lambda>n. va_series (the (mget active (noteAllocationId n))) = s) es
    \<le> outstanding_in (filter (usable input) allocations) s"
  using within_groups [OF b w, of "\<lambda>a. va_series a = s"] series_sum [OF b, of s] by (rule order_trans)

lemma within_total:
  assumes b: "backed input allocations active" and w: "keeps_within es active"
  shows "quoted (\<lambda>_. True) es \<le> bki_deployedPrincipal input"
  using within_groups [OF b w, of "\<lambda>_. True"] b sum_mvalues [of active remaining_of]
  by (simp add: backed_def)

text \<open>C14: The notes that the server offers as maker liquidity stay within what the vault deployed. Each
  is a note of the request that belongs to an outstanding allocation of this vault, maker and asset;
  the notes of one allocation never sum to more than the principal that remains of it, those of one series to
  no more than the principal that the vault reports for the series, and all together to no more
  than the principal it deployed.\<close>

theorem eligible_within_backing:
  assumes "eligibleVaultMakerNotes notes allocations input = Inr es"
  shows "\<exists>backing. (\<forall>n\<in>set es. n \<in> set notes \<and> note_amount n = Inr (val_of note_amount n)
        \<and> backing n \<in> set allocations \<and> va_id (backing n) = noteAllocationId n \<and> usable input (backing n)
        \<and> quoted (\<lambda>m. backing m = backing n) es \<le> remaining_of (backing n)
        \<and> (\<exists>p. mget (bki_seriesPrincipals input) (va_series (backing n)) = Some p
             \<and> quoted (\<lambda>m. va_series (backing m) = va_series (backing n)) es \<le> p))
      \<and> (es \<noteq> [] \<longrightarrow> quoted (\<lambda>_. True) es \<le> bki_deployedPrincipal input)"
proof (cases "es = []")
  case False
  from assms this obtain active where b: "backed input allocations active" and w: "keeps_within es active"
      and sub: "set es \<subseteq> set notes" by (rule eligible_backed)
  define backing where "backing n = the (mget active (noteAllocationId n))" for n
  have get: "mget active (noteAllocationId n) = Some (backing n)" if "n \<in> set es" for n
    using w that by (auto simp: keeps_within_def backing_def)
  have a: "backing n \<in> set allocations \<and> usable input (backing n) \<and> va_id (backing n) = noteAllocationId n
      \<and> (\<exists>p. mget (bki_seriesPrincipals input) (va_series (backing n)) = Some p
           \<and> outstanding_in (filter (usable input) allocations) (va_series (backing n)) \<le> p)"
    if "n \<in> set es" for n using b get [OF that] by (auto simp: backed_def)
  have allocation: "quoted (\<lambda>m. backing m = backing n) es \<le> remaining_of (backing n)" if "n \<in> set es" for n
  proof -
    have "backing m = backing n \<longleftrightarrow> noteAllocationId m = noteAllocationId n" if "m \<in> set es" for m
      using a [OF that] a [OF \<open>n \<in> set es\<close>] by (metis backing_def)
    then have "filter (\<lambda>m. backing m = backing n) es = filter (\<lambda>m. noteAllocationId m = noteAllocationId n) es"
      by (intro filter_cong) auto
    then show ?thesis using w that get [OF that] by (auto simp: keeps_within_def quoted_def)
  qed
  have series: "\<exists>p. mget (bki_seriesPrincipals input) (va_series (backing n)) = Some p
      \<and> quoted (\<lambda>m. va_series (backing m) = va_series (backing n)) es \<le> p" if "n \<in> set es" for n
  proof -
    from a [OF that] obtain p where p: "mget (bki_seriesPrincipals input) (va_series (backing n)) = Some p"
        "outstanding_in (filter (usable input) allocations) (va_series (backing n)) \<le> p" by blast
    with within_series [OF b w, of "va_series (backing n)"] show ?thesis by (auto simp: backing_def)
  qed
  have total: "quoted (\<lambda>_. True) es \<le> bki_deployedPrincipal input" by (rule within_total [OF b w])
  have mine: "n \<in> set notes" "note_amount n = Inr (val_of note_amount n)" if "n \<in> set es" for n
    using sub w that unfolding keeps_within_def by blast+
  have "backing n \<in> set allocations" "va_id (backing n) = noteAllocationId n" "usable input (backing n)"
    if "n \<in> set es" for n using a [OF that] by blast+
  note facts = this mine allocation series total
  show ?thesis by (intro exI [of _ backing] conjI ballI impI; (rule facts, assumption | rule total))
qed simp

definition demo_allocation :: VaultMakerAllocation where
  "demo_allocation = \<lparr>va_id = ''V:1'', va_allocationLedger = 1, va_allocationTxHash = ''1'', va_amount = ''100'',
     va_asset = ''USDC'', va_maker = ''M'', va_noteCommitments = [''c1''], va_remainingPrincipal = None,
     va_registeredAmount = ''60'', va_series = 0, va_status = Outstanding, va_vault = ''V''\<rparr>"

definition demo_maker_note :: StoredMakerNote where
  "demo_maker_note = [(''commitment'', NoteStr ''c1''), (''amount'', NoteStr ''60''), (''status'', NoteStr ''available''),
     (''walletAddress'', NoteStr ''M''), (''token'', NoteStr ''USDC''), (''vaultAllocationId'', NoteStr ''V:1'')]"

definition demo_backing :: BackingInput where
  "demo_backing = \<lparr>bki_asset = ''USDC'', bki_deployedPrincipal = 100, bki_maker = ''M'',
     bki_seriesPrincipals = [(0, 100)], bki_vault = ''V''\<rparr>"

theorem eligible_within_backing_witness:
  "\<exists>backing. va_id (backing demo_maker_note) = ''V:1'' \<and> backing demo_maker_note \<in> set [demo_allocation]
     \<and> quoted (\<lambda>_. True) [demo_maker_note] \<le> 100"
proof -
  have "eligibleVaultMakerNotes [demo_maker_note] [demo_allocation] demo_backing = Inr [demo_maker_note]" by code_simp
  from eligible_within_backing [OF this] show ?thesis
    by (auto simp: demo_maker_note_def demo_backing_def noteAllocationId_def note_string_def mget_def)
qed

end
