(* ===== verification/Position_Services.thy ===== *)
theory Position_Services
  imports Vault_Backing Prover_Service Batch_Runs
begin

text \<open>
  The services that end positions: \<^verbatim>\<open>features/liquidations\<close>, \<^verbatim>\<open>features/position-closes\<close>,
  \<^verbatim>\<open>features/conditional-orders\<close> and \<^verbatim>\<open>features/liquidation-automation\<close>. They share the executor with its
  store and the prover, whose state the model has in full. What the constructors get beside them, the on-chain
  relay and the collections of MongoDB, are ports over a state of their own (\<open>'c\<close>): the services pass
  records out and read answers, which may be errors.
\<close>

subsection \<open>The state of the server and the ports of the services\<close>

record 'c server =
  sv_executor :: ExecutorService
  sv_prover :: ProverService
  sv_outside :: 'c

definition on_store :: "(ProtocolStore, 'a) act \<Rightarrow> ('c server, 'a) act" where
  "on_store m v = (case store_call m (sv_executor v) of (r, e) \<Rightarrow> (r, v\<lparr>sv_executor := e\<rparr>))"

definition on_prover :: "(ProverService, 'a) act \<Rightarrow> ('c server, 'a) act" where
  "on_prover m v = (case m (sv_prover v) of (r, p) \<Rightarrow> (r, v\<lparr>sv_prover := p\<rparr>))"

definition on_outside :: "('c, 'a) act \<Rightarrow> ('c server, 'a) act" where
  "on_outside m v = (case m (sv_outside v) of (r, c) \<Rightarrow> (r, v\<lparr>sv_outside := c\<rparr>))"

text \<open>A value that is read from the store; one that is computed from arguments alone.\<close>

definition from_store :: "(ProtocolStore \<Rightarrow> 'a result) \<Rightarrow> ('c server, 'a) act" where
  "from_store f = liftA (\<lambda>v. f (ex_store (sv_executor v)))"

definition pureA :: "'a result \<Rightarrow> ('s, 'a) act" where
  "pureA r = liftA (\<lambda>_. r)"

text \<open>\<open>OnchainRelayService\<close>: the calls that these services make; a relay result is the list of its transactions.\<close>

record 'c chain_ports =
  cp_enabled :: bool
  cp_marketPrice :: "string \<Rightarrow> ('c, int) act"
  cp_liquidate :: "LiquidationRecord \<Rightarrow> ('c, RelayedTx list) act"
  cp_settlePositionClose :: "PositionCloseRecord \<Rightarrow> ('c, RelayedTx list) act"
  cp_settleManualPositionClose :: "PositionCloseRecord \<Rightarrow> ('c, RelayedTx list) act"
  cp_settlePairedPositionClose :: "PositionCloseRecord \<Rightarrow> PositionCloseRecord \<Rightarrow> bool \<Rightarrow> ('c, RelayedTx list) act"
  cp_isPositionCloseSettled :: "Hex \<Rightarrow> ('c, bool) act"
  cp_registerConditionalOrder :: "ConditionalOrderCommitment \<Rightarrow> ('c, RelayedTx list) act"
  cp_triggerConditionalClose :: "ConditionalOrderRecord \<Rightarrow> ('c, RelayedTx list) act"

text \<open>The imported functions over MongoDB and files, and \<open>flush\<close> of a store that has it.\<close>

record 'c note_ports =
  np_loadDeploymentRegistry :: "string \<Rightarrow> ('c, (string, string) jsmap option) act"
  np_readMakerNotes :: "('c, StoredMakerNote list) act"
  np_readVaultMakerAllocations :: "('c, VaultMakerAllocation list) act"
  np_insertPendingMakerNote :: "StoredMakerNote \<Rightarrow> ('c, unit) act"
  np_deleteUnsettledOutput :: "Hex \<Rightarrow> Hex \<Rightarrow> ('c, unit) act"
  np_finalizeOutput :: "Hex \<Rightarrow> Hex option \<Rightarrow> ('c, unit) act"
  np_flush :: "('c, unit) act"

record 'c services =
  sr_prover :: prover_env
  sr_encrypt :: "AccountEventPayload \<Rightarrow> string \<Rightarrow> string result"
  sr_onchain :: "'c chain_ports option"
  sr_notes :: "'c note_ports"
  sr_settlementsOnchainRequired :: bool
  sr_conditionalOrdersOnchainRequired :: bool
  sr_makerWalletAddress :: "string option"
  sr_collateralTokenContract :: "string option"
  sr_mongodbUri :: "string option"
  sr_stellarDeploymentFile :: "string option"

abbreviation sr_host :: "'c services \<Rightarrow> host" where
  "sr_host e \<equiv> pe_host (sr_prover e)"

text \<open>\<open>this.onchain?.enabled\<close>\<close>

definition onchain_enabled :: "'c services \<Rightarrow> bool" where
  "onchain_enabled e = (case sr_onchain e of None \<Rightarrow> False | Some c \<Rightarrow> cp_enabled c)"

subsection \<open>What the services share\<close>

definition market_config :: "string \<Rightarrow> ('c server, MarketConfig) act" where
  "market_config marketId = from_store (\<lambda>s.
     case mget (st_markets s) marketId of None \<Rightarrow> throw ''unknown market'' | Some m \<Rightarrow> Inr m)"

definition currentMarkPrice :: "'c services \<Rightarrow> string \<Rightarrow> int \<Rightarrow> ('c server, int) act" where
  "currentMarkPrice e marketId fallback =
     (case sr_onchain e of
        Some c \<Rightarrow> if cp_enabled c then on_outside (cp_marketPrice c marketId) else returnA fallback
      | None \<Rightarrow> returnA fallback)"

text \<open>\<open>this.onchain?.call(record)\<close>\<close>

definition relayed :: "'c services \<Rightarrow> ('c chain_ports \<Rightarrow> ('c, RelayedTx list) act)
    \<Rightarrow> ('c server, RelayedTx list option) act" where
  "relayed e call =
     (case sr_onchain e of
        None \<Rightarrow> returnA None
      | Some c \<Rightarrow> bindA (on_outside (call c)) (\<lambda>relay. returnA (Some relay)))"

definition assertRelay :: "'c services \<Rightarrow> bool \<Rightarrow> string \<Rightarrow> RelayedTx list option \<Rightarrow> string \<Rightarrow> unit result" where
  "assertRelay e mandatory message relay functionName =
     (if \<not> mandatory then Inr ()
      else if \<not> onchain_enabled e then throw message
      else assertSubmittedRelay relay functionName)"

definition assertSubmittedSettlementRelay ::
  "'c services \<Rightarrow> RelayedTx list option \<Rightarrow> string \<Rightarrow> unit result" where
  "assertSubmittedSettlementRelay e =
     assertRelay e (sr_settlementsOnchainRequired e) ''settlements require on-chain relay''"

definition assertSubmittedConditionalRelay ::
  "'c services \<Rightarrow> RelayedTx list option \<Rightarrow> string \<Rightarrow> unit result" where
  "assertSubmittedConditionalRelay e =
     assertRelay e (sr_conditionalOrdersOnchainRequired e) ''conditional orders require on-chain relay''"

text \<open>\<open>result?.relays.find(...)?.txHash\<close>; a hash that is missing or empty leaves the field as it is.\<close>

definition relay_hash :: "RelayedTx list option \<Rightarrow> string \<Rightarrow> Hex option" where
  "relay_hash result functionName =
     (case result of
        None \<Rightarrow> None
      | Some relays \<Rightarrow>
          (case find (\<lambda>r. rtx_functionName r = Some functionName \<and> rtx_submitted r) relays of
             None \<Rightarrow> None | Some r \<Rightarrow> rtx_txHash r))"

definition or_kept :: "Hex option \<Rightarrow> Hex option \<Rightarrow> Hex option" where
  "or_kept hash old = (if truthy_str hash then hash else old)"

definition assert_recognized_root :: "'c services \<Rightarrow> Hex \<Rightarrow> ('c server, unit) act" where
  "assert_recognized_root e rt = from_store (\<lambda>s.
     bindE (hasPositionMembershipRoot (sr_host e) rt s) (\<lambda>known.
       failIf (\<not> known) ''position root is not recognized''))"

text \<open>A proof of a client: the circuit it names, then the check of the prover for the public inputs.\<close>

definition assertClientProof ::
  "'c services \<Rightarrow> ProofMeta \<Rightarrow> string \<Rightarrow> string \<Rightarrow> ContractPublicInput list \<Rightarrow> ('c server, unit) act" where
  "assertClientProof e pf circuitId message inputs =
     seqA (pureA (failIf (pm_circuitId pf \<noteq> circuitId) message))
     (bindA (pureA (contractPublicInputHash (sr_host e) inputs)) (\<lambda>hash.
        on_prover (assertBoundProof (sr_prover e) pf circuitId hash)))"

text \<open>\<open>accountEventFor\<close>: an event for the owner of the position, if he has a key.\<close>

definition position_event :: "(PositionLifecycleRecord \<Rightarrow> string \<Rightarrow> AccountEventRecord result) \<Rightarrow> Hex \<Rightarrow> Hex
    \<Rightarrow> ('c server, AccountEventRecord option) act" where
  "position_event create commitment nullifier = from_store (\<lambda>s.
     case positionFor commitment nullifier s of
       None \<Rightarrow> Inr None
     | Some position \<Rightarrow>
         (case accountEncryptionKey (plr_ownerCommitment position) s of
            None \<Rightarrow> Inr None
          | Some key \<Rightarrow> if aek_publicKey key = [] then Inr None
              else bindE (create position (aek_publicKey key)) (\<lambda>event. Inr (Some event))))"

definition add_event :: "AccountEventRecord option \<Rightarrow> ('c server, unit) act" where
  "add_event event = (case event of None \<Rightarrow> returnA () | Some r \<Rightarrow> on_store (addAccountEvent r))"

subsection \<open>liquidations.service.ts\<close>

definition liquidation_evidence :: "RelayedTx list option \<Rightarrow> LiquidationRecord \<Rightarrow> LiquidationRecord" where
  "liquidation_evidence result r =
     r\<lparr>lr_proofVerificationTxHash := or_kept (relay_hash result ''verify_and_record'') (lr_proofVerificationTxHash r),
       lr_settlementTxHash := or_kept (relay_hash result ''liquidate'') (lr_settlementTxHash r)\<rparr>"

definition validatePublicState :: "'c services \<Rightarrow> string \<Rightarrow> int \<Rightarrow> int \<Rightarrow> Hex \<Rightarrow> ('c server, unit) act" where
  "validatePublicState e marketId markPrice maintenanceRate rt =
     bindA (market_config marketId) (\<lambda>market.
     bindA (currentMarkPrice e marketId (mc_oraclePrice market)) (\<lambda>current.
     stepsA
       [pureA (failIf (markPrice \<noteq> current) ''liquidation mark price mismatch''),
        pureA (failIf (maintenanceRate \<noteq> mc_maintenanceMarginRate market)
          ''liquidation maintenance rate mismatch''),
        assert_recognized_root e rt]))"

text \<open>From \<open>accountEventFor\<close> on, the same in both calls.\<close>

definition commitLiquidation ::
  "'c services \<Rightarrow> int \<Rightarrow> int \<Rightarrow> LiquidationRecord \<Rightarrow> ('c server, LiquidationRecord) act" where
  "commitLiquidation e now1 now2 r =
     bindA (position_event (\<lambda>position key. createLiquidationAccountEvent (sr_host e) (sr_encrypt e) r position key now1)
         (lr_positionCommitment r) (lr_positionNullifier r)) (\<lambda>event.
     bindA (relayed e (\<lambda>c. cp_liquidate c r)) (\<lambda>relay.
     let committed = liquidation_evidence relay r in
     seqA (stepsA
       [pureA (assertSubmittedSettlementRelay e relay ''liquidate''),
        on_store (recordProof (lr_proof committed)),
        on_store (addLiquidation now2 committed),
        add_event event])
     (returnA committed)))"

definition liquidations_create ::
  "'c services \<Rightarrow> int \<Rightarrow> int \<Rightarrow> LiquidationWitness \<Rightarrow> ('c server, LiquidationRecord) act" where
  "liquidations_create e now1 now2 input =
     seqA (validatePublicState e (lw_marketId input) (lw_markPrice input) (lw_maintenanceRate input)
         (lw_positionRoot input))
     (bindA (market_config (lw_marketId input)) (\<lambda>market.
     seqA (pureA (assertFundingPayment (lw_fundingPayment input) (lw_side input) (lw_size input)
         (mc_fundingIndex market) (lw_fundingIndex input)))
     (bindA (on_prover (proveLiquidation (sr_prover e) input)) (commitLiquidation e now1 now2))))"

definition liquidation_public_inputs :: "LiquidationRecord \<Rightarrow> ContractPublicInput list" where
  "liquidation_public_inputs r =
     [PublicU128 (lr_markPrice r), PublicU128 (lr_maintenanceRate r), PublicU128 PRICE_SCALE,
      PublicU128 RATE_SCALE, PublicField (lr_positionRoot r), PublicField (lr_positionCommitment r),
      PublicField (lr_positionNullifier r), PublicField (lr_rewardCommitment r)]"

definition liquidations_createProven ::
  "'c services \<Rightarrow> int \<Rightarrow> int \<Rightarrow> LiquidationRecord \<Rightarrow> ('c server, LiquidationRecord) act" where
  "liquidations_createProven e now1 now2 input =
     seqA (stepsA
       [validatePublicState e (lr_marketId input) (lr_markPrice input) (lr_maintenanceRate input)
          (lr_positionRoot input),
        assertClientProof e (lr_proof input) ''liquidation-check'' ''liquidation proof circuit mismatch''
          (liquidation_public_inputs input)])
     (commitLiquidation e now1 now2 input)"

subsection \<open>position-closes.service.ts: one close\<close>

record PositionCloseContext =
  pcx_fundingIndex :: string
  pcx_marketId :: string
  pcx_markPrice :: string
  pcx_membershipProof :: FieldMerkleProof
  pcx_positionRoot :: Hex

definition closes_context ::
  "'c services \<Rightarrow> Hex \<Rightarrow> Hex \<Rightarrow> string option \<Rightarrow> ('c server, PositionCloseContext) act" where
  "closes_context e owner commitment authenticated =
     seqA (pureA (assertAuthenticatedOwnerCommitment (sr_host e) authenticated (Some owner) ''ownerCommitment''))
     (bindA (from_store (\<lambda>s.
        case find (\<lambda>p. plr_positionCommitment p = commitment) (positionsFor (sr_host e) owner s) of
          None \<Rightarrow> throw ''position not found''
        | Some position \<Rightarrow>
            if plr_status position \<noteq> PositionOpen then throw ''position is not open''
            else bindE (positionMembershipProof (sr_host e) commitment s) (\<lambda>membership.
                 bindE (positionMembershipRoot (sr_host e) s) (\<lambda>rt.
                 if fmp_root membership \<noteq> rt then throw ''position root is not current''
                 else Inr (plr_marketId position, membership, rt))))) (\<lambda>(marketId, membership, rt).
      bindA (market_config marketId) (\<lambda>market.
      bindA (currentMarkPrice e (mc_marketId market) (mc_oraclePrice market)) (\<lambda>markPrice.
      returnA \<lparr>pcx_fundingIndex = int_str (mc_fundingIndex market), pcx_marketId = mc_marketId market,
                pcx_markPrice = int_str markPrice, pcx_membershipProof = membership,
                pcx_positionRoot = rt\<rparr>))))"

text \<open>The result also repeats the settlement hash as \<open>txHash\<close>, which is left out.\<close>

definition close_evidence :: "RelayedTx list option \<Rightarrow> string \<Rightarrow> PositionCloseRecord \<Rightarrow> PositionCloseRecord" where
  "close_evidence result settlementFunction r =
     r\<lparr>pcr_proofVerificationTxHash := or_kept (relay_hash result ''verify_and_record'') (pcr_proofVerificationTxHash r),
       pcr_settlementTxHash := or_kept (relay_hash result settlementFunction) (pcr_settlementTxHash r)\<rparr>"

definition assertMarkPrice :: "'c services \<Rightarrow> MarketConfig \<Rightarrow> int \<Rightarrow> ('c server, unit) act" where
  "assertMarkPrice e market markPrice =
     bindA (currentMarkPrice e (mc_marketId market) (mc_oraclePrice market)) (\<lambda>current.
       pureA (failIf (markPrice \<noteq> current) ''position close mark price mismatch''))"

definition closes_validate :: "'c services \<Rightarrow> PositionCloseWitness \<Rightarrow> ('c server, unit) act" where
  "closes_validate e input =
     bindA (market_config (pcw_marketId input)) (\<lambda>market. stepsA
       [assertMarkPrice e market (pcw_markPrice input),
        assert_recognized_root e (pcw_positionRoot input),
        pureA (assertFundingPayment (pcw_fundingPayment input) (pcw_side input) (pcw_size input)
          (mc_fundingIndex market) (pcw_fundingIndex input))])"

definition close_public_inputs :: "PositionCloseRecord \<Rightarrow> ContractPublicInput list" where
  "close_public_inputs r =
     [PublicU128 (pcr_markPrice r), PublicU128 PRICE_SCALE, PublicField (pcr_positionRoot r),
      PublicField (pcr_positionCommitment r), PublicField (pcr_positionNullifier r),
      PublicField (pcr_closeCommitment r), PublicField (pcr_newPositionCommitment r),
      PublicField (pcr_marginOutputCommitment r)]"

definition trigger_matches :: "PositionCloseRecord \<Rightarrow> ProtocolStore \<Rightarrow> bool" where
  "trigger_matches r s =
     (case mget (st_conditionalCloses s) (pcr_closeCommitment r) of
        None \<Rightarrow> False
      | Some trigger \<Rightarrow> cor_marketId trigger = pcr_marketId r
          \<and> cor_positionNullifier trigger = pcr_positionNullifier r \<and> cor_markPrice trigger = pcr_markPrice r)"

definition closes_validateProven :: "'c services \<Rightarrow> bool \<Rightarrow> PositionCloseRecord \<Rightarrow> ('c server, unit) act" where
  "closes_validateProven e requireConditionalTrigger input =
     bindA (market_config (pcr_marketId input)) (\<lambda>market. stepsA
       [assertMarkPrice e market (pcr_markPrice input),
        assert_recognized_root e (pcr_positionRoot input),
        from_store (\<lambda>s. failIf (requireConditionalTrigger \<and> \<not> trigger_matches input s)
          ''conditional close not triggered''),
        assertClientProof e (pcr_proof input) ''position-close'' ''position close proof circuit mismatch''
          (close_public_inputs input)])"

definition closes_prepare :: "'c services \<Rightarrow> PositionCloseWitness \<Rightarrow> ('c server, PositionCloseRecord) act" where
  "closes_prepare e input = seqA (closes_validate e input) (on_prover (provePositionClose (sr_prover e) input))"

definition close_event ::
  "'c services \<Rightarrow> int \<Rightarrow> PositionCloseRecord \<Rightarrow> ('c server, AccountEventRecord option) act" where
  "close_event e now r =
     position_event (\<lambda>position key. createPositionCloseAccountEvent (sr_host e) (sr_encrypt e) r position key now)
       (pcr_positionCommitment r) (pcr_positionNullifier r)"

text \<open>\<open>commit\<close> and \<open>commitManual\<close> differ in the call of the relay, its function and the call of the store.\<close>

definition commit_close :: "'c services \<Rightarrow> int \<Rightarrow> ('c chain_ports \<Rightarrow> PositionCloseRecord \<Rightarrow> ('c, RelayedTx list) act)
    \<Rightarrow> string \<Rightarrow> (PositionCloseRecord \<Rightarrow> (ProtocolStore, unit) act) \<Rightarrow> PositionCloseRecord
    \<Rightarrow> ('c server, PositionCloseRecord) act" where
  "commit_close e now call settlementFunction add r =
     bindA (close_event e now r) (\<lambda>event.
     bindA (relayed e (\<lambda>c. call c r)) (\<lambda>relay.
     let committed = close_evidence relay settlementFunction r in
     seqA (stepsA
       [pureA (assertSubmittedSettlementRelay e relay settlementFunction),
        on_store (recordProof (pcr_proof committed)),
        on_store (add committed),
        add_event event])
     (returnA committed)))"

definition closes_commit :: "'c services \<Rightarrow> int \<Rightarrow> int \<Rightarrow> PositionCloseRecord
    \<Rightarrow> ('c server, PositionCloseRecord) act" where
  "closes_commit e now1 now2 =
     commit_close e now1 cp_settlePositionClose ''settle'' (addPositionClose (sr_host e) now2)"

definition closes_commitManual :: "'c services \<Rightarrow> int \<Rightarrow> int \<Rightarrow> PositionCloseRecord
    \<Rightarrow> ('c server, PositionCloseRecord) act" where
  "closes_commitManual e now1 now2 =
     commit_close e now1 cp_settleManualPositionClose ''settle_manual'' (addManualPositionClose (sr_host e) now2)"

definition refuse_vault_backed :: "'c services \<Rightarrow> ('c server, unit) act" where
  "refuse_vault_backed e = pureA (failIf (truthy_str (sr_makerWalletAddress e) \<and> onchain_enabled e)
     ''vault-backed closes require the proven close route'')"

definition closes_create ::
  "'c services \<Rightarrow> int \<Rightarrow> int \<Rightarrow> PositionCloseWitness \<Rightarrow> ('c server, PositionCloseRecord) act" where
  "closes_create e now1 now2 input =
     seqA (refuse_vault_backed e) (bindA (closes_prepare e input) (closes_commit e now1 now2))"

definition closes_createManual ::
  "'c services \<Rightarrow> int \<Rightarrow> int \<Rightarrow> PositionCloseWitness \<Rightarrow> ('c server, PositionCloseRecord) act" where
  "closes_createManual e now1 now2 input =
     seqA (refuse_vault_backed e) (bindA (closes_prepare e input) (closes_commitManual e now1 now2))"

definition assertCloseOwner ::
  "'c services \<Rightarrow> PositionCloseRecord \<Rightarrow> string option \<Rightarrow> ('c server, unit) act" where
  "assertCloseOwner e r authenticated = from_store (\<lambda>s.
     case positionFor (pcr_positionCommitment r) (pcr_positionNullifier r) s of
       None \<Rightarrow> throw ''position is not open''
     | Some position \<Rightarrow>
         if plr_positionCommitment position \<noteq> pcr_positionCommitment r
             \<or> plr_positionNullifier position \<noteq> pcr_positionNullifier r
             \<or> plr_status position \<noteq> PositionOpen
           then throw ''position is not open''
         else assertAuthenticatedOwnerCommitment (sr_host e) authenticated (Some (plr_ownerCommitment position))
           ''position owner'')"

subsection \<open>vault-maker-pair.ts: preparePairedMakerClose\<close>

record PairedCloseInput =
  pci_fundingIndex :: int
  pci_makerNote :: StoredMakerNote
  pci_makerPosition :: PositionLifecycleRecord
  pci_markPrice :: int
  pci_traderCloseCommitment :: Hex

text \<open>The note of the position, and the note of size zero that takes its place.\<close>

definition maker_position_note :: "PositionLifecycleRecord \<Rightarrow> PositionOpeningAccountEventPayload \<Rightarrow> nat \<Rightarrow> PositionNote" where
  "maker_position_note p opening index =
     \<lparr>pn_marketId = plr_marketId p, pn_side = pop_side opening, pn_size = pop_size opening,
      pn_entryPrice = pop_entryPrice opening, pn_margin = pop_margin opening,
      pn_fundingIndex = pop_fundingIndex opening, pn_owner = plr_ownerCommitment p,
      pn_rho = plr_sourceIntentCommitment p @ '':position:'' @ nat_str 10 index,
      pn_blinding = plr_sourceIntentCommitment p @ '':blinding:'' @ nat_str 10 index\<rparr>"

definition maker_closed_note :: "PositionLifecycleRecord \<Rightarrow> PositionOpeningAccountEventPayload \<Rightarrow> PositionNote" where
  "maker_closed_note p opening =
     \<lparr>pn_marketId = plr_marketId p, pn_side = pop_side opening, pn_size = 0,
      pn_entryPrice = pop_entryPrice opening, pn_margin = 0, pn_fundingIndex = pop_fundingIndex opening,
      pn_owner = plr_ownerCommitment p, pn_rho = plr_positionNullifier p @ '':closed-position-rho'',
      pn_blinding = plr_positionNullifier p @ '':closed-position-blinding''\<rparr>"

definition maker_original :: "host \<Rightarrow> ProtocolStore \<Rightarrow> PositionLifecycleRecord
    \<Rightarrow> (PositionOpeningAccountEventPayload \<times> CircuitPositionNote) result" where
  "maker_original h s p =
     bindE (reconstructPositionOpening h s p) (\<lambda>found. case found of
         None \<Rightarrow> throw ''vault maker position opening cannot be reconstructed''
       | Some opening \<Rightarrow>
           (case settlement_by_digest s (plr_settlementDigest p) of
              None \<Rightarrow> throw ''vault maker position is missing from its settlement''
            | Some settlement \<Rightarrow>
                (case indexOf (plr_positionCommitment p) (bs_newCommitments settlement) of
                   None \<Rightarrow> throw ''vault maker position is missing from its settlement''
                 | Some index \<Rightarrow>
                     bindE (createCircuitPositionNote h (maker_position_note p opening index)
                         (plr_ownerCommitment p @ '':'' @ pn_rho (maker_position_note p opening index))) (\<lambda>original.
                     if cpn_commitment original \<noteq> plr_positionCommitment p
                         \<or> cpn_positionNullifier original \<noteq> plr_positionNullifier p
                       then throw ''vault maker witness does not match the recorded position''
                     else Inr (opening, original)))))"

definition paired_settlement_input :: "PositionOpeningAccountEventPayload \<Rightarrow> int \<Rightarrow> int \<Rightarrow> CloseSettlementInput" where
  "paired_settlement_input opening markPrice payment =
     \<lparr>csi_side = pop_side opening, csi_closeSize = pop_size opening, csi_entryPrice = pop_entryPrice opening,
      csi_markPrice = markPrice, csi_margin = pop_margin opening, csi_fundingPayment = payment, csi_fee = 0\<rparr>"

definition paired_funding :: "PositionOpeningAccountEventPayload \<Rightarrow> int \<Rightarrow> int" where
  "paired_funding opening fundingIndex =
     (pop_size opening * (fundingIndex - pop_fundingIndex opening)) sdiv PRICE_SCALE
       * (if pop_side opening = Long then 1 else - 1)"

definition paired_witness :: "PairedCloseInput \<Rightarrow> PositionOpeningAccountEventPayload \<Rightarrow> CircuitPositionNote
    \<Rightarrow> FieldMerkleProof \<Rightarrow> Hex \<Rightarrow> int \<Rightarrow> CircuitPositionNote \<Rightarrow> Hex \<Rightarrow> Hex \<Rightarrow> Hex \<Rightarrow> Hex \<Rightarrow> PositionCloseWitness" where
  "paired_witness i opening original membership rt newMargin newPosition closeCommitment output rhoDigest blinding =
     \<lparr>pcw_marketId = plr_marketId (pci_makerPosition i),
      pcw_positionCommitment = plr_positionCommitment (pci_makerPosition i),
      pcw_positionNullifier = plr_positionNullifier (pci_makerPosition i), pcw_positionRoot = rt,
      pcw_closeCommitment = closeCommitment, pcw_side = pop_side opening, pcw_size = pop_size opening,
      pcw_closeSize = pop_size opening, pcw_entryPrice = pop_entryPrice opening,
      pcw_markPrice = pci_markPrice i, pcw_margin = pop_margin opening,
      pcw_fundingIndex = pop_fundingIndex opening,
      pcw_fundingPayment = paired_funding opening (pci_fundingIndex i), pcw_fee = 0, pcw_newMargin = newMargin,
      pcw_remainingMargin = 0, pcw_marginOutputAmount = newMargin,
      pcw_newPositionCommitment = cpn_commitment newPosition, pcw_marginOutputCommitment = output,
      pcw_marketDigest = cpn_marketDigest original, pcw_ownerDigest = cpn_ownerDigest original,
      pcw_rhoDigest = cpn_rhoDigest original, pcw_blinding = cpn_blinding original,
      pcw_spendSecretDigest = cpn_spendSecretDigest original,
      pcw_newPositionRhoDigest = cpn_rhoDigest newPosition,
      pcw_newPositionBlinding = cpn_blinding newPosition,
      pcw_marginOutputAssetDigest = note_string (mget (pci_makerNote i) ''assetDigest''),
      pcw_marginOutputRhoDigest = rhoDigest, pcw_marginOutputBlinding = blinding,
      pcw_pathIndices = fmp_indices membership, pcw_pathSiblings = fmp_siblings membership\<rparr>"

text \<open>All that is computed before the prover is called.\<close>

definition pairedCloseWitness ::
  "host \<Rightarrow> ProtocolStore \<Rightarrow> PairedCloseInput \<Rightarrow> PositionCloseWitness result" where
  "pairedCloseWitness h s i =
     (let p = pci_makerPosition i in
      bindE (maker_original h s p) (\<lambda>(opening, original).
      bindE (positionMembershipProof h (plr_positionCommitment p) s) (\<lambda>membership.
      bindE (positionMembershipRoot h s) (\<lambda>rt.
      bindE (failIf (fmp_root membership \<noteq> rt) ''vault maker position root is not current'') (\<lambda>_.
      bindE (settleClose (paired_settlement_input opening (pci_markPrice i)
          (paired_funding opening (pci_fundingIndex i)))) (\<lambda>settled.
      bindE (failIf (cs_newMargin settled \<le> 0) ''vault maker position requires liquidation'') (\<lambda>_.
      bindE (createCircuitPositionNote h (maker_closed_note p opening)
          (plr_ownerCommitment p @ '':'' @ plr_positionNullifier p @ '':closed-position-spend'')) (\<lambda>newPosition.
      bindE (digestToFieldHex h (''vault-maker-close-rho:'' @ plr_positionNullifier p)) (\<lambda>rhoDigest.
      bindE (digestToFieldHex h (''vault-maker-close-blinding:'' @ plr_positionNullifier p)) (\<lambda>blinding.
      bindE (circuitMarginCommitment h
          \<lparr>cmn_amount = cs_newMargin settled,
           cmn_assetDigest = note_string (mget (pci_makerNote i) ''assetDigest''), cmn_blinding = blinding,
           cmn_ownerDigest = cpn_ownerDigest original, cmn_rhoDigest = rhoDigest,
           cmn_spendSecretDigest = ''0x0''\<rparr>) (\<lambda>output.
      let closeCommitment = hashFields h ''vault-maker-close''
            [JStr (plr_positionCommitment p), JStr (pci_traderCloseCommitment i)]
      in Inr (paired_witness i opening original membership rt (cs_newMargin settled) newPosition
                closeCommitment output rhoDigest blinding))))))))))))"

definition paired_note :: "int \<Rightarrow> PairedCloseInput \<Rightarrow> PositionCloseWitness \<Rightarrow> Hex \<Rightarrow> StoredMakerNote" where
  "paired_note now i w noteNullifier =
     [(''amount'', NoteStr (int_str (pcw_newMargin w))), (''assetDigest'', NoteStr (pcw_marginOutputAssetDigest w)),
      (''blinding'', NoteStr (pcw_marginOutputBlinding w)),
      (''commitment'', NoteStr (pcw_marginOutputCommitment w)), (''createdAt'', NoteNum now),
      (''noteNullifier'', NoteStr noteNullifier),
      (''ownerCommitment'', NoteStr (plr_ownerCommitment (pci_makerPosition i))),
      (''ownerDigest'', NoteStr (pcw_ownerDigest w)), (''rhoDigest'', NoteStr (pcw_marginOutputRhoDigest w)),
      (''spendSecretDigest'', NoteStr ''0x0''),
      (''walletAddress'', NoteStr (note_string (mget (pci_makerNote i) ''walletAddress''))),
      (''closePositionCommitment'', NoteStr (plr_positionCommitment (pci_makerPosition i))),
      (''closeCommitment'', NoteStr (pcw_closeCommitment w))]"

definition preparePairedMakerClose ::
  "'c services \<Rightarrow> int \<Rightarrow> PairedCloseInput \<Rightarrow> ('c server, PositionCloseRecord \<times> StoredMakerNote) act" where
  "preparePairedMakerClose e now i =
     bindA (from_store (\<lambda>s. pairedCloseWitness (sr_host e) s i)) (\<lambda>w.
     bindA (on_prover (provePositionClose (sr_prover e) w)) (\<lambda>close.
     bindA (pureA (circuitNullifier (sr_host e) (pcw_marginOutputRhoDigest w) ''0x0'')) (\<lambda>noteNullifier.
     returnA (close, paired_note now i w noteNullifier))))"

subsection \<open>position-closes.service.ts: a close with its maker\<close>

text \<open>\<open>settlement?.newCommitments.indexOf(c) ?? -1\<close> and the record of the partner: \<open>None\<close> if the index is -1.\<close>

definition settlement_partner ::
  "ProtocolStore \<Rightarrow> PositionLifecycleRecord \<Rightarrow> Hex \<Rightarrow> PositionLifecycleRecord option option" where
  "settlement_partner s p commitment =
     (case settlement_by_digest s (plr_settlementDigest p) of
        None \<Rightarrow> None
      | Some settlement \<Rightarrow>
          (case indexOf commitment (bs_newCommitments settlement) of
             None \<Rightarrow> None
           | Some index \<Rightarrow> Some
               (case item (bs_newCommitments settlement) (partner_index index) of
                  None \<Rightarrow> None | Some c \<Rightarrow> mget (st_positionLifecycle s) c)))"

text \<open>Up to the deployment: the position of a trader whose partner is the maker, or nothing to do here.\<close>

definition traderOfMaker :: "host \<Rightarrow> string \<Rightarrow> PositionCloseRecord \<Rightarrow> ProtocolStore
    \<Rightarrow> PositionLifecycleRecord option result" where
  "traderOfMaker h maker trader s =
     (case positionFor (pcr_positionCommitment trader) (pcr_positionNullifier trader) s of
        None \<Rightarrow> throw ''position not found''
      | Some p \<Rightarrow>
          let partner = settlement_partner s p (pcr_positionCommitment trader) in
          if plr_ownerCommitment p = ownerCommitment h maker then
            (case partner of
               None \<Rightarrow> Inr None
             | Some None \<Rightarrow> throw ''paired trader position is missing''
             | Some (Some paired) \<Rightarrow>
                 if plr_status paired = PositionOpen
                 then throw ''vault maker position closes with its paired trader'' else Inr None)
          else
            (case partner of
               None \<Rightarrow> Inr None
             | Some None \<Rightarrow> throw ''paired position is missing''
             | Some (Some paired) \<Rightarrow>
                 if plr_ownerCommitment paired \<noteq> ownerCommitment h maker then Inr None else Inr (Some p)))"

record PairedSetup =
  pst_collateral :: string
  pst_contracts :: "(string, string) jsmap"
  pst_maker :: string
  pst_trader :: PositionLifecycleRecord
  pst_vault :: string

definition pairedSetup :: "'c services \<Rightarrow> PositionCloseRecord \<Rightarrow> ('c server, PairedSetup option) act" where
  "pairedSetup e trader =
     (if \<not> truthy_str (sr_makerWalletAddress e) \<or> \<not> onchain_enabled e then returnA None
      else let maker = normalizeAddress (the (sr_makerWalletAddress e)) in
        bindA (from_store (traderOfMaker (sr_host e) maker trader)) (\<lambda>found. case found of
            None \<Rightarrow> returnA None
          | Some p \<Rightarrow>
              if \<not> truthy_str (sr_stellarDeploymentFile e) then throwA ''vault maker deployment is unavailable''
              else bindA (on_outside (np_loadDeploymentRegistry (sr_notes e) (the (sr_stellarDeploymentFile e))))
                (\<lambda>deployment.
                let contracts = nullish deployment []; vault = mget contracts ''liquidity-vault'' in
                if \<not> truthy_str vault \<or> \<not> truthy_str (sr_collateralTokenContract e)
                    \<or> \<not> truthy_str (sr_mongodbUri e)
                  then throwA ''vault maker close configuration is unavailable''
                else returnA (Some \<lparr>pst_collateral = the (sr_collateralTokenContract e),
                  pst_contracts = contracts, pst_maker = maker, pst_trader = p, pst_vault = the vault\<rparr>))))"

text \<open>After the notes and allocations are read: the close of the maker and the note that it pays out.\<close>

record PairedPrepared =
  ppd_close :: PositionCloseRecord
  ppd_makerPosition :: PositionLifecycleRecord
  ppd_note :: StoredMakerNote

definition pairedPrepare :: "'c services \<Rightarrow> int \<Rightarrow> int \<Rightarrow> PositionCloseRecord \<Rightarrow> PairedSetup
    \<Rightarrow> StoredMakerNote list \<Rightarrow> VaultMakerAllocation list \<Rightarrow> ('c server, PairedPrepared option) act" where
  "pairedPrepare e now1 now2 trader setup notes allocations =
     bindA (from_store (\<lambda>s. vaultMakerPairForTrader (sr_host e) s
         \<lparr>vpi_allocations = allocations, vpi_asset = pst_collateral setup, vpi_maker = pst_maker setup,
          vpi_notes = notes, vpi_trader = pst_trader setup, vpi_vault = pst_vault setup\<rparr>)) (\<lambda>found. case found of
         None \<Rightarrow> returnA None
       | Some pair \<Rightarrow>
           bindA (market_config (pcr_marketId trader)) (\<lambda>market.
           bindA (preparePairedMakerClose e now1
               \<lparr>pci_fundingIndex = mc_fundingIndex market, pci_makerNote = vmp_makerNote pair,
                pci_makerPosition = vmp_makerPosition pair, pci_markPrice = pcr_markPrice trader,
                pci_traderCloseCommitment = pcr_closeCommitment trader\<rparr>) (\<lambda>(close, note).
           let paired = plr_positionCommitment (vmp_makerPosition pair);
               pool = mget (pst_contracts setup) ''shielded-pool'';
               source = (case mget (vmp_makerNote pair) ''source'' of None \<Rightarrow> [] | v \<Rightarrow> note_string v);
               full = note @ [(''token'', NoteStr (pst_collateral setup))]
                 @ (case pool of None \<Rightarrow> [] | Some c \<Rightarrow> [(''shieldedPool'', NoteStr c)])
                 @ [(''source'', NoteStr source), (''vaultAllocationId'', NoteStr (va_id (vmp_allocation pair))),
                    (''vaultParentCommitment'', NoteStr (commitment_string (vmp_makerNote pair))),
                    (''updatedAt'', NoteNum now2)]
           in seqA (stepsA
                [pureA (failIf (list_ex (\<lambda>n. mget n ''closePositionCommitment'' = Some (NoteStr paired)) notes)
                   ''vault maker close output already exists''),
                 pureA (failIf (\<not> truthy_str pool) ''vault maker close output is missing the shielded pool'')])
              (returnA (Some \<lparr>ppd_close = close, ppd_makerPosition = vmp_makerPosition pair,
                 ppd_note = full\<rparr>)))))"

text \<open>
  The relay and what follows it. If it fails, the pending note is deleted when the contract knows neither
  close; an error of these calls is dropped, and the error of the relay is thrown. \<open>catchA\<close> is
  \<open>try\<close> with a handler that gets the message.
\<close>

definition catchA :: "('s, 'a) act \<Rightarrow> (string \<Rightarrow> ('s, 'a) act) \<Rightarrow> ('s, 'a) act" where
  "catchA m handler s = (case m s of (Inl err, t) \<Rightarrow> handler err t | (Inr a, t) \<Rightarrow> (Inr a, t))"

definition deletePending :: "'c services \<Rightarrow> PositionCloseRecord \<Rightarrow> PairedPrepared \<Rightarrow> ('c server, unit) act" where
  "deletePending e trader d = (case sr_onchain e of
     None \<Rightarrow> returnA ()
   | Some c \<Rightarrow>
     bindA (on_outside (cp_isPositionCloseSettled c (pcr_closeCommitment trader))) (\<lambda>traderSettled.
       if traderSettled then returnA ()
       else bindA (on_outside (cp_isPositionCloseSettled c (pcr_closeCommitment (ppd_close d)))) (\<lambda>makerSettled.
         if makerSettled then returnA ()
         else on_outside (np_deleteUnsettledOutput (sr_notes e) (commitment_string (ppd_note d))
                (plr_positionCommitment (ppd_makerPosition d))))))"

definition pair_function :: "bool \<Rightarrow> string" where
  "pair_function conditional = (if conditional then ''settle_pair_conditional'' else ''settle_pair_manual'')"

definition pairedRelay :: "'c services \<Rightarrow> PositionCloseRecord \<Rightarrow> PairedPrepared \<Rightarrow> bool
    \<Rightarrow> ('c server, RelayedTx list option) act" where
  "pairedRelay e trader d conditional =
     catchA (bindA (relayed e (\<lambda>c. cp_settlePairedPositionClose c trader (ppd_close d) conditional)) (\<lambda>relay.
         seqA (pureA (assertSubmittedSettlementRelay e relay (pair_function conditional))) (returnA relay)))
       (\<lambda>err. seqA (catchA (deletePending e trader d) (\<lambda>_. returnA ())) (throwA err))"

text \<open>The hash of the second verification belongs to the maker.\<close>

definition maker_evidence :: "RelayedTx list option \<Rightarrow> bool \<Rightarrow> PositionCloseRecord \<Rightarrow> PositionCloseRecord" where
  "maker_evidence relay conditional r =
     (close_evidence relay (pair_function conditional) r)
       \<lparr>pcr_proofVerificationTxHash :=
          (case item (filter (\<lambda>t. rtx_functionName t = Some ''verify_and_record'' \<and> rtx_submitted t)
              (nullish relay [])) 1 of None \<Rightarrow> None | Some t \<Rightarrow> rtx_txHash t)\<rparr>"

definition reconcilePair :: "'c services \<Rightarrow> int \<Rightarrow> int \<Rightarrow> int \<Rightarrow> PositionCloseRecord \<Rightarrow> PositionCloseRecord
    \<Rightarrow> Hex \<Rightarrow> bool \<Rightarrow> ('c server, unit) act" where
  "reconcilePair e now1 now2 now3 trader maker output conditional =
     seqA (stepsA
       [on_store (recordProof (pcr_proof trader)),
        on_store (recordProof (pcr_proof maker)),
        on_store (addPairedPositionCloses (sr_host e) now1 now2 trader maker conditional)])
     (bindA (close_event e now3 trader) (\<lambda>event. stepsA
       [add_event event,
        on_outside (np_flush (sr_notes e)),
        on_outside (np_finalizeOutput (sr_notes e) output (pcr_settlementTxHash trader))]))"

definition pairedSettle :: "'c services \<Rightarrow> int \<Rightarrow> int \<Rightarrow> int \<Rightarrow> PositionCloseRecord \<Rightarrow> PairedPrepared \<Rightarrow> bool
    \<Rightarrow> ('c server, PositionCloseRecord) act" where
  "pairedSettle e now1 now2 now3 trader d conditional =
     bindA (pairedRelay e trader d conditional) (\<lambda>relay.
     let committedTrader = close_evidence relay (pair_function conditional) trader;
         committedMaker = maker_evidence relay conditional (ppd_close d)
     in seqA (catchA (reconcilePair e now1 now2 now3 committedTrader committedMaker
           (commitment_string (ppd_note d)) conditional) (\<lambda>_. returnA ()))
        (returnA committedTrader))"

text \<open>
  The whole call. At the awaits other calls run: after the reads, after the insertion and before
  \<open>commit\<close>, each as an arbitrary change of the server.
\<close>

record 'c meanwhile =
  mw_read :: "'c server \<Rightarrow> 'c server"
  mw_insert :: "'c server \<Rightarrow> 'c server"
  mw_await :: "'c server \<Rightarrow> 'c server"

record clock =
  clk_note :: int
  clk_updated :: int
  clk_trader :: int
  clk_maker :: int
  clk_event :: int

definition commitPairedVaultMaker :: "'c services \<Rightarrow> 'c meanwhile \<Rightarrow> clock \<Rightarrow> PositionCloseRecord \<Rightarrow> bool
    \<Rightarrow> ('c server, PositionCloseRecord option) act" where
  "commitPairedVaultMaker e other t trader conditional =
     bindA (pairedSetup e trader) (\<lambda>found. case found of
         None \<Rightarrow> returnA None
       | Some setup \<Rightarrow>
           bindA (on_outside (np_readMakerNotes (sr_notes e))) (\<lambda>notes.
           bindA (on_outside (np_readVaultMakerAllocations (sr_notes e))) (\<lambda>allocations.
           seqA (modifyA (mw_read other))
           (bindA (pairedPrepare e (clk_note t) (clk_updated t) trader setup notes allocations) (\<lambda>found.
              case found of
                None \<Rightarrow> returnA None
              | Some d \<Rightarrow>
                  seqA (on_outside (np_insertPendingMakerNote (sr_notes e) (ppd_note d)))
                  (seqA (modifyA (mw_insert other))
                  (bindA (pairedSettle e (clk_trader t) (clk_maker t) (clk_event t) trader d conditional) (\<lambda>r.
                     returnA (Some r)))))))))"

definition create_proven :: "'c services \<Rightarrow> 'c meanwhile \<Rightarrow> clock \<Rightarrow> bool \<Rightarrow> PositionCloseRecord \<Rightarrow> string option
    \<Rightarrow> (PositionCloseRecord \<Rightarrow> ('c server, PositionCloseRecord) act) \<Rightarrow> ('c server, PositionCloseRecord) act" where
  "create_proven e other t conditional input authenticated commit =
     seqA (stepsA [closes_validateProven e conditional input, assertCloseOwner e input authenticated])
     (bindA (commitPairedVaultMaker e other t input conditional) (\<lambda>settled.
      seqA (modifyA (mw_await other))
        (case settled of Some r \<Rightarrow> returnA r | None \<Rightarrow> commit input)))"

definition closes_createProven :: "'c services \<Rightarrow> 'c meanwhile \<Rightarrow> clock \<Rightarrow> PositionCloseRecord \<Rightarrow> string option
    \<Rightarrow> ('c server, PositionCloseRecord) act" where
  "closes_createProven e other t input authenticated =
     create_proven e other t True input authenticated (closes_commit e (clk_event t) (clk_trader t))"

definition closes_createManualProven :: "'c services \<Rightarrow> 'c meanwhile \<Rightarrow> clock \<Rightarrow> PositionCloseRecord \<Rightarrow> string option
    \<Rightarrow> ('c server, PositionCloseRecord) act" where
  "closes_createManualProven e other t input authenticated =
     create_proven e other t False input authenticated (closes_commitManual e (clk_event t) (clk_trader t))"

subsection \<open>conditional-orders.service.ts\<close>

definition conditional_evidence :: "RelayedTx list option \<Rightarrow> ConditionalOrderRecord \<Rightarrow> ConditionalOrderRecord" where
  "conditional_evidence result r =
     r\<lparr>cor_proofVerificationTxHash := or_kept (relay_hash result ''verify_and_record'') (cor_proofVerificationTxHash r),
       cor_triggerTxHash := or_kept (relay_hash result ''trigger'') (cor_triggerTxHash r)\<rparr>"

definition conditional_register :: "'c services \<Rightarrow> ConditionalOrderCommitment
    \<Rightarrow> ('c server, ConditionalOrderCommitment) act" where
  "conditional_register e input =
     bindA (relayed e (\<lambda>c. cp_registerConditionalOrder c input)) (\<lambda>relay.
     seqA (stepsA
       [pureA (assertSubmittedConditionalRelay e relay ''register''),
        on_store (addConditionalOrder input)])
     (returnA input))"

definition assertTriggerPrice :: "'c services \<Rightarrow> string \<Rightarrow> int \<Rightarrow> ('c server, unit) act" where
  "assertTriggerPrice e marketId markPrice =
     bindA (market_config marketId) (\<lambda>market.
     bindA (currentMarkPrice e (mc_marketId market) (mc_oraclePrice market)) (\<lambda>current.
       pureA (failIf (markPrice \<noteq> current) ''conditional close mark price mismatch'')))"

definition commit_trigger :: "'c services \<Rightarrow> ConditionalOrderRecord \<Rightarrow> ('c server, ConditionalOrderRecord) act" where
  "commit_trigger e r =
     bindA (relayed e (\<lambda>c. cp_triggerConditionalClose c r)) (\<lambda>relay.
     let committed = conditional_evidence relay r in
     seqA (stepsA
       [pureA (assertSubmittedConditionalRelay e relay ''trigger''),
        on_store (recordProof (cor_proof committed)),
        on_store (addConditionalClose committed)])
     (returnA committed))"

definition conditional_trigger ::
  "'c services \<Rightarrow> ConditionalOrderWitness \<Rightarrow> ('c server, ConditionalOrderRecord) act" where
  "conditional_trigger e input =
     seqA (assertTriggerPrice e (cow_marketId input) (cow_markPrice input))
     (bindA (pureA (commitConditionalOrder (sr_host e) input)) (\<lambda>closeCommitment.
      seqA (from_store (\<lambda>s. failIf (\<not> hasConditionalOrder closeCommitment s) ''conditional order not registered''))
      (bindA (on_prover (proveConditionalClose (sr_prover e) input)) (commit_trigger e))))"

definition conditional_triggerProven ::
  "'c services \<Rightarrow> ConditionalOrderRecord \<Rightarrow> ('c server, ConditionalOrderRecord) act" where
  "conditional_triggerProven e input =
     seqA (stepsA
       [assertTriggerPrice e (cor_marketId input) (cor_markPrice input),
        from_store (\<lambda>s. case mget (st_conditionalOrders s) (cor_closeCommitment input) of
            None \<Rightarrow> throw ''conditional order not registered''
          | Some registered \<Rightarrow> failIf (coc_marketId registered \<noteq> cor_marketId input
                \<or> coc_positionNullifier registered \<noteq> cor_positionNullifier input) ''conditional order mismatch''),
        assertClientProof e (cor_proof input) ''conditional-close'' ''conditional close proof circuit mismatch''
          [PublicU128 (cor_markPrice input), PublicField (cor_positionNullifier input),
           PublicField (cor_closeCommitment input)]])
     (commit_trigger e input)"

definition assertTriggerMatchesClose ::
  "ConditionalOrderWitness \<Rightarrow> PositionCloseWitness \<Rightarrow> Hex \<Rightarrow> unit result" where
  "assertTriggerMatchesClose trigger close closeCommitment = checksE
     [failIf (\<not> cow_reduceOnly trigger) ''conditional close must be reduce-only'',
      failIf (pcw_closeCommitment close \<noteq> closeCommitment) ''conditional close commitment mismatch'',
      failIf (cow_marketId trigger \<noteq> pcw_marketId close) ''conditional close market mismatch'',
      failIf (cow_positionNullifier trigger \<noteq> pcw_positionNullifier close)
        ''conditional close position mismatch'',
      failIf (cow_side trigger \<noteq> pcw_side close) ''conditional close side mismatch'',
      failIf (cow_markPrice trigger \<noteq> pcw_markPrice close) ''conditional close mark price mismatch'',
      failIf (cow_size trigger \<noteq> pcw_closeSize close) ''conditional close size mismatch'',
      failIf (pcw_closeSize close \<le> 0 \<or> pcw_closeSize close > pcw_size close) ''invalid close size'']"

definition conditional_execute :: "'c services \<Rightarrow> int \<Rightarrow> int \<Rightarrow> ConditionalOrderWitness \<Rightarrow> PositionCloseWitness
    \<Rightarrow> ('c server, ConditionalOrderRecord \<times> PositionCloseRecord) act" where
  "conditional_execute e now1 now2 trigger close =
     bindA (pureA (commitConditionalOrder (sr_host e) trigger)) (\<lambda>closeCommitment.
     seqA (pureA (assertTriggerMatchesClose trigger close closeCommitment))
     (bindA (closes_prepare e close) (\<lambda>positionClose.
      bindA (conditional_trigger e trigger) (\<lambda>conditionalClose.
      bindA (closes_commit e now1 now2 positionClose) (\<lambda>committed.
      returnA (conditionalClose, committed))))))"

subsection \<open>liquidation-automation.service.ts\<close>

definition liquidationJobId :: "host \<Rightarrow> LiquidationRecord \<Rightarrow> Hex" where
  "liquidationJobId h r = hashFields h ''liquidation-automation-job''
     [JStr (lr_marketId r), JStr (lr_positionCommitment r), JStr (lr_positionNullifier r),
      JStr (lr_rewardCommitment r), JStr (pm_proofDigest (lr_proof r))]"

definition automation_enqueue ::
  "'c services \<Rightarrow> int \<Rightarrow> LiquidationRecord \<Rightarrow> ('c server, LiquidationAutomationJobRecord) act" where
  "automation_enqueue e now r =
     (let job = \<lparr>laj_createdAt = now, laj_executedAt = None, laj_failedAt = None,
            laj_jobId = liquidationJobId (sr_host e) r, laj_liquidation = r, laj_marketId = lr_marketId r,
            laj_positionCommitment = lr_positionCommitment r, laj_positionNullifier = lr_positionNullifier r,
            laj_reason = None, laj_rewardCommitment = lr_rewardCommitment r, laj_status = JobPending,
            laj_updatedAt = now\<rparr>
      in seqA (on_store (addLiquidationAutomationJob job)) (returnA job))"

definition byJob :: "host \<Rightarrow> LiquidationAutomationJobRecord \<Rightarrow> LiquidationAutomationJobRecord \<Rightarrow> int" where
  "byJob h a b =
     (if laj_createdAt a - laj_createdAt b \<noteq> 0 then laj_createdAt a - laj_createdAt b
      else localeCompare h (laj_jobId a) (laj_jobId b))"

definition automation_list :: "host \<Rightarrow> ProtocolStore \<Rightarrow> LiquidationAutomationJobRecord list" where
  "automation_list h s = js_sort (byJob h) (mvalues (st_liquidationAutomationJobs s))"

definition isStaleLiquidationReason :: "string \<Rightarrow> bool" where
  "isStaleLiquidationReason reason =
     list_ex (str_includes reason)
       [''liquidation mark price mismatch'', ''liquidation maintenance rate mismatch'',
        ''position root is not current'']"

record LiquidationAutomationJobResult =
  ljr_job :: LiquidationAutomationJobRecord
  ljr_reason :: "string option"
  ljr_status :: LiquidationAutomationJobStatus

text \<open>
  \<open>runJob\<close>: an error of the store in the \<open>try\<close> is a reason like any other; one in the handler is thrown
  on. The clock gives the times of a job: of the liquidation, then of its record.
\<close>

definition executed_job :: "int \<Rightarrow> int \<Rightarrow> LiquidationAutomationJobRecord \<Rightarrow> LiquidationAutomationJobRecord" where
  "executed_job now1 now2 job = job\<lparr>laj_executedAt := Some now1, laj_status := JobExecuted, laj_updatedAt := now2\<rparr>"

definition failed_job :: "int \<Rightarrow> int \<Rightarrow> string \<Rightarrow> LiquidationAutomationJobRecord \<Rightarrow> LiquidationAutomationJobRecord" where
  "failed_job now1 now2 reason job =
     job\<lparr>laj_failedAt := Some now1, laj_reason := Some reason,
         laj_status := (if isStaleLiquidationReason reason then JobStale else JobFailed), laj_updatedAt := now2\<rparr>"

record job_clock =
  jck_event :: int
  jck_store :: int
  jck_done :: int
  jck_updated :: int

definition runJob :: "'c services \<Rightarrow> job_clock \<Rightarrow> LiquidationAutomationJobRecord
    \<Rightarrow> ('c server, LiquidationAutomationJobResult) act" where
  "runJob e t job =
     catchA
       (seqA (bindA (liquidations_createProven e (jck_event t) (jck_store t) (laj_liquidation job)) (\<lambda>_. returnA ()))
        (let updated = executed_job (jck_done t) (jck_updated t) job in
         seqA (on_store (updateLiquidationAutomationJob updated))
           (returnA \<lparr>ljr_job = updated, ljr_reason = None, ljr_status = JobExecuted\<rparr>)))
       (\<lambda>reason.
        let updated = failed_job (jck_done t) (jck_updated t) reason job in
        seqA (on_store (updateLiquidationAutomationJob updated))
          (returnA \<lparr>ljr_job = updated, ljr_reason = Some reason, ljr_status = laj_status updated\<rparr>))"

fun runJobs :: "'c services \<Rightarrow> (LiquidationAutomationJobRecord \<Rightarrow> job_clock) \<Rightarrow> LiquidationAutomationJobRecord list
    \<Rightarrow> ('c server, LiquidationAutomationJobResult list) act" where
  "runJobs e clock [] = returnA []"
| "runJobs e clock (job # jobs) =
     bindA (runJob e (clock job) job) (\<lambda>r. bindA (runJobs e clock jobs) (\<lambda>rs. returnA (r # rs)))"

text \<open>\<open>runOnce\<close> without the two times of its result; the service's timer calls it and drops the result.\<close>

definition pendingJobs :: "host \<Rightarrow> string option \<Rightarrow> ProtocolStore \<Rightarrow> LiquidationAutomationJobRecord list" where
  "pendingJobs h marketId s =
     filter (\<lambda>job. laj_status job = JobPending \<and> (\<not> truthy_str marketId \<or> Some (laj_marketId job) = marketId))
       (automation_list h s)"

definition automation_runOnce :: "'c services \<Rightarrow> (LiquidationAutomationJobRecord \<Rightarrow> job_clock) \<Rightarrow> string option
    \<Rightarrow> ('c server, LiquidationAutomationJobResult list) act" where
  "automation_runOnce e clock marketId =
     bindA (from_store (\<lambda>s. Inr (pendingJobs (sr_host e) marketId s))) (runJobs e clock)"

end
