(* ===== verification/Position_Properties.thy ===== *)
theory Position_Properties
  imports Position_Services Store_Invariant
begin

text \<open>
  The services that end positions, together: every change of the store is a run of calls of the store,
  positions change only after a settlement that was really submitted, also when other calls run at the
  awaits, and a run of the liquidation jobs leaves none behind. The common step is a contract for
  actions: what an action does to the state lies in a preorder (\<open>act_preorder\<close>).
\<close>

subsection \<open>Actions whose effect lies in a preorder\<close>

definition moves :: "('s \<Rightarrow> 's \<Rightarrow> bool) \<Rightarrow> ('s, 'a) act \<Rightarrow> bool" where
  "moves R m \<longleftrightarrow> (\<forall>s. R s (snd (m s)))"

lemma movesI: "(\<And>s. R s (snd (m s))) \<Longrightarrow> moves R m"
  by (simp add: moves_def)

lemma movesD: "moves R m \<Longrightarrow> R s (snd (m s))"
  by (simp add: moves_def)

lemma moves_mono: "moves Q m \<Longrightarrow> (\<And>s t. Q s t \<Longrightarrow> R s t) \<Longrightarrow> moves R m"
  by (simp add: moves_def)

lemma seqA_assoc: "seqA (seqA m n) k = seqA m (seqA n k)"
  by (rule ext) (simp add: seqA_def bindA_def split: prod.splits sum.splits)

lemma seqA_steps_Cons: "seqA (stepsA (m # ms)) n = seqA m (seqA (stepsA ms) n)"
  by (simp add: stepsA.simps(2) seqA_assoc)

locale act_preorder =
  fixes R :: "'s \<Rightarrow> 's \<Rightarrow> bool"
  assumes refl: "R s s" and trans: "R s t \<Longrightarrow> R t u \<Longrightarrow> R s u"
begin

lemma return: "moves R (returnA a)"
  by (simp add: moves_def returnA_def refl)

lemma throwing: "moves R (throwA err)"
  by (simp add: moves_def throwA_def refl)

lemma lift: "moves R (liftA f)"
  by (simp add: moves_def liftA_def refl)

lemma pure: "moves R (pureA r)"
  unfolding pureA_def by (rule lift)

lemma bind: "moves R m \<Longrightarrow> (\<And>a. moves R (f a)) \<Longrightarrow> moves R (bindA m f)"
proof (rule movesI)
  fix s assume m: "moves R m" and f: "\<And>a. moves R (f a)"
  obtain r t where run: "m s = (r, t)" by fastforce
  have first: "R s t" using movesD [OF m, of s] run by simp
  show "R s (snd (bindA m f s))"
  proof (cases r)
    case (Inr a)
    with run movesD [OF f [of a], of t] trans [OF first] show ?thesis by (simp add: bindA_def)
  qed (use run first in \<open>simp add: bindA_def\<close>)
qed

lemma seq: "moves R m \<Longrightarrow> moves R n \<Longrightarrow> moves R (seqA m n)"
  unfolding seqA_def by (rule bind)

lemma steps: "(\<And>m. m \<in> set ms \<Longrightarrow> moves R m) \<Longrightarrow> moves R (stepsA ms)"
  by (induction ms) (auto simp: stepsA.simps intro!: seq return)

lemma catching: "moves R m \<Longrightarrow> (\<And>err. moves R (handler err)) \<Longrightarrow> moves R (catchA m handler)"
proof (rule movesI)
  fix s assume m: "moves R m" and h: "\<And>err. moves R (handler err)"
  obtain r t where run: "m s = (r, t)" by fastforce
  have first: "R s t" using movesD [OF m, of s] run by simp
  show "R s (snd (catchA m handler s))"
  proof (cases r)
    case (Inl err)
    with run movesD [OF h [of err], of t] trans [OF first] show ?thesis by (simp add: catchA_def)
  qed (use run first in \<open>simp add: catchA_def\<close>)
qed

lemma option_case: "moves R m \<Longrightarrow> (\<And>x. moves R (f x)) \<Longrightarrow> moves R (case opt of None \<Rightarrow> m | Some x \<Rightarrow> f x)"
  by (cases opt) auto

lemma prod_case: "(\<And>x y. moves R (f x y)) \<Longrightarrow> moves R (case p of (x, y) \<Rightarrow> f x y)"
  by (cases p) auto

lemmas rules = return throwing lift pure bind seq steps catching

end

subsection \<open>The calls\<close>

text \<open>
  One call of one of the services, whether it returns or throws. While a proven close waits, other calls
  run, any number of them.
\<close>

inductive position_call :: "'c services \<Rightarrow> 'c server \<Rightarrow> 'c server \<Rightarrow> bool" for e where
  idle: "position_call e v v"
| more: "position_call e v u \<Longrightarrow> position_call e u w \<Longrightarrow> position_call e v w"
| liquidate: "position_call e v (snd (liquidations_create e n1 n2 lw v))"
| liquidate_proven: "position_call e v (snd (liquidations_createProven e n1 n2 lr v))"
| close: "position_call e v (snd (closes_create e n1 n2 cw v))"
| close_manual: "position_call e v (snd (closes_createManual e n1 n2 cw v))"
| close_proven: "(\<And>u. position_call e u (mw_read other u)) \<Longrightarrow> (\<And>u. position_call e u (mw_insert other u))
    \<Longrightarrow> (\<And>u. position_call e u (mw_await other u))
    \<Longrightarrow> position_call e v (snd (closes_createProven e other t cr authenticated v))"
| close_manual_proven: "(\<And>u. position_call e u (mw_read other u)) \<Longrightarrow> (\<And>u. position_call e u (mw_insert other u))
    \<Longrightarrow> (\<And>u. position_call e u (mw_await other u))
    \<Longrightarrow> position_call e v (snd (closes_createManualProven e other t cr authenticated v))"
| prepare: "position_call e v (snd (closes_prepare e cw v))"
| commit: "position_call e v (snd (closes_commit e n1 n2 cr v))"
| commit_manual: "position_call e v (snd (closes_commitManual e n1 n2 cr v))"
| register: "position_call e v (snd (conditional_register e coc v))"
| trigger: "position_call e v (snd (conditional_trigger e cow v))"
| trigger_proven: "position_call e v (snd (conditional_triggerProven e cor v))"
| execute: "position_call e v (snd (conditional_execute e n1 n2 cow cw v))"
| enqueue: "position_call e v (snd (automation_enqueue e n1 lr v))"
| run_jobs: "position_call e v (snd (automation_runOnce e clock marketId v))"

subsection \<open>What a call consists of\<close>

abbreviation store_part :: "'c server \<Rightarrow> ProtocolStore" where
  "store_part v \<equiv> ex_store (sv_executor v)"

definition with_store :: "ProtocolStore \<Rightarrow> 'c server \<Rightarrow> 'c server" where
  "with_store s v = v\<lparr>sv_executor := (sv_executor v)\<lparr>ex_store := s\<rparr>\<rparr>"

lemma with_store_simps [simp]:
  "store_part (with_store s v) = s" "sv_outside (with_store s v) = sv_outside v"
  by (simp_all add: with_store_def)

lemma snd_on_store: "snd (on_store m v) = with_store (snd (m (store_part v))) v"
  by (simp add: on_store_def store_call_def with_store_def split: prod.splits)

lemma snd_on_prover: "snd (on_prover m v) = v\<lparr>sv_prover := snd (m (sv_prover v))\<rparr>"
  by (simp add: on_prover_def split: prod.splits)

lemma snd_on_outside: "snd (on_outside m v) = v\<lparr>sv_outside := snd (m (sv_outside v))\<rparr>"
  by (simp add: on_outside_def split: prod.splits)

text \<open>The calls of the store that end no position.\<close>

inductive quiet_step :: "ProtocolStore \<Rightarrow> ProtocolStore \<Rightarrow> bool" where
  "quiet_step s (snd (recordProof p s))"
| "quiet_step s (snd (addConditionalOrder co s))"
| "quiet_step s (snd (addConditionalClose cc s))"
| "quiet_step s (snd (addAccountEvent ev s))"
| "quiet_step s (snd (addLiquidationAutomationJob j s))"
| "quiet_step s (snd (updateLiquidationAutomationJob j s))"

lemma quiet_store_step: "quiet_step s t \<Longrightarrow> store_step h s t"
  by (induction rule: quiet_step.induct) (rule store_step.intros)+

text \<open>A call of a port, and a run of such calls.\<close>

inductive outside_step :: "'c services \<Rightarrow> 'c \<Rightarrow> 'c \<Rightarrow> bool" for e where
  "sr_onchain e = Some c \<Longrightarrow> outside_step e o' (snd (cp_marketPrice c m o'))"
| "sr_onchain e = Some c \<Longrightarrow> outside_step e o' (snd (cp_liquidate c lr o'))"
| "sr_onchain e = Some c \<Longrightarrow> outside_step e o' (snd (cp_settlePositionClose c cr o'))"
| "sr_onchain e = Some c \<Longrightarrow> outside_step e o' (snd (cp_settleManualPositionClose c cr o'))"
| "sr_onchain e = Some c \<Longrightarrow> outside_step e o' (snd (cp_settlePairedPositionClose c cr cm b o'))"
| "sr_onchain e = Some c \<Longrightarrow> outside_step e o' (snd (cp_isPositionCloseSettled c d o'))"
| "sr_onchain e = Some c \<Longrightarrow> outside_step e o' (snd (cp_registerConditionalOrder c co o'))"
| "sr_onchain e = Some c \<Longrightarrow> outside_step e o' (snd (cp_triggerConditionalClose c cc o'))"
| "outside_step e o' (snd (np_loadDeploymentRegistry (sr_notes e) f o'))"
| "outside_step e o' (snd (np_readMakerNotes (sr_notes e) o'))"
| "outside_step e o' (snd (np_readVaultMakerAllocations (sr_notes e) o'))"
| "outside_step e o' (snd (np_insertPendingMakerNote (sr_notes e) n o'))"
| "outside_step e o' (snd (np_deleteUnsettledOutput (sr_notes e) a b' o'))"
| "outside_step e o' (snd (np_finalizeOutput (sr_notes e) a tx o'))"
| "outside_step e o' (snd (np_flush (sr_notes e) o'))"

text \<open>The relays that settle the end of a position, each with the function that the contract must have run.\<close>

inductive settlement_call :: "'c chain_ports \<Rightarrow> string \<Rightarrow> ('c, RelayedTx list) act \<Rightarrow> bool" for c where
  "settlement_call c ''liquidate'' (cp_liquidate c lr)"
| "settlement_call c ''settle'' (cp_settlePositionClose c cr)"
| "settlement_call c ''settle_manual'' (cp_settleManualPositionClose c cr)"
| "settlement_call c (pair_function b) (cp_settlePairedPositionClose c cr cm b)"

lemma settlement_outside: "sr_onchain e = Some c \<Longrightarrow> settlement_call c fn call \<Longrightarrow> outside_step e o' (snd (call o'))"
  by (erule settlement_call.cases) (auto intro: outside_step.intros)

text \<open>The result of such a relay in a state; there is none without a chain.\<close>

inductive relay_made :: "'c services \<Rightarrow> string \<Rightarrow> 'c server \<Rightarrow> RelayedTx list option \<Rightarrow> 'c server \<Rightarrow> bool" for e where
  none: "sr_onchain e = None \<Longrightarrow> relay_made e fn v None v"
| made: "sr_onchain e = Some c \<Longrightarrow> settlement_call c fn call \<Longrightarrow> call (sv_outside v) = (Inr txs, o')
    \<Longrightarrow> relay_made e fn v (Some txs) (v\<lparr>sv_outside := o'\<rparr>)"

text \<open>What may follow a settlement: any calls of the store and of the ports.\<close>

definition late :: "'c services \<Rightarrow> 'c server \<Rightarrow> 'c server \<Rightarrow> bool" where
  "late e v w \<longleftrightarrow> (store_step (sr_host e))\<^sup>*\<^sup>* (store_part v) (store_part w)
     \<and> (outside_step e)\<^sup>*\<^sup>* (sv_outside v) (sv_outside w)"

interpretation after: act_preorder "late e"
  by unfold_locales (auto simp: late_def)

lemma late_store: "(\<And>s. store_step (sr_host e) s (snd (m s))) \<Longrightarrow> moves (late e) (on_store m)"
  by (auto simp: moves_def late_def snd_on_store)

lemma late_outside: "(\<And>o'. outside_step e o' (snd (m o'))) \<Longrightarrow> moves (late e) (on_outside m)"
  by (auto simp: moves_def late_def snd_on_outside)

lemma late_event: "moves (late e) (add_event ev)"
  unfolding add_event_def by (auto split: option.split intro!: after.return late_store store_step.intros)

lemma late_position_event: "moves (late e) (position_event create c n)"
  unfolding position_event_def from_store_def by (rule after.lift)

lemmas late_rules = after.rules late_event late_position_event
  late_store [OF store_step.record_proof] late_store [OF store_step.add_liquidation]
  late_store [OF store_step.add_close] late_store [OF store_step.add_manual_close]
  late_store [OF store_step.add_paired_closes]

text \<open>A relay of a pair that returned was submitted.\<close>

lemma pairedRelay_submitted:
  assumes "pairedRelay e trader d b v = (Inr relay, w)"
  shows "relay_made e (pair_function b) v relay w
    \<and> assertSubmittedSettlementRelay e relay (pair_function b) = Inr ()"
proof -
  let ?call = "\<lambda>c. cp_settlePairedPositionClose c trader (ppd_close d) b"
  have "bindA (relayed e ?call) (\<lambda>relay.
      seqA (pureA (assertSubmittedSettlementRelay e relay (pair_function b))) (returnA relay)) v = (Inr relay, w)"
    using assms by (auto simp: pairedRelay_def catchA_def seqA_def bindA_def throwA_def split: prod.splits sum.splits)
  then obtain u where made: "relayed e ?call v = (Inr relay, u)" and w: "w = u"
      and ok: "assertSubmittedSettlementRelay e relay (pair_function b) = Inr ()"
    by (auto simp: bindA_Inr_iff seqA_Inr_iff pureA_def liftA_def returnA_def)
  have "relay_made e (pair_function b) v relay u"
  proof (cases "sr_onchain e")
    case None
    with made show ?thesis by (auto simp: relayed_def returnA_def intro: relay_made.none)
  next
    case (Some c)
    with made obtain txs o' where "?call c (sv_outside v) = (Inr txs, o')" "relay = Some txs" "u = v\<lparr>sv_outside := o'\<rparr>"
      by (auto simp: relayed_def bindA_Inr_iff on_outside_def returnA_def split: prod.splits)
    then show ?thesis using relay_made.made [OF Some settlement_call.intros(4)] by simp
  qed
  with ok w show ?thesis by simp
qed

lemma late_reconcile: "moves (late e) (reconcilePair e n1 n2 n3 trader maker output b)"
  unfolding reconcilePair_def close_event_def
  by (intro after.seq after.bind after.steps; auto intro!: late_rules late_outside outside_step.intros)

subsection \<open>The contract that every call meets\<close>

text \<open>
  A relation on servers is a contract of the calls when it is a preorder that holds of the elementary
  changes and of a settlement with what follows it.
\<close>

locale server_contract = act_preorder R for R :: "'c server \<Rightarrow> 'c server \<Rightarrow> bool" +
  fixes e :: "'c services"
  assumes quiet: "quiet_step (store_part v) s \<Longrightarrow> R v (with_store s v)"
    and prover: "R v (v\<lparr>sv_prover := p\<rparr>)"
    and outside: "outside_step e (sv_outside v) o' \<Longrightarrow> R v (v\<lparr>sv_outside := o'\<rparr>)"
    and settled: "relay_made e fn v relay u \<Longrightarrow> assertSubmittedSettlementRelay e relay fn = Inr ()
      \<Longrightarrow> late e u w \<Longrightarrow> R v w"
begin

lemma on_store: "(\<And>s. quiet_step s (snd (m s))) \<Longrightarrow> moves R (on_store m)"
  by (simp add: moves_def snd_on_store quiet)

lemma on_prover: "moves R (on_prover m)"
  by (simp add: moves_def snd_on_prover prover)

lemma on_outside: "(\<And>o'. outside_step e o' (snd (m o'))) \<Longrightarrow> moves R (on_outside m)"
  by (simp add: moves_def snd_on_outside outside)

lemma from_store: "moves R (from_store f)"
  unfolding from_store_def by (rule lift)

lemma relayed: "(\<And>c o'. sr_onchain e = Some c \<Longrightarrow> outside_step e o' (snd (call c o'))) \<Longrightarrow> moves R (relayed e call)"
  unfolding relayed_def by (auto split: option.split intro!: bind return on_outside)

lemma mark_price: "moves R (currentMarkPrice e m fallback)"
  unfolding currentMarkPrice_def by (auto split: option.split intro!: return on_outside outside_step.intros)

lemma market: "moves R (market_config m)"
  unfolding market_config_def by (rule from_store)

lemma root: "moves R (assert_recognized_root e rt)"
  unfolding assert_recognized_root_def by (rule from_store)

lemma client_proof: "moves R (assertClientProof e pf circuit message inputs)"
  unfolding assertClientProof_def by (intro seq pure bind on_prover)

lemma event: "moves R (position_event create c n)"
  unfolding position_event_def by (rule from_store)

lemma record_proof: "moves R (on_store (recordProof p))"
  by (rule on_store) (rule quiet_step.intros)

lemma add_event: "moves R (add_event ev)"
  unfolding add_event_def by (auto split: option.split intro!: return on_store quiet_step.intros)

lemmas calls = rules from_store mark_price market root client_proof event record_proof add_event on_prover

lemma settle:
  assumes call: "\<And>c. settlement_call c fn (call c)" and rest: "\<And>relay. moves (late e) (rest relay)"
  shows "moves R (bindA (relayed e call) (\<lambda>relay. seqA (pureA (assertSubmittedSettlementRelay e relay fn)) (rest relay)))"
proof (rule movesI)
  fix v
  let ?check = "\<lambda>relay. pureA (assertSubmittedSettlementRelay e relay fn)"
  have after_relay: "R v (snd (seqA (?check relay) (rest relay) u))"
    if made: "relay_made e fn v relay u" and u: "R v u" for relay u
  proof (cases "assertSubmittedSettlementRelay e relay fn")
    case (Inr a)
    then show ?thesis using settled [OF made _ movesD [OF rest]] by (simp add: pureA_def seqA_def bindA_def liftA_def)
  qed (use u in \<open>simp add: pureA_def seqA_def bindA_def liftA_def\<close>)
  show "R v (snd (bindA (relayed e call) (\<lambda>relay. seqA (?check relay) (rest relay)) v))"
  proof (cases "sr_onchain e")
    case None
    then show ?thesis using after_relay [OF relay_made.none refl] by (simp add: relayed_def bindA_def returnA_def)
  next
    case (Some c)
    obtain r o' where run: "call c (sv_outside v) = (r, o')" by fastforce
    have u: "R v (v\<lparr>sv_outside := o'\<rparr>)"
      using outside [OF settlement_outside [OF Some call]] run by (metis snd_conv)
    show ?thesis
    proof (cases r)
      case (Inl err)
      with Some run u show ?thesis by (simp add: relayed_def bindA_def on_outside_def)
    next
      case (Inr txs)
      with Some run after_relay [OF relay_made.made [OF Some call] u] show ?thesis
        by (simp add: relayed_def bindA_def on_outside_def returnA_def)
    qed
  qed
qed

lemma commit_liquidation: "moves R (commitLiquidation e n1 n2 r)"
  unfolding commitLiquidation_def Let_def seqA_steps_Cons
  by (intro bind event settle settlement_call.intros late_rules) (auto intro!: late_rules)

lemma commit_closing:
  assumes "\<And>c. settlement_call c fn (call c r)" and "\<And>a s. store_step (sr_host e) s (snd (add a s))"
  shows "moves R (commit_close e now call fn add r)"
  unfolding commit_close_def Let_def close_event_def seqA_steps_Cons
  by (intro bind event settle assms(1)) (auto intro!: late_rules late_store assms(2))

lemma commit: "moves R (closes_commit e n1 n2 r)" "moves R (closes_commitManual e n1 n2 r)"
  unfolding closes_commit_def closes_commitManual_def
  by (rule commit_closing; (rule settlement_call.intros store_step.add_close store_step.add_manual_close))+

lemma public_state: "moves R (validatePublicState e m p r rt)"
  unfolding validatePublicState_def by (intro bind market mark_price steps) (auto intro: calls)

lemma liquidations: "moves R (liquidations_create e n1 n2 lw)" "moves R (liquidations_createProven e n1 n2 lr)"
  unfolding liquidations_create_def liquidations_createProven_def
  by (intro seq bind steps; auto intro!: calls public_state commit_liquidation)+

lemma close_mark_price: "moves R (assertMarkPrice e m p)"
  unfolding assertMarkPrice_def by (intro bind mark_price pure)

lemma validate: "moves R (closes_validate e cw)" "moves R (closes_validateProven e b cr)"
  unfolding closes_validate_def closes_validateProven_def
  by (intro bind market steps; auto intro: calls close_mark_price)+

lemma prepare: "moves R (closes_prepare e cw)"
  unfolding closes_prepare_def by (intro seq validate on_prover)

lemma creates: "moves R (closes_create e n1 n2 cw)" "moves R (closes_createManual e n1 n2 cw)"
  unfolding closes_create_def closes_createManual_def refuse_vault_backed_def
  by (intro seq bind pure prepare commit)+

lemma conditional_price: "moves R (assertTriggerPrice e m p)"
  unfolding assertTriggerPrice_def by (intro bind market mark_price pure)

lemma commit_triggered: "moves R (commit_trigger e r)"
  unfolding commit_trigger_def Let_def
  by (intro bind relayed outside_step.intros seq steps) (auto intro!: calls on_store quiet_step.intros)

lemma conditionals: "moves R (conditional_register e co)" "moves R (conditional_trigger e cow)"
    "moves R (conditional_triggerProven e cor)"
  unfolding conditional_register_def conditional_trigger_def conditional_triggerProven_def
  by (intro bind relayed outside_step.intros seq steps;
      auto intro!: calls conditional_price commit_triggered on_store quiet_step.intros)+

lemma executes: "moves R (conditional_execute e n1 n2 cow cw)"
  unfolding conditional_execute_def by (intro bind seq pure prepare conditionals commit return)

lemma paired_setup: "moves R (pairedSetup e trader)"
  unfolding pairedSetup_def Let_def
  by (auto split: option.split intro!: bind calls on_outside outside_step.intros)

lemma prepare_maker: "moves R (preparePairedMakerClose e n i)"
  unfolding preparePairedMakerClose_def by (intro bind from_store on_prover pure return)

lemma paired_prepare: "moves R (pairedPrepare e n1 n2 trader setup notes allocations)"
  unfolding pairedPrepare_def Let_def stepsA.simps
  by (intro bind from_store option_case prod_case return market prepare_maker seq pure)

lemma paired_relay: "moves R (pairedRelay e trader d b)"
  unfolding pairedRelay_def deletePending_def
  by (intro catching settle settlement_call.intros after.return seq throwing)
    (auto split: option.split intro!: bind return on_outside outside_step.intros)

lemma paired_settle: "moves R (pairedSettle e n1 n2 n3 trader d b)"
proof (rule movesI)
  fix v
  obtain r w where run: "pairedRelay e trader d b v = (r, w)" by fastforce
  show "R v (snd (pairedSettle e n1 n2 n3 trader d b v))"
  proof (cases r)
    case (Inl err)
    then show ?thesis using movesD [OF paired_relay, of v trader d b] run by (simp add: pairedSettle_def bindA_def)
  next
    case (Inr relay)
    with run pairedRelay_submitted [of e trader d b v relay w] have
      made: "relay_made e (pair_function b) v relay w" "assertSubmittedSettlementRelay e relay (pair_function b) = Inr ()"
      by simp_all
    show ?thesis
      unfolding pairedSettle_def Let_def bindA_step(1) [where m = "pairedRelay e trader d b", OF run [unfolded Inr]]
      by (rule settled [OF made], rule movesD) (intro after.seq after.catching late_reconcile after.return)
  qed
qed

lemma modify: "(\<And>u. R u (f u)) \<Longrightarrow> moves R (modifyA f)"
  by (simp add: moves_def modifyA_def)

lemma proven:
  assumes "\<And>u. R u (mw_read other u)" "\<And>u. R u (mw_insert other u)" "\<And>u. R u (mw_await other u)"
  shows "moves R (closes_createProven e other t cr a)" "moves R (closes_createManualProven e other t cr a)"
proof -
  have paired: "moves R (commitPairedVaultMaker e other t cr b)" for b
    unfolding commitPairedVaultMaker_def
    by (intro bind paired_setup option_case return seq on_outside outside_step.intros modify assms
        paired_prepare paired_settle)
  have "moves R (assertCloseOwner e cr a)"
    unfolding assertCloseOwner_def by (rule from_store)
  then have all: "moves R (create_proven e other t b cr a f)" if "moves R (f cr)" for b f
    unfolding create_proven_def using that
    by (intro seq steps bind paired modify assms) (auto split: option.split intro: return validate)
  show "moves R (closes_createProven e other t cr a)" "moves R (closes_createManualProven e other t cr a)"
    unfolding closes_createProven_def closes_createManualProven_def by (rule all, rule commit)+
qed

lemma jobs: "moves R (automation_enqueue e n r)" "moves R (automation_runOnce e clock m)"
proof -
  show "moves R (automation_enqueue e n r)"
    unfolding automation_enqueue_def Let_def by (intro seq on_store quiet_step.intros return)
  have job: "moves R (runJob e t j)" for t j
    unfolding runJob_def Let_def by (intro catching seq bind liquidations on_store quiet_step.intros return)
  have "moves R (runJobs e clock js)" for js
    by (induction js) (auto intro!: return bind job)
  then show "moves R (automation_runOnce e clock m)"
    unfolding automation_runOnce_def by (intro bind from_store)
qed

lemma position_call: "position_call e v w \<Longrightarrow> R v w"
proof (induction rule: position_call.induct)
  case (close_proven other v t cr a)
  then show ?case by (intro movesD [OF proven(1)])
next
  case (close_manual_proven other v t cr a)
  then show ?case by (intro movesD [OF proven(2)])
qed (auto intro: refl trans intro!: movesD [OF liquidations(1)] movesD [OF liquidations(2)] movesD [OF creates(1)]
  movesD [OF creates(2)] movesD [OF prepare] movesD [OF commit(1)] movesD [OF commit(2)] movesD [OF conditionals(1)] movesD [OF conditionals(2)] movesD [OF conditionals(3)]
  movesD [OF executes] movesD [OF jobs(1)] movesD [OF jobs(2)])

end

subsection \<open>Two contracts\<close>

text \<open>The calls act on the store only through its own calls.\<close>

interpretation stores: server_contract
  "\<lambda>v w. (store_step (sr_host e))\<^sup>*\<^sup>* (store_part v) (store_part w)" e for e :: "'c services"
  by unfold_locales (auto simp: late_def intro: quiet_store_step elim!: relay_made.cases)

text \<open>What a closed or liquidated position changes.\<close>

definition ended_view where
  "ended_view s = (st_positionLifecycle s, st_positionCloses s, st_liquidations s, st_spentNullifiers s,
     st_positionCommitments s, st_marginCommitments s)"

text \<open>
  Between two states the server had an end of a position settled: on a run of port calls, one of the
  relays that settle answered with a submitted transaction of its function.
\<close>

definition settled_between :: "'c services \<Rightarrow> 'c server \<Rightarrow> 'c server \<Rightarrow> bool" where
  "settled_between e v w \<longleftrightarrow> (\<exists>c fn call o1 txs o2. sr_onchain e = Some c \<and> cp_enabled c
     \<and> settlement_call c fn call \<and> (outside_step e)\<^sup>*\<^sup>* (sv_outside v) o1 \<and> call o1 = (Inr txs, o2)
     \<and> (outside_step e)\<^sup>*\<^sup>* o2 (sv_outside w)
     \<and> (\<exists>t\<in>set txs. rtx_functionName t = Some fn \<and> rtx_submitted t \<and> truthy_str (rtx_txHash t)))"

definition only_settled :: "'c services \<Rightarrow> 'c server \<Rightarrow> 'c server \<Rightarrow> bool" where
  "only_settled e v w \<longleftrightarrow> sr_settlementsOnchainRequired e
     \<longrightarrow> (outside_step e)\<^sup>*\<^sup>* (sv_outside v) (sv_outside w)
       \<and> (ended_view (store_part v) = ended_view (store_part w) \<or> settled_between e v w)"

lemma quiet_view: "quiet_step s t \<Longrightarrow> ended_view s = ended_view t"
  by (induction rule: quiet_step.induct)
    (auto simp: ended_view_def recordProof_def add_defs updateLiquidationAutomationJob_def js_simps)

lemma settled_between_mono:
  assumes "settled_between e v w" "(outside_step e)\<^sup>*\<^sup>* (sv_outside v') (sv_outside v)"
    "(outside_step e)\<^sup>*\<^sup>* (sv_outside w) (sv_outside w')"
  shows "settled_between e v' w'"
  using assms unfolding settled_between_def by (meson rtranclp_trans)

lemma relay_settles:
  assumes made: "relay_made e fn v relay u" and ok: "assertSubmittedSettlementRelay e relay fn = Inr ()"
    and "sr_settlementsOnchainRequired e"
  shows "settled_between e v u \<and> (outside_step e)\<^sup>*\<^sup>* (sv_outside v) (sv_outside u)"
  using made
proof cases
  case none
  with ok assms(3) show ?thesis
    by (simp add: assertSubmittedSettlementRelay_def assertRelay_def onchain_enabled_def)
next
  case (made c call txs o')
  have "outside_step e (sv_outside v) o'"
    using settlement_outside [OF made(3,4), of "sv_outside v"] made(5) by simp
  then have path: "(outside_step e)\<^sup>*\<^sup>* (sv_outside v) (sv_outside u)" using made(2) by simp
  from ok assms(3) made(1,3) obtain t where "cp_enabled c" "t \<in> set txs" "rtx_functionName t = Some fn"
      "rtx_submitted t" "truthy_str (rtx_txHash t)"
    by (auto simp: assertSubmittedSettlementRelay_def assertRelay_def onchain_enabled_def assertSubmittedRelay_def
        list_ex_iff split: if_splits)
  then have "settled_between e v u"
    unfolding settled_between_def using made(2,3,4,5)
    by (intro exI [of _ c] exI [of _ fn] exI [of _ call] exI [of _ "sv_outside v"] exI [of _ txs] exI [of _ o']) auto
  with path show ?thesis by blast
qed

interpretation endings: server_contract "only_settled e" e for e :: "'c services"
proof unfold_locales
  fix v u w assume "only_settled e v u" "only_settled e u w"
  then show "only_settled e v w"
    unfolding only_settled_def by (metis (no_types, lifting) rtranclp.rtrancl_refl rtranclp_trans settled_between_mono)
next
  fix fn v relay u w
  assume "relay_made e fn v relay u" "assertSubmittedSettlementRelay e relay fn = Inr ()" "late e u w"
  then show "only_settled e v w"
    using relay_settles [of e fn v relay u] settled_between_mono [of e v u v w]
    unfolding only_settled_def late_def by (metis rtranclp.rtrancl_refl rtranclp_trans)
qed (auto simp: only_settled_def quiet_view)

subsection \<open>Properties\<close>



text \<open>A server whose chain settles a close that a client brings.\<close>

definition demo_tx :: "string \<Rightarrow> RelayedTx" where
  "demo_tx fn = \<lparr>rtx_functionName = Some fn, rtx_relayId = ''r'', rtx_kind = ''k'', rtx_submitted = True,
     rtx_txHash = Some ''0xt''\<rparr>"

definition demo_chain :: "unit chain_ports" where
  "demo_chain = \<lparr>cp_enabled = True, cp_marketPrice = (\<lambda>_ o'. (Inr 100, o')),
     cp_liquidate = (\<lambda>_ o'. (Inr [demo_tx ''liquidate''], o')),
     cp_settlePositionClose = (\<lambda>_ o'. (Inr [demo_tx ''settle''], o')),
     cp_settleManualPositionClose = (\<lambda>_ o'. (Inr [demo_tx ''settle_manual''], o')),
     cp_settlePairedPositionClose = (\<lambda>_ _ b o'. (Inr [demo_tx (pair_function b)], o')),
     cp_isPositionCloseSettled = (\<lambda>_ o'. (Inr False, o')),
     cp_registerConditionalOrder = (\<lambda>_ o'. (Inr [demo_tx ''register''], o')),
     cp_triggerConditionalClose = (\<lambda>_ o'. (Inr [demo_tx ''trigger''], o'))\<rparr>"

definition demo_services :: "unit services" where
  "demo_services = \<lparr>sr_prover = \<lparr>pe_host = demo_host, pe_root = ''r'', pe_run = (\<lambda>_ _ fs. (Inr (), fs)),
       pe_from_base64 = (\<lambda>t. t)\<rparr>, sr_encrypt = (\<lambda>_ _. Inr ''c''), sr_onchain = Some demo_chain,
     sr_notes = \<lparr>np_loadDeploymentRegistry = (\<lambda>_ o'. (Inr None, o')), np_readMakerNotes = (\<lambda>o'. (Inr [], o')),
       np_readVaultMakerAllocations = (\<lambda>o'. (Inr [], o')), np_insertPendingMakerNote = (\<lambda>_ o'. (Inr (), o')),
       np_deleteUnsettledOutput = (\<lambda>_ _ o'. (Inr (), o')), np_finalizeOutput = (\<lambda>_ _ o'. (Inr (), o')),
       np_flush = (\<lambda>o'. (Inr (), o'))\<rparr>,
     sr_settlementsOnchainRequired = True, sr_conditionalOrdersOnchainRequired = True,
     sr_makerWalletAddress = None, sr_collateralTokenContract = None, sr_mongodbUri = None,
     sr_stellarDeploymentFile = None\<rparr>"

definition demo_server :: "unit server" where
  "demo_server = \<lparr>sv_executor = new_ExecutorService new_ProtocolStore,
     sv_prover = \<lparr>ps_artifacts = [], ps_intentValidityRecords = [], ps_artifactRegistry = \<lparr>par_artifacts = [], par_path = ''reg'', par_snapshot = None, par_entries = []\<rparr>, ps_files = []\<rparr>,
     sv_outside = ()\<rparr>"

definition demo_closing :: PositionCloseRecord where
  "demo_closing = \<lparr>pcr_marketId = ''btc'', pcr_markPrice = 100, pcr_positionCommitment = ''0x1'',
     pcr_positionNullifier = ''0x2'', pcr_positionRoot = ''0x3'', pcr_closeCommitment = ''0x4'',
     pcr_newPositionCommitment = ''0x5'', pcr_marginOutputCommitment = ''0x6'', pcr_outputPositionIndex = None,
     pcr_outputPositionRoot = None, pcr_proof = demo_proof, pcr_proofVerificationTxHash = None,
     pcr_settlementTxHash = None\<rparr>"

definition demo_ended :: "unit server" where
  "demo_ended = snd (closes_commitManual demo_services 1 2 demo_closing demo_server)"

lemma demo_ended_call: "position_call demo_services demo_server demo_ended"
  unfolding demo_ended_def by (rule position_call.commit_manual)

lemma applyPositionClose_spent: "st_spentNullifiers (snd (applyPositionClose h now r s)) = st_spentNullifiers s"
  by (rule applyPositionClose_run [of h now r s]) (simp add: storePositionClose_def throwA_def split: sum.split)

text \<open>Whether or not the root can be computed, the nullifier is spent.\<close>

lemma demo_ended_spent: "''0x2'' \<in> set (st_spentNullifiers (store_part demo_ended))"
proof -
  let ?committed = "close_evidence (Some [demo_tx ''settle_manual'']) ''settle_manual'' demo_closing"
  let ?s = "snd (recordProof demo_proof new_ProtocolStore)"
  have event: "close_event demo_services 1 demo_closing demo_server = (Inr None, demo_server)"
    by (simp add: close_event_def position_event_def from_store_def liftA_def positionFor_def findPosition_def
        demo_server_def new_ExecutorService_def new_ProtocolStore_def mvalues_def)
  have relay: "relayed demo_services (\<lambda>c. cp_settleManualPositionClose c demo_closing) demo_server
      = (Inr (Some [demo_tx ''settle_manual'']), demo_server)"
    by (simp add: relayed_def demo_services_def demo_chain_def bindA_def on_outside_def returnA_def demo_server_def)
  have check: "assertSubmittedSettlementRelay demo_services (Some [demo_tx ''settle_manual'']) ''settle_manual'' = Inr ()"
    by (simp add: assertSubmittedSettlementRelay_def assertRelay_def onchain_enabled_def demo_services_def demo_chain_def
        assertSubmittedRelay_def demo_tx_def truthy_str_def)
  have proof_of: "pcr_proof ?committed = demo_proof" "pcr_positionNullifier ?committed = ''0x2''"
    by (simp_all add: close_evidence_def demo_closing_def)
  have proved: "hasProof demo_proof ?s"
    by (simp add: recordProof_def modifyA_def hasProof_def)
  obtain r t where add: "addManualPositionClose demo_host 2 ?committed ?s = (r, t)" by fastforce
  then have spent: "''0x2'' \<in> set (st_spentNullifiers t)"
    using proved applyPositionClose_spent
    by (auto simp: addManualPositionClose_def addPositionCloseRecord_run proof_of recordProof_def modifyA_def
        new_ProtocolStore_def mhas_def dest!: arg_cong [where f = snd] split: if_splits)
  have first: "on_store (recordProof (pcr_proof ?committed)) demo_server = (Inr (), with_store ?s demo_server)"
    by (simp add: on_store_def store_call_def recordProof_def modifyA_def proof_of with_store_def demo_server_def
        new_ExecutorService_def)
  have second: "on_store (addManualPositionClose demo_host 2 ?committed) (with_store ?s demo_server)
      = (r, with_store t demo_server)"
    using add by (simp add: on_store_def store_call_def with_store_def)
  have host: "sr_host demo_services = demo_host" by (simp add: demo_services_def)
  have "store_part demo_ended = t"
    unfolding demo_ended_def closes_commitManual_def commit_close_def host Let_def stepsA.simps
    by (cases r) (simp_all add: pureA_def seqA_def bindA_def liftA_def event relay check first second
        add_event_def returnA_def)
  with spent show ?thesis by simp
qed



end
