(* ===== verification/Automation_Properties.thy ===== *)
theory Automation_Properties
  imports Position_Properties
begin

text \<open>
  The jobs that liquidate positions later: a run works through every pending job of its market, in
  order of creation, and leaves each of them executed or with the reason why not.
\<close>

subsection \<open>A liquidation leaves the jobs alone\<close>

abbreviation jobs_of :: "'c server \<Rightarrow> (Hex, LiquidationAutomationJobRecord) jsmap" where
  "jobs_of v \<equiv> st_liquidationAutomationJobs (store_part v)"

interpretation same_jobs: act_preorder "\<lambda>v w. jobs_of v = jobs_of w"
  by unfold_locales auto

lemma same_jobs_store: "frames st_liquidationAutomationJobs m \<Longrightarrow> moves (\<lambda>v w. jobs_of v = jobs_of w) (on_store m)"
  by (simp add: moves_def snd_on_store framesD)

lemma same_jobs_ports:
  "moves (\<lambda>v w. jobs_of v = jobs_of w) (on_prover m)" "moves (\<lambda>v w. jobs_of v = jobs_of w) (on_outside m')"
  "moves (\<lambda>v w. jobs_of v = jobs_of w) (from_store f)"
  by (simp_all add: moves_def snd_on_prover snd_on_outside from_store_def liftA_def)

lemma frames_liquidation_calls:
  "frames st_liquidationAutomationJobs (recordProof p)" "frames st_liquidationAutomationJobs (addAccountEvent ev)"
  "frames st_liquidationAutomationJobs (addLiquidation now r)"
  by (auto simp: frames_def recordProof_def add_defs spend_def js_simps stepsA.simps seqA_def bindA_def
      guardA_def modifyA_def split: option.split)

lemma liquidation_same_jobs: "moves (\<lambda>v w. jobs_of v = jobs_of w) (liquidations_createProven e n1 n2 r)"
proof -
  have price: "moves (\<lambda>v w. jobs_of v = jobs_of w) (currentMarkPrice e m p)" for m p
    unfolding currentMarkPrice_def by (auto split: option.split intro: same_jobs.return same_jobs_ports)
  have public: "moves (\<lambda>v w. jobs_of v = jobs_of w) (validatePublicState e m p q rt)" for m p q rt
    unfolding validatePublicState_def market_config_def assert_recognized_root_def
    by (intro same_jobs.bind same_jobs.steps same_jobs_ports price) (auto intro: same_jobs.pure same_jobs_ports)
  have client: "moves (\<lambda>v w. jobs_of v = jobs_of w) (assertClientProof e pf c m ins)" for pf c m ins
    unfolding assertClientProof_def by (intro same_jobs.seq same_jobs.bind same_jobs.pure same_jobs_ports)
  have event: "moves (\<lambda>v w. jobs_of v = jobs_of w) (add_event ev)" for ev
    unfolding add_event_def by (intro same_jobs.option_case same_jobs.return same_jobs_store frames_liquidation_calls)
  have relay: "moves (\<lambda>v w. jobs_of v = jobs_of w) (relayed e call)" for call
    unfolding relayed_def by (intro same_jobs.option_case same_jobs.return same_jobs.bind same_jobs_ports)
  show ?thesis
    unfolding liquidations_createProven_def commitLiquidation_def position_event_def Let_def stepsA.simps
    by (intro same_jobs.seq same_jobs.bind same_jobs.pure same_jobs.return same_jobs_ports public client event relay
        same_jobs_store frames_liquidation_calls)
qed

subsection \<open>One job\<close>

lemma update_job_runs: "mhas (jobs_of v) (laj_jobId j) \<Longrightarrow>
    on_store (updateLiquidationAutomationJob j) v
      = (Inr (), with_store ((store_part v)\<lparr>st_liquidationAutomationJobs := mset_at (laj_jobId j) j (jobs_of v)\<rparr>) v)"
  by (simp add: on_store_def store_call_def updateLiquidationAutomationJob_def js_simps with_store_def)

definition settled_job :: "LiquidationAutomationJobRecord \<Rightarrow> LiquidationAutomationJobResult \<Rightarrow> bool" where
  "settled_job job r \<longleftrightarrow> laj_jobId (ljr_job r) = laj_jobId job \<and> laj_liquidation (ljr_job r) = laj_liquidation job
     \<and> laj_status (ljr_job r) = ljr_status r \<and> laj_reason (ljr_job r) = (if ljr_status r = JobExecuted then laj_reason job else ljr_reason r)
     \<and> (ljr_status r = JobExecuted \<and> ljr_reason r = None
        \<or> (\<exists>reason. ljr_reason r = Some reason \<and>
             ljr_status r = (if isStaleLiquidationReason reason then JobStale else JobFailed)))"

lemma settled_not_pending: "settled_job job r \<Longrightarrow> laj_status (ljr_job r) \<noteq> JobPending"
  by (auto simp: settled_job_def split: if_splits)

lemma runJob_settles:
  assumes "mhas (jobs_of v) (laj_jobId job)"
  obtains r w where "runJob e t job v = (Inr r, w)" "settled_job job r"
    "jobs_of w = mset_at (laj_jobId job) (ljr_job r) (jobs_of v)"
proof -
  obtain o' u where run: "liquidations_createProven e (jck_event t) (jck_store t) (laj_liquidation job) v = (o', u)"
    by fastforce
  have same: "jobs_of u = jobs_of v"
    using movesD [OF liquidation_same_jobs, of v e "jck_event t" "jck_store t" "laj_liquidation job"] run by simp
  show ?thesis
  proof (cases o')
    case (Inl reason)
    let ?job = "failed_job (jck_done t) (jck_updated t) reason job"
    have "mhas (jobs_of u) (laj_jobId ?job)" using assms same by (simp add: failed_job_def)
    from update_job_runs [OF this] show ?thesis
      by (intro that [of "\<lparr>ljr_job = ?job, ljr_reason = Some reason, ljr_status = laj_status ?job\<rparr>"
          "with_store ((store_part u)\<lparr>st_liquidationAutomationJobs := mset_at (laj_jobId ?job) ?job (jobs_of u)\<rparr>) u"])
        (simp_all add: runJob_def catchA_def seqA_def bindA_def run Inl Let_def returnA_def same settled_job_def failed_job_def)
  next
    case (Inr x)
    let ?job = "executed_job (jck_done t) (jck_updated t) job"
    have "mhas (jobs_of u) (laj_jobId ?job)" using assms same by (simp add: executed_job_def)
    from update_job_runs [OF this] show ?thesis
      by (intro that [of "\<lparr>ljr_job = ?job, ljr_reason = None, ljr_status = JobExecuted\<rparr>"
          "with_store ((store_part u)\<lparr>st_liquidationAutomationJobs := mset_at (laj_jobId ?job) ?job (jobs_of u)\<rparr>) u"])
        (simp_all add: runJob_def catchA_def seqA_def bindA_def run Inr Let_def returnA_def same settled_job_def executed_job_def)
  qed
qed

subsection \<open>A run\<close>

definition put_results :: "LiquidationAutomationJobResult list \<Rightarrow> (Hex, LiquidationAutomationJobRecord) jsmap
    \<Rightarrow> (Hex, LiquidationAutomationJobRecord) jsmap" where
  "put_results rs m = fold (\<lambda>r. mset_at (laj_jobId (ljr_job r)) (ljr_job r)) rs m"

lemma runJobs_settle:
  "(\<And>j. j \<in> set js \<Longrightarrow> mhas (jobs_of v) (laj_jobId j)) \<Longrightarrow>
   \<exists>rs w. runJobs e clock js v = (Inr rs, w) \<and> list_all2 settled_job js rs \<and> jobs_of w = put_results rs (jobs_of v)"
proof (induction js arbitrary: v)
  case Nil
  then show ?case by (simp add: returnA_def put_results_def)
next
  case (Cons j js)
  obtain r u where r: "runJob e (clock j) j v = (Inr r, u)" "settled_job j r"
      "jobs_of u = mset_at (laj_jobId j) (ljr_job r) (jobs_of v)"
    using Cons.prems by (rule runJob_settles [of v j e "clock j"]) auto
  have "\<And>j'. j' \<in> set js \<Longrightarrow> mhas (jobs_of u) (laj_jobId j')" using Cons.prems r(3) by simp
  from Cons.IH [OF this] obtain rs w where rs: "runJobs e clock js u = (Inr rs, w)" "list_all2 settled_job js rs"
      "jobs_of w = put_results rs (jobs_of u)" by blast
  moreover have "laj_jobId (ljr_job r) = laj_jobId j" using r(2) by (simp add: settled_job_def)
  ultimately show ?case using r
    by (intro exI [of _ "r # rs"] exI [of _ w]) (simp add: bindA_def returnA_def put_results_def)
qed

lemma put_results_get: "mget (put_results rs m) k =
    (case find (\<lambda>r. laj_jobId (ljr_job r) = k) (rev rs) of Some r \<Rightarrow> Some (ljr_job r) | None \<Rightarrow> mget m k)"
  unfolding put_results_def by (induction rs rule: rev_induct) auto

lemma put_results_ok: "map_ok m \<Longrightarrow> map_ok (put_results rs m)"
  unfolding put_results_def by (induction rs arbitrary: m) auto

lemma find_snoc: "find P (ys @ [y]) = (case find P ys of Some z \<Rightarrow> Some z | None \<Rightarrow> if P y then Some y else None)"
  by (induction ys) auto

lemma find_rev_distinct:
  "distinct (map f xs) \<Longrightarrow> find (\<lambda>x. f x = k) (rev xs) = find (\<lambda>x. f x = k) xs"
proof (induction xs)
  case (Cons x xs)
  have "find (\<lambda>x. f x = k) xs = None" if "f x = k"
    using that Cons.prems by (auto simp: find_None_iff) (metis image_eqI)
  with Cons show ?case by (auto simp: find_snoc split: option.split)
qed simp

definition jobs_keyed :: "(Hex, LiquidationAutomationJobRecord) jsmap \<Rightarrow> bool" where
  "jobs_keyed m \<longleftrightarrow> map_ok m \<and> (\<forall>k j. mget m k = Some j \<longrightarrow> laj_jobId j = k)"

lemma pending_ids:
  assumes "jobs_keyed (st_liquidationAutomationJobs s)"
  shows "j \<in> set (pendingJobs h m s) \<Longrightarrow> mget (st_liquidationAutomationJobs s) (laj_jobId j) = Some j"
    and "distinct (map laj_jobId (pendingJobs h m s))"
proof -
  let ?m = "st_liquidationAutomationJobs s"
  have get: "mget ?m (laj_jobId j) = Some j" if "j \<in> set (mvalues ?m)" for j
    using that assms by (auto simp: jobs_keyed_def in_mvalues mget_iff_in)
  then show "j \<in> set (pendingJobs h m s) \<Longrightarrow> mget ?m (laj_jobId j) = Some j"
    by (simp add: pendingJobs_def automation_list_def set_js_sort)
  have "map laj_jobId (mvalues ?m) = mkeys ?m"
    using assms by (auto simp: mvalues_def mkeys_def jobs_keyed_def mget_iff_in)
  then have "distinct (map laj_jobId (mvalues ?m))" using assms by (simp add: jobs_keyed_def map_ok_def)
  then have "distinct (map laj_jobId (js_sort (byJob h) (mvalues ?m)))"
    by (metis mset_eq_imp_distinct_iff mset_js_sort mset_map)
  then show "distinct (map laj_jobId (pendingJobs h m s))"
    by (simp add: pendingJobs_def automation_list_def distinct_map_filter)
qed


definition demo_due_job :: "Hex \<Rightarrow> int \<Rightarrow> LiquidationAutomationJobRecord" where
  "demo_due_job c now = \<lparr>laj_createdAt = now, laj_executedAt = None, laj_failedAt = None, laj_jobId = c,
     laj_liquidation = \<lparr>lr_marketId = ''btc'', lr_markPrice = 100, lr_maintenanceRate = 5,
       lr_positionCommitment = ''0x1'', lr_positionNullifier = c, lr_positionRoot = ''0x3'',
       lr_rewardCommitment = ''0x4'', lr_proof = demo_proof, lr_proofVerificationTxHash = None,
       lr_settlementTxHash = None\<rparr>,
     laj_marketId = ''btc'', laj_positionCommitment = ''0x1'', laj_positionNullifier = c, laj_reason = None,
     laj_rewardCommitment = ''0x4'', laj_status = JobPending, laj_updatedAt = now\<rparr>"

definition demo_jobs_server :: "unit server" where
  "demo_jobs_server = with_store (new_ProtocolStore\<lparr>st_liquidationAutomationJobs :=
     [(''0x7'', demo_due_job ''0x7'' 9), (''0x8'', demo_due_job ''0x8'' 5)]\<rparr>) demo_server"

definition demo_job_clock :: "LiquidationAutomationJobRecord \<Rightarrow> job_clock" where
  "demo_job_clock job = (let now = laj_createdAt job in
     \<lparr>jck_event = now + 1, jck_store = now + 2, jck_done = now + 3, jck_updated = now + 4\<rparr>)"


text \<open>
  A job whose root is not one of the tree's is marked failed, not stale: the message that \<open>runJob\<close> looks
  for is not the one that the liquidation throws.
\<close>

lemma unknown_root_fails_job:
  assumes "mhas (jobs_of v) (laj_jobId job)" and "mget (st_markets (store_part v)) (lr_marketId (laj_liquidation job)) = Some m"
    and "sr_onchain e = None" and "lr_markPrice (laj_liquidation job) = mc_oraclePrice m"
    and "lr_maintenanceRate (laj_liquidation job) = mc_maintenanceMarginRate m"
    and "hasPositionMembershipRoot (sr_host e) (lr_positionRoot (laj_liquidation job)) (store_part v) = Inr False"
  shows "\<exists>r w. runJob e t job v = (Inr r, w) \<and> ljr_status r = JobFailed
    \<and> ljr_reason r = Some ''position root is not recognized''"
proof -
  let ?l = "laj_liquidation job"
  have "validatePublicState e (lr_marketId ?l) (lr_markPrice ?l) (lr_maintenanceRate ?l) (lr_positionRoot ?l) v
      = (Inl ''position root is not recognized'', v)"
    using assms(2-6) by (simp add: validatePublicState_def market_config_def from_store_def currentMarkPrice_def
        assert_recognized_root_def bindA_def seqA_def liftA_def returnA_def pureA_def stepsA.simps failIf_def)
  then have "liquidations_createProven e (jck_event t) (jck_store t) ?l v = (Inl ''position root is not recognized'', v)"
    by (simp add: liquidations_createProven_def stepsA.simps seqA_def bindA_def)
  moreover have "\<not> isStaleLiquidationReason ''position root is not recognized''" by code_simp
  ultimately show ?thesis
    using update_job_runs [of v "failed_job (jck_done t) (jck_updated t) ''position root is not recognized'' job"] assms(1)
    by (simp add: runJob_def catchA_def seqA_def bindA_def Let_def returnA_def failed_job_def)
qed

end
