(* ===== verification/Paired_Properties.thy ===== *)
theory Paired_Properties
  imports Position_Services Account_Properties Recovery_Properties
begin

text \<open>
  The close of a market maker that the server computes when a trader closes against him: for the pair that
  \<open>vaultMakerPairForTrader\<close> finds, everything that \<open>preparePairedMakerClose\<close> hands to the prover
  passes the prover's checks.
\<close>

subsection \<open>The pair\<close>

lemma pairBacking_Inr:
  assumes "pairBacking h s i paired = Inr pair"
  obtains terms where "vmp_makerPosition pair = paired" "reconstructPositionOpening h s paired = Inr (Some terms)"
    "vmp_principal pair = pop_margin terms + nullish (pop_entryFee terms) 0"
    "0 < vmp_principal pair" "is_string (mget (vmp_makerNote pair) ''assetDigest'')"
  using assms
  by (auto simp: pairBacking_def bindE_Inr_iff Let_def split: list.splits option.splits if_splits)

lemma partner_index_less: "even n \<Longrightarrow> k < n \<Longrightarrow> partner_index k < n"
  by (auto simp: partner_index_def elim!: evenE oddE)

lemma indexOf_SomeD: "indexOf x xs = Some k \<Longrightarrow> k < length xs \<and> xs ! k = x"
  by (induction xs arbitrary: k) (auto simp: indexOf_def split: if_splits)

lemma indexOf_distinct: "distinct xs \<Longrightarrow> k < length xs \<Longrightarrow> indexOf (xs ! k) xs = Some k"
  using indexOf_nth [of "xs ! k" xs] by (auto simp: nth_eq_iff_index_eq)

text \<open>The position of a pair that the server found is in its settlement and has a recovered opening.\<close>

lemma pair_found:
  assumes "vaultMakerPairForTrader h s i = Inr (Some pair)"
  obtains b d terms where
    "settlement_by_digest s (plr_settlementDigest (vmp_makerPosition pair)) = Some b"
    "d \<in> set (bs_newCommitments b)" "mget (st_positionLifecycle s) d = Some (vmp_makerPosition pair)"
    "reconstructPositionOpening h s (vmp_makerPosition pair) = Inr (Some terms)"
    "is_string (mget (vmp_makerNote pair) ''assetDigest'')"
proof -
  obtain b index paired where b: "settlement_by_digest s (plr_settlementDigest (vpi_trader i)) = Some b"
      "indexOf (plr_positionCommitment (vpi_trader i)) (bs_newCommitments b) = Some index"
      "even (length (bs_newCommitments b))"
      "mget (st_positionLifecycle s) (bs_newCommitments b ! partner_index index) = Some paired"
      "plr_settlementDigest paired = plr_settlementDigest (vpi_trader i)"
      "pairBacking h s i paired = Inr pair"
    using assms by (auto simp: vaultMakerPairForTrader_def Let_def bindE_Inr_iff split: option.splits if_splits)
  obtain terms where o: "vmp_makerPosition pair = paired" "reconstructPositionOpening h s paired = Inr (Some terms)"
      "is_string (mget (vmp_makerNote pair) ''assetDigest'')"
    by (rule pairBacking_Inr [OF b(6)])
  have "partner_index index < length (bs_newCommitments b)"
    using partner_index_less [OF b(3)] indexOf_SomeD [OF b(2)] by blast
  then show ?thesis using b o by (intro that [of b "bs_newCommitments b ! partner_index index" terms]) simp_all
qed

subsection \<open>Notes and paths\<close>

lemma created_position_note:
  assumes "createCircuitPositionNote h n secret = Inr c"
  shows "digestToFieldHex h (''market:'' @ pn_marketId n) = Inr (cpn_marketDigest c)"
    "digestToFieldHex h (''owner:'' @ pn_owner n) = Inr (cpn_ownerDigest c)"
    "cpn_entryPrice c = pn_entryPrice n" "cpn_fundingIndex c = pn_fundingIndex n" "cpn_margin c = pn_margin n"
    "cpn_side c = pn_side n" "cpn_size c = pn_size n"
    "circuitPositionCommitment h (CircuitPositionNoteInput.truncate c) = Inr (cpn_commitment c)"
    "circuitPositionNullifier h (cpn_rhoDigest c) (cpn_spendSecretDigest c) = Inr (cpn_positionNullifier c)"
  using assms
  by (auto simp: createCircuitPositionNote_def bindE_Inr_iff Let_def CircuitPositionNoteInput.defs)

text \<open>The commitment of a position does not depend on its spend secret.\<close>

lemma commitment_without_secret:
  "circuitPositionCommitment h (n\<lparr>cpn_spendSecretDigest := d\<rparr>) = circuitPositionCommitment h n"
  by (simp add: circuitPositionCommitment_def)

lemma created_total:
  assumes "hex_hash h"
  obtains c where "createCircuitPositionNote h n secret = Inr c"
proof -
  obtain a b c d e where dg: "digestToFieldHex h (''market:'' @ pn_marketId n) = Inr (fieldHex a)"
      "digestToFieldHex h (''owner:'' @ pn_owner n) = Inr (fieldHex b)"
      "digestToFieldHex h (''rho:'' @ pn_rho n) = Inr (fieldHex c)"
      "digestToFieldHex h (''blinding:'' @ pn_blinding n) = Inr (fieldHex d)"
      "digestToFieldHex h (''spend:'' @ secret) = Inr (fieldHex e)"
    by (metis digest_total [OF assms])
  have "\<exists>c. createCircuitPositionNote h n secret = Inr c"
    unfolding createCircuitPositionNote_def dg bindE_simps Let_def
    by (simp add: circuitPositionCommitment_def circuitPositionNullifier_def fieldHashPair_total)
  with that show ?thesis by blast
qed

lemma length_pathLoop: "length (pathLoop get alt level depth index) = depth"
  by (induction depth arbitrary: level index) simp_all

lemma findIndexE_mapE:
  assumes "mapE f xs = Inr ys" "x \<in> set xs" "f x = Inr y"
  obtains i where "findIndexE (\<lambda>c. bindE (f c) (\<lambda>c. Inr (c = y))) xs = Inr (Some i)"
proof -
  have "\<exists>i. findIndexE (\<lambda>c. bindE (f c) (\<lambda>c. Inr (c = y))) xs = Inr (Some i)"
    using assms(1,2)
  proof (induction xs arbitrary: ys)
    case (Cons z zs)
    then obtain w ws where w: "f z = Inr w" "mapE f zs = Inr ws" by (auto simp: bindE_Inr_iff)
    show ?case
    proof (cases "w = y")
      case False
      with assms(3) w(1) have "x \<noteq> z" by auto
      with Cons.IH [OF w(2)] Cons.prems(2) w(1) False show ?thesis by auto
    qed (simp add: w)
  qed simp
  with that show ?thesis by blast
qed

text \<open>A leaf of a tree with a root has a proof for that root.\<close>

lemma member_has_proof:
  assumes "positionMerkleRoot h leaves d = Inr rt" "leaf \<in> set leaves"
  obtains pf where "positionMerkleProof h leaves leaf d = Inr pf" "fmp_root pf = rt"
    "length (fmp_siblings pf) = d" "length (fmp_indices pf) = d" "normalizeLeaf leaf = Inr (fmp_leaf pf)"
    "circuit_merkle_root h (fmp_leaf pf) (fmp_siblings pf) (fmp_indices pf) = Inr rt"
proof -
  obtain empties levels where lev: "buildIncrementalFieldMerkleLevels h leaves d = Inr (empties, levels)"
    using assms(1) by (auto simp: positionMerkleRoot_def bindE_Inr_iff)
  then obtain normal where normal: "mapE normalizeLeaf leaves = Inr normal" by (auto simp: buildIncremental_Inr)
  then obtain y where y: "normalizeLeaf leaf = Inr y"
    using assms(2) by (auto simp: mapE_Inr_iff list_all2_conv_all_nth in_set_conv_nth)
  obtain i where i: "findIndexE (\<lambda>c. bindE (normalizeLeaf c) (\<lambda>c. Inr (c = y))) leaves = Inr (Some i)"
    by (rule findIndexE_mapE [OF normal assms(2) y])
  let ?path = "pathLoop (\<lambda>level i. mget (levels ! level) i) (\<lambda>level. empties ! level) 0 d i"
  let ?pf = "\<lparr>fmp_index = i, fmp_leaf = y, fmp_root = get_or (levels ! d) 0 (empties ! d),
     fmp_siblings = map fst ?path, fmp_indices = map snd ?path\<rparr>"
  have pf: "positionMerkleProof h leaves leaf d = Inr ?pf"
    by (simp add: positionMerkleProof_def y i lev Let_def)
  show ?thesis
    using position_merkle_proof_verifies [OF pf] assms(1)
    by (intro that [OF pf]) (simp_all add: length_pathLoop y)
qed

subsection \<open>The witness of the maker\<close>

lemma linked_position:
  "linked s \<Longrightarrow> mget (st_positionLifecycle s) c = Some p \<Longrightarrow>
     plr_positionCommitment p = c \<and> c \<in> set (st_positionCommitments s)"
  unfolding linked_def by blast

lemma matches_created:
  assumes "matchesPosition h p terms k = Inr True"
    and "pop_marketId terms = plr_marketId p" "pop_sourceIntentCommitment terms = plr_sourceIntentCommitment p"
  obtains original where
    "createCircuitPositionNote h (maker_position_note p terms k)
       (plr_ownerCommitment p @ '':'' @ pn_rho (maker_position_note p terms k)) = Inr original"
    "cpn_commitment original = plr_positionCommitment p" "cpn_positionNullifier original = plr_positionNullifier p"
  using assms
  by (auto simp: matchesPosition_def createCircuitPositionNote_def maker_position_note_def bindE_Inr_iff Let_def
      CircuitPositionNoteInput.defs)

lemma maker_original_found:
  assumes "linked s" "mget (st_positionLifecycle s) d = Some p"
    and "settlement_by_digest s (plr_settlementDigest p) = Some b" "distinct (bs_newCommitments b)"
    and "reconstructPositionOpening h s p = Inr (Some terms)"
  obtains k original where "maker_original h s p = Inr (terms, original)"
    "createCircuitPositionNote h (maker_position_note p terms k)
       (plr_ownerCommitment p @ '':'' @ pn_rho (maker_position_note p terms k)) = Inr original"
    "cpn_commitment original = plr_positionCommitment p" "cpn_positionNullifier original = plr_positionNullifier p"
proof -
  let ?c = "plr_positionCommitment p" and ?cs = "bs_newCommitments b"
  have c: "?c = d" using linked_position [OF assms(1,2)] by blast
  obtain out where out: "reconstructSettlementOpenings h b (st_positionLifecycle s) (st_privateMatchIntents s) = Inr out"
      "mget out ?c = Some terms"
    using assms(3,5) by (auto simp: reconstructPositionOpening_def settlement_by_digest_def bindE_Inr_iff)
  obtain q k where q: "opens_at h ?cs (st_positionLifecycle s) ?c terms q k"
    using reconstruct_opened [OF out(1)] out(2) unfolding opened_by_def by blast
  then obtain d' where d': "item ?cs k = Some d'" "mget (st_positionLifecycle s) d' = Some q"
      "plr_positionCommitment q = ?c"
    by (auto simp: opens_at_def)
  then have "d' = d" using linked_position [OF assms(1) d'(2)] c by simp
  with d' assms(2) have [simp]: "q = p" by simp
  have k: "indexOf ?c ?cs = Some k"
    using d'(1) \<open>d' = d\<close> c indexOf_distinct [OF assms(4), of k] by (auto simp: item_def split: if_splits)
  obtain original where original: "createCircuitPositionNote h (maker_position_note p terms k)
       (plr_ownerCommitment p @ '':'' @ pn_rho (maker_position_note p terms k)) = Inr original"
    "cpn_commitment original = ?c" "cpn_positionNullifier original = plr_positionNullifier p"
    by (rule matches_created [of h p terms k]) (use q in \<open>auto simp: opens_at_def\<close>)
  have "maker_original h s p = Inr (terms, original)"
    by (simp add: maker_original_def assms(3,5) k original(1) [simplified] original(2,3))
  then show ?thesis using original by (rule that)
qed

text \<open>What the server computes of the opening passes the checks of the prover.\<close>

lemma paired_witness_checks:
  assumes original: "createCircuitPositionNote h (maker_position_note p terms k) secret = Inr original"
      "cpn_commitment original = plr_positionCommitment p" "cpn_positionNullifier original = plr_positionNullifier p"
    and new: "createCircuitPositionNote h (maker_closed_note p terms) secret' = Inr newPosition"
    and path: "length (fmp_siblings membership) = POSITION_MERKLE_DEPTH" "length (fmp_indices membership) = POSITION_MERKLE_DEPTH"
    and settled: "settleClose (paired_settlement_input terms (pci_markPrice i)
        (paired_funding terms (pci_fundingIndex i))) = Inr settled" "0 < cs_newMargin settled"
    and paid: "circuitMarginCommitment h \<lparr>cmn_amount = cs_newMargin settled,
        cmn_assetDigest = note_string (mget (pci_makerNote i) ''assetDigest''), cmn_blinding = blinding,
        cmn_ownerDigest = cpn_ownerDigest original, cmn_rhoDigest = rhoDigest,
        cmn_spendSecretDigest = ''0x0''\<rparr> = Inr out"
    and pos: "0 < pop_entryPrice terms" "0 < pci_markPrice i"
    and maker: "pci_makerPosition i = p"
  shows "close_checks h (paired_witness i terms original membership rt (cs_newMargin settled) newPosition
    closeCommitment out rhoDigest blinding) = Inr ()"
proof -
  let ?w = "paired_witness i terms original membership rt (cs_newMargin settled) newPosition
    closeCommitment out rhoDigest blinding"
  note o = created_position_note [OF original(1)] and n = created_position_note [OF new]
  have market: "cpn_marketDigest newPosition = cpn_marketDigest original"
    and owner: "cpn_ownerDigest newPosition = cpn_ownerDigest original"
    using o(1,2) n(1,2) by (simp_all add: maker_position_note_def maker_closed_note_def)
  have "CircuitPositionNoteInput.truncate (close_opening ?w) = CircuitPositionNoteInput.truncate original"
    using o by (simp add: close_opening_def paired_witness_def CircuitPositionNoteInput.defs maker_position_note_def)
  then have "validatePositionOpening h (close_opening ?w) = Inr ()"
    using o(8,9) original(2,3) path
    by (simp add: validatePositionOpening_def pathChecks_def close_opening_def paired_witness_def maker failIf_def)
  moreover have "closed_position_note ?w = (CircuitPositionNoteInput.truncate newPosition)
      \<lparr>cpn_spendSecretDigest := cpn_spendSecretDigest original\<rparr>"
    using n(3-7) market owner
    by (simp add: closed_position_note_def paired_witness_def CircuitPositionNoteInput.defs maker_closed_note_def)
  then have "circuitPositionCommitment h (closed_position_note ?w) = Inr (cpn_commitment newPosition)"
    using n(8) by (simp add: commitment_without_secret)
  moreover have "close_settlement_input ?w = paired_settlement_input terms (pci_markPrice i)
      (paired_funding terms (pci_fundingIndex i))"
    by (simp add: close_settlement_input_def paired_witness_def paired_settlement_input_def)
  moreover have "margin_output_note ?w = \<lparr>cmn_amount = cs_newMargin settled,
        cmn_assetDigest = note_string (mget (pci_makerNote i) ''assetDigest''), cmn_blinding = blinding,
        cmn_ownerDigest = cpn_ownerDigest original, cmn_rhoDigest = rhoDigest, cmn_spendSecretDigest = ''0x0''\<rparr>"
    by (simp add: margin_output_note_def paired_witness_def)
  moreover have "0 < pop_size terms"
    using settled(1) by (auto simp: settleClose_def paired_settlement_input_def Let_def split: if_splits)
  ultimately show ?thesis
    using settled paid pos by (simp add: close_checks_def paired_witness_def failIf_def)
qed

lemma paired_funding_right:
  assumes "0 < pop_size terms"
  shows "assertFundingPayment (paired_funding terms idx) (pop_side terms) (pop_size terms) idx
    (pop_fundingIndex terms) = Inr ()"
  using assms by (simp add: assertFundingPayment_def expectedFundingPayment_def paired_funding_def Let_def)

subsection \<open>Properties\<close>

text \<open>C6: The position of a maker can be closed with that of the trader: if the tree has a root, the digest of
  the asset of the maker's note can be read, the settlement of the position lists its commitments once, and the
  recovered opening has a positive entry price and leaves a positive margin at the mark price, then the witness
  is computed, carries the funding payment that the index of the market asks for, pays out all that is left,
  proves the position against the current root, and the prover plans its proof.\<close>

theorem paired_close_provable:
  assumes "linked s" and "hex_hash h"
    and p: "mget (st_positionLifecycle s) (plr_positionCommitment (pci_makerPosition i)) = Some (pci_makerPosition i)"
    and b: "settlement_by_digest s (plr_settlementDigest (pci_makerPosition i)) = Some b" "distinct (bs_newCommitments b)"
    and terms: "reconstructPositionOpening h s (pci_makerPosition i) = Inr (Some terms)"
    and rt: "positionMembershipRoot h s = Inr rt"
    and asset: "toField (FHex (note_string (mget (pci_makerNote i) ''assetDigest''))) = Inr a"
    and pos: "0 < pop_entryPrice terms" "0 < pci_markPrice i"
    and settled: "settleClose (paired_settlement_input terms (pci_markPrice i)
        (paired_funding terms (pci_fundingIndex i))) = Inr settled" "0 < cs_newMargin settled"
  shows "\<exists>w plan leaf. pairedCloseWitness h s i = Inr w \<and> positionClosePlan h w = Inr plan
    \<and> assertFundingPayment (pcw_fundingPayment w) (pcw_side w) (pcw_size w) (pci_fundingIndex i) (pcw_fundingIndex w)
        = Inr ()
    \<and> pcw_size w = pop_size terms \<and> pcw_marginOutputAmount w = cs_newMargin settled
    \<and> normalizeLeaf (plr_positionCommitment (pci_makerPosition i)) = Inr leaf
    \<and> circuit_merkle_root h leaf (pcw_pathSiblings w) (pcw_pathIndices w) = Inr rt"
proof -
  let ?p = "pci_makerPosition i"
  obtain k original where original: "maker_original h s ?p = Inr (terms, original)"
    "createCircuitPositionNote h (maker_position_note ?p terms k)
       (plr_ownerCommitment ?p @ '':'' @ pn_rho (maker_position_note ?p terms k)) = Inr original"
    "cpn_commitment original = plr_positionCommitment ?p" "cpn_positionNullifier original = plr_positionNullifier ?p"
    by (rule maker_original_found [OF assms(1) p b terms]) blast
  have "plr_positionCommitment ?p \<in> set (st_positionCommitments s)" using linked_position [OF assms(1) p] by blast
  then obtain pf where pf: "positionMembershipProof h (plr_positionCommitment ?p) s = Inr pf" "fmp_root pf = rt"
      "length (fmp_siblings pf) = POSITION_MERKLE_DEPTH" "length (fmp_indices pf) = POSITION_MERKLE_DEPTH"
      "normalizeLeaf (plr_positionCommitment ?p) = Inr (fmp_leaf pf)"
      "circuit_merkle_root h (fmp_leaf pf) (fmp_siblings pf) (fmp_indices pf) = Inr rt"
    unfolding positionMembershipProof_def
    by (rule member_has_proof [OF rt [unfolded positionMembershipRoot_def]])
  obtain newPosition where new: "createCircuitPositionNote h (maker_closed_note ?p terms)
      (plr_ownerCommitment ?p @ '':'' @ plr_positionNullifier ?p @ '':closed-position-spend'') = Inr newPosition"
    by (rule created_total [OF assms(2)])
  obtain x y where digests: "digestToFieldHex h (''vault-maker-close-rho:'' @ plr_positionNullifier ?p) = Inr (fieldHex x)"
      "digestToFieldHex h (''vault-maker-close-blinding:'' @ plr_positionNullifier ?p) = Inr (fieldHex y)"
    by (metis digest_total [OF assms(2)])
  obtain o' where o': "cpn_ownerDigest original = fieldHex o'"
    using digest_field [OF created_position_note(2) [OF original(2)]] by blast
  obtain out where out: "circuitMarginCommitment h \<lparr>cmn_amount = cs_newMargin settled,
        cmn_assetDigest = note_string (mget (pci_makerNote i) ''assetDigest''), cmn_blinding = fieldHex y,
        cmn_ownerDigest = cpn_ownerDigest original, cmn_rhoDigest = fieldHex x,
        cmn_spendSecretDigest = ''0x0''\<rparr> = Inr out"
    using asset by (auto simp: circuitMarginCommitment_def fieldHashPair_total o' Let_def)
  let ?w = "paired_witness i terms original pf rt (cs_newMargin settled) newPosition
    (hashFields h ''vault-maker-close'' [JStr (plr_positionCommitment ?p), JStr (pci_traderCloseCommitment i)])
    out (fieldHex x) (fieldHex y)"
  have w: "pairedCloseWitness h s i = Inr ?w"
    by (simp only: pairedCloseWitness_def Let_def original(1) pf(1,2) rt settled(1) new digests out bindE_simps
        prod.case failIf_def simp_thms if_False linorder_not_le [THEN iffD2, OF settled(2)] not_le if_cancel
        refl)
  have "close_checks h ?w = Inr ()"
    by (rule paired_witness_checks [OF original(2-4) new pf(3,4) settled out pos refl])
  then obtain plan where "positionClosePlan h ?w = Inr plan" by (simp add: positionClosePlan_def)
  moreover have "0 < pop_size terms"
    using settled(1) by (auto simp: settleClose_def paired_settlement_input_def Let_def split: if_splits)
  then have "assertFundingPayment (pcw_fundingPayment ?w) (pcw_side ?w) (pcw_size ?w) (pci_fundingIndex i)
      (pcw_fundingIndex ?w) = Inr ()"
    using paired_funding_right by (simp add: paired_witness_def)
  ultimately show ?thesis
    using w pf(5,6) by (intro exI [of _ ?w] exI [of _ plan] exI [of _ "fmp_leaf pf"]) (simp add: paired_witness_def)
qed

text \<open>The two positions of a matched batch at index 0; the maker is the short one, closed at the entry price.\<close>

definition demo_pair_store :: "BatchSettlement \<Rightarrow> Fill list \<Rightarrow> ProtocolStore" where
  "demo_pair_store b fills = new_ProtocolStore\<lparr>
     st_positionLifecycle := map (\<lambda>f. (fill_positionCommitment f, demo_fill_record None f)) fills,
     st_positionCommitments := map fill_positionCommitment fills,
     st_settlements := [(''k'', b)], st_privateMatchIntents := demo_privates\<rparr>"

definition demo_pair_input :: "Fill \<Rightarrow> PairedCloseInput" where
  "demo_pair_input f = \<lparr>pci_fundingIndex = 0, pci_makerNote = [(''assetDigest'', NoteStr (fieldHex 7))],
     pci_makerPosition = demo_fill_record None f, pci_markPrice = 1000, pci_traderCloseCommitment = ''0x9''\<rparr>"

lemma root_exists:
  assumes "list_all (\<lambda>c. \<exists>v. c = fieldHex v) leaves" "length leaves \<le> 2 ^ d"
  obtains rt where "positionMerkleRoot h leaves d = Inr rt"
proof -
  have "mapE normalizeLeaf leaves = Inr leaves"
    using assms(1) by (auto simp: mapE_Inr_iff list_all_iff list_all2_same normalizeLeaf_def)
  with assms(2) that show ?thesis
    by (auto simp: positionMerkleRoot_def emptyRoots_eq buildIncremental_Inr bindE_Inr_iff simp del: upt_Suc)
qed

lemma demo_pair_linked:
  "distinct (map fill_positionCommitment fills) \<Longrightarrow> linked (demo_pair_store b fills)"
  by (auto simp: linked_def demo_pair_store_def new_ProtocolStore_def mget_def mhas_def map_ok_def mkeys_def comp_def
      demo_fill_record_def dest!: map_of_SomeD)

theorem paired_close_provable_witness:
  "\<exists>s i w plan leaf rt. pairedCloseWitness demo_host s i = Inr w \<and> positionClosePlan demo_host w = Inr plan
    \<and> pcw_size w = 100000000 \<and> pcw_marginOutputAmount w = 500
    \<and> circuit_merkle_root demo_host leaf (pcw_pathSiblings w) (pcw_pathIndices w) = Inr rt"
proof (rule demo_funded_fills [of 0], goal_cases)
  case (1 m lf sf e)
  let ?b = "demo_settlement\<lparr>bs_newCommitments := map fill_positionCommitment (mres_fills m),
    bs_makerIntents := map me_makerIntentCommitment (mres_executions m), bs_settlementDigest := ''0xd'',
    bs_takerIntents := map me_takerIntentCommitment (mres_executions m)\<rparr>"
  let ?s = "demo_pair_store ?b [lf, sf]" and ?i = "demo_pair_input sf"
  have neq: "fill_positionCommitment lf \<noteq> fill_positionCommitment sf"
    unfolding 1(6,7) fieldHex_eq_iff by (simp add: demo_commit_values)
  have b: "settlement_of m ?b" by (simp add: settlement_of_def)
  have d: "distinct (map fill_positionCommitment (mres_fills m))" using neq 1(2) by simp
  have p: "mget (st_positionLifecycle ?s) (fill_positionCommitment sf) = Some (demo_fill_record None sf)"
    and pl: "mget (st_positionLifecycle ?s) (fill_positionCommitment lf) = Some (demo_fill_record None lf)"
    using neq by (simp_all add: demo_pair_store_def mget_def)
  have rec: "opens f (demo_fill_record None f)" "recorded_index (demo_fill_record None f) = 0" for f
    by (simp_all add: opens_def demo_fill_record_def recorded_index_def)
  have ps: "\<exists>p. mget (st_positionLifecycle ?s) (fill_positionCommitment f) = Some p \<and> opens f p"
    if "f \<in> set (mres_fills m)" for f
    using that 1(2) p pl rec(1) by auto
  obtain out where out: "reconstructSettlementOpenings demo_host ?b (st_positionLifecycle ?s) demo_privates = Inr out"
      "\<And>k p. k < length (mres_fills m) \<Longrightarrow>
         mget (st_positionLifecycle ?s) (fill_positionCommitment (mres_fills m ! k)) = Some p \<Longrightarrow>
         mget out (fill_positionCommitment (mres_fills m ! k))
           = entry_of demo_host p (mres_executions m ! (k div 2)) (mres_fills m ! k) k"
      "fills_open demo_host (mc_fundingIndex (mi_market (demo_funded_batch 0 100000000))) (mres_fills m)"
    by (rule reconstruct_entries [OF 1(1) demo_intents_distinct demo_terms b d ps]) blast+
  have at1: "mres_fills m ! 1 = sf" "1 < length (mres_fills m)" "mres_executions m ! 0 = e"
    using 1(2,3) by simp_all
  have "matchesPosition demo_host (demo_fill_record None sf) (opening_of 0 e sf) 1 = Inr True"
    using out(3) [unfolded fills_open_def, rule_format, OF at1(2), unfolded at1(1), OF rec(1)]
    by (simp add: demo_sized_batch_def demo_market_def)
  then have "mget out (fill_positionCommitment sf) = Some (opening_of 0 e sf)"
    using out(2) [OF at1(2)] p at1 by (simp add: entry_of_def rec)
  then have terms: "reconstructPositionOpening demo_host ?s (pci_makerPosition ?i) = Inr (Some (opening_of 0 e sf))"
    using out(1) by (simp add: reconstructPositionOpening_def demo_pair_input_def demo_pair_store_def mvalues_def
        demo_fill_record_def)
  obtain rt where rt: "positionMembershipRoot demo_host ?s = Inr rt"
    unfolding positionMembershipRoot_def
    by (rule root_exists [of "st_positionCommitments ?s" POSITION_MERKLE_DEPTH])
      (use 1(6,7) in \<open>auto simp: demo_pair_store_def POSITION_MERKLE_DEPTH_def\<close>)
  have settled: "settleClose (paired_settlement_input (opening_of 0 e sf) (pci_markPrice ?i)
      (paired_funding (opening_of 0 e sf) (pci_fundingIndex ?i))) = Inr \<lparr>cs_realizedPnl = 0, cs_newMargin = 500\<rparr>"
    using 1(8-11) by (simp add: settleClose_def paired_settlement_input_def paired_funding_def opening_of_def
        demo_pair_input_def unrealizedPnl_def)
  have "linked ?s" by (rule demo_pair_linked) (use neq in simp)
  then obtain w plan leaf where w: "pairedCloseWitness demo_host ?s ?i = Inr w" "positionClosePlan demo_host w = Inr plan"
      "pcw_size w = pop_size (opening_of 0 e sf)" "pcw_marginOutputAmount w = 500"
      "circuit_merkle_root demo_host leaf (pcw_pathSiblings w) (pcw_pathIndices w) = Inr rt"
    using paired_close_provable [OF _ hex_hash_demo _ _ _ terms rt _ _ _ settled, of ?b "field_mod 7"] p d 1(8)
    by (auto simp: demo_pair_input_def demo_pair_store_def settlement_by_digest_def mvalues_def demo_fill_record_def
        opening_of_def note_string_def mget_def)
  with 1(9) show ?case by (intro exI [of _ ?s] exI [of _ ?i]) (auto simp: opening_of_def)
qed

end
