(* ===== verification/Spec2Isabelle.thy ===== *)
theory Spec2Isabelle
  imports Market_Math Crypto_Commitments Store_Durability Settlement_Draft Executor_Settle
    Funding_Properties Matcher_Jobs Batch_Run_Properties Prover_Bound
    Recovery_Properties Account_Properties Vault_Properties Automation_Properties Paired_Properties
begin

text \<open>
  PNLX is an exchange for perpetual futures with private orders. Traders commit to margin notes and
  intents; the server matches the open intents of a batch, a prover shows the match to a contract,
  and the store of the server keeps the commitments, nullifiers, orders and positions. This development
  models the core of the server and its packages, all of it TypeScript:

  \<^item> \<open>Js_Prelude\<close>: results with errors, actions (a state and a result, where a throw keeps the state it
    reached), \<open>Map\<close> and \<open>Set\<close> in insertion order, stable sorting, printing of numbers; the rules \<open>keeps\<close>,
    \<open>frames\<close>, \<open>ensures\<close> for actions and the locales \<open>insert_once\<close> and \<open>total_comparator\<close>.
  \<^item> \<open>Market_Math\<close>: \<^verbatim>\<open>packages/market-math\<close>, margins, fees, funding, settlement of closes, liquidation, the
    virtual market maker; \<^verbatim>\<open>shared/protocol/funding.ts\<close>.
  \<^item> \<open>Protocol_Types\<close>: the records of \<^verbatim>\<open>packages/protocol-types\<close>.
  \<^item> \<open>Crypto_Field\<close>, \<open>Crypto_Merkle\<close>, \<open>Crypto_Commitments\<close>: \<^verbatim>\<open>packages/crypto\<close> and the note builders of
    \<^verbatim>\<open>packages/sdk\<close>: field arithmetic, digests, the sorted and the incremental Merkle tree with their
    proofs, commitments and nullifiers, next to the path check and note commitment of the withdrawal circuit.
  \<^item> \<open>Batch_Matcher\<close>, \<open>Match_Invariant\<close>, \<open>Match_Properties\<close>: \<^verbatim>\<open>workers/batch-matcher\<close>, matching by price and
    time with fills, fees, residual orders and risk checks; the invariant of its loop; its properties.
  \<^item> \<open>Protocol_Store\<close>: the class of \<^verbatim>\<open>shared/state/store.ts\<close>, every method an action on a record of its
    fields. \<open>Store_Invariant\<close> has the step relation of its calls and one preservation lemma per call and
    invariant, \<open>Store_Wellformed\<close> the typing of the state, \<open>Store_Properties\<close> what callers rely on.
  \<^item> \<open>Store_Snapshot\<close>, \<open>Store_Durability\<close>: \<^verbatim>\<open>protocol-snapshot.ts\<close> and \<^verbatim>\<open>persistent-store.ts\<close>, the
    snapshot, its JSON, the file store whose calls write it, and what restarts preserve.
  \<^item> \<open>Settlement_Proof\<close>: \<^verbatim>\<open>packages/proof-system\<close> and \<^verbatim>\<open>batch-settlement-proof.ts\<close>, the public inputs that a
    settlement proof is about, as bytes and as a hash.
  \<^item> \<open>Settlement_Draft\<close>: account events, the draft that the prover gets and the checks around it
    (\<^verbatim>\<open>risc0-proof.ts\<close>, \<^verbatim>\<open>proof-coordinator.service.ts\<close>).
  \<^item> \<open>Executor\<close>, \<open>Executor_Properties\<close>, \<open>Executor_Settle\<close>: \<^verbatim>\<open>workers/executor\<close>, which connects the parts: it
    checks and stores intents, asks the store for the open orders of a batch, matches them, has the match
    proved, commits the settlement, and validates transcripts that external matchers send.
  \<^item> \<open>Funding_Engine\<close>, \<open>Funding_Properties\<close>: \<^verbatim>\<open>workers/funding-engine\<close> and \<^verbatim>\<open>features/funding\<close>, premium samples
    from the impact prices of the order book, the funding cycle of a market, its timers, the calls of the
    administrator.
  \<^item> \<open>Matcher_Jobs\<close>: \<^verbatim>\<open>workers/matcher/matcher-job.service.ts\<close>, the queue of matcher jobs in memory and over its
    collection, as a step relation.
  \<^item> \<open>Batch_Runs\<close>, \<open>Batch_Run_Properties\<close>: \<^verbatim>\<open>workers/batch-executor\<close>, a run of a batch with its phases, records
    and waiting times, over the executor and the ports of its constructor.
  \<^item> \<open>Prover_Artifacts\<close>, \<open>Prover_Service\<close>: \<^verbatim>\<open>packages/proof-system\<close> (circuits, inputs, commands, hashes of
    files), \<^verbatim>\<open>artifact-registry.ts\<close> and \<^verbatim>\<open>workers/prover\<close>, every proof that the server makes or accepts.
  \<^item> \<open>Circuits\<close>: the assertions of five Noir circuits (\<^verbatim>\<open>circuits/*/src/main.nr\<close>) as predicates on the inputs
    that the prover service writes.
  \<^item> \<open>Prover_Properties\<close>, \<open>Prover_Flows\<close>, \<open>Prover_Bound\<close>: the prover service against these circuits, and the
    check of the proofs it made and of those that clients register.
  \<^item> \<open>Account_Recovery\<close>, \<open>Recovery_Properties\<close>, \<open>Account_Properties\<close>: \<^verbatim>\<open>features/account-keys\<close>, the keys of the
    accounts and the openings of positions that the server recomputes from a settlement, against the matcher
    that made them; \<^verbatim>\<open>shared/http/auth-context.ts\<close>.
  \<^item> \<open>Vault_Backing\<close>, \<open>Vault_Properties\<close>: \<^verbatim>\<open>shared/vault-maker-backing.ts\<close> and \<^verbatim>\<open>vault-maker-pair.ts\<close>, the notes
    that the market maker may quote and what backs the maker position of a trader.
  \<^item> \<open>Position_Services\<close>, \<open>Position_Properties\<close>, \<open>Automation_Properties\<close>, \<open>Paired_Properties\<close>: \<^verbatim>\<open>features/position-closes\<close>,
    \<^verbatim>\<open>features/liquidations\<close>, \<^verbatim>\<open>features/conditional-orders\<close> and \<^verbatim>\<open>features/liquidation-automation\<close>, the services
    that end positions, over one state of the server (executor, prover, and the outside).

  How the state corresponds to the code. A class becomes a record with one field per member; a method
  that writes becomes an action returning \<open>Inl message\<close> for the \<open>Error\<close> it throws or \<open>Inr\<close> of its value,
  together with the state at that point, so that partial writes before a throw are visible. A \<open>Map\<close> is a
  list of pairs with \<open>mget\<close> and \<open>mset_at\<close>, in insertion order; a \<open>Set\<close> a list without duplicates. BigInt
  is \<open>int\<close> with division truncating toward zero. Times (\<open>Date.now()\<close>) are arguments. Asynchronous calls are split
  at their await, and what other calls do meanwhile is an argument.

  What is a parameter. \<open>host\<close> bundles SHA-256, Poseidon2 and \<open>localeCompare\<close>; \<open>risc0_env\<close> the prover run, the image id
  and the file hashes; the encryption of account events is an argument. \<open>funding_ports\<close> and \<open>batch_ports\<close> are what the constructors
  of the two engines get (prover, on-chain relay, matcher, oracle, maker liquidity); the processor of matcher jobs is
  the outcome that a step of the queue names. \<open>prover_env\<close> has the effect of the commands \<^verbatim>\<open>nargo\<close> and \<^verbatim>\<open>bb\<close> on the
  files and the decoding of base64. \<open>chain_ports\<close> and \<open>note_ports\<close> are the calls of the on-chain relay and of the
  collections of notes that the position services make, over a state of their own; what other calls do at the awaits of
  a close with its vault maker is the argument \<open>meanwhile\<close>. Where a property needs digests to be
  hexadecimal it says so (\<open>hex_hash\<close>), and the witnesses use a concrete host.

  What the lemmas show. The matcher conserves collateral, respects price and time, trades within limits and
  risk, and terminates (its loop has a measure). The store never lets a nullifier be spent twice,
  keeps its references and proofs, and these invariants survive persisted calls, failing writes and
  restarts. The public input hash binds the settlement up to collisions. A transcript that passes the
  executor's validation settles exactly the open orders it names and is committed when its data is new,
  and a settlement that the executor created from open orders is always committed under the same conditions.
  The funding index of a market is the sum of its recorded updates; premiums are capped; a run of a batch adds at
  most one settlement, and where the chain is required only a confirmed one; matcher jobs are attempted one at a
  time and at most five times. What the prover service plans is what the circuits accept: for closes and intents
  exactly, for withdrawals and funding in one direction, for liquidations exactly where the position is at a loss, with
  the difference for profits as a theorem of its own. Proofs that the service made are bound to their public inputs.
  The openings that a recovery computes are those of the fills of the matcher, as long as the records keep the funding
  index; what the maker is offered to quote stays within the principal of the vault. The position services change the
  store only through its own calls and, where the chain is required, end no position without a settlement that the relay
  submitted; a run of the liquidation automation leaves no selected job pending. The close of a vault maker that
  the server computes passes the checks of the prover, so a trader can be settled together with his maker.

  Bounds. No fuel is used: the loops are structural or have a measure. The sorted tree has depth 8 and the
  position tree depth 20 as in the code; the Merkle lemmas hold for every depth. At most 8 items of a kind are
  public inputs of a proof.

  Not modelled: the web client, scripts, HTTP features, relayer, indexer, on-chain gateway, the processes of the
  prover and MongoDB stores, which are I/O around the modelled parts; in-flight oracle refreshes and timers of the
  batch executor; the Rust contracts and guest programs and the circuits for conditional closes, disclosures and
  deposits.
\<close>

end
